(* ===== verification/PP_Prelude.thy ===== *)
theory PP_Prelude
  imports Main "HOL-Library.Char_ord" "HOL-Library.List_Lexorder" "HOL-Library.Sublist"
    "HOL-Library.Multiset"
begin

text \<open>
  Shared vocabulary of the development: JavaScript strings and the string functions the
  sources call (split, join, trim, startsWith, includes, template interpolation of
  numbers), the character classes of their regular expressions, stable sorting, and the
  effect type in which every stateful operation is written.

  A JavaScript string is a \<^typ>\<open>string\<close> holding its UTF-8 bytes. Every pattern the
  modelled code tests is made of ASCII classes, so a string with a byte above 127 is
  refused by the model exactly when the source refuses it. Whitespace is the ASCII part of
  the \<open>\s\<close> class.
\<close>

named_theorems eff_simps \<open>evaluation of the effect combinators\<close>
named_theorems eff_inv \<open>inversion of a successful effect\<close>
named_theorems preserves_intros \<open>compositional rules for state predicates kept by an effect\<close>

section \<open>Effects\<close>

text \<open>
  A source function that reads and writes the host runs on a world and ends by returning
  or by throwing; what it did before throwing stays done. The \<open>finally\<close>-free subset the
  sources use needs return, throw, sequencing, try/catch and a database transaction,
  which restores the world when its body throws.
\<close>

type_synonym ('w, 'e, 'a) eff = "'w \<Rightarrow> ('e + 'a) \<times> 'w"

definition ret :: "'a \<Rightarrow> ('w, 'e, 'a) eff" where
  "ret a w = (Inr a, w)"

definition throw :: "'e \<Rightarrow> ('w, 'e, 'a) eff" where
  "throw e w = (Inl e, w)"

definition bindE :: "('w, 'e, 'a) eff \<Rightarrow> ('a \<Rightarrow> ('w, 'e, 'b) eff) \<Rightarrow> ('w, 'e, 'b) eff" where
  "bindE m f w = (case m w of (Inl e, w') \<Rightarrow> (Inl e, w') | (Inr a, w') \<Rightarrow> f a w')"

definition catchE :: "('w, 'e, 'a) eff \<Rightarrow> ('e \<Rightarrow> ('w, 'e, 'a) eff) \<Rightarrow> ('w, 'e, 'a) eff" where
  "catchE m h w = (case m w of (Inl e, w') \<Rightarrow> h e w' | (Inr a, w') \<Rightarrow> (Inr a, w'))"

definition txE :: "('w, 'e, 'a) eff \<Rightarrow> ('w, 'e, 'a) eff" where
  "txE m w = (case m w of (Inl e, _) \<Rightarrow> (Inl e, w) | (Inr a, w') \<Rightarrow> (Inr a, w'))"

definition getsE :: "('w \<Rightarrow> 'a) \<Rightarrow> ('w, 'e, 'a) eff" where
  "getsE f w = (Inr (f w), w)"

definition modE :: "('w \<Rightarrow> 'w) \<Rightarrow> ('w, 'e, unit) eff" where
  "modE f w = (Inr (), f w)"

definition guardE :: "bool \<Rightarrow> 'e \<Rightarrow> ('w, 'e, unit) eff" where
  "guardE b e w = (if b then (Inr (), w) else (Inl e, w))"

definition liftE :: "'e + 'a \<Rightarrow> ('w, 'e, 'a) eff" where
  "liftE r w = (r, w)"

lemma ret_apply [simp, eff_simps]: "ret a w = (Inr a, w)"
  by (simp add: ret_def)

lemma throw_apply [simp, eff_simps]: "throw e w = (Inl e, w)"
  by (simp add: throw_def)

lemma getsE_apply [simp, eff_simps]: "getsE f w = (Inr (f w), w)"
  by (simp add: getsE_def)

lemma modE_apply [simp, eff_simps]: "modE f w = (Inr (), f w)"
  by (simp add: modE_def)

lemma liftE_apply [simp, eff_simps]: "liftE r w = (r, w)"
  by (simp add: liftE_def)

lemma guardE_apply [eff_simps]: "guardE b e w = (if b then (Inr (), w) else (Inl e, w))"
  by (simp add: guardE_def)

lemma guardE_True [simp]: "guardE True e w = (Inr (), w)"
  by (simp add: guardE_def)

lemma guardE_False [simp]: "guardE False e w = (Inl e, w)"
  by (simp add: guardE_def)

lemma bindE_Inl_step [simp]: "m w = (Inl e, w') \<Longrightarrow> bindE m f w = (Inl e, w')"
  by (simp add: bindE_def)

lemma bindE_Inr_step [simp]: "m w = (Inr a, w') \<Longrightarrow> bindE m f w = f a w'"
  by (simp add: bindE_def)

lemma bindE_Inr_iff [eff_inv]:
  "bindE m f w = (Inr b, w') \<longleftrightarrow> (\<exists>a v. m w = (Inr a, v) \<and> f a v = (Inr b, w'))"
  by (auto simp: bindE_def split: prod.splits sum.splits)

lemma guardE_Inr_iff [eff_inv]: "guardE b e w = (Inr u, w') \<longleftrightarrow> b \<and> w' = w"
  by (auto simp: guardE_def)

lemma bindE_cases:
  obtains (err) e v where "m w = (Inl e, v)" "bindE m f w = (Inl e, v)"
  | (ok) a v where "m w = (Inr a, v)" "bindE m f w = f a v"
  by (cases "m w"; cases "fst (m w)") auto

lemma catchE_Inl_step [simp]: "m w = (Inl e, w') \<Longrightarrow> catchE m h w = h e w'"
  by (simp add: catchE_def)

lemma catchE_Inr_step [simp]: "m w = (Inr a, w') \<Longrightarrow> catchE m h w = (Inr a, w')"
  by (simp add: catchE_def)

lemma txE_Inl_step [simp]: "m w = (Inl e, w') \<Longrightarrow> txE m w = (Inl e, w)"
  by (simp add: txE_def)

lemma txE_Inr_step [simp]: "m w = (Inr a, w') \<Longrightarrow> txE m w = (Inr a, w')"
  by (simp add: txE_def)

lemma txE_Inr_iff [eff_inv]: "txE m w = (Inr a, w') \<longleftrightarrow> m w = (Inr a, w')"
  by (auto simp: txE_def split: prod.splits sum.splits)

text \<open>Sequencing of pure computations that may throw.\<close>

definition bindR :: "'e + 'a \<Rightarrow> ('a \<Rightarrow> 'e + 'b) \<Rightarrow> 'e + 'b" where
  "bindR m f = (case m of Inl e \<Rightarrow> Inl e | Inr a \<Rightarrow> f a)"

definition guardR :: "bool \<Rightarrow> 'e \<Rightarrow> 'e + unit" where
  "guardR b e = (if b then Inr () else Inl e)"

lemma bindR_simps [simp]: "bindR (Inl e) f = Inl e" "bindR (Inr a) f = f a"
  by (simp_all add: bindR_def)

lemma guardR_simps [simp]: "guardR True e = Inr ()" "guardR False e = Inl e"
  by (simp_all add: guardR_def)

lemma bindR_Inr_iff [eff_inv]: "bindR m f = Inr b \<longleftrightarrow> (\<exists>a. m = Inr a \<and> f a = Inr b)"
  by (cases m) auto

lemma guardR_Inr_iff [eff_inv]: "guardR b e = Inr u \<longleftrightarrow> b"
  by (simp add: guardR_def)

text \<open>\<open>xs.map(f)\<close> where \<open>f\<close> may throw.\<close>

fun mapR :: "('a \<Rightarrow> 'e + 'b) \<Rightarrow> 'a list \<Rightarrow> 'e + 'b list" where
  "mapR f [] = Inr []"
| "mapR f (x # xs) = bindR (f x) (\<lambda>y. bindR (mapR f xs) (\<lambda>ys. Inr (y # ys)))"

lemma mapR_Inr_all:
  "(\<And>x. x \<in> set xs \<Longrightarrow> f x = Inr (g x)) \<Longrightarrow> mapR f xs = Inr (map g xs)"
  by (induction xs) auto

lemma mapR_Inr_length: "mapR f xs = Inr ys \<Longrightarrow> length ys = length xs"
  by (induction xs arbitrary: ys) (auto simp: eff_inv)

lemma mapR_Inr_nth:
  "mapR f xs = Inr ys \<Longrightarrow> i < length xs \<Longrightarrow> f (xs ! i) = Inr (ys ! i)"
  by (induction xs arbitrary: ys i) (auto simp: eff_inv less_Suc_eq_0_disj)

text \<open>
  \<open>preserves P m\<close>: whenever \<open>P\<close> holds before \<open>m\<close> runs it holds after, whether \<open>m\<close>
  returned or threw. Frame conditions are the instances \<open>P = (\<lambda>w. field w = x)\<close>.
\<close>

definition preserves :: "('w \<Rightarrow> bool) \<Rightarrow> ('w, 'e, 'a) eff \<Rightarrow> bool" where
  "preserves P m \<longleftrightarrow> (\<forall>w. P w \<longrightarrow> P (snd (m w)))"

lemma preservesD: "preserves P m \<Longrightarrow> P w \<Longrightarrow> m w = (r, w') \<Longrightarrow> P w'"
  unfolding preserves_def by (metis snd_conv)

lemma preservesI: "(\<And>w. P w \<Longrightarrow> P (snd (m w))) \<Longrightarrow> preserves P m"
  by (simp add: preserves_def)

lemma preserves_ret [preserves_intros]: "preserves P (ret a)"
  by (simp add: preserves_def)

lemma preserves_throw [preserves_intros]: "preserves P (throw e)"
  by (simp add: preserves_def)

lemma preserves_getsE [preserves_intros]: "preserves P (getsE f)"
  by (simp add: preserves_def)

lemma preserves_liftE [preserves_intros]: "preserves P (liftE r)"
  by (simp add: preserves_def)

lemma preserves_guardE [preserves_intros]: "preserves P (guardE b e)"
  by (simp add: preserves_def guardE_def)

lemma preserves_modE [preserves_intros]: "(\<And>w. P w \<Longrightarrow> P (f w)) \<Longrightarrow> preserves P (modE f)"
  by (simp add: preserves_def)

lemma preserves_bindE [preserves_intros]:
  assumes "preserves P m" and "\<And>a. preserves P (f a)"
  shows "preserves P (bindE m f)"
proof (rule preservesI)
  fix w assume "P w"
  with assms show "P (snd (bindE m f w))"
    by (cases rule: bindE_cases [of m w f]) (auto simp: preserves_def dest: preservesD)
qed

lemma preserves_catchE [preserves_intros]:
  assumes "preserves P m" and "\<And>e. preserves P (h e)"
  shows "preserves P (catchE m h)"
proof (rule preservesI)
  fix w assume "P w"
  with assms show "P (snd (catchE m h w))"
    by (cases "m w"; cases "fst (m w)") (auto simp: preserves_def dest: preservesD)
qed

lemma preserves_txE [preserves_intros]:
  assumes "preserves P m"
  shows "preserves P (txE m)"
proof (rule preservesI)
  fix w assume "P w"
  with assms show "P (snd (txE m w))"
    by (cases "m w"; cases "fst (m w)") (auto dest: preservesD)
qed

lemma preserves_if [preserves_intros]:
  "(b \<Longrightarrow> preserves P m) \<Longrightarrow> (\<not> b \<Longrightarrow> preserves P m') \<Longrightarrow> preserves P (if b then m else m')"
  by simp

lemma preserves_option [preserves_intros]:
  "(x = None \<Longrightarrow> preserves P m) \<Longrightarrow> (\<And>a. x = Some a \<Longrightarrow> preserves P (f a)) \<Longrightarrow>
    preserves P (case x of None \<Rightarrow> m | Some a \<Rightarrow> f a)"
  by (cases x) auto

lemma preserves_prod [preserves_intros]:
  "(\<And>a b. x = (a, b) \<Longrightarrow> preserves P (f a b)) \<Longrightarrow> preserves P (case x of (a, b) \<Rightarrow> f a b)"
  by (cases x) auto

lemma preserves_Let [preserves_intros]:
  "preserves P (f x) \<Longrightarrow> preserves P (let y = x in f y)"
  by simp

text \<open>The continuation may rely on what the first effect can return.\<close>

lemma preserves_bind_val:
  assumes "preserves P m" and "\<And>a w w'. m w = (Inr a, w') \<Longrightarrow> preserves P (f a)"
  shows "preserves P (bindE m f)"
proof (rule preservesI)
  fix w assume "P w"
  with assms show "P (snd (bindE m f w))"
    by (cases rule: bindE_cases [of m w f]) (auto simp: preserves_def dest: preservesD)
qed

text \<open>The two binds whose continuation may rely on the test it follows.\<close>

lemma preserves_guard_then:
  "(b \<Longrightarrow> preserves P m) \<Longrightarrow> preserves P (bindE (guardE b e) (\<lambda>_. m))"
  by (auto simp: preserves_def bindE_def guardE_def)

lemma preserves_lift_then:
  "(\<And>a. r = Inr a \<Longrightarrow> preserves P (k a)) \<Longrightarrow> preserves P (bindE (liftE r) k)"
  by (cases r) (auto simp: preserves_def)

text \<open>A \<open>for ... of\<close> loop whose body may throw.\<close>

fun forE :: "'x list \<Rightarrow> ('x \<Rightarrow> ('w, 'e, unit) eff) \<Rightarrow> ('w, 'e, unit) eff" where
  "forE [] f = ret ()"
| "forE (x # xs) f = bindE (f x) (\<lambda>_. forE xs f)"

lemma preserves_forE [preserves_intros]:
  "(\<And>x. x \<in> set xs \<Longrightarrow> preserves P (f x)) \<Longrightarrow> preserves P (forE xs f)"
  by (induction xs) (auto intro!: preserves_intros)

section \<open>Characters and character classes\<close>

definition cc :: "char \<Rightarrow> nat" where
  "cc c = of_char c"

definition is_digit :: "char \<Rightarrow> bool" where
  "is_digit c \<longleftrightarrow> 48 \<le> cc c \<and> cc c \<le> 57"

definition is_upper :: "char \<Rightarrow> bool" where
  "is_upper c \<longleftrightarrow> 65 \<le> cc c \<and> cc c \<le> 90"

definition is_lower :: "char \<Rightarrow> bool" where
  "is_lower c \<longleftrightarrow> 97 \<le> cc c \<and> cc c \<le> 122"

definition is_alnum :: "char \<Rightarrow> bool" where
  "is_alnum c \<longleftrightarrow> is_digit c \<or> is_upper c \<or> is_lower c"

definition is_hex :: "char \<Rightarrow> bool" where
  "is_hex c \<longleftrightarrow> is_digit c \<or> 65 \<le> cc c \<and> cc c \<le> 70 \<or> 97 \<le> cc c \<and> cc c \<le> 102"

definition is_ws :: "char \<Rightarrow> bool" where
  "is_ws c \<longleftrightarrow> cc c = 32 \<or> 9 \<le> cc c \<and> cc c \<le> 13"

text \<open>\<open>[A-Za-z0-9_.-]\<close>, the class of interface names, service tags, peer names and ids.\<close>

definition is_tag :: "char \<Rightarrow> bool" where
  "is_tag c \<longleftrightarrow> is_alnum c \<or> c = CHR ''_'' \<or> c = CHR ''.'' \<or> c = CHR ''-''"

lemmas class_defs = is_digit_def is_upper_def is_lower_def is_alnum_def is_hex_def is_ws_def
  is_tag_def cc_def

definition newline :: char where "newline = CHR 0x0A"
definition nl :: string where "nl = [CHR 0x0A]"
definition dq :: string where "dq = [CHR 0x22]"

text \<open>U+2014, the dash of the generated comments, in UTF-8.\<close>

definition emdash :: string where "emdash = [CHR 0xE2, CHR 0x80, CHR 0x94]"

definition lower_char :: "char \<Rightarrow> char" where
  "lower_char c = (if is_upper c then char_of (cc c + 32) else c)"

definition to_lower :: "string \<Rightarrow> string" where
  "to_lower = map lower_char"

lemma is_tag_not_ws: "is_tag c \<Longrightarrow> \<not> is_ws c"
  by (auto simp: class_defs)

lemma is_digit_not_ws: "is_digit c \<Longrightarrow> \<not> is_ws c"
  by (auto simp: class_defs)

lemma is_alnum_is_tag: "is_alnum c \<Longrightarrow> is_tag c"
  by (simp add: is_tag_def)

lemma newline_is_ws: "is_ws newline"
  by (simp add: newline_def class_defs)

lemma newline_not_tag: "\<not> is_tag newline"
  by (simp add: newline_def class_defs)

lemma dquote_not_tag: "\<not> is_tag (CHR 0x22)"
  by (simp add: class_defs)

end
