(* ===== verification/PP_Strings.thy ===== *)
theory PP_Strings
  imports PP_Prelude
begin

text \<open>
  The JavaScript string functions the sources call, as executable functions on
  \<^typ>\<open>string\<close>, with the laws the components rely on: splitting and joining are inverse
  on separator-free parts, decimal printing and reading are inverse, and trimming leaves
  no outer whitespace. Also the stable sort \<open>Array.prototype.sort\<close> with a comparator.
\<close>

section \<open>Splitting and joining\<close>

fun split_by :: "('a \<Rightarrow> bool) \<Rightarrow> 'a list \<Rightarrow> 'a list list" where
  "split_by p [] = [[]]"
| "split_by p (x # xs) =
     (if p x then [] # split_by p xs
      else (case split_by p xs of [] \<Rightarrow> [[x]] | y # ys \<Rightarrow> (x # y) # ys))"

definition split_on :: "char \<Rightarrow> string \<Rightarrow> string list" where
  "split_on c = split_by (\<lambda>x. x = c)"

fun join :: "string \<Rightarrow> string list \<Rightarrow> string" where
  "join sep [] = []"
| "join sep [x] = x"
| "join sep (x # y # ys) = x @ sep @ join sep (y # ys)"

lemma split_by_neq_Nil [simp]: "split_by p s \<noteq> []"
  by (induction s) (auto split: list.splits)

lemma split_by_Cons_not:
  "\<not> p x \<Longrightarrow> split_by p (x # xs) = (x # hd (split_by p xs)) # tl (split_by p xs)"
  by (cases "split_by p xs") auto

lemma split_by_parts: "t \<in> set (split_by p s) \<Longrightarrow> x \<in> set t \<Longrightarrow> \<not> p x"
  by (induction s arbitrary: t) (fastforce split: if_splits list.splits)+

lemma split_by_none: "(\<And>x. x \<in> set s \<Longrightarrow> \<not> p x) \<Longrightarrow> split_by p s = [s]"
  by (induction s) auto

lemma split_by_append_sep:
  "(\<And>x. x \<in> set s \<Longrightarrow> \<not> p x) \<Longrightarrow> p c \<Longrightarrow> split_by p (s @ c # t) = s # split_by p t"
  by (induction s) auto

lemma split_by_append:
  "split_by p (s @ t) =
    butlast (split_by p s) @ (last (split_by p s) @ hd (split_by p t)) # tl (split_by p t)"
proof (induction s)
  case Nil
  show ?case by (cases "split_by p t") auto
next
  case (Cons x s)
  then show ?case
    by (cases "split_by p s") (auto simp: split_by_Cons_not)
qed

lemma join_split_by: "join [c] (split_by (\<lambda>x. x = c) s) = s"
proof (induction s)
  case (Cons x s)
  then show ?case
    by (cases "split_by (\<lambda>x. x = c) s"; cases "tl (split_by (\<lambda>x. x = c) s)") auto
qed simp

lemma join_split_on [simp]: "join [c] (split_on c s) = s"
  by (simp add: split_on_def join_split_by)

lemma split_on_join:
  "xs \<noteq> [] \<Longrightarrow> (\<And>x. x \<in> set xs \<Longrightarrow> c \<notin> set x) \<Longrightarrow> split_on c (join [c] xs) = xs"
proof (induction "[c]" xs rule: join.induct)
  case (2 x)
  then show ?case by (auto simp: split_on_def intro!: split_by_none)
next
  case (3 x y ys)
  have "split_by (\<lambda>z. z = c) (x @ c # join [c] (y # ys)) = x # split_by (\<lambda>z. z = c) (join [c] (y # ys))"
    using "3.prems" by (intro split_by_append_sep) auto
  then show ?case using 3 by (simp add: split_on_def)
qed simp

lemma split_on_parts: "t \<in> set (split_on c s) \<Longrightarrow> c \<notin> set t"
  using split_by_parts by (fastforce simp: split_on_def)

lemma split_on_neq_Nil [simp]: "split_on c s \<noteq> []"
  by (simp add: split_on_def)

lemma join_snoc: "xs \<noteq> [] \<Longrightarrow> join sep (xs @ [y]) = join sep xs @ sep @ y"
  by (induction sep xs rule: join.induct) auto

lemma set_join_sub: "set (join sep xs) \<subseteq> set sep \<union> (\<Union>x\<in>set xs. set x)"
  by (induction sep xs rule: join.induct) auto

section \<open>Trimming, words and lines\<close>

definition trim_start :: "string \<Rightarrow> string" where
  "trim_start = dropWhile is_ws"

definition trim_end :: "string \<Rightarrow> string" where
  "trim_end s = rev (dropWhile is_ws (rev s))"

definition trim :: "string \<Rightarrow> string" where
  "trim s = trim_end (trim_start s)"

text \<open>\<open>s.trim().split(/\s+/)\<close>: an empty string has one empty word.\<close>

definition split_ws :: "string \<Rightarrow> string list" where
  "split_ws s = (let t = trim s in if t = [] then [[]] else filter (\<lambda>u. u \<noteq> []) (split_by is_ws t))"

text \<open>\<open>text.split(/\r?\n/)\<close>: a carriage return directly before a line feed goes with it.\<close>

definition strip_cr :: "string \<Rightarrow> string" where
  "strip_cr s = (if s \<noteq> [] \<and> last s = CHR 0x0D then butlast s else s)"

definition split_lines :: "string \<Rightarrow> string list" where
  "split_lines s = (let ps = split_on newline s in map strip_cr (butlast ps) @ [last ps])"

lemma trim_end_append_nonws: "\<not> is_ws c \<Longrightarrow> trim_end (s @ [c]) = s @ [c]"
  by (simp add: trim_end_def)

lemma trim_end_idem [simp]: "trim_end (trim_end s) = trim_end s"
  by (simp add: trim_end_def)

lemma trim_end_last: "trim_end s \<noteq> [] \<Longrightarrow> \<not> is_ws (last (trim_end s))"
  unfolding trim_end_def by (metis hd_dropWhile last_rev rev.simps(1))

lemma set_trim_end: "set (trim_end s) \<subseteq> set s"
  unfolding trim_end_def using set_dropWhileD by fastforce

lemma trim_end_prefix: "\<exists>u. s = trim_end s @ u \<and> (\<forall>c\<in>set u. is_ws c)"
proof -
  have "rev s = takeWhile is_ws (rev s) @ dropWhile is_ws (rev s)" by simp
  then have "s = trim_end s @ rev (takeWhile is_ws (rev s))"
    unfolding trim_end_def by (metis rev_append rev_rev_ident)
  then show ?thesis using set_takeWhileD by (metis set_rev)
qed

section \<open>Searching\<close>

fun contains :: "'a list \<Rightarrow> 'a list \<Rightarrow> bool" where
  "contains [] p = (p = [])"
| "contains (x # xs) p = (prefix p (x # xs) \<or> contains xs p)"

definition starts_with :: "string \<Rightarrow> string \<Rightarrow> bool" where
  "starts_with s p = prefix p s"

definition ends_with :: "string \<Rightarrow> string \<Rightarrow> bool" where
  "ends_with s p = suffix p s"

lemma contains_sublist: "contains s p \<longleftrightarrow> sublist p s"
  by (induction s) (auto simp: sublist_Cons_right)

definition remove_char :: "char \<Rightarrow> string \<Rightarrow> string" where
  "remove_char c = filter (\<lambda>x. x \<noteq> c)"

lemma remove_char_gone [simp]: "c \<notin> set (remove_char c s)"
  by (simp add: remove_char_def)

section \<open>Decimal numbers\<close>

definition digit_char :: "nat \<Rightarrow> char" where
  "digit_char d = char_of (48 + d)"

fun show_nat :: "nat \<Rightarrow> string" where
  "show_nat n = (if n < 10 then [digit_char n] else show_nat (n div 10) @ [digit_char (n mod 10)])"

declare show_nat.simps [simp del]

definition show_int :: "int \<Rightarrow> string" where
  "show_int i = (if i < 0 then ''-'' @ show_nat (nat (- i)) else show_nat (nat i))"

definition digit_val :: "char \<Rightarrow> nat" where
  "digit_val c = cc c - 48"

definition read_nat :: "string \<Rightarrow> nat" where
  "read_nat = foldl (\<lambda>a c. 10 * a + digit_val c) 0"

definition all_digits :: "string \<Rightarrow> bool" where
  "all_digits s \<longleftrightarrow> list_all is_digit s"

lemma cc_digit_char: "d < 10 \<Longrightarrow> cc (digit_char d) = 48 + d"
  by (simp add: cc_def digit_char_def)

lemma digit_char_is_digit: "d < 10 \<Longrightarrow> is_digit (digit_char d)"
  by (simp add: is_digit_def cc_digit_char)

lemma show_nat_digits: "c \<in> set (show_nat n) \<Longrightarrow> is_digit c"
proof (induction n rule: show_nat.induct)
  case (1 n)
  then show ?case
    by (auto simp: show_nat.simps [of n] digit_char_is_digit split: if_splits)
qed

lemma all_digits_show_nat [simp]: "all_digits (show_nat n)"
  by (auto simp: all_digits_def list_all_iff dest: show_nat_digits)

lemma show_nat_neq_Nil [simp]: "show_nat n \<noteq> []"
  by (simp add: show_nat.simps [of n])

lemma read_show_nat [simp]: "read_nat (show_nat n) = n"
proof (induction n rule: show_nat.induct)
  case (1 n)
  then show ?case
    by (auto simp: show_nat.simps [of n] read_nat_def digit_val_def cc_digit_char)
qed

lemma show_nat_inject [simp]: "show_nat m = show_nat n \<longleftrightarrow> m = n"
  by (metis read_show_nat)

lemma show_nat_no_char: "\<not> is_digit c \<Longrightarrow> c \<notin> set (show_nat n)"
  using show_nat_digits by blast

lemma length_show_nat_3: "n < 1000 \<Longrightarrow> length (show_nat n) \<le> 3"
proof -
  assume "n < 1000"
  then have "n div 10 div 10 < 10" by arith
  then show ?thesis
    by (simp add: show_nat.simps [of n] show_nat.simps [of "n div 10"] show_nat.simps [of "n div 10 div 10"])
qed

text \<open>
  \<open>Number(s)\<close> of a string, as far as the sources look at it: an integer value, or
  something \<open>Number.isInteger\<close> refuses (a fraction, NaN, an infinity). The decimal
  notation is read in full: sign, fraction and exponent; the radix prefixes too.
\<close>

datatype jsnum = Int_num int | Not_int

definition digit_of_radix :: "nat \<Rightarrow> char \<Rightarrow> nat option" where
  "digit_of_radix b c =
     (let v = (if is_digit c then Some (cc c - 48)
               else if is_lower c then Some (cc c - 87)
               else if is_upper c then Some (cc c - 55) else None)
      in case v of Some d \<Rightarrow> if d < b then Some d else None | None \<Rightarrow> None)"

fun read_radix :: "nat \<Rightarrow> nat \<Rightarrow> string \<Rightarrow> nat option" where
  "read_radix b acc [] = Some acc"
| "read_radix b acc (c # cs) =
     (case digit_of_radix b c of None \<Rightarrow> None | Some d \<Rightarrow> read_radix b (b * acc + d) cs)"

definition radix_num :: "nat \<Rightarrow> string \<Rightarrow> jsnum" where
  "radix_num b s = (if s = [] then Not_int
     else case read_radix b 0 s of None \<Rightarrow> Not_int | Some n \<Rightarrow> Int_num (int n))"

definition scale10 :: "int \<Rightarrow> int \<Rightarrow> jsnum" where
  "scale10 m e = (if 0 \<le> e then Int_num (m * 10 ^ nat e)
     else if m mod 10 ^ nat (- e) = 0 then Int_num (m div 10 ^ nat (- e)) else Not_int)"

definition read_exponent :: "string \<Rightarrow> int option" where
  "read_exponent s = (case s of [] \<Rightarrow> Some 0
     | c # t \<Rightarrow> if c = CHR ''e'' \<or> c = CHR ''E'' then
         (let (neg, ds) = (case t of d # r \<Rightarrow> if d = CHR ''-'' then (True, r)
                              else if d = CHR ''+'' then (False, r) else (False, t)
                            | [] \<Rightarrow> (False, []))
          in if ds \<noteq> [] \<and> all_digits ds
             then Some (if neg then - int (read_nat ds) else int (read_nat ds)) else None)
       else None)"

definition decimal_num :: "bool \<Rightarrow> string \<Rightarrow> jsnum" where
  "decimal_num neg s =
     (let ip = takeWhile is_digit s; r1 = dropWhile is_digit s;
          (fp, r2) = (case r1 of c # t \<Rightarrow> if c = CHR ''.'' then (takeWhile is_digit t, dropWhile is_digit t)
                                 else ([], r1) | [] \<Rightarrow> ([], []))
      in if ip = [] \<and> fp = [] then Not_int
         else case read_exponent r2 of None \<Rightarrow> Not_int
           | Some e \<Rightarrow>
             (let m = int (read_nat (ip @ fp))
              in scale10 (if neg then - m else m) (e - int (length fp))))"

definition js_number :: "string \<Rightarrow> jsnum" where
  "js_number s = (let t = trim s in
     if t = [] then Int_num 0
     else if prefix ''0x'' t \<or> prefix ''0X'' t then radix_num 16 (drop 2 t)
     else if prefix ''0o'' t \<or> prefix ''0O'' t then radix_num 8 (drop 2 t)
     else if prefix ''0b'' t \<or> prefix ''0B'' t then radix_num 2 (drop 2 t)
     else if hd t = CHR ''-'' then decimal_num True (tl t)
     else if hd t = CHR ''+'' then decimal_num False (tl t)
     else decimal_num False t)"

lemma dropWhile_all: "(\<And>c. c \<in> set s \<Longrightarrow> p c) \<Longrightarrow> dropWhile p s = []"
  by (induction s) auto

lemma takeWhile_all: "(\<And>c. c \<in> set s \<Longrightarrow> p c) \<Longrightarrow> takeWhile p s = s"
  by (induction s) auto

lemma trim_nonws: "(\<And>c. c \<in> set s \<Longrightarrow> \<not> is_ws c) \<Longrightarrow> trim s = s"
proof (cases s rule: rev_cases)
  case (snoc t c)
  assume a: "\<And>c. c \<in> set s \<Longrightarrow> \<not> is_ws c"
  then have "trim_start s = s" by (cases s) (auto simp: trim_start_def)
  with a snoc show ?thesis by (simp add: trim_def trim_end_def)
qed (simp add: trim_def trim_start_def trim_end_def)

lemma js_number_digits:
  assumes d: "all_digits s" and "s \<noteq> []"
  shows "js_number s = Int_num (int (read_nat s))"
proof -
  have ds: "\<And>c. c \<in> set s \<Longrightarrow> is_digit c" using d by (auto simp: all_digits_def list_all_iff)
  have t: "trim s = s" using ds by (intro trim_nonws) (auto dest: is_digit_not_ws)
  have np: "\<not> prefix [a, b] s" if "\<not> is_digit b" for a b
    using ds that by (auto simp: prefix_def)
  have h: "hd s \<noteq> CHR ''-''" "hd s \<noteq> CHR ''+''"
    using ds [of "hd s"] \<open>s \<noteq> []\<close> by (auto simp: class_defs)
  have dw: "dropWhile is_digit s = []" using ds by (rule dropWhile_all)
  have tw: "takeWhile is_digit s = s" using ds by (rule takeWhile_all)
  show ?thesis
    using \<open>s \<noteq> []\<close> h t np
    by (simp add: js_number_def Let_def decimal_num_def dw tw read_exponent_def scale10_def class_defs)
qed

lemma js_number_show_nat [simp]: "js_number (show_nat n) = Int_num (int n)"
  by (simp add: js_number_digits)

section \<open>Stable sorting\<close>

text \<open>
  \<open>Array.prototype.sort(cmp)\<close> is stable; the comparators of the sources are given as the
  test \<open>le a b\<close> for \<open>cmp(a, b) \<le> 0\<close>.
\<close>

fun insert_by :: "('a \<Rightarrow> 'a \<Rightarrow> bool) \<Rightarrow> 'a \<Rightarrow> 'a list \<Rightarrow> 'a list" where
  "insert_by le x [] = [x]"
| "insert_by le x (y # ys) = (if le x y then x # y # ys else y # insert_by le x ys)"

definition sort_by :: "('a \<Rightarrow> 'a \<Rightarrow> bool) \<Rightarrow> 'a list \<Rightarrow> 'a list" where
  "sort_by le xs = foldr (insert_by le) xs []"

lemma sort_by_Nil [simp]: "sort_by le [] = []"
  by (simp add: sort_by_def)

lemma sort_by_Cons [simp]: "sort_by le (x # xs) = insert_by le x (sort_by le xs)"
  by (simp add: sort_by_def)

lemma mset_insert_by [simp]: "mset (insert_by le x xs) = add_mset x (mset xs)"
  by (induction xs) auto

lemma set_insert_by: "set (insert_by le x xs) = insert x (set xs)"
  by (induction xs) auto

lemma mset_sort_by [simp]: "mset (sort_by le xs) = mset xs"
  by (induction xs) auto

lemma set_sort_by [simp]: "set (sort_by le xs) = set xs"
  by (metis mset_sort_by set_mset_mset)

lemma length_sort_by [simp]: "length (sort_by le xs) = length xs"
  by (metis mset_sort_by size_mset)

lemma distinct_map_sort_by [simp]: "distinct (map f (sort_by le xs)) = distinct (map f xs)"
  by (rule mset_eq_imp_distinct_iff) simp

lemma map_insert_by:
  "map f (insert_by (\<lambda>a b. le (f a) (f b)) x xs) = insert_by le (f x) (map f xs)"
  by (induction xs) auto

lemma map_sort_by: "map f (sort_by (\<lambda>a b. le (f a) (f b)) xs) = sort_by le (map f xs)"
  by (induction xs) (auto simp: map_insert_by)

lemma sorted_wrt_insert_by:
  assumes "\<And>a b. le a b \<or> le b a" and "\<And>a b c. le a b \<Longrightarrow> le b c \<Longrightarrow> le a c"
    and "sorted_wrt le xs"
  shows "sorted_wrt le (insert_by le x xs)"
  using assms(3)
proof (induction xs)
  case (Cons y ys)
  show ?case
  proof (cases "le x y")
    case True
    with Cons.prems assms(2) show ?thesis by auto
  next
    case False
    with assms(1) have "le y x" by blast
    with Cons False show ?thesis by (simp add: set_insert_by)
  qed
qed simp

lemma sorted_wrt_sort_by:
  assumes "\<And>a b. le a b \<or> le b a" and "\<And>a b c. le a b \<Longrightarrow> le b c \<Longrightarrow> le a c"
  shows "sorted_wrt le (sort_by le xs)"
proof (induction xs)
  case (Cons x xs)
  show ?case unfolding sort_by_Cons by (rule sorted_wrt_insert_by [OF assms Cons.IH])
qed simp

lemma sort_by_sorted_id: "sorted_wrt le xs \<Longrightarrow> sort_by le xs = xs"
proof (induction xs)
  case (Cons x xs)
  then show ?case by (cases xs) auto
qed simp

lemma insert_by_filter_absorb:
  "\<not> P x \<Longrightarrow> filter P (insert_by le x xs) = filter P xs"
  by (induction xs) auto

lemma sort_by_Nil_iff [simp]: "sort_by le xs = [] \<longleftrightarrow> xs = []"
  by (metis length_0_conv length_sort_by)

section \<open>Sets of strings\<close>

text \<open>\<open>[...new Set(xs)]\<close> keeps the first occurrence of each element.\<close>

definition dedup :: "'a list \<Rightarrow> 'a list" where
  "dedup xs = rev (remdups (rev xs))"

lemma set_dedup [simp]: "set (dedup xs) = set xs"
  by (simp add: dedup_def)

lemma distinct_dedup [simp]: "distinct (dedup xs)"
  by (simp add: dedup_def)

lemma dedup_Nil_iff [simp]: "dedup xs = [] \<longleftrightarrow> xs = []"
  by (simp add: dedup_def)

end
