(* ===== verification/PP_Types.thy ===== *)
theory PP_Types
  imports PP_Strings
begin

text \<open>
  The data of the host control plane: the JSON document \<open>firewall.json\<close>, the rows of the
  SQLite tables created by \<open>cli/src/db/schema.js\<close>, the JSON values stored in the audit
  log, and one error type per component, with a constructor for every \<open>throw\<close> the modelled
  functions can reach.

  A property that may be absent or null is an \<^typ>\<open>'a option\<close>; the sources read both the
  same way, through \<open>??\<close>, \<open>!x\<close> or \<open>x == null\<close>. Times are milliseconds since the epoch:
  \<open>toISOString\<close> and \<open>new Date\<close> are inverse at that precision.
\<close>

section \<open>JSON values\<close>

text \<open>A number is an integer or, as far as the sources can tell, something else.\<close>

datatype jval = JNull | JBool bool | JNum int | JFrac | JStr string | JArr "jval list"
  | JObj "(string \<times> jval) list"

definition jopt :: "('a \<Rightarrow> jval) \<Rightarrow> 'a option \<Rightarrow> jval" where
  "jopt f x = (case x of None \<Rightarrow> JNull | Some a \<Rightarrow> f a)"

definition jstrs :: "string list \<Rightarrow> jval" where
  "jstrs xs = JArr (map JStr xs)"

section \<open>The firewall document\<close>

record rule =
  rl_id :: string
  rl_source :: string
  rl_container :: "string option"
  rl_process :: "string option"
  rl_port_start :: int
  rl_port_end :: "int option"
  rl_proto :: string
  rl_scope :: string
  rl_source_cidrs :: "string list option"
  rl_enabled :: bool
  rl_reason :: "string option"
  rl_first_seen :: int
  rl_last_seen :: int
  rl_service :: "string option"
  rl_enabled_at :: "int option"
  rl_enabled_by :: "string option"
  rl_disabled_at :: "int option"
  rl_disabled_by :: "string option"

record egress =
  eg_container :: string
  eg_allow :: "string list"
  eg_reason :: "string option"
  eg_container_ip :: "string option"

record upstream =
  up_route_id :: string
  up_container :: string
  up_uuid :: string
  up_bridge :: string
  up_mac :: string
  up_ipv4 :: string
  up_ipv6 :: "string option"
  up_port :: jsnum

record netcfg =
  nc_bridge_iface :: "string option"
  nc_bridge_cidr :: "string option"
  nc_bridge_gw :: "string option"

text \<open>\<open>state.nat\<close>: the masquerade field and whatever other keys the object carries.\<close>

record natcfg =
  nat_vpn_masquerade_iface :: "string option"
  nat_other :: "(string \<times> jval) list"

record fw_state =
  fs_version :: int
  fs_default_policy :: string
  fs_base :: "rule list"
  fs_discovered :: "rule list"
  fs_container_egress :: "egress list option"
  fs_protected_upstreams :: "upstream list option"
  fs_panic_close :: bool
  fs_network :: "netcfg option"
  fs_nat :: "natcfg option"

text \<open>What \<open>firewall.json\<close> holds: text that does not parse, or a document.\<close>

datatype fw_doc = Not_json | Doc fw_state

definition rules_of :: "fw_state \<Rightarrow> rule list" where
  "rules_of s = fs_base s @ fs_discovered s"

section \<open>Rows of the database\<close>

record fw_row =
  fr_id :: string
  fr_source :: string
  fr_container :: "string option"
  fr_process :: "string option"
  fr_port_start :: int
  fr_port_end :: "int option"
  fr_proto :: string
  fr_scope :: string
  fr_source_cidrs :: "string list option"
  fr_enabled :: int
  fr_reason :: "string option"
  fr_first_seen :: int
  fr_last_seen :: int
  fr_service :: "string option"

record reconcile_row =
  rc_checksum :: string
  rc_rule_count :: nat
  rc_applied :: int
  rc_rejection :: "string option"
  rc_by :: "string option"

record audit_row =
  au_subsystem :: string
  au_action :: string
  au_resource :: "string option"
  au_actor :: string
  au_before :: "jval option"
  au_after :: "jval option"
  au_detail :: "string option"

record vpn_config =
  vc_server_public_key :: string
  vc_endpoint :: string
  vc_listen_port :: int
  vc_cidr :: string
  vc_default_iface :: string
  vc_dns :: string

record peer =
  pe_id :: int
  pe_name :: string
  pe_public_key :: string
  pe_allowed_ip :: string
  pe_scope :: string
  pe_services :: "string list option"
  pe_status :: string
  pe_created_at :: int
  pe_created_by :: "string option"
  pe_rotated_at :: "int option"
  pe_disabled_at :: "int option"

record pool_row =
  pl_ip :: string
  pl_peer_id :: "int option"
  pl_released_at :: "int option"

record ssh_row =
  sa_id :: string
  sa_unix_user :: string
  sa_public_key :: string
  sa_fingerprint :: string
  sa_device_label :: "string option"
  sa_added_at :: int
  sa_added_by :: "string option"
  sa_revoked_at :: "int option"
  sa_revoked_by :: "string option"
  sa_revoked_reason :: "string option"
  sa_last_seen_at :: "int option"

record route =
  rt_id :: int
  rt_domain :: string
  rt_upstream_address :: "string option"
  rt_path_prefix :: string
  rt_tls_auto :: int
  rt_vpn_only :: int
  rt_service :: "string option"
  rt_enabled :: int

section \<open>Errors\<close>

datatype fw_err =
    Unsupported_version int
  | Panic_closed
  | Rule_not_found string
  | Invalid_scope string
  | Invalid_service_tag string
  | Invalid_proto string
  | Invalid_port
  | Invalid_port_range
  | Reason_required
  | Rule_exists string
  | Not_service_l4_id string
  | Not_removable string string
  | Unknown_egress_service string
  | Unknown_scope string
  | Invalid_bridge_iface string
  | Invalid_bridge_cidr string
  | Invalid_bridge_gw string
  | Invalid_masquerade_iface string
  | Invalid_protected_upstreams
  | Invalid_protected_entry
  | Ss_failed
  | Invalid_ingress_request
  | Guest_not_running
  | Guest_identity_unavailable
  | Guest_addresses_mismatch
  | Guest_identity_changed
  | Fence_identity_changed
  | Ingress_not_reconciled
  | Invalid_route_id
  | No_recorded_fence
  | Nft_rejected_fence
  | Boot_gate_differs
  | Boot_gate_not_loaded
  | No_protected_upstreams
  | No_live_fence
  | Fence_incomplete string

datatype vpn_err =
    Endpoint_required
  | Invalid_endpoint string
  | Endpoint_port_range string
  | Invalid_listen_port
  | Port_not_safe int
  | Vpn_config_missing
  | Server_key_missing
  | No_default_iface
  | Genkey_failed
  | Genkey_empty
  | Pubkey_failed
  | Pubkey_empty
  | Unit_enable_failed
  | Unit_start_failed
  | Unit_stop_failed
  | Syncconf_failed string
  | Peer_key_required
  | Reconcile_failed
  | Invalid_peer_name string
  | Invalid_peer_scope string
  | Services_required
  | Invalid_service_name string
  | Services_not_allowed
  | Vpn_not_enabled
  | Peer_exists string
  | Peer_not_found string
  | Pool_exhausted
  | Last_enabled_peer string
  | Recently_active string
  | Peer_revoked string
  | Not_dns_hostname string
  | Last_full_admin_demote string "string list"
  | Invalid_hostname string

datatype ssh_err =
    Invalid_id string
  | Invalid_unix_user string
  | Empty_key
  | Private_key_pasted
  | Multiline_key
  | Keygen_rejected string
  | No_fingerprint
  | Id_exists string
  | Fingerprint_exists string string bool
  | Id_not_found string
  | Invalid_filter string
  | User_not_found string
  | Malformed_passwd string
  | Bad_target string
  | Sshd_config_missing
  | No_active_keys
  | Sshd_test_rejected
  | Reload_failed
  | Invalid_bootstrap_user string
  | Invalid_bootstrap_server string
  | Invalid_bootstrap_shell string

datatype caddy_err = Domain_required | Upstream_required | Caddy_reload_failed

datatype sys_err = Json_syntax | Type_error | Sqlite_constraint | Sqlite_syntax | Request_failed | Range_error | Fs_error string

datatype err = Fw fw_err | Vpn vpn_err | Ssh ssh_err | Caddy caddy_err | Sys sys_err

end
