(* ===== verification/PP_Json.thy ===== *)
theory PP_Json
  imports PP_Types
begin

text \<open>
  \<open>JSON.parse\<close> and the property accesses (\<open>v.key\<close>, \<open>v?.key\<close>, \<open>String(v)\<close>) the sources apply
  to its results. The parser is the recursive descent of the JSON grammar; every call consumes
  a character or returns, so \<open>2 * length s + 2\<close> calls deep is enough fuel for a text \<open>s\<close>.
  Strings are kept as UTF-8 bytes: a \<open>\u\<close> escape contributes the bytes of its code point.
\<close>

section \<open>Strings\<close>

definition hex_val :: "char \<Rightarrow> nat option" where
  "hex_val c = digit_of_radix 16 c"

fun read_hex4 :: "string \<Rightarrow> (nat \<times> string) option" where
  "read_hex4 (a # b # c # d # rest) =
     (case (hex_val a, hex_val b, hex_val c, hex_val d) of
        (Some w, Some x, Some y, Some z) \<Rightarrow> Some (4096 * w + 256 * x + 16 * y + z, rest)
      | _ \<Rightarrow> None)"
| "read_hex4 _ = None"

definition utf8 :: "nat \<Rightarrow> string" where
  "utf8 n =
     (if n < 0x80 then [char_of n]
      else if n < 0x800 then [char_of (0xC0 + n div 64), char_of (0x80 + n mod 64)]
      else if n < 0x10000 then [char_of (0xE0 + n div 4096), char_of (0x80 + n div 64 mod 64),
        char_of (0x80 + n mod 64)]
      else [char_of (0xF0 + n div 262144), char_of (0x80 + n div 4096 mod 64),
        char_of (0x80 + n div 64 mod 64), char_of (0x80 + n mod 64)])"

definition simple_escape :: "char \<Rightarrow> char option" where
  "simple_escape c =
     (if c = CHR 0x22 then Some c else if c = CHR 0x5C then Some c else if c = CHR ''/'' then Some c
      else if c = CHR ''b'' then Some (CHR 0x08) else if c = CHR ''f'' then Some (CHR 0x0C)
      else if c = CHR ''n'' then Some (CHR 0x0A) else if c = CHR ''r'' then Some (CHR 0x0D)
      else if c = CHR ''t'' then Some (CHR 0x09) else None)"

text \<open>The code point of a \<open>\u\<close> escape whose first four digits read \<open>h\<close>: surrogates pair up.\<close>

definition code_point :: "nat \<Rightarrow> string \<Rightarrow> nat \<times> string" where
  "code_point h rest =
     (case rest of
        a # b # r2 \<Rightarrow>
          if 0xD800 \<le> h \<and> h < 0xDC00 \<and> a = CHR 0x5C \<and> b = CHR ''u'' then
            (case read_hex4 r2 of
               Some (l, r3) \<Rightarrow> if 0xDC00 \<le> l \<and> l < 0xE000
                 then (0x10000 + (h - 0xD800) * 1024 + (l - 0xDC00), r3) else (h, rest)
             | None \<Rightarrow> (h, rest))
          else (h, rest)
      | _ \<Rightarrow> (h, rest))"

lemma read_hex4_length: "read_hex4 s = Some (n, r) \<Longrightarrow> length r < length s"
  by (cases s rule: read_hex4.cases) (auto split: option.splits)

lemma code_point_length: "length (snd (code_point h r)) \<le> length r"
proof -
  have "length r3 < length r2" if "read_hex4 r2 = Some (l, r3)" for r2 l r3
    using that by (rule read_hex4_length)
  then show ?thesis
    by (auto simp: code_point_def less_imp_le_nat le_SucI split: list.splits option.splits)
qed

text \<open>The rest of a string literal after its opening quote.\<close>

function parse_str :: "string \<Rightarrow> (string \<times> string) option" where
  "parse_str [] = None"
| "parse_str (c # cs) =
     (if c = CHR 0x22 then Some ([], cs)
      else if cc c < 32 then None
      else if c \<noteq> CHR 0x5C then map_option (\<lambda>(t, r). (c # t, r)) (parse_str cs)
      else case cs of
        [] \<Rightarrow> None
      | e # es \<Rightarrow>
          if e = CHR ''u'' then
            (case read_hex4 es of
               None \<Rightarrow> None
             | Some (h, rest) \<Rightarrow>
                 map_option (\<lambda>(t, r). (utf8 (fst (code_point h rest)) @ t, r))
                   (parse_str (snd (code_point h rest))))
          else (case simple_escape e of
                  None \<Rightarrow> None
                | Some x \<Rightarrow> map_option (\<lambda>(t, r). (x # t, r)) (parse_str es)))"
  by pat_completeness auto
termination
proof (relation "measure length")
  fix c :: char and cs e es h rest z x y
  assume "cs = e # es" and "read_hex4 es = Some z" and "(h, rest) = z"
  then have "length rest < length es" by (auto dest: read_hex4_length)
  with \<open>cs = e # es\<close> code_point_length [of h rest]
  show "(snd (code_point h rest), c # cs) \<in> measure length" by simp
qed auto

section \<open>Values\<close>

definition is_json_ws :: "char \<Rightarrow> bool" where
  "is_json_ws c \<longleftrightarrow> c = CHR '' '' \<or> c = CHR 0x09 \<or> c = CHR 0x0A \<or> c = CHR 0x0D"

definition skip_ws :: "string \<Rightarrow> string" where
  "skip_ws = dropWhile is_json_ws"

text \<open>A number: an optional minus, an integer part without leading zeros, fraction, exponent.\<close>

definition int_part_ok :: "string \<Rightarrow> bool" where
  "int_part_ok ds \<longleftrightarrow> ds \<noteq> [] \<and> (length ds = 1 \<or> hd ds \<noteq> CHR ''0'')"

definition num_chars :: "string \<Rightarrow> string" where
  "num_chars = takeWhile (\<lambda>c. is_digit c \<or> c \<in> set ''+-.eE'')"

definition frac_ok :: "string \<Rightarrow> bool" where
  "frac_ok s \<longleftrightarrow> (case s of
     [] \<Rightarrow> True
   | c # t \<Rightarrow>
       if c = CHR ''.'' then takeWhile is_digit t \<noteq> [] \<and> read_exponent (dropWhile is_digit t) \<noteq> None
       else read_exponent s \<noteq> None)"

definition parse_num :: "string \<Rightarrow> (jval \<times> string) option" where
  "parse_num s =
     (let t = num_chars s; rest = drop (length t) s;
          u = (case t of c # t' \<Rightarrow> if c = CHR ''-'' then t' else t | [] \<Rightarrow> []);
          ip = takeWhile is_digit u
      in if int_part_ok ip \<and> frac_ok (dropWhile is_digit u)
         then Some (case js_number t of Int_num n \<Rightarrow> JNum n | Not_int \<Rightarrow> JFrac, rest)
         else None)"

fun parse_val :: "nat \<Rightarrow> string \<Rightarrow> (jval \<times> string) option"
  and parse_elems :: "nat \<Rightarrow> string \<Rightarrow> (jval list \<times> string) option"
  and parse_members :: "nat \<Rightarrow> string \<Rightarrow> ((string \<times> jval) list \<times> string) option" where
  "parse_val 0 s = None"
| "parse_val (Suc n) s =
     (case skip_ws s of
        [] \<Rightarrow> None
      | c # cs \<Rightarrow>
          if c = CHR 0x22 then map_option (\<lambda>(t, r). (JStr t, r)) (parse_str cs)
          else if c = CHR ''{'' then
            (case skip_ws cs of
               d # ds \<Rightarrow> if d = CHR ''}'' then Some (JObj [], ds)
                         else map_option (\<lambda>(ms, r). (JObj ms, r)) (parse_members n cs)
             | [] \<Rightarrow> None)
          else if c = CHR ''['' then
            (case skip_ws cs of
               d # ds \<Rightarrow> if d = CHR '']'' then Some (JArr [], ds)
                         else map_option (\<lambda>(vs, r). (JArr vs, r)) (parse_elems n cs)
             | [] \<Rightarrow> None)
          else if prefix ''true'' (c # cs) then Some (JBool True, drop 4 (c # cs))
          else if prefix ''false'' (c # cs) then Some (JBool False, drop 5 (c # cs))
          else if prefix ''null'' (c # cs) then Some (JNull, drop 4 (c # cs))
          else parse_num (c # cs))"
| "parse_elems 0 s = None"
| "parse_elems (Suc n) s =
     (case parse_val n s of
        None \<Rightarrow> None
      | Some (v, r) \<Rightarrow>
          (case skip_ws r of
             c # cs \<Rightarrow> if c = CHR '','' then map_option (\<lambda>(vs, r'). (v # vs, r')) (parse_elems n cs)
                       else if c = CHR '']'' then Some ([v], cs) else None
           | [] \<Rightarrow> None))"
| "parse_members 0 s = None"
| "parse_members (Suc n) s =
     (case skip_ws s of
        q # qs \<Rightarrow>
          if q \<noteq> CHR 0x22 then None
          else (case parse_str qs of
            None \<Rightarrow> None
          | Some (k, r) \<Rightarrow>
              (case skip_ws r of
                 c # cs \<Rightarrow>
                   if c \<noteq> CHR '':'' then None
                   else (case parse_val n cs of
                     None \<Rightarrow> None
                   | Some (v, r2) \<Rightarrow>
                       (case skip_ws r2 of
                          d # ds \<Rightarrow>
                            if d = CHR '','' then map_option (\<lambda>(ms, r'). ((k, v) # ms, r')) (parse_members n ds)
                            else if d = CHR ''}'' then Some ([(k, v)], ds) else None
                        | [] \<Rightarrow> None))
               | [] \<Rightarrow> None))
      | [] \<Rightarrow> None)"

definition JSON_parse :: "string \<Rightarrow> jval option" where
  "JSON_parse s =
     (case parse_val (2 * length s + 2) s of
        Some (v, r) \<Rightarrow> if skip_ws r = [] then Some v else None
      | None \<Rightarrow> None)"

section \<open>Reading parsed values\<close>

text \<open>
  \<open>v?.key\<close>: undefined (None) when \<open>v\<close> is undefined, null or not an object, the last value
  written for the key otherwise. \<open>nullish\<close> is the test of \<open>??\<close>.
\<close>

definition jget :: "jval option \<Rightarrow> string \<Rightarrow> jval option" where
  "jget v k = (case v of Some (JObj kvs) \<Rightarrow> map_of (rev kvs) k | _ \<Rightarrow> None)"

definition nullish :: "jval option \<Rightarrow> bool" where
  "nullish v \<longleftrightarrow> v = None \<or> v = Some JNull"

text \<open>\<open>v.key\<close>: a TypeError on undefined and null.\<close>

definition jprop :: "jval option \<Rightarrow> string \<Rightarrow> err + jval option" where
  "jprop v k = (if nullish v then Inl (Sys Type_error) else Inr (jget v k))"

text \<open>\<open>String(v)\<close>.\<close>

fun js_String :: "jval \<Rightarrow> string" where
  "js_String JNull = ''null''"
| "js_String (JBool b) = (if b then ''true'' else ''false'')"
| "js_String (JNum n) = show_int n"
| "js_String JFrac = ''NaN''"
| "js_String (JStr s) = s"
| "js_String (JArr vs) = join '','' (map (\<lambda>v. case v of JNull \<Rightarrow> [] | _ \<Rightarrow> js_String v) vs)"
| "js_String (JObj _) = ''[object Object]''"

definition js_String_opt :: "jval option \<Rightarrow> string" where
  "js_String_opt v = (case v of None \<Rightarrow> ''undefined'' | Some x \<Rightarrow> js_String x)"

definition js_truthy :: "jval option \<Rightarrow> bool" where
  "js_truthy v \<longleftrightarrow> (case v of None \<Rightarrow> False | Some JNull \<Rightarrow> False | Some (JBool b) \<Rightarrow> b
     | Some (JNum n) \<Rightarrow> n \<noteq> 0 | Some (JStr s) \<Rightarrow> s \<noteq> [] | Some _ \<Rightarrow> True)"

end
