(* ===== verification/PP_Time.thy ===== *)
theory PP_Time
  imports PP_Json
begin

text \<open>
  The parts of \<open>Date\<close> and \<open>JSON.stringify\<close> the sources use: milliseconds since the epoch from
  calendar fields (\<open>Date.UTC\<close>), the ISO 8601 text of a time (\<open>toISOString\<close>), and the
  two-space-indented JSON text of a value.
\<close>

section \<open>Calendar\<close>

text \<open>Days from 1970-01-01 to a proleptic Gregorian date; months count from 1.\<close>

definition days_from_civil :: "int \<Rightarrow> int \<Rightarrow> int \<Rightarrow> int" where
  "days_from_civil y m d =
     (let y' = (if m \<le> 2 then y - 1 else y); era = y' div 400; yoe = y' - era * 400;
          mp = (if m > 2 then m - 3 else m + 9); doy = (153 * mp + 2) div 5 + d - 1;
          doe = yoe * 365 + yoe div 4 - yoe div 100 + doy
      in era * 146097 + doe - 719468)"

definition civil_from_days :: "int \<Rightarrow> int \<times> int \<times> int" where
  "civil_from_days z0 =
     (let z = z0 + 719468; era = z div 146097; doe = z - era * 146097;
          yoe = (doe - doe div 1460 + doe div 36524 - doe div 146096) div 365;
          doy = doe - (365 * yoe + yoe div 4 - yoe div 100);
          mp = (5 * doy + 2) div 153; d = doy - (153 * mp + 2) div 5 + 1;
          m = (if mp < 10 then mp + 3 else mp - 9)
      in (yoe + era * 400 + (if m \<le> 2 then 1 else 0), m, d))"

text \<open>\<open>Date.UTC\<close>: the years 0 to 99 mean 1900 to 1999; a day out of range runs on.\<close>

definition date_utc :: "int \<Rightarrow> int \<Rightarrow> int \<Rightarrow> int \<Rightarrow> int \<Rightarrow> int \<Rightarrow> int" where
  "date_utc y monthIdx d h mi s =
     (let y' = (if 0 \<le> y \<and> y \<le> 99 then 1900 + y else y)
      in (((days_from_civil y' (monthIdx + 1) 1 + d - 1) * 24 + h) * 60 + mi) * 60000 + s * 1000)"

text \<open>A time more than \<open>8.64e15\<close> milliseconds away is an invalid date.\<close>

definition time_valid :: "int \<Rightarrow> bool" where
  "time_valid t \<longleftrightarrow> \<bar>t\<bar> \<le> 8640000000000000"

definition pad :: "nat \<Rightarrow> int \<Rightarrow> string" where
  "pad n i = (let s = show_nat (nat i) in replicate (n - length s) (CHR ''0'') @ s)"

definition iso :: "int \<Rightarrow> string" where
  "iso t =
     (let days = t div 86400000; ms = t mod 86400000; (y, m, d) = civil_from_days days;
          ys = (if 0 \<le> y \<and> y \<le> 9999 then pad 4 y else (if y < 0 then ''-'' else ''+'') @ pad 6 \<bar>y\<bar>)
      in ys @ ''-'' @ pad 2 m @ ''-'' @ pad 2 d @ ''T'' @ pad 2 (ms div 3600000) @ '':'' @
         pad 2 (ms div 60000 mod 60) @ '':'' @ pad 2 (ms div 1000 mod 60) @ ''.'' @ pad 3 (ms mod 1000) @ ''Z'')"

section \<open>JSON text\<close>

definition hex_digit :: "nat \<Rightarrow> char" where
  "hex_digit n = (if n < 10 then char_of (48 + n) else char_of (87 + n))"

definition quote_char :: "char \<Rightarrow> string" where
  "quote_char c =
     (if c = CHR 0x22 then [CHR 0x5C, c] else if c = CHR 0x5C then [CHR 0x5C, c]
      else if c = CHR 0x08 then [CHR 0x5C, CHR ''b''] else if c = CHR 0x0C then [CHR 0x5C, CHR ''f'']
      else if c = CHR 0x0A then [CHR 0x5C, CHR ''n''] else if c = CHR 0x0D then [CHR 0x5C, CHR ''r'']
      else if c = CHR 0x09 then [CHR 0x5C, CHR ''t'']
      else if cc c < 32 then [CHR 0x5C] @ ''u00'' @ [hex_digit (cc c div 16), hex_digit (cc c mod 16)]
      else [c])"

definition json_string :: "string \<Rightarrow> string" where
  "json_string s = dq @ concat (map quote_char s) @ dq"

definition indent :: "nat \<Rightarrow> string" where
  "indent n = replicate n (CHR '' '')"

fun pretty :: "nat \<Rightarrow> jval \<Rightarrow> string" where
  "pretty n JNull = ''null''"
| "pretty n (JBool b) = (if b then ''true'' else ''false'')"
| "pretty n (JNum i) = show_int i"
| "pretty n JFrac = ''null''"
| "pretty n (JStr s) = json_string s"
| "pretty n (JArr vs) =
     (if vs = [] then ''[]''
      else ''['' @ nl @ join ('','' @ nl) (map (\<lambda>v. indent (n + 2) @ pretty (n + 2) v) vs) @ nl @ indent n @ '']'')"
| "pretty n (JObj kvs) =
     (if kvs = [] then ''{}''
      else ''{'' @ nl @ join ('','' @ nl)
        (map (\<lambda>(k, v). indent (n + 2) @ json_string k @ '': '' @ pretty (n + 2) v) kvs) @ nl @ indent n @ ''}'')"

definition JSON_stringify :: "jval \<Rightarrow> string" where
  "JSON_stringify v = pretty 0 v"

section \<open>Strings survive printing and parsing\<close>

lemma hex_digit_val: "n < 16 \<Longrightarrow> hex_val (hex_digit n) = Some n"
  by (cases "n < 10") (simp_all add: hex_val_def hex_digit_def digit_of_radix_def class_defs)

lemma code_point_low: "h < 0xD800 \<Longrightarrow> code_point h r = (h, r)"
  by (simp add: code_point_def split: list.split)

lemma parse_str_quote_char:
  "parse_str (quote_char c @ r) = map_option (\<lambda>(t, r'). (c # t, r')) (parse_str r)"
proof (cases "c \<in> {CHR 0x22, CHR 0x5C, CHR 0x08, CHR 0x0C, CHR 0x0A, CHR 0x0D, CHR 0x09}")
  case True
  then show ?thesis by (auto simp: quote_char_def simple_escape_def cc_def)
next
  case False
  show ?thesis
  proof (cases "cc c < 32")
    case low: True
    have b: "cc c div 16 < 16" "cc c mod 16 < 16" using low by auto
    have "hex_val (CHR ''0'') = Some 0" by code_simp
    then have h: "read_hex4 (''00'' @ [hex_digit (cc c div 16), hex_digit (cc c mod 16)] @ r) = Some (cc c, r)"
      using b by (simp add: hex_digit_val)
    have u: "utf8 (cc c) = [c]" using low by (simp add: utf8_def cc_def)
    show ?thesis using False low h u
      by (simp add: quote_char_def code_point_low cc_def [of "CHR 0x5C"])
  next
    case high: False
    with False show ?thesis by (auto simp: quote_char_def)
  qed
qed

lemma parse_str_json_string: "parse_str (concat (map quote_char s) @ dq @ r) = Some (s, r)"
  by (induction s) (simp_all add: parse_str_quote_char dq_def)

end
