(* ===== verification/PP_Host.thy ===== *)
theory PP_Host
  imports PP_Time
begin

text \<open>
  The host the control plane runs on. \<open>world\<close> is what the modelled functions read and
  write: \<open>firewall.json\<close> and its backup, the SQLite tables, every other file by path, and
  the list of external commands issued so far. \<open>env\<close> holds what the code calls but does not
  contain: the external programs (\<open>nft\<close>, \<open>wg\<close>, \<open>systemctl\<close>, \<open>ssh-keygen\<close>, \<open>sshd\<close>, \<open>ss\<close>,
  \<open>docker\<close>, ...), whose answer to a command is an arbitrary function of the command and the
  commands before it; SHA-256; the collation order of \<open>localeCompare\<close>; file-system failures;
  the clock; the process environment and time zone; and the answers of the Incus and Caddy HTTP APIs (None
  when the request throws). Nothing is assumed of them in the definitions.

  Also here: \<open>cli/src/db/audit.js\<close>, which every component calls, and the atomic file write of
  \<open>cli/src/core/vpn/server.js\<close> that the other components import.
\<close>

section \<open>Environment and world\<close>

text \<open>
  A command issued through \<open>spawnSync\<close>: program, arguments, and the text the program is given
  to read, which is its standard input or, for \<open>nft -f\<close> and \<open>sshd -t -f\<close>, the content of the
  temporary file.
\<close>

datatype cmd = Cmd (cmd_prog: string) (cmd_args: "string list") (cmd_input: string)

text \<open>
  A \<open>spawnSync\<close> result. When the program could not be started the status, stdout and stderr
  are null and \<open>error\<close> carries the message.
\<close>

record proc =
  pr_status :: "int option"
  pr_stdout :: "string option"
  pr_stderr :: "string option"
  pr_error :: "string option"

record passwd =
  pw_uid :: int
  pw_gid :: int
  pw_home :: string

record env =
  env_now :: int
  env_spawn :: "cmd list \<Rightarrow> cmd \<Rightarrow> proc"
  env_sha256 :: "string \<Rightarrow> string"
  env_locale_le :: "string \<Rightarrow> string \<Rightarrow> bool"
  env_write_error :: "string \<Rightarrow> string option"
  env_chown_error :: "string \<Rightarrow> string option"
  env_read_error :: "string \<Rightarrow> string option"
  env_unlink_error :: "string \<Rightarrow> string option"
  env_SUDO_USER :: "string option"
  env_USER :: "string option"
  env_username :: string
  env_self :: "(string \<times> passwd) option"
  env_tz_offset :: "int \<Rightarrow> int"
  env_VPN_MTU :: "string option"
  env_SSHD_CONFIG :: "string option"
  env_SSHD_BACKUP_DIR :: "string option"
  env_has_run :: bool
  env_tmpdir :: string
  env_pid :: int
  env_instances :: "(string \<times> string) list option"
  env_incus_get :: "string \<Rightarrow> jval option"
  env_caddy_config :: "jval option"

record world =
  w_fw :: "fw_doc option"
  w_fw_bak :: "fw_doc option"
  w_fw_rules :: "fw_row list"
  w_fw_reconciles :: "reconcile_row list"
  w_audit :: "audit_row list"
  w_vpn_config :: "vpn_config option"
  w_peers :: "peer list"
  w_peer_seq :: int
  w_pool :: "pool_row list"
  w_ssh :: "ssh_row list"
  w_routes :: "route list"
  w_files :: "string \<rightharpoonup> string"
  w_cmds :: "cmd list"

type_synonym 'a io = "(world, err, 'a) eff"

section \<open>External commands\<close>

definition spawn :: "env \<Rightarrow> string \<Rightarrow> string list \<Rightarrow> string \<Rightarrow> proc io" where
  "spawn env prog args input w =
     (let c = Cmd prog args input
      in (Inr (env_spawn env (w_cmds w) c), w\<lparr>w_cmds := w_cmds w @ [c]\<rparr>))"

definition exit_ok :: "proc \<Rightarrow> bool" where
  "exit_ok r \<longleftrightarrow> pr_status r = Some 0"

definition truthy :: "string option \<Rightarrow> bool" where
  "truthy s \<longleftrightarrow> (case s of None \<Rightarrow> False | Some t \<Rightarrow> t \<noteq> [])"

text \<open>\<open>(r.stdout ?? '').trim()\<close>\<close>

definition out_trim :: "string option \<Rightarrow> string" where
  "out_trim s = (case s of None \<Rightarrow> [] | Some t \<Rightarrow> trim t)"

text \<open>\<open>spawnError\<close> of \<open>vpn/server.js\<close> and \<open>vpn/peer.js\<close>.\<close>

definition spawnError :: "proc \<Rightarrow> string" where
  "spawnError r =
     (if out_trim (pr_stderr r) \<noteq> [] then out_trim (pr_stderr r)
      else if out_trim (pr_stdout r) \<noteq> [] then out_trim (pr_stdout r)
      else case pr_error r of Some m \<Rightarrow> m | None \<Rightarrow> ''unknown error'')"

section \<open>Files\<close>

text \<open>
  \<open>atomicWrite\<close>: temporary sibling, chmod, rename. The target holds the old content or the
  new one; when the write throws it still holds the old one.
\<close>

definition atomicWrite :: "env \<Rightarrow> string \<Rightarrow> string \<Rightarrow> unit io" where
  "atomicWrite env path body w =
     (case env_write_error env path of
        Some m \<Rightarrow> (Inl (Sys (Fs_error m)), w)
      | None \<Rightarrow> (Inr (), w\<lparr>w_files := (w_files w)(path \<mapsto> body)\<rparr>))"

text \<open>An error of the file system the code does not catch; a missing file is not one.\<close>

definition fs_check :: "string option \<Rightarrow> unit io" where
  "fs_check e = (case e of None \<Rightarrow> ret () | Some m \<Rightarrow> throw (Sys (Fs_error m)))"

text \<open>\<open>fs.mkdirSync(dir, { recursive: true })\<close>: only its failure is visible.\<close>

definition mkdirs :: "env \<Rightarrow> string \<Rightarrow> unit io" where
  "mkdirs env dir = (case env_write_error env dir of None \<Rightarrow> ret () | Some m \<Rightarrow> throw (Sys (Fs_error m)))"

text \<open>
  The temporary directory of the nft files, and a file written with \<open>writeFileSync\<close> that one
  command reads and that is removed afterwards.
\<close>

definition runDir :: "env \<Rightarrow> string" where
  "runDir env = (if env_has_run env then ''/run/proxypilot'' else env_tmpdir env)"

definition with_temp_file :: "env \<Rightarrow> string \<Rightarrow> string \<Rightarrow> proc io \<Rightarrow> proc io" where
  "with_temp_file env path body m w =
     (case env_write_error env path of
        Some e \<Rightarrow> (Inl (Sys (Fs_error e)), w)
      | None \<Rightarrow>
          (case m (w\<lparr>w_files := (w_files w)(path \<mapsto> body)\<rparr>) of
             (r, w') \<Rightarrow> (r, w'\<lparr>w_files := (w_files w')(path := None)\<rparr>)))"

definition unlinkFile :: "string \<Rightarrow> unit io" where
  "unlinkFile path w = (Inr (), w\<lparr>w_files := (w_files w)(path := None)\<rparr>)"

text \<open>
  \<open>path.join(dir, name)\<close>: empty and dot segments are dropped, a double dot removes the segment
  before it, a trailing slash stays.
\<close>

fun norm_segments :: "bool \<Rightarrow> string list \<Rightarrow> string list \<Rightarrow> string list" where
  "norm_segments ab acc [] = rev acc"
| "norm_segments ab acc (x # xs) =
     (if x = [] \<or> x = ''.'' then norm_segments ab acc xs
      else if x = ''..'' then
        (if acc \<noteq> [] \<and> hd acc \<noteq> ''..'' then norm_segments ab (tl acc) xs
         else if ab then norm_segments ab acc xs else norm_segments ab (''..'' # acc) xs)
      else norm_segments ab (x # acc) xs)"

definition path_join :: "string \<Rightarrow> string \<Rightarrow> string" where
  "path_join dir name =
     (let p = (if dir = [] then name else if name = [] then dir else dir @ ''/'' @ name);
          ab = (p \<noteq> [] \<and> hd p = CHR ''/'');
          segs = norm_segments ab [] (split_on (CHR ''/'') p);
          slash = (if p \<noteq> [] \<and> last p = CHR ''/'' \<and> segs \<noteq> [] then ''/'' else [])
      in if ab then ''/'' @ join ''/'' segs @ slash
         else if segs = [] then ''.'' else join ''/'' segs @ slash)"

section \<open>Audit log\<close>

definition defaultActor :: "env \<Rightarrow> string" where
  "defaultActor env =
     (let user = (if truthy (env_USER env) then the (env_USER env) else env_username env)
      in if truthy (env_SUDO_USER env) then the (env_SUDO_USER env) @ '' (sudo)'' else user)"

definition audit :: "env \<Rightarrow> string \<Rightarrow> string \<Rightarrow> string option \<Rightarrow> string option \<Rightarrow>
    jval option \<Rightarrow> jval option \<Rightarrow> string option \<Rightarrow> unit io" where
  "audit env subsystem action resource actor before after detail w =
     (Inr (), w\<lparr>w_audit := w_audit w @
        [\<lparr>au_subsystem = subsystem, au_action = action, au_resource = resource,
          au_actor = (case actor of None \<Rightarrow> defaultActor env | Some a \<Rightarrow> a),
          au_before = before, au_after = after, au_detail = detail\<rparr>]\<rparr>)"

section \<open>Evaluation and frame laws\<close>

lemma spawn_apply [simp, eff_simps]:
  "spawn env p a i w = (Inr (env_spawn env (w_cmds w) (Cmd p a i)), w\<lparr>w_cmds := w_cmds w @ [Cmd p a i]\<rparr>)"
  by (simp add: spawn_def Let_def)

lemma unlinkFile_apply [simp, eff_simps]:
  "unlinkFile p w = (Inr (), w\<lparr>w_files := (w_files w)(p := None)\<rparr>)"
  by (simp add: unlinkFile_def)

lemma atomicWrite_ok [simp]:
  "env_write_error env p = None \<Longrightarrow>
    atomicWrite env p b w = (Inr (), w\<lparr>w_files := (w_files w)(p \<mapsto> b)\<rparr>)"
  by (simp add: atomicWrite_def)

lemma atomicWrite_Inr [eff_inv]:
  "atomicWrite env p b w = (Inr u, w') \<longleftrightarrow>
    env_write_error env p = None \<and> w' = w\<lparr>w_files := (w_files w)(p \<mapsto> b)\<rparr>"
  by (auto simp: atomicWrite_def split: option.splits)

lemma atomicWrite_all_or_nothing:
  "w_files (snd (atomicWrite env p b w)) p \<in> {w_files w p, Some b}"
  by (simp add: atomicWrite_def split: option.split)

lemma audit_apply [simp, eff_simps]:
  "audit env s a r ac b f d w =
     (Inr (), w\<lparr>w_audit := w_audit w @
        [\<lparr>au_subsystem = s, au_action = a, au_resource = r,
          au_actor = (case ac of None \<Rightarrow> defaultActor env | Some a \<Rightarrow> a),
          au_before = b, au_after = f, au_detail = d\<rparr>]\<rparr>)"
  by (simp add: audit_def)

lemma preserves_spawn [preserves_intros]:
  "(\<And>w cs. P w \<Longrightarrow> P (w\<lparr>w_cmds := cs\<rparr>)) \<Longrightarrow> preserves P (spawn env p a i)"
  by (simp add: preserves_def)

lemma preserves_audit [preserves_intros]:
  "(\<And>w l. P w \<Longrightarrow> P (w\<lparr>w_audit := l\<rparr>)) \<Longrightarrow> preserves P (audit env s a r ac b f d)"
  by (simp add: preserves_def)

lemma preserves_atomicWrite [preserves_intros]:
  "(\<And>w. P w \<Longrightarrow> P (w\<lparr>w_files := (w_files w)(p \<mapsto> b)\<rparr>)) \<Longrightarrow> preserves P (atomicWrite env p b)"
  by (simp add: preserves_def atomicWrite_def split: option.split)

lemma preserves_fs_check [preserves_intros]: "preserves P (fs_check e)"
  by (simp add: preserves_def fs_check_def split: option.split)

lemma fs_check_Inr [simp, eff_inv]: "fs_check e w = (Inr u, w') \<longleftrightarrow> e = None \<and> w' = w"
  by (auto simp: fs_check_def split: option.split)

lemma fs_check_None [simp, eff_simps]: "fs_check None w = (Inr (), w)"
  by (simp add: fs_check_def)

lemma preserves_unlinkFile [preserves_intros]:
  "(\<And>w. P w \<Longrightarrow> P (w\<lparr>w_files := (w_files w)(p := None)\<rparr>)) \<Longrightarrow> preserves P (unlinkFile p)"
  by (simp add: preserves_def)

lemma preserves_mkdirs [preserves_intros]: "preserves P (mkdirs env d)"
  by (simp add: mkdirs_def preserves_def split: option.split)

lemma preserves_with_temp_file [preserves_intros]:
  assumes "\<And>w f. P w \<Longrightarrow> P (w\<lparr>w_files := f\<rparr>)" and "preserves P m"
  shows "preserves P (with_temp_file env p b m)"
proof (rule preservesI)
  fix w assume "P w"
  then have "P (snd (m (w\<lparr>w_files := (w_files w)(p \<mapsto> b)\<rparr>)))"
    using assms by (auto simp: preserves_def)
  with \<open>P w\<close> assms(1) show "P (snd (with_temp_file env p b m w))"
    by (auto simp: with_temp_file_def split: option.split prod.split)
qed

end
