(* ===== verification/Fw_State.thy ===== *)
theory Fw_State
  imports PP_Host
begin

text \<open>
  \<open>cli/src/core/firewall/state.js\<close>: the base allowlist, the default document, reading and
  writing \<open>firewall.json\<close>, and the SQLite mirror that every write rebuilds. The well-formedness
  predicate \<open>fw_ok\<close> says what a document needs so that the mirror's constraints accept it;
  the locale \<open>doc_store\<close> is the read/write contract the firewall operations rely on.
\<close>

section \<open>Constants and the default document\<close>

definition STATE_FILE :: string where "STATE_FILE = ''/var/lib/proxypilot/firewall.json''"

definition STATE_VERSION :: int where "STATE_VERSION = 1"

definition base_rule :: "string \<Rightarrow> int \<Rightarrow> string \<Rightarrow> bool \<Rightarrow> string \<Rightarrow> int \<Rightarrow> rule" where
  "base_rule i p pr en rs ts =
     \<lparr>rl_id = i, rl_source = ''base'', rl_container = None, rl_process = None,
      rl_port_start = p, rl_port_end = None, rl_proto = pr, rl_scope = ''public'',
      rl_source_cidrs = None, rl_enabled = en, rl_reason = Some rs,
      rl_first_seen = ts, rl_last_seen = ts, rl_service = None,
      rl_enabled_at = None, rl_enabled_by = None, rl_disabled_at = None, rl_disabled_by = None\<rparr>"

definition DEFAULT_BASE :: "int \<Rightarrow> rule list" where
  "DEFAULT_BASE ts =
     [base_rule ''base-ssh'' 22 ''tcp'' True ''ssh'' ts,
      base_rule ''base-caddy-http'' 80 ''tcp'' True ''caddy-http'' ts,
      base_rule ''base-caddy-https'' 443 ''tcp'' True ''caddy-https'' ts,
      base_rule ''base-caddy-http3'' 443 ''udp'' False ''caddy-http3'' ts,
      base_rule ''base-wireguard'' 51820 ''udp'' False ''wireguard'' ts]"

definition defaultState :: "env \<Rightarrow> fw_state" where
  "defaultState env =
     \<lparr>fs_version = STATE_VERSION, fs_default_policy = ''deny'',
      fs_base = DEFAULT_BASE (env_now env), fs_discovered = [],
      fs_container_egress = Some [], fs_protected_upstreams = Some [],
      fs_panic_close = False, fs_network = None, fs_nat = None\<rparr>"

section \<open>The SQLite mirror\<close>

definition VALID_SCOPES :: "string list" where
  "VALID_SCOPES = [''public'', ''lan-only'', ''vpn-only'', ''localhost-only'']"

definition VALID_PROTOS :: "string list" where
  "VALID_PROTOS = [''tcp'', ''udp'']"

definition VALID_SOURCES :: "string list" where
  "VALID_SOURCES = [''base'', ''manual'', ''lxc'', ''docker'', ''caddy-l4'', ''host'', ''service-l4'']"

definition row_of :: "rule \<Rightarrow> fw_row" where
  "row_of r =
     \<lparr>fr_id = rl_id r, fr_source = rl_source r, fr_container = rl_container r,
      fr_process = rl_process r, fr_port_start = rl_port_start r, fr_port_end = rl_port_end r,
      fr_proto = rl_proto r, fr_scope = rl_scope r, fr_source_cidrs = rl_source_cidrs r,
      fr_enabled = (if rl_enabled r then 1 else 0), fr_reason = rl_reason r,
      fr_first_seen = rl_first_seen r, fr_last_seen = rl_last_seen r,
      fr_service = rl_service r\<rparr>"

text \<open>The CHECK constraints of the table \<open>firewall_rules\<close>.\<close>

definition fw_row_check :: "fw_row \<Rightarrow> bool" where
  "fw_row_check r \<longleftrightarrow> fr_source r \<in> set VALID_SOURCES \<and> fr_proto r \<in> set VALID_PROTOS
     \<and> fr_scope r \<in> set VALID_SCOPES"

definition insert_fw_row :: "fw_row \<Rightarrow> unit io" where
  "insert_fw_row r =
     bindE (getsE w_fw_rules) (\<lambda>rows.
     bindE (guardE (fw_row_check r \<and> fr_id r \<notin> fr_id ` set rows) (Sys Sqlite_constraint)) (\<lambda>_.
     modE (\<lambda>w. w\<lparr>w_fw_rules := w_fw_rules w @ [r]\<rparr>)))"

definition mirrorToSqlite :: "fw_state \<Rightarrow> unit io" where
  "mirrorToSqlite s = txE
     (bindE (modE (\<lambda>w. w\<lparr>w_fw_rules := []\<rparr>)) (\<lambda>_.
      forE (map row_of (rules_of s)) insert_fw_row))"

section \<open>Reading and writing\<close>

text \<open>
  The document is in place before it is mirrored. The mirror can run into a constraint of its table; other errors of SQLite
  are not modelled.
\<close>

definition writeState :: "env \<Rightarrow> fw_state \<Rightarrow> unit io" where
  "writeState env s =
     (case env_write_error env STATE_FILE of
        Some m \<Rightarrow> throw (Sys (Fs_error m))
      | None \<Rightarrow>
          bindE (modE (\<lambda>w. case w_fw w of
              None \<Rightarrow> w\<lparr>w_fw := Some (Doc s)\<rparr>
            | Some d \<Rightarrow> w\<lparr>w_fw_bak := Some d, w_fw := Some (Doc s)\<rparr>)) (\<lambda>_.
          mirrorToSqlite s))"

definition readState :: "env \<Rightarrow> fw_state io" where
  "readState env w =
     (case w_fw w of
        None \<Rightarrow> (let fresh = defaultState env in bindE (writeState env fresh) (\<lambda>_. ret fresh) w)
      | Some Not_json \<Rightarrow> (Inl (Sys Json_syntax), w)
      | Some (Doc s) \<Rightarrow>
          if fs_version s \<noteq> STATE_VERSION then (Inl (Fw (Unsupported_version (fs_version s))), w)
          else (Inr s, w))"

section \<open>Well-formed documents\<close>

definition ports_ok :: "rule \<Rightarrow> bool" where
  "ports_ok r \<longleftrightarrow> 1 \<le> rl_port_start r \<and> rl_port_start r \<le> 65535 \<and>
     (\<forall>e. rl_port_end r = Some e \<longrightarrow> rl_port_start r \<le> e \<and> e \<le> 65535)"

text \<open>
  Ports of scanned listeners are whatever the scanner printed; the ranges of the entries
  the control plane itself creates are checked.
\<close>

definition rule_ok :: "rule \<Rightarrow> bool" where
  "rule_ok r \<longleftrightarrow> rl_source r \<in> set VALID_SOURCES \<and> rl_proto r \<in> set VALID_PROTOS \<and>
     rl_scope r \<in> set VALID_SCOPES \<and>
     (rl_source r \<in> {''base'', ''manual'', ''service-l4''} \<longrightarrow> ports_ok r)"

definition ids :: "fw_state \<Rightarrow> string list" where
  "ids s = map rl_id (rules_of s)"

definition fw_ok :: "fw_state \<Rightarrow> bool" where
  "fw_ok s \<longleftrightarrow> fs_version s = STATE_VERSION \<and> distinct (ids s) \<and> list_all rule_ok (rules_of s)"

lemmas fw_ok_defs = fw_ok_def ids_def rules_of_def

lemma rules_of_sel [simp]:
  "rules_of (s\<lparr>fs_base := b\<rparr>) = b @ fs_discovered s"
  "rules_of (s\<lparr>fs_discovered := d\<rparr>) = fs_base s @ d"
  "rules_of (s\<lparr>fs_panic_close := p\<rparr>) = rules_of s"
  "rules_of (s\<lparr>fs_container_egress := e\<rparr>) = rules_of s"
  "rules_of (s\<lparr>fs_protected_upstreams := u\<rparr>) = rules_of s"
  "rules_of (s\<lparr>fs_nat := n\<rparr>) = rules_of s"
  by (simp_all add: rules_of_def)

lemma fw_ok_upd [simp]:
  "fw_ok (s\<lparr>fs_panic_close := p\<rparr>) = fw_ok s"
  "fw_ok (s\<lparr>fs_container_egress := e\<rparr>) = fw_ok s"
  "fw_ok (s\<lparr>fs_protected_upstreams := u\<rparr>) = fw_ok s"
  "fw_ok (s\<lparr>fs_nat := n\<rparr>) = fw_ok s"
  by (simp_all add: fw_ok_def ids_def)

lemma fw_okD:
  assumes "fw_ok s"
  shows "fs_version s = STATE_VERSION" and "distinct (ids s)"
    and "r \<in> set (rules_of s) \<Longrightarrow> rule_ok r"
  using assms by (auto simp: fw_ok_def list_all_iff)

lemma rule_ok_row: "rule_ok r \<Longrightarrow> fw_row_check (row_of r)"
  by (simp add: rule_ok_def fw_row_check_def row_of_def)

lemma fr_id_row_of [simp]: "fr_id (row_of r) = rl_id r"
  by (simp add: row_of_def)

lemma fw_ok_default [simp]: "fw_ok (defaultState env)"
  by (simp add: fw_ok_defs defaultState_def DEFAULT_BASE_def base_rule_def rule_ok_def ports_ok_def
      VALID_SOURCES_def VALID_PROTOS_def VALID_SCOPES_def)

section \<open>The mirror accepts well-formed documents\<close>

lemma insert_fw_rows_ok:
  "list_all fw_row_check rs \<Longrightarrow> distinct (map fr_id rs) \<Longrightarrow>
   fr_id ` set rs \<inter> fr_id ` set (w_fw_rules w) = {} \<Longrightarrow>
   forE rs insert_fw_row w = (Inr (), w\<lparr>w_fw_rules := w_fw_rules w @ rs\<rparr>)"
proof (induction rs arbitrary: w)
  case (Cons r rs)
  let ?w = "w\<lparr>w_fw_rules := w_fw_rules w @ [r]\<rparr>"
  have one: "insert_fw_row r w = (Inr (), ?w)"
    using Cons.prems by (auto simp: insert_fw_row_def)
  have "forE rs insert_fw_row ?w = (Inr (), ?w\<lparr>w_fw_rules := w_fw_rules ?w @ rs\<rparr>)"
    using Cons.prems by (intro Cons.IH) auto
  with one show ?case by simp
qed simp

lemma mirrorToSqlite_ok:
  assumes "fw_ok s"
  shows "mirrorToSqlite s w = (Inr (), w\<lparr>w_fw_rules := map row_of (rules_of s)\<rparr>)"
proof -
  have "forE (map row_of (rules_of s)) insert_fw_row (w\<lparr>w_fw_rules := []\<rparr>) =
      (Inr (), w\<lparr>w_fw_rules := map row_of (rules_of s)\<rparr>)"
    using assms by (subst insert_fw_rows_ok)
      (auto simp: fw_ok_def ids_def list_all_iff rule_ok_row o_def)
  then show ?thesis by (simp add: mirrorToSqlite_def)
qed

lemma fw_rules_same: "\<exists>rows. w = w\<lparr>w_fw_rules := rows\<rparr>"
  by (rule exI [of _ "w_fw_rules w"]) simp

lemma insert_fw_row_frame:
  "insert_fw_row r w = (x, w') \<Longrightarrow> \<exists>rows. w' = w\<lparr>w_fw_rules := rows\<rparr>"
  by (auto simp: insert_fw_row_def guardE_def bindE_def fw_rules_same split: if_splits)

lemma forE_insert_frame:
  "forE rs insert_fw_row w = (x, w') \<Longrightarrow> \<exists>rows. w' = w\<lparr>w_fw_rules := rows\<rparr>"
proof (induction rs arbitrary: w)
  case Nil
  then show ?case by (auto intro: exI [of _ "w_fw_rules w"])
next
  case (Cons r rs)
  show ?case
  proof (cases rule: bindE_cases [of "insert_fw_row r" w "\<lambda>_. forE rs insert_fw_row"])
    case (err e v)
    with Cons.prems insert_fw_row_frame [OF err(1)] show ?thesis by auto
  next
    case (ok a v)
    with Cons insert_fw_row_frame [OF ok(1)] show ?thesis by fastforce
  qed
qed

lemma mirrorToSqlite_frame:
  "mirrorToSqlite s w = (x, w') \<Longrightarrow> \<exists>rows. w' = w\<lparr>w_fw_rules := rows\<rparr>"
proof -
  assume a: "mirrorToSqlite s w = (x, w')"
  let ?m = "bindE (modE (\<lambda>w. w\<lparr>w_fw_rules := []\<rparr>)) (\<lambda>_. forE (map row_of (rules_of s)) insert_fw_row)"
  obtain y v where m: "?m w = (y, v)" by (cases "?m w")
  then have "\<exists>rows. v = w\<lparr>w_fw_rules := rows\<rparr>"
    using forE_insert_frame [of _ "w\<lparr>w_fw_rules := []\<rparr>"] by simp
  with a m show ?thesis
    by (cases y) (auto simp: mirrorToSqlite_def intro: exI [of _ "w_fw_rules w"])
qed

lemma preserves_mirrorToSqlite [preserves_intros]:
  "(\<And>w rows. P w \<Longrightarrow> P (w\<lparr>w_fw_rules := rows\<rparr>)) \<Longrightarrow> preserves P (mirrorToSqlite s)"
  by (rule preservesI) (metis mirrorToSqlite_frame prod.collapse)

section \<open>The store contract\<close>

text \<open>\<open>fw_holds w s\<close>: \<open>firewall.json\<close> is the well-formed document \<open>s\<close> and the table mirrors it.\<close>

definition fw_holds :: "world \<Rightarrow> fw_state \<Rightarrow> bool" where
  "fw_holds w s \<longleftrightarrow> w_fw w = Some (Doc s) \<and> fw_ok s \<and> w_fw_rules w = map row_of (rules_of s)"

text \<open>The world after a successful write of \<open>s\<close>.\<close>

definition fw_written :: "fw_state \<Rightarrow> world \<Rightarrow> world" where
  "fw_written s w = w\<lparr>w_fw := Some (Doc s),
     w_fw_bak := (case w_fw w of None \<Rightarrow> w_fw_bak w | Some d \<Rightarrow> Some d),
     w_fw_rules := map row_of (rules_of s)\<rparr>"

lemma writeState_ok:
  "fw_ok s \<Longrightarrow> env_write_error env STATE_FILE = None \<Longrightarrow>
    writeState env s w = (Inr (), fw_written s w)"
  by (cases "w_fw w") (simp_all add: writeState_def mirrorToSqlite_ok fw_written_def)

lemma writeState_fs_error:
  "env_write_error env STATE_FILE = Some m \<Longrightarrow> writeState env s w = (Inl (Sys (Fs_error m)), w)"
  by (simp add: writeState_def)

lemma fw_written_holds [simp]: "fw_ok s \<Longrightarrow> fw_holds (fw_written s w) s"
  by (simp add: fw_holds_def fw_written_def)

lemma fw_written_sel [simp]:
  "w_fw (fw_written s w) = Some (Doc s)"
  "w_fw_rules (fw_written s w) = map row_of (rules_of s)"
  "w_fw_reconciles (fw_written s w) = w_fw_reconciles w"
  "w_audit (fw_written s w) = w_audit w"
  "w_vpn_config (fw_written s w) = w_vpn_config w"
  "w_peers (fw_written s w) = w_peers w"
  "w_peer_seq (fw_written s w) = w_peer_seq w"
  "w_pool (fw_written s w) = w_pool w"
  "w_ssh (fw_written s w) = w_ssh w"
  "w_routes (fw_written s w) = w_routes w"
  "w_files (fw_written s w) = w_files w"
  "w_cmds (fw_written s w) = w_cmds w"
  by (simp_all add: fw_written_def)

lemma readState_holds [simp]: "fw_holds w s \<Longrightarrow> readState env w = (Inr s, w)"
  by (simp add: readState_def fw_holds_def fw_ok_def)

lemma readState_fresh:
  "w_fw w = None \<Longrightarrow> env_write_error env STATE_FILE = None \<Longrightarrow>
    readState env w = (Inr (defaultState env), fw_written (defaultState env) w)"
  by (simp add: readState_def writeState_ok Let_def)

lemma preserves_writeState [preserves_intros]:
  assumes "\<And>w d. P w \<Longrightarrow> P (w\<lparr>w_fw := d\<rparr>)" and "\<And>w d. P w \<Longrightarrow> P (w\<lparr>w_fw_bak := d\<rparr>)"
    and "\<And>w d. P w \<Longrightarrow> P (w\<lparr>w_fw_rules := d\<rparr>)"
  shows "preserves P (writeState env s)"
  unfolding writeState_def
  by (auto intro!: preserves_intros assms split: option.split)

lemma preserves_readState [preserves_intros]:
  assumes "\<And>w d. P w \<Longrightarrow> P (w\<lparr>w_fw := d\<rparr>)" and "\<And>w d. P w \<Longrightarrow> P (w\<lparr>w_fw_bak := d\<rparr>)"
    and "\<And>w d. P w \<Longrightarrow> P (w\<lparr>w_fw_rules := d\<rparr>)"
  shows "preserves P (readState env)"
proof (rule preservesI)
  fix w assume "P w"
  moreover have "preserves P (bindE (writeState env (defaultState env)) (\<lambda>_. ret (defaultState env)))"
    by (intro preserves_intros assms)
  ultimately show "P (snd (readState env w))"
    by (auto simp: readState_def Let_def preserves_def split: option.splits fw_doc.splits)
qed

text \<open>
  Interface: a component that keeps one document in a store reads it, computes the next one
  and writes it back. The provider promises that a read returns what is held and that an
  accepted write is held afterwards.
\<close>

locale doc_store =
  fixes read_doc :: "('w, 'e, 's) eff"
    and write_doc :: "'s \<Rightarrow> ('w, 'e, unit) eff"
    and doc_ok :: "'s \<Rightarrow> bool"
    and holds :: "'w \<Rightarrow> 's \<Rightarrow> bool"
    and written :: "'s \<Rightarrow> 'w \<Rightarrow> 'w"
    and writable :: bool
  assumes read_holds: "holds w s \<Longrightarrow> read_doc w = (Inr s, w)"
    and holds_ok: "holds w s \<Longrightarrow> doc_ok s"
    and write_ok: "writable \<Longrightarrow> doc_ok s \<Longrightarrow> write_doc s w = (Inr (), written s w)"
    and written_holds: "doc_ok s \<Longrightarrow> holds (written s w) s"
begin

text \<open>A read-compute-write that keeps documents well-formed keeps the store consistent.\<close>

lemma update_commits:
  assumes "holds w s" and "f s = Inr (t, a)" and "doc_ok t" and "writable"
  shows "bindE read_doc (\<lambda>s. bindE (liftE (f s)) (\<lambda>(t, a). bindE (write_doc t) (\<lambda>_. k t a))) w =
    k t a (written t w) \<and> holds (written t w) t"
  using assms by (simp add: read_holds write_ok written_holds)

text \<open>A computation that throws leaves the world as it was.\<close>

lemma update_throws:
  assumes "holds w s" and "f s = Inl e"
  shows "bindE read_doc (\<lambda>s. bindE (liftE (f s)) g) w = (Inl e, w)"
  using assms by (simp add: read_holds)

lemma read_after_write:
  assumes "writable" and "doc_ok s"
  shows "bindE (write_doc s) (\<lambda>_. read_doc) w = (Inr s, written s w)"
  using assms by (simp add: write_ok read_holds [OF written_holds])

end

interpretation fw_store: doc_store "readState env" "writeState env" fw_ok fw_holds fw_written
  "env_write_error env STATE_FILE = None" for env
  by unfold_locales (auto simp: writeState_ok fw_holds_def readState_def fw_ok_def)

section \<open>The invariant of the store\<close>

definition base_ids :: "fw_state \<Rightarrow> string list" where
  "base_ids s = map rl_id (fs_base s)"

definition DEFAULT_IDS :: "string list" where
  "DEFAULT_IDS = map rl_id (DEFAULT_BASE 0)"

text \<open>
  The document is well-formed, mirrored, and has the base entries \<open>B\<close>; before the first read
  there is no document, and the base entries will be the default ones.
\<close>

definition fw_inv :: "string list \<Rightarrow> world \<Rightarrow> bool" where
  "fw_inv B w \<longleftrightarrow> w_fw w = None \<and> B = DEFAULT_IDS \<or> (\<exists>s. fw_holds w s \<and> base_ids s = B)"

lemma base_ids_upd [simp]:
  "base_ids (s\<lparr>fs_discovered := d\<rparr>) = base_ids s"
  "base_ids (s\<lparr>fs_panic_close := p\<rparr>) = base_ids s"
  "base_ids (s\<lparr>fs_container_egress := e\<rparr>) = base_ids s"
  "base_ids (s\<lparr>fs_protected_upstreams := u\<rparr>) = base_ids s"
  "base_ids (s\<lparr>fs_nat := n\<rparr>) = base_ids s"
  by (simp_all add: base_ids_def)

lemma base_ids_default [simp]: "base_ids (defaultState env) = DEFAULT_IDS"
  by (simp add: base_ids_def defaultState_def DEFAULT_IDS_def DEFAULT_BASE_def base_rule_def)

lemma fw_holds_upd [simp]:
  "fw_holds (w\<lparr>w_cmds := x1\<rparr>) s = fw_holds w s" "fw_holds (w\<lparr>w_audit := x2\<rparr>) s = fw_holds w s"
  "fw_holds (w\<lparr>w_files := x3\<rparr>) s = fw_holds w s" "fw_holds (w\<lparr>w_peers := x4\<rparr>) s = fw_holds w s"
  "fw_holds (w\<lparr>w_pool := x5\<rparr>) s = fw_holds w s" "fw_holds (w\<lparr>w_fw_reconciles := x6\<rparr>) s = fw_holds w s"
  "fw_holds (w\<lparr>w_vpn_config := x7\<rparr>) s = fw_holds w s" "fw_holds (w\<lparr>w_peer_seq := x8\<rparr>) s = fw_holds w s"
  "fw_holds (w\<lparr>w_routes := x9\<rparr>) s = fw_holds w s" "fw_holds (w\<lparr>w_ssh := x10\<rparr>) s = fw_holds w s"
  "fw_holds (w\<lparr>w_fw_bak := x11\<rparr>) s = fw_holds w s"
  by (simp_all add: fw_holds_def)

lemma fw_inv_upd [simp]:
  "fw_inv B (w\<lparr>w_cmds := x1\<rparr>) = fw_inv B w" "fw_inv B (w\<lparr>w_audit := x2\<rparr>) = fw_inv B w"
  "fw_inv B (w\<lparr>w_files := x3\<rparr>) = fw_inv B w" "fw_inv B (w\<lparr>w_peers := x4\<rparr>) = fw_inv B w"
  "fw_inv B (w\<lparr>w_pool := x5\<rparr>) = fw_inv B w" "fw_inv B (w\<lparr>w_fw_reconciles := x6\<rparr>) = fw_inv B w"
  "fw_inv B (w\<lparr>w_vpn_config := x7\<rparr>) = fw_inv B w" "fw_inv B (w\<lparr>w_peer_seq := x8\<rparr>) = fw_inv B w"
  "fw_inv B (w\<lparr>w_routes := x9\<rparr>) = fw_inv B w" "fw_inv B (w\<lparr>w_ssh := x10\<rparr>) = fw_inv B w"
  by (simp_all add: fw_inv_def)

lemma fw_inv_holds: "fw_holds w s \<Longrightarrow> base_ids s = B \<Longrightarrow> fw_inv B w"
  by (auto simp: fw_inv_def)

lemma fw_inv_written: "fw_ok t \<Longrightarrow> base_ids t = B \<Longrightarrow> fw_inv B (fw_written t w)"
  by (rule fw_inv_holds) simp_all

lemma fw_inv_write [preserves_intros]:
  "fw_ok t \<Longrightarrow> base_ids t = B \<Longrightarrow> preserves (fw_inv B) (writeState env t)"
  by (rule preservesI)
    (cases "env_write_error env STATE_FILE", auto simp: writeState_ok writeState_fs_error fw_inv_written)

text \<open>An operation that starts by reading only has to be looked at on what it read.\<close>

lemma fw_inv_read:
  assumes "\<And>s w. fw_holds w s \<Longrightarrow> base_ids s = B \<Longrightarrow> fw_inv B (snd (k s w))"
  shows "preserves (fw_inv B) (bindE (readState env) k)"
proof (rule preservesI)
  fix w assume "fw_inv B w"
  then consider "w_fw w = None" "B = DEFAULT_IDS" | s where "fw_holds w s" "base_ids s = B"
    by (auto simp: fw_inv_def)
  then show "fw_inv B (snd (bindE (readState env) k w))"
  proof cases
    case 1
    show ?thesis
    proof (cases "env_write_error env STATE_FILE")
      case None
      moreover have "fw_inv B (snd (k (defaultState env) (fw_written (defaultState env) w)))"
        using 1 by (intro assms) simp_all
      ultimately show ?thesis using 1 by (simp add: readState_fresh)
    next
      case (Some m)
      with 1 show ?thesis by (simp add: readState_def Let_def writeState_fs_error fw_inv_def bindE_def)
    qed
  next
    case 2
    then show ?thesis by (simp add: assms)
  qed
qed

text \<open>The same, for a continuation that keeps the invariant whatever it read.\<close>

lemma fw_inv_read_any [preserves_intros]:
  assumes "\<And>s. fw_ok s \<Longrightarrow> base_ids s = B \<Longrightarrow> preserves (fw_inv B) (k s)"
  shows "preserves (fw_inv B) (bindE (readState env) k)"
proof (rule fw_inv_read)
  fix s w assume h: "fw_holds w s" "base_ids s = B"
  then have "preserves (fw_inv B) (k s)" by (intro assms) (auto simp: fw_holds_def)
  with h show "fw_inv B (snd (k s w))" by (auto simp: preserves_def dest: fw_inv_holds)
qed

end
