(* ===== verification/Fw_Toggle.thy ===== *)
theory Fw_Toggle
  imports Fw_State
begin

text \<open>
  \<open>cli/src/core/firewall/toggle.js\<close>: the operator's changes to the rule set. Each operation
  reads the document, computes the next one (the \<open>_doc\<close> functions, which throw what the
  source throws), writes it and appends an audit row. The locale \<open>rule_mutator\<close> is the
  contract between \<open>mutate\<close> and the callbacks passed to it.
\<close>

section \<open>JSON views for the audit log\<close>

definition rule_json :: "rule \<Rightarrow> jval" where
  "rule_json r = JObj
     [(''id'', JStr (rl_id r)), (''source'', JStr (rl_source r)),
      (''container'', jopt JStr (rl_container r)), (''process'', jopt JStr (rl_process r)),
      (''port_start'', JNum (rl_port_start r)), (''port_end'', jopt JNum (rl_port_end r)),
      (''proto'', JStr (rl_proto r)), (''scope'', JStr (rl_scope r)),
      (''source_cidrs'', jopt jstrs (rl_source_cidrs r)), (''enabled'', JBool (rl_enabled r)),
      (''reason'', jopt JStr (rl_reason r)), (''first_seen'', JNum (rl_first_seen r)),
      (''last_seen'', JNum (rl_last_seen r)), (''service'', jopt JStr (rl_service r)),
      (''enabled_at'', jopt JNum (rl_enabled_at r)), (''enabled_by'', jopt JStr (rl_enabled_by r)),
      (''disabled_at'', jopt JNum (rl_disabled_at r)),
      (''disabled_by'', jopt JStr (rl_disabled_by r))]"

section \<open>Service tags and lookup\<close>

definition SERVICE_TAG_RE :: "string \<Rightarrow> bool" where
  "SERVICE_TAG_RE s \<longleftrightarrow> 1 \<le> length s \<and> length s \<le> 64 \<and> list_all is_tag s"

definition applyServiceTag :: "rule \<Rightarrow> string option \<Rightarrow> err + rule \<times> string list" where
  "applyServiceTag r service =
     (case service of
        None \<Rightarrow> Inr (r, [])
      | Some s \<Rightarrow>
          if s = [] then Inr (r\<lparr>rl_service := None\<rparr>, [])
          else if \<not> SERVICE_TAG_RE s then Inl (Fw (Invalid_service_tag s))
          else Inr (r\<lparr>rl_service := Some s\<rparr>,
            if rl_scope r \<noteq> ''vpn-only''
            then [''service tag '' @ dq @ s @ dq @ '' set on rule '' @ rl_id r @
                  '' which has scope='' @ rl_scope r @
                  ''; tag is only consulted when the rule's scope is vpn-only'']
            else []))"

definition findRule :: "fw_state \<Rightarrow> string \<Rightarrow> rule option" where
  "findRule s i = find (\<lambda>r. rl_id r = i) (rules_of s)"

definition panicGuard :: "fw_state \<Rightarrow> string \<Rightarrow> err + unit" where
  "panicGuard s action =
     guardR (\<not> (fs_panic_close s \<and> action \<in> {''enable'', ''set-scope'', ''add-manual''})) (Fw Panic_closed)"

section \<open>mutate\<close>

fun replace_first :: "string \<Rightarrow> rule \<Rightarrow> rule list \<Rightarrow> rule list" where
  "replace_first i r [] = []"
| "replace_first i r (x # xs) = (if rl_id x = i then r # xs else x # replace_first i r xs)"

text \<open>The object found by \<open>findRule\<close> is changed in place, in the array that holds it.\<close>

definition replace_rule :: "string \<Rightarrow> rule \<Rightarrow> fw_state \<Rightarrow> fw_state" where
  "replace_rule i r s =
     (if list_ex (\<lambda>x. rl_id x = i) (fs_base s)
      then s\<lparr>fs_base := replace_first i r (fs_base s)\<rparr>
      else s\<lparr>fs_discovered := replace_first i r (fs_discovered s)\<rparr>)"

definition mutate_doc :: "string \<Rightarrow> string \<Rightarrow> (rule \<Rightarrow> err + rule \<times> string list) \<Rightarrow> fw_state \<Rightarrow>
    err + fw_state \<times> rule \<times> string list" where
  "mutate_doc i action fn s =
     bindR (panicGuard s action) (\<lambda>_.
     case findRule s i of
       None \<Rightarrow> Inl (Fw (Rule_not_found i))
     | Some before \<Rightarrow> bindR (fn before) (\<lambda>(r, ws). Inr (replace_rule i r s, before, ws)))"

definition mutate :: "env \<Rightarrow> string \<Rightarrow> string \<Rightarrow> string option \<Rightarrow>
    (rule \<Rightarrow> err + rule \<times> string list) \<Rightarrow> (rule option \<times> string list) io" where
  "mutate env i action actor fn =
     bindE (readState env) (\<lambda>s.
     bindE (liftE (mutate_doc i action fn s)) (\<lambda>(t, before, ws).
     bindE (writeState env t) (\<lambda>_.
     bindE (audit env ''firewall'' action (Some i) actor (Some (rule_json before))
       (map_option rule_json (findRule t i)) None) (\<lambda>_.
     ret (findRule t i, ws)))))"

definition enable_fn :: "env \<Rightarrow> string option \<Rightarrow> string list option \<Rightarrow> string option \<Rightarrow>
    string option \<Rightarrow> rule \<Rightarrow> err + rule \<times> string list" where
  "enable_fn env scope sourceCidrs service actor r =
     (let r1 = r\<lparr>rl_enabled := True, rl_enabled_at := Some (env_now env), rl_enabled_by := actor\<rparr>
      in bindR (case scope of
           None \<Rightarrow> Inr r1
         | Some sc \<Rightarrow> if sc = [] then Inr r1
                      else if sc \<notin> set VALID_SCOPES then Inl (Fw (Invalid_scope sc))
                      else Inr (r1\<lparr>rl_scope := sc\<rparr>)) (\<lambda>r2.
         let r3 = (case sourceCidrs of Some (c # cs) \<Rightarrow> r2\<lparr>rl_source_cidrs := Some (c # cs)\<rparr> | _ \<Rightarrow> r2)
         in applyServiceTag r3 service))"

definition fw_enable :: "env \<Rightarrow> string \<Rightarrow> string option \<Rightarrow> string list option \<Rightarrow> string option \<Rightarrow>
    string option \<Rightarrow> (rule option \<times> string list) io" where
  "fw_enable env i scope sourceCidrs service actor =
     mutate env i ''enable'' actor (enable_fn env scope sourceCidrs service actor)"

definition disable_fn :: "env \<Rightarrow> string option \<Rightarrow> rule \<Rightarrow> err + rule \<times> string list" where
  "disable_fn env actor r =
     Inr (r\<lparr>rl_enabled := False, rl_disabled_at := Some (env_now env), rl_disabled_by := actor\<rparr>, [])"

definition fw_disable :: "env \<Rightarrow> string \<Rightarrow> string option \<Rightarrow> (rule option \<times> string list) io" where
  "fw_disable env i actor = mutate env i ''disable'' actor (disable_fn env actor)"

definition port_in :: "int \<Rightarrow> jsnum \<Rightarrow> bool" where
  "port_in lo p \<longleftrightarrow> (case p of Int_num n \<Rightarrow> lo \<le> n \<and> n \<le> 65535 | Not_int \<Rightarrow> False)"

fun num_val :: "jsnum \<Rightarrow> int" where
  "num_val (Int_num n) = n"
| "num_val Not_int = 0"

definition set_port_fn :: "int \<Rightarrow> int option \<Rightarrow> rule \<Rightarrow> err + rule \<times> string list" where
  "set_port_fn p pe r = Inr (r\<lparr>rl_port_start := p, rl_port_end := pe\<rparr>, [])"

definition setPort :: "env \<Rightarrow> string \<Rightarrow> jsnum \<Rightarrow> jsnum option \<Rightarrow> string option \<Rightarrow>
    (rule option \<times> string list) io" where
  "setPort env i port portEnd actor =
     bindE (guardE (port_in 1 port) (Fw Invalid_port)) (\<lambda>_.
     bindE (guardE (case portEnd of None \<Rightarrow> True | Some e \<Rightarrow> port_in (num_val port) e)
       (Fw Invalid_port_range)) (\<lambda>_.
     mutate env i ''set-port'' actor (set_port_fn (num_val port) (map_option num_val portEnd))))"

definition set_scope_fn :: "string \<Rightarrow> string list option \<Rightarrow> string option \<Rightarrow> rule \<Rightarrow>
    err + rule \<times> string list" where
  "set_scope_fn scope sourceCidrs service r =
     (let r1 = r\<lparr>rl_scope := scope\<rparr>;
          r2 = (case sourceCidrs of
                  None \<Rightarrow> r1
                | Some [] \<Rightarrow> r1\<lparr>rl_source_cidrs := None\<rparr>
                | Some (c # cs) \<Rightarrow> r1\<lparr>rl_source_cidrs := Some (c # cs)\<rparr>)
      in applyServiceTag r2 service)"

definition setScope :: "env \<Rightarrow> string \<Rightarrow> string \<Rightarrow> string list option \<Rightarrow> string option \<Rightarrow>
    string option \<Rightarrow> (rule option \<times> string list) io" where
  "setScope env i scope sourceCidrs service actor =
     bindE (guardE (scope \<in> set VALID_SCOPES) (Fw (Invalid_scope scope))) (\<lambda>_.
     mutate env i ''set-scope'' actor (set_scope_fn scope sourceCidrs service))"

section \<open>Manual and L4-forward rules\<close>

record add_args =
  aa_port :: jsnum
  aa_port_end :: "jsnum option"
  aa_proto :: string
  aa_scope :: "string option"
  aa_reason :: "string option"
  aa_source_cidrs :: "string list option"
  aa_service :: "string option"
  aa_actor :: "string option"

text \<open>The checks \<open>addManual\<close> and \<open>addServiceL4\<close> share, in their order.\<close>

definition check_add_args :: "string \<Rightarrow> add_args \<Rightarrow> err + unit" where
  "check_add_args scope a =
     bindR (guardR (scope \<in> set VALID_SCOPES) (Fw (Invalid_scope scope))) (\<lambda>_.
     bindR (guardR (aa_proto a = ''tcp'' \<or> aa_proto a = ''udp'') (Fw (Invalid_proto (aa_proto a)))) (\<lambda>_.
     bindR (guardR (port_in 1 (aa_port a)) (Fw Invalid_port)) (\<lambda>_.
     bindR (guardR (case aa_port_end a of None \<Rightarrow> True | Some e \<Rightarrow> port_in (num_val (aa_port a)) e)
       (Fw Invalid_port_range)) (\<lambda>_.
     guardR (truthy (aa_reason a)) (Fw Reason_required)))))"

definition added_rule :: "env \<Rightarrow> string \<Rightarrow> string \<Rightarrow> string \<Rightarrow> add_args \<Rightarrow> rule" where
  "added_rule env i source scope a =
     \<lparr>rl_id = i, rl_source = source, rl_container = None, rl_process = None,
      rl_port_start = num_val (aa_port a), rl_port_end = map_option num_val (aa_port_end a),
      rl_proto = aa_proto a, rl_scope = scope,
      rl_source_cidrs = (case aa_source_cidrs a of Some (c # cs) \<Rightarrow> Some (c # cs) | _ \<Rightarrow> None),
      rl_enabled = True, rl_reason = aa_reason a,
      rl_first_seen = env_now env, rl_last_seen = env_now env, rl_service = None,
      rl_enabled_at = Some (env_now env), rl_enabled_by = aa_actor a,
      rl_disabled_at = None, rl_disabled_by = None\<rparr>"

definition port_range_str :: "int \<Rightarrow> int option \<Rightarrow> string" where
  "port_range_str p pe =
     (case pe of Some e \<Rightarrow> if e \<noteq> 0 \<and> e \<noteq> p then show_int p @ ''-'' @ show_int e else show_int p
      | None \<Rightarrow> show_int p)"

definition manual_id :: "add_args \<Rightarrow> string" where
  "manual_id a = ''manual-host-operator-'' @
     port_range_str (num_val (aa_port a)) (map_option num_val (aa_port_end a)) @ ''-'' @ aa_proto a"

text \<open>\<open>state.discovered.sort((a, b) => a.id.localeCompare(b.id))\<close>\<close>

definition sort_rules :: "env \<Rightarrow> rule list \<Rightarrow> rule list" where
  "sort_rules env = sort_by (\<lambda>a b. env_locale_le env (rl_id a) (rl_id b))"

definition add_doc :: "env \<Rightarrow> string \<Rightarrow> string \<Rightarrow> string \<Rightarrow> string \<Rightarrow> add_args \<Rightarrow> fw_state \<Rightarrow>
    err + fw_state \<times> rule \<times> string list" where
  "add_doc env action i source scope a s =
     bindR (panicGuard s action) (\<lambda>_.
     bindR (guardR (findRule s i = None) (Fw (Rule_exists i))) (\<lambda>_.
     bindR (applyServiceTag (added_rule env i source scope a) (aa_service a)) (\<lambda>(r, ws).
     Inr (s\<lparr>fs_discovered := sort_rules env (fs_discovered s @ [r])\<rparr>, r, ws))))"

definition commit_add :: "env \<Rightarrow> string \<Rightarrow> string \<Rightarrow> string \<Rightarrow> string \<Rightarrow> add_args \<Rightarrow> (rule \<times> string list) io" where
  "commit_add env action i source scope a =
     bindE (readState env) (\<lambda>s.
     bindE (liftE (add_doc env action i source scope a s)) (\<lambda>(t, r, ws).
     bindE (writeState env t) (\<lambda>_.
     bindE (audit env ''firewall'' action (Some i) (aa_actor a) None (Some (rule_json r)) None) (\<lambda>_.
     ret (r, ws)))))"

definition addManual :: "env \<Rightarrow> add_args \<Rightarrow> (rule \<times> string list) io" where
  "addManual env a =
     (let scope = (case aa_scope a of Some sc \<Rightarrow> sc | None \<Rightarrow> ''undefined'')
      in bindE (liftE (check_add_args scope a)) (\<lambda>_.
         commit_add env ''add-manual'' (manual_id a) ''manual'' scope a))"

definition addServiceL4 :: "env \<Rightarrow> string \<Rightarrow> add_args \<Rightarrow> (rule \<times> string list) io" where
  "addServiceL4 env i a =
     (let scope = (case aa_scope a of Some sc \<Rightarrow> sc | None \<Rightarrow> ''public'')
      in bindE (guardE (starts_with i ''service-l4-'') (Fw (Not_service_l4_id i))) (\<lambda>_.
         bindE (liftE (check_add_args scope a)) (\<lambda>_.
         commit_add env ''add-service-l4'' i ''service-l4'' scope a)))"

fun remove_first :: "string \<Rightarrow> rule list \<Rightarrow> rule list" where
  "remove_first i [] = []"
| "remove_first i (x # xs) = (if rl_id x = i then xs else x # remove_first i xs)"

definition remove_doc :: "string \<Rightarrow> string \<Rightarrow> fw_state \<Rightarrow> err + fw_state \<times> rule" where
  "remove_doc source i s =
     (case find (\<lambda>r. rl_id r = i) (fs_discovered s) of
        None \<Rightarrow> Inl (Fw (Rule_not_found i))
      | Some r \<Rightarrow>
          if rl_source r \<noteq> source then Inl (Fw (Not_removable i (rl_source r)))
          else Inr (s\<lparr>fs_discovered := remove_first i (fs_discovered s)\<rparr>, r))"

definition commit_remove :: "env \<Rightarrow> string \<Rightarrow> string \<Rightarrow> string \<Rightarrow> string option \<Rightarrow> rule io" where
  "commit_remove env action source i actor =
     bindE (readState env) (\<lambda>s.
     bindE (liftE (remove_doc source i s)) (\<lambda>(t, r).
     bindE (writeState env t) (\<lambda>_.
     bindE (audit env ''firewall'' action (Some i) actor (Some (rule_json r)) None None) (\<lambda>_.
     ret r))))"

definition removeServiceL4 :: "env \<Rightarrow> string \<Rightarrow> string option \<Rightarrow> rule io" where
  "removeServiceL4 env i actor = commit_remove env ''remove-service-l4'' ''service-l4'' i actor"

definition removeManual :: "env \<Rightarrow> string \<Rightarrow> string option \<Rightarrow> rule io" where
  "removeManual env i actor = commit_remove env ''remove-manual'' ''manual'' i actor"

section \<open>Listing\<close>

definition fw_list :: "env \<Rightarrow> string \<Rightarrow> (rule \<times> string) list io" where
  "fw_list env filt =
     bindE (readState env) (\<lambda>s.
     let rows = map (\<lambda>r. (r, ''base'')) (fs_base s) @ map (\<lambda>r. (r, rl_source r)) (fs_discovered s)
     in ret (if filt = ''enabled'' then filter (\<lambda>(r, _). rl_enabled r) rows
             else if filt = ''needs-review''
             then filter (\<lambda>(r, _). \<not> rl_enabled r \<and> rl_source r \<noteq> ''base'') rows
             else rows))"

section \<open>Lookup and replacement\<close>

lemma findRule_SomeD: "findRule s i = Some r \<Longrightarrow> r \<in> set (rules_of s) \<and> rl_id r = i"
  by (auto simp: findRule_def find_Some_iff in_set_conv_nth)

lemma findRule_None_iff: "findRule s i = None \<longleftrightarrow> i \<notin> set (ids s)"
  by (auto simp: findRule_def find_None_iff ids_def)

lemma find_distinct:
  "distinct (map f xs) \<Longrightarrow> r \<in> set xs \<Longrightarrow> find (\<lambda>x. f x = f r) xs = Some r"
  by (induction xs) (auto simp: image_iff)

lemma findRule_distinct: "distinct (ids s) \<Longrightarrow> r \<in> set (rules_of s) \<Longrightarrow> findRule s (rl_id r) = Some r"
  by (simp add: findRule_def find_distinct ids_def)

lemma replace_absent: "i \<notin> rl_id ` set xs \<Longrightarrow> map (\<lambda>x. if rl_id x = i then r else x) xs = xs"
  by (rule map_idI) auto

lemma replace_first_map:
  "distinct (map rl_id xs) \<Longrightarrow>
    replace_first i r xs = map (\<lambda>x. if rl_id x = i then r else x) xs"
proof (induction xs)
  case (Cons x xs)
  then show ?case by (cases "rl_id x = i") (simp_all add: replace_absent)
qed simp

text \<open>In a document with distinct ids, changing a rule in place changes that rule only.\<close>

lemma rules_of_replace_rule:
  assumes "distinct (ids s)"
  shows "rules_of (replace_rule i r s) = map (\<lambda>x. if rl_id x = i then r else x) (rules_of s)"
proof -
  have d: "distinct (map rl_id (fs_base s))" "distinct (map rl_id (fs_discovered s))"
    "rl_id ` set (fs_base s) \<inter> rl_id ` set (fs_discovered s) = {}"
    using assms by (auto simp: ids_def rules_of_def)
  show ?thesis
  proof (cases "list_ex (\<lambda>x. rl_id x = i) (fs_base s)")
    case True
    with d have "i \<notin> rl_id ` set (fs_discovered s)" by (auto simp: list_ex_iff)
    with True d show ?thesis
      by (simp add: replace_rule_def rules_of_def replace_first_map replace_absent)
  next
    case False
    then have "i \<notin> rl_id ` set (fs_base s)" by (auto simp: list_ex_iff)
    with False d show ?thesis
      by (simp add: replace_rule_def rules_of_def replace_first_map replace_absent)
  qed
qed

lemma replace_rule_frame [simp]:
  "fs_version (replace_rule i r s) = fs_version s"
  "fs_panic_close (replace_rule i r s) = fs_panic_close s"
  "fs_container_egress (replace_rule i r s) = fs_container_egress s"
  "fs_protected_upstreams (replace_rule i r s) = fs_protected_upstreams s"
  "fs_nat (replace_rule i r s) = fs_nat s"
  "fs_network (replace_rule i r s) = fs_network s"
  by (simp_all add: replace_rule_def)

lemma ids_replace_rule:
  "distinct (ids s) \<Longrightarrow> rl_id r = i \<Longrightarrow> ids (replace_rule i r s) = ids s"
  by (auto simp: ids_def rules_of_replace_rule)

lemma base_ids_replace_rule:
  "distinct (ids s) \<Longrightarrow> rl_id r = i \<Longrightarrow>
    map rl_id (fs_base (replace_rule i r s)) = map rl_id (fs_base s)"
  by (auto simp: replace_rule_def replace_first_map ids_def rules_of_def)

lemma findRule_replace_rule:
  assumes "distinct (ids s)" and "rl_id r = i" and "findRule s i = Some r0"
  shows "findRule (replace_rule i r s) j = (if j = i then Some r else findRule s j)"
proof -
  have "find (\<lambda>x. rl_id x = j) (map (\<lambda>x. if rl_id x = i then r else x) xs) =
      (if j = i then (if i \<in> rl_id ` set xs then Some r else None) else find (\<lambda>x. rl_id x = j) xs)" for xs
    using assms(2) by (induction xs) auto
  moreover have "i \<in> rl_id ` set (rules_of s)" using findRule_SomeD [OF assms(3)] by auto
  ultimately show ?thesis by (simp add: findRule_def rules_of_replace_rule [OF assms(1)])
qed

lemma fw_ok_replace_rule:
  assumes "fw_ok s" and "rl_id r = i" and "rule_ok r"
  shows "fw_ok (replace_rule i r s)"
  using assms by (auto simp: fw_ok_def ids_replace_rule rules_of_replace_rule list_all_iff)

lemma remove_first_filter:
  "distinct (map rl_id xs) \<Longrightarrow> remove_first i xs = filter (\<lambda>x. rl_id x \<noteq> i) xs"
  by (induction xs) (auto intro!: filter_True [symmetric] simp: image_iff)

section \<open>Callbacks of mutate\<close>

lemma applyServiceTag_Inr:
  "applyServiceTag r sv = Inr (r', ws) \<Longrightarrow>
    r' = r\<lparr>rl_service := (case sv of None \<Rightarrow> rl_service r | Some s \<Rightarrow> if s = [] then None else Some s)\<rparr>"
  by (auto simp: applyServiceTag_def split: option.splits if_splits)

lemma rule_ok_service [simp]: "rule_ok (r\<lparr>rl_service := x\<rparr>) = rule_ok r"
  by (simp add: rule_ok_def ports_ok_def)

text \<open>
  What \<open>mutate\<close> asks of a callback: it keeps the rule's identity and origin, and a
  well-formed rule stays well-formed.
\<close>

locale rule_mutator =
  fixes fn :: "rule \<Rightarrow> err + rule \<times> string list"
  assumes keeps_id: "fn r = Inr (r', ws) \<Longrightarrow> rl_id r' = rl_id r"
    and keeps_source: "fn r = Inr (r', ws) \<Longrightarrow> rl_source r' = rl_source r"
    and keeps_ok: "fn r = Inr (r', ws) \<Longrightarrow> rule_ok r \<Longrightarrow> rule_ok r'"
begin

lemma mutate_doc_Inr:
  assumes "mutate_doc i action fn s = Inr (t, b, ws)"
  obtains r where "findRule s i = Some b" "fn b = Inr (r, ws)" "t = replace_rule i r s"
    "rl_id r = i" "panicGuard s action = Inr ()"
  using assms findRule_SomeD
  by (fastforce simp: mutate_doc_def eff_inv keeps_id split: option.splits)

lemma mutate_doc_ok:
  assumes "mutate_doc i action fn s = Inr (t, b, ws)" and "fw_ok s"
  shows "fw_ok t" and "ids t = ids s" and "map rl_id (fs_base t) = map rl_id (fs_base s)"
proof -
  from assms(1) obtain r where r: "findRule s i = Some b" "fn b = Inr (r, ws)"
    "t = replace_rule i r s" "rl_id r = i" by (rule mutate_doc_Inr)
  from r(1) have "b \<in> set (rules_of s)" using findRule_SomeD by blast
  with assms(2) have "rule_ok r" using keeps_ok [OF r(2)] fw_okD(3) by blast
  with r assms(2) show "fw_ok t" by (simp add: fw_ok_replace_rule)
  from r assms(2) show "ids t = ids s" "map rl_id (fs_base t) = map rl_id (fs_base s)"
    by (simp_all add: ids_replace_rule base_ids_replace_rule fw_okD)
qed

lemma mutate_throws:
  assumes "fw_holds w s" and "mutate_doc i action fn s = Inl e"
  shows "mutate env i action actor fn w = (Inl e, w)"
  unfolding mutate_def using assms by (rule fw_store.update_throws)

lemma mutate_returns:
  assumes "fw_holds w s" and "mutate_doc i action fn s = Inr (t, b, ws)"
    and "env_write_error env STATE_FILE = None"
  shows "\<exists>l. mutate env i action actor fn w = (Inr (findRule t i, ws), (fw_written t w)\<lparr>w_audit := l\<rparr>)"
proof -
  from assms(1) have "fw_ok s" by (simp add: fw_holds_def)
  with assms(2) have "fw_ok t" by (rule mutate_doc_ok)
  with assms show ?thesis by (auto simp: mutate_def writeState_ok)
qed

text \<open>Whatever happens, the store stays consistent and the base entries stay.\<close>

lemma mutate_inv: "preserves (fw_inv B) (mutate env i action actor fn)"
  unfolding mutate_def
proof (rule fw_inv_read_any, rule preserves_lift_then)
  fix s a assume s: "fw_ok s" "base_ids s = B" and a: "mutate_doc i action fn s = Inr a"
  obtain t b ws where e: "a = (t, b, ws)" by (cases a)
  from mutate_doc_ok [OF a [unfolded e] s(1)] s(2) have "fw_ok t" "base_ids t = B"
    by (simp_all add: base_ids_def)
  then show "preserves (fw_inv B) (case a of (t, before, ws) \<Rightarrow>
     bindE (writeState env t) (\<lambda>_.
     bindE (audit env ''firewall'' action (Some i) actor (Some (rule_json before))
       (map_option rule_json (findRule t i)) None) (\<lambda>_. ret (findRule t i, ws))))"
    unfolding e by (simp, intro preserves_intros) simp_all
qed

end

interpretation enable_mut: rule_mutator "enable_fn env scope cidrs service actor"
  for env scope cidrs service actor
proof
  fix r r' ws assume "enable_fn env scope cidrs service actor r = Inr (r', ws)"
  then obtain r2 where b: "(case scope of
        None \<Rightarrow> Inr (r\<lparr>rl_enabled := True, rl_enabled_at := Some (env_now env), rl_enabled_by := actor\<rparr>)
      | Some sc \<Rightarrow> if sc = [] then Inr (r\<lparr>rl_enabled := True, rl_enabled_at := Some (env_now env), rl_enabled_by := actor\<rparr>)
          else if sc \<notin> set VALID_SCOPES then Inl (Fw (Invalid_scope sc))
          else Inr (r\<lparr>rl_enabled := True, rl_enabled_at := Some (env_now env), rl_enabled_by := actor, rl_scope := sc\<rparr>)) = Inr r2"
    and a: "applyServiceTag (case cidrs of Some (c # cs) \<Rightarrow> r2\<lparr>rl_source_cidrs := Some (c # cs)\<rparr> | _ \<Rightarrow> r2)
      service = Inr (r', ws)"
    by (auto simp only: enable_fn_def Let_def bindR_Inr_iff)
  from b have r2: "rl_scope r2 = rl_scope r \<or> rl_scope r2 \<in> set VALID_SCOPES"
    and e: "rl_id r2 = rl_id r" "rl_source r2 = rl_source r" "rl_proto r2 = rl_proto r" "ports_ok r2 = ports_ok r"
    by (auto simp: ports_ok_def split: option.splits if_splits)
  define r3 where "r3 = (case cidrs of Some (c # cs) \<Rightarrow> r2\<lparr>rl_source_cidrs := Some (c # cs)\<rparr> | _ \<Rightarrow> r2)"
  have r3: "rl_id r3 = rl_id r2" "rl_source r3 = rl_source r2" "rule_ok r3 = rule_ok r2"
    by (simp_all add: r3_def rule_ok_def ports_ok_def split: option.split list.split)
  have ok: "rule_ok r \<Longrightarrow> rule_ok r3" unfolding r3(3) using e r2 by (auto simp: rule_ok_def)
  note a = a [folded r3_def]
  from applyServiceTag_Inr [OF a] r3 e ok show "rl_id r' = rl_id r" "rl_source r' = rl_source r"
    "rule_ok r \<Longrightarrow> rule_ok r'" by simp_all
qed

interpretation disable_mut: rule_mutator "disable_fn env actor" for env actor
  by unfold_locales (auto simp: disable_fn_def rule_ok_def ports_ok_def)

lemma set_scope_mutator:
  "scope \<in> set VALID_SCOPES \<Longrightarrow> rule_mutator (set_scope_fn scope cidrs service)"
proof
  fix r r' ws assume sc: "scope \<in> set VALID_SCOPES"
    and "set_scope_fn scope cidrs service r = Inr (r', ws)"
  then obtain r2 where a: "applyServiceTag r2 service = Inr (r', ws)"
    and r2: "rl_id r2 = rl_id r" "rl_source r2 = rl_source r" "rule_ok r \<longrightarrow> rule_ok r2"
    by (force simp: set_scope_fn_def Let_def rule_ok_def ports_ok_def split: option.splits list.splits)
  from applyServiceTag_Inr [OF a] r2 show "rl_id r' = rl_id r" "rl_source r' = rl_source r"
    "rule_ok r \<Longrightarrow> rule_ok r'" by simp_all
qed

lemma set_port_mutator:
  "1 \<le> p \<Longrightarrow> p \<le> 65535 \<Longrightarrow> (\<And>e. pe = Some e \<Longrightarrow> p \<le> e \<and> e \<le> 65535) \<Longrightarrow>
    rule_mutator (set_port_fn p pe)"
  by unfold_locales (auto simp: set_port_fn_def rule_ok_def ports_ok_def)

section \<open>Every operation keeps the store consistent\<close>

lemma port_in_num_val: "port_in lo p \<Longrightarrow> lo \<le> num_val p \<and> num_val p \<le> 65535"
  by (cases p) (auto simp: port_in_def)

lemma added_rule_ok:
  assumes "check_add_args scope a = Inr ()" and "source \<in> {''manual'', ''service-l4''}"
  shows "rule_ok (added_rule env i source scope a)"
  using assms
  by (auto simp: check_add_args_def eff_inv rule_ok_def added_rule_def ports_ok_def VALID_SOURCES_def
      VALID_PROTOS_def dest!: port_in_num_val split: option.splits)

lemma add_doc_Inr:
  assumes "add_doc env action i source scope a s = Inr (t, r, ws)"
  shows "panicGuard s action = Inr ()" and "i \<notin> set (ids s)" and "rl_id r = i"
    and "t = s\<lparr>fs_discovered := sort_rules env (fs_discovered s @ [r])\<rparr>"
    and "\<exists>sv. r = (added_rule env i source scope a)\<lparr>rl_service := sv\<rparr>"
proof -
  from assms have a: "applyServiceTag (added_rule env i source scope a) (aa_service a) = Inr (r, ws)"
    and t: "t = s\<lparr>fs_discovered := sort_rules env (fs_discovered s @ [r])\<rparr>"
    and g: "panicGuard s action = Inr ()" "findRule s i = None"
    by (auto simp: add_doc_def eff_inv)
  from applyServiceTag_Inr [OF a] show "\<exists>sv. r = (added_rule env i source scope a)\<lparr>rl_service := sv\<rparr>"
    by blast
  then show "rl_id r = i" by (auto simp: added_rule_def)
  show "panicGuard s action = Inr ()" "t = s\<lparr>fs_discovered := sort_rules env (fs_discovered s @ [r])\<rparr>"
    by (fact g t)+
  show "i \<notin> set (ids s)" using g(2) by (simp add: findRule_None_iff)
qed

lemma set_sort_rules [simp]: "set (sort_rules env xs) = set xs"
  by (simp add: sort_rules_def)

lemma distinct_sort_rules [simp]: "distinct (map rl_id (sort_rules env xs)) = distinct (map rl_id xs)"
  by (simp add: sort_rules_def)

lemma fw_ok_discovered:
  assumes "fw_ok s" and "distinct (map rl_id ds)" and "list_all rule_ok ds"
    and "rl_id ` set (fs_base s) \<inter> rl_id ` set ds = {}"
  shows "fw_ok (s\<lparr>fs_discovered := ds\<rparr>)"
  using assms by (auto simp: fw_ok_def ids_def rules_of_def list_all_iff)

lemma add_doc_ok:
  assumes "add_doc env action i source scope a s = Inr (t, r, ws)" and "fw_ok s"
    and "check_add_args scope a = Inr ()" and "source \<in> {''manual'', ''service-l4''}"
  shows "fw_ok t" and "base_ids t = base_ids s"
proof -
  note f = add_doc_Inr [OF assms(1)]
  from f(5) added_rule_ok [OF assms(3,4)] have "rule_ok r" by auto
  with f assms(2) show "fw_ok t"
    by (simp only: f(4)) (rule fw_ok_discovered; auto simp: fw_ok_def ids_def rules_of_def list_all_iff)
  show "base_ids t = base_ids s" by (simp add: f(4) base_ids_def)
qed

lemma remove_doc_ok:
  assumes "remove_doc source i s = Inr (t, r)" and "fw_ok s"
  shows "fw_ok t" and "base_ids t = base_ids s" and "t = s\<lparr>fs_discovered := filter (\<lambda>x. rl_id x \<noteq> i) (fs_discovered s)\<rparr>"
    and "r \<in> set (fs_discovered s)" and "rl_id r = i" and "rl_source r = source"
proof -
  from assms have d: "distinct (map rl_id (fs_discovered s))" by (simp add: fw_ok_defs)
  from assms(1) d show t: "t = s\<lparr>fs_discovered := filter (\<lambda>x. rl_id x \<noteq> i) (fs_discovered s)\<rparr>"
    and "rl_source r = source"
    by (auto simp: remove_doc_def remove_first_filter split: option.splits if_splits)
  from assms(1) show "r \<in> set (fs_discovered s)" "rl_id r = i"
    by (auto simp: remove_doc_def find_Some_iff split: option.splits if_splits)
  show "fw_ok t" unfolding t
    using assms(2) by (intro fw_ok_discovered) (auto simp: fw_ok_defs list_all_iff distinct_map_filter)
  show "base_ids t = base_ids s" by (simp add: t base_ids_def)
qed

lemma commit_add_inv:
  assumes "check_add_args scope a = Inr ()" and "source \<in> {''manual'', ''service-l4''}"
  shows "preserves (fw_inv B) (commit_add env action i source scope a)"
  unfolding commit_add_def
proof (rule fw_inv_read_any, rule preserves_lift_then)
  fix s r assume s: "fw_ok s" "base_ids s = B" and r: "add_doc env action i source scope a s = Inr r"
  obtain t x ws where e: "r = (t, x, ws)" by (cases r)
  from add_doc_ok [OF r [unfolded e] s(1) assms] s(2) have "fw_ok t" "base_ids t = B" by simp_all
  then show "preserves (fw_inv B) (case r of (t, x, ws) \<Rightarrow>
     bindE (writeState env t) (\<lambda>_.
     bindE (audit env ''firewall'' action (Some i) (aa_actor a) None (Some (rule_json x)) None) (\<lambda>_.
     ret (x, ws))))"
    unfolding e by (simp, intro preserves_intros) simp_all
qed

lemma commit_remove_inv: "preserves (fw_inv B) (commit_remove env action source i actor)"
  unfolding commit_remove_def
proof (rule fw_inv_read_any, rule preserves_lift_then)
  fix s r assume s: "fw_ok s" "base_ids s = B" and r: "remove_doc source i s = Inr r"
  obtain t x where e: "r = (t, x)" by (cases r)
  from remove_doc_ok(1,2) [OF r [unfolded e] s(1)] s(2) have "fw_ok t" "base_ids t = B" by simp_all
  then show "preserves (fw_inv B) (case r of (t, x) \<Rightarrow>
     bindE (writeState env t) (\<lambda>_.
     bindE (audit env ''firewall'' action (Some i) actor (Some (rule_json x)) None None) (\<lambda>_. ret x)))"
    unfolding e by (simp, intro preserves_intros) simp_all
qed

lemma toggle_inv [preserves_intros]:
  "preserves (fw_inv B) (fw_enable env i sc cidrs sv actor)"
  "preserves (fw_inv B) (fw_disable env i actor)"
  "preserves (fw_inv B) (setScope env i scope cidrs sv actor)"
  "preserves (fw_inv B) (setPort env i p pe actor)"
  "preserves (fw_inv B) (addManual env a)"
  "preserves (fw_inv B) (addServiceL4 env i a)"
  "preserves (fw_inv B) (removeServiceL4 env i actor)"
  "preserves (fw_inv B) (removeManual env i actor)"
  "preserves (fw_inv B) (fw_list env filt)"
proof -
  show "preserves (fw_inv B) (fw_enable env i sc cidrs sv actor)"
    unfolding fw_enable_def by (rule enable_mut.mutate_inv)
  show "preserves (fw_inv B) (fw_disable env i actor)"
    unfolding fw_disable_def by (rule disable_mut.mutate_inv)
  show "preserves (fw_inv B) (setScope env i scope cidrs sv actor)"
    unfolding setScope_def
    by (intro preserves_guard_then rule_mutator.mutate_inv set_scope_mutator)
  show "preserves (fw_inv B) (setPort env i p pe actor)"
    unfolding setPort_def
    by (intro preserves_guard_then rule_mutator.mutate_inv set_port_mutator)
      (auto dest!: port_in_num_val split: option.splits)
  show "preserves (fw_inv B) (addManual env a)"
    unfolding addManual_def Let_def by (intro preserves_lift_then commit_add_inv) auto
  show "preserves (fw_inv B) (addServiceL4 env i a)"
    unfolding addServiceL4_def Let_def by (intro preserves_lift_then preserves_guard_then commit_add_inv) auto
  show "preserves (fw_inv B) (removeServiceL4 env i actor)" "preserves (fw_inv B) (removeManual env i actor)"
    unfolding removeServiceL4_def removeManual_def by (rule commit_remove_inv)+
  show "preserves (fw_inv B) (fw_list env filt)"
    unfolding fw_list_def Let_def by (intro preserves_intros)
qed

end
