(* ===== verification/Fw_Render.thy ===== *)
theory Fw_Render
  imports Fw_Toggle
begin

text \<open>
  \<open>cli/src/core/firewall/render.js\<close>: the document turned into the text of the nft ruleset. The
  functions return the text or the error the source throws; the static lines of the template
  are the list constants \<open>RULESET_HEAD\<close> and \<open>INPUT_HOOK_TAIL\<close>.
\<close>

section \<open>Address and name patterns\<close>

definition RFC1918 :: "string list" where
  "RFC1918 = [''10.0.0.0/8'', ''172.16.0.0/12'', ''192.168.0.0/16'']"

definition VPN_CIDR :: string where "VPN_CIDR = ''10.100.0.0/24''"

definition LOCALHOST_V4 :: string where "LOCALHOST_V4 = ''127.0.0.0/8''"

definition DEFAULT_BRIDGE_IFACE :: string where "DEFAULT_BRIDGE_IFACE = ''pp-br0''"

definition DEFAULT_BRIDGE_CIDR :: string where "DEFAULT_BRIDGE_CIDR = ''10.0.100.0/24''"

definition DEFAULT_BRIDGE_GW :: string where "DEFAULT_BRIDGE_GW = ''10.0.100.1''"

definition INGRESS_MARK :: string where "INGRESS_MARK = ''0x40000000''"

definition IFACE_RE :: "string \<Rightarrow> bool" where
  "IFACE_RE s \<longleftrightarrow> 1 \<le> length s \<and> length s \<le> 15 \<and> list_all is_tag s"

definition digits13 :: "string \<Rightarrow> bool" where
  "digits13 s \<longleftrightarrow> 1 \<le> length s \<and> length s \<le> 3 \<and> all_digits s"

definition IPV4_RE :: "string \<Rightarrow> bool" where
  "IPV4_RE s \<longleftrightarrow> (let ps = split_on (CHR ''.'') s in length ps = 4 \<and> list_all digits13 ps)"

definition prefix_len_ok :: "string \<Rightarrow> bool" where
  "prefix_len_ok s \<longleftrightarrow> all_digits s \<and>
     (length s = 1 \<or> length s = 2 \<and> hd s \<noteq> CHR ''0'' \<and> read_nat s \<le> 32)"

definition CIDR_RE :: "string \<Rightarrow> bool" where
  "CIDR_RE s \<longleftrightarrow> (case split_on (CHR ''/'') s of [a, m] \<Rightarrow> IPV4_RE a \<and> prefix_len_ok m | _ \<Rightarrow> False)"

definition MAC_RE :: "string \<Rightarrow> bool" where
  "MAC_RE s \<longleftrightarrow> (let ps = split_on (CHR '':'') s
     in length ps = 6 \<and> list_all (\<lambda>p. length p = 2 \<and> list_all is_hex p) ps)"

definition is_alnum_dash :: "char \<Rightarrow> bool" where
  "is_alnum_dash c \<longleftrightarrow> is_alnum c \<or> c = CHR ''-''"

definition NAME_RE :: "string \<Rightarrow> bool" where
  "NAME_RE s \<longleftrightarrow> s \<noteq> [] \<and> length s \<le> 63 \<and> is_alnum (hd s) \<and> list_all is_alnum_dash s"

definition ROUTE_RE :: "string \<Rightarrow> bool" where
  "ROUTE_RE s \<longleftrightarrow> 1 \<le> length s \<and> length s \<le> 100 \<and> list_all is_alnum_dash s"

text \<open>\<open>net.isIP\<close>: a dotted quad without leading zeros; an IPv6 address with one optional \<open>::\<close>, an
  optional embedded IPv4 tail and an optional zone.\<close>

definition octet_ok :: "string \<Rightarrow> bool" where
  "octet_ok s \<longleftrightarrow> digits13 s \<and> (length s = 1 \<or> hd s \<noteq> CHR ''0'') \<and> read_nat s \<le> 255"

definition isIPv4 :: "string \<Rightarrow> bool" where
  "isIPv4 s \<longleftrightarrow> (let ps = split_on (CHR ''.'') s in length ps = 4 \<and> list_all octet_ok ps)"

definition seg6_ok :: "string \<Rightarrow> bool" where
  "seg6_ok s \<longleftrightarrow> 1 \<le> length s \<and> length s \<le> 4 \<and> list_all is_hex s"

text \<open>The number of 16-bit groups of a colon-separated run; an IPv4 tail, where allowed, is two.\<close>

definition groups6 :: "bool \<Rightarrow> string \<Rightarrow> nat option" where
  "groups6 v4 s =
     (if s = [] then Some 0
      else let ps = split_on (CHR '':'') s
           in if list_all seg6_ok ps then Some (length ps)
              else if v4 \<and> list_all seg6_ok (butlast ps) \<and> isIPv4 (last ps) then Some (length ps + 1)
              else None)"

fun split_dcolon :: "string \<Rightarrow> (string \<times> string) option" where
  "split_dcolon (a # b # s) =
     (if a = CHR '':'' \<and> b = CHR '':'' then Some ([], s)
      else map_option (\<lambda>(l, r). (a # l, r)) (split_dcolon (b # s)))"
| "split_dcolon _ = None"

definition zone_ok :: "string \<Rightarrow> bool" where
  "zone_ok z \<longleftrightarrow> z \<noteq> [] \<and> list_all (\<lambda>c. is_alnum c \<or> c = CHR ''-'' \<or> c = CHR ''.'' \<or> c = CHR '':'') z"

definition isIPv6 :: "string \<Rightarrow> bool" where
  "isIPv6 s \<longleftrightarrow>
     (let a = takeWhile (\<lambda>c. c \<noteq> CHR ''%'') s; z = dropWhile (\<lambda>c. c \<noteq> CHR ''%'') s
      in (z = [] \<or> zone_ok (tl z)) \<and>
         (case split_dcolon a of
            None \<Rightarrow> groups6 True a = Some 8
          | Some (l, r) \<Rightarrow>
              (case (groups6 False l, groups6 True r) of
                 (Some m, Some n) \<Rightarrow> m + n \<le> 7
               | _ \<Rightarrow> False)))"

section \<open>Protected upstreams\<close>

definition protected_ok :: "upstream \<Rightarrow> bool" where
  "protected_ok e \<longleftrightarrow> IFACE_RE (up_bridge e) \<and> MAC_RE (up_mac e) \<and> isIPv4 (up_ipv4 e) \<and>
     (case up_ipv6 e of None \<Rightarrow> True | Some a \<Rightarrow> isIPv6 a) \<and>
     port_in 1024 (up_port e) \<and> NAME_RE (up_container e) \<and> ROUTE_RE (up_route_id e)"

definition protectedUpstreams :: "fw_state \<Rightarrow> err + upstream list" where
  "protectedUpstreams s =
     (let entries = (case fs_protected_upstreams s of None \<Rightarrow> [] | Some es \<Rightarrow> es)
      in if length entries > 20 then Inl (Fw Invalid_protected_upstreams)
         else mapR (\<lambda>e. if protected_ok e then Inr e else Inl (Fw Invalid_protected_entry)) entries)"

definition port_str :: "upstream \<Rightarrow> string" where
  "port_str e = show_int (num_val (up_port e))"

definition no_protected :: string where "no_protected = ''    # no protected upstreams''"

definition or_default :: "string \<Rightarrow> string \<Rightarrow> string" where
  "or_default s d = (if s = [] then d else s)"

definition switched_line :: "upstream \<Rightarrow> string" where
  "switched_line e = ''    ether daddr '' @ up_mac e @ '' meta l4proto tcp tcp dport '' @ port_str e @
     '' counter drop comment '' @ dq @ ''pp-ingress-'' @ up_route_id e @ dq"

definition bridge_output_line :: "upstream \<Rightarrow> string" where
  "bridge_output_line e = ''    ether daddr '' @ up_mac e @ '' meta l4proto tcp tcp dport '' @ port_str e @
     '' meta mark & '' @ INGRESS_MARK @ '' == 0 counter drop comment '' @ dq @ ''pp-ingress-'' @
     up_route_id e @ dq"

definition renderProtectedUpstreams :: "fw_state \<Rightarrow> err + string" where
  "renderProtectedUpstreams s =
     bindR (protectedUpstreams s) (\<lambda>entries. Inr (join nl
       [[], ''add table bridge proxypilot_ingress'', ''flush table bridge proxypilot_ingress'', [],
        ''table bridge proxypilot_ingress {'', ''  chain switched {'',
        ''    type filter hook forward priority -20; policy accept;'',
        or_default (join nl (map switched_line entries)) no_protected, ''  }'',
        ''  chain routed_to_bridge {'', ''    type filter hook output priority -20; policy accept;'',
        or_default (join nl (map bridge_output_line entries)) no_protected, ''  }'', ''}'', []]))"

section \<open>Bridge, services and sources\<close>

definition bridgeFromState :: "fw_state \<Rightarrow> err + string \<times> string \<times> string" where
  "bridgeFromState s =
     (let n = (case fs_network s of None \<Rightarrow> \<lparr>nc_bridge_iface = None, nc_bridge_cidr = None, nc_bridge_gw = None\<rparr>
                | Some n \<Rightarrow> n);
          iface = (case nc_bridge_iface n of None \<Rightarrow> DEFAULT_BRIDGE_IFACE | Some x \<Rightarrow> x);
          cidr = (case nc_bridge_cidr n of None \<Rightarrow> DEFAULT_BRIDGE_CIDR | Some x \<Rightarrow> x);
          gw = (case nc_bridge_gw n of None \<Rightarrow> DEFAULT_BRIDGE_GW | Some x \<Rightarrow> x)
      in bindR (guardR (IFACE_RE iface) (Fw (Invalid_bridge_iface iface))) (\<lambda>_.
         bindR (guardR (CIDR_RE cidr) (Fw (Invalid_bridge_cidr cidr))) (\<lambda>_.
         bindR (guardR (IPV4_RE gw) (Fw (Invalid_bridge_gw gw))) (\<lambda>_.
         Inr (iface, cidr, gw)))))"

text \<open>
  A lookup \<open>NAMED_SERVICES[name]\<close> on an object literal also finds the properties every object
  inherits; those have no \<open>dst\<close>, \<open>port\<close> or \<open>proto\<close> and interpolate as \<open>undefined\<close>.
\<close>

record service_def =
  sd_dst :: string
  sd_port :: string
  sd_proto :: string

definition OBJECT_PROTOTYPE_KEYS :: "string list" where
  "OBJECT_PROTOTYPE_KEYS = [''constructor'', ''__defineGetter__'', ''__defineSetter__'', ''hasOwnProperty'',
     ''__lookupGetter__'', ''__lookupSetter__'', ''isPrototypeOf'', ''propertyIsEnumerable'', ''toString'',
     ''valueOf'', ''__proto__'', ''toLocaleString'']"

definition NAMED_SERVICES :: "string \<Rightarrow> service_def option" where
  "NAMED_SERVICES name =
     (if name = ''pgbouncer'' then Some \<lparr>sd_dst = ''bridge_gw'', sd_port = ''6432'', sd_proto = ''tcp''\<rparr>
      else if name \<in> set OBJECT_PROTOTYPE_KEYS
      then Some \<lparr>sd_dst = ''undefined'', sd_port = ''undefined'', sd_proto = ''undefined''\<rparr>
      else None)"

definition resolveServiceDst :: "service_def \<Rightarrow> string \<Rightarrow> string" where
  "resolveServiceDst d bridgeGw = (if sd_dst d = ''bridge_gw'' then bridgeGw else sd_dst d)"

definition sourcesFor :: "rule \<Rightarrow> err + string list option" where
  "sourcesFor r =
     (case rl_source_cidrs r of
        Some (c # cs) \<Rightarrow> Inr (Some (c # cs))
      | _ \<Rightarrow>
          if rl_scope r = ''public'' then Inr None
          else if rl_scope r = ''lan-only'' then Inr (Some RFC1918)
          else if rl_scope r = ''vpn-only'' then Inr (Some [VPN_CIDR])
          else if rl_scope r = ''localhost-only'' then Inr (Some [LOCALHOST_V4])
          else Inl (Fw (Unknown_scope (rl_scope r))))"

definition portMatch :: "rule \<Rightarrow> string" where
  "portMatch r =
     (case rl_port_end r of
        Some e \<Rightarrow> if e \<noteq> 0 \<and> e \<noteq> rl_port_start r
                  then rl_proto r @ '' dport '' @ show_int (rl_port_start r) @ ''-'' @ show_int e
                  else rl_proto r @ '' dport '' @ show_int (rl_port_start r)
      | None \<Rightarrow> rl_proto r @ '' dport '' @ show_int (rl_port_start r))"

definition rule_comment :: "rule \<Rightarrow> string" where
  "rule_comment r =
     (let i = remove_char (CHR 0x22) (rl_id r);
          reason = remove_char (CHR 0x22) (case rl_reason r of None \<Rightarrow> [] | Some t \<Rightarrow> t)
      in ''comment '' @ dq @ i @ '': '' @ reason @ dq)"

definition renderAllowRule :: "rule \<Rightarrow> err + string" where
  "renderAllowRule r =
     bindR (sourcesFor r) (\<lambda>sources. Inr (case sources of
        None \<Rightarrow> ''    '' @ portMatch r @ '' accept '' @ rule_comment r
      | Some ss \<Rightarrow> ''    ip saddr { '' @ join '', '' ss @ '' } '' @ portMatch r @ '' accept '' @ rule_comment r))"

section \<open>NAT and container egress\<close>

definition renderNatPostrouting :: "fw_state \<Rightarrow> err + string" where
  "renderNatPostrouting s =
     (let iface = (case fs_nat s of None \<Rightarrow> None | Some n \<Rightarrow> nat_vpn_masquerade_iface n)
      in if \<not> truthy iface then Inr ''    # (no NAT rules)''
         else if \<not> IFACE_RE (the iface) then Inl (Fw (Invalid_masquerade_iface (the iface)))
         else Inr (''    oifname '' @ dq @ the iface @ dq @ '' ip saddr '' @ VPN_CIDR @
                   '' masquerade comment '' @ dq @ ''vpn-masquerade'' @ dq))"

definition egress_line :: "string \<Rightarrow> string \<Rightarrow> egress \<Rightarrow> string \<Rightarrow> string" where
  "egress_line bridgeCidr bridgeGw entry svc =
     (let src = (if truthy (eg_container_ip entry) then the (eg_container_ip entry) @ ''/32'' else bridgeCidr)
      in case NAMED_SERVICES svc of
           None \<Rightarrow> ''    # unknown service '' @ [CHR 0x27] @ svc @ [CHR 0x27] @ '' for container '' @
                    [CHR 0x27] @ eg_container entry @ [CHR 0x27]
         | Some d \<Rightarrow> ''    ip saddr '' @ src @ '' ip daddr '' @ resolveServiceDst d bridgeGw @ '' '' @ sd_proto d @
             '' dport '' @ sd_port d @ '' accept comment '' @ dq @ ''egress: '' @ eg_container entry @
             ''->'' @ svc @ dq)"

definition renderContainerEgress :: "fw_state \<Rightarrow> err + string" where
  "renderContainerEgress s =
     bindR (bridgeFromState s) (\<lambda>(_, bridgeCidr, bridgeGw).
       let entries = (case fs_container_egress s of None \<Rightarrow> [] | Some es \<Rightarrow> es);
           lines = concat (map (\<lambda>e. map (egress_line bridgeCidr bridgeGw e) (eg_allow e)) entries)
       in Inr (join nl (lines @ [''    ip saddr '' @ bridgeCidr @ '' ip daddr '' @ bridgeGw @ '' drop''])))"

section \<open>The ruleset\<close>

definition mark_lines :: "upstream \<Rightarrow> string list" where
  "mark_lines e =
     (let m = (\<lambda>fam a. ''    oifname '' @ dq @ up_bridge e @ dq @ '' '' @ fam @ '' daddr '' @ a @ '' tcp dport '' @
                port_str e @ '' meta mark set meta mark | '' @ INGRESS_MARK)
      in m ''ip'' (up_ipv4 e) # (if truthy (up_ipv6 e) then [m ''ip6'' (the (up_ipv6 e))] else []))"

definition forward_lines :: "upstream \<Rightarrow> string list" where
  "forward_lines e =
     (let m = (\<lambda>fam a suf. ''    oifname '' @ dq @ up_bridge e @ dq @ '' '' @ fam @ '' daddr '' @ a @ '' tcp dport '' @
                port_str e @ '' counter drop comment '' @ dq @ ''pp-ingress-'' @ up_route_id e @ suf @ dq)
      in m ''ip'' (up_ipv4 e) [] #
         (if truthy (up_ipv6 e) then [m ''ip6'' (the (up_ipv6 e)) ''-v6''] else []))"

definition RULESET_HEAD :: "string list" where
  "RULESET_HEAD =
     [''# Generated by ProxyPilot firewall manager. Do not edit by hand.'',
      ''# Source of truth: /var/lib/proxypilot/firewall.json'',
      ''add table inet proxypilot'', ''flush table inet proxypilot'', [],
      ''table inet proxypilot {'',
      ''  # input_hook is the only chain in our table that's hooked into the'',
      ''  # network stack. It runs at priority filter-10, i.e. before any'',
      ''  # filter/input chain the operator may have. We jump into base_input'',
      ''  # and discovered_input; anything not accepted falls off the end and'',
      ''  # is dropped by the policy. Loopback, ct established/related, and'',
      ''  # ICMP rate-limit are pre-jumps so they short-circuit before our'',
      ''  # allowlist. This gives ProxyPilot default-deny semantics without'',
      ''  # touching any chain outside its own table.'',
      ''  chain input_hook {'',
      ''    type filter hook input priority filter - 10; policy drop;'',
      ''    iif lo accept'']"

definition INPUT_HOOK_TAIL :: "string list" where
  "INPUT_HOOK_TAIL =
     [''    # Mock2 per-project bridges (m2br<id>) '' @ emdash @ '' accept host-bound input from them'',
      ''    # (DHCP + DNS to the bridge gateway, and the egress-proxy port) so a project'',
      ''    # container can boot and get an address. Without this the host default-drop'',
      ''    # eats the container's DHCP DISCOVER and it never obtains an IP. Isolation is'',
      ''    # NOT relaxed: the dedicated `table inet mock2` fence still governs what each'',
      ''    # bridge may reach (nftables drop is final across tables). The wildcard is'',
      ''    # inert on a host with no Mock2 bridges '' @ emdash @ '' it matches no interface.'',
      ''    iifname '' @ dq @ ''m2br*'' @ dq @ '' accept'',
      ''    # VPN DNS (proxypilot-vpn-dns.service on the VPN server address): peers'',
      ''    # resolve the platform hostnames to 10.100.0.1 so their requests go'',
      ''    # through the tunnel. VPN sources only; inert when nothing listens.'',
      ''    ip saddr '' @ VPN_CIDR @ '' ip daddr 10.100.0.1 meta l4proto { tcp, udp } th dport 53 accept comment '' @
        dq @ ''vpn-dns'' @ dq,
      ''    # Infisical Agent Proxy self-test (lib/setup-engine/infisical-basic-flows.js):'',
      ''    # the managed proxy runs on a Docker bridge (br-*) and must reach the'',
      ''    # short-lived test site ProxyPilot opens on this host's private address,'',
      ''    # TCP 18086, only while the credential check runs. Nothing listens otherwise.'',
      ''    iifname '' @ dq @ ''br-*'' @ dq @ '' tcp dport 18086 accept comment '' @
        dq @ ''infisical-agent-proxy-selftest'' @ dq,
      ''    ct state established,related accept'', ''    ct state invalid drop'',
      ''    ip protocol icmp icmp type echo-request limit rate 5/second accept'',
      ''    ip6 nexthdr icmpv6 icmpv6 type echo-request limit rate 5/second accept'',
      ''    jump base_input'', ''    jump discovered_input'', ''  }'', []]"

definition rules_body :: "string \<Rightarrow> rule list \<Rightarrow> err + string" where
  "rules_body none rs =
     (if rs = [] then Inr none else bindR (mapR renderAllowRule rs) (\<lambda>ls. Inr (join nl ls)))"

definition render :: "fw_state \<Rightarrow> err + string" where
  "render s =
     bindR (bridgeFromState s) (\<lambda>(bridgeIface, _, _).
     bindR (rules_body ''    # (no enabled base rules)'' (filter rl_enabled (fs_base s))) (\<lambda>baseInputBody.
     bindR (rules_body ''    # (no enabled discovered rules)'' (filter rl_enabled (fs_discovered s))) (\<lambda>discoveredInputBody.
     bindR (renderContainerEgress s) (\<lambda>containerEgressBody.
     bindR (renderNatPostrouting s) (\<lambda>natPostroutingBody.
     bindR (protectedUpstreams s) (\<lambda>protectedEntries.
     bindR (renderProtectedUpstreams s) (\<lambda>bridgeTable.
     let ingressMarkBody = or_default (join nl (concat (map mark_lines protectedEntries))) no_protected;
         ingressForwardBody = or_default (join nl (concat (map forward_lines protectedEntries))) no_protected
     in Inr (join nl (RULESET_HEAD @ [''    iifname '' @ dq @ bridgeIface @ dq @ '' accept''] @ INPUT_HOOK_TAIL @
       [''  chain base_input {'', baseInputBody, ''  }'', [],
        ''  chain discovered_input {'', discoveredInputBody, ''  }'', [],
        ''  chain container_egress {'', ''    type filter hook forward priority 0;'', containerEgressBody, ''  }'', [],
        ''  chain nat_postrouting {'', ''    type nat hook postrouting priority 100;'', natPostroutingBody, ''  }'', [],
        ''  chain protected_upstream_mark {'', ''    type filter hook output priority -20; policy accept;'',
        ingressMarkBody, ''  }'', [],
        ''  chain protected_upstream_forward {'', ''    type filter hook forward priority -20; policy accept;'',
        ingressForwardBody, ''  }'', ''}'', bridgeTable])))))))))"

definition checksum :: "env \<Rightarrow> string \<Rightarrow> string" where
  "checksum env ruleset = ''sha256:'' @ env_sha256 env ruleset"

end
