(* ===== verification/Fw_Reconcile.thy ===== *)
theory Fw_Reconcile
  imports Fw_Render
begin

text \<open>
  \<open>cli/src/core/firewall/reconcile.js\<close>: joining the VPN peers into the vpn-only rules, the
  lockout check, applying the ruleset with \<open>nft -f\<close>, and recording the outcome.
\<close>

section \<open>Sources of vpn-only rules\<close>

definition NO_ALLOWED_PEERS_SENTINEL :: string where
  "NO_ALLOWED_PEERS_SENTINEL = ''255.255.255.255/32''"

definition trailing_octet :: "string \<Rightarrow> jsnum" where
  "trailing_octet ip =
     (let ps = split_on (CHR ''.'') (hd (split_on (CHR ''/'') ip))
      in if 3 < length ps then js_number (ps ! 3) else Not_int)"

text \<open>\<open>ao - bo <= 0\<close>; a NaN difference counts as 0.\<close>

definition octet_le :: "string \<Rightarrow> string \<Rightarrow> bool" where
  "octet_le a b \<longleftrightarrow>
     (case (trailing_octet a, trailing_octet b) of (Int_num x, Int_num y) \<Rightarrow> x \<le> y | _ \<Rightarrow> True)"

definition sortIpsByTrailingOctet :: "string list \<Rightarrow> string list" where
  "sortIpsByTrailingOctet = sort_by octet_le"

definition enabled_peers :: "world \<Rightarrow> peer list" where
  "enabled_peers w = filter (\<lambda>p. pe_status p = ''enabled'') (w_peers w)"

definition peer_cidr :: "peer \<Rightarrow> string" where
  "peer_cidr p = pe_allowed_ip p @ ''/32''"

definition peer_services :: "peer \<Rightarrow> string list" where
  "peer_services p = (case pe_services p of None \<Rightarrow> [] | Some ss \<Rightarrow> ss)"

definition full_admin_cidrs :: "peer list \<Rightarrow> string list" where
  "full_admin_cidrs peers =
     map peer_cidr (filter (\<lambda>p. pe_scope p = ''full'' \<or> pe_scope p = ''admin'') peers)"

definition service_cidrs :: "peer list \<Rightarrow> string option \<Rightarrow> string list" where
  "service_cidrs peers service =
     (if truthy service
      then map peer_cidr (filter (\<lambda>p. pe_scope p = ''services'' \<and> the service \<in> set (peer_services p)) peers)
      else [])"

definition vpn_warning :: "rule \<Rightarrow> string" where
  "vpn_warning r = ''vpn-only rule '' @ dq @ rl_id r @ dq @
     (if truthy (rl_service r) then '' (service='' @ the (rl_service r) @ '')'' else []) @
     '' has no allowed peers '' @ emdash @
     '' rule rendered with broadcast sentinel and is effectively closed''"

definition resolve_rule :: "peer list \<Rightarrow> rule \<Rightarrow> rule \<times> string list" where
  "resolve_rule peers r =
     (if \<not> rl_enabled r \<or> rl_scope r \<noteq> ''vpn-only'' then (r, [])
      else case rl_source_cidrs r of
        Some (c # cs) \<Rightarrow> (r, [])
      | _ \<Rightarrow>
          let sorted = sortIpsByTrailingOctet
                (dedup (full_admin_cidrs peers @ service_cidrs peers (rl_service r)))
          in if sorted = [] then (r\<lparr>rl_source_cidrs := Some [NO_ALLOWED_PEERS_SENTINEL]\<rparr>, [vpn_warning r])
             else (r\<lparr>rl_source_cidrs := Some sorted\<rparr>, []))"

definition resolveVpnSources :: "peer list \<Rightarrow> fw_state \<Rightarrow> fw_state \<times> string list" where
  "resolveVpnSources peers s =
     (s\<lparr>fs_base := map (fst \<circ> resolve_rule peers) (fs_base s),
        fs_discovered := map (fst \<circ> resolve_rule peers) (fs_discovered s)\<rparr>,
      concat (map (snd \<circ> resolve_rule peers) (rules_of s)))"

section \<open>Lockout check\<close>

datatype lockout = Lockout_ok | Lockout_refused string "(string \<times> string) list option"

definition covers_ssh :: "rule \<Rightarrow> bool" where
  "covers_ssh r \<longleftrightarrow> rl_enabled r \<and> rl_proto r = ''tcp'' \<and> rl_port_start r \<le> 22 \<and>
     22 \<le> (case rl_port_end r of None \<Rightarrow> rl_port_start r | Some e \<Rightarrow> e)"

definition ssh_reachable :: "rule \<Rightarrow> bool" where
  "ssh_reachable r \<longleftrightarrow>
     (case rl_source_cidrs r of
        Some (c # cs) \<Rightarrow> True
      | _ \<Rightarrow> rl_scope r = ''public'' \<or> rl_scope r = ''lan-only'' \<or> rl_scope r = ''vpn-only'')"

definition lockoutCheck :: "fw_state \<Rightarrow> lockout" where
  "lockoutCheck s =
     (let sshRules = filter covers_ssh (rules_of s)
      in if sshRules = [] then Lockout_refused ''no enabled TCP rule covers port 22'' None
         else if \<not> list_ex ssh_reachable sshRules then
           Lockout_refused (''every SSH rule is localhost-only '' @ emdash @ '' this would lock out remote access'')
             (Some (map (\<lambda>r. (rl_id r, rl_scope r)) sshRules))
         else Lockout_ok)"

section \<open>Applying and recording\<close>

record rejection =
  rj_reason :: string
  rj_stderr :: "string option"
  rj_rules :: "(string \<times> string) list option"

record reconcile_result =
  rr_ok :: bool
  rr_applied :: bool
  rr_dryRun :: bool
  rr_ruleset :: string
  rr_checksum :: string
  rr_ruleCount :: nat
  rr_rejection :: "rejection option"
  rr_warnings :: "string list option"

definition nft :: "env \<Rightarrow> string list \<Rightarrow> string \<Rightarrow> proc io" where
  "nft env args input = spawn env ''nft'' args input"

definition nft_file :: "env \<Rightarrow> string" where
  "nft_file env = runDir env @ ''/firewall-'' @ show_int (env_pid env) @ ''-'' @ show_int (env_now env) @ ''.nft''"

definition applyRuleset :: "env \<Rightarrow> string \<Rightarrow> proc io" where
  "applyRuleset env ruleset =
     bindE (if runDir env = ''/run/proxypilot'' then mkdirs env (runDir env) else ret ()) (\<lambda>_.
     with_temp_file env (nft_file env) ruleset (spawn env ''nft'' [''-f'', nft_file env] ruleset))"

definition recordReconcile :: "string \<Rightarrow> nat \<Rightarrow> int \<Rightarrow> string option \<Rightarrow> string option \<Rightarrow> unit io" where
  "recordReconcile digest ruleCount applied rejection actor =
     modE (\<lambda>w. w\<lparr>w_fw_reconciles := w_fw_reconciles w @
       [\<lparr>rc_checksum = digest, rc_rule_count = ruleCount, rc_applied = applied, rc_rejection = rejection,
         rc_by = actor\<rparr>]\<rparr>)"

text \<open>\<open>r.stderr.trim()\<close>: a TypeError when the program could not be started.\<close>

definition stderr_trim :: "proc \<Rightarrow> string io" where
  "stderr_trim r = (case pr_stderr r of None \<Rightarrow> throw (Sys Type_error) | Some t \<Rightarrow> ret (trim t))"

definition apply_error :: "string \<Rightarrow> proc \<Rightarrow> string" where
  "apply_error err r = (if err \<noteq> [] then err else if truthy (pr_error r) then the (pr_error r) else ''unknown error'')"

definition rule_count :: "fw_state \<Rightarrow> nat" where
  "rule_count s = length (filter rl_enabled (fs_base s)) + length (filter rl_enabled (fs_discovered s))"

definition rejected :: "string \<Rightarrow> string \<Rightarrow> nat \<Rightarrow> string \<Rightarrow> string option \<Rightarrow> reconcile_result" where
  "rejected ruleset digest n reason err =
     \<lparr>rr_ok = False, rr_applied = False, rr_dryRun = False, rr_ruleset = ruleset, rr_checksum = digest,
      rr_ruleCount = n, rr_rejection = Some \<lparr>rj_reason = reason, rj_stderr = err, rj_rules = None\<rparr>,
      rr_warnings = None\<rparr>"

definition accepted :: "bool \<Rightarrow> string \<Rightarrow> string \<Rightarrow> nat \<Rightarrow> string list \<Rightarrow> reconcile_result" where
  "accepted dry ruleset digest n ws =
     \<lparr>rr_ok = True, rr_applied = \<not> dry, rr_dryRun = dry, rr_ruleset = ruleset, rr_checksum = digest,
      rr_ruleCount = n, rr_rejection = None, rr_warnings = Some ws\<rparr>"

text \<open>Everything after the lockout check and the dry-run return.\<close>

definition apply_and_record :: "env \<Rightarrow> string option \<Rightarrow> bool \<Rightarrow> string \<Rightarrow> string \<Rightarrow> nat \<Rightarrow> string list \<Rightarrow>
    reconcile_result io" where
  "apply_and_record env actor panic ruleset digest n ws =
     bindE (applyRuleset env ruleset) (\<lambda>apply.
     if pr_status apply \<noteq> Some 0 then
       bindE (stderr_trim apply) (\<lambda>e.
       bindE (recordReconcile digest n 0 (Some (''nft apply failed: '' @ apply_error e apply)) actor) (\<lambda>_.
       ret (rejected ruleset digest n ''nft apply failed'' (pr_stderr apply))))
     else
       bindE (nft env [''list'', ''table'', ''inet'', ''proxypilot''] []) (\<lambda>verify.
       if pr_status verify \<noteq> Some 0 then
         bindE (stderr_trim verify) (\<lambda>e.
         bindE (recordReconcile digest n 0 (Some (''verify failed: '' @ e)) actor) (\<lambda>_.
         ret (rejected ruleset digest n ''verify failed'' (pr_stderr verify))))
       else
         bindE (nft env [''list'', ''table'', ''bridge'', ''proxypilot_ingress''] []) (\<lambda>ingressVerify.
         if pr_status ingressVerify \<noteq> Some 0 then
           bindE (stderr_trim ingressVerify) (\<lambda>e.
           bindE (recordReconcile digest n 0
             (Some (''protected upstream bridge table verification failed: '' @ e)) actor) (\<lambda>_.
           ret (rejected ruleset digest n ''protected upstream bridge table verification failed''
             (pr_stderr ingressVerify))))
         else
           bindE (recordReconcile digest n 1 None actor) (\<lambda>_.
           bindE (audit env ''firewall'' ''reconcile'' (Some ''inet/proxypilot'') actor None
             (Some (JObj [(''checksum'', JStr digest), (''rule_count'', JNum (int n)), (''panic_close'', JBool panic)]))
             None) (\<lambda>_.
           ret (accepted False ruleset digest n ws))))))"

definition reconcile :: "env \<Rightarrow> bool \<Rightarrow> bool \<Rightarrow> string option \<Rightarrow> reconcile_result io" where
  "reconcile env dryRun forceLockoutOk actor =
     bindE (readState env) (\<lambda>s0.
     bindE (getsE enabled_peers) (\<lambda>peers.
     let (s, vpnWarnings) = resolveVpnSources peers s0 in
     bindE (liftE (render s)) (\<lambda>ruleset.
     let digest = checksum env ruleset; n = rule_count s in
     case lockoutCheck s of
       Lockout_refused reason rules \<Rightarrow>
         if forceLockoutOk then
           (if dryRun then ret (accepted True ruleset digest n vpnWarnings)
            else apply_and_record env actor (fs_panic_close s) ruleset digest n vpnWarnings)
         else
           bindE (recordReconcile digest n 0 (Some reason) actor) (\<lambda>_.
           ret \<lparr>rr_ok = False, rr_applied = False, rr_dryRun = False, rr_ruleset = ruleset, rr_checksum = digest,
             rr_ruleCount = n, rr_rejection = Some \<lparr>rj_reason = reason, rj_stderr = None, rj_rules = rules\<rparr>,
             rr_warnings = None\<rparr>)
     | Lockout_ok \<Rightarrow>
         if dryRun then ret (accepted True ruleset digest n vpnWarnings)
         else apply_and_record env actor (fs_panic_close s) ruleset digest n vpnWarnings)))"

section \<open>The sorted source set\<close>

lemma sortIps_sets [simp]:
  "set (sortIpsByTrailingOctet xs) = set xs" "sortIpsByTrailingOctet xs = [] \<longleftrightarrow> xs = []"
  by (simp_all add: sortIpsByTrailingOctet_def)

text \<open>The peers a vpn-only rule with this service tag admits.\<close>

definition peer_admitted :: "string option \<Rightarrow> peer \<Rightarrow> bool" where
  "peer_admitted service p \<longleftrightarrow> pe_status p = ''enabled'' \<and>
     (pe_scope p = ''full'' \<or> pe_scope p = ''admin'' \<or>
      pe_scope p = ''services'' \<and> (\<exists>t. service = Some t \<and> t \<noteq> [] \<and> t \<in> set (peer_services p)))"

lemma allowed_cidrs_set:
  "set (full_admin_cidrs (enabled_peers w) @ service_cidrs (enabled_peers w) service) =
    peer_cidr ` {p \<in> set (w_peers w). peer_admitted service p}"
  by (cases service)
    (auto simp: full_admin_cidrs_def service_cidrs_def enabled_peers_def peer_admitted_def truthy_def)

lemma resolve_rule_keeps [simp]:
  "rl_id (fst (resolve_rule ps r)) = rl_id r" "rl_enabled (fst (resolve_rule ps r)) = rl_enabled r"
  "rl_proto (fst (resolve_rule ps r)) = rl_proto r" "rl_scope (fst (resolve_rule ps r)) = rl_scope r"
  "rl_port_start (fst (resolve_rule ps r)) = rl_port_start r"
  "rl_port_end (fst (resolve_rule ps r)) = rl_port_end r"
  "rl_service (fst (resolve_rule ps r)) = rl_service r"
  "rl_source (fst (resolve_rule ps r)) = rl_source r"
  "rl_reason (fst (resolve_rule ps r)) = rl_reason r"
  by (auto simp: resolve_rule_def Let_def split: option.split list.split)

lemma rules_of_resolve:
  "rules_of (fst (resolveVpnSources ps s)) = map (fst \<circ> resolve_rule ps) (rules_of s)"
  by (simp add: resolveVpnSources_def rules_of_def)

lemma resolve_frame [simp]:
  "fs_panic_close (fst (resolveVpnSources ps s)) = fs_panic_close s"
  "fs_network (fst (resolveVpnSources ps s)) = fs_network s"
  "fs_nat (fst (resolveVpnSources ps s)) = fs_nat s"
  "fs_version (fst (resolveVpnSources ps s)) = fs_version s"
  "fs_container_egress (fst (resolveVpnSources ps s)) = fs_container_egress s"
  "fs_protected_upstreams (fst (resolveVpnSources ps s)) = fs_protected_upstreams s"
  by (simp_all add: resolveVpnSources_def)

section \<open>What a reconcile does to the world\<close>

lemma stderr_trim_world [simp]: "snd (stderr_trim r w) = w"
  by (simp add: stderr_trim_def split: option.split)

lemma preserves_stderr_trim [preserves_intros]: "preserves P (stderr_trim r)"
  by (simp add: preserves_def)

lemma preserves_recordReconcile [preserves_intros]:
  "(\<And>w l. P w \<Longrightarrow> P (w\<lparr>w_fw_reconciles := l\<rparr>)) \<Longrightarrow> preserves P (recordReconcile a b c d e)"
  by (simp add: recordReconcile_def preserves_def)

lemma preserves_nft [preserves_intros]:
  "(\<And>w cs. P w \<Longrightarrow> P (w\<lparr>w_cmds := cs\<rparr>)) \<Longrightarrow> preserves P (nft env a i)"
  by (simp add: nft_def preserves_spawn)

lemma preserves_applyRuleset [preserves_intros]:
  assumes "\<And>w cs. P w \<Longrightarrow> P (w\<lparr>w_cmds := cs\<rparr>)" and "\<And>w f. P w \<Longrightarrow> P (w\<lparr>w_files := f\<rparr>)"
  shows "preserves P (applyRuleset env rs)"
  unfolding applyRuleset_def by (intro preserves_intros assms)

lemma preserves_lockout [preserves_intros]:
  "(\<And>a b. x = Lockout_refused a b \<Longrightarrow> preserves P (f a b)) \<Longrightarrow> (x = Lockout_ok \<Longrightarrow> preserves P m) \<Longrightarrow>
    preserves P (case x of Lockout_refused a b \<Rightarrow> f a b | Lockout_ok \<Rightarrow> m)"
  by (cases x) auto

lemma preserves_apply_and_record [preserves_intros]:
  assumes "\<And>w cs. P w \<Longrightarrow> P (w\<lparr>w_cmds := cs\<rparr>)" and "\<And>w f. P w \<Longrightarrow> P (w\<lparr>w_files := f\<rparr>)"
    and "\<And>w l. P w \<Longrightarrow> P (w\<lparr>w_fw_reconciles := l\<rparr>)" and "\<And>w l. P w \<Longrightarrow> P (w\<lparr>w_audit := l\<rparr>)"
  shows "preserves P (apply_and_record env actor panic rs digest n ws)"
  unfolding apply_and_record_def by (intro preserves_intros assms)

text \<open>The part of a reconcile after the document has been read.\<close>

lemma preserves_reconcile_tail:
  assumes "\<And>w cs. P w \<Longrightarrow> P (w\<lparr>w_cmds := cs\<rparr>)" and "\<And>w f. P w \<Longrightarrow> P (w\<lparr>w_files := f\<rparr>)"
    and "\<And>w l. P w \<Longrightarrow> P (w\<lparr>w_fw_reconciles := l\<rparr>)" and "\<And>w l. P w \<Longrightarrow> P (w\<lparr>w_audit := l\<rparr>)"
    and "preserves P (readState env)"
  shows "preserves P (reconcile env dry force actor)"
  unfolding reconcile_def by (intro preserves_intros assms)

lemma reconcile_inv [preserves_intros]: "preserves (fw_inv B) (reconcile env dry force actor)"
  unfolding reconcile_def by (intro preserves_intros) simp_all

section \<open>The contract of a peer resolver\<close>

text \<open>
  Both layers turn the enabled peers and a service tag into a list of admitted \<open>/32\<close> sources:
  the firewall for a vpn-only rule, Caddy for a vpn-only route. The contract: the list holds the
  addresses of the peers whose scope admits the tag, each once, ordered by last octet.
\<close>

definition scope_admits :: "string option \<Rightarrow> peer \<Rightarrow> bool" where
  "scope_admits service p \<longleftrightarrow> pe_scope p = ''full'' \<or> pe_scope p = ''admin'' \<or>
     pe_scope p = ''services'' \<and> (\<exists>t. service = Some t \<and> t \<noteq> [] \<and> t \<in> set (peer_services p))"

locale peer_resolver =
  fixes resolve :: "string option \<Rightarrow> peer list \<Rightarrow> string list"
  assumes resolve_set: "set (resolve service peers) = peer_cidr ` {p \<in> set peers. scope_admits service p}"
    and resolve_distinct: "distinct (resolve service peers)"
begin

text \<open>An address is admitted only through a peer that has it.\<close>

lemma admitted_iff:
  "c \<in> set (resolve service peers) \<longleftrightarrow> (\<exists>p\<in>set peers. scope_admits service p \<and> c = peer_cidr p)"
  by (auto simp: resolve_set)

lemma excluded:
  assumes "inj_on pe_allowed_ip (set peers)" and "p \<in> set peers" and "\<not> scope_admits service p"
  shows "peer_cidr p \<notin> set (resolve service peers)"
proof
  assume "peer_cidr p \<in> set (resolve service peers)"
  then obtain q where "q \<in> set peers" "scope_admits service q" "pe_allowed_ip q = pe_allowed_ip p"
    by (auto simp: admitted_iff peer_cidr_def)
  with assms show False by (auto dest: inj_onD)
qed

lemma tag_widens: "set (resolve None peers) \<subseteq> set (resolve service peers)"
  by (auto simp: resolve_set scope_admits_def)

lemma fewer_peers: "set ps \<subseteq> set qs \<Longrightarrow> set (resolve service ps) \<subseteq> set (resolve service qs)"
  by (auto simp: resolve_set)

end

definition rule_sources :: "string option \<Rightarrow> peer list \<Rightarrow> string list" where
  "rule_sources service peers =
     sortIpsByTrailingOctet (dedup (full_admin_cidrs peers @ service_cidrs peers service))"

lemma distinct_sortIps [simp]: "distinct (sortIpsByTrailingOctet xs) = distinct xs"
  using distinct_map_sort_by [of "\<lambda>x. x" octet_le xs] by (simp add: sortIpsByTrailingOctet_def)

interpretation l4: peer_resolver rule_sources
proof
  fix service peers
  show "set (rule_sources service peers) = peer_cidr ` {p \<in> set peers. scope_admits service p}"
    by (cases service)
      (auto simp: rule_sources_def full_admin_cidrs_def service_cidrs_def scope_admits_def truthy_def)
  show "distinct (rule_sources service peers)" by (simp add: rule_sources_def)
qed

lemma resolve_rule_sources:
  "rl_enabled r \<Longrightarrow> rl_scope r = ''vpn-only'' \<Longrightarrow> rl_source_cidrs r \<in> {None, Some []} \<Longrightarrow>
    rl_source_cidrs (fst (resolve_rule ps r)) =
      Some (if rule_sources (rl_service r) ps = [] then [NO_ALLOWED_PEERS_SENTINEL]
            else rule_sources (rl_service r) ps)"
  by (auto simp: resolve_rule_def rule_sources_def Let_def split: option.split)

end
