(* ===== verification/Fw_Panic.thy ===== *)
theory Fw_Panic
  imports Fw_Reconcile
begin

text \<open>
  \<open>cli/src/core/firewall/panic.js\<close>: the incident command that closes everything but SSH and an
  already enabled WireGuard, and the command that clears the flag again.
\<close>

section \<open>JSON view of the document\<close>

definition egress_json :: "egress \<Rightarrow> jval" where
  "egress_json e = JObj
     [(''container'', JStr (eg_container e)), (''allow'', jstrs (eg_allow e)),
      (''reason'', jopt JStr (eg_reason e)), (''container_ip'', jopt JStr (eg_container_ip e))]"

definition num_json :: "jsnum \<Rightarrow> jval" where
  "num_json n = (case n of Int_num i \<Rightarrow> JNum i | Not_int \<Rightarrow> JFrac)"

definition upstream_json :: "upstream \<Rightarrow> jval" where
  "upstream_json e = JObj
     [(''route_id'', JStr (up_route_id e)), (''container'', JStr (up_container e)), (''uuid'', JStr (up_uuid e)),
      (''bridge'', JStr (up_bridge e)), (''mac'', JStr (up_mac e)), (''ipv4'', JStr (up_ipv4 e)),
      (''ipv6'', jopt JStr (up_ipv6 e)), (''port'', num_json (up_port e))]"

definition network_json :: "netcfg \<Rightarrow> jval" where
  "network_json n = JObj
     [(''bridge_iface'', jopt JStr (nc_bridge_iface n)), (''bridge_cidr'', jopt JStr (nc_bridge_cidr n)),
      (''bridge_gw'', jopt JStr (nc_bridge_gw n))]"

definition nat_json :: "natcfg \<Rightarrow> jval" where
  "nat_json n = JObj ((''vpn_masquerade_iface'', jopt JStr (nat_vpn_masquerade_iface n)) # nat_other n)"

definition state_json :: "fw_state \<Rightarrow> jval" where
  "state_json s = JObj
     [(''version'', JNum (fs_version s)), (''default_policy'', JStr (fs_default_policy s)),
      (''base'', JArr (map rule_json (fs_base s))), (''discovered'', JArr (map rule_json (fs_discovered s))),
      (''container_egress'', jopt (\<lambda>es. JArr (map egress_json es)) (fs_container_egress s)),
      (''protected_upstreams'', jopt (\<lambda>es. JArr (map upstream_json es)) (fs_protected_upstreams s)),
      (''panic_close'', JBool (fs_panic_close s)), (''network'', jopt network_json (fs_network s)),
      (''nat'', jopt nat_json (fs_nat s))]"

section \<open>Operations\<close>

definition off_rule :: "env \<Rightarrow> string option \<Rightarrow> rule \<Rightarrow> rule" where
  "off_rule env actor r =
     r\<lparr>rl_enabled := False, rl_disabled_at := Some (env_now env), rl_disabled_by := actor\<rparr>"

definition panic_base :: "env \<Rightarrow> string option \<Rightarrow> rule \<Rightarrow> rule" where
  "panic_base env actor r =
     (let keep = (rl_id r = ''base-ssh'' \<or> rl_id r = ''base-wireguard'' \<and> rl_enabled r)
      in if keep then r\<lparr>rl_enabled := True\<rparr> else off_rule env actor r)"

definition panic_doc :: "env \<Rightarrow> string option \<Rightarrow> fw_state \<Rightarrow> fw_state" where
  "panic_doc env actor s = s\<lparr>fs_panic_close := True,
     fs_base := map (panic_base env actor) (fs_base s),
     fs_discovered := map (\<lambda>r. if rl_enabled r then off_rule env actor r else r) (fs_discovered s)\<rparr>"

text \<open>A rule but for its switch: what the lockdown must not touch (port, protocol, scope, sources, ...).\<close>

definition but_switch :: "rule \<Rightarrow> rule" where
  "but_switch r = r\<lparr>rl_enabled := False, rl_disabled_at := None, rl_disabled_by := None\<rparr>"

definition panicClose :: "env \<Rightarrow> string option \<Rightarrow> reconcile_result io" where
  "panicClose env actor =
     bindE (readState env) (\<lambda>s.
     let t = panic_doc env actor s in
     bindE (writeState env t) (\<lambda>_.
     bindE (audit env ''firewall'' ''panic-close'' (Some ''inet/proxypilot'') actor
       (Some (state_json s)) (Some (state_json t)) None) (\<lambda>_.
     reconcile env False False actor)))"

text \<open>The result is None when the flag was already clear.\<close>

definition panicOpen :: "env \<Rightarrow> string option \<Rightarrow> reconcile_result option io" where
  "panicOpen env actor =
     bindE (readState env) (\<lambda>s.
     if \<not> fs_panic_close s then ret None
     else
       let t = s\<lparr>fs_panic_close := False\<rparr> in
       bindE (writeState env t) (\<lambda>_.
       bindE (audit env ''firewall'' ''panic-open'' (Some ''inet/proxypilot'') actor
         (Some (state_json s)) (Some (state_json t)) None) (\<lambda>_.
       bindE (reconcile env False False actor) (\<lambda>r. ret (Some r)))))"

section \<open>The locked-down document\<close>

lemma but_switch_panic:
  "but_switch (off_rule env a r) = but_switch r" "but_switch (panic_base env a r) = but_switch r"
  by (simp_all add: but_switch_def off_rule_def panic_base_def Let_def)

lemma panic_doc_keeps:
  "panic_doc env a s = s\<lparr>fs_panic_close := True, fs_base := fs_base (panic_doc env a s),
     fs_discovered := fs_discovered (panic_doc env a s)\<rparr>"
  "map but_switch (fs_base (panic_doc env a s)) = map but_switch (fs_base s)"
  "map but_switch (fs_discovered (panic_doc env a s)) = map but_switch (fs_discovered s)"
  by (simp_all add: panic_doc_def but_switch_panic)

lemma off_rule_keeps [simp]:
  "rl_id (off_rule env a r) = rl_id r" "rl_enabled (off_rule env a r) = False"
  "rule_ok (off_rule env a r) = rule_ok r"
  by (simp_all add: off_rule_def rule_ok_def ports_ok_def)

lemma panic_base_keeps [simp]:
  "rl_id (panic_base env a r) = rl_id r" "rule_ok (panic_base env a r) = rule_ok r"
  "rl_enabled (panic_base env a r) \<longleftrightarrow> rl_id r = ''base-ssh'' \<or> rl_id r = ''base-wireguard'' \<and> rl_enabled r"
  by (auto simp: panic_base_def off_rule_def rule_ok_def ports_ok_def)

lemma panic_doc_ids [simp]:
  "ids (panic_doc env a s) = ids s" "base_ids (panic_doc env a s) = base_ids s"
  by (simp_all add: panic_doc_def ids_def base_ids_def rules_of_def o_def if_distrib cong: if_cong)

lemma panic_doc_ok [simp]: "fw_ok s \<Longrightarrow> fw_ok (panic_doc env a s)"
proof -
  assume s: "fw_ok s"
  have "list_all rule_ok (rules_of (panic_doc env a s))"
    using s by (auto simp: fw_ok_def list_all_iff panic_doc_def rules_of_def)
  moreover have "fs_version (panic_doc env a s) = fs_version s" by (simp add: panic_doc_def)
  ultimately show ?thesis using s by (simp add: fw_ok_def)
qed

text \<open>Every rule that is enabled after the command was enabled before, SSH apart.\<close>

lemma panic_doc_enabled:
  "r \<in> set (rules_of (panic_doc env a s)) \<Longrightarrow> rl_enabled r \<Longrightarrow>
    r \<in> set (fs_base (panic_doc env a s)) \<and> (rl_id r = ''base-ssh'' \<or> rl_id r = ''base-wireguard'')"
  by (auto simp: panic_doc_def rules_of_def split: if_splits)

lemma panic_inv [preserves_intros]:
  "preserves (fw_inv B) (panicClose env actor)" "preserves (fw_inv B) (panicOpen env actor)"
  unfolding panicClose_def panicOpen_def Let_def by (intro preserves_intros; simp)+

end
