(* ===== verification/Fw_Egress.thy ===== *)
theory Fw_Egress
  imports Fw_Panic
begin

text \<open>
  \<open>cli/src/core/firewall/egress.js\<close>: which host services each container may reach.
\<close>

definition egress_of :: "fw_state \<Rightarrow> egress list" where
  "egress_of s = (case fs_container_egress s of None \<Rightarrow> [] | Some es \<Rightarrow> es)"

definition allow_entry :: "string \<Rightarrow> string option \<Rightarrow> string option \<Rightarrow> egress \<Rightarrow> egress" where
  "allow_entry service reason containerIp e =
     (let e1 = (if service \<in> set (eg_allow e) then e else e\<lparr>eg_allow := eg_allow e @ [service]\<rparr>);
          e2 = (if truthy containerIp then e1\<lparr>eg_container_ip := containerIp\<rparr> else e1)
      in if truthy reason then e2\<lparr>eg_reason := reason\<rparr> else e2)"

text \<open>The entry found first is changed in place; without one, a new entry is pushed.\<close>

fun update_entry :: "string \<Rightarrow> (egress \<Rightarrow> egress) \<Rightarrow> egress list \<Rightarrow> egress list" where
  "update_entry c f [] = []"
| "update_entry c f (e # es) = (if eg_container e = c then f e # es else e # update_entry c f es)"

definition find_entry :: "string \<Rightarrow> egress list \<Rightarrow> egress option" where
  "find_entry c es = find (\<lambda>e. eg_container e = c) es"

definition new_entry :: "string \<Rightarrow> string option \<Rightarrow> egress" where
  "new_entry c reason = \<lparr>eg_container = c, eg_allow = [], eg_reason = reason, eg_container_ip = None\<rparr>"

definition allowEgress :: "env \<Rightarrow> string \<Rightarrow> string \<Rightarrow> string option \<Rightarrow> string option \<Rightarrow> string option \<Rightarrow> egress io" where
  "allowEgress env container service reason containerIp actor =
     bindE (guardE (NAMED_SERVICES service \<noteq> None) (Fw (Unknown_egress_service service))) (\<lambda>_.
     bindE (readState env) (\<lambda>s.
     let es = egress_of s;
         before = find_entry container es;
         es1 = (case before of None \<Rightarrow> es @ [new_entry container reason] | Some _ \<Rightarrow> es);
         es2 = update_entry container (allow_entry service reason containerIp) es1;
         entry = the (find_entry container es2)
     in bindE (writeState env (s\<lparr>fs_container_egress := Some es2\<rparr>)) (\<lambda>_.
        bindE (audit env ''firewall'' ''egress-allow'' (Some (container @ ''/'' @ service)) actor
          (Some (jopt egress_json before)) (Some (egress_json entry)) None) (\<lambda>_.
        ret entry))))"

fun remove_entry :: "string \<Rightarrow> egress list \<Rightarrow> egress list" where
  "remove_entry c [] = []"
| "remove_entry c (e # es) = (if eg_container e = c then es else e # remove_entry c es)"

text \<open>The result is False when the container has no entry.\<close>

definition denyEgress :: "env \<Rightarrow> string \<Rightarrow> string \<Rightarrow> string option \<Rightarrow> bool io" where
  "denyEgress env container service actor =
     bindE (readState env) (\<lambda>s.
     case find_entry container (egress_of s) of
       None \<Rightarrow> ret False
     | Some before \<Rightarrow>
         let entry = before\<lparr>eg_allow := filter (\<lambda>x. x \<noteq> service) (eg_allow before)\<rparr>;
             es = (if eg_allow entry = [] then remove_entry container (egress_of s)
                   else update_entry container (\<lambda>_. entry) (egress_of s))
         in bindE (writeState env (s\<lparr>fs_container_egress := Some es\<rparr>)) (\<lambda>_.
            bindE (audit env ''firewall'' ''egress-deny'' (Some (container @ ''/'' @ service)) actor
              (Some (egress_json before))
              (Some (if eg_allow entry = [] then JNull else egress_json entry)) None) (\<lambda>_.
            ret True)))"

definition listEgress :: "env \<Rightarrow> egress list io" where
  "listEgress env = bindE (readState env) (\<lambda>s. ret (egress_of s))"

section \<open>Lookup laws\<close>

lemma find_entry_container: "find_entry c es = Some e \<Longrightarrow> eg_container e = c"
  by (auto simp: find_entry_def find_Some_iff)

lemma find_entry_update:
  "(\<And>e. eg_container (f e) = eg_container e) \<Longrightarrow>
    find_entry d (update_entry c f es) = (if d = c then map_option f (find_entry c es) else find_entry d es)"
  by (induction es) (auto simp: find_entry_def)

lemma find_entry_update_const:
  "eg_container e' = c \<Longrightarrow> find_entry c es \<noteq> None \<Longrightarrow>
    find_entry d (update_entry c (\<lambda>_. e') es) = (if d = c then Some e' else find_entry d es)"
  by (induction es) (auto simp: find_entry_def)

lemma find_entry_append:
  "find_entry c (es @ fs) = (case find_entry c es of None \<Rightarrow> find_entry c fs | Some e \<Rightarrow> Some e)"
  by (induction es) (auto simp: find_entry_def)

lemma find_entry_remove:
  "distinct (map eg_container es) \<Longrightarrow>
    find_entry d (remove_entry c es) = (if d = c then None else find_entry d es)"
  by (induction es) (auto simp: find_entry_def find_None_iff image_iff dest: sym)

lemma allow_entry_container [simp]: "eg_container (allow_entry s r i e) = eg_container e"
  by (simp add: allow_entry_def Let_def)

lemma allow_entry_allow:
  "eg_allow (allow_entry s r i e) = (if s \<in> set (eg_allow e) then eg_allow e else eg_allow e @ [s])"
  by (simp add: allow_entry_def Let_def)

lemma containers_update [simp]:
  "(\<And>e. eg_container (f e) = eg_container e) \<Longrightarrow> map eg_container (update_entry c f es) = map eg_container es"
  by (induction es) auto

lemma containers_update_const [simp]:
  "eg_container e' = c \<Longrightarrow> map eg_container (update_entry c (\<lambda>_. e') es) = map eg_container es"
  by (induction es) auto

lemma containers_remove: "mset (map eg_container (remove_entry c es)) \<subseteq># mset (map eg_container es)"
proof (induction es)
  case (Cons e es)
  then show ?case by (auto intro: subset_mset.order_trans [of _ "mset (map eg_container es)"])
qed simp

lemma egress_inv [preserves_intros]:
  "preserves (fw_inv B) (allowEgress env c sv r i a)"
  "preserves (fw_inv B) (denyEgress env c sv a)"
  "preserves (fw_inv B) (listEgress env)"
  unfolding allowEgress_def denyEgress_def listEgress_def Let_def
  by (intro preserves_intros; simp)+

text \<open>The services a container may reach, as the renderer reads them.\<close>

definition may_reach :: "fw_state \<Rightarrow> string \<Rightarrow> string set" where
  "may_reach s c = (case find_entry c (egress_of s) of None \<Rightarrow> {} | Some e \<Rightarrow> set (eg_allow e))"

lemma egress_of_upd [simp]: "egress_of (s\<lparr>fs_container_egress := Some es\<rparr>) = es"
  by (simp add: egress_of_def)

end
