(* ===== verification/Fw_Discover.thy ===== *)
theory Fw_Discover
  imports Fw_Panic
begin

text \<open>
  \<open>cli/src/core/firewall/discover.js\<close>: the four scanners (host sockets, Incus instances, Docker
  ports, Caddy layer-4 listeners) and the merge of what they found into the document. Port
  numbers are read with \<open>parseInt\<close> from runs of digits and are kept as unbounded integers.
\<close>

section \<open>Parsing socket listings\<close>

record listener =
  ls_source :: string
  ls_container :: "string option"
  ls_process :: "string option"
  ls_port_start :: int
  ls_port_end :: "int option"
  ls_proto :: string

definition RETENTION_MS :: int where "RETENTION_MS = 7 * 24 * 60 * 60 * 1000"

definition ruleId :: "listener \<Rightarrow> string" where
  "ruleId l = ls_source l @ ''-'' @ (case ls_container l of None \<Rightarrow> ''host'' | Some c \<Rightarrow> c) @ ''-'' @
     (case ls_process l of None \<Rightarrow> ''unknown'' | Some p \<Rightarrow> p) @ ''-'' @
     port_range_str (ls_port_start l) (ls_port_end l) @ ''-'' @ ls_proto l"

text \<open>\<open>/^(.*):(\d+)$/\<close>\<close>

definition match_host_port :: "string \<Rightarrow> (string \<times> int) option" where
  "match_host_port a =
     (let ds = rev (takeWhile is_digit (rev a)); r = dropWhile is_digit (rev a)
      in if ds \<noteq> [] \<and> r \<noteq> [] \<and> hd r = CHR '':'' then Some (rev (tl r), int (read_nat ds)) else None)"

text \<open>\<open>/users:\(\("([^"]+)"/\<close>, searched for from the left.\<close>

definition USERS_OPEN :: string where "USERS_OPEN = ''users:(('' @ dq"

fun match_users :: "string \<Rightarrow> string option" where
  "match_users [] = None"
| "match_users (c # s) =
     (let t = drop (length USERS_OPEN) (c # s);
          name = takeWhile (\<lambda>x. x \<noteq> CHR 0x22) t
      in if prefix USERS_OPEN (c # s) \<and> name \<noteq> [] \<and> dropWhile (\<lambda>x. x \<noteq> CHR 0x22) t \<noteq> []
         then Some name else match_users s)"

definition parseSsLine :: "string \<Rightarrow> (string \<times> int \<times> string option) option" where
  "parseSsLine line =
     (let cols = split_ws line
      in if length cols < 5 then None
         else if cols ! 0 \<noteq> ''tcp'' \<and> cols ! 0 \<noteq> ''udp'' then None
         else case match_host_port (cols ! 4) of
           None \<Rightarrow> None
         | Some (host, port) \<Rightarrow>
             if host = ''127.0.0.1'' \<or> host = ''[::1]'' \<or> starts_with host ''127.'' then None
             else Some (cols ! 0, port, match_users (join '' '' (drop 5 cols))))"

text \<open>The listener records of one listing, the first of each \<open>proto:port:process\<close> key.\<close>

fun dedup_on :: "('a \<Rightarrow> 'k) \<Rightarrow> 'k list \<Rightarrow> 'a list \<Rightarrow> 'a list" where
  "dedup_on f seen [] = []"
| "dedup_on f seen (x # xs) =
     (if f x \<in> set seen then dedup_on f seen xs else x # dedup_on f (f x # seen) xs)"

definition ss_key :: "string \<times> int \<times> string option \<Rightarrow> string" where
  "ss_key r = (case r of (proto, port, proc) \<Rightarrow>
     proto @ '':'' @ show_int port @ '':'' @ (case proc of None \<Rightarrow> [] | Some p \<Rightarrow> p))"

definition ss_records :: "string \<Rightarrow> (string \<times> int \<times> string option) list" where
  "ss_records out =
     dedup_on ss_key [] (List.map_filter parseSsLine
       (filter (\<lambda>l. trim l \<noteq> []) (split_on newline out)))"

definition ss_listener :: "string \<Rightarrow> string option \<Rightarrow> string \<times> int \<times> string option \<Rightarrow> listener" where
  "ss_listener source container r = (case r of (proto, port, proc) \<Rightarrow>
     \<lparr>ls_source = source, ls_container = container, ls_process = proc, ls_port_start = port,
      ls_port_end = None, ls_proto = proto\<rparr>)"

definition need_stdout :: "proc \<Rightarrow> string io" where
  "need_stdout r = (case pr_stdout r of None \<Rightarrow> throw (Sys Type_error) | Some t \<Rightarrow> ret t)"

section \<open>Scanners\<close>

definition scanHost :: "env \<Rightarrow> listener list io" where
  "scanHost env =
     bindE (spawn env ''ss'' [''-H'', ''-tulnp''] []) (\<lambda>out.
     if pr_status out \<noteq> Some 0 then throw (Fw Ss_failed)
     else bindE (need_stdout out) (\<lambda>text.
       ret (map (ss_listener ''host'' None) (ss_records text))))"

fun scan_instances :: "env \<Rightarrow> (string \<times> string) list \<Rightarrow> listener list io" where
  "scan_instances env [] = ret []"
| "scan_instances env ((name, status) # rest) =
     (if status \<noteq> ''Running'' then scan_instances env rest
      else
        bindE (spawn env ''incus'' [''exec'', name, ''--'', ''ss'', ''-H'', ''-tulnp''] []) (\<lambda>r.
        if pr_status r \<noteq> Some 0 then scan_instances env rest
        else bindE (need_stdout r) (\<lambda>text.
          bindE (scan_instances env rest) (\<lambda>ls.
          ret (map (ss_listener ''lxc'' (Some name)) (ss_records text) @ ls)))))"

definition scanLxc :: "env \<Rightarrow> listener list io" where
  "scanLxc env = (case env_instances env of None \<Rightarrow> ret [] | Some is \<Rightarrow> scan_instances env is)"

text \<open>\<open>(\d+(?:-\d+)?)\<close> at the start of a string: the number or range, and the rest.\<close>

definition match_range :: "string \<Rightarrow> (int \<times> int option \<times> string) option" where
  "match_range s =
     (let a = takeWhile is_digit s; r = dropWhile is_digit s;
          b = takeWhile is_digit (tl r)
      in if a = [] then None
         else if r \<noteq> [] \<and> hd r = CHR ''-'' \<and> b \<noteq> []
         then Some (int (read_nat a), Some (int (read_nat b)), dropWhile is_digit (tl r))
         else Some (int (read_nat a), None, r))"

definition match_proto :: "string \<Rightarrow> string option" where
  "match_proto s = (if prefix ''tcp'' s then Some ''tcp'' else if prefix ''udp'' s then Some ''udp'' else None)"

text \<open>\<open>(\d+(?:-\d+)?)->(\d+(?:-\d+)?)\/(tcp|udp)\<close> at the start of a string.\<close>

definition match_mapping :: "string \<Rightarrow> (int \<times> int option \<times> string) option" where
  "match_mapping s =
     (case match_range s of
        Some (a, e, r) \<Rightarrow>
          if prefix ''->'' r then
            (case match_range (drop 2 r) of
               Some (_, _, r2) \<Rightarrow>
                 if prefix ''/'' r2 then map_option (\<lambda>p. (a, e, p)) (match_proto (drop 1 r2)) else None
             | None \<Rightarrow> None)
          else None
      | None \<Rightarrow> None)"

text \<open>The optional \<open>host:\<close> group is tried first.\<close>

definition match_docker :: "string \<Rightarrow> (string option \<times> int \<times> int option \<times> string) option" where
  "match_docker piece =
     (let h = takeWhile (\<lambda>c. c \<noteq> CHR '':'') piece; r = dropWhile (\<lambda>c. c \<noteq> CHR '':'') piece;
          with_host = (if h \<noteq> [] \<and> r \<noteq> [] then match_mapping (tl r) else None)
      in case with_host of
           Some m \<Rightarrow> Some (Some h, m)
         | None \<Rightarrow> map_option (\<lambda>m. (None, m)) (match_mapping piece))"

definition loopback_host :: "string option \<Rightarrow> bool" where
  "loopback_host h \<longleftrightarrow> h = Some ''127.0.0.1'' \<or> h = Some ''[::1]''"

definition docker_key :: "string \<Rightarrow> int \<times> int option \<times> string \<Rightarrow> string" where
  "docker_key name m = (case m of (start, end', proto) \<Rightarrow>
     proto @ '':'' @ show_int start @ '':'' @ show_int (case end' of None \<Rightarrow> start | Some e \<Rightarrow> e) @ '':'' @ name)"

definition docker_ports :: "string \<Rightarrow> (int \<times> int option \<times> string) list" where
  "docker_ports ports =
     List.map_filter (\<lambda>p. case match_docker p of
         Some (h, m) \<Rightarrow> if loopback_host h then None else Some m
       | None \<Rightarrow> None)
       (filter (\<lambda>p. p \<noteq> []) (map trim (split_on (CHR '','') ports)))"

definition docker_line :: "string \<Rightarrow> err + listener list" where
  "docker_line line =
     (case JSON_parse line of
        None \<Rightarrow> Inr []
      | Some json \<Rightarrow>
          bindR (jprop (Some json) ''Ports'') (\<lambda>ports.
          let names = jget (Some json) ''Names''; cid = jget (Some json) ''ID'';
              name = (if \<not> nullish names then js_String_opt names
                      else if \<not> nullish cid then js_String_opt cid else ''unknown'')
          in bindR (case ports of
                      Some (JStr s) \<Rightarrow> Inr s
                    | _ \<Rightarrow> if nullish ports then Inr [] else Inl (Sys Type_error)) (\<lambda>text.
             Inr (map (\<lambda>(start, end', proto).
                 \<lparr>ls_source = ''docker'', ls_container = Some name, ls_process = None,
                  ls_port_start = start, ls_port_end = end', ls_proto = proto\<rparr>)
               (dedup_on (docker_key name) [] (docker_ports text))))))"

definition scanDocker :: "env \<Rightarrow> listener list io" where
  "scanDocker env =
     bindE (spawn env ''docker'' [''ps'', ''--format'', ''{{json .}}''] []) (\<lambda>r.
     if pr_status r \<noteq> Some 0 then ret []
     else bindE (need_stdout r) (\<lambda>text.
       bindE (liftE (mapR docker_line (filter (\<lambda>l. trim l \<noteq> []) (split_on newline text)))) (\<lambda>lss.
       ret (concat lss))))"

text \<open>\<open>Object.entries\<close> and \<open>for ... of\<close> over a parsed value.\<close>

definition obj_entries :: "jval option \<Rightarrow> (string \<times> jval) list" where
  "obj_entries v =
     (case v of
        Some (JObj kvs) \<Rightarrow> map (\<lambda>k. (k, the (map_of (rev kvs) k))) (dedup (map fst kvs))
      | Some (JArr vs) \<Rightarrow> zip (map show_nat [0..<length vs]) vs
      | _ \<Rightarrow> [])"

definition listen_specs :: "jval option \<Rightarrow> err + string list" where
  "listen_specs v =
     (case v of
        None \<Rightarrow> Inr [] | Some JNull \<Rightarrow> Inr []
      | Some (JArr vs) \<Rightarrow> Inr (map js_String vs)
      | Some (JStr s) \<Rightarrow> Inr (map (\<lambda>c. [c]) s)
      | Some _ \<Rightarrow> Inl (Sys Type_error))"

text \<open>\<open>/^([^:]*):(\d+(?:-\d+)?)(?:\/(tcp|udp))?$/\<close>\<close>

definition match_listen :: "string \<Rightarrow> (string \<times> int \<times> int option \<times> string) option" where
  "match_listen spec =
     (let h = takeWhile (\<lambda>c. c \<noteq> CHR '':'') spec; r = dropWhile (\<lambda>c. c \<noteq> CHR '':'') spec
      in if r = [] then None
         else case match_range (tl r) of
           None \<Rightarrow> None
         | Some (a, e, rest) \<Rightarrow>
             if rest = [] \<or> rest = ''/tcp'' then Some (h, a, e, ''tcp'')
             else if rest = ''/udp'' then Some (h, a, e, ''udp'') else None)"

definition caddy_server :: "string \<times> jval \<Rightarrow> err + listener list" where
  "caddy_server nv = (case nv of (name, server) \<Rightarrow>
     bindR (jprop (Some server) ''listen'') (\<lambda>l.
     bindR (listen_specs l) (\<lambda>specs.
     Inr (List.map_filter (\<lambda>spec. case match_listen spec of
            None \<Rightarrow> None
          | Some (h, a, e, proto) \<Rightarrow>
              if loopback_host (Some h) then None
              else Some \<lparr>ls_source = ''caddy-l4'', ls_container = None, ls_process = Some name,
                     ls_port_start = a, ls_port_end = e, ls_proto = proto\<rparr>) specs))))"

definition scanCaddyL4 :: "env \<Rightarrow> listener list io" where
  "scanCaddyL4 env =
     (case env_caddy_config env of
        None \<Rightarrow> ret []
      | Some cfg \<Rightarrow>
          bindE (liftE (mapR caddy_server
            (obj_entries (jget (jget (jget (Some cfg) ''apps'') ''layer4'') ''servers'')))) (\<lambda>lss.
          ret (concat lss)))"

section \<open>Merging\<close>

text \<open>\<open>Map.prototype.set\<close>: an existing key keeps its place.\<close>

definition put_rule :: "rule \<Rightarrow> rule list \<Rightarrow> rule list" where
  "put_rule r m = (if list_ex (\<lambda>x. rl_id x = rl_id r) m then replace_first (rl_id r) r m else m @ [r])"

definition index_by_id :: "rule list \<Rightarrow> rule list" where
  "index_by_id rs = foldl (\<lambda>m r. put_rule r m) [] rs"

definition refresh_rule :: "int \<Rightarrow> listener \<Rightarrow> rule \<Rightarrow> rule" where
  "refresh_rule ts l r =
     (let r1 = r\<lparr>rl_last_seen := ts\<rparr>
      in if truthy (ls_process l) \<and> \<not> truthy (rl_process r) then r1\<lparr>rl_process := ls_process l\<rparr> else r1)"

definition new_rule :: "int \<Rightarrow> listener \<Rightarrow> rule" where
  "new_rule ts l =
     \<lparr>rl_id = ruleId l, rl_source = ls_source l, rl_container = ls_container l, rl_process = ls_process l,
      rl_port_start = ls_port_start l, rl_port_end = ls_port_end l, rl_proto = ls_proto l,
      rl_scope = ''public'', rl_source_cidrs = None, rl_enabled = False, rl_reason = None,
      rl_first_seen = ts, rl_last_seen = ts, rl_service = None, rl_enabled_at = None, rl_enabled_by = None,
      rl_disabled_at = None, rl_disabled_by = None\<rparr>"

definition merge_one :: "int \<Rightarrow> listener \<Rightarrow> rule list \<Rightarrow> rule list" where
  "merge_one ts l m =
     (case find (\<lambda>r. rl_id r = ruleId l) m of
        Some cur \<Rightarrow> put_rule (refresh_rule ts l cur) m
      | None \<Rightarrow> put_rule (new_rule ts l) m)"

fun merge_all :: "int \<Rightarrow> listener list \<Rightarrow> rule list \<Rightarrow> rule list \<times> nat \<times> nat" where
  "merge_all ts [] m = (m, 0, 0)"
| "merge_all ts (l # ls) m =
     (case merge_all ts ls (merge_one ts l m) of (m', added, refreshed) \<Rightarrow>
        if list_ex (\<lambda>r. rl_id r = ruleId l) m then (m', added, refreshed + 1)
        else (m', added + 1, refreshed))"

definition gc_drops :: "int \<Rightarrow> string list \<Rightarrow> rule \<Rightarrow> bool" where
  "gc_drops cutoff scanned r \<longleftrightarrow>
     rl_source r \<in> set scanned \<and> rl_source r \<noteq> ''manual'' \<and> rl_last_seen r < cutoff"

definition discovery_doc :: "env \<Rightarrow> listener list \<Rightarrow> fw_state \<Rightarrow> fw_state \<times> nat \<times> nat \<times> nat" where
  "discovery_doc env ls s =
     (let ts = env_now env; cutoff = env_now env - RETENTION_MS;
          (m, added, refreshed) = merge_all ts ls (index_by_id (fs_discovered s));
          scanned = dedup (map ls_source ls);
          kept = filter (\<lambda>r. \<not> gc_drops cutoff scanned r) m
      in (s\<lparr>fs_discovered := sort_rules env kept\<rparr>, added, refreshed, length m - length kept))"

definition reconcileDiscovery :: "env \<Rightarrow> listener list \<Rightarrow> (nat \<times> nat \<times> nat) io" where
  "reconcileDiscovery env ls =
     bindE (readState env) (\<lambda>s.
     let (t, added, refreshed, gc) = discovery_doc env ls s in
     bindE (writeState env t) (\<lambda>_.
     bindE (if added > 0 \<or> gc > 0 then
         audit env ''firewall'' ''discover'' (Some (join '','' (sort (dedup (map ls_source ls))))) None
           (Some (JArr (map rule_json (fs_discovered s)))) (Some (JArr (map rule_json (fs_discovered t))))
           (Some (''added='' @ show_nat added @ '' refreshed='' @ show_nat refreshed @ '' gc='' @ show_nat gc))
       else ret ()) (\<lambda>_.
     ret (added, refreshed, gc))))"

definition scan :: "env \<Rightarrow> (nat \<times> nat \<times> nat) io" where
  "scan env =
     bindE (scanHost env) (\<lambda>host.
     bindE (scanLxc env) (\<lambda>lxc.
     bindE (scanDocker env) (\<lambda>docker.
     bindE (scanCaddyL4 env) (\<lambda>caddyL4.
     reconcileDiscovery env (host @ lxc @ docker @ caddyL4)))))"

section \<open>The merge on a document with distinct ids\<close>

text \<open>What discovery may change of a rule it has seen before.\<close>

definition keeps_rule :: "rule \<Rightarrow> rule \<Rightarrow> bool" where
  "keeps_rule r r' \<longleftrightarrow> r' = r\<lparr>rl_last_seen := rl_last_seen r', rl_process := rl_process r'\<rparr>"

lemma keeps_rule_refl [simp]: "keeps_rule r r"
  by (simp add: keeps_rule_def)

lemma keeps_rule_trans: "keeps_rule a b \<Longrightarrow> keeps_rule b c \<Longrightarrow> keeps_rule a c"
  by (cases a; cases b; cases c) (simp add: keeps_rule_def)

lemma keeps_rule_refresh [simp]: "keeps_rule r (refresh_rule ts l r)"
  by (simp add: keeps_rule_def refresh_rule_def Let_def)

lemma keeps_ruleD:
  assumes "keeps_rule r r'"
  shows "rl_id r' = rl_id r" and "rl_enabled r' = rl_enabled r" and "rl_source r' = rl_source r"
    and "rl_scope r' = rl_scope r" and "rl_source_cidrs r' = rl_source_cidrs r" and "rule_ok r' = rule_ok r"
  using assms by (cases r; cases r'; simp add: keeps_rule_def rule_ok_def ports_ok_def)+

lemma refresh_rule_id [simp]: "rl_id (refresh_rule ts l r) = rl_id r"
  using keeps_ruleD(1) [OF keeps_rule_refresh] .

lemma last_seen_refresh [simp]: "rl_last_seen (refresh_rule ts l r) = ts"
  by (simp add: refresh_rule_def Let_def)

lemma new_rule_id [simp]: "rl_id (new_rule ts l) = ruleId l"
  by (simp add: new_rule_def)

lemma put_rule_new: "rl_id r \<notin> rl_id ` set m \<Longrightarrow> put_rule r m = m @ [r]"
  unfolding put_rule_def list_ex_iff by (metis imageI)

lemma merge_one_eq:
  assumes "distinct (map rl_id m)"
  shows "merge_one ts l m =
    (if ruleId l \<in> rl_id ` set m
     then map (\<lambda>x. if rl_id x = ruleId l then refresh_rule ts l x else x) m
     else m @ [new_rule ts l])"
proof (cases "find (\<lambda>r. rl_id r = ruleId l) m")
  case None
  then have "ruleId l \<notin> rl_id ` set m" by (auto simp: find_None_iff)
  moreover from this have "put_rule (new_rule ts l) m = m @ [new_rule ts l]"
    by (simp add: put_rule_new)
  ultimately show ?thesis using None by (simp add: merge_one_def)
next
  case (Some cur)
  then have c: "cur \<in> set m" "rl_id cur = ruleId l" by (auto simp: find_Some_iff)
  have e: "x = cur" if "x \<in> set m" "rl_id x = ruleId l" for x
    using assms c that by (metis distinct_map inj_on_def)
  have "replace_first (ruleId l) (refresh_rule ts l cur) m =
      map (\<lambda>x. if rl_id x = ruleId l then refresh_rule ts l x else x) m"
    using replace_first_map [OF assms] e by (auto intro!: map_cong)
  moreover from c have "ruleId l \<in> rl_id ` set m" by (metis imageI)
  ultimately show ?thesis using Some c
    by (auto simp: merge_one_def put_rule_def list_ex_iff)
qed

lemma merge_one_distinct:
  assumes "distinct (map rl_id m)"
  shows "distinct (map rl_id (merge_one ts l m))"
proof -
  have "map rl_id (map (\<lambda>x. if rl_id x = ruleId l then refresh_rule ts l x else x) m) = map rl_id m"
    by simp
  with assms show ?thesis by (auto simp: merge_one_eq new_rule_def simp del: map_map)
qed

lemma merge_one_old:
  assumes "distinct (map rl_id m)" and "r \<in> set m"
  shows "\<exists>r'\<in>set (merge_one ts l m). keeps_rule r r'"
proof (cases "rl_id r = ruleId l")
  case True
  with assms have "refresh_rule ts l r \<in> set (merge_one ts l m)"
    by (force simp: merge_one_eq)
  then show ?thesis using keeps_rule_refresh by blast
next
  case False
  with assms have "r \<in> set (merge_one ts l m)" by (force simp: merge_one_eq)
  then show ?thesis using keeps_rule_refl by blast
qed

lemma merge_one_new:
  assumes "distinct (map rl_id m)" and "r' \<in> set (merge_one ts l m)"
  shows "(\<exists>r\<in>set m. keeps_rule r r') \<or> r' = new_rule ts l"
proof -
  from assms have "r' \<in> set m \<or> (\<exists>r\<in>set m. r' = refresh_rule ts l r) \<or> r' = new_rule ts l"
    by (auto simp: merge_one_eq split: if_splits)
  then show ?thesis using keeps_rule_refl keeps_rule_refresh by metis
qed

text \<open>A rule that came from a listener of this scan.\<close>

definition scanned_rule :: "int \<Rightarrow> listener list \<Rightarrow> rule \<Rightarrow> bool" where
  "scanned_rule ts ls r \<longleftrightarrow> (\<exists>l\<in>set ls. keeps_rule (new_rule ts l) r)"

lemma merge_all_props:
  assumes "distinct (map rl_id m)" and "merge_all ts ls m = (m', a, f)"
  shows "distinct (map rl_id m')"
    and "r \<in> set m \<Longrightarrow> \<exists>r'\<in>set m'. keeps_rule r r'"
    and "r' \<in> set m' \<Longrightarrow> (\<exists>r\<in>set m. keeps_rule r r') \<or> scanned_rule ts ls r'"
proof -
  have "distinct (map rl_id m') \<and> (\<forall>r\<in>set m. \<exists>r'\<in>set m'. keeps_rule r r') \<and>
      (\<forall>r'\<in>set m'. (\<exists>r\<in>set m. keeps_rule r r') \<or> scanned_rule ts ls r')"
    using assms
  proof (induction ls arbitrary: m a f)
    case (Cons l ls)
    let ?m = "merge_one ts l m"
    from Cons.prems obtain b g where ih: "merge_all ts ls ?m = (m', b, g)"
      by (auto split: prod.splits if_splits)
    note h = Cons.IH [OF merge_one_distinct [OF Cons.prems(1)] ih]
    have "\<exists>r'\<in>set m'. keeps_rule r r'" if "r \<in> set m" for r
      using h merge_one_old [OF Cons.prems(1) that] keeps_rule_trans by blast
    moreover have "(\<exists>r\<in>set m. keeps_rule r r') \<or> scanned_rule ts (l # ls) r'" if "r' \<in> set m'" for r'
    proof -
      from h that consider r where "r \<in> set ?m" "keeps_rule r r'" | "scanned_rule ts ls r'" by blast
      then show ?thesis
      proof cases
        case 1
        from merge_one_new [OF Cons.prems(1) 1(1)] show ?thesis
          using 1(2) keeps_rule_trans by (auto simp: scanned_rule_def)
      qed (auto simp: scanned_rule_def)
    qed
    ultimately show ?case using h by blast
  qed (auto intro: keeps_rule_refl)
  then show "distinct (map rl_id m')" "r \<in> set m \<Longrightarrow> \<exists>r'\<in>set m'. keeps_rule r r'"
    "r' \<in> set m' \<Longrightarrow> (\<exists>r\<in>set m. keeps_rule r r') \<or> scanned_rule ts ls r'"
    by blast+
qed

lemma index_by_id_distinct:
  assumes "distinct (map rl_id rs)"
  shows "index_by_id rs = rs"
proof -
  have "distinct (map rl_id (m @ rs)) \<Longrightarrow> foldl (\<lambda>m r. put_rule r m) m rs = m @ rs" for m
  proof (induction rs arbitrary: m)
    case (Cons r rs)
    then have "put_rule r m = m @ [r]" by (simp add: put_rule_new)
    with Cons show ?case by simp
  qed simp
  with assms show ?thesis by (simp add: index_by_id_def)
qed

lemma discovery_doc_props:
  assumes "fw_ok s" and "discovery_doc env ls s = (t, a, f, g)"
  obtains m where "merge_all (env_now env) ls (fs_discovered s) = (m, a, f)"
    and "t = s\<lparr>fs_discovered := sort_rules env
      (filter (\<lambda>r. \<not> gc_drops (env_now env - RETENTION_MS) (dedup (map ls_source ls)) r) m)\<rparr>"
proof -
  have "index_by_id (fs_discovered s) = fs_discovered s"
    using assms(1) by (intro index_by_id_distinct) (simp add: fw_ok_def ids_def rules_of_def)
  with assms(2) that show ?thesis
    by (auto simp: discovery_doc_def Let_def split: prod.splits)
qed

section \<open>Discovery keeps the document well-formed\<close>

text \<open>What the scanners promise of a record.\<close>

definition listener_ok :: "listener \<Rightarrow> bool" where
  "listener_ok l \<longleftrightarrow> ls_source l \<in> {''host'', ''lxc'', ''docker'', ''caddy-l4''} \<and> ls_proto l \<in> {''tcp'', ''udp''}"

lemma new_rule_ok: "listener_ok l \<Longrightarrow> rule_ok (new_rule ts l)"
  by (auto simp: listener_ok_def new_rule_def rule_ok_def VALID_SOURCES_def VALID_PROTOS_def VALID_SCOPES_def)

definition base_named :: "string list \<Rightarrow> bool" where
  "base_named B \<longleftrightarrow> list_all (\<lambda>b. prefix ''base-'' b) B"

lemma base_named_default [simp]: "base_named DEFAULT_IDS"
  by (simp add: base_named_def DEFAULT_IDS_def DEFAULT_BASE_def base_rule_def)

lemma ruleId_not_base: "listener_ok l \<Longrightarrow> base_named B \<Longrightarrow> ruleId l \<notin> set B"
  by (auto simp: listener_ok_def base_named_def ruleId_def list_all_iff prefix_def)

lemma discovery_doc_ok:
  assumes s: "fw_ok s" and ls: "\<And>l. l \<in> set ls \<Longrightarrow> listener_ok l" and B: "base_named (base_ids s)"
    and d: "discovery_doc env ls s = (t, a, f, g)"
  shows "fw_ok t" and "base_ids t = base_ids s"
proof -
  from s d obtain m where m: "merge_all (env_now env) ls (fs_discovered s) = (m, a, f)"
    and t: "t = s\<lparr>fs_discovered := sort_rules env
      (filter (\<lambda>r. \<not> gc_drops (env_now env - RETENTION_MS) (dedup (map ls_source ls)) r) m)\<rparr>"
    by (rule discovery_doc_props)
  have ds: "distinct (map rl_id (fs_discovered s))" using s by (simp add: fw_ok_def ids_def rules_of_def)
  note p = merge_all_props [OF ds m]
  have ok: "rule_ok r \<and> rl_id r \<notin> set (base_ids s)" if "r \<in> set m" for r
    using p(3) [OF that]
  proof
    assume "\<exists>q\<in>set (fs_discovered s). keeps_rule q r"
    then obtain q where "q \<in> set (fs_discovered s)" "keeps_rule q r" by blast
    with s show ?thesis
      by (auto simp: keeps_ruleD fw_ok_def ids_def rules_of_def list_all_iff base_ids_def)
  next
    assume "scanned_rule (env_now env) ls r"
    then obtain l where l: "l \<in> set ls" "keeps_rule (new_rule (env_now env) l) r"
      by (auto simp: scanned_rule_def)
    with ls ruleId_not_base [OF _ B] show ?thesis
      by (simp add: keeps_ruleD new_rule_ok)
  qed
  have "False" if "x \<in> set (fs_base s)" "y \<in> set m" "rl_id x = rl_id y" for x y
    using ok [OF that(2)] that(1,3) by (simp add: base_ids_def) (metis imageI)
  then have "rl_id ` set (fs_base s) \<inter> rl_id ` set m = {}" by (auto simp: disjoint_iff)
  with s p(1) ok show "fw_ok t" unfolding t
    by (intro fw_ok_discovered) (auto simp: list_all_iff distinct_map_filter)
  show "base_ids t = base_ids s" by (simp add: t)
qed

section \<open>The scanners return well-formed records\<close>

lemma set_dedup_on: "set (dedup_on f seen xs) \<subseteq> set xs"
  by (induction xs arbitrary: seen) (simp_all add: subset_insertI2 insert_mono)

lemma set_map_filter: "set (List.map_filter f xs) = {y. \<exists>x\<in>set xs. f x = Some y}"
  by (induction xs) (auto simp: List.map_filter_def split: option.splits)

lemma parseSsLine_proto: "parseSsLine line = Some (proto, port, proc) \<Longrightarrow> proto \<in> {''tcp'', ''udp''}"
  by (auto simp: parseSsLine_def Let_def split: if_splits option.splits)

lemma ss_listeners_ok:
  "source \<in> {''host'', ''lxc''} \<Longrightarrow> l \<in> ss_listener source c ` set (ss_records text) \<Longrightarrow> listener_ok l"
  using set_dedup_on parseSsLine_proto
  by (fastforce simp: listener_ok_def ss_listener_def ss_records_def set_map_filter)

lemma scanHost_ok: "scanHost env w = (Inr ls, w') \<Longrightarrow> l \<in> set ls \<Longrightarrow> listener_ok l"
  using ss_listeners_ok [of "''host''"]
  by (auto simp: scanHost_def eff_inv need_stdout_def split: if_splits option.splits)

lemma scan_instances_ok: "scan_instances env is w = (Inr ls, w') \<Longrightarrow> l \<in> set ls \<Longrightarrow> listener_ok l"
proof (induction "is" arbitrary: w w' ls)
  case (Cons p rest)
  obtain name status where p: "p = (name, status)" by (cases p)
  let ?c = "Cmd ''incus'' [''exec'', name, ''--'', ''ss'', ''-H'', ''-tulnp''] []"
  let ?r = "env_spawn env (w_cmds w) ?c" and ?w = "w\<lparr>w_cmds := w_cmds w @ [?c]\<rparr>"
  consider "status \<noteq> ''Running''" | "status = ''Running''" "pr_status ?r \<noteq> Some 0"
    | "status = ''Running''" "pr_status ?r = Some 0" by blast
  then show ?case
  proof cases
    case 3
    with Cons.prems(1) p obtain out ls' where t: "scan_instances env rest ?w = (Inr ls', w')"
      "ls = map (ss_listener ''lxc'' (Some name)) (ss_records out) @ ls'"
      by (auto simp: eff_inv need_stdout_def split: option.splits)
    with Cons.IH [OF t(1)] Cons.prems(2) ss_listeners_ok [of "''lxc''"] show ?thesis by auto
  qed (use Cons p in auto)
qed simp

lemma scanLxc_ok: "scanLxc env w = (Inr ls, w') \<Longrightarrow> l \<in> set ls \<Longrightarrow> listener_ok l"
  by (auto simp: scanLxc_def scan_instances_ok split: option.splits)

lemma match_mapping_proto: "match_mapping s = Some (a, e, p) \<Longrightarrow> p \<in> {''tcp'', ''udp''}"
  by (auto simp: match_mapping_def match_proto_def split: option.splits if_splits)

lemma match_docker_proto: "match_docker s = Some (h, a, e, p) \<Longrightarrow> p \<in> {''tcp'', ''udp''}"
  using match_mapping_proto
  by (auto simp: match_docker_def Let_def split: option.splits if_splits)

lemma docker_ports_proto:
  assumes "(a, e, p) \<in> set (docker_ports ports)"
  shows "p \<in> {''tcp'', ''udp''}"
proof -
  from assms obtain x where "(case match_docker x of
      Some (h, m) \<Rightarrow> if loopback_host h then None else Some m | None \<Rightarrow> None) = Some (a, e, p)"
    by (auto simp: docker_ports_def set_map_filter)
  then obtain h where "match_docker x = Some (h, a, e, p)" by (auto split: option.splits if_splits)
  then show ?thesis by (rule match_docker_proto)
qed

lemma mapR_concat_set:
  "mapR f xs = Inr yss \<Longrightarrow> y \<in> set (concat yss) \<Longrightarrow> \<exists>x ys. x \<in> set xs \<and> f x = Inr ys \<and> y \<in> set ys"
  by (induction xs arbitrary: yss) (fastforce simp: eff_inv)+

lemma docker_line_ok: "docker_line line = Inr ls \<Longrightarrow> l \<in> set ls \<Longrightarrow> listener_ok l"
  using set_dedup_on docker_ports_proto
  by (fastforce simp: docker_line_def eff_inv Let_def listener_ok_def split: option.splits)

lemma scanDocker_ok: "scanDocker env w = (Inr ls, w') \<Longrightarrow> l \<in> set ls \<Longrightarrow> listener_ok l"
  by (auto simp: scanDocker_def eff_inv need_stdout_def split: if_splits option.splits
      dest!: mapR_concat_set docker_line_ok)

lemma match_listen_proto: "match_listen s = Some (h, a, e, p) \<Longrightarrow> p \<in> {''tcp'', ''udp''}"
  by (auto simp: match_listen_def Let_def split: option.splits if_splits)

lemma caddy_server_ok:
  assumes "caddy_server nv = Inr ls" and "l \<in> set ls"
  shows "listener_ok l"
proof -
  from assms obtain name spec where "(case match_listen spec of
      None \<Rightarrow> None
    | Some (h, a, e, proto) \<Rightarrow>
        if loopback_host (Some h) then None
        else Some \<lparr>ls_source = ''caddy-l4'', ls_container = None, ls_process = Some name,
               ls_port_start = a, ls_port_end = e, ls_proto = proto\<rparr>) = Some l"
    by (auto simp: caddy_server_def eff_inv set_map_filter split: prod.splits)
  then show ?thesis
    using match_listen_proto [of spec] by (auto simp: listener_ok_def split: option.splits if_splits)
qed

lemma scanCaddyL4_ok: "scanCaddyL4 env w = (Inr ls, w') \<Longrightarrow> l \<in> set ls \<Longrightarrow> listener_ok l"
  by (auto simp: scanCaddyL4_def eff_inv split: option.splits dest!: mapR_concat_set caddy_server_ok)

lemma preserves_need_stdout [preserves_intros]: "preserves P (need_stdout r)"
  by (simp add: need_stdout_def preserves_def split: option.split)

lemma preserves_scan_instances [preserves_intros]:
  "(\<And>w cs. P w \<Longrightarrow> P (w\<lparr>w_cmds := cs\<rparr>)) \<Longrightarrow> preserves P (scan_instances env is)"
proof (induction env "is" rule: scan_instances.induct)
  case (2 env name status rest)
  then show ?case
    by (simp add: preserves_intros)
qed (simp add: preserves_ret)

lemma preserves_scanners [preserves_intros]:
  assumes "\<And>w cs. P w \<Longrightarrow> P (w\<lparr>w_cmds := cs\<rparr>)"
  shows "preserves P (scanHost env)" "preserves P (scanLxc env)" "preserves P (scanDocker env)"
    "preserves P (scanCaddyL4 env)"
  unfolding scanHost_def scanLxc_def scanDocker_def scanCaddyL4_def
  by (intro preserves_intros assms; simp)+

lemma discovery_inv:
  assumes "base_named B" and "\<And>l. l \<in> set ls \<Longrightarrow> listener_ok l"
  shows "preserves (fw_inv B) (reconcileDiscovery env ls)"
  unfolding reconcileDiscovery_def
proof (rule fw_inv_read_any)
  fix s assume s: "fw_ok s" "base_ids s = B"
  obtain t a f g where d: "discovery_doc env ls s = (t, a, f, g)" by (cases "discovery_doc env ls s")
  from discovery_doc_ok [OF s(1) assms(2) _ d] s(2) assms(1) have "fw_ok t" "base_ids t = B" by auto
  then show "preserves (fw_inv B) (let (t, added, refreshed, gc) = discovery_doc env ls s in
     bindE (writeState env t) (\<lambda>_.
     bindE (if added > 0 \<or> gc > 0 then
         audit env ''firewall'' ''discover'' (Some (join '','' (sort (dedup (map ls_source ls))))) None
           (Some (JArr (map rule_json (fs_discovered s)))) (Some (JArr (map rule_json (fs_discovered t))))
           (Some (''added='' @ show_nat added @ '' refreshed='' @ show_nat refreshed @ '' gc='' @ show_nat gc))
       else ret ()) (\<lambda>_.
     ret (added, refreshed, gc))))"
    unfolding d by (simp add: preserves_intros)
qed

lemma scan_inv [preserves_intros]: "base_named B \<Longrightarrow> preserves (fw_inv B) (scan env)"
  unfolding scan_def
  by (rule preserves_bind_val, intro preserves_intros, simp,
      rule preserves_bind_val, intro preserves_intros, simp,
      rule preserves_bind_val, intro preserves_intros, simp,
      rule preserves_bind_val, intro preserves_intros, simp, rule discovery_inv)
    (auto dest: scanHost_ok scanLxc_ok scanDocker_ok scanCaddyL4_ok)

end
