(* ===== verification/Fw_Ingress.thy ===== *)
theory Fw_Ingress
  imports Fw_Panic
begin

text \<open>
  \<open>cli/src/core/firewall/ingress.js\<close>: the fence around a protected upstream. A guest is observed
  through the Incus API, its identity compared with the reviewed one, the fence recorded in the
  document, the boot gate installed and the firewall reconciled; and the way back.
\<close>

definition INCUS_GATE_DIR :: string where
  "INCUS_GATE_DIR = ''/etc/systemd/system/incus.service.d''"

definition INCUS_GATE_FILE :: string where
  "INCUS_GATE_FILE = INCUS_GATE_DIR @ ''/proxypilot-ingress.conf''"

definition INCUS_GATE :: string where
  "INCUS_GATE = join nl [''[Unit]'', ''Requires=proxypilot-firewall-reconcile.service'',
     ''After=proxypilot-firewall-reconcile.service'', [], ''[Service]'',
     ''ExecStartPre=/usr/local/bin/proxypilot firewall ingress boot-check'', []]"

section \<open>The boot gate\<close>

text \<open>\<open>writeFileSync(path, ..., { flag: 'wx' })\<close> refuses an existing file.\<close>

definition write_exclusive :: "env \<Rightarrow> string \<Rightarrow> string \<Rightarrow> unit io" where
  "write_exclusive env path body w =
     (if w_files w path \<noteq> None then (Inl (Sys (Fs_error ''EEXIST'')), w) else atomicWrite env path body w)"

definition rename_file :: "string \<Rightarrow> string \<Rightarrow> unit io" where
  "rename_file from to = modE (\<lambda>w. w\<lparr>w_files := (w_files w)(to := w_files w from, from := None)\<rparr>)"

definition daemon_reload :: "env \<Rightarrow> proc io" where
  "daemon_reload env = spawn env ''systemctl'' [''daemon-reload''] []"

definition ensureIngressBootGate :: "env \<Rightarrow> unit io" where
  "ensureIngressBootGate env =
     bindE (mkdirs env INCUS_GATE_DIR) (\<lambda>_.
     bindE (getsE (\<lambda>w. w_files w INCUS_GATE_FILE)) (\<lambda>cur.
     bindE (guardE (case cur of None \<Rightarrow> True | Some c \<Rightarrow> c = INCUS_GATE) (Fw Boot_gate_differs)) (\<lambda>_.
     bindE (if cur = None then
         bindE (write_exclusive env (INCUS_GATE_FILE @ ''.tmp'') INCUS_GATE) (\<lambda>_.
         rename_file (INCUS_GATE_FILE @ ''.tmp'') INCUS_GATE_FILE)
       else ret ()) (\<lambda>_.
     bindE (daemon_reload env) (\<lambda>r.
     guardE (pr_status r = Some 0) (Fw Boot_gate_not_loaded))))))"

definition removeIngressBootGate :: "env \<Rightarrow> unit io" where
  "removeIngressBootGate env =
     bindE (getsE (\<lambda>w. w_files w INCUS_GATE_FILE)) (\<lambda>cur.
     case cur of
       None \<Rightarrow> ret ()
     | Some c \<Rightarrow>
         bindE (guardE (c = INCUS_GATE) (Fw Boot_gate_differs)) (\<lambda>_.
         bindE (unlinkFile INCUS_GATE_FILE) (\<lambda>_.
         bindE (daemon_reload env) (\<lambda>r.
         guardE (pr_status r = Some 0) (Fw Boot_gate_not_loaded)))))"

section \<open>Checking a proposed ruleset\<close>

definition check_file :: "env \<Rightarrow> string" where
  "check_file env = runDir env @ ''/ingress-check-'' @ show_int (env_pid env) @ ''-'' @
     show_int (env_now env) @ ''.nft''"

definition checkIngressRuleset :: "env \<Rightarrow> fw_state \<Rightarrow> unit io" where
  "checkIngressRuleset env s =
     bindE (liftE (render s)) (\<lambda>ruleset.
     bindE (mkdirs env (runDir env)) (\<lambda>_.
     bindE (getsE (\<lambda>w. w_files w (check_file env))) (\<lambda>old.
     bindE (guardE (old = None) (Sys (Fs_error ''EEXIST''))) (\<lambda>_.
     bindE (with_temp_file env (check_file env) ruleset
       (spawn env ''nft'' [''-c'', ''-f'', check_file env] ruleset)) (\<lambda>r.
     guardE (pr_status r = Some 0) (Fw Nft_rejected_fence))))))"

definition entry_fenced :: "string \<Rightarrow> string \<Rightarrow> upstream \<Rightarrow> bool" where
  "entry_fenced bridge inet e \<longleftrightarrow>
     (let tag = ''pp-ingress-'' @ up_route_id e
      in contains bridge (up_mac e) \<and> contains bridge tag \<and> contains inet (up_ipv4 e) \<and>
         contains inet (case up_ipv6 e of None \<Rightarrow> ''undefined'' | Some a \<Rightarrow> a) \<and> contains inet tag)"

definition recorded :: "fw_state \<Rightarrow> upstream list" where
  "recorded s = (case fs_protected_upstreams s of None \<Rightarrow> [] | Some es \<Rightarrow> es)"

definition bootCheckIngress :: "env \<Rightarrow> nat io" where
  "bootCheckIngress env =
     bindE (readState env) (\<lambda>s.
     let entries = recorded s in
     bindE (guardE (entries \<noteq> []) (Fw No_protected_upstreams)) (\<lambda>_.
     bindE (spawn env ''nft'' [''list'', ''table'', ''bridge'', ''proxypilot_ingress''] []) (\<lambda>bridge.
     bindE (spawn env ''nft'' [''list'', ''table'', ''inet'', ''proxypilot''] []) (\<lambda>inet.
     bindE (guardE (pr_status bridge = Some 0 \<and> pr_status inet = Some 0) (Fw No_live_fence)) (\<lambda>_.
     let b = (case pr_stdout bridge of None \<Rightarrow> [] | Some t \<Rightarrow> t);
         i = (case pr_stdout inet of None \<Rightarrow> [] | Some t \<Rightarrow> t)
     in case find (\<lambda>e. \<not> entry_fenced b i e) entries of
          Some e \<Rightarrow> throw (Fw (Fence_incomplete (up_route_id e)))
        | None \<Rightarrow> ret (length entries))))))"

section \<open>Observing the guest\<close>

record ingress_input =
  in_container :: string
  in_routeId :: string
  in_targetIp :: string
  in_port :: jsnum
  in_expectedUuid :: string
  in_expectedMac :: "string option"

definition UUID_RE :: "string \<Rightarrow> bool" where
  "UUID_RE s \<longleftrightarrow> (let ps = split_on (CHR ''-'') s
     in map length ps = [8, 4, 4, 4, 12] \<and> list_all (list_all is_hex) ps)"

definition jstr_or_empty :: "jval option \<Rightarrow> string" where
  "jstr_or_empty v = (if js_truthy v then js_String_opt v else [])"

definition guest_mac :: "jval option \<Rightarrow> string" where
  "guest_mac inst =
     (let nic = jget (jget inst ''expanded_devices'') ''eth0'';
          h = jget nic ''hwaddr''; v = jget (jget inst ''config'') ''volatile.eth0.hwaddr''
      in to_lower (if js_truthy h then js_String_opt h else jstr_or_empty v))"

text \<open>\<open>addresses.filter(a => a.scope === 'global')\<close> over whatever the runtime document holds.\<close>

definition guest_addresses :: "jval option \<Rightarrow> err + jval list" where
  "guest_addresses runtime =
     (let v = jget (jget (jget runtime ''network'') ''eth0'') ''addresses''
      in if \<not> js_truthy v then Inr []
         else case v of
           Some (JArr vs) \<Rightarrow>
             if JNull \<in> set vs then Inl (Sys Type_error)
             else Inr (filter (\<lambda>a. jget (Some a) ''scope'' = Some (JStr ''global'')) vs)
         | _ \<Rightarrow> Inl (Sys Type_error))"

definition family_addresses :: "string \<Rightarrow> (string \<Rightarrow> bool) \<Rightarrow> jval list \<Rightarrow> string list" where
  "family_addresses fam is_ip vs =
     map (\<lambda>a. js_String_opt (jget (Some a) ''address''))
       (filter (\<lambda>a. jget (Some a) ''family'' = Some (JStr fam) \<and> is_ip (js_String_opt (jget (Some a) ''address''))) vs)"

definition ingressGuestSnapshot :: "jval option \<Rightarrow> jval option \<Rightarrow> ingress_input \<Rightarrow> err + upstream" where
  "ingressGuestSnapshot inst runtime inp =
     bindR (guardR (NAME_RE (in_container inp) \<and> ROUTE_RE (in_routeId inp) \<and> isIPv4 (in_targetIp inp) \<and>
       port_in 1024 (in_port inp)) (Fw Invalid_ingress_request)) (\<lambda>_.
     bindR (guardR (jget inst ''name'' = Some (JStr (''pp-'' @ in_container inp)) \<and>
       jget inst ''type'' = Some (JStr ''container'') \<and> jget inst ''status'' = Some (JStr ''Running''))
       (Fw Guest_not_running)) (\<lambda>_.
     let uuid = jstr_or_empty (jget (jget inst ''config'') ''volatile.uuid'');
         nic = jget (jget inst ''expanded_devices'') ''eth0'';
         bridge = jstr_or_empty (jget nic ''network'');
         mac = guest_mac inst
     in bindR (guardR (UUID_RE uuid \<and> jget nic ''type'' = Some (JStr ''nic'') \<and> IFACE_RE bridge \<and> MAC_RE mac)
          (Fw Guest_identity_unavailable)) (\<lambda>_.
        bindR (guest_addresses runtime) (\<lambda>global.
        let ipv4 = family_addresses ''inet'' isIPv4 global; ipv6 = family_addresses ''inet6'' isIPv6 global
        in bindR (guardR (ipv4 = [in_targetIp inp] \<and> length ipv6 = 1) (Fw Guest_addresses_mismatch)) (\<lambda>_.
           Inr \<lparr>up_route_id = in_routeId inp, up_container = in_container inp, up_uuid = uuid, up_bridge = bridge,
              up_mac = mac, up_ipv4 = in_targetIp inp, up_ipv6 = Some (hd ipv6), up_port = in_port inp\<rparr>)))))"

definition incus :: "env \<Rightarrow> string \<Rightarrow> err + jval option" where
  "incus env path = (case env_incus_get env path of None \<Rightarrow> Inl (Sys Request_failed) | Some v \<Rightarrow> jprop (Some v) ''metadata'')"

definition observeIngressGuest :: "env \<Rightarrow> ingress_input \<Rightarrow> err + upstream" where
  "observeIngressGuest env inp =
     (let name = ''pp-'' @ in_container inp
      in bindR (incus env (''/1.0/instances/'' @ name)) (\<lambda>inst.
         bindR (incus env (''/1.0/instances/'' @ name @ ''/state'')) (\<lambda>runtime.
         ingressGuestSnapshot inst runtime inp)))"

section \<open>Protecting and releasing\<close>

definition find_route :: "string \<Rightarrow> upstream list \<Rightarrow> upstream option" where
  "find_route i es = find (\<lambda>e. up_route_id e = i) es"

definition protectIngress :: "env \<Rightarrow> ingress_input \<Rightarrow> (upstream \<times> string \<times> bool) io" where
  "protectIngress env inp =
     bindE (liftE (observeIngressGuest env inp)) (\<lambda>entry.
     bindE (guardE (up_uuid entry = in_expectedUuid inp \<and>
       up_mac entry = to_lower (case in_expectedMac inp of None \<Rightarrow> [] | Some m \<Rightarrow> m)) (Fw Guest_identity_changed)) (\<lambda>_.
     bindE (readState env) (\<lambda>s.
     let existing = find_route (up_route_id entry) (recorded s);
         t = s\<lparr>fs_protected_upstreams := Some (recorded s @ [entry])\<rparr>
     in bindE (guardE (case existing of None \<Rightarrow> True | Some e \<Rightarrow> e = entry) (Fw Fence_identity_changed)) (\<lambda>_.
        bindE (if existing = None then bindE (checkIngressRuleset env t) (\<lambda>_. writeState env t) else ret ()) (\<lambda>_.
        bindE (ensureIngressBootGate env) (\<lambda>_.
        bindE (reconcile env False False (Some ''pomerium-ingress'')) (\<lambda>result.
        bindE (guardE (rr_ok result \<and> rr_applied result) (Fw Ingress_not_reconciled)) (\<lambda>_.
        bindE (if existing = None
               then audit env ''firewall'' ''ingress-protect'' (Some (up_route_id entry)) None None
                 (Some (upstream_json entry)) None
               else ret ()) (\<lambda>_.
        ret (entry, rr_checksum result, existing \<noteq> None))))))))))"

definition recordedIngress :: "env \<Rightarrow> string \<Rightarrow> upstream option io" where
  "recordedIngress env routeId =
     bindE (guardE (ROUTE_RE routeId) (Fw Invalid_route_id)) (\<lambda>_.
     bindE (readState env) (\<lambda>s. ret (find_route routeId (recorded s))))"

definition removeIngress :: "env \<Rightarrow> string \<Rightarrow> (string \<times> nat) io" where
  "removeIngress env routeId =
     bindE (guardE (ROUTE_RE routeId) (Fw Invalid_route_id)) (\<lambda>_.
     bindE (readState env) (\<lambda>s.
     case find_route routeId (recorded s) of
       None \<Rightarrow> throw (Fw No_recorded_fence)
     | Some before \<Rightarrow>
         let rest = filter (\<lambda>e. up_route_id e \<noteq> routeId) (recorded s);
             t = s\<lparr>fs_protected_upstreams := Some rest\<rparr>
         in bindE (checkIngressRuleset env t) (\<lambda>_.
            bindE (writeState env t) (\<lambda>_.
            bindE (reconcile env False False (Some ''pomerium-ingress-remove'')) (\<lambda>result.
            bindE (guardE (rr_ok result \<and> rr_applied result) (Fw Ingress_not_reconciled)) (\<lambda>_.
            bindE (if rest = [] then removeIngressBootGate env else ret ()) (\<lambda>_.
            bindE (audit env ''firewall'' ''ingress-remove'' (Some routeId) None
              (Some (upstream_json before)) (Some JNull) None) (\<lambda>_.
            ret (rr_checksum result, length rest)))))))))"

section \<open>Frame and invariant\<close>

lemma preserves_checkIngressRuleset [preserves_intros]:
  assumes "\<And>w cs. P w \<Longrightarrow> P (w\<lparr>w_cmds := cs\<rparr>)" and "\<And>w f. P w \<Longrightarrow> P (w\<lparr>w_files := f\<rparr>)"
  shows "preserves P (checkIngressRuleset env s)"
  unfolding checkIngressRuleset_def by (intro preserves_intros assms)

lemma preserves_write_exclusive [preserves_intros]:
  "(\<And>w f. P w \<Longrightarrow> P (w\<lparr>w_files := f\<rparr>)) \<Longrightarrow> preserves P (write_exclusive env p b)"
  by (simp add: preserves_def write_exclusive_def atomicWrite_def split: option.split)

lemma preserves_boot_gate [preserves_intros]:
  assumes "\<And>w cs. P w \<Longrightarrow> P (w\<lparr>w_cmds := cs\<rparr>)" and "\<And>w f. P w \<Longrightarrow> P (w\<lparr>w_files := f\<rparr>)"
  shows "preserves P (ensureIngressBootGate env)" "preserves P (removeIngressBootGate env)"
  unfolding ensureIngressBootGate_def removeIngressBootGate_def daemon_reload_def rename_file_def
  by (intro preserves_intros assms; simp add: assms)+

lemma ingress_inv [preserves_intros]:
  "preserves (fw_inv B) (bootCheckIngress env)"
  "preserves (fw_inv B) (protectIngress env inp)"
  "preserves (fw_inv B) (recordedIngress env i)"
  "preserves (fw_inv B) (removeIngress env i)"
  unfolding bootCheckIngress_def protectIngress_def recordedIngress_def removeIngress_def Let_def
  by (intro preserves_intros; simp)+

end
