(* ===== verification/Vpn_Server.thy ===== *)
theory Vpn_Server
  imports Fw_Panic
begin

text \<open>
  \<open>cli/src/core/vpn/server.js\<close>: the WireGuard server. Endpoint, port and MTU validation, the
  rendered \<open>wg0.conf\<close>, the \<open>vpn_config\<close> row, and the operations that bring the interface up,
  move its port and take it down, each with the firewall calls it makes.
\<close>

section \<open>Constants and validation\<close>

definition WG_CONFIG_FILE :: string where "WG_CONFIG_FILE = ''/etc/wireguard/wg0.conf''"

definition WG_SERVER_PRIVATE :: string where "WG_SERVER_PRIVATE = ''/etc/wireguard/server_private.key''"

definition WG_INTERFACE :: string where "WG_INTERFACE = ''wg0''"

definition WG_SAFE_PORT_MIN :: int where "WG_SAFE_PORT_MIN = 49000"

definition WG_SAFE_PORT_MAX :: int where "WG_SAFE_PORT_MAX = 49999"

definition WG_DEFAULT_PORT :: int where "WG_DEFAULT_PORT = WG_SAFE_PORT_MIN"

definition WG_DEFAULT_CIDR :: string where "WG_DEFAULT_CIDR = ''10.100.0.0/24''"

definition WG_DEFAULT_DNS :: string where "WG_DEFAULT_DNS = ''10.100.0.1''"

definition WG_SERVER_IP :: string where "WG_SERVER_IP = ''10.100.0.1/24''"

definition WG_DEFAULT_MTU :: int where "WG_DEFAULT_MTU = 1280"

definition WG_MTU_MIN :: int where "WG_MTU_MIN = 576"

definition WG_MTU_MAX :: int where "WG_MTU_MAX = 9000"

definition isPortInSafeRange :: "jsnum \<Rightarrow> bool" where
  "isPortInSafeRange p \<longleftrightarrow> (case p of Int_num n \<Rightarrow> WG_SAFE_PORT_MIN \<le> n \<and> n \<le> WG_SAFE_PORT_MAX | Not_int \<Rightarrow> False)"

definition resolveMtu :: "env \<Rightarrow> string option \<Rightarrow> int" where
  "resolveMtu env override =
     (let raw = (case override of Some x \<Rightarrow> Some x | None \<Rightarrow> env_VPN_MTU env)
      in case raw of
           None \<Rightarrow> WG_DEFAULT_MTU
         | Some s \<Rightarrow>
             if s = [] then WG_DEFAULT_MTU
             else (case js_number s of
                     Int_num n \<Rightarrow> if n < WG_MTU_MIN \<or> n > WG_MTU_MAX then WG_DEFAULT_MTU else n
                   | Not_int \<Rightarrow> WG_DEFAULT_MTU))"

text \<open>\<open>/^(?:\[([0-9a-fA-F:]+)\]|([A-Za-z0-9.-]+)):(\d{1,5})$/\<close>\<close>

definition is_host_char :: "char \<Rightarrow> bool" where
  "is_host_char c \<longleftrightarrow> is_alnum c \<or> c = CHR ''.'' \<or> c = CHR ''-''"

definition match_host :: "string \<Rightarrow> string option" where
  "match_host h =
     (if h \<noteq> [] \<and> list_all is_host_char h then Some h
      else if 3 \<le> length h \<and> hd h = CHR ''['' \<and> last h = CHR '']'' \<and>
        list_all (\<lambda>c. is_hex c \<or> c = CHR '':'') (butlast (tl h)) then Some (butlast (tl h))
      else None)"

definition match_endpoint :: "string \<Rightarrow> (string \<times> string) option" where
  "match_endpoint e =
     (let ds = rev (takeWhile is_digit (rev e)); r = dropWhile is_digit (rev e)
      in if ds \<noteq> [] \<and> length ds \<le> 5 \<and> r \<noteq> [] \<and> hd r = CHR '':''
         then map_option (\<lambda>h. (h, ds)) (match_host (rev (tl r))) else None)"

definition validateEndpoint :: "string \<Rightarrow> err + string \<times> int" where
  "validateEndpoint e =
     (if e = [] \<or> length e > 253 then Inl (Vpn (Invalid_endpoint e))
      else case match_endpoint e of
        None \<Rightarrow> Inl (Vpn (Invalid_endpoint e))
      | Some (h, ds) \<Rightarrow>
          (case js_number ds of
             Int_num p \<Rightarrow> if p < 1 \<or> p > 65535 then Inl (Vpn (Endpoint_port_range e)) else Inr (h, p)
           | Not_int \<Rightarrow> Inl (Vpn (Endpoint_port_range e))))"

definition validateListenPort :: "jsnum \<Rightarrow> err + int" where
  "validateListenPort p =
     (case p of Int_num n \<Rightarrow> if n < 1 \<or> n > 65535 then Inl (Vpn Invalid_listen_port) else Inr n
      | Not_int \<Rightarrow> Inl (Vpn Invalid_listen_port))"

section \<open>Host commands\<close>

text \<open>\<open>/\bdev\s+([A-Za-z0-9_.-]{1,15})\b/\<close>: the longest run that ends on a word boundary.\<close>

definition is_word :: "char \<Rightarrow> bool" where
  "is_word c \<longleftrightarrow> is_alnum c \<or> c = CHR ''_''"

primrec dev_run :: "nat \<Rightarrow> string \<Rightarrow> string option" where
  "dev_run 0 b = None"
| "dev_run (Suc n) b =
     (if Suc n \<le> length (takeWhile is_tag b) \<and>
         is_word (b ! n) \<noteq> (Suc n < length b \<and> is_word (b ! Suc n))
      then Some (take (Suc n) b) else dev_run n b)"

fun match_dev :: "bool \<Rightarrow> string \<Rightarrow> string option" where
  "match_dev pw [] = None"
| "match_dev pw (c # s) =
     (let r = drop 3 (c # s);
          hit = (if \<not> pw \<and> prefix ''dev'' (c # s) \<and> takeWhile is_ws r \<noteq> []
                 then dev_run 15 (dropWhile is_ws r) else None)
      in case hit of Some n \<Rightarrow> Some n | None \<Rightarrow> match_dev (is_word c) s)"

definition json_dev :: "string \<Rightarrow> string option" where
  "json_dev out =
     (case JSON_parse out of
        None \<Rightarrow> None
      | Some v \<Rightarrow>
          let first = (case v of JArr (x # _) \<Rightarrow> Some x | JObj _ \<Rightarrow> jget (Some v) ''0'' | _ \<Rightarrow> None);
              dev = jget first ''dev''
          in if js_truthy dev \<and> IFACE_RE (js_String_opt dev) then Some (js_String_opt dev) else None)"

definition detectDefaultIface :: "env \<Rightarrow> string io" where
  "detectDefaultIface env =
     bindE (spawn env ''ip'' [''-j'', ''route'', ''show'', ''default''] []) (\<lambda>j.
     let dev = (if pr_status j = Some 0 \<and> out_trim (pr_stdout j) \<noteq> [] then json_dev (the (pr_stdout j)) else None) in
     case dev of
       Some d \<Rightarrow> ret d
     | None \<Rightarrow>
         bindE (spawn env ''ip'' [''route'', ''show'', ''default''] []) (\<lambda>t.
         case (if pr_status t = Some 0 then match_dev False (case pr_stdout t of None \<Rightarrow> [] | Some x \<Rightarrow> x) else None) of
           Some d \<Rightarrow> ret d
         | None \<Rightarrow> throw (Vpn No_default_iface)))"

text \<open>\<open>generateServerKeypair\<close> and \<open>generatePeerKeypair\<close> are the same function: private, public.\<close>

definition generateKeypair :: "env \<Rightarrow> (string \<times> string) io" where
  "generateKeypair env =
     bindE (spawn env ''wg'' [''genkey''] []) (\<lambda>priv.
     bindE (guardE (pr_status priv = Some 0) (Vpn Genkey_failed)) (\<lambda>_.
     let privateKey = out_trim (pr_stdout priv) in
     bindE (guardE (privateKey \<noteq> []) (Vpn Genkey_empty)) (\<lambda>_.
     bindE (spawn env ''wg'' [''pubkey''] privateKey) (\<lambda>pub.
     bindE (guardE (pr_status pub = Some 0) (Vpn Pubkey_failed)) (\<lambda>_.
     let publicKey = out_trim (pr_stdout pub) in
     bindE (guardE (publicKey \<noteq> []) (Vpn Pubkey_empty)) (\<lambda>_.
     ret (privateKey, publicKey)))))))"

section \<open>Configuration and wg0.conf\<close>

definition readVpnConfig :: "vpn_config option io" where
  "readVpnConfig = getsE w_vpn_config"

definition writeVpnConfig :: "string \<Rightarrow> string \<Rightarrow> int \<Rightarrow> string \<Rightarrow> string \<Rightarrow> string \<Rightarrow> unit io" where
  "writeVpnConfig pub endpoint port cidr iface dns =
     modE (\<lambda>w. w\<lparr>w_vpn_config := Some \<lparr>vc_server_public_key = pub, vc_endpoint = endpoint, vc_listen_port = port,
       vc_cidr = cidr, vc_default_iface = iface, vc_dns = dns\<rparr>\<rparr>)"

text \<open>\<open>SELECT ... WHERE status = 'enabled' ORDER BY id\<close>\<close>

definition readEnabledPeers :: "world \<Rightarrow> peer list" where
  "readEnabledPeers w = sort_by (\<lambda>a b. pe_id a \<le> pe_id b) (enabled_peers w)"

definition peer_block :: "peer \<Rightarrow> string list" where
  "peer_block p = [[], ''# '' @ pe_name p, ''[Peer]'', ''PublicKey = '' @ pe_public_key p,
     ''AllowedIPs = '' @ pe_allowed_ip p @ ''/32'']"

definition renderWg0Conf :: "env \<Rightarrow> string \<Rightarrow> int \<Rightarrow> string \<Rightarrow> peer list \<Rightarrow> string" where
  "renderWg0Conf env privateKey listenPort serverIp peers =
     join nl
       ([''# Generated by ProxyPilot VPN manager. Do not edit by hand.'',
         ''# NAT/forwarding live in nft table inet proxypilot, chain nat_postrouting.'',
         ''[Interface]'', ''Address = '' @ serverIp, ''MTU = '' @ show_int (resolveMtu env None),
         ''ListenPort = '' @ show_int listenPort, ''PrivateKey = '' @ privateKey] @
        concat (map peer_block peers)) @ nl"

definition writeWg0Conf :: "env \<Rightarrow> string \<Rightarrow> int \<Rightarrow> string \<Rightarrow> peer list \<Rightarrow> unit io" where
  "writeWg0Conf env privateKey listenPort serverIp peers =
     atomicWrite env WG_CONFIG_FILE (renderWg0Conf env privateKey listenPort serverIp peers)"

definition syncconfWg0 :: "env \<Rightarrow> unit io" where
  "syncconfWg0 env =
     bindE (spawn env ''bash'' [''-c'', ''wg syncconf '' @ dq @ WG_INTERFACE @ dq @ '' <(wg-quick strip '' @ dq @
       WG_INTERFACE @ dq @ '')''] []) (\<lambda>r.
     guardE (pr_status r = Some 0) (Vpn (Syncconf_failed (spawnError r))))"

definition wgPeerRemove :: "env \<Rightarrow> string \<Rightarrow> bool io" where
  "wgPeerRemove env publicKey =
     bindE (guardE (publicKey \<noteq> []) (Vpn Peer_key_required)) (\<lambda>_.
     bindE (spawn env ''wg'' [''set'', WG_INTERFACE, ''peer'', publicKey, ''remove''] []) (\<lambda>r.
     ret (pr_status r = Some 0)))"

definition with_nat_iface :: "string \<Rightarrow> fw_state \<Rightarrow> fw_state" where
  "with_nat_iface iface s = s\<lparr>fs_nat := Some \<lparr>nat_vpn_masquerade_iface = Some iface,
     nat_other = (case fs_nat s of None \<Rightarrow> [] | Some n \<Rightarrow> nat_other n)\<rparr>\<rparr>"

definition setNatIface :: "env \<Rightarrow> string \<Rightarrow> unit io" where
  "setNatIface env iface = bindE (readState env) (\<lambda>s. writeState env (with_nat_iface iface s))"

definition without_nat_iface :: "fw_state \<Rightarrow> fw_state" where
  "without_nat_iface s = s\<lparr>fs_nat :=
     (case fs_nat s of
        None \<Rightarrow> None
      | Some n \<Rightarrow> if nat_other n = [] then None else Some (n\<lparr>nat_vpn_masquerade_iface := None\<rparr>))\<rparr>"

definition clearNatIface :: "env \<Rightarrow> unit io" where
  "clearNatIface env =
     bindE (readState env) (\<lambda>s.
     case fs_nat s of
       None \<Rightarrow> ret ()
     | Some n \<Rightarrow> if truthy (nat_vpn_masquerade_iface n) then writeState env (without_nat_iface s) else ret ())"

section \<open>Enabling\<close>

definition server_key :: "env \<Rightarrow> vpn_config option \<Rightarrow> (string \<times> string) io" where
  "server_key env existing =
     (case existing of
        Some cfg \<Rightarrow>
          bindE (getsE (\<lambda>w. w_files w WG_SERVER_PRIVATE)) (\<lambda>k.
          case k of
            None \<Rightarrow> throw (Vpn Server_key_missing)
          | Some body \<Rightarrow> ret (trim body, vc_server_public_key cfg))
      | None \<Rightarrow>
          bindE (generateKeypair env) (\<lambda>(priv, pub).
          bindE (atomicWrite env WG_SERVER_PRIVATE (priv @ nl)) (\<lambda>_.
          ret (priv, pub))))"

definition start_unit :: "env \<Rightarrow> unit io" where
  "start_unit env =
     bindE (spawn env ''systemctl'' [''enable'', ''wg-quick@'' @ WG_INTERFACE] []) (\<lambda>en.
     bindE (guardE (pr_status en = Some 0) (Vpn Unit_enable_failed)) (\<lambda>_.
     bindE (spawn env ''systemctl'' [''restart'', ''wg-quick@'' @ WG_INTERFACE] []) (\<lambda>up.
     guardE (pr_status up = Some 0) (Vpn Unit_start_failed))))"

text \<open>The steps of \<open>enable\<close> before the firewall is touched: interface, public key.\<close>

definition bring_up :: "env \<Rightarrow> string \<Rightarrow> int \<Rightarrow> string \<Rightarrow> (string \<times> string) io" where
  "bring_up env endpoint listenPort dns =
     bindE readVpnConfig (\<lambda>existing.
     bindE (detectDefaultIface env) (\<lambda>iface.
     bindE (server_key env existing) (\<lambda>(privateKey, publicKey).
     bindE (writeVpnConfig publicKey endpoint listenPort WG_DEFAULT_CIDR iface dns) (\<lambda>_.
     bindE (getsE readEnabledPeers) (\<lambda>peers.
     bindE (writeWg0Conf env privateKey listenPort WG_SERVER_IP peers) (\<lambda>_.
     bindE (start_unit env) (\<lambda>_.
     ret (iface, publicKey))))))))"

definition open_firewall :: "env \<Rightarrow> string \<Rightarrow> string option \<Rightarrow> unit io" where
  "open_firewall env iface actor =
     bindE (fw_enable env ''base-wireguard'' None None None actor) (\<lambda>_.
     bindE (setNatIface env iface) (\<lambda>_.
     bindE (reconcile env False False actor) (\<lambda>r.
     guardE (rr_ok r) (Vpn Reconcile_failed))))"

definition vpn_enable :: "env \<Rightarrow> string option \<Rightarrow> jsnum \<Rightarrow> string \<Rightarrow> string option \<Rightarrow> (string \<times> int \<times> string \<times> string) io" where
  "vpn_enable env endpoint port dns actor =
     bindE (guardE (truthy endpoint) (Vpn Endpoint_required)) (\<lambda>_.
     let ep = the endpoint in
     bindE (liftE (validateEndpoint ep)) (\<lambda>_.
     bindE (liftE (validateListenPort port)) (\<lambda>listenPort.
     bindE (bring_up env ep listenPort dns) (\<lambda>(iface, publicKey).
     bindE (open_firewall env iface actor) (\<lambda>_.
     bindE (audit env ''vpn'' ''enable'' (Some WG_INTERFACE) actor None
       (Some (JObj [(''endpoint'', JStr ep), (''listen_port'', JNum listenPort), (''default_iface'', JStr iface),
         (''public_key'', JStr publicKey)])) None) (\<lambda>_.
     ret (ep, listenPort, iface, publicKey)))))))"

section \<open>Moving the port\<close>

datatype port_change = Unchanged | Realigned | Moved

text \<open>A \<open>NOT_FOUND\<close> of the firewall is swallowed, every other error goes on.\<close>

definition ignore_not_found :: "'a io \<Rightarrow> unit io" where
  "ignore_not_found m =
     catchE (bindE m (\<lambda>_. ret ())) (\<lambda>e. case e of Fw (Rule_not_found i) \<Rightarrow> ret () | _ \<Rightarrow> throw e)"

text \<open>The text before the last colon, or all of it.\<close>

definition before_last_colon :: "string \<Rightarrow> string" where
  "before_last_colon s =
     (let r = dropWhile (\<lambda>c. c \<noteq> CHR '':'') (rev s) in if r = [] then s else rev (tl r))"

definition move_endpoint :: "string \<Rightarrow> int \<Rightarrow> string" where
  "move_endpoint ep n = before_last_colon ep @ '':'' @ show_int n"

definition align_firewall :: "env \<Rightarrow> int \<Rightarrow> string option \<Rightarrow> unit io" where
  "align_firewall env n actor =
     bindE (ignore_not_found (setPort env ''base-wireguard'' (Int_num n) None actor)) (\<lambda>_.
     bindE (reconcile env False False actor) (\<lambda>r.
     guardE (rr_ok r) (Vpn Reconcile_failed)))"

definition rebind_port :: "env \<Rightarrow> vpn_config \<Rightarrow> int \<Rightarrow> unit io" where
  "rebind_port env cfg n =
     bindE (getsE (\<lambda>w. w_files w WG_SERVER_PRIVATE)) (\<lambda>k.
     bindE (guardE (k \<noteq> None) (Vpn Server_key_missing)) (\<lambda>_.
     bindE (getsE readEnabledPeers) (\<lambda>peers.
     bindE (writeVpnConfig (vc_server_public_key cfg) (move_endpoint (vc_endpoint cfg) n) n (vc_cidr cfg)
       (vc_default_iface cfg) (vc_dns cfg)) (\<lambda>_.
     bindE (writeWg0Conf env (trim (the k)) n WG_SERVER_IP peers) (\<lambda>_.
     bindE (spawn env ''systemctl'' [''restart'', ''wg-quick@'' @ WG_INTERFACE] []) (\<lambda>up.
     guardE (pr_status up = Some 0) (Vpn Unit_start_failed)))))))"

definition setListenPort :: "env \<Rightarrow> jsnum \<Rightarrow> string option \<Rightarrow> (int \<times> string \<times> port_change) io" where
  "setListenPort env port actor =
     bindE (liftE (validateListenPort port)) (\<lambda>n.
     bindE (guardE (isPortInSafeRange (Int_num n)) (Vpn (Port_not_safe n))) (\<lambda>_.
     bindE readVpnConfig (\<lambda>c.
     case c of
       None \<Rightarrow> throw (Vpn Vpn_config_missing)
     | Some cfg \<Rightarrow>
         bindE (readState env) (\<lambda>s.
         let wgRule = find (\<lambda>r. rl_id r = ''base-wireguard'') (fs_base s);
             ruleAligned = (case wgRule of None \<Rightarrow> False | Some r \<Rightarrow> rl_port_start r = n)
         in if n = vc_listen_port cfg \<and> ruleAligned then ret (n, vc_endpoint cfg, Unchanged)
            else if n = vc_listen_port cfg then
              bindE (align_firewall env n actor) (\<lambda>_.
              bindE (audit env ''vpn'' ''realign-firewall-rule'' (Some WG_INTERFACE) actor
                (Some (JObj [(''base_wireguard_port'', jopt (\<lambda>r. JNum (rl_port_start r)) wgRule)]))
                (Some (JObj [(''base_wireguard_port'', JNum n)])) None) (\<lambda>_.
              ret (n, vc_endpoint cfg, Realigned)))
            else
              bindE (rebind_port env cfg n) (\<lambda>_.
              bindE (align_firewall env n actor) (\<lambda>_.
              bindE (audit env ''vpn'' ''set-listen-port'' (Some WG_INTERFACE) actor
                (Some (JObj [(''listen_port'', JNum (vc_listen_port cfg)), (''endpoint'', JStr (vc_endpoint cfg))]))
                (Some (JObj [(''listen_port'', JNum n), (''endpoint'', JStr (move_endpoint (vc_endpoint cfg) n))])) None) (\<lambda>_.
              ret (n, move_endpoint (vc_endpoint cfg) n, Moved))))))))"

section \<open>Disabling\<close>

definition tolerated_stop :: "proc \<Rightarrow> bool" where
  "tolerated_stop r \<longleftrightarrow>
     (let t = to_lower (case pr_stderr r of None \<Rightarrow> [] | Some e \<Rightarrow> e)
      in contains t ''not loaded'' \<or> contains t ''not found'')"

text \<open>The result is True when the VPN had never been enabled.\<close>

definition vpn_disable :: "env \<Rightarrow> string option \<Rightarrow> bool io" where
  "vpn_disable env actor =
     bindE readVpnConfig (\<lambda>c.
     if c = None then ret True
     else
       bindE (spawn env ''systemctl'' [''disable'', ''--now'', ''wg-quick@'' @ WG_INTERFACE] []) (\<lambda>down.
       bindE (guardE (pr_status down = Some 0 \<or> tolerated_stop down) (Vpn Unit_stop_failed)) (\<lambda>_.
       bindE (ignore_not_found (fw_disable env ''base-wireguard'' actor)) (\<lambda>_.
       bindE (clearNatIface env) (\<lambda>_.
       bindE (reconcile env False False actor) (\<lambda>r.
       bindE (guardE (rr_ok r) (Vpn Reconcile_failed)) (\<lambda>_.
       bindE (audit env ''vpn'' ''disable'' (Some WG_INTERFACE) actor None None None) (\<lambda>_.
       ret False))))))))"

section \<open>Frames\<close>

lemma preserves_ignore_not_found [preserves_intros]:
  assumes "preserves P m"
  shows "preserves P (ignore_not_found m)"
proof -
  have "preserves P (case e of Fw (Rule_not_found i) \<Rightarrow> ret () | _ \<Rightarrow> throw e)" for e
    by (auto intro: preserves_intros split: err.split fw_err.split)
  then show ?thesis unfolding ignore_not_found_def by (intro preserves_intros assms)
qed

lemma preserves_vpn_helpers [preserves_intros]:
  assumes "\<And>w cs. P w \<Longrightarrow> P (w\<lparr>w_cmds := cs\<rparr>)"
  shows "preserves P (detectDefaultIface env)" "preserves P (generateKeypair env)" "preserves P (syncconfWg0 env)"
    "preserves P (wgPeerRemove env k)" "preserves P (start_unit env)" "preserves P readVpnConfig"
  unfolding detectDefaultIface_def generateKeypair_def syncconfWg0_def wgPeerRemove_def start_unit_def readVpnConfig_def
  by (intro preserves_intros assms; simp)+

lemma preserves_writeVpnConfig [preserves_intros]:
  "(\<And>w c. P w \<Longrightarrow> P (w\<lparr>w_vpn_config := c\<rparr>)) \<Longrightarrow> preserves P (writeVpnConfig a b c d e f)"
  by (simp add: writeVpnConfig_def preserves_def)

lemma preserves_writeWg0Conf [preserves_intros]:
  "(\<And>w f. P w \<Longrightarrow> P (w\<lparr>w_files := f\<rparr>)) \<Longrightarrow> preserves P (writeWg0Conf env a b c d)"
  by (simp add: writeWg0Conf_def preserves_atomicWrite)

lemma preserves_bring_up [preserves_intros]:
  assumes "\<And>w cs. P w \<Longrightarrow> P (w\<lparr>w_cmds := cs\<rparr>)" and "\<And>w f. P w \<Longrightarrow> P (w\<lparr>w_files := f\<rparr>)"
    and "\<And>w c. P w \<Longrightarrow> P (w\<lparr>w_vpn_config := c\<rparr>)"
  shows "preserves P (server_key env ex)" "preserves P (bring_up env ep port dns)" "preserves P (rebind_port env cfg n)"
proof -
  show k: "preserves P (server_key env ex)" for ex
    unfolding server_key_def by (intro preserves_intros assms)
  show "preserves P (bring_up env ep port dns)"
    unfolding bring_up_def by (intro preserves_intros k assms)
  show "preserves P (rebind_port env cfg n)"
    unfolding rebind_port_def by (intro preserves_intros assms)
qed

lemma fw_ok_nat [simp]:
  "fw_ok (with_nat_iface i s) = fw_ok s" "fw_ok (without_nat_iface s) = fw_ok s"
  "base_ids (with_nat_iface i s) = base_ids s" "base_ids (without_nat_iface s) = base_ids s"
  by (simp_all add: with_nat_iface_def without_nat_iface_def)

lemma vpn_server_inv [preserves_intros]:
  "preserves (fw_inv B) (setNatIface env i)" "preserves (fw_inv B) (clearNatIface env)"
  "preserves (fw_inv B) (open_firewall env i a)" "preserves (fw_inv B) (align_firewall env n a)"
  "preserves (fw_inv B) (vpn_enable env ep p dns a)" "preserves (fw_inv B) (setListenPort env p a)"
  "preserves (fw_inv B) (vpn_disable env a)"
proof -
  show s: "preserves (fw_inv B) (setNatIface env i)" for i
    unfolding setNatIface_def by (intro preserves_intros) simp_all
  show c: "preserves (fw_inv B) (clearNatIface env)"
    unfolding clearNatIface_def by (intro preserves_intros) simp_all
  show o: "preserves (fw_inv B) (open_firewall env i a)" for i
    unfolding open_firewall_def by (intro preserves_intros s)
  show al: "preserves (fw_inv B) (align_firewall env n a)" for n
    unfolding align_firewall_def by (intro preserves_intros)
  show "preserves (fw_inv B) (vpn_enable env ep p dns a)"
    unfolding vpn_enable_def Let_def by (intro preserves_intros o) simp_all
  show "preserves (fw_inv B) (setListenPort env p a)"
    unfolding setListenPort_def Let_def by (intro preserves_intros al) simp_all
  show "preserves (fw_inv B) (vpn_disable env a)"
    unfolding vpn_disable_def by (intro preserves_intros c) simp_all
qed

end
