(* ===== verification/Caddy_Routes.thy ===== *)
theory Caddy_Routes
  imports Fw_Reconcile
begin

text \<open>
  \<open>cli/src/caddy\<close>: rendering a route to a Caddyfile site block (\<open>render.js\<close>), writing and
  removing site files (\<open>client.js\<close>), and regenerating every vpn-only route after a change of
  the peers (\<open>reconcile.js\<close>).
\<close>

section \<open>Rendering\<close>

definition resolveRoutePeers :: "string option \<Rightarrow> peer list \<Rightarrow> string list" where
  "resolveRoutePeers service peers =
     (let fullAdmin = map (\<lambda>p. pe_allowed_ip p @ ''/32'')
            (filter (\<lambda>p. pe_scope p = ''full'' \<or> pe_scope p = ''admin'') peers);
          services = map (\<lambda>p. (pe_allowed_ip p @ ''/32'', case pe_services p of None \<Rightarrow> [] | Some ts \<Rightarrow> ts))
            (filter (\<lambda>p. pe_scope p = ''services'') peers);
          extra = (if truthy service then map fst (filter (\<lambda>(c, tags). the service \<in> set tags) services) else [])
      in sort_by octet_le (dedup (fullAdmin @ extra)))"

record route_spec =
  rs_domain :: string
  rs_upstream_address :: "string option"
  rs_path_prefix :: string
  rs_tls_auto :: bool
  rs_vpn_only :: bool
  rs_service :: "string option"

definition matcher_ips :: "string option \<Rightarrow> peer list \<Rightarrow> string list" where
  "matcher_ips service peers =
     (let sources = resolveRoutePeers service peers
      in if sources \<noteq> [] then sources else [NO_ALLOWED_PEERS_SENTINEL])"

definition route_body :: "route_spec \<Rightarrow> string \<Rightarrow> peer list \<Rightarrow> string list" where
  "route_body r up peers =
     (if rs_vpn_only r then
        [''    @vpn remote_ip '' @ join '' '' (matcher_ips (rs_service r) peers), [], ''    handle @vpn {''] @
        (if rs_path_prefix r \<noteq> ''/''
         then [''        handle '' @ rs_path_prefix r @ ''* {'', ''            reverse_proxy '' @ up, ''        }'']
         else [''        reverse_proxy '' @ up]) @
        [''    }'', [], ''    handle {'', ''        respond 403'', ''    }'']
      else if rs_path_prefix r \<noteq> ''/''
      then [''    handle '' @ rs_path_prefix r @ ''* {'', ''        reverse_proxy '' @ up, ''    }'']
      else [''    reverse_proxy '' @ up])"

definition renderRoute :: "route_spec \<Rightarrow> peer list \<Rightarrow> err + string" where
  "renderRoute r peers =
     bindR (guardR (rs_domain r \<noteq> []) (Caddy Domain_required)) (\<lambda>_.
     bindR (guardR (truthy (rs_upstream_address r)) (Caddy Upstream_required)) (\<lambda>_.
     let siteAddress = (if rs_tls_auto r then rs_domain r else ''http://'' @ rs_domain r)
     in Inr (join nl (
       [''# ProxyPilot Managed Route'', ''# Generated by ProxyPilot. Do not edit by hand.'', [], siteAddress @ '' {''] @
       route_body r (the (rs_upstream_address r)) peers @
       [[], ''    header {'', ''        X-Frame-Options '' @ dq @ ''SAMEORIGIN'' @ dq,
        ''        X-Content-Type-Options '' @ dq @ ''nosniff'' @ dq,
        ''        X-XSS-Protection '' @ dq @ ''1; mode=block'' @ dq,
        ''        Referrer-Policy '' @ dq @ ''strict-origin-when-cross-origin'' @ dq, ''    }'', [],
        ''    log {'', ''        output file /var/log/caddy/'' @ rs_domain r @ ''.log'', ''    }'', ''}'', []]))))"

section \<open>Site files\<close>

definition CADDY_SITES_DIR :: string where "CADDY_SITES_DIR = ''/etc/caddy/sites''"

text \<open>\<open>execSync\<close> throws when the shell command fails.\<close>

definition execSync :: "env \<Rightarrow> string \<Rightarrow> err \<Rightarrow> unit io" where
  "execSync env c e = bindE (spawn env ''/bin/sh'' [''-c'', c] []) (\<lambda>r. guardE (pr_status r = Some 0) e)"

definition reloadCaddy :: "env \<Rightarrow> unit io" where
  "reloadCaddy env =
     bindE (execSync env ''caddy adapt --config /etc/caddy/Caddyfile > /dev/null 2>&1'' (Caddy Caddy_reload_failed)) (\<lambda>_.
     execSync env
       ''systemctl reload caddy 2>/dev/null || caddy reload --config /etc/caddy/Caddyfile --force 2>/dev/null''
       (Caddy Caddy_reload_failed))"

definition site_file :: "string \<Rightarrow> string" where
  "site_file domain = CADDY_SITES_DIR @ ''/'' @ domain"

definition addRoute :: "env \<Rightarrow> string \<Rightarrow> string option \<Rightarrow> string \<Rightarrow> bool \<Rightarrow> bool \<Rightarrow> string option \<Rightarrow> unit io" where
  "addRoute env domain upstreamAddress pathPrefix tlsAuto vpnOnly service =
     bindE (if vpnOnly then getsE enabled_peers else ret []) (\<lambda>peers.
     bindE (liftE (renderRoute \<lparr>rs_domain = domain, rs_upstream_address = upstreamAddress,
       rs_path_prefix = pathPrefix, rs_tls_auto = tlsAuto, rs_vpn_only = vpnOnly, rs_service = service\<rparr> peers)) (\<lambda>config.
     bindE (atomicWrite env (site_file domain) config) (\<lambda>_.
     reloadCaddy env)))"

definition removeRoute :: "env \<Rightarrow> string \<Rightarrow> unit io" where
  "removeRoute env domain =
     bindE (unlinkFile (site_file domain)) (\<lambda>_.
     bindE (unlinkFile (site_file domain @ ''.disabled'')) (\<lambda>_.
     reloadCaddy env))"

text \<open>A rename of a missing file throws ENOENT, which both callers swallow.\<close>

definition rename_and_reload :: "env \<Rightarrow> string \<Rightarrow> string \<Rightarrow> unit io" where
  "rename_and_reload env from to =
     bindE (getsE (\<lambda>w. w_files w from)) (\<lambda>c.
     case c of
       None \<Rightarrow> ret ()
     | Some body \<Rightarrow>
         bindE (modE (\<lambda>w. w\<lparr>w_files := (w_files w)(from := None, to \<mapsto> body)\<rparr>)) (\<lambda>_. reloadCaddy env))"

definition enableRoute :: "env \<Rightarrow> string \<Rightarrow> unit io" where
  "enableRoute env domain = rename_and_reload env (site_file domain @ ''.disabled'') (site_file domain)"

definition disableRoute :: "env \<Rightarrow> string \<Rightarrow> unit io" where
  "disableRoute env domain = rename_and_reload env (site_file domain) (site_file domain @ ''.disabled'')"

section \<open>Regenerating the vpn-only routes\<close>

datatype route_warning = Write_failed string string | Reload_failed_warning

record caddy_result =
  cr_ok :: bool
  cr_routeCount :: nat
  cr_written :: nat
  cr_reload :: string
  cr_warnings :: "route_warning list"

definition spec_of :: "route \<Rightarrow> route_spec" where
  "spec_of r = \<lparr>rs_domain = rt_domain r, rs_upstream_address = rt_upstream_address r,
     rs_path_prefix = rt_path_prefix r, rs_tls_auto = (rt_tls_auto r \<noteq> 0), rs_vpn_only = (rt_vpn_only r \<noteq> 0),
     rs_service = rt_service r\<rparr>"

text \<open>\<open>SELECT ... WHERE vpn_only = 1 AND enabled = 1 ORDER BY id\<close>\<close>

definition vpn_routes :: "world \<Rightarrow> route list" where
  "vpn_routes w = sort_by (\<lambda>a b. rt_id a \<le> rt_id b) (filter (\<lambda>r. rt_vpn_only r = 1 \<and> rt_enabled r = 1) (w_routes w))"

fun write_routes :: "env \<Rightarrow> peer list \<Rightarrow> route list \<Rightarrow> (nat \<times> route_warning list) io" where
  "write_routes env peers [] = ret (0, [])"
| "write_routes env peers (r # rs) =
     bindE (liftE (renderRoute (spec_of r) peers)) (\<lambda>body.
     let target = path_join CADDY_SITES_DIR (rt_domain r) in
     bindE (catchE (bindE (atomicWrite env target body) (\<lambda>_. ret (1, [])))
       (\<lambda>e. ret (0, [Write_failed target (case e of Sys (Fs_error m) \<Rightarrow> m | _ \<Rightarrow> [])]))) (\<lambda>(n, ws).
     bindE (write_routes env peers rs) (\<lambda>(m, vs).
     ret (n + m, ws @ vs))))"

definition reconcileVpnRoutes :: "env \<Rightarrow> string option \<Rightarrow> caddy_result io" where
  "reconcileVpnRoutes env actor =
     bindE (getsE vpn_routes) (\<lambda>routes.
     if routes = [] then
       bindE (audit env ''caddy'' ''reconcile'' (Some ''vpn-routes'') actor None
         (Some (JObj [(''route_count'', JNum 0), (''reload'', JStr ''skipped'')])) None) (\<lambda>_.
       ret \<lparr>cr_ok = True, cr_routeCount = 0, cr_written = 0, cr_reload = ''skipped'', cr_warnings = []\<rparr>)
     else
       bindE (getsE enabled_peers) (\<lambda>peers.
       bindE (write_routes env peers routes) (\<lambda>(written, ws).
       bindE (catchE (bindE (reloadCaddy env) (\<lambda>_. ret (''reloaded'', [])))
         (\<lambda>_. ret (''failed'', [Reload_failed_warning]))) (\<lambda>(status, ws2).
       bindE (audit env ''caddy'' ''reconcile'' (Some ''vpn-routes'') actor None
         (Some (JObj [(''route_count'', JNum (int (length routes))), (''written'', JNum (int written)),
           (''reload'', JStr status)])) None) (\<lambda>_.
       ret \<lparr>cr_ok = (status = ''reloaded'' \<and> ws @ ws2 = []), cr_routeCount = length routes,
         cr_written = written, cr_reload = status, cr_warnings = ws @ ws2\<rparr>)))))"

section \<open>Laws\<close>

text \<open>The two layers compute the same list.\<close>

lemma resolvers_agree: "resolveRoutePeers service peers = rule_sources service peers"
proof (cases service)
  case (Some t)
  have "map fst (filter (\<lambda>(c, tags). t \<in> set tags)
      (map (\<lambda>p. (pe_allowed_ip p @ ''/32'', case pe_services p of None \<Rightarrow> [] | Some ts \<Rightarrow> ts))
        (filter (\<lambda>p. pe_scope p = ''services'') peers))) =
    map peer_cidr (filter (\<lambda>p. pe_scope p = ''services'' \<and> t \<in> set (peer_services p)) peers)"
    by (induction peers) (auto simp: peer_cidr_def peer_services_def)
  with Some show ?thesis
    by (simp add: resolveRoutePeers_def rule_sources_def sortIpsByTrailingOctet_def full_admin_cidrs_def
        service_cidrs_def truthy_def peer_cidr_def [abs_def] Let_def)
qed (simp add: resolveRoutePeers_def rule_sources_def sortIpsByTrailingOctet_def full_admin_cidrs_def
    service_cidrs_def truthy_def peer_cidr_def [abs_def] Let_def)

interpretation l7: peer_resolver resolveRoutePeers
  by unfold_locales (simp_all add: resolvers_agree l4.resolve_set l4.resolve_distinct)

lemma preserves_reloadCaddy [preserves_intros]:
  "(\<And>w cs. P w \<Longrightarrow> P (w\<lparr>w_cmds := cs\<rparr>)) \<Longrightarrow> preserves P (reloadCaddy env)"
  unfolding reloadCaddy_def execSync_def by (intro preserves_intros)

lemma preserves_write_routes [preserves_intros]:
  "(\<And>w f. P w \<Longrightarrow> P (w\<lparr>w_files := f\<rparr>)) \<Longrightarrow> preserves P (write_routes env ps rs)"
  by (induction rs) (auto simp: Let_def intro!: preserves_intros)

lemma preserves_reconcileVpnRoutes [preserves_intros]:
  assumes "\<And>w cs. P w \<Longrightarrow> P (w\<lparr>w_cmds := cs\<rparr>)" and "\<And>w f. P w \<Longrightarrow> P (w\<lparr>w_files := f\<rparr>)"
    and "\<And>w l. P w \<Longrightarrow> P (w\<lparr>w_audit := l\<rparr>)"
  shows "preserves P (reconcileVpnRoutes env actor)"
  unfolding reconcileVpnRoutes_def by (intro preserves_intros assms)

end
