(* ===== verification/Vpn_Peer.thy ===== *)
theory Vpn_Peer
  imports Vpn_Server Caddy_Routes
begin

text \<open>
  \<open>cli/src/core/vpn/peer.js\<close> and \<open>status.js\<close>: the peers of the VPN, their addresses from the pool,
  the client configuration handed to the operator, and the convergence of firewall and Caddy
  after every change. File ownership (\<open>chownToInvoker\<close>) is outside the model.
\<close>

section \<open>Live status\<close>

record live =
  lv_endpoint :: "string option"
  lv_allowedIps :: "string option"
  lv_lastHandshakeUnix :: int
  lv_rxBytes :: int
  lv_txBytes :: int
  lv_keepalive :: "int option"

definition ONLINE_HANDSHAKE_WINDOW_SECONDS :: int where "ONLINE_HANDSHAKE_WINDOW_SECONDS = 180"

definition none_field :: "string \<Rightarrow> string option" where
  "none_field s = (if s = ''(none)'' then None else Some s)"

text \<open>\<open>Number(s) || 0\<close>: counters are integers.\<close>

definition num_or_zero :: "string \<Rightarrow> int" where
  "num_or_zero s = num_val (js_number s)"

definition parse_dump_line :: "string \<Rightarrow> (string \<times> live) option" where
  "parse_dump_line line =
     (let ps = split_on (CHR 0x09) line
      in if length ps < 8 then None
         else Some (ps ! 0,
           \<lparr>lv_endpoint = none_field (ps ! 2), lv_allowedIps = none_field (ps ! 3),
            lv_lastHandshakeUnix = max 0 (num_or_zero (ps ! 4)),
            lv_rxBytes = num_or_zero (ps ! 5), lv_txBytes = num_or_zero (ps ! 6),
            lv_keepalive = (if ps ! 7 = ''off'' \<or> num_or_zero (ps ! 7) = 0 then None else Some (num_or_zero (ps ! 7)))\<rparr>))"

definition parse_dump :: "string \<Rightarrow> string \<rightharpoonup> live" where
  "parse_dump out = map_of (rev (List.map_filter parse_dump_line
     (tl (filter (\<lambda>l. l \<noteq> []) (split_on newline out)))))"

definition dumpPeers :: "env \<Rightarrow> (string \<rightharpoonup> live) io" where
  "dumpPeers env =
     bindE (spawn env ''wg'' [''show'', WG_INTERFACE, ''dump''] []) (\<lambda>r.
     ret (if pr_status r \<noteq> Some 0 then Map.empty
          else parse_dump (case pr_stdout r of None \<Rightarrow> [] | Some t \<Rightarrow> t)))"

definition isOnline :: "int \<Rightarrow> int \<Rightarrow> bool" where
  "isOnline handshakeUnix nowUnix \<longleftrightarrow>
     handshakeUnix \<noteq> 0 \<and> nowUnix - handshakeUnix < ONLINE_HANDSHAKE_WINDOW_SECONDS"

definition now_sec :: "env \<Rightarrow> int" where
  "now_sec env = env_now env div 1000"

section \<open>Convergence after a change\<close>

record fw_layer =
  fl_ok :: bool
  fl_checksum :: "string option"
  fl_rule_count :: "nat option"
  fl_warnings :: "string list"
  fl_rejection :: "(err + rejection) option"

record caddy_layer =
  cl_ok :: bool
  cl_route_count :: nat
  cl_written :: nat
  cl_reload :: string
  cl_warnings :: "err + route_warning list"

definition reconcileAfterPeerMutation :: "env \<Rightarrow> string option \<Rightarrow> (fw_layer \<times> caddy_layer) io" where
  "reconcileAfterPeerMutation env actor =
     bindE (catchE
       (bindE (reconcile env False False actor) (\<lambda>r.
        ret \<lparr>fl_ok = rr_ok r, fl_checksum = Some (rr_checksum r), fl_rule_count = Some (rr_ruleCount r),
          fl_warnings = (case rr_warnings r of None \<Rightarrow> [] | Some ws \<Rightarrow> ws),
          fl_rejection = map_option Inr (rr_rejection r)\<rparr>))
       (\<lambda>e. ret \<lparr>fl_ok = False, fl_checksum = None, fl_rule_count = None, fl_warnings = [],
          fl_rejection = Some (Inl e)\<rparr>)) (\<lambda>firewall.
     bindE (catchE
       (bindE (reconcileVpnRoutes env actor) (\<lambda>c.
        ret \<lparr>cl_ok = cr_ok c, cl_route_count = cr_routeCount c, cl_written = cr_written c,
          cl_reload = cr_reload c, cl_warnings = Inr (cr_warnings c)\<rparr>))
       (\<lambda>e. ret \<lparr>cl_ok = False, cl_route_count = 0, cl_written = 0, cl_reload = ''failed'', cl_warnings = Inl e\<rparr>)) (\<lambda>caddy.
     ret (firewall, caddy)))"

section \<open>Validation\<close>

definition VPN_PEERS_DIR :: string where "VPN_PEERS_DIR = ''/var/lib/proxypilot/vpn-peers''"

definition ACTIVE_HANDSHAKE_WINDOW_SEC :: int where "ACTIVE_HANDSHAKE_WINDOW_SEC = 24 * 60 * 60"

definition PEER_NAME_RE :: "string \<Rightarrow> bool" where
  "PEER_NAME_RE s \<longleftrightarrow> s \<noteq> [] \<and> length s \<le> 63 \<and> is_alnum (hd s) \<and> list_all is_tag s"

definition validatePeerName :: "string \<Rightarrow> err + string" where
  "validatePeerName name = (if PEER_NAME_RE name then Inr name else Inl (Vpn (Invalid_peer_name name)))"

definition PEER_SCOPES :: "string list" where "PEER_SCOPES = [''full'', ''admin'', ''services'']"

definition validateScope :: "string \<Rightarrow> string list option \<Rightarrow> err + unit" where
  "validateScope scope services =
     bindR (guardR (scope \<in> set PEER_SCOPES) (Vpn (Invalid_peer_scope scope))) (\<lambda>_.
     if scope = ''services'' then
       (case services of
          Some (s # ss) \<Rightarrow>
            (case find (\<lambda>x. \<not> SERVICE_TAG_RE x) (s # ss) of
               None \<Rightarrow> Inr ()
             | Some x \<Rightarrow> Inl (Vpn (Invalid_service_name x)))
        | _ \<Rightarrow> Inl (Vpn Services_required))
     else guardR (services = None \<or> services = Some []) (Vpn Services_not_allowed))"

section \<open>The address pool\<close>

definition POOL_IPS :: "string list" where
  "POOL_IPS = map (\<lambda>i. ''10.100.0.'' @ show_nat i) [10..<255]"

definition seedPoolIfEmpty :: "unit io" where
  "seedPoolIfEmpty = modE (\<lambda>w. if w_pool w \<noteq> [] then w
     else w\<lparr>w_pool := map (\<lambda>ip. \<lparr>pl_ip = ip, pl_peer_id = None, pl_released_at = None\<rparr>) POOL_IPS\<rparr>)"

text \<open>\<open>CAST(substr(ip, 10) AS INTEGER)\<close>\<close>

definition ip_suffix :: "string \<Rightarrow> nat" where
  "ip_suffix ip = read_nat (takeWhile is_digit (drop 9 ip))"

definition pool_free :: "pool_row \<Rightarrow> bool" where
  "pool_free r \<longleftrightarrow> pl_peer_id r = None \<or> pl_released_at r \<noteq> None"

definition pickFreeIp :: "pool_row list \<Rightarrow> string option" where
  "pickFreeIp pool =
     (case sort_by (\<lambda>a b. ip_suffix (pl_ip a) \<le> ip_suffix (pl_ip b)) (filter pool_free pool) of
        [] \<Rightarrow> None
      | r # _ \<Rightarrow> Some (pl_ip r))"

definition claimIp :: "string \<Rightarrow> int \<Rightarrow> pool_row list \<Rightarrow> pool_row list" where
  "claimIp ip i = map (\<lambda>r. if pl_ip r = ip then r\<lparr>pl_peer_id := Some i, pl_released_at := None\<rparr> else r)"

definition releaseIp :: "int \<Rightarrow> string \<Rightarrow> pool_row list \<Rightarrow> pool_row list" where
  "releaseIp ts ip = map (\<lambda>r. if pl_ip r = ip then r\<lparr>pl_peer_id := None, pl_released_at := Some ts\<rparr> else r)"

section \<open>Rows and configuration files\<close>

definition readPeerByName :: "string \<Rightarrow> world \<Rightarrow> peer option" where
  "readPeerByName name w = find (\<lambda>p. pe_name p = name) (w_peers w)"

definition need_peer :: "string \<Rightarrow> peer io" where
  "need_peer name =
     bindE (getsE (readPeerByName name)) (\<lambda>p.
     case p of None \<Rightarrow> throw (Vpn (Peer_not_found name)) | Some q \<Rightarrow> ret q)"

text \<open>\<open>INSERT INTO vpn_peers\<close> with its UNIQUE and CHECK constraints; the new id.\<close>

definition insert_peer :: "env \<Rightarrow> string \<Rightarrow> string \<Rightarrow> string \<Rightarrow> string \<Rightarrow> string list option \<Rightarrow> string option \<Rightarrow> int io" where
  "insert_peer env name key ip scope services actor =
     bindE (getsE w_peers) (\<lambda>ps.
     bindE (getsE w_peer_seq) (\<lambda>k.
     bindE (guardE (name \<notin> pe_name ` set ps \<and> key \<notin> pe_public_key ` set ps \<and> ip \<notin> pe_allowed_ip ` set ps \<and>
       scope \<in> set PEER_SCOPES) (Sys Sqlite_constraint)) (\<lambda>_.
     bindE (modE (\<lambda>w. w\<lparr>w_peer_seq := k + 1, w_peers := w_peers w @
       [\<lparr>pe_id = k + 1, pe_name = name, pe_public_key = key, pe_allowed_ip = ip, pe_scope = scope,
         pe_services = services, pe_status = ''enabled'', pe_created_at = env_now env, pe_created_by = actor,
         pe_rotated_at = None, pe_disabled_at = None\<rparr>]\<rparr>)) (\<lambda>_.
     ret (k + 1)))))"

definition update_peer :: "int \<Rightarrow> (peer \<Rightarrow> peer) \<Rightarrow> unit io" where
  "update_peer i f = modE (\<lambda>w. w\<lparr>w_peers := map (\<lambda>p. if pe_id p = i then f p else p) (w_peers w)\<rparr>)"

definition regenerateWg0 :: "env \<Rightarrow> unit io" where
  "regenerateWg0 env =
     bindE readVpnConfig (\<lambda>c.
     case c of
       None \<Rightarrow> throw (Vpn Vpn_config_missing)
     | Some cfg \<Rightarrow>
         bindE (getsE (\<lambda>w. w_files w WG_SERVER_PRIVATE)) (\<lambda>k.
         case k of
           None \<Rightarrow> throw (Vpn Server_key_missing)
         | Some body \<Rightarrow>
             bindE (getsE readEnabledPeers) (\<lambda>peers.
             writeWg0Conf env (trim body) (vc_listen_port cfg) WG_SERVER_IP peers)))"

definition allowedIpsFor :: "string \<Rightarrow> string" where
  "allowedIpsFor scope = ''10.100.0.0/24''"

definition vpn_dns_re :: "string \<Rightarrow> bool" where
  "vpn_dns_re s \<longleftrightarrow> prefix ''10.100.0.'' s \<and> digits13 (drop 9 s)"

definition withVpnResolver :: "env \<Rightarrow> vpn_config \<Rightarrow> vpn_config io" where
  "withVpnResolver env cfg =
     (if vpn_dns_re (trim (vc_dns cfg)) then ret cfg
      else
        bindE (spawn env ''systemctl'' [''is-active'', ''--quiet'', ''proxypilot-vpn-dns.service''] []) (\<lambda>r.
        ret (if pr_status r = Some 0 then cfg\<lparr>vc_dns := ''10.100.0.1''\<rparr> else cfg)))"

definition renderClientConfig :: "env \<Rightarrow> string \<Rightarrow> string \<Rightarrow> string \<Rightarrow> vpn_config \<Rightarrow> string" where
  "renderClientConfig env peerPrivateKey peerIp scope cfg =
     (let dns = trim (vc_dns cfg)
      in join nl
        ([''# Generated by ProxyPilot. Save this private key now '' @ emdash @ '' the server'',
          ''# never persisted it and cannot reprint it.'', ''[Interface]'',
          ''PrivateKey = '' @ peerPrivateKey, ''Address = '' @ peerIp @ ''/32''] @
         (if vpn_dns_re dns then [''DNS = '' @ dns] else []) @
         [''MTU = '' @ show_int (resolveMtu env None), [], ''[Peer]'',
          ''PublicKey = '' @ vc_server_public_key cfg, ''AllowedIPs = '' @ allowedIpsFor scope,
          ''Endpoint = '' @ vc_endpoint cfg, ''PersistentKeepalive = 25'']) @ nl)"

definition clientConfigPath :: "string \<Rightarrow> string" where
  "clientConfigPath name = VPN_PEERS_DIR @ ''/'' @ name @ ''.conf''"

section \<open>Adding and rotating\<close>

record peer_result =
  ps_id :: int
  ps_name :: string
  ps_ip :: string
  ps_scope :: string
  ps_services :: "string list option"
  ps_publicKey :: string
  ps_privateKey :: string
  ps_configBody :: string
  ps_layers :: "fw_layer \<times> caddy_layer"

definition allocate_peer :: "env \<Rightarrow> string \<Rightarrow> string \<Rightarrow> string \<Rightarrow> string list option \<Rightarrow> string option \<Rightarrow> (int \<times> string) io" where
  "allocate_peer env name key scope services actor = txE
     (bindE seedPoolIfEmpty (\<lambda>_.
      bindE (getsE (\<lambda>w. pickFreeIp (w_pool w))) (\<lambda>free.
      case free of
        None \<Rightarrow> throw (Vpn Pool_exhausted)
      | Some ip \<Rightarrow>
          bindE (insert_peer env name key ip scope services actor) (\<lambda>i.
          bindE (modE (\<lambda>w. w\<lparr>w_pool := claimIp ip i (w_pool w)\<rparr>)) (\<lambda>_.
          ret (i, ip))))))"

definition services_json :: "string list option \<Rightarrow> jval" where
  "services_json ss = jopt jstrs ss"

definition write_client_config :: "env \<Rightarrow> string \<Rightarrow> string \<Rightarrow> string \<Rightarrow> string \<Rightarrow> vpn_config \<Rightarrow> string io" where
  "write_client_config env name priv ip scope cfg =
     bindE (withVpnResolver env cfg) (\<lambda>cfg'.
     let body = renderClientConfig env priv ip scope cfg' in
     bindE (atomicWrite env (clientConfigPath name) body) (\<lambda>_. ret body))"

definition addPeer :: "env \<Rightarrow> string \<Rightarrow> string \<Rightarrow> string list option \<Rightarrow> string option \<Rightarrow> peer_result io" where
  "addPeer env name scope services actor =
     bindE (liftE (validatePeerName name)) (\<lambda>_.
     bindE (liftE (validateScope scope services)) (\<lambda>_.
     bindE readVpnConfig (\<lambda>c.
     case c of
       None \<Rightarrow> throw (Vpn Vpn_not_enabled)
     | Some cfg \<Rightarrow>
         bindE (getsE (readPeerByName name)) (\<lambda>p.
         bindE (guardE (p = None) (Vpn (Peer_exists name))) (\<lambda>_.
         bindE (generateKeypair env) (\<lambda>(priv, pub).
         bindE (allocate_peer env name pub scope services actor) (\<lambda>(i, ip).
         bindE (regenerateWg0 env) (\<lambda>_.
         bindE (write_client_config env name priv ip scope cfg) (\<lambda>body.
         bindE (audit env ''vpn'' ''peer.add'' (Some name) actor None
           (Some (JObj [(''name'', JStr name), (''ip'', JStr ip), (''scope'', JStr scope),
             (''services'', services_json services), (''public_key'', JStr pub)])) None) (\<lambda>_.
         bindE (syncconfWg0 env) (\<lambda>_.
         bindE (reconcileAfterPeerMutation env actor) (\<lambda>layers.
         ret \<lparr>ps_id = i, ps_name = name, ps_ip = ip, ps_scope = scope, ps_services = services,
           ps_publicKey = pub, ps_privateKey = priv, ps_configBody = body, ps_layers = layers\<rparr>))))))))))))"

text \<open>\<open>UPDATE vpn_peers SET public_key = ?\<close> under the UNIQUE constraint of the column.\<close>

definition rotate_key :: "env \<Rightarrow> peer \<Rightarrow> string \<Rightarrow> unit io" where
  "rotate_key env p key =
     bindE (getsE w_peers) (\<lambda>ps.
     bindE (guardE (key \<notin> pe_public_key ` {q \<in> set ps. pe_id q \<noteq> pe_id p}) (Sys Sqlite_constraint)) (\<lambda>_.
     update_peer (pe_id p) (\<lambda>q. q\<lparr>pe_public_key := key, pe_rotated_at := Some (env_now env)\<rparr>)))"

definition rotatePeer :: "env \<Rightarrow> string \<Rightarrow> string option \<Rightarrow> peer_result io" where
  "rotatePeer env name actor =
     bindE (liftE (validatePeerName name)) (\<lambda>_.
     bindE readVpnConfig (\<lambda>c.
     case c of
       None \<Rightarrow> throw (Vpn Vpn_not_enabled)
     | Some cfg \<Rightarrow>
         bindE (need_peer name) (\<lambda>p.
         bindE (generateKeypair env) (\<lambda>(priv, pub).
         bindE (rotate_key env p pub) (\<lambda>_.
         bindE (regenerateWg0 env) (\<lambda>_.
         bindE (write_client_config env name priv (pe_allowed_ip p) (pe_scope p) cfg) (\<lambda>body.
         bindE (audit env ''vpn'' ''peer.rotate'' (Some name) actor
           (Some (JObj [(''public_key'', JStr (pe_public_key p))]))
           (Some (JObj [(''name'', JStr name), (''ip'', JStr (pe_allowed_ip p)), (''scope'', JStr (pe_scope p)),
             (''public_key'', JStr pub)])) None) (\<lambda>_.
         bindE (syncconfWg0 env) (\<lambda>_.
         bindE (catchE (wgPeerRemove env (pe_public_key p)) (\<lambda>_. ret False)) (\<lambda>_.
         bindE (reconcileAfterPeerMutation env actor) (\<lambda>layers.
         ret \<lparr>ps_id = pe_id p, ps_name = name, ps_ip = pe_allowed_ip p, ps_scope = pe_scope p,
           ps_services = pe_services p, ps_publicKey = pub, ps_privateKey = priv, ps_configBody = body,
           ps_layers = layers\<rparr>)))))))))))"

section \<open>Disabling, enabling, removing\<close>

definition countEnabledPeers :: "world \<Rightarrow> nat" where
  "countEnabledPeers w = length (enabled_peers w)"

text \<open>\<open>/syncconf|interface|No such device/i\<close> on the message of an error of the two steps.\<close>

definition tolerated :: "err \<Rightarrow> bool" where
  "tolerated e \<longleftrightarrow>
     (case e of
        Vpn (Syncconf_failed m) \<Rightarrow> True
      | Sys (Fs_error m) \<Rightarrow> contains (to_lower m) ''syncconf'' \<or> contains (to_lower m) ''interface'' \<or>
          contains (to_lower m) ''no such device''
      | _ \<Rightarrow> False)"

definition converge_wg0 :: "env \<Rightarrow> string \<Rightarrow> unit io" where
  "converge_wg0 env publicKey =
     bindE (catchE (bindE (regenerateWg0 env) (\<lambda>_. syncconfWg0 env))
       (\<lambda>e. if tolerated e then ret () else throw e)) (\<lambda>_.
     bindE (catchE (wgPeerRemove env publicKey) (\<lambda>_. ret False)) (\<lambda>_. ret ()))"

definition status_json :: "string \<Rightarrow> peer \<Rightarrow> jval" where
  "status_json st p = JObj [(''status'', JStr st), (''name'', JStr (pe_name p)), (''ip'', JStr (pe_allowed_ip p)),
     (''public_key'', JStr (pe_public_key p))]"

text \<open>None when the peer already was in the requested status.\<close>

definition disablePeer :: "env \<Rightarrow> string \<Rightarrow> bool \<Rightarrow> string option \<Rightarrow> (fw_layer \<times> caddy_layer) option io" where
  "disablePeer env name force actor =
     bindE (liftE (validatePeerName name)) (\<lambda>_.
     bindE (need_peer name) (\<lambda>p.
     if pe_status p = ''disabled'' then ret None
     else
       bindE (getsE countEnabledPeers) (\<lambda>n.
       bindE (guardE (n \<noteq> 1 \<or> force) (Vpn (Last_enabled_peer name))) (\<lambda>_.
       bindE (update_peer (pe_id p) (\<lambda>q. q\<lparr>pe_status := ''disabled'', pe_disabled_at := Some (env_now env)\<rparr>)) (\<lambda>_.
       bindE (converge_wg0 env (pe_public_key p)) (\<lambda>_.
       bindE (audit env ''vpn'' ''peer.disable'' (Some name) actor
         (Some (JObj [(''status'', JStr (pe_status p))])) (Some (status_json ''disabled'' p)) None) (\<lambda>_.
       bindE (reconcileAfterPeerMutation env actor) (\<lambda>layers.
       ret (Some layers)))))))))"

definition enablePeer :: "env \<Rightarrow> string \<Rightarrow> string option \<Rightarrow> (fw_layer \<times> caddy_layer) option io" where
  "enablePeer env name actor =
     bindE (liftE (validatePeerName name)) (\<lambda>_.
     bindE (need_peer name) (\<lambda>p.
     if pe_status p = ''enabled'' then ret None
     else
       bindE (guardE (pe_status p \<noteq> ''revoked'') (Vpn (Peer_revoked name))) (\<lambda>_.
       bindE (update_peer (pe_id p) (\<lambda>q. q\<lparr>pe_status := ''enabled'', pe_disabled_at := None\<rparr>)) (\<lambda>_.
       bindE (regenerateWg0 env) (\<lambda>_.
       bindE (syncconfWg0 env) (\<lambda>_.
       bindE (audit env ''vpn'' ''peer.enable'' (Some name) actor
         (Some (JObj [(''status'', JStr (pe_status p))])) (Some (status_json ''enabled'' p)) None) (\<lambda>_.
       bindE (reconcileAfterPeerMutation env actor) (\<lambda>layers.
       ret (Some layers)))))))))"

definition remove_gate :: "env \<Rightarrow> peer \<Rightarrow> unit io" where
  "remove_gate env p =
     bindE (getsE countEnabledPeers) (\<lambda>n.
     bindE (guardE (\<not> (pe_status p = ''enabled'' \<and> n = 1)) (Vpn (Last_enabled_peer (pe_name p)))) (\<lambda>_.
     bindE (dumpPeers env) (\<lambda>live.
     let handshake = (case live (pe_public_key p) of None \<Rightarrow> 0 | Some l \<Rightarrow> lv_lastHandshakeUnix l) in
     guardE (\<not> (handshake \<noteq> 0 \<and> now_sec env - handshake < ACTIVE_HANDSHAKE_WINDOW_SEC))
       (Vpn (Recently_active (pe_name p))))))"

definition removePeer :: "env \<Rightarrow> string \<Rightarrow> bool \<Rightarrow> string option \<Rightarrow> (fw_layer \<times> caddy_layer) io" where
  "removePeer env name force actor =
     bindE (liftE (validatePeerName name)) (\<lambda>_.
     bindE (need_peer name) (\<lambda>p.
     bindE (if force then ret () else remove_gate env p) (\<lambda>_.
     bindE (modE (\<lambda>w. w\<lparr>w_pool := releaseIp (env_now env) (pe_allowed_ip p) (w_pool w),
       w_peers := filter (\<lambda>q. pe_id q \<noteq> pe_id p) (w_peers w)\<rparr>)) (\<lambda>_.
     bindE (converge_wg0 env (pe_public_key p)) (\<lambda>_.
     bindE (fs_check (env_unlink_error env (clientConfigPath name))) (\<lambda>_.
     bindE (unlinkFile (clientConfigPath name)) (\<lambda>_.
     bindE (audit env ''vpn'' ''peer.remove'' (Some name) actor
       (Some (JObj [(''name'', JStr name), (''ip'', JStr (pe_allowed_ip p)), (''scope'', JStr (pe_scope p)),
         (''status'', JStr (pe_status p)), (''public_key'', JStr (pe_public_key p))])) None None) (\<lambda>_.
     reconcileAfterPeerMutation env actor))))))))"

section \<open>Listing\<close>

record peer_view =
  pv_peer :: peer
  pv_lastHandshakeUnix :: int
  pv_online :: bool
  pv_rxBytes :: int
  pv_txBytes :: int
  pv_endpoint :: "string option"

definition view_of :: "env \<Rightarrow> (string \<rightharpoonup> live) \<Rightarrow> peer \<Rightarrow> peer_view" where
  "view_of env live p =
     (case live (pe_public_key p) of
        None \<Rightarrow> \<lparr>pv_peer = p, pv_lastHandshakeUnix = 0, pv_online = isOnline 0 (now_sec env), pv_rxBytes = 0,
          pv_txBytes = 0, pv_endpoint = None\<rparr>
      | Some l \<Rightarrow> \<lparr>pv_peer = p, pv_lastHandshakeUnix = lv_lastHandshakeUnix l,
          pv_online = isOnline (lv_lastHandshakeUnix l) (now_sec env), pv_rxBytes = lv_rxBytes l,
          pv_txBytes = lv_txBytes l, pv_endpoint = lv_endpoint l\<rparr>)"

definition listPeers :: "env \<Rightarrow> peer_view list io" where
  "listPeers env =
     bindE (getsE (\<lambda>w. sort_by (\<lambda>a b. pe_id a \<le> pe_id b) (w_peers w))) (\<lambda>rows.
     bindE (dumpPeers env) (\<lambda>live. ret (map (view_of env live) rows)))"

definition showPeer :: "env \<Rightarrow> string \<Rightarrow> peer_view io" where
  "showPeer env name =
     bindE (liftE (validatePeerName name)) (\<lambda>_.
     bindE (need_peer name) (\<lambda>p.
     bindE (dumpPeers env) (\<lambda>live. ret (view_of env live p))))"

section \<open>Changing the scope\<close>

definition untagged_vpn_only :: "fw_state \<Rightarrow> rule list" where
  "untagged_vpn_only s =
     filter (\<lambda>r. rl_enabled r \<and> rl_scope r = ''vpn-only'' \<and> \<not> truthy (rl_service r)) (rules_of s)"

definition other_full_admin :: "peer \<Rightarrow> world \<Rightarrow> nat" where
  "other_full_admin p w =
     length (filter (\<lambda>q. pe_status q = ''enabled'' \<and> pe_id q \<noteq> pe_id p \<and> (pe_scope q = ''full'' \<or> pe_scope q = ''admin''))
       (w_peers w))"

definition demote_gate :: "env \<Rightarrow> peer \<Rightarrow> unit io" where
  "demote_gate env p =
     bindE (getsE (other_full_admin p)) (\<lambda>n.
     if n \<noteq> 0 then ret ()
     else
       bindE (catchE (bindE (readState env) (\<lambda>s. ret (untagged_vpn_only s))) (\<lambda>_. ret [])) (\<lambda>rs.
       guardE (rs = []) (Vpn (Last_full_admin_demote (pe_name p) (map rl_id rs)))))"

definition scope_json :: "string \<Rightarrow> string list option \<Rightarrow> jval" where
  "scope_json sc ss = JObj [(''scope'', JStr sc), (''services'', services_json ss)]"

definition setPeerScope :: "env \<Rightarrow> string \<Rightarrow> string \<Rightarrow> string list option \<Rightarrow> bool \<Rightarrow> string option \<Rightarrow>
    (fw_layer \<times> caddy_layer) io" where
  "setPeerScope env name scope services force actor =
     bindE (liftE (validatePeerName name)) (\<lambda>_.
     bindE (liftE (validateScope scope services)) (\<lambda>_.
     bindE (need_peer name) (\<lambda>p.
     bindE (if \<not> force \<and> (pe_scope p = ''full'' \<or> pe_scope p = ''admin'') \<and> scope = ''services'' \<and>
              pe_status p = ''enabled'' then demote_gate env p else ret ()) (\<lambda>_.
     bindE (update_peer (pe_id p) (\<lambda>q. q\<lparr>pe_scope := scope, pe_services := services\<rparr>)) (\<lambda>_.
     bindE (audit env ''vpn'' ''peer.set-scope'' (Some name) actor
       (Some (scope_json (pe_scope p) (pe_services p))) (Some (scope_json scope services)) None) (\<lambda>_.
     reconcileAfterPeerMutation env actor))))))"

section \<open>Frames\<close>

lemma preserves_dumpPeers [preserves_intros]:
  "(\<And>w cs. P w \<Longrightarrow> P (w\<lparr>w_cmds := cs\<rparr>)) \<Longrightarrow> preserves P (dumpPeers env)"
  unfolding dumpPeers_def by (intro preserves_intros)

lemma preserves_need_peer [preserves_intros]: "preserves P (need_peer name)"
  unfolding need_peer_def by (intro preserves_intros)

lemma preserves_regenerateWg0 [preserves_intros]:
  "(\<And>w f. P w \<Longrightarrow> P (w\<lparr>w_files := f\<rparr>)) \<Longrightarrow> preserves P (regenerateWg0 env)"
  unfolding regenerateWg0_def readVpnConfig_def by (intro preserves_intros)

lemma preserves_converge_wg0 [preserves_intros]:
  "(\<And>w cs. P w \<Longrightarrow> P (w\<lparr>w_cmds := cs\<rparr>)) \<Longrightarrow> (\<And>w f. P w \<Longrightarrow> P (w\<lparr>w_files := f\<rparr>)) \<Longrightarrow>
    preserves P (converge_wg0 env k)"
  unfolding converge_wg0_def by (intro preserves_intros)

lemma preserves_write_client_config [preserves_intros]:
  "(\<And>w cs. P w \<Longrightarrow> P (w\<lparr>w_cmds := cs\<rparr>)) \<Longrightarrow> (\<And>w f. P w \<Longrightarrow> P (w\<lparr>w_files := f\<rparr>)) \<Longrightarrow>
    preserves P (write_client_config env a b c d e)"
  unfolding write_client_config_def withVpnResolver_def by (intro preserves_intros)

lemma preserves_remove_gate [preserves_intros]:
  "(\<And>w cs. P w \<Longrightarrow> P (w\<lparr>w_cmds := cs\<rparr>)) \<Longrightarrow> preserves P (remove_gate env p)"
  unfolding remove_gate_def by (intro preserves_intros)

text \<open>What a predicate must be insensitive to for the convergence step to keep it.\<close>

definition layer_frame :: "(world \<Rightarrow> bool) \<Rightarrow> bool" where
  "layer_frame P \<longleftrightarrow> (\<forall>w cs. P w \<longrightarrow> P (w\<lparr>w_cmds := cs\<rparr>)) \<and> (\<forall>w f. P w \<longrightarrow> P (w\<lparr>w_files := f\<rparr>)) \<and>
     (\<forall>w l. P w \<longrightarrow> P (w\<lparr>w_audit := l\<rparr>)) \<and> (\<forall>w l. P w \<longrightarrow> P (w\<lparr>w_fw_reconciles := l\<rparr>))"

lemma preserves_after_mutation:
  assumes f: "layer_frame P" and "preserves P (readState env)"
  shows "preserves P (reconcileAfterPeerMutation env actor)"
  unfolding reconcileAfterPeerMutation_def
  by (intro preserves_intros preserves_reconcile_tail assms(2)) (use f in \<open>auto simp: layer_frame_def\<close>)

lemma after_mutation_inv [preserves_intros]:
  "preserves (fw_inv B) (reconcileAfterPeerMutation env actor)"
  unfolding reconcileAfterPeerMutation_def by (intro preserves_intros) simp_all

text \<open>The convergence step never throws: the change it follows is already durable.\<close>

lemma catchE_returns: "\<exists>a w'. catchE m (\<lambda>e. ret (g e)) w = (Inr a, w')"
  by (cases "m w"; cases "fst (m w)") auto

lemma bindE_returns:
  "\<exists>a v. m w = (Inr a, v) \<Longrightarrow> (\<And>a v. \<exists>b u. f a v = (Inr b, u)) \<Longrightarrow> \<exists>b u. bindE m f w = (Inr b, u)"
  by auto

lemma after_mutation_returns: "\<exists>layers w'. reconcileAfterPeerMutation env actor w = (Inr layers, w')"
  unfolding reconcileAfterPeerMutation_def by (intro bindE_returns catchE_returns) simp

lemma update_peer_apply [simp]:
  "update_peer i f w = (Inr (), w\<lparr>w_peers := map (\<lambda>p. if pe_id p = i then f p else p) (w_peers w)\<rparr>)"
  by (simp add: update_peer_def)

lemma preserves_update_peer [preserves_intros]:
  "(\<And>w l. P w \<Longrightarrow> P (w\<lparr>w_peers := l\<rparr>)) \<Longrightarrow> preserves P (update_peer i f)"
  by (simp add: preserves_def)

lemma fw_inv_alloc [preserves_intros]: "preserves (fw_inv B) (allocate_peer env n k sc sv a)"
  unfolding allocate_peer_def insert_peer_def seedPoolIfEmpty_def by (intro preserves_intros) simp_all

lemma peer_ops_inv [preserves_intros]:
  "preserves (fw_inv B) (addPeer env name scope services actor)"
  "preserves (fw_inv B) (rotatePeer env name actor)"
  "preserves (fw_inv B) (disablePeer env name force actor)"
  "preserves (fw_inv B) (enablePeer env name actor)"
  "preserves (fw_inv B) (removePeer env name force actor)"
  "preserves (fw_inv B) (setPeerScope env name scope services force actor)"
  unfolding addPeer_def rotatePeer_def rotate_key_def disablePeer_def enablePeer_def removePeer_def setPeerScope_def
    demote_gate_def
  by (intro preserves_intros; simp)+

end
