(* ===== verification/Vpn_Pool.thy ===== *)
theory Vpn_Pool
  imports Vpn_Peer
begin

text \<open>
  The address pool of the VPN: the contract of an allocator, its interpretation on the functions
  of \<open>peer.js\<close>, and the invariant that ties the pool to the peers. Every peer operation keeps it.
\<close>

section \<open>The allocator contract\<close>

locale ip_pool =
  fixes pick :: "'p \<Rightarrow> 'ip option"
    and claim :: "'ip \<Rightarrow> 'k \<Rightarrow> 'p \<Rightarrow> 'p"
    and release :: "'ip \<Rightarrow> 'p \<Rightarrow> 'p"
    and free :: "'p \<Rightarrow> 'ip set"
    and every :: "'p \<Rightarrow> 'ip set"
    and rank :: "'ip \<Rightarrow> nat"
  assumes pick_lowest: "pick p = Some i \<Longrightarrow> i \<in> free p \<and> (\<forall>j\<in>free p. rank i \<le> rank j)"
    and pick_none: "pick p = None \<longleftrightarrow> free p = {}"
    and free_claim: "free (claim i k p) = free p - {i}"
    and free_release: "i \<in> every p \<Longrightarrow> free (release i p) = insert i (free p)"
    and every_claim: "every (claim i k p) = every p"
    and every_release: "every (release i p) = every p"
    and free_sub: "free p \<subseteq> every p"
begin

text \<open>An address that was handed out is not handed out again before it is released.\<close>

lemma no_double_allocation:
  assumes "pick p = Some i" and "pick (claim i k p) = Some j"
  shows "i \<noteq> j"
  using assms pick_lowest [of "claim i k p" j] by (auto simp: free_claim)

lemma release_after_claim:
  assumes "pick p = Some i"
  shows "free (release i (claim i k p)) = free p"
proof -
  from assms have i: "i \<in> free p" using pick_lowest by blast
  then have "i \<in> every (claim i k p)" using free_sub by (auto simp: every_claim)
  with i show ?thesis by (auto simp: free_release free_claim)
qed

lemma reissued_first:
  assumes "pick p = Some i"
  shows "\<exists>j. pick (release i (claim i k p)) = Some j \<and> rank j = rank i"
proof -
  have f: "free (release i (claim i k p)) = free p" using assms by (rule release_after_claim)
  with assms pick_lowest have "free (release i (claim i k p)) \<noteq> {}" by blast
  then obtain j where j: "pick (release i (claim i k p)) = Some j" using pick_none by (metis not_None_eq)
  have "rank j = rank i" using pick_lowest [OF assms] pick_lowest [OF j] f by (metis le_antisym)
  with j show ?thesis by blast
qed

end

definition free_ips :: "pool_row list \<Rightarrow> string set" where
  "free_ips pool = pl_ip ` {r \<in> set pool. pool_free r}"

definition pool_ips :: "pool_row list \<Rightarrow> string set" where
  "pool_ips pool = pl_ip ` set pool"

lemma free_ips_simps [simp]:
  "free_ips [] = {}" "free_ips (r # p) = (if pool_free r then insert (pl_ip r) (free_ips p) else free_ips p)"
  by (auto simp: free_ips_def)

lemma pool_ips_simps [simp]: "pool_ips [] = {}" "pool_ips (r # p) = insert (pl_ip r) (pool_ips p)"
  by (auto simp: pool_ips_def)

lemma claimIp_simps [simp]:
  "claimIp i k [] = []"
  "claimIp i k (r # p) =
    (if pl_ip r = i then r\<lparr>pl_peer_id := Some k, pl_released_at := None\<rparr> else r) # claimIp i k p"
  by (simp_all add: claimIp_def)

lemma releaseIp_simps [simp]:
  "releaseIp ts i [] = []"
  "releaseIp ts i (r # p) =
    (if pl_ip r = i then r\<lparr>pl_peer_id := None, pl_released_at := Some ts\<rparr> else r) # releaseIp ts i p"
  by (simp_all add: releaseIp_def)

lemma pool_free_rows [simp]:
  "\<not> pool_free (r\<lparr>pl_peer_id := Some k, pl_released_at := None\<rparr>)"
  "pool_free (r\<lparr>pl_peer_id := None, pl_released_at := Some ts\<rparr>)"
  by (simp_all add: pool_free_def)

lemma free_ips_claim: "free_ips (claimIp i k p) = free_ips p - {i}"
proof (induction p)
  case (Cons r p)
  then show ?case by (cases "pl_ip r = i") (simp_all add: insert_Diff_if)
qed simp

lemma free_ips_release: "free_ips (releaseIp ts i p) = free_ips p \<union> (pool_ips p \<inter> {i})"
proof (induction p)
  case (Cons r p)
  then show ?case by (cases "pl_ip r = i") (simp_all, blast)
qed simp

lemma pool_ips_same: "pool_ips (claimIp i k p) = pool_ips p" "pool_ips (releaseIp ts i p) = pool_ips p"
proof -
  show "pool_ips (claimIp i k p) = pool_ips p" by (induction p) simp_all
  show "pool_ips (releaseIp ts i p) = pool_ips p" by (induction p) simp_all
qed

lemma hd_sort_by_least:
  assumes "sort_by (\<lambda>a b. f a \<le> (f b :: nat)) xs = y # ys" and "z \<in> set xs"
  shows "y \<in> set xs" and "f y \<le> f z"
proof -
  have s: "set xs = set (y # ys)" by (metis assms(1) set_sort_by)
  then show "y \<in> set xs" by simp
  have "sorted_wrt (\<lambda>a b. f a \<le> f b) (sort_by (\<lambda>a b. f a \<le> f b) xs)"
    by (rule sorted_wrt_sort_by) auto
  with assms s show "f y \<le> f z" by auto
qed

interpretation pool: ip_pool pickFreeIp claimIp "releaseIp ts" free_ips pool_ips ip_suffix for ts
proof
  fix p i j k
  show "i \<in> free_ips p \<and> (\<forall>j\<in>free_ips p. ip_suffix i \<le> ip_suffix j)" if "pickFreeIp p = Some i"
  proof -
    from that obtain r rs where r: "sort_by (\<lambda>a b. ip_suffix (pl_ip a) \<le> ip_suffix (pl_ip b)) (filter pool_free p) = r # rs"
      "i = pl_ip r" by (auto simp: pickFreeIp_def split: list.splits)
    have "r \<in> set (filter pool_free p)" by (metis list.set_intros(1) r(1) set_sort_by)
    with r hd_sort_by_least [OF r(1)] show ?thesis by (auto simp: free_ips_def)
  qed
  show "pickFreeIp p = None \<longleftrightarrow> free_ips p = {}"
  proof -
    let ?s = "sort_by (\<lambda>a b. ip_suffix (pl_ip a) \<le> ip_suffix (pl_ip b)) (filter pool_free p)"
    have "pickFreeIp p = None \<longleftrightarrow> ?s = []" 
      unfolding pickFreeIp_def by (cases ?s) (simp_all del: sort_by_Nil_iff)
    also have "\<dots> \<longleftrightarrow> filter pool_free p = []" by (rule sort_by_Nil_iff)
    also have "\<dots> \<longleftrightarrow> free_ips p = {}" by (auto simp: free_ips_def filter_empty_conv)
    finally show ?thesis .
  qed
  show "free_ips (claimIp i k p) = free_ips p - {i}"
    by (rule free_ips_claim)
  show "free_ips (releaseIp ts i p) = insert i (free_ips p)" if "i \<in> pool_ips p"
    using that by (auto simp: free_ips_release)
  show "pool_ips (claimIp i k p) = pool_ips p" "pool_ips (releaseIp ts i p) = pool_ips p"
    by (rule pool_ips_same)+
  show "free_ips p \<subseteq> pool_ips p" by (auto simp: free_ips_def pool_ips_def)
qed

section \<open>The invariant\<close>

definition peers_ok :: "peer list \<Rightarrow> int \<Rightarrow> bool" where
  "peers_ok ps k \<longleftrightarrow> distinct (map pe_id ps) \<and> distinct (map pe_name ps) \<and> distinct (map pe_public_key ps) \<and>
     distinct (map pe_allowed_ip ps) \<and> list_all (\<lambda>p. pe_id p \<le> k \<and> pe_scope p \<in> set PEER_SCOPES) ps"

definition pool_ok :: "peer list \<Rightarrow> pool_row list \<Rightarrow> bool" where
  "pool_ok ps pool \<longleftrightarrow> (pool = [] \<and> ps = [] \<or> map pl_ip pool = POOL_IPS) \<and>
     pe_allowed_ip ` set ps \<subseteq> pool_ips pool \<and> free_ips pool = pool_ips pool - pe_allowed_ip ` set ps"

definition vpn_inv :: "world \<Rightarrow> bool" where
  "vpn_inv w \<longleftrightarrow> peers_ok (w_peers w) (w_peer_seq w) \<and> pool_ok (w_peers w) (w_pool w)"

lemma vpn_inv_upd [simp]:
  "vpn_inv (w\<lparr>w_cmds := x1\<rparr>) = vpn_inv w" "vpn_inv (w\<lparr>w_audit := x2\<rparr>) = vpn_inv w"
  "vpn_inv (w\<lparr>w_files := x3\<rparr>) = vpn_inv w" "vpn_inv (w\<lparr>w_fw := x4\<rparr>) = vpn_inv w"
  "vpn_inv (w\<lparr>w_fw_bak := x5\<rparr>) = vpn_inv w" "vpn_inv (w\<lparr>w_fw_reconciles := x6\<rparr>) = vpn_inv w"
  "vpn_inv (w\<lparr>w_vpn_config := x7\<rparr>) = vpn_inv w" "vpn_inv (w\<lparr>w_fw_rules := x8\<rparr>) = vpn_inv w"
  "vpn_inv (w\<lparr>w_routes := x9\<rparr>) = vpn_inv w" "vpn_inv (w\<lparr>w_ssh := x10\<rparr>) = vpn_inv w"
  by (simp_all add: vpn_inv_def)

definition seeded :: "pool_row list" where
  "seeded = map (\<lambda>ip. \<lparr>pl_ip = ip, pl_peer_id = None, pl_released_at = None\<rparr>) POOL_IPS"

lemma pool_ok_seeded: "pool_ok [] seeded"
  by (auto simp: pool_ok_def seeded_def free_ips_def pool_ips_def pool_free_def o_def image_iff)

text \<open>Claiming a free address for a new peer, and releasing the address of a removed one.\<close>

lemma pool_ok_claim:
  assumes "pool_ok ps pool" and "pickFreeIp pool = Some (pe_allowed_ip p)"
  shows "pool_ok (ps @ [p]) (claimIp (pe_allowed_ip p) k pool)"
proof -
  from pool.pick_lowest [OF assms(2)] have f: "pe_allowed_ip p \<in> free_ips pool" by blast
  then have "pool \<noteq> []" by (auto simp: free_ips_def)
  with assms(1) have "map pl_ip (claimIp (pe_allowed_ip p) k pool) = POOL_IPS"
    by (auto simp: pool_ok_def claimIp_def o_def if_distrib cong: if_cong)
  with assms(1) f pool.free_sub show ?thesis
    by (auto simp: pool_ok_def pool.every_claim pool.free_claim)
qed

lemma pool_ok_release:
  assumes "pool_ok ps pool" and "distinct (map pe_id ps)" and "distinct (map pe_allowed_ip ps)" and "p \<in> set ps"
  shows "pool_ok (filter (\<lambda>q. pe_id q \<noteq> pe_id p) ps) (releaseIp ts (pe_allowed_ip p) pool)"
proof -
  have used: "pe_allowed_ip ` set (filter (\<lambda>q. pe_id q \<noteq> pe_id p) ps) = pe_allowed_ip ` set ps - {pe_allowed_ip p}"
  proof -
    have "pe_id q = pe_id p \<longleftrightarrow> pe_allowed_ip q = pe_allowed_ip p" if "q \<in> set ps" for q
      using assms(2-4) that by (auto simp: distinct_map dest: inj_onD)
    then have "{q \<in> set ps. pe_id q \<noteq> pe_id p} = {q \<in> set ps. pe_allowed_ip q \<noteq> pe_allowed_ip p}" by blast
    then show ?thesis by (auto simp: filter_set [symmetric] simp del: filter_set)
  qed
  from assms(1,4) have "map pl_ip pool = POOL_IPS" by (auto simp: pool_ok_def)
  then have "map pl_ip (releaseIp ts (pe_allowed_ip p) pool) = POOL_IPS"
    by (simp add: releaseIp_def o_def if_distrib cong: if_cong)
  moreover have "pe_allowed_ip p \<in> pool_ips pool" using assms(1,4) by (auto simp: pool_ok_def)
  ultimately show ?thesis
    using assms(1) unfolding pool_ok_def used by (auto simp: pool.every_release pool.free_release)
qed

lemma map_if_same: "(\<And>q. g (f q) = g q) \<Longrightarrow> map g (map (\<lambda>q. if b q then f q else q) ps) = map g ps"
  by (induction ps) auto

lemma pool_ok_update:
  assumes "\<And>q. pe_allowed_ip (f q) = pe_allowed_ip q"
  shows "pool_ok (map (\<lambda>q. if pe_id q = i then f q else q) ps) pool = pool_ok ps pool"
proof -
  have "map pe_allowed_ip (map (\<lambda>q. if pe_id q = i then f q else q) ps) = map pe_allowed_ip ps"
    by (rule map_if_same, rule assms)
  then have "pe_allowed_ip ` set (map (\<lambda>q. if pe_id q = i then f q else q) ps) = pe_allowed_ip ` set ps"
    by (metis list.set_map)
  then show ?thesis by (simp add: pool_ok_def)
qed

lemma peers_ok_update:
  assumes "peers_ok ps k"
    and "\<And>q. pe_id (f q) = pe_id q" "\<And>q. pe_name (f q) = pe_name q"
      "\<And>q. pe_public_key (f q) = pe_public_key q" "\<And>q. pe_allowed_ip (f q) = pe_allowed_ip q"
    and "\<And>q. q \<in> set ps \<Longrightarrow> pe_scope (f q) \<in> set PEER_SCOPES"
  shows "peers_ok (map (\<lambda>q. if pe_id q = i then f q else q) ps) k"
proof -
  have m: "map pe_id (map (\<lambda>q. if pe_id q = i then f q else q) ps) = map pe_id ps"
    "map pe_name (map (\<lambda>q. if pe_id q = i then f q else q) ps) = map pe_name ps"
    "map pe_public_key (map (\<lambda>q. if pe_id q = i then f q else q) ps) = map pe_public_key ps"
    "map pe_allowed_ip (map (\<lambda>q. if pe_id q = i then f q else q) ps) = map pe_allowed_ip ps"
    by (rule map_if_same, rule assms)+
  show ?thesis
    using assms(1,6) assms(2) unfolding peers_ok_def m by (auto simp: list_all_iff)
qed

section \<open>Every operation keeps it\<close>

lemma vpn_inv_update:
  assumes "\<And>q. pe_id (f q) = pe_id q" "\<And>q. pe_name (f q) = pe_name q"
      "\<And>q. pe_public_key (f q) = pe_public_key q" "\<And>q. pe_allowed_ip (f q) = pe_allowed_ip q"
    and "\<And>q. pe_scope q \<in> set PEER_SCOPES \<Longrightarrow> pe_scope (f q) \<in> set PEER_SCOPES"
  shows "preserves vpn_inv (update_peer i f)"
proof (rule preservesI)
  fix w assume "vpn_inv w"
  then have "peers_ok (map (\<lambda>q. if pe_id q = i then f q else q) (w_peers w)) (w_peer_seq w)"
    by (intro peers_ok_update assms) (auto simp: vpn_inv_def peers_ok_def list_all_iff)
  with \<open>vpn_inv w\<close> show "vpn_inv (snd (update_peer i f w))"
    by (simp add: vpn_inv_def pool_ok_update assms(4))
qed

lemma vpn_inv_readState: "preserves vpn_inv (readState env)"
  by (intro preserves_intros) simp_all

lemma vpn_inv_after: "preserves vpn_inv (reconcileAfterPeerMutation env actor)"
  by (rule preserves_after_mutation [OF _ vpn_inv_readState]) (simp add: layer_frame_def)

lemma peers_ok_insert:
  assumes "peers_ok ps k" and "pe_id p = k + 1" and "pe_name p \<notin> pe_name ` set ps"
    and "pe_public_key p \<notin> pe_public_key ` set ps" and "pe_allowed_ip p \<notin> pe_allowed_ip ` set ps"
    and "pe_scope p \<in> set PEER_SCOPES"
  shows "peers_ok (ps @ [p]) (k + 1)"
proof -
  have "pe_id p \<notin> pe_id ` set ps" using assms(1,2) by (force simp: peers_ok_def list_all_iff)
  with assms show ?thesis by (auto simp: peers_ok_def list_all_iff)
qed

text \<open>Without free address the transaction throws; otherwise it inserts the peer and claims the address.\<close>

lemma seed_apply:
  "seedPoolIfEmpty w = (Inr (), if w_pool w = [] then w\<lparr>w_pool := seeded\<rparr> else w)"
  by (simp add: seedPoolIfEmpty_def seeded_def)

lemma vpn_inv_seed: "vpn_inv w \<Longrightarrow> vpn_inv (if w_pool w = [] then w\<lparr>w_pool := seeded\<rparr> else w)"
proof -
  have "POOL_IPS \<noteq> []" by (simp add: POOL_IPS_def upt_rec)
  then show "vpn_inv w \<Longrightarrow> vpn_inv (if w_pool w = [] then w\<lparr>w_pool := seeded\<rparr> else w)"
    using pool_ok_seeded by (auto simp: vpn_inv_def pool_ok_def)
qed

lemma allocate_peer_inv: "preserves vpn_inv (allocate_peer env name key scope services actor)"
proof (rule preservesI)
  fix w assume w: "vpn_inv w"
  let ?v = "if w_pool w = [] then w\<lparr>w_pool := seeded\<rparr> else w"
  have v: "vpn_inv ?v" using w by (rule vpn_inv_seed)
  show "vpn_inv (snd (allocate_peer env name key scope services actor w))"
  proof (cases "pickFreeIp (w_pool ?v)")
    case None
    then show ?thesis using w by (simp add: allocate_peer_def seed_apply)
  next
    case (Some ip)
    let ?ok = "name \<notin> pe_name ` set (w_peers w) \<and> key \<notin> pe_public_key ` set (w_peers w) \<and>
      ip \<notin> pe_allowed_ip ` set (w_peers w) \<and> scope \<in> set PEER_SCOPES"
    let ?p = "\<lparr>pe_id = w_peer_seq w + 1, pe_name = name, pe_public_key = key, pe_allowed_ip = ip, pe_scope = scope,
      pe_services = services, pe_status = ''enabled'', pe_created_at = env_now env, pe_created_by = actor,
      pe_rotated_at = None, pe_disabled_at = None\<rparr>"
    show ?thesis
    proof (cases ?ok)
      case False
      then have "insert_peer env name key ip scope services actor ?v = (Inl (Sys Sqlite_constraint), ?v)"
        by (auto simp: insert_peer_def bindE_def guardE_def)
      with Some w show ?thesis by (simp add: allocate_peer_def seed_apply)
    next
      case True
      then have "insert_peer env name key ip scope services actor ?v =
          (Inr (w_peer_seq w + 1), ?v\<lparr>w_peer_seq := w_peer_seq w + 1, w_peers := w_peers w @ [?p]\<rparr>)"
        by (simp add: insert_peer_def)
      with Some have "snd (allocate_peer env name key scope services actor w) =
          ?v\<lparr>w_peer_seq := w_peer_seq w + 1, w_peers := w_peers w @ [?p],
            w_pool := claimIp ip (w_peer_seq w + 1) (w_pool ?v)\<rparr>"
        by (simp add: allocate_peer_def seed_apply)
      moreover have "pool_ok (w_peers w @ [?p]) (claimIp ip (w_peer_seq w + 1) (w_pool ?v))"
        using v Some pool_ok_claim [of "w_peers w" "w_pool ?v" ?p] by (simp add: vpn_inv_def split: if_splits)
      moreover have "peers_ok (w_peers w @ [?p]) (w_peer_seq w + 1)"
        using w True by (intro peers_ok_insert) (simp_all add: vpn_inv_def)
      ultimately show ?thesis by (simp add: vpn_inv_def)
    qed
  qed
qed

lemma distinct_keys_rotate:
  assumes "distinct (map pe_id ps)" and "distinct (map pe_public_key ps)"
    and "key \<notin> pe_public_key ` {q \<in> set ps. pe_id q \<noteq> i}" and "\<And>q. pe_public_key (f q) = key"
  shows "distinct (map pe_public_key (map (\<lambda>q. if pe_id q = i then f q else q) ps))"
  using assms(1-3)
proof (induction ps)
  case (Cons p ps)
  show ?case
  proof (cases "pe_id p = i")
    case True
    with Cons.prems have "q \<in> set ps \<Longrightarrow> pe_id q \<noteq> i" for q by (metis distinct.simps(2) image_eqI list.simps(9) set_map)
    then have "map (\<lambda>q. if pe_id q = i then f q else q) ps = ps" by (intro map_idI) auto
    moreover have "key \<notin> pe_public_key ` set ps"
      using Cons.prems(3) \<open>\<And>q. q \<in> set ps \<Longrightarrow> pe_id q \<noteq> i\<close> by auto
    ultimately show ?thesis using Cons.prems(2) True by (simp add: assms(4) del: map_map)
  next
    case False
    with Cons.prems have k: "pe_public_key p \<noteq> key" by auto
    have "pe_public_key p \<notin> set (map pe_public_key (map (\<lambda>q. if pe_id q = i then f q else q) ps))"
      using Cons.prems k by (auto simp: assms(4) split: if_splits)
    moreover have "distinct (map pe_public_key (map (\<lambda>q. if pe_id q = i then f q else q) ps))"
      using Cons.prems by (intro Cons.IH) auto
    ultimately show ?thesis using False by (simp del: map_map)
  qed
qed simp

lemma rotate_key_inv: "preserves vpn_inv (rotate_key env p key)"
proof (rule preservesI)
  fix w assume w: "vpn_inv w"
  let ?f = "\<lambda>q. q\<lparr>pe_public_key := key, pe_rotated_at := Some (env_now env)\<rparr>"
  let ?ps = "map (\<lambda>q. if pe_id q = pe_id p then ?f q else q) (w_peers w)"
  show "vpn_inv (snd (rotate_key env p key w))"
  proof (cases "key \<notin> pe_public_key ` {q \<in> set (w_peers w). pe_id q \<noteq> pe_id p}")
    case False
    with w show ?thesis by (simp add: rotate_key_def)
  next
    case True
    have m: "map pe_id ?ps = map pe_id (w_peers w)" "map pe_name ?ps = map pe_name (w_peers w)"
      "map pe_allowed_ip ?ps = map pe_allowed_ip (w_peers w)"
      by (rule map_if_same, simp)+
    have "distinct (map pe_public_key ?ps)"
      using w True by (intro distinct_keys_rotate) (auto simp: vpn_inv_def peers_ok_def)
    with w have "peers_ok ?ps (w_peer_seq w)"
      unfolding vpn_inv_def peers_ok_def m by (auto simp: list_all_iff)
    moreover have "pool_ok ?ps (w_pool w)" using w by (subst pool_ok_update) (simp_all add: vpn_inv_def)
    ultimately show ?thesis using True by (simp add: rotate_key_def vpn_inv_def)
  qed
qed

lemma remove_rows_inv:
  assumes "vpn_inv w" and "p \<in> set (w_peers w)"
  shows "vpn_inv (w\<lparr>w_pool := releaseIp ts (pe_allowed_ip p) (w_pool w),
    w_peers := filter (\<lambda>q. pe_id q \<noteq> pe_id p) (w_peers w)\<rparr>)"
proof -
  from assms have "pool_ok (filter (\<lambda>q. pe_id q \<noteq> pe_id p) (w_peers w)) (releaseIp ts (pe_allowed_ip p) (w_pool w))"
    by (intro pool_ok_release) (auto simp: vpn_inv_def peers_ok_def)
  with assms(1) show ?thesis by (auto simp: vpn_inv_def peers_ok_def list_all_iff distinct_map_filter)
qed

lemma vpn_inv_helpers [preserves_intros]:
  "preserves vpn_inv (readState env)" "preserves vpn_inv (reconcileAfterPeerMutation env actor)"
  "preserves vpn_inv (allocate_peer env name key scope services actor)" "preserves vpn_inv (rotate_key env p key)"
  by (rule vpn_inv_readState vpn_inv_after allocate_peer_inv rotate_key_inv)+

lemma need_peer_Inr: "need_peer name w = (Inr p, w') \<Longrightarrow> w' = w \<and> p \<in> set (w_peers w) \<and> pe_name p = name"
  by (auto simp: need_peer_def readPeerByName_def find_Some_iff split: option.splits)

lemma validateScope_Inr: "validateScope scope services = Inr u \<Longrightarrow> scope \<in> set PEER_SCOPES"
  by (simp add: validateScope_def eff_inv)

lemma remove_gate_keeps: "remove_gate env p w = (x, w') \<Longrightarrow> vpn_inv w' = vpn_inv w \<and> w_peers w' = w_peers w"
  by (auto simp: remove_gate_def dumpPeers_def bindE_def guardE_def Let_def split: if_splits option.splits)

lemma removePeer_vpn_inv: "preserves vpn_inv (removePeer env name force actor)"
proof -
  have tail: "preserves vpn_inv (bindE (converge_wg0 env k) (\<lambda>_. bindE (fs_check x) (\<lambda>_. bindE (unlinkFile f) (\<lambda>_.
      bindE (audit env a b c d e g h) (\<lambda>_. reconcileAfterPeerMutation env actor)))))" for x k f a b c d e g h
    by (intro preserves_intros) simp_all
  show ?thesis unfolding removePeer_def
  proof (rule preserves_lift_then, rule preservesI)
    fix u w assume w: "vpn_inv w"
    let ?rows = "\<lambda>p. modE (\<lambda>w. w\<lparr>w_pool := releaseIp (env_now env) (pe_allowed_ip p) (w_pool w),
       w_peers := filter (\<lambda>q. pe_id q \<noteq> pe_id p) (w_peers w)\<rparr>)"
    let ?k = "\<lambda>p. bindE (if force then ret () else remove_gate env p) (\<lambda>_. bindE (?rows p) (\<lambda>_.
     bindE (converge_wg0 env (pe_public_key p)) (\<lambda>_.
     bindE (fs_check (env_unlink_error env (clientConfigPath name))) (\<lambda>_.
     bindE (unlinkFile (clientConfigPath name)) (\<lambda>_.
     bindE (audit env ''vpn'' ''peer.remove'' (Some name) actor
       (Some (JObj [(''name'', JStr name), (''ip'', JStr (pe_allowed_ip p)), (''scope'', JStr (pe_scope p)),
         (''status'', JStr (pe_status p)), (''public_key'', JStr (pe_public_key p))])) None None) (\<lambda>_.
     reconcileAfterPeerMutation env actor))))))"
    show "vpn_inv (snd (bindE (need_peer name) ?k w))"
    proof (cases rule: bindE_cases [of "need_peer name" w ?k])
      case (err e v)
      then have "v = w" by (auto simp: need_peer_def split: option.splits)
      with err w show ?thesis by simp
    next
      case (ok p v)
      from need_peer_Inr [OF ok(1)] have p: "v = w" "p \<in> set (w_peers w)" by auto
      obtain x v' where g: "(if force then ret () else remove_gate env p) w = (x, v')"
        by (cases "(if force then ret () else remove_gate env p) w")
      then have v': "vpn_inv v'" "w_peers v' = w_peers w"
        using w remove_gate_keeps [of env p w x v'] by (auto split: if_splits)
      show ?thesis
      proof (cases x)
        case (Inl e)
        with ok p g v' show ?thesis by simp
      next
        case (Inr _)
        have "vpn_inv (snd (?rows p v'))" using remove_rows_inv [OF v'(1)] p v'(2) by simp
        with ok p g Inr tail show ?thesis by (simp add: preserves_def)
      qed
    qed
  qed
qed

lemma peer_ops_vpn_inv:
  "preserves vpn_inv (addPeer env name scope services actor)"
  "preserves vpn_inv (rotatePeer env name actor)"
  "preserves vpn_inv (disablePeer env name force actor)"
  "preserves vpn_inv (enablePeer env name actor)"
  "preserves vpn_inv (removePeer env name force actor)"
  "preserves vpn_inv (setPeerScope env name scope services force actor)"
proof -
  show "preserves vpn_inv (addPeer env name scope services actor)"
    unfolding addPeer_def by (intro preserves_intros) simp_all
  show "preserves vpn_inv (rotatePeer env name actor)"
    unfolding rotatePeer_def by (intro preserves_intros) simp_all
  show "preserves vpn_inv (disablePeer env name force actor)"
    unfolding disablePeer_def by (intro preserves_bindE vpn_inv_update preserves_intros; simp)
  show "preserves vpn_inv (enablePeer env name actor)"
    unfolding enablePeer_def by (intro preserves_bindE vpn_inv_update preserves_intros; simp)
  show "preserves vpn_inv (removePeer env name force actor)" by (rule removePeer_vpn_inv)
  show "preserves vpn_inv (setPeerScope env name scope services force actor)"
    unfolding setPeerScope_def demote_gate_def
    by (rule preserves_bindE, rule preserves_liftE, rule preserves_lift_then,
        intro preserves_bindE vpn_inv_update preserves_intros; simp add: validateScope_Inr)
qed

end
