(* ===== verification/Ssh_Access.thy ===== *)
theory Ssh_Access
  imports Fw_Render
begin

text \<open>
  \<open>cli/src/core/ssh-access\<close>: the ledger of device keys (\<open>index.js\<close>), its JSON mirror (\<open>state.js\<close>) and
  the rewrite of each user's \<open>authorized_keys\<close> (\<open>reconcile.js\<close>).
\<close>

section \<open>Patterns\<close>

definition ID_RE :: "string \<Rightarrow> bool" where
  "ID_RE s \<longleftrightarrow> s \<noteq> [] \<and> length s \<le> 63 \<and> is_alnum (hd s) \<and> list_all is_tag s"

definition is_user_start :: "char \<Rightarrow> bool" where
  "is_user_start c \<longleftrightarrow> is_lower c \<or> c = CHR ''_''"

definition is_user_char :: "char \<Rightarrow> bool" where
  "is_user_char c \<longleftrightarrow> is_lower c \<or> is_digit c \<or> c = CHR ''_'' \<or> c = CHR ''-''"

definition USER_RE :: "string \<Rightarrow> bool" where
  "USER_RE s \<longleftrightarrow>
     (let t = (if s \<noteq> [] \<and> last s = CHR ''$'' then butlast s else s)
      in t \<noteq> [] \<and> length t \<le> 32 \<and> is_user_start (hd t) \<and> list_all is_user_char t)"

definition validateId :: "string \<Rightarrow> err + unit" where
  "validateId i = guardR (ID_RE i) (Ssh (Invalid_id i))"

definition validateUnixUser :: "string \<Rightarrow> err + unit" where
  "validateUnixUser u = guardR (USER_RE u) (Ssh (Invalid_unix_user u))"

text \<open>\<open>/-----BEGIN [A-Z ]+PRIVATE KEY-----/\<close>: the run of capitals and blanks ends at the dashes.\<close>

definition private_key_here :: "string \<Rightarrow> bool" where
  "private_key_here s \<longleftrightarrow>
     (let t = drop 11 s; p = (\<lambda>c. is_upper c \<or> c = CHR '' ''); r = takeWhile p t
      in prefix ''-----BEGIN '' s \<and> suffix ''PRIVATE KEY'' r \<and> length r > 11 \<and> prefix ''-----'' (dropWhile p t))"

fun has_private_key :: "string \<Rightarrow> bool" where
  "has_private_key [] = False"
| "has_private_key (c # s) = (private_key_here (c # s) \<or> has_private_key s)"

text \<open>\<open>/\b(SHA256:[A-Za-z0-9+/=]+)\b/\<close>: the longest run that ends on a word boundary.\<close>

definition is_wordc :: "char \<Rightarrow> bool" where
  "is_wordc c \<longleftrightarrow> is_alnum c \<or> c = CHR ''_''"

definition is_b64 :: "char \<Rightarrow> bool" where
  "is_b64 c \<longleftrightarrow> is_alnum c \<or> c = CHR ''+'' \<or> c = CHR ''/'' \<or> c = CHR ''=''"

primrec b64_run :: "nat \<Rightarrow> string \<Rightarrow> string option" where
  "b64_run 0 b = None"
| "b64_run (Suc n) b =
     (if Suc n \<le> length (takeWhile is_b64 b) \<and>
         is_wordc (b ! n) \<noteq> (Suc n < length b \<and> is_wordc (b ! Suc n))
      then Some (take (Suc n) b) else b64_run n b)"

fun match_fingerprint :: "bool \<Rightarrow> string \<Rightarrow> string option" where
  "match_fingerprint pw [] = None"
| "match_fingerprint pw (c # s) =
     (case (if \<not> pw \<and> prefix ''SHA256:'' (c # s) then b64_run (length s) (drop 7 (c # s)) else None) of
        Some d \<Rightarrow> Some (''SHA256:'' @ d)
      | None \<Rightarrow> match_fingerprint (is_wordc c) s)"

section \<open>The key ledger\<close>

definition strip_newlines :: "string \<Rightarrow> string" where
  "strip_newlines s = rev (dropWhile (\<lambda>c. c = newline) (rev s))"

definition normalize_key :: "string \<Rightarrow> string" where
  "normalize_key k = strip_newlines (remove_char (CHR 0x0D) k)"

definition str_or :: "string option \<Rightarrow> string option \<Rightarrow> string" where
  "str_or a b = (if truthy a then the a else if truthy b then the b else [])"

definition validatePubkey :: "env \<Rightarrow> string \<Rightarrow> (string \<times> string) io" where
  "validatePubkey env pubkey =
     bindE (guardE (pubkey \<noteq> []) (Ssh Empty_key)) (\<lambda>_.
     bindE (guardE (\<not> has_private_key pubkey) (Ssh Private_key_pasted)) (\<lambda>_.
     let normalized = normalize_key pubkey in
     bindE (guardE (newline \<notin> set normalized) (Ssh Multiline_key)) (\<lambda>_.
     bindE (spawn env ''ssh-keygen'' [''-l'', ''-f'', ''-''] (normalized @ nl)) (\<lambda>r.
     bindE (guardE (pr_status r = Some 0)
       (Ssh (Keygen_rejected (let t = trim (str_or (pr_stderr r) (pr_stdout r))
          in if t \<noteq> [] then t else ''ssh-keygen rejected the key'')))) (\<lambda>_.
     case match_fingerprint False (str_or (pr_stdout r) None) of
       None \<Rightarrow> throw (Ssh No_fingerprint)
     | Some fp \<Rightarrow> ret (normalized, fp))))))"

definition findById :: "string \<Rightarrow> world \<Rightarrow> ssh_row option" where
  "findById i w = find (\<lambda>r. sa_id r = i) (w_ssh w)"

definition findByFingerprint :: "string \<Rightarrow> world \<Rightarrow> ssh_row option" where
  "findByFingerprint fp w = find (\<lambda>r. sa_fingerprint r = fp) (w_ssh w)"

text \<open>\<open>ORDER BY unix_user, id\<close>\<close>

definition row_le :: "ssh_row \<Rightarrow> ssh_row \<Rightarrow> bool" where
  "row_le a b \<longleftrightarrow> sa_unix_user a < sa_unix_user b \<or> sa_unix_user a = sa_unix_user b \<and> sa_id a \<le> sa_id b"

definition all_rows :: "world \<Rightarrow> ssh_row list" where
  "all_rows w = sort_by row_le (w_ssh w)"

definition activeEntries :: "world \<Rightarrow> ssh_row list" where
  "activeEntries w = sort_by row_le (filter (\<lambda>r. sa_revoked_at r = None) (w_ssh w))"

section \<open>The JSON mirror\<close>

definition SSH_STATE_DIR :: string where "SSH_STATE_DIR = ''/var/lib/proxypilot''"

definition SSH_STATE_FILE :: string where "SSH_STATE_FILE = ''/var/lib/proxypilot/ssh-access.json''"

definition entry_json :: "ssh_row \<Rightarrow> jval" where
  "entry_json r = JObj
     [(''id'', JStr (sa_id r)), (''unix_user'', JStr (sa_unix_user r)), (''public_key'', JStr (sa_public_key r)),
      (''fingerprint'', JStr (sa_fingerprint r)), (''device_label'', jopt JStr (sa_device_label r)),
      (''added_at'', JStr (iso (sa_added_at r))), (''added_by'', jopt JStr (sa_added_by r)),
      (''revoked_at'', jopt (\<lambda>t. JStr (iso t)) (sa_revoked_at r)), (''revoked_by'', jopt JStr (sa_revoked_by r)),
      (''revoked_reason'', jopt JStr (sa_revoked_reason r)),
      (''last_seen_at'', jopt (\<lambda>t. JStr (iso t)) (sa_last_seen_at r))]"

definition rebuildStateFromDb :: "world \<Rightarrow> jval" where
  "rebuildStateFromDb w = JObj [(''version'', JNum 1), (''entries'', JArr (map entry_json (all_rows w)))]"

definition writeStateFromDb :: "env \<Rightarrow> unit io" where
  "writeStateFromDb env =
     bindE (mkdirs env SSH_STATE_DIR) (\<lambda>_.
     bindE (getsE rebuildStateFromDb) (\<lambda>s.
     atomicWrite env SSH_STATE_FILE (JSON_stringify s @ nl)))"

section \<open>authorized_keys\<close>

definition resolveUser :: "env \<Rightarrow> string \<Rightarrow> passwd io" where
  "resolveUser env u =
     bindE (guardE (USER_RE u) (Ssh (Invalid_unix_user u))) (\<lambda>_.
     case (case env_self env of Some (n, pw) \<Rightarrow> if n = u then Some pw else None | None \<Rightarrow> None) of
       Some pw \<Rightarrow> ret pw
     | None \<Rightarrow>
         bindE (spawn env ''getent'' [''passwd'', u] []) (\<lambda>r.
         bindE (guardE (pr_status r = Some 0 \<and> truthy (pr_stdout r)) (Ssh (User_not_found u))) (\<lambda>_.
         let parts = split_on (CHR '':'') (trim (the (pr_stdout r))) in
         bindE (guardE (length parts \<ge> 7) (Ssh (Malformed_passwd u))) (\<lambda>_.
         ret \<lparr>pw_uid = num_val (js_number (parts ! 2)), pw_gid = num_val (js_number (parts ! 3)), pw_home = parts ! 5\<rparr>))))"

text \<open>\<open>/\s#\s*proxypilot:[A-Za-z0-9][A-Za-z0-9._-]*\s*$/\<close>, read from the end of the line.\<close>

definition isProxypilotManagedLine :: "string \<Rightarrow> bool" where
  "isProxypilotManagedLine line \<longleftrightarrow>
     (let r = dropWhile is_ws (rev line); i = takeWhile is_tag r; t = dropWhile is_tag r;
          u = dropWhile is_ws (drop 11 t)
      in i \<noteq> [] \<and> is_alnum (last i) \<and> prefix (rev ''proxypilot:'') t \<and>
         (case u of a # b # _ \<Rightarrow> a = CHR ''#'' \<and> is_ws b | _ \<Rightarrow> False))"

definition text_lines :: "string \<Rightarrow> string list" where
  "text_lines t = (let ls = split_on newline t in if last ls = [] then butlast ls else ls)"

definition partitionExisting :: "string \<Rightarrow> string list" where
  "partitionExisting t = filter (\<lambda>l. \<not> isProxypilotManagedLine l) (text_lines t)"

definition MARKER_PREFIX :: string where "MARKER_PREFIX = ''# proxypilot:''"

definition renderManagedLine :: "ssh_row \<Rightarrow> string" where
  "renderManagedLine e = trim_end (sa_public_key e) @ '' '' @ MARKER_PREFIX @ sa_id e"

record plan =
  pn_body :: string
  pn_before :: nat
  pn_after :: nat
  pn_operator :: nat

definition plan_body :: "string list \<Rightarrow> string" where
  "plan_body ls = join nl ls @ (if ls \<noteq> [] then nl else [])"

definition managed_lines :: "ssh_row list \<Rightarrow> string list" where
  "managed_lines es = map renderManagedLine (sort_by (\<lambda>a b. sa_id a \<le> sa_id b) es)"

definition planUser :: "ssh_row list \<Rightarrow> string \<Rightarrow> plan" where
  "planUser es existing =
     (let operatorLines = partitionExisting existing; managed = managed_lines es
      in \<lparr>pn_body = plan_body (operatorLines @ managed),
          pn_before = length (filter isProxypilotManagedLine (split_on newline existing)),
          pn_after = length managed,
          pn_operator = length (filter (\<lambda>l. trim l \<noteq> [] \<and> \<not> starts_with (trim l) ''#'') operatorLines)\<rparr>)"

text \<open>A missing file is empty; any other error is thrown.\<close>

definition readExisting :: "env \<Rightarrow> string \<Rightarrow> string io" where
  "readExisting env path =
     bindE (fs_check (env_read_error env path)) (\<lambda>_.
     getsE (\<lambda>w. case w_files w path of None \<Rightarrow> [] | Some t \<Rightarrow> t))"

record user_result =
  ur_user :: string
  ur_before :: nat
  ur_after :: nat
  ur_changed :: bool

datatype ssh_warning = Resolve_failed string err | Chown_failed string string

definition ssh_dir :: "passwd \<Rightarrow> string" where
  "ssh_dir pw = path_join (pw_home pw) ''.ssh''"

definition ak_path :: "passwd \<Rightarrow> string" where
  "ak_path pw = path_join (ssh_dir pw) ''authorized_keys''"

definition result_of :: "string \<Rightarrow> plan \<Rightarrow> bool \<Rightarrow> user_result" where
  "result_of u p changed = \<lparr>ur_user = u, ur_before = pn_before p, ur_after = pn_after p, ur_changed = changed\<rparr>"

definition rewrite_user :: "env \<Rightarrow> bool \<Rightarrow> string option \<Rightarrow> string \<Rightarrow> ssh_row list \<Rightarrow> passwd \<Rightarrow> (user_result \<times> ssh_warning list) io" where
  "rewrite_user env dryRun actor u es pw =
     bindE (readExisting env (ak_path pw)) (\<lambda>existing.
     let p = planUser es existing in
     if existing = pn_body p then ret (result_of u p False, [])
     else if dryRun then ret (result_of u p True, [])
     else
       bindE (mkdirs env (ssh_dir pw)) (\<lambda>_.
       bindE (atomicWrite env (ak_path pw) (pn_body p)) (\<lambda>_.
       let ws = (case env_chown_error env (ak_path pw) of None \<Rightarrow> [] | Some m \<Rightarrow> [Chown_failed u m]) in
       bindE (audit env ''ssh-access'' ''ssh-access.reconcile'' (Some u) actor
         (Some (JObj [(''managed_count'', JNum (int (pn_before p)))]))
         (Some (JObj [(''managed_count'', JNum (int (pn_after p))), (''operator_lines'', JNum (int (pn_operator p)))])) None) (\<lambda>_.
       ret (result_of u p True, ws)))))"

fun reconcile_users :: "env \<Rightarrow> bool \<Rightarrow> string option \<Rightarrow> (string \<times> ssh_row list) list \<Rightarrow>
    (user_result list \<times> ssh_warning list) io" where
  "reconcile_users env dryRun actor [] = ret ([], [])"
| "reconcile_users env dryRun actor ((u, es) # rest) =
     bindE (catchE (bindE (resolveUser env u) (\<lambda>pw. ret (Inr pw))) (\<lambda>e. ret (Inl e))) (\<lambda>resolved.
     case resolved of
       Inl e \<Rightarrow>
         bindE (reconcile_users env dryRun actor rest) (\<lambda>(us, ws). ret (us, Resolve_failed u e # ws))
     | Inr pw \<Rightarrow>
         bindE (rewrite_user env dryRun actor u es pw) (\<lambda>(x, v).
         bindE (reconcile_users env dryRun actor rest) (\<lambda>(us, ws). ret (x # us, v @ ws))))"

text \<open>The users with active rows first, then those that only have revoked ones.\<close>

definition by_user :: "world \<Rightarrow> (string \<times> ssh_row list) list" where
  "by_user w =
     (let active = activeEntries w; us = dedup (map sa_unix_user active);
          others = filter (\<lambda>u. u \<notin> set us) (dedup (map sa_unix_user (all_rows w)))
      in map (\<lambda>u. (u, filter (\<lambda>r. sa_unix_user r = u) active)) us @ map (\<lambda>u. (u, [])) others)"

definition ssh_reconcile :: "env \<Rightarrow> bool \<Rightarrow> string option \<Rightarrow> (user_result list \<times> ssh_warning list) io" where
  "ssh_reconcile env dryRun actor =
     bindE (mkdirs env SSH_STATE_DIR) (\<lambda>_.
     bindE (getsE by_user) (\<lambda>groups.
     reconcile_users env dryRun actor groups))"

definition inspectFallbacks :: "env \<Rightarrow> string \<Rightarrow> string \<Rightarrow> (string list \<times> nat) io" where
  "inspectFallbacks env u idBeingRevoked =
     bindE (resolveUser env u) (\<lambda>pw.
     bindE (readExisting env (path_join (path_join (pw_home pw) ''.ssh'') ''authorized_keys'')) (\<lambda>t.
     bindE (getsE activeEntries) (\<lambda>active.
     ret (map (\<lambda>l. if length l > 80 then take 77 l @ ''...'' else l)
            (filter (\<lambda>l. trim l \<noteq> [] \<and> \<not> starts_with (trim l) ''#'' \<and> \<not> isProxypilotManagedLine l)
              (split_on newline t)),
          length (filter (\<lambda>e. sa_unix_user e = u \<and> sa_id e \<noteq> idBeingRevoked) active)))))"

section \<open>Operations\<close>

record ssh_result =
  sr_id :: string
  sr_unix_user :: string
  sr_fingerprint :: string
  sr_already :: bool
  sr_reconcile :: "(user_result list \<times> ssh_warning list) option"

definition insert_ssh :: "ssh_row \<Rightarrow> unit io" where
  "insert_ssh r =
     bindE (getsE w_ssh) (\<lambda>rows.
     bindE (guardE (sa_id r \<notin> sa_id ` set rows \<and> sa_fingerprint r \<notin> sa_fingerprint ` set rows) (Sys Sqlite_constraint)) (\<lambda>_.
     modE (\<lambda>w. w\<lparr>w_ssh := w_ssh w @ [r]\<rparr>)))"

definition addEntry :: "env \<Rightarrow> string \<Rightarrow> string \<Rightarrow> string \<Rightarrow> string option \<Rightarrow> string option \<Rightarrow> ssh_result io" where
  "addEntry env i unixUser pubkey label actor =
     bindE (liftE (validateId i)) (\<lambda>_.
     bindE (liftE (validateUnixUser unixUser)) (\<lambda>_.
     bindE (validatePubkey env pubkey) (\<lambda>(publicKey, fingerprint).
     bindE (getsE (findById i)) (\<lambda>old.
     bindE (guardE (old = None) (Ssh (Id_exists i))) (\<lambda>_.
     bindE (getsE (findByFingerprint fingerprint)) (\<lambda>dup.
     bindE (case dup of None \<Rightarrow> ret ()
            | Some d \<Rightarrow> throw (Ssh (Fingerprint_exists fingerprint (sa_id d) (sa_revoked_at d \<noteq> None)))) (\<lambda>_.
     bindE (insert_ssh \<lparr>sa_id = i, sa_unix_user = unixUser, sa_public_key = publicKey, sa_fingerprint = fingerprint,
       sa_device_label = label, sa_added_at = env_now env, sa_added_by = actor, sa_revoked_at = None,
       sa_revoked_by = None, sa_revoked_reason = None, sa_last_seen_at = None\<rparr>) (\<lambda>_.
     bindE (writeStateFromDb env) (\<lambda>_.
     bindE (audit env ''ssh-access'' ''ssh-access.add'' (Some i) actor None
       (Some (JObj [(''id'', JStr i), (''unix_user'', JStr unixUser), (''fingerprint'', JStr fingerprint),
         (''device_label'', jopt JStr label), (''added_at'', JStr (iso (env_now env)))])) None) (\<lambda>_.
     bindE (ssh_reconcile env False actor) (\<lambda>r.
     ret \<lparr>sr_id = i, sr_unix_user = unixUser, sr_fingerprint = fingerprint, sr_already = False,
       sr_reconcile = Some r\<rparr>)))))))))))"

definition need_row :: "string \<Rightarrow> ssh_row io" where
  "need_row i =
     bindE (getsE (findById i)) (\<lambda>r. case r of None \<Rightarrow> throw (Ssh (Id_not_found i)) | Some x \<Rightarrow> ret x)"

definition revokeEntry :: "env \<Rightarrow> string \<Rightarrow> string option \<Rightarrow> string option \<Rightarrow> ssh_result io" where
  "revokeEntry env i reason actor =
     bindE (liftE (validateId i)) (\<lambda>_.
     bindE (need_row i) (\<lambda>row.
     if sa_revoked_at row \<noteq> None then
       ret \<lparr>sr_id = i, sr_unix_user = sa_unix_user row, sr_fingerprint = sa_fingerprint row, sr_already = True,
         sr_reconcile = None\<rparr>
     else
       bindE (modE (\<lambda>w. w\<lparr>w_ssh := map (\<lambda>r. if sa_id r = i then r\<lparr>sa_revoked_at := Some (env_now env),
         sa_revoked_by := actor, sa_revoked_reason := reason\<rparr> else r) (w_ssh w)\<rparr>)) (\<lambda>_.
       bindE (writeStateFromDb env) (\<lambda>_.
       bindE (audit env ''ssh-access'' ''ssh-access.revoke'' (Some i) actor
         (Some (JObj [(''id'', JStr i), (''unix_user'', JStr (sa_unix_user row)), (''fingerprint'', JStr (sa_fingerprint row))]))
         (Some (JObj [(''revoked_at'', JStr (iso (env_now env))), (''revoked_reason'', jopt JStr reason)])) None) (\<lambda>_.
       bindE (ssh_reconcile env False actor) (\<lambda>r.
       ret \<lparr>sr_id = i, sr_unix_user = sa_unix_user row, sr_fingerprint = sa_fingerprint row, sr_already = False,
         sr_reconcile = Some r\<rparr>))))))"

definition removeEntry :: "env \<Rightarrow> string \<Rightarrow> string option \<Rightarrow> ssh_result io" where
  "removeEntry env i actor =
     bindE (liftE (validateId i)) (\<lambda>_.
     bindE (need_row i) (\<lambda>row.
     bindE (modE (\<lambda>w. w\<lparr>w_ssh := filter (\<lambda>r. sa_id r \<noteq> i) (w_ssh w)\<rparr>)) (\<lambda>_.
     bindE (writeStateFromDb env) (\<lambda>_.
     bindE (audit env ''ssh-access'' ''ssh-access.remove'' (Some i) actor
       (Some (JObj [(''id'', JStr i), (''unix_user'', JStr (sa_unix_user row)), (''fingerprint'', JStr (sa_fingerprint row)),
         (''device_label'', jopt JStr (sa_device_label row)), (''added_at'', JStr (iso (sa_added_at row))),
         (''revoked_at'', jopt (\<lambda>t. JStr (iso t)) (sa_revoked_at row)),
         (''revoked_reason'', jopt JStr (sa_revoked_reason row))])) None None) (\<lambda>_.
     bindE (ssh_reconcile env False actor) (\<lambda>r.
     ret \<lparr>sr_id = i, sr_unix_user = sa_unix_user row, sr_fingerprint = sa_fingerprint row, sr_already = False,
       sr_reconcile = Some r\<rparr>))))))"

definition listEntries :: "string \<Rightarrow> ssh_row list io" where
  "listEntries filt =
     (if filt = ''all'' then getsE all_rows
      else if filt = ''active'' then getsE activeEntries
      else if filt = ''revoked'' then getsE (\<lambda>w. sort_by row_le (filter (\<lambda>r. sa_revoked_at r \<noteq> None) (w_ssh w)))
      else if filt \<in> set OBJECT_PROTOTYPE_KEYS then throw (Sys Sqlite_syntax)
      else throw (Ssh (Invalid_filter filt)))"

definition showEntry :: "string \<Rightarrow> ssh_row io" where
  "showEntry i = bindE (liftE (validateId i)) (\<lambda>_. need_row i)"

end
