(* ===== verification/PP_Lines.thy ===== *)
theory PP_Lines
  imports PP_Strings
begin

text \<open>
  Laws of line-oriented text shared by the components that edit configuration files: the lines of
  a concatenation, the characters of a line, and texts without carriage returns.
\<close>

lemma split_by_sep: "p c \<Longrightarrow> split_by p (s @ c # t) = split_by p s @ split_by p t"
  by (induction s) (auto split: list.split)

lemma split_on_sep: "split_on c (s @ c # t) = split_on c s @ split_on c t"
  by (simp add: split_on_def split_by_sep)

lemma split_on_snoc: "split_on c (s @ [c]) = split_on c s @ [[]]"
  using split_on_sep [of c s "[]"] by (simp add: split_on_def)

lemma split_on_simps [simp]: "split_on c [] = [[]]" "split_on c (c # t) = [] # split_on c t"
  by (simp_all add: split_on_def)

lemma set_split_by: "l \<in> set (split_by p t) \<Longrightarrow> set l \<subseteq> set t"
  by (induction t arbitrary: l) (fastforce split: if_splits list.splits)+

lemma set_split_on: "l \<in> set (split_on c t) \<Longrightarrow> set l \<subseteq> set t"
  by (simp add: split_on_def set_split_by)

lemma strip_cr_id: "CHR 0x0D \<notin> set s \<Longrightarrow> strip_cr s = s"
  by (auto simp: strip_cr_def dest: last_in_set)

lemma split_lines_no_cr:
  assumes "CHR 0x0D \<notin> set t"
  shows "split_lines t = split_on newline t"
proof -
  have "CHR 0x0D \<notin> set l" if "l \<in> set (split_on newline t)" for l
    using that assms set_split_on by fastforce
  then have "map strip_cr (butlast (split_on newline t)) = butlast (split_on newline t)"
    by (intro map_idI strip_cr_id) (auto dest: in_set_butlastD)
  then show ?thesis by (simp add: split_lines_def Let_def)
qed

end
