(* ===== verification/PP_Example.thy ===== *)
theory PP_Example
  imports PP_Host
begin

text \<open>
  A concrete host for the witnesses: a fresh installation with an empty database, on which every
  external program succeeds and prints nothing, and variations on it.
\<close>

definition proc_ok :: "string \<Rightarrow> proc" where
  "proc_ok out = \<lparr>pr_status = Some 0, pr_stdout = Some out, pr_stderr = Some [], pr_error = None\<rparr>"

definition proc_failed :: "string \<Rightarrow> proc" where
  "proc_failed e = \<lparr>pr_status = Some 1, pr_stdout = Some [], pr_stderr = Some e, pr_error = None\<rparr>"

definition env0 :: env where
  "env0 = \<lparr>env_now = 1767225600000, env_spawn = (\<lambda>_ _. proc_ok []), env_sha256 = (\<lambda>s. ''sha''),
     env_locale_le = (\<lambda>a b. a \<le> b), env_write_error = (\<lambda>_. None), env_chown_error = (\<lambda>_. None),
     env_read_error = (\<lambda>_. None), env_unlink_error = (\<lambda>_. None),
     env_SUDO_USER = None, env_USER = Some ''root'', env_username = ''root'',
     env_self = Some (''root'', \<lparr>pw_uid = 0, pw_gid = 0, pw_home = ''/root''\<rparr>), env_tz_offset = (\<lambda>_. 0),
     env_VPN_MTU = None, env_SSHD_CONFIG = None, env_SSHD_BACKUP_DIR = None, env_has_run = True,
     env_tmpdir = ''/tmp'', env_pid = 1, env_instances = None, env_incus_get = (\<lambda>_. None),
     env_caddy_config = None\<rparr>"

definition world0 :: world where
  "world0 = \<lparr>w_fw = None, w_fw_bak = None, w_fw_rules = [], w_fw_reconciles = [], w_audit = [],
     w_vpn_config = None, w_peers = [], w_peer_seq = 0, w_pool = [], w_ssh = [], w_routes = [],
     w_files = Map.empty, w_cmds = []\<rparr>"

text \<open>The answer depends on the program only.\<close>

definition with_answers :: "(string \<Rightarrow> proc) \<Rightarrow> env" where
  "with_answers f = env0\<lparr>env_spawn := (\<lambda>_ c. f (cmd_prog c))\<rparr>"

lemma proc_sel [simp]:
  "pr_status (proc_ok s) = Some 0" "pr_stdout (proc_ok s) = Some s" "pr_stderr (proc_ok s) = Some []"
  "pr_status (proc_failed s) = Some 1" "pr_stdout (proc_failed s) = Some []" "pr_stderr (proc_failed s) = Some s"
  by (simp_all add: proc_ok_def proc_failed_def)

lemma world0_sel [simp]:
  "w_fw world0 = None" "w_fw_bak world0 = None" "w_fw_rules world0 = []" "w_fw_reconciles world0 = []"
  "w_audit world0 = []" "w_vpn_config world0 = None" "w_peers world0 = []" "w_peer_seq world0 = 0"
  "w_pool world0 = []" "w_ssh world0 = []" "w_routes world0 = []" "w_files world0 = Map.empty" "w_cmds world0 = []"
  by (simp_all add: world0_def)

lemma env0_sel [simp]:
  "env_now env0 = 1767225600000" "env_spawn env0 cs c = proc_ok []" "env_write_error env0 = (\<lambda>_. None)"
  "env_chown_error env0 = (\<lambda>_. None)" "env_read_error env0 = (\<lambda>_. None)" "env_unlink_error env0 = (\<lambda>_. None)" "env_SSHD_CONFIG env0 = None" "env_SSHD_BACKUP_DIR env0 = None"
  "env_VPN_MTU env0 = None" "env_locale_le env0 = (\<lambda>a b. a \<le> b)" "env_tz_offset env0 = (\<lambda>_. 0)"
  by (simp_all add: env0_def)

lemma with_answers_sel [simp]:
  "env_spawn (with_answers f) cs c = f (cmd_prog c)" "env_now (with_answers f) = 1767225600000"
  "env_write_error (with_answers f) = (\<lambda>_. None)" "env_SSHD_CONFIG (with_answers f) = None"
  "env_SSHD_BACKUP_DIR (with_answers f) = None"
  by (simp_all add: with_answers_def)

end
