(* ===== verification/Ssh_Password.thy ===== *)
theory Ssh_Password
  imports Ssh_Access PP_Lines PP_Example
begin

text \<open>
  \<open>cli/src/core/ssh-access/password-auth.js\<close>: reading and editing the \<open>PasswordAuthentication\<close>
  directive of \<open>sshd_config\<close>, and the guarded toggle with its test, backup, swap, reload and rollback.
\<close>

section \<open>Reading the configuration\<close>

text \<open>\<open>line.replace(/#.*$/, '')\<close>: a dot does not match a carriage return.\<close>

fun strip_comment :: "string \<Rightarrow> string" where
  "strip_comment [] = []"
| "strip_comment (c # s) = (if c = CHR ''#'' \<and> CHR 0x0D \<notin> set s then [] else c # strip_comment s)"

datatype pa_kind = Pa_blank | Pa_match | Pa_auth string | Pa_other

definition KW_AUTH :: string where "KW_AUTH = ''passwordauthentication''"

definition pa_line :: "string \<Rightarrow> pa_kind" where
  "pa_line l =
     (let s = trim (strip_comment l); low = to_lower s; rest = drop (length KW_AUTH) s
      in if s = [] then Pa_blank
         else if prefix ''match'' low \<and> (length s = 5 \<or> \<not> is_wordc (s ! 5)) then Pa_match
         else if prefix KW_AUTH low \<and> takeWhile is_ws rest \<noteq> [] \<and> dropWhile is_ws rest \<noteq> []
         then Pa_auth (to_lower (takeWhile (\<lambda>c. \<not> is_ws c) (dropWhile is_ws rest)))
         else Pa_other)"

record pa_state =
  pa_value :: string
  pa_line_no :: int
  pa_raw :: "string option"
  pa_match_overrides :: "(int \<times> string) list"

fun pa_scan :: "int \<Rightarrow> bool \<Rightarrow> string list \<Rightarrow> pa_state \<Rightarrow> pa_state" where
  "pa_scan i inMatch [] st = st"
| "pa_scan i inMatch (l # ls) st =
     (case pa_line l of
        Pa_match \<Rightarrow> pa_scan (i + 1) True ls st
      | Pa_auth v \<Rightarrow>
          pa_scan (i + 1) inMatch ls
            (if inMatch then st\<lparr>pa_match_overrides := pa_match_overrides st @ [(i + 1, v)]\<rparr>
             else if v = ''yes'' \<or> v = ''no'' then st\<lparr>pa_value := v, pa_line_no := i + 1, pa_raw := Some l\<rparr>
             else st)
      | _ \<Rightarrow> pa_scan (i + 1) inMatch ls st)"

definition pa_initial :: pa_state where
  "pa_initial = \<lparr>pa_value = ''default'', pa_line_no = -1, pa_raw = None, pa_match_overrides = []\<rparr>"

definition parsePasswordAuthState :: "string \<Rightarrow> pa_state" where
  "parsePasswordAuthState t = pa_scan 0 False (split_lines t) pa_initial"

section \<open>Editing\<close>

definition MANAGED_COMMENT :: string where "MANAGED_COMMENT = ''# Managed by ProxyPilot ssh password-auth.''"

definition directive :: "string \<Rightarrow> string" where
  "directive target = ''PasswordAuthentication '' @ target"

definition applyPasswordAuthEdit :: "string \<Rightarrow> string \<Rightarrow> err + string" where
  "applyPasswordAuthEdit t target =
     (if target \<noteq> ''yes'' \<and> target \<noteq> ''no'' then Inl (Ssh (Bad_target target))
      else
        let st = parsePasswordAuthState t
        in if pa_line_no st > 0
           then Inr (join nl ((split_lines t)[nat (pa_line_no st - 1) := directive target]))
           else Inr (t @ (if t \<noteq> [] \<and> last t = newline then [] else nl) @ nl @
             MANAGED_COMMENT @ nl @ directive target @ nl))"

section \<open>The toggle\<close>

definition SSHD_CONFIG_PATH :: "env \<Rightarrow> string" where
  "SSHD_CONFIG_PATH env = (if truthy (env_SSHD_CONFIG env) then the (env_SSHD_CONFIG env) else ''/etc/ssh/sshd_config'')"

definition SSHD_BACKUP_DIR :: "env \<Rightarrow> string" where
  "SSHD_BACKUP_DIR env =
     (if truthy (env_SSHD_BACKUP_DIR env) then the (env_SSHD_BACKUP_DIR env) else ''/var/lib/proxypilot'')"

definition SSHD_BACKUP_PATH :: "env \<Rightarrow> string" where
  "SSHD_BACKUP_PATH env = path_join (SSHD_BACKUP_DIR env) ''sshd_config.bak''"

definition sshdTest :: "env \<Rightarrow> string \<Rightarrow> string \<Rightarrow> bool io" where
  "sshdTest env path body =
     bindE (spawn env ''sshd'' [''-t'', ''-f'', path] body) (\<lambda>r. ret (pr_status r = Some 0))"

text \<open>The method that worked, or the error text.\<close>

definition reloadSshd :: "env \<Rightarrow> (string + string) io" where
  "reloadSshd env =
     bindE (spawn env ''systemctl'' [''reload'', ''ssh''] []) (\<lambda>sys.
     if pr_status sys = Some 0 then ret (Inr ''systemctl reload ssh'')
     else
       bindE (spawn env ''systemctl'' [''reload'', ''sshd''] []) (\<lambda>sys2.
       if pr_status sys2 = Some 0 then ret (Inr ''systemctl reload sshd'')
       else
         bindE (spawn env ''pgrep'' [''-x'', ''sshd''] []) (\<lambda>pidR.
         let failed = Inl (trim (if truthy (pr_stderr sys) then the (pr_stderr sys)
               else if truthy (pr_stderr sys2) then the (pr_stderr sys2)
               else if truthy (pr_stderr pidR) then the (pr_stderr pidR) else ''no working reload method''));
             pids = filter (\<lambda>p. p \<noteq> []) (split_by is_ws (str_or (pr_stdout pidR) None))
         in if pr_status pidR = Some 0 \<and> pids \<noteq> [] then
              bindE (spawn env ''kill'' [''-HUP'', hd pids] []) (\<lambda>k.
              ret (if pr_status k = Some 0 then Inr (''kill -HUP '' @ hd pids) else failed))
            else ret failed)))"

record auth_status =
  as_config_exists :: bool
  as_state :: pa_state
  as_effective_default :: string
  as_active_keys_total :: nat
  as_active_keys_per_user :: "(string \<times> nat) list"

definition effective :: "pa_state \<Rightarrow> string" where
  "effective st = (if pa_value st = ''default'' then ''yes'' else pa_value st)"

definition per_user :: "ssh_row list \<Rightarrow> (string \<times> nat) list" where
  "per_user rows = map (\<lambda>u. (u, length (filter (\<lambda>r. sa_unix_user r = u) rows))) (dedup (map sa_unix_user rows))"

definition passwordAuthStatus :: "env \<Rightarrow> auth_status io" where
  "passwordAuthStatus env =
     bindE (getsE (\<lambda>w. w_files w (SSHD_CONFIG_PATH env))) (\<lambda>t.
     bindE (listEntries ''active'') (\<lambda>active.
     let st = parsePasswordAuthState (case t of None \<Rightarrow> [] | Some x \<Rightarrow> x) in
     ret \<lparr>as_config_exists = (t \<noteq> None), as_state = st, as_effective_default = effective st,
       as_active_keys_total = length active, as_active_keys_per_user = per_user active\<rparr>))"

definition set_file :: "string \<Rightarrow> string option \<Rightarrow> unit io" where
  "set_file path body = modE (\<lambda>w. w\<lparr>w_files := (w_files w)(path := body)\<rparr>)"

definition copyFile :: "env \<Rightarrow> string \<Rightarrow> string \<Rightarrow> unit io" where
  "copyFile env from dest =
     bindE (getsE (\<lambda>w. w_files w from)) (\<lambda>c.
     case c of None \<Rightarrow> throw (Sys (Fs_error from)) | Some body \<Rightarrow> atomicWrite env dest body)"

text \<open>Test the candidate, back up, swap, reload; roll back when the reload fails.\<close>

definition install_config :: "env \<Rightarrow> string \<Rightarrow> string io" where
  "install_config env new =
     (let cfg = SSHD_CONFIG_PATH env; tmp = cfg @ ''.proxypilot.tmp''; bak = SSHD_BACKUP_PATH env
      in bindE (atomicWrite env tmp new) (\<lambda>_.
         bindE (sshdTest env tmp new) (\<lambda>ok.
         if \<not> ok then bindE (unlinkFile tmp) (\<lambda>_. throw (Ssh Sshd_test_rejected))
         else
           bindE (mkdirs env (SSHD_BACKUP_DIR env)) (\<lambda>_.
           bindE (copyFile env cfg bak) (\<lambda>_.
           bindE (set_file tmp None) (\<lambda>_.
           bindE (set_file cfg (Some new)) (\<lambda>_.
           bindE (reloadSshd env) (\<lambda>r.
           case r of
             Inl m \<Rightarrow> bindE (copyFile env bak cfg) (\<lambda>_. throw (Ssh Reload_failed))
           | Inr how \<Rightarrow> ret how))))))))"

definition setPasswordAuth :: "env \<Rightarrow> bool \<Rightarrow> bool \<Rightarrow> string option \<Rightarrow> (bool \<times> pa_state \<times> pa_state) io" where
  "setPasswordAuth env enabled force actor =
     (let target = (if enabled then ''yes'' else ''no''); cfg = SSHD_CONFIG_PATH env
      in bindE (getsE (\<lambda>w. w_files w cfg)) (\<lambda>c.
         case c of
           None \<Rightarrow> throw (Ssh Sshd_config_missing)
         | Some old \<Rightarrow>
             let st = parsePasswordAuthState old in
             bindE (getsE activeEntries) (\<lambda>active.
             bindE (guardE (enabled \<or> force \<or> active \<noteq> []) (Ssh No_active_keys)) (\<lambda>_.
             if effective st = target then
               bindE (audit env ''ssh-access'' ''ssh-access.password-auth.noop'' (Some cfg) actor
                 (Some (JObj [(''password_auth'', JStr (pa_value st))]))
                 (Some (JObj [(''password_auth'', JStr target), (''no_change'', JBool True)])) None) (\<lambda>_.
               ret (True, st, st\<lparr>pa_value := target\<rparr>))
             else
               bindE (liftE (applyPasswordAuthEdit old target)) (\<lambda>new.
               bindE (install_config env new) (\<lambda>how.
               let after = parsePasswordAuthState new in
               bindE (audit env ''ssh-access'' ''ssh-access.password-auth.set'' (Some cfg) actor
                 (Some (JObj [(''password_auth'', JStr (pa_value st)), (''line_no'', JNum (pa_line_no st))]))
                 (Some (JObj [(''password_auth'', JStr (pa_value after)), (''line_no'', JNum (pa_line_no after)),
                   (''forced'', JBool force), (''reload_method'', JStr how), (''backup_path'', JStr (SSHD_BACKUP_PATH env))]))
                 None) (\<lambda>_.
               ret (False, st, after))))))))"

section \<open>What the scan finds\<close>

lemma pa_line_directive: "target \<in> {''yes'', ''no''} \<Longrightarrow> pa_line (directive target) = Pa_auth target"
  by (elim insertE emptyE; hypsubst; code_simp)

text \<open>
  A scan either finds no unconditional setting, and keeps the value it started with, or the line
  it reports lies inside the text; replacing that line replaces the value.
\<close>

lemma pa_scan_uniform:
  "(\<forall>st. pa_value (pa_scan i m ls st) = pa_value st \<and> pa_line_no (pa_scan i m ls st) = pa_line_no st) \<or>
   (\<exists>v n. i < n \<and> n \<le> i + int (length ls) \<and>
     (\<forall>st. pa_value (pa_scan i m ls st) = v \<and> pa_line_no (pa_scan i m ls st) = n))"
proof (induction ls arbitrary: i m)
  case (Cons l ls)
  let ?m = "if pa_line l = Pa_match then True else m"
  consider (keep) "\<forall>st. pa_value (pa_scan (i + 1) ?m ls st) = pa_value st \<and> pa_line_no (pa_scan (i + 1) ?m ls st) = pa_line_no st"
    | (hit) v n where "i + 1 < n" "n \<le> i + 1 + int (length ls)"
        "\<And>st. pa_value (pa_scan (i + 1) ?m ls st) = v \<and> pa_line_no (pa_scan (i + 1) ?m ls st) = n"
    using Cons.IH [of "i + 1" ?m] by blast
  then show ?case
  proof cases
    case keep
    show ?thesis
    proof (cases "\<exists>v. pa_line l = Pa_auth v \<and> \<not> m \<and> (v = ''yes'' \<or> v = ''no'')")
      case True
      then obtain v where v: "pa_line l = Pa_auth v" "\<not> m" "v = ''yes'' \<or> v = ''no''" by blast
      with keep have "\<forall>st. pa_value (pa_scan i m (l # ls) st) = v \<and> pa_line_no (pa_scan i m (l # ls) st) = i + 1"
        by auto
      then show ?thesis by (intro disjI2 exI [of _ v] exI [of _ "i + 1"]) simp
    next
      case False
      with keep show ?thesis by (intro disjI1) (auto split: pa_kind.splits)
    qed
  next
    case hit
    then have "\<forall>st. pa_value (pa_scan i m (l # ls) st) = v \<and> pa_line_no (pa_scan i m (l # ls) st) = n"
      by (auto split: pa_kind.splits if_splits)
    with hit(1,2) show ?thesis by (intro disjI2 exI [of _ v] exI [of _ n]) simp
  qed
qed simp

lemma pa_scan_replace:
  assumes "pa_line_no (pa_scan i m ls st) = k + 1" and "i \<le> k" and "pa_line_no st \<le> i"
    and "pa_line L = Pa_auth v" and "v = ''yes'' \<or> v = ''no''"
  shows "pa_value (pa_scan i m (ls[nat (k - i) := L]) st') = v \<and>
    pa_line_no (pa_scan i m (ls[nat (k - i) := L]) st') = k + 1"
  using assms(1-3)
proof (induction ls arbitrary: i m st st')
  case (Cons l ls)
  let ?m = "if pa_line l = Pa_match then True else m"
  show ?case
  proof (cases "k = i")
    case True
    obtain st1 where st1: "pa_scan i m (l # ls) st = pa_scan (i + 1) ?m ls st1" "pa_line_no st1 \<le> i + 1"
      using Cons.prems(3) by (cases "pa_line l") auto
    have no: "\<not> (\<exists>w n. i + 1 < n \<and> (\<forall>st. pa_value (pa_scan (i + 1) ?m ls st) = w \<and> pa_line_no (pa_scan (i + 1) ?m ls st) = n))"
    proof (rule notI, elim exE conjE)
      fix w n assume "i + 1 < n"
        and "\<forall>st. pa_value (pa_scan (i + 1) ?m ls st) = w \<and> pa_line_no (pa_scan (i + 1) ?m ls st) = n"
      then have "i + 1 < pa_line_no (pa_scan (i + 1) ?m ls st1)" by simp
      with Cons.prems(1) st1(1) True show False by simp
    qed
    then have keep: "\<forall>st. pa_value (pa_scan (i + 1) ?m ls st) = pa_value st \<and> pa_line_no (pa_scan (i + 1) ?m ls st) = pa_line_no st"
      using pa_scan_uniform [of "i + 1" ?m ls] by blast
    with Cons.prems True have "\<not> m" "pa_line l \<noteq> Pa_match" by (auto split: pa_kind.splits if_splits)
    with keep True assms(4,5) show ?thesis by auto
  next
    case False
    with Cons.prems(2) have k: "i + 1 \<le> k" by simp
    then have n: "nat (k - i) = Suc (nat (k - (i + 1)))" by simp
    obtain st1 where st1: "pa_scan i m (l # ls) st = pa_scan (i + 1) ?m ls st1" "pa_line_no st1 \<le> i + 1"
      using Cons.prems(3) by (cases "pa_line l") auto
    obtain st2 where st2: "pa_scan i m (l # ls[nat (k - (i + 1)) := L]) st' = pa_scan (i + 1) ?m (ls[nat (k - (i + 1)) := L]) st2"
      by (cases "pa_line l") auto
    have "pa_line_no (pa_scan (i + 1) ?m ls st1) = k + 1" using Cons.prems(1) st1(1) by simp
    from Cons.IH [OF this k st1(2)] show ?thesis by (simp only: n list_update_code(3) list_update.simps nat.case st2)
  qed
qed simp

lemma pa_scan_in_match: "pa_value (pa_scan i True ls st) = pa_value st \<and> pa_line_no (pa_scan i True ls st) = pa_line_no st"
  by (induction ls arbitrary: i st) (auto split: pa_kind.split)

section \<open>The edit is read back\<close>

lemma pa_scan_append:
  "pa_scan i m (xs @ ys) st =
     pa_scan (i + int (length xs)) (m \<or> (\<exists>l\<in>set xs. pa_line l = Pa_match)) ys (pa_scan i m xs st)"
  by (induction xs arbitrary: i m st) (auto split: pa_kind.splits simp: algebra_simps)

definition has_match :: "string \<Rightarrow> bool" where
  "has_match t \<longleftrightarrow> (\<exists>l\<in>set (split_lines t). pa_line l = Pa_match)"

definition appended :: "string \<Rightarrow> string list" where
  "appended target = [[], MANAGED_COMMENT, directive target, []]"

lemma appended_scan:
  assumes "target \<in> {''yes'', ''no''}"
  shows "pa_value (pa_scan i m (appended target) st) = (if m then pa_value st else target)"
proof -
  have "pa_line [] = Pa_blank" "pa_line MANAGED_COMMENT = Pa_blank" by code_simp+
  with assms show ?thesis by (auto simp: appended_def pa_line_directive)
qed

lemma directive_chars:
  assumes "target \<in> {''yes'', ''no''}" shows "newline \<notin> set (directive target)" "CHR 0x0D \<notin> set (directive target)"
  using assms by (auto simp: directive_def newline_def)

lemma managed_comment_chars: "newline \<notin> set MANAGED_COMMENT" "CHR 0x0D \<notin> set MANAGED_COMMENT"
  by (simp_all add: MANAGED_COMMENT_def newline_def)

text \<open>What the appended text reads as, line by line.\<close>

lemma split_on_appended:
  assumes "target \<in> {''yes'', ''no''}"
  shows "split_on newline (t @ (if t \<noteq> [] \<and> last t = newline then [] else nl) @ nl @
      MANAGED_COMMENT @ nl @ directive target @ nl) =
    (if t \<noteq> [] \<and> last t = newline then butlast (split_on newline t) else split_on newline t) @ appended target"
proof -
  have tail: "split_on newline (MANAGED_COMMENT @ nl @ directive target @ nl) = [MANAGED_COMMENT, directive target, []]"
  proof -
    have "newline \<notin> set x" if "x \<in> set [MANAGED_COMMENT, directive target, []]" for x
      using that directive_chars(1) [OF assms] managed_comment_chars(1) by auto
    from split_on_join [of "[MANAGED_COMMENT, directive target, []]", OF _ this] show ?thesis by (simp add: nl_def [folded newline_def])
  qed
  show ?thesis
  proof (cases "t \<noteq> [] \<and> last t = newline")
    case True
    then obtain u where u: "t = u @ [newline]" by (metis append_butlast_last_id)
    show ?thesis using True tail
      by (simp add: u split_on_snoc split_on_sep nl_def [folded newline_def] appended_def)
  next
    case False
    then show ?thesis using tail
      by (auto simp: split_on_sep nl_def [folded newline_def] appended_def)
  qed
qed

lemma edit_total: "target \<in> {''yes'', ''no''} \<Longrightarrow> \<exists>t'. applyPasswordAuthEdit t target = Inr t'"
  by (cases "pa_line_no (parsePasswordAuthState t) > 0") (auto simp: applyPasswordAuthEdit_def Let_def)

lemma set_edit:
  assumes "applyPasswordAuthEdit t target = Inr t'" and "CHR 0x0D \<notin> set t" and "target \<in> {''yes'', ''no''}"
  shows "CHR 0x0D \<notin> set t'"
proof (cases "pa_line_no (parsePasswordAuthState t) > 0")
  case True
  with assms have t': "t' = join nl ((split_on newline t)[nat (pa_line_no (parsePasswordAuthState t) - 1) := directive target])"
    by (auto simp: applyPasswordAuthEdit_def Let_def split_lines_no_cr)
  have "CHR 0x0D \<notin> set l"
    if "l \<in> set ((split_on newline t)[nat (pa_line_no (parsePasswordAuthState t) - 1) := directive target])" for l
  proof -
    have "l = directive target \<or> l \<in> set (split_on newline t)" using that set_update_subset_insert by fastforce
    then show ?thesis using directive_chars(2) [OF assms(3)] assms(2) set_split_on by fastforce
  qed
  then show ?thesis unfolding t' using set_join_sub [of nl] by (fastforce simp: nl_def)
next
  case False
  with assms directive_chars(2) [OF assms(3)] managed_comment_chars(2) show ?thesis
    by (auto simp: applyPasswordAuthEdit_def Let_def nl_def split: if_splits)
qed

lemma edit_replaces:
  assumes "applyPasswordAuthEdit t target = Inr t'" and "CHR 0x0D \<notin> set t" and "target \<in> {''yes'', ''no''}"
    and "pa_line_no (parsePasswordAuthState t) > 0"
  shows "pa_value (parsePasswordAuthState t') = target \<and>
    pa_line_no (parsePasswordAuthState t') = pa_line_no (parsePasswordAuthState t)"
proof -
  let ?n = "pa_line_no (parsePasswordAuthState t)" and ?ls = "split_on newline t"
  from assms have t': "t' = join nl (?ls[nat (?n - 1) := directive target])"
    by (auto simp: applyPasswordAuthEdit_def Let_def split_lines_no_cr)
  have "newline \<notin> set l" if "l \<in> set (?ls[nat (?n - 1) := directive target])" for l
  proof -
    have "l = directive target \<or> l \<in> set ?ls" using that set_update_subset_insert by fastforce
    then show ?thesis using directive_chars(1) [OF assms(3)] split_on_parts by blast
  qed
  then have ls': "split_lines t' = ?ls[nat (?n - 1) := directive target]"
    unfolding split_lines_no_cr [OF set_edit [OF assms(1-3)]] unfolding t' nl_def [folded newline_def]
    by (intro split_on_join) (simp_all add: list_update_nonempty)
  have "pa_line_no (pa_scan 0 False ?ls pa_initial) = (?n - 1) + 1" and "pa_line_no pa_initial \<le> 0"
    by (simp_all add: parsePasswordAuthState_def split_lines_no_cr assms(2) pa_initial_def)
  from pa_scan_replace [OF this(1) _ this(2) pa_line_directive [OF assms(3)], of pa_initial] assms(3,4)
  show ?thesis unfolding parsePasswordAuthState_def [of t'] ls' by simp
qed

lemma edit_appends:
  assumes "applyPasswordAuthEdit t target = Inr t'" and "CHR 0x0D \<notin> set t" and "target \<in> {''yes'', ''no''}"
    and "\<not> pa_line_no (parsePasswordAuthState t) > 0"
  shows "pa_value (parsePasswordAuthState t') = (if has_match t then ''default'' else target)"
proof -
  define ls where "ls = (if t \<noteq> [] \<and> last t = newline then butlast (split_on newline t) else split_on newline t)"
  have sp: "split_on newline t = ls @ (if t \<noteq> [] \<and> last t = newline then [[]] else [])"
  proof (cases "t \<noteq> [] \<and> last t = newline")
    case True
    then obtain u where "t = u @ [newline]" by (metis append_butlast_last_id)
    then show ?thesis by (simp add: ls_def split_on_snoc)
  qed (auto simp: ls_def)
  have blank: "pa_line [] = Pa_blank" by code_simp
  from assms have "split_on newline t' = ls @ appended target"
    unfolding ls_def split_on_appended [OF assms(3), of t, symmetric] by (auto simp: applyPasswordAuthEdit_def Let_def)
  then have "split_lines t' = ls @ appended target" using split_lines_no_cr [OF set_edit [OF assms(1-3)]] by simp
  moreover have "has_match t \<longleftrightarrow> (\<exists>l\<in>set ls. pa_line l = Pa_match)"
    by (auto simp: has_match_def split_lines_no_cr assms(2) sp blank)
  moreover have "parsePasswordAuthState t = pa_scan 0 False ls pa_initial"
    by (simp add: parsePasswordAuthState_def split_lines_no_cr assms(2) sp pa_scan_append blank)
  moreover have "pa_value (pa_scan 0 False ls pa_initial) = ''default''" if "\<not> pa_line_no (pa_scan 0 False ls pa_initial) > 0"
    using pa_scan_uniform [of 0 False ls] that by (auto simp: pa_initial_def)
  ultimately show ?thesis using assms(4)
    by (simp add: parsePasswordAuthState_def pa_scan_append appended_scan [OF assms(3)])
qed

section \<open>The toggle keeps a working configuration\<close>

text \<open>The three ways an installation ends.\<close>

lemma install_config_cases:
  assumes "SSHD_BACKUP_PATH env \<noteq> SSHD_CONFIG_PATH env"
    and "SSHD_BACKUP_PATH env \<noteq> SSHD_CONFIG_PATH env @ ''.proxypilot.tmp''"
    and "env_write_error env (SSHD_CONFIG_PATH env) = None"
    and "w_files w (SSHD_CONFIG_PATH env) = Some old"
    and "install_config env new w = (r, w')"
  shows "(case r of Inl _ \<Rightarrow> w_files w' (SSHD_CONFIG_PATH env) = Some old
     | Inr _ \<Rightarrow> w_files w' (SSHD_CONFIG_PATH env) = Some new \<and> w_files w' (SSHD_BACKUP_PATH env) = Some old \<and>
         pr_status (env_spawn env (w_cmds w)
           (Cmd ''sshd'' [''-t'', ''-f'', SSHD_CONFIG_PATH env @ ''.proxypilot.tmp''] new)) = Some 0)"
proof -
  have "\<forall>v. \<exists>x cs. reloadSshd env v = (Inr x, v\<lparr>w_cmds := cs\<rparr>)"
    by (auto simp: reloadSshd_def Let_def)
  then obtain rx cs where rl: "\<And>v. reloadSshd env v = (Inr (rx v), v\<lparr>w_cmds := cs v\<rparr>)"
    by metis
  have ne: "SSHD_CONFIG_PATH env \<noteq> SSHD_CONFIG_PATH env @ ''.proxypilot.tmp''" by simp
  show ?thesis
    using assms ne [symmetric]
    by (auto simp: install_config_def Let_def bindE_def sshdTest_def mkdirs_def copyFile_def set_file_def rl
        atomicWrite_def split: option.splits if_splits sum.splits)
qed

section \<open>Properties\<close>

text \<open>
  C21: \<open>applyPasswordAuthEdit\<close> always produces a text for the targets yes and no, and reading that
  text back gives the target, whether the directive was replaced or appended. The only exception is
  a configuration without an unconditional directive but with a Match block: the directive
  is then appended inside the block and the unconditional value stays the default.
\<close>

theorem password_edit_read_back:
  assumes "CHR 0x0D \<notin> set t" and "target \<in> {''yes'', ''no''}"
  shows "\<exists>t'. applyPasswordAuthEdit t target = Inr t' \<and>
    pa_value (parsePasswordAuthState t') =
      (if pa_line_no (parsePasswordAuthState t) > 0 \<or> \<not> has_match t then target else ''default'')"
proof -
  obtain t' where t': "applyPasswordAuthEdit t target = Inr t'"
    using edit_total [OF assms(2)] by blast
  with edit_replaces [OF t' assms] edit_appends [OF t' assms] show ?thesis
    by (cases "pa_line_no (parsePasswordAuthState t) > 0") auto
qed

theorem password_edit_read_back_witness:
  "\<exists>t'. applyPasswordAuthEdit (''Match User bob'' @ nl @ ''  X11Forwarding no'') ''no'' = Inr t' \<and>
    pa_value (parsePasswordAuthState t') = ''default''"
proof -
  have c: "CHR 0x0D \<notin> set (''Match User bob'' @ nl @ ''  X11Forwarding no'')" by code_simp
  have m: "pa_line_no (parsePasswordAuthState (''Match User bob'' @ nl @ ''  X11Forwarding no'')) = -1"
    "has_match (''Match User bob'' @ nl @ ''  X11Forwarding no'')" by code_simp+
  from password_edit_read_back [OF c, of "''no''"] show ?thesis by (simp only: m) simp
qed

text \<open>
  Without \<open>--force\<close>, password authentication is never turned off while no active key is
  recorded: the call fails with NO_ACTIVE_KEYS and changes nothing at all.
\<close>

theorem password_lockout_guard:
  assumes "w_files w (SSHD_CONFIG_PATH env) = Some old" and "\<forall>r\<in>set (w_ssh w). sa_revoked_at r \<noteq> None"
  shows "setPasswordAuth env False False actor w = (Inl (Ssh No_active_keys), w)"
proof -
  have "activeEntries w = []" using assms(2) by (simp add: activeEntries_def filter_empty_conv)
  with assms(1) show ?thesis by (simp add: setPasswordAuth_def Let_def)
qed

theorem password_lockout_guard_witness:
  "setPasswordAuth env0 False False None (world0\<lparr>w_files := [''/etc/ssh/sshd_config'' \<mapsto> ''Port 22'']\<rparr>) =
     (Inl (Ssh No_active_keys), world0\<lparr>w_files := [''/etc/ssh/sshd_config'' \<mapsto> ''Port 22'']\<rparr>)"
  by (rule password_lockout_guard [where old = "''Port 22''"]) (simp_all add: SSHD_CONFIG_PATH_def truthy_def)

text \<open>
  C9: toggling password authentication leaves \<open>sshd_config\<close> either as it was or, when the call
  succeeds, holding an edited text that \<open>sshd -t\<close> accepted, with the previous text in the backup file.
  In particular a rejected candidate or a failed reload leaves the old configuration in place.
\<close>

theorem password_toggle_atomic:
  assumes "SSHD_BACKUP_PATH env \<noteq> SSHD_CONFIG_PATH env"
    and "SSHD_BACKUP_PATH env \<noteq> SSHD_CONFIG_PATH env @ ''.proxypilot.tmp''"
    and "env_write_error env (SSHD_CONFIG_PATH env) = None"
    and "w_files w (SSHD_CONFIG_PATH env) = Some old"
    and "setPasswordAuth env enabled force actor w = (r, w')"
  shows "case r of
      Inl _ \<Rightarrow> w_files w' (SSHD_CONFIG_PATH env) = Some old
    | Inr (unchanged, _, after) \<Rightarrow>
        if unchanged then w_files w' = w_files w
        else \<exists>new. applyPasswordAuthEdit old (if enabled then ''yes'' else ''no'') = Inr new \<and>
          after = parsePasswordAuthState new \<and>
          w_files w' (SSHD_CONFIG_PATH env) = Some new \<and> w_files w' (SSHD_BACKUP_PATH env) = Some old \<and>
          pr_status (env_spawn env (w_cmds w)
            (Cmd ''sshd'' [''-t'', ''-f'', SSHD_CONFIG_PATH env @ ''.proxypilot.tmp''] new)) = Some 0"
proof -
  obtain new where new: "applyPasswordAuthEdit old (if enabled then ''yes'' else ''no'') = Inr new"
    using edit_total [of "if enabled then ''yes'' else ''no''" old] by (cases enabled) auto
  obtain q v where iv: "install_config env new w = (q, v)" by fastforce
  note c = install_config_cases [OF assms(1-4) iv]
  show ?thesis using assms(4,5) new iv c
    by (cases q) (auto simp: setPasswordAuth_def Let_def guardE_def bindE_def split: if_splits)
qed

theorem password_toggle_atomic_witness:
  "let w = world0\<lparr>w_files := [''/etc/ssh/sshd_config'' \<mapsto> ''PasswordAuthentication yes'']\<rparr>;
       (r, w') = setPasswordAuth env0 False True None w
   in \<exists>new. w_files w' ''/etc/ssh/sshd_config'' = Some new \<and>
        w_files w' ''/var/lib/proxypilot/sshd_config.bak'' = Some ''PasswordAuthentication yes''"
proof -
  let ?w = "world0\<lparr>w_files := [''/etc/ssh/sshd_config'' \<mapsto> ''PasswordAuthentication yes'']\<rparr>"
  obtain r w' where run: "setPasswordAuth env0 False True None ?w = (r, w')" by fastforce
  have p: "SSHD_CONFIG_PATH env0 = ''/etc/ssh/sshd_config''"
    "SSHD_BACKUP_PATH env0 = ''/var/lib/proxypilot/sshd_config.bak''" by code_simp+
  have "case setPasswordAuth env0 False True None ?w of (r, _) \<Rightarrow>
    (case r of Inr (False, _) \<Rightarrow> True | _ \<Rightarrow> False)" by code_simp
  then obtain b a where r: "r = Inr (False, b, a)"
    unfolding run by (auto split: sum.splits bool.splits prod.splits)
  show ?thesis
    using password_toggle_atomic [of env0 ?w "''PasswordAuthentication yes''" False True None r w'] run
    unfolding r p by auto
qed

end
