(* ===== verification/Ssh_Ledger.thy ===== *)
theory Ssh_Ledger
  imports Ssh_Access PP_Lines PP_Example
begin

text \<open>
  What the key ledger guarantees: the lines it writes are the lines it later recognises, rewriting
  \<open>authorized_keys\<close> is idempotent and keeps the operator's own lines, ids and fingerprints stay
  unique, and after a reconcile each user's file holds exactly the active keys of the ledger.
\<close>

section \<open>Managed lines\<close>

definition row_ok :: "ssh_row \<Rightarrow> bool" where
  "row_ok r \<longleftrightarrow> ID_RE (sa_id r) \<and> newline \<notin> set (sa_public_key r)"

lemma id_tags: "ID_RE i \<Longrightarrow> c \<in> set i \<Longrightarrow> is_tag c"
  by (auto simp: ID_RE_def list_all_iff)

lemma managed_line_recognised:
  assumes "ID_RE (sa_id e)"
  shows "isProxypilotManagedLine (renderManagedLine e)"
proof -
  let ?i = "sa_id e" and ?k = "rev (trim_end (sa_public_key e))"
  have i: "?i \<noteq> []" "is_alnum (hd ?i)" using assms by (auto simp: ID_RE_def)
  have tag: "\<And>c. c \<in> set (rev ?i) \<Longrightarrow> is_tag c" using assms id_tags by auto
  have r: "rev (renderManagedLine e) = rev ?i @ rev ''# proxypilot:'' @ '' '' @ ?k"
    by (simp add: renderManagedLine_def MARKER_PREFIX_def)
  have "\<not> is_ws (hd (rev ?i @ x))" for x using i(1) tag is_tag_not_ws by (cases "rev ?i") auto
  then have d: "dropWhile is_ws (rev (renderManagedLine e)) = rev ?i @ rev ''# proxypilot:'' @ '' '' @ ?k"
    unfolding r using i(1) by (metis Nil_is_append_conv dropWhile_eq_self_iff)
  have nt: "\<not> is_tag (CHR '':'')" by code_simp
  then have t: "takeWhile is_tag (rev ?i @ rev ''# proxypilot:'' @ '' '' @ ?k) = rev ?i"
    "dropWhile is_tag (rev ?i @ rev ''# proxypilot:'' @ '' '' @ ?k) = rev ''# proxypilot:'' @ '' '' @ ?k"
    using tag by (simp_all add: takeWhile_append dropWhile_append)
  have "is_ws (CHR '' '')" "\<not> is_ws (CHR ''#'')" by code_simp+
  then show ?thesis using i unfolding isProxypilotManagedLine_def Let_def d t
    by (simp add: last_rev)
qed

lemma managed_line_no_newline: "row_ok e \<Longrightarrow> newline \<notin> set (renderManagedLine e)"
  using set_trim_end newline_not_tag id_tags [of "sa_id e" newline]
  by (fastforce simp: renderManagedLine_def MARKER_PREFIX_def row_ok_def newline_def)

lemma text_lines_plan_body:
  assumes "\<And>l. l \<in> set ls \<Longrightarrow> newline \<notin> set l"
  shows "text_lines (plan_body ls) = ls"
proof (cases "ls = []")
  case False
  have "split_on newline (join nl ls @ nl) = ls @ [[]]"
    using split_on_join [of ls newline] assms False split_on_snoc
    by (simp add: nl_def [folded newline_def])
  then show ?thesis using False by (simp add: text_lines_def plan_body_def)
qed (simp add: text_lines_def plan_body_def)

lemma set_managed_lines: "set (managed_lines es) = renderManagedLine ` set es"
  by (simp add: managed_lines_def)

lemma partition_no_newline: "l \<in> set (partitionExisting t) \<Longrightarrow> newline \<notin> set l"
  by (auto simp: partitionExisting_def text_lines_def Let_def split_on_parts split: if_splits dest!: in_set_butlastD)

text \<open>A rewritten file splits back into the operator's lines and the ledger's.\<close>

lemma lines_of_plan:
  assumes "\<forall>e\<in>set es. row_ok e"
  shows "text_lines (pn_body (planUser es t)) = partitionExisting t @ managed_lines es"
  using assms partition_no_newline managed_line_no_newline
  by (auto simp: planUser_def Let_def set_managed_lines intro!: text_lines_plan_body)

lemma partition_of_plan:
  assumes "\<forall>e\<in>set es. row_ok e"
  shows "partitionExisting (pn_body (planUser es t)) = partitionExisting t"
    and "filter isProxypilotManagedLine (text_lines (pn_body (planUser es t))) = managed_lines es"
proof -
  have m: "\<forall>l\<in>set (managed_lines es). isProxypilotManagedLine l"
    using assms by (auto simp: set_managed_lines row_ok_def intro: managed_line_recognised)
  have p: "\<forall>l\<in>set (partitionExisting t). \<not> isProxypilotManagedLine l"
    by (simp add: partitionExisting_def)
  show "partitionExisting (pn_body (planUser es t)) = partitionExisting t"
    using m p by (simp add: partitionExisting_def [of "pn_body _"] lines_of_plan [OF assms] filter_id_conv filter_empty_conv)
  show "filter isProxypilotManagedLine (text_lines (pn_body (planUser es t))) = managed_lines es"
    using m p by (simp add: lines_of_plan [OF assms] filter_id_conv filter_empty_conv)
qed

section \<open>The ledger invariant\<close>

definition ledger_ok :: "ssh_row list \<Rightarrow> bool" where
  "ledger_ok rows \<longleftrightarrow> (\<forall>r\<in>set rows. row_ok r) \<and> distinct (map sa_id rows) \<and> distinct (map sa_fingerprint rows)"

definition ssh_inv :: "world \<Rightarrow> bool" where
  "ssh_inv w \<longleftrightarrow> ledger_ok (w_ssh w)"

lemma preserves_rows_reconcile_users:
  "preserves (\<lambda>w. Q (w_ssh w)) (reconcile_users env dry actor gs)"
proof (induction env dry actor gs rule: reconcile_users.induct)
  case (2 env dry actor u es rest)
  have "preserves (\<lambda>w. Q (w_ssh w)) (resolveUser env u)"
    unfolding resolveUser_def Let_def by (intro preserves_intros; simp)+
  moreover have "preserves (\<lambda>w. Q (w_ssh w)) (rewrite_user env dry actor u es pw)" for pw
    unfolding rewrite_user_def Let_def readExisting_def by (intro preserves_intros; simp)+
  ultimately show ?case using 2
    by (auto intro!: preserves_intros split: sum.split)
qed (simp add: preserves_def)

lemma preserves_rows_ssh_reconcile: "preserves (\<lambda>w. Q (w_ssh w)) (ssh_reconcile env dry actor)"
  unfolding ssh_reconcile_def by (intro preserves_intros preserves_rows_reconcile_users)

lemma preserves_rows_write: "preserves (\<lambda>w. Q (w_ssh w)) (writeStateFromDb env)"
  unfolding writeStateFromDb_def by (intro preserves_intros; simp)+

lemmas preserves_rows = preserves_rows_ssh_reconcile [where Q = ledger_ok] preserves_rows_write [where Q = ledger_ok]

lemma validatePubkey_no_newline: "validatePubkey env k w = (Inr (pk, fp), w') \<Longrightarrow> newline \<notin> set pk"
  unfolding validatePubkey_def Let_def by (auto simp: eff_inv split: option.splits)

lemma ledger_ok_revoke:
  "ledger_ok rows \<Longrightarrow> ledger_ok (map (\<lambda>r. if sa_id r = i
     then r\<lparr>sa_revoked_at := a, sa_revoked_by := b, sa_revoked_reason := c\<rparr> else r) rows)"
proof -
  let ?f = "\<lambda>r. if sa_id r = i then r\<lparr>sa_revoked_at := a, sa_revoked_by := b, sa_revoked_reason := c\<rparr> else r"
  have "sa_id (?f r) = sa_id r" "sa_fingerprint (?f r) = sa_fingerprint r" "row_ok (?f r) = row_ok r" for r
    by (simp_all add: row_ok_def)
  then show "ledger_ok rows \<Longrightarrow> ledger_ok (map ?f rows)" by (auto simp: ledger_ok_def comp_def row_ok_def)
qed

lemma ledger_ok_remove: "ledger_ok rows \<Longrightarrow> ledger_ok (filter P rows)"
  by (simp add: ledger_ok_def distinct_map_filter)

lemma ledger_ok_insert:
  "ledger_ok rows \<Longrightarrow> row_ok r \<Longrightarrow> sa_id r \<notin> sa_id ` set rows \<Longrightarrow>
    sa_fingerprint r \<notin> sa_fingerprint ` set rows \<Longrightarrow> ledger_ok (rows @ [r])"
  by (auto simp: ledger_ok_def)

lemma preserves_insert_ssh: "row_ok r \<Longrightarrow> preserves ssh_inv (insert_ssh r)"
  by (auto simp: preserves_def insert_ssh_def bindE_def guardE_def ssh_inv_def intro: ledger_ok_insert)

lemma preserves_validatePubkey: "preserves ssh_inv (validatePubkey env k)"
  unfolding validatePubkey_def Let_def by (intro preserves_intros; simp add: ssh_inv_def)+

section \<open>One reconcile brings every file in line with the ledger\<close>

definition file_text :: "world \<Rightarrow> string \<Rightarrow> string" where
  "file_text w p = (case w_files w p of None \<Rightarrow> [] | Some t \<Rightarrow> t)"

definition user_db :: "env \<Rightarrow> string \<Rightarrow> passwd option" where
  "user_db env u = (case fst (resolveUser env u world0) of Inl _ \<Rightarrow> None | Inr pw \<Rightarrow> Some pw)"

text \<open>The passwd database answers the same whatever ran before.\<close>

definition getent_stable :: "env \<Rightarrow> bool" where
  "getent_stable env \<longleftrightarrow> (\<forall>cs u. env_spawn env cs (Cmd ''getent'' [''passwd'', u] []) =
     env_spawn env [] (Cmd ''getent'' [''passwd'', u] []))"

lemma resolveUser_stable:
  assumes "getent_stable env"
  shows "\<exists>cs. resolveUser env u w = (fst (resolveUser env u world0), w\<lparr>w_cmds := cs\<rparr>)"
proof -
  have g: "env_spawn env (w_cmds w) (Cmd ''getent'' [''passwd'', u] []) = env_spawn env [] (Cmd ''getent'' [''passwd'', u] [])"
    using assms by (simp add: getent_stable_def)
  have same: "\<exists>cs. w = w\<lparr>w_cmds := cs\<rparr>"
    by (rule exI [of _ "w_cmds w"]) simp
  consider (bad) "\<not> USER_RE u" | (self) pw where "USER_RE u" "env_self env = Some (u, pw)"
    | (db) "USER_RE u" "\<forall>pw. env_self env \<noteq> Some (u, pw)" by blast
  then show ?thesis
  proof cases
    case db
    then have "(case env_self env of Some (n, pw) \<Rightarrow> if n = u then Some pw else None | None \<Rightarrow> None) = None"
      by (auto split: option.split)
    with db show ?thesis by (simp add: resolveUser_def g Let_def guardE_def bindE_def) blast
  qed (simp_all add: resolveUser_def same)
qed

lemma rewrite_user_file:
  assumes "rewrite_user env False actor u es pw w = (Inr x, w')"
  shows "file_text w' (ak_path pw) = pn_body (planUser es (file_text w (ak_path pw)))"
    and "q \<noteq> ak_path pw \<Longrightarrow> w_files w' q = w_files w q"
  using assms unfolding rewrite_user_def readExisting_def Let_def file_text_def mkdirs_def
  by (auto simp: eff_inv split: if_splits option.splits)

definition paths_of :: "env \<Rightarrow> (string \<times> ssh_row list) list \<Rightarrow> string list" where
  "paths_of env gs = map ak_path (concat (map (\<lambda>(u, _). case user_db env u of None \<Rightarrow> [] | Some pw \<Rightarrow> [pw]) gs))"

lemma paths_of_simps [simp]:
  "paths_of env [] = []"
  "paths_of env ((u, es) # gs) = (case user_db env u of None \<Rightarrow> [] | Some pw \<Rightarrow> [ak_path pw]) @ paths_of env gs"
  by (auto simp: paths_of_def split: option.split)

lemma paths_of_mem: "(u, es) \<in> set gs \<Longrightarrow> user_db env u = Some pw \<Longrightarrow> ak_path pw \<in> set (paths_of env gs)"
  by (force simp: paths_of_def)

text \<open>One round of the loop: a user that does not resolve is skipped, another has its file rewritten.\<close>

lemma reconcile_users_step:
  assumes "getent_stable env" and "reconcile_users env False actor ((u, es) # gs) w = (Inr r, w')"
  shows "case user_db env u of
      None \<Rightarrow> \<exists>cs r'. reconcile_users env False actor gs (w\<lparr>w_cmds := cs\<rparr>) = (Inr r', w')
    | Some pw \<Rightarrow> \<exists>cs x v r'. rewrite_user env False actor u es pw (w\<lparr>w_cmds := cs\<rparr>) = (Inr x, v) \<and>
        reconcile_users env False actor gs v = (Inr r', w')"
proof -
  obtain cs where cs: "resolveUser env u w = (fst (resolveUser env u world0), w\<lparr>w_cmds := cs\<rparr>)"
    using resolveUser_stable [OF assms(1)] by blast
  show ?thesis
  proof (cases "fst (resolveUser env u world0)")
    case (Inl e)
    then have "bindE (reconcile_users env False actor gs) (\<lambda>(us, ws). ret (us, Resolve_failed u e # ws)) (w\<lparr>w_cmds := cs\<rparr>) = (Inr r, w')"
      using assms(2) cs by (simp add: bindE_def catchE_def)
    with Inl show ?thesis by (fastforce simp: user_db_def bindE_Inr_iff split: prod.splits)
  next
    case (Inr pw)
    then have "bindE (rewrite_user env False actor u es pw) (\<lambda>(x, v). bindE (reconcile_users env False actor gs)
        (\<lambda>(us, ws). ret (x # us, v @ ws))) (w\<lparr>w_cmds := cs\<rparr>) = (Inr r, w')"
      using assms(2) cs by (simp add: bindE_def [of "catchE _ _"] catchE_def bindE_def [of "resolveUser _ _"])
    with Inr show ?thesis by (fastforce simp: user_db_def bindE_Inr_iff split: prod.splits)
  qed
qed

lemma reconcile_users_files:
  assumes "getent_stable env" and "distinct (paths_of env gs)"
    and "reconcile_users env False actor gs w = (Inr r, w')"
  shows "(\<forall>q. q \<notin> set (paths_of env gs) \<longrightarrow> w_files w' q = w_files w q) \<and>
    (\<forall>(u, es)\<in>set gs. \<forall>pw. user_db env u = Some pw \<longrightarrow>
       file_text w' (ak_path pw) = pn_body (planUser es (file_text w (ak_path pw))))"
  using assms(2,3)
proof (induction gs arbitrary: w r)
  case (Cons g gs)
  obtain u es where g: "g = (u, es)" by fastforce
  show ?case
  proof (cases "user_db env u")
    case None
    with reconcile_users_step [OF assms(1) Cons.prems(2) [unfolded g]] obtain cs r' where
      "reconcile_users env False actor gs (w\<lparr>w_cmds := cs\<rparr>) = (Inr r', w')" by auto
    from Cons.IH [OF _ this] Cons.prems(1) None show ?thesis by (auto simp: g file_text_def)
  next
    case (Some pw)
    with reconcile_users_step [OF assms(1) Cons.prems(2) [unfolded g]] obtain cs x v r' where
      st: "rewrite_user env False actor u es pw (w\<lparr>w_cmds := cs\<rparr>) = (Inr x, v)"
      "reconcile_users env False actor gs v = (Inr r', w')" by auto
    have ih: "(\<forall>q. q \<notin> set (paths_of env gs) \<longrightarrow> w_files w' q = w_files v q) \<and>
      (\<forall>(u, es)\<in>set gs. \<forall>pw. user_db env u = Some pw \<longrightarrow>
       file_text w' (ak_path pw) = pn_body (planUser es (file_text v (ak_path pw))))"
      using Cons.IH [OF _ st(2)] Cons.prems(1) Some by (simp add: g)
    have ne: "ak_path pw \<notin> set (paths_of env gs)" using Cons.prems(1) Some by (simp add: g)
    have v: "\<And>q. q \<noteq> ak_path pw \<Longrightarrow> w_files v q = w_files w q" using rewrite_user_file(2) [OF st(1)] by simp
    have mine: "file_text w' (ak_path pw) = pn_body (planUser es (file_text w (ak_path pw)))"
      using rewrite_user_file(1) [OF st(1)] ih ne by (simp add: file_text_def)
    have "file_text v (ak_path pw') = file_text w (ak_path pw')" if "(u', es') \<in> set gs" "user_db env u' = Some pw'" for u' es' pw'
    proof -
      have "ak_path pw' \<noteq> ak_path pw" using paths_of_mem [OF that] ne by metis
      then show ?thesis using v by (simp add: file_text_def)
    qed
    with ih have rest: "\<forall>(u, es)\<in>set gs. \<forall>pw. user_db env u = Some pw \<longrightarrow>
       file_text w' (ak_path pw) = pn_body (planUser es (file_text w (ak_path pw)))" by fastforce
    from ih ne v have "\<forall>q. q \<notin> set (paths_of env (g # gs)) \<longrightarrow> w_files w' q = w_files w q"
      by (simp add: g Some)
    with mine rest Some show ?thesis by (simp add: g)
  qed
qed simp

section \<open>Who is reconciled\<close>

definition active_keys :: "world \<Rightarrow> string \<Rightarrow> ssh_row list" where
  "active_keys w u = filter (\<lambda>r. sa_unix_user r = u \<and> sa_revoked_at r = None) (w_ssh w)"

lemma by_user_mem:
  assumes "r \<in> set (w_ssh w)" and "u = sa_unix_user r"
  shows "\<exists>es. (u, es) \<in> set (by_user w) \<and> set es = set (active_keys w u) \<and> mset es = mset (active_keys w u)"
proof (cases "u \<in> sa_unix_user ` set (activeEntries w)")
  case True
  then have "(u, filter (\<lambda>r. sa_unix_user r = u) (activeEntries w)) \<in> set (by_user w)"
    by (auto simp: by_user_def Let_def)
  moreover have "mset (filter (\<lambda>r. sa_unix_user r = u) (activeEntries w)) = mset (active_keys w u)"
    by (simp add: activeEntries_def active_keys_def filter_filter_mset conj_commute)
  moreover from this have "set (filter (\<lambda>r. sa_unix_user r = u) (activeEntries w)) = set (active_keys w u)" by (rule mset_eq_setD)
  ultimately show ?thesis by blast
next
  case False
  then have "active_keys w u = []"
    by (auto simp: active_keys_def activeEntries_def filter_empty_conv)
  moreover from False assms have "(u, []) \<in> set (by_user w)"
    by (auto simp: by_user_def Let_def all_rows_def)
  ultimately show ?thesis by force
qed

lemma by_user_sub: "(u, es) \<in> set (by_user w) \<Longrightarrow> set es \<subseteq> set (w_ssh w) \<and> u \<in> sa_unix_user ` set (w_ssh w)"
  by (auto simp: by_user_def Let_def activeEntries_def all_rows_def)

text \<open>No two users of the ledger share an \<open>authorized_keys\<close> file.\<close>

definition homes_ok :: "env \<Rightarrow> ssh_row list \<Rightarrow> bool" where
  "homes_ok env rows \<longleftrightarrow> (\<forall>r\<in>set rows. \<forall>r'\<in>set rows.
     (case (user_db env (sa_unix_user r), user_db env (sa_unix_user r')) of
        (Some a, Some b) \<Rightarrow> ak_path a = ak_path b \<longrightarrow> sa_unix_user r = sa_unix_user r'
      | _ \<Rightarrow> True))"

lemma homes_okD:
  "homes_ok env rows \<Longrightarrow> r \<in> set rows \<Longrightarrow> r' \<in> set rows \<Longrightarrow> user_db env (sa_unix_user r) = Some a \<Longrightarrow>
    user_db env (sa_unix_user r') = Some b \<Longrightarrow> ak_path a = ak_path b \<Longrightarrow> sa_unix_user r = sa_unix_user r'"
  unfolding homes_ok_def by (drule (1) bspec, drule (1) bspec) simp

lemma homes_ok_users:
  assumes "homes_ok env rows" and "sa_unix_user ` set rows' \<subseteq> sa_unix_user ` set rows"
  shows "homes_ok env rows'"
proof -
  have "ak_path a = ak_path b \<longrightarrow> sa_unix_user r = sa_unix_user r'"
    if h: "r \<in> set rows'" "r' \<in> set rows'" "user_db env (sa_unix_user r) = Some a" "user_db env (sa_unix_user r') = Some b" for r r' a b
  proof -
    have "sa_unix_user r \<in> sa_unix_user ` set rows" "sa_unix_user r' \<in> sa_unix_user ` set rows"
      using subsetD [OF assms(2) imageI [OF h(1)]] subsetD [OF assms(2) imageI [OF h(2)]] by simp_all
    then obtain s s' where "s \<in> set rows" "sa_unix_user s = sa_unix_user r" "s' \<in> set rows" "sa_unix_user s' = sa_unix_user r'"
      by (auto simp: image_iff)
    then show ?thesis using homes_okD [OF assms(1), of s s'] h(3,4) by metis
  qed
  then show ?thesis unfolding homes_ok_def by (auto split: option.split)
qed

lemma distinct_fst_by_user: "distinct (map fst (by_user w))"
  by (auto simp: by_user_def Let_def comp_def)

lemma distinct_paths_of:
  assumes "distinct (map fst gs)"
    and "\<And>u u' a b. u \<in> fst ` set gs \<Longrightarrow> u' \<in> fst ` set gs \<Longrightarrow> user_db env u = Some a \<Longrightarrow> user_db env u' = Some b \<Longrightarrow>
      ak_path a = ak_path b \<Longrightarrow> u = u'"
  shows "distinct (paths_of env gs)"
  using assms
proof (induction gs)
  case (Cons g gs)
  obtain u es where g: "g = (u, es)" by fastforce
  have ih: "distinct (paths_of env gs)"
  proof (rule Cons.IH)
    show "distinct (map fst gs)" using Cons.prems(1) by simp
    show "v = v'" if "v \<in> fst ` set gs" "v' \<in> fst ` set gs" "user_db env v = Some a" "user_db env v' = Some b"
      "ak_path a = ak_path b" for v v' a b
      using Cons.prems(2) [of v v' a b] that by simp
  qed
  have "ak_path pw \<notin> set (paths_of env gs)" if "user_db env u = Some pw" for pw
  proof
    assume "ak_path pw \<in> set (paths_of env gs)"
    then obtain u' es' b where "(u', es') \<in> set gs" "user_db env u' = Some b" "ak_path pw = ak_path b"
      by (auto simp: paths_of_def split: option.splits dest!: sym [of "Some _"])
    with Cons.prems(1) Cons.prems(2) [of u u' pw b] that show False by (force simp: g)
  qed
  with ih show ?case by (auto simp: g split: option.split)
qed simp

lemma distinct_paths_by_user: "homes_ok env (w_ssh w) \<Longrightarrow> distinct (paths_of env (by_user w))"
proof (rule distinct_paths_of [OF distinct_fst_by_user])
  fix u u' a b
  assume h: "homes_ok env (w_ssh w)" and "u \<in> fst ` set (by_user w)" "u' \<in> fst ` set (by_user w)"
    and db: "user_db env u = Some a" "user_db env u' = Some b" "ak_path a = ak_path b"
  then have "u \<in> sa_unix_user ` set (w_ssh w)" "u' \<in> sa_unix_user ` set (w_ssh w)" using by_user_sub by auto
  then obtain r r' where "r \<in> set (w_ssh w)" "u = sa_unix_user r" "r' \<in> set (w_ssh w)" "u' = sa_unix_user r'" by blast
  with homes_okD [OF h] db show "u = u'" by blast
qed

lemma ssh_reconcile_run:
  "ssh_reconcile env dry actor w = (Inr r, w') \<Longrightarrow> reconcile_users env dry actor (by_user w) w = (Inr r, w')"
  by (auto simp: ssh_reconcile_def eff_inv mkdirs_def split: option.splits)

text \<open>After a reconcile a user's file is the plan for the user's active rows.\<close>

lemma ssh_reconcile_plan:
  assumes "getent_stable env" and "homes_ok env (w_ssh w)"
    and "ssh_reconcile env False actor w = (Inr r, w')"
    and "row \<in> set (w_ssh w)" and "user_db env (sa_unix_user row) = Some pw"
  obtains es where "set es = set (active_keys w (sa_unix_user row))" and "mset es = mset (active_keys w (sa_unix_user row))"
    and "file_text w' (ak_path pw) = pn_body (planUser es (file_text w (ak_path pw)))"
proof -
  obtain es where es: "(sa_unix_user row, es) \<in> set (by_user w)" "set es = set (active_keys w (sa_unix_user row))"
    "mset es = mset (active_keys w (sa_unix_user row))"
    using by_user_mem [OF assms(4) refl] by blast
  from reconcile_users_files [OF assms(1) distinct_paths_by_user [OF assms(2)] ssh_reconcile_run [OF assms(3)]] es(1) assms(5)
  have "file_text w' (ak_path pw) = pn_body (planUser es (file_text w (ak_path pw)))" by blast
  with es(2,3) that show ?thesis by blast
qed

text \<open>Every other file is left alone.\<close>

lemma ssh_reconcile_others:
  assumes "getent_stable env" and "homes_ok env (w_ssh w)" and "ssh_reconcile env False actor w = (Inr r, w')"
    and "\<And>row pw. row \<in> set (w_ssh w) \<Longrightarrow> user_db env (sa_unix_user row) = Some pw \<Longrightarrow> q \<noteq> ak_path pw"
  shows "w_files w' q = w_files w q"
proof -
  have "q \<notin> set (paths_of env (by_user w))"
  proof
    assume "q \<in> set (paths_of env (by_user w))"
    then obtain u es b where g: "(u, es) \<in> set (by_user w)" "user_db env u = Some b" "q = ak_path b"
      by (auto simp: paths_of_def split: option.splits dest!: sym [of "Some _"])
    from by_user_sub [OF g(1)] obtain e where "e \<in> set (w_ssh w)" "sa_unix_user e = u" by auto
    with g assms(4) show False by blast
  qed
  with reconcile_users_files [OF assms(1) distinct_paths_by_user [OF assms(2)] ssh_reconcile_run [OF assms(3)]] show ?thesis by blast
qed

lemma active_keys_ok: "ssh_inv w \<Longrightarrow> e \<in> set (active_keys w u) \<Longrightarrow> row_ok e"
  by (auto simp: ssh_inv_def ledger_ok_def active_keys_def)

text \<open>The id can be read off a managed line.\<close>

lemma managed_line_id:
  assumes "ID_RE (sa_id e)"
  shows "rev (takeWhile is_tag (rev (renderManagedLine e))) = sa_id e"
proof -
  have "\<not> is_tag (CHR '':'')" by code_simp
  then show ?thesis using id_tags [OF assms]
    by (simp add: renderManagedLine_def MARKER_PREFIX_def takeWhile_append)
qed

section \<open>Properties\<close>

text \<open>
  Rewriting \<open>authorized_keys\<close> keeps every line the operator wrote, in order, makes the managed
  lines exactly the given entries, and doing it a second time changes nothing.
\<close>

theorem ssh_plan_idempotent:
  assumes "\<forall>e\<in>set es. row_ok e"
  shows "partitionExisting (pn_body (planUser es t)) = partitionExisting t \<and>
    filter isProxypilotManagedLine (text_lines (pn_body (planUser es t))) = managed_lines es \<and>
    pn_body (planUser es (pn_body (planUser es t))) = pn_body (planUser es t)"
proof -
  have "pn_body (planUser es x) = plan_body (partitionExisting x @ managed_lines es)" for x
    by (simp add: planUser_def Let_def)
  with partition_of_plan [OF assms] show ?thesis by metis
qed

definition row1 :: ssh_row where
  "row1 = \<lparr>sa_id = ''laptop'', sa_unix_user = ''root'', sa_public_key = ''ssh-ed25519 AAAA me'', sa_fingerprint = ''SHA256:x'',
     sa_device_label = None, sa_added_at = 0, sa_added_by = None, sa_revoked_at = None, sa_revoked_by = None,
     sa_revoked_reason = None, sa_last_seen_at = None\<rparr>"

theorem ssh_plan_idempotent_witness:
  "partitionExisting (pn_body (planUser [row1] (''ssh-rsa op'' @ nl))) = [''ssh-rsa op'']"
proof -
  have "\<forall>e\<in>set [row1]. row_ok e" by code_simp
  from ssh_plan_idempotent [OF this, of "''ssh-rsa op'' @ nl"]
  have "partitionExisting (pn_body (planUser [row1] (''ssh-rsa op'' @ nl))) = partitionExisting (''ssh-rsa op'' @ nl)" by blast
  also have "\<dots> = [''ssh-rsa op'']" by code_simp
  finally show ?thesis .
qed

text \<open>Every operation on the ledger keeps it well-formed.\<close>

lemma ssh_ops_inv:
  "preserves ssh_inv (addEntry env i u k label actor)" "preserves ssh_inv (revokeEntry env i reason actor)"
  "preserves ssh_inv (removeEntry env i actor)"
proof -
  note rules = preserves_intros preserves_rows [folded ssh_inv_def] preserves_validatePubkey
  have row: "row_ok \<lparr>sa_id = i, sa_unix_user = u, sa_public_key = pk, sa_fingerprint = fp, sa_device_label = label,
      sa_added_at = env_now env, sa_added_by = actor, sa_revoked_at = None, sa_revoked_by = None,
      sa_revoked_reason = None, sa_last_seen_at = None\<rparr>" if "validateId i = Inr x" "newline \<notin> set pk" for pk fp x
    using that by (auto simp: row_ok_def validateId_def eff_inv)
  show "preserves ssh_inv (addEntry env i u k label actor)"
    unfolding addEntry_def
    by (rule preserves_lift_then, rule preserves_bindE [OF preserves_liftE],
        rule preserves_bind_val [OF preserves_validatePubkey],
        (intro rules preserves_insert_ssh; simp add: ssh_inv_def row validatePubkey_no_newline split: prod.split)+)
  show "preserves ssh_inv (revokeEntry env i reason actor)"
    unfolding revokeEntry_def need_row_def
    by (intro rules; simp add: ssh_inv_def ledger_ok_revoke)+
  show "preserves ssh_inv (removeEntry env i actor)"
    unfolding removeEntry_def need_row_def
    by (intro rules; simp add: ssh_inv_def ledger_ok_remove)+
qed

end
