(* ===== verification/Sys_Frames.thy ===== *)
theory Sys_Frames
  imports Fw_Panic Fw_Egress Fw_Discover Fw_Ingress Vpn_Pool Ssh_Password Ssh_Ledger
begin

text \<open>
  Which part of the host each subsystem can change. A predicate that ignores those parts is kept by every
  operation of the subsystem, whether it returns or throws: the frame rules for the system invariant.
\<close>

text \<open>The firewall operations touch \<open>firewall.json\<close>, its tables, the audit log, temporary files and the command log.\<close>

definition fw_frame :: "(world \<Rightarrow> bool) \<Rightarrow> bool" where
  "fw_frame P \<longleftrightarrow> layer_frame P \<and> (\<forall>w d. P w \<longrightarrow> P (w\<lparr>w_fw := d\<rparr>)) \<and> (\<forall>w d. P w \<longrightarrow> P (w\<lparr>w_fw_bak := d\<rparr>)) \<and>
     (\<forall>w d. P w \<longrightarrow> P (w\<lparr>w_fw_rules := d\<rparr>))"

lemma fw_frameD:
  assumes "fw_frame P" and "P w"
  shows "P (w\<lparr>w_cmds := cs\<rparr>)" "P (w\<lparr>w_files := f\<rparr>)" "P (w\<lparr>w_audit := l\<rparr>)" "P (w\<lparr>w_fw_reconciles := rs\<rparr>)"
    "P (w\<lparr>w_fw := d\<rparr>)" "P (w\<lparr>w_fw_bak := d\<rparr>)" "P (w\<lparr>w_fw_rules := rows\<rparr>)"
  using assms by (simp_all add: fw_frame_def layer_frame_def)

lemma fw_frame_store:
  assumes "fw_frame P"
  shows "preserves P (readState env)" "preserves P (writeState env s)"
  by (intro preserves_intros; rule fw_frameD [OF assms]; assumption)+

lemma fw_frame_reconcile:
  assumes "fw_frame P"
  shows "preserves P (reconcile env dry force actor)"
  by (rule preserves_reconcile_tail) (auto intro: fw_frameD [OF assms] fw_frame_store [OF assms])

lemmas fw_frame_steps = fw_frame_store fw_frame_reconcile preserves_audit preserves_spawn

lemma fw_frame_toggle:
  assumes "fw_frame P"
  shows "preserves P (fw_enable env i sc cidrs sv actor)" "preserves P (fw_disable env i actor)"
    "preserves P (setScope env i scope cidrs sv actor)" "preserves P (setPort env i p pe actor)"
    "preserves P (addManual env a)" "preserves P (addServiceL4 env i a)" "preserves P (removeServiceL4 env i actor)"
    "preserves P (removeManual env i actor)" "preserves P (fw_list env filt)"
  unfolding fw_enable_def fw_disable_def setScope_def setPort_def addManual_def addServiceL4_def removeServiceL4_def
    removeManual_def fw_list_def mutate_def commit_add_def commit_remove_def Let_def
  by (intro preserves_intros fw_frame_store [OF assms]; (rule fw_frameD [OF assms])?; simp)+

lemma fw_frame_ops:
  assumes "fw_frame P"
  shows "preserves P (panicClose env actor)" "preserves P (panicOpen env actor)"
    "preserves P (allowEgress env c sv r i a)" "preserves P (denyEgress env c sv a)"
    "preserves P (bootCheckIngress env)" "preserves P (protectIngress env inp)" "preserves P (removeIngress env rid)"
    "preserves P (scan env)"
  unfolding panicClose_def panicOpen_def allowEgress_def denyEgress_def bootCheckIngress_def protectIngress_def
    removeIngress_def scan_def reconcileDiscovery_def Let_def
  by (intro preserves_intros fw_frame_store [OF assms] fw_frame_reconcile [OF assms]; (rule fw_frameD [OF assms])?; simp)+

text \<open>The VPN operations touch, besides what a reconcile touches, the server row, the peers and the pool.\<close>

definition vpn_frame :: "(world \<Rightarrow> bool) \<Rightarrow> bool" where
  "vpn_frame P \<longleftrightarrow> fw_frame P \<and> (\<forall>w c. P w \<longrightarrow> P (w\<lparr>w_vpn_config := c\<rparr>)) \<and> (\<forall>w ps. P w \<longrightarrow> P (w\<lparr>w_peers := ps\<rparr>)) \<and>
     (\<forall>w n. P w \<longrightarrow> P (w\<lparr>w_peer_seq := n\<rparr>)) \<and> (\<forall>w l. P w \<longrightarrow> P (w\<lparr>w_pool := l\<rparr>))"

lemma vpn_frameD:
  assumes "vpn_frame P"
  shows "fw_frame P" "P w \<Longrightarrow> P (w\<lparr>w_vpn_config := c\<rparr>)" "P w \<Longrightarrow> P (w\<lparr>w_peers := ps\<rparr>)"
    "P w \<Longrightarrow> P (w\<lparr>w_peer_seq := n\<rparr>)" "P w \<Longrightarrow> P (w\<lparr>w_pool := l\<rparr>)"
  using assms by (simp_all add: vpn_frame_def)

lemma fw_frame_server:
  assumes "fw_frame P" and "\<And>w c. P w \<Longrightarrow> P (w\<lparr>w_vpn_config := c\<rparr>)"
  shows "preserves P (vpn_enable env ep p dns a)" "preserves P (setListenPort env p a)" "preserves P (vpn_disable env a)"
  unfolding vpn_enable_def setListenPort_def vpn_disable_def open_firewall_def align_firewall_def setNatIface_def
    clearNatIface_def Let_def
  by (intro preserves_intros fw_frame_store [OF assms(1)] fw_frame_toggle [OF assms(1)] fw_frame_reconcile [OF assms(1)];
      (rule fw_frameD [OF assms(1)] assms(2))?; simp)+

lemma vpn_frame_after: "fw_frame P \<Longrightarrow> preserves P (reconcileAfterPeerMutation env actor)"
  using preserves_after_mutation fw_frame_store(1) fw_frame_def by blast

lemma vpn_frame_rows:
  assumes "vpn_frame P"
  shows "preserves P (update_peer i f)" "preserves P (allocate_peer env n k sc sv a)" "preserves P (rotate_key env p k)"
  unfolding allocate_peer_def insert_peer_def seedPoolIfEmpty_def rotate_key_def
  by (intro preserves_intros; simp add: vpn_frameD [OF assms])+

lemma vpn_frame_peer_ops:
  assumes "vpn_frame P"
  shows "preserves P (addPeer env name scope services actor)" "preserves P (rotatePeer env name actor)"
    "preserves P (disablePeer env name force actor)" "preserves P (enablePeer env name actor)"
    "preserves P (removePeer env name force actor)" "preserves P (setPeerScope env name scope services force actor)"
  unfolding addPeer_def rotatePeer_def disablePeer_def enablePeer_def removePeer_def setPeerScope_def demote_gate_def
  by (intro preserves_intros vpn_frame_rows [OF assms] vpn_frame_after fw_frame_store vpn_frameD(1) [OF assms];
      (rule fw_frameD [OF vpn_frameD(1) [OF assms]])?; simp add: vpn_frameD(3,5) [OF assms])+

text \<open>The SSH operations touch the ledger, files, the audit log and the command log.\<close>

definition ssh_frame :: "(world \<Rightarrow> bool) \<Rightarrow> bool" where
  "ssh_frame P \<longleftrightarrow> (\<forall>w cs. P w \<longrightarrow> P (w\<lparr>w_cmds := cs\<rparr>)) \<and> (\<forall>w f. P w \<longrightarrow> P (w\<lparr>w_files := f\<rparr>)) \<and>
     (\<forall>w l. P w \<longrightarrow> P (w\<lparr>w_audit := l\<rparr>)) \<and> (\<forall>w l. P w \<longrightarrow> P (w\<lparr>w_ssh := l\<rparr>))"

lemma ssh_frameD:
  assumes "ssh_frame P" and "P w"
  shows "P (w\<lparr>w_cmds := cs\<rparr>)" "P (w\<lparr>w_files := f\<rparr>)" "P (w\<lparr>w_audit := l\<rparr>)" "P (w\<lparr>w_ssh := rows\<rparr>)"
  using assms by (simp_all add: ssh_frame_def)

lemma ssh_frame_users:
  assumes "ssh_frame P"
  shows "preserves P (reconcile_users env dry actor gs)"
proof (induction env dry actor gs rule: reconcile_users.induct)
  case (2 env dry actor u es rest)
  have "preserves P (resolveUser env u)"
    unfolding resolveUser_def Let_def by (intro preserves_intros; (rule ssh_frameD [OF assms])?; simp)+
  moreover have "preserves P (rewrite_user env dry actor u es pw)" for pw
    unfolding rewrite_user_def Let_def readExisting_def by (intro preserves_intros; (rule ssh_frameD [OF assms])?; simp)+
  ultimately show ?case using 2 by (auto intro!: preserves_intros split: sum.split)
qed (simp add: preserves_def)

lemma ssh_frame_ops:
  assumes "ssh_frame P"
  shows "preserves P (addEntry env i u k label actor)" "preserves P (revokeEntry env i reason actor)"
    "preserves P (removeEntry env i actor)" "preserves P (ssh_reconcile env dry actor)"
  unfolding addEntry_def revokeEntry_def removeEntry_def ssh_reconcile_def need_row_def insert_ssh_def writeStateFromDb_def
    validatePubkey_def Let_def
  by (intro preserves_intros ssh_frame_users [OF assms]; (rule ssh_frameD [OF assms])?; simp add: ssh_frameD [OF assms])+

lemma preserves_sum [preserves_intros]:
  "(\<And>a. x = Inl a \<Longrightarrow> preserves P (f a)) \<Longrightarrow> (\<And>b. x = Inr b \<Longrightarrow> preserves P (g b)) \<Longrightarrow>
    preserves P (case x of Inl a \<Rightarrow> f a | Inr b \<Rightarrow> g b)"
  by (cases x) auto

lemma ssh_frame_password:
  assumes "\<And>w cs. P w \<Longrightarrow> P (w\<lparr>w_cmds := cs\<rparr>)" and "\<And>w f. P w \<Longrightarrow> P (w\<lparr>w_files := f\<rparr>)" and "\<And>w l. P w \<Longrightarrow> P (w\<lparr>w_audit := l\<rparr>)"
  shows "preserves P (setPasswordAuth env on force actor)"
proof -
  have reload: "preserves P (reloadSshd env)"
    unfolding reloadSshd_def Let_def by (intro preserves_intros; (rule assms)?; simp)
  have copy: "preserves P (copyFile env a b)" for a b
    unfolding copyFile_def by (intro preserves_intros; (rule assms)?; simp)
  have install: "preserves P (install_config env new)" for new
    unfolding install_config_def sshdTest_def set_file_def Let_def
    by (intro preserves_intros reload copy; (rule assms)?; simp)
  show ?thesis
    unfolding setPasswordAuth_def Let_def by (intro preserves_intros install; (rule assms)?; simp)
qed

end
