(* ===== verification/Fw_Safety.thy ===== *)
theory Fw_Safety
  imports Fw_Egress Fw_Discover PP_Example
begin

text \<open>
  What the firewall operations promise to the operator: incident lockdown, the guard that keeps it
  closed, exact toggles, the lockout gate in front of \<open>nft\<close>, truthful bookkeeping, and discovery
  and egress bookkeeping that never opens anything by itself.
\<close>

section \<open>A host with the default document\<close>

definition w_fresh :: world where
  "w_fresh = fw_written (defaultState env0) world0"

lemma w_fresh_holds: "fw_holds w_fresh (defaultState env0)"
  by (simp add: w_fresh_def)

lemma env0_writable: "env_write_error env0 STATE_FILE = None"
  by simp

section \<open>Shared steps\<close>

text \<open>A reconcile leaves the stored document and its mirror as they are.\<close>

lemma preserves_holds_read: "preserves (\<lambda>w. fw_holds w s) (readState env)"
  by (rule preservesI) simp

lemma reconcile_keeps_doc: "preserves (\<lambda>w. fw_holds w s) (reconcile env dry force actor)"
  by (rule preserves_reconcile_tail) (simp_all add: preserves_holds_read)

lemma panicGuard_closed:
  "fs_panic_close s \<Longrightarrow> action \<in> {''enable'', ''set-scope'', ''add-manual''} \<Longrightarrow> panicGuard s action = Inl (Fw Panic_closed)"
  by (simp add: panicGuard_def)

lemma mutate_panic:
  assumes "fw_holds w s" and "fs_panic_close s" and "action \<in> {''enable'', ''set-scope'', ''add-manual''}"
  shows "mutate env i action actor fn w = (Inl (Fw Panic_closed), w)"
  using assms by (simp add: mutate_def mutate_doc_def panicGuard_closed)

lemma commit_add_panic:
  assumes "fw_holds w s" and "fs_panic_close s"
  shows "commit_add env ''add-manual'' i source scope a w = (Inl (Fw Panic_closed), w)"
  using assms by (simp add: commit_add_def add_doc_def panicGuard_closed)

text \<open>The document an addition leaves.\<close>

lemma commit_add_returns:
  assumes "fw_holds w s" and "add_doc env action i source scope a s = Inr (t, r, ws)" and "fw_ok t"
    and "env_write_error env STATE_FILE = None"
  shows "\<exists>w'. commit_add env action i source scope a w = (Inr (r, ws), w') \<and> fw_holds w' t"
  using assms by (simp add: commit_add_def writeState_ok)

text \<open>A merge either stamps a rule with the time of the scan or leaves it alone.\<close>

lemma merge_one_seen:
  "distinct (map rl_id m) \<Longrightarrow> r' \<in> set (merge_one ts l m) \<Longrightarrow> rl_last_seen r' = ts \<or> r' \<in> set m"
  by (auto simp: merge_one_eq new_rule_def split: if_splits)

lemma merge_all_seen:
  "distinct (map rl_id m) \<Longrightarrow> merge_all ts ls m = (m', a, f) \<Longrightarrow> r' \<in> set m' \<Longrightarrow> rl_last_seen r' = ts \<or> r' \<in> set m"
proof (induction ls arbitrary: m a f)
  case (Cons l ls)
  then obtain b g where "merge_all ts ls (merge_one ts l m) = (m', b, g)" by (auto split: prod.splits if_splits)
  from Cons.IH [OF merge_one_distinct [OF Cons.prems(1)] this Cons.prems(3)] merge_one_seen [OF Cons.prems(1)]
  show ?case by blast
qed simp

lemma discovery_doc_result:
  assumes "fw_ok s" and "discovery_doc env ls s = (t, a, f, g)"
  shows "t = s\<lparr>fs_discovered := fs_discovered t\<rparr>"
    and "r' \<in> set (fs_discovered t) \<Longrightarrow> (\<exists>r\<in>set (fs_discovered s). keeps_rule r r') \<or> scanned_rule (env_now env) ls r'"
    and "r \<in> set (fs_discovered s) \<Longrightarrow> (\<exists>r'\<in>set (fs_discovered t). keeps_rule r r') \<or>
      rl_source r \<in> ls_source ` set ls \<and> rl_source r \<noteq> ''manual'' \<and> rl_last_seen r < env_now env - RETENTION_MS"
proof -
  from discovery_doc_props [OF assms] obtain m where m: "merge_all (env_now env) ls (fs_discovered s) = (m, a, f)"
    and t: "t = s\<lparr>fs_discovered := sort_rules env
      (filter (\<lambda>r. \<not> gc_drops (env_now env - RETENTION_MS) (dedup (map ls_source ls)) r) m)\<rparr>" by blast
  have d: "distinct (map rl_id (fs_discovered s))" using assms(1) by (simp add: fw_ok_def ids_def rules_of_def)
  note mp = merge_all_props [OF d m]
  show "t = s\<lparr>fs_discovered := fs_discovered t\<rparr>" by (simp add: t)
  show "(\<exists>r\<in>set (fs_discovered s). keeps_rule r r') \<or> scanned_rule (env_now env) ls r'" if "r' \<in> set (fs_discovered t)"
    using that mp(3) by (auto simp: t)
  show "(\<exists>r'\<in>set (fs_discovered t). keeps_rule r r') \<or>
      rl_source r \<in> ls_source ` set ls \<and> rl_source r \<noteq> ''manual'' \<and> rl_last_seen r < env_now env - RETENTION_MS"
    if r: "r \<in> set (fs_discovered s)"
  proof -
    from mp(2) [OF r] obtain r' where r': "r' \<in> set m" "keeps_rule r r'" by blast
    show ?thesis
    proof (cases "gc_drops (env_now env - RETENTION_MS) (dedup (map ls_source ls)) r'")
      case True
      then have "rl_last_seen r' \<noteq> env_now env" by (simp add: gc_drops_def RETENTION_MS_def)
      then have "r' \<in> set (fs_discovered s)" using merge_all_seen [OF d m r'(1)] by blast
      then have "r' = r" using d r keeps_ruleD(1) [OF r'(2)] by (auto simp: distinct_map dest: inj_onD)
      with True show ?thesis by (simp add: gc_drops_def)
    next
      case False
      with r' show ?thesis by (auto simp: t)
    qed
  qed
qed

text \<open>What a scan adds is disabled.\<close>

lemma discovery_doc_enabled:
  assumes "fw_ok s" and "discovery_doc env ls s = (t, a, f, g)" and "r' \<in> set (fs_discovered t)" and "rl_enabled r'"
  shows "\<exists>r\<in>set (fs_discovered s). keeps_rule r r' \<and> rl_enabled r"
proof -
  have "\<not> scanned_rule (env_now env) ls r'"
    using assms(4) keeps_ruleD(2) by (fastforce simp: scanned_rule_def new_rule_def)
  then show ?thesis using discovery_doc_result(2) [OF assms(1-3)] assms(4) keeps_ruleD(2) by blast
qed

text \<open>What a run of \<open>reconcileDiscovery\<close> leaves.\<close>

lemma reconcileDiscovery_doc:
  assumes "fw_holds w s" and "discovery_doc env ls s = (t, a, f, g)" and "fw_ok t" and "env_write_error env STATE_FILE = None"
  shows "\<exists>w'. reconcileDiscovery env ls w = (Inr (a, f, g), w') \<and> fw_holds w' t"
  using assms by (simp add: reconcileDiscovery_def writeState_ok)

text \<open>What the callback of \<open>enable\<close> does to a rule.\<close>

lemma enable_fn_effect:
  assumes "enable_fn env sc cidrs sv actor b = Inr (r, us)"
  shows "rl_enabled r" and "sc = Some x \<Longrightarrow> x \<noteq> [] \<Longrightarrow> rl_scope r = x"
proof -
  let ?b = "b\<lparr>rl_enabled := True, rl_enabled_at := Some (env_now env), rl_enabled_by := actor\<rparr>"
  obtain r2 where r2: "(case sc of None \<Rightarrow> Inr ?b
      | Some s \<Rightarrow> if s = [] then Inr ?b else if s \<notin> set VALID_SCOPES then Inl (Fw (Invalid_scope s))
          else Inr (?b\<lparr>rl_scope := s\<rparr>)) = Inr r2"
    and a: "applyServiceTag (case cidrs of Some (c # cs) \<Rightarrow> r2\<lparr>rl_source_cidrs := Some (c # cs)\<rparr> | _ \<Rightarrow> r2) sv = Inr (r, us)"
    using assms by (auto simp only: enable_fn_def Let_def bindR_Inr_iff)
  define r3 where "r3 = (case cidrs of Some (c # cs) \<Rightarrow> r2\<lparr>rl_source_cidrs := Some (c # cs)\<rparr> | _ \<Rightarrow> r2)"
  have r3: "rl_enabled r3 = rl_enabled r2" "rl_scope r3 = rl_scope r2"
    by (simp_all add: r3_def split: option.split list.split)
  have "rl_enabled r = rl_enabled r3" "rl_scope r = rl_scope r3"
    using applyServiceTag_Inr [OF a [folded r3_def]] by simp_all
  then show "rl_enabled r" "sc = Some x \<Longrightarrow> x \<noteq> [] \<Longrightarrow> rl_scope r = x"
    using r2 r3 by (auto split: option.splits if_splits)
qed

text \<open>What a successful \<open>mutate\<close> leaves behind.\<close>

lemma mutate_success:
  assumes "rule_mutator fn" and "fw_holds w s" and "env_write_error env STATE_FILE = None"
    and "mutate env i action actor fn w = (Inr (ro, ws), w')"
  obtains b r t where "findRule s i = Some b" and "fn b = Inr (r, ws)" and "rl_id r = i" and "t = replace_rule i r s"
    and "fw_holds w' t" and "ro = Some r" and "ids t = ids s" and "\<And>j. findRule t j = (if j = i then Some r else findRule s j)"
    and "\<exists>l. w' = (fw_written t w)\<lparr>w_audit := l\<rparr>"
proof -
  have ok: "fw_ok s" using assms(2) by (simp add: fw_holds_def)
  obtain t b us where doc: "mutate_doc i action fn s = Inr (t, b, us)"
    using assms(4,2) by (cases "mutate_doc i action fn s") (auto simp: mutate_def)
  from rule_mutator.mutate_doc_Inr [OF assms(1) doc] obtain r where
    r: "findRule s i = Some b" "fn b = Inr (r, us)" "t = replace_rule i r s" "rl_id r = i" by blast
  note mok = rule_mutator.mutate_doc_ok [OF assms(1) doc ok]
  from rule_mutator.mutate_returns [OF assms(1,2) doc assms(3)] assms(4) obtain l where
    w': "w' = (fw_written t w)\<lparr>w_audit := l\<rparr>" "ro = findRule t i" "us = ws" by (metis Pair_inject sum.inject(2))
  have fr: "findRule t j = (if j = i then Some r else findRule s j)" for j
    using findRule_replace_rule [OF fw_okD(2) [OF ok] r(4,1)] r(3) by simp
  have h: "fw_holds w' t" using mok(1) by (simp add: w'(1))
  have "ro = Some r" "fn b = Inr (r, ws)" "\<exists>l. w' = (fw_written t w)\<lparr>w_audit := l\<rparr>" using w' fr r(2) by auto
  from that [OF r(1) this(2) r(4,3) h this(1) mok(2) fr this(3)] show ?thesis .
qed

section \<open>Properties\<close>

text \<open>
  C3: \<open>panicClose\<close> leaves a document with the panic flag set in which nothing is enabled but SSH and
  a WireGuard entry that was enabled before; SSH itself is on, so the operator is not locked out. Nothing
  but the flag and the switches (enabled, disabled at, disabled by) differs from the document before:
  every rule keeps its place, port, protocol, scope and sources. The document stays that way whatever
  the reconcile that follows does.
\<close>

theorem panic_close_locks_down:
  assumes "fw_holds w s" and "env_write_error env STATE_FILE = None"
  shows "\<exists>t. fw_holds (snd (panicClose env actor w)) t \<and> fs_panic_close t \<and> ids t = ids s \<and>
    t = s\<lparr>fs_panic_close := True, fs_base := fs_base t, fs_discovered := fs_discovered t\<rparr> \<and>
    map but_switch (fs_base t) = map but_switch (fs_base s) \<and>
    map but_switch (fs_discovered t) = map but_switch (fs_discovered s) \<and>
    (\<forall>r\<in>set (rules_of t). rl_enabled r \<longleftrightarrow>
       r \<in> set (fs_base t) \<and>
       (rl_id r = ''base-ssh'' \<or> rl_id r = ''base-wireguard'' \<and> (\<exists>q\<in>set (fs_base s). rl_id q = rl_id r \<and> rl_enabled q)))"
proof -
  let ?t = "panic_doc env actor s"
  have ok: "fw_ok s" using assms(1) by (simp add: fw_holds_def)
  then have d: "distinct (map rl_id (fs_base s @ fs_discovered s))" by (simp add: fw_ok_def ids_def rules_of_def)
  have w: "\<exists>l. panicClose env actor w = reconcile env False False actor ((fw_written ?t w)\<lparr>w_audit := l\<rparr>)"
    using assms ok by (auto simp: panicClose_def Let_def writeState_ok)
  moreover have "fw_holds ((fw_written ?t w)\<lparr>w_audit := l\<rparr>) ?t" for l using ok by simp
  ultimately have h: "fw_holds (snd (panicClose env actor w)) ?t"
    using reconcile_keeps_doc [of ?t env False False actor] unfolding preserves_def by metis
  have e: "rl_enabled r \<longleftrightarrow> r \<in> set (fs_base ?t) \<and>
      (rl_id r = ''base-ssh'' \<or> rl_id r = ''base-wireguard'' \<and> (\<exists>q\<in>set (fs_base s). rl_id q = rl_id r \<and> rl_enabled q))"
    if r: "r \<in> set (rules_of ?t)" for r
  proof (cases "r \<in> set (fs_base ?t)")
    case True
    then obtain q where q: "q \<in> set (fs_base s)" "r = panic_base env actor q" by (auto simp: panic_doc_def)
    have "(\<exists>p\<in>set (fs_base s). rl_id p = rl_id q \<and> rl_enabled p) \<longleftrightarrow> rl_enabled q"
      using d q(1) by (auto simp: distinct_map dest: inj_onD)
    with True q show ?thesis by simp
  next
    case False
    with r show ?thesis using panic_doc_enabled [OF r] by blast
  qed
  have "fs_panic_close ?t" by (simp add: panic_doc_def)
  with h e panic_doc_keeps [of env actor s] show ?thesis by (intro exI [of _ ?t]) simp
qed

theorem panic_close_locks_down_witness:
  "\<exists>t. fw_holds (snd (panicClose env0 None w_fresh)) t \<and> fs_panic_close t"
  using panic_close_locks_down [OF w_fresh_holds env0_writable, of None] by blast

text \<open>
  While the panic flag is set, enabling a rule, changing a scope and adding a manual rule all fail
  and leave the whole host unchanged, whatever their arguments.
\<close>

theorem panic_guard_blocks:
  assumes "fw_holds w s" and "fs_panic_close s"
  shows "(\<exists>e. fw_enable env i sc cidrs sv actor w = (Inl e, w)) \<and>
    (\<exists>e. setScope env i scope cidrs sv actor w = (Inl e, w)) \<and> (\<exists>e. addManual env a w = (Inl e, w))"
proof (intro conjI)
  show "\<exists>e. fw_enable env i sc cidrs sv actor w = (Inl e, w)"
    using mutate_panic [OF assms] by (simp add: fw_enable_def)
  show "\<exists>e. setScope env i scope cidrs sv actor w = (Inl e, w)"
    using mutate_panic [OF assms] by (cases "scope \<in> set VALID_SCOPES") (simp_all add: setScope_def)
  show "\<exists>e. addManual env a w = (Inl e, w)"
    unfolding addManual_def Let_def
    by (cases "check_add_args (case aa_scope a of Some sc \<Rightarrow> sc | None \<Rightarrow> ''undefined'') a")
      (simp_all add: commit_add_panic [OF assms])
qed

definition w_panic :: world where
  "w_panic = fw_written (panic_doc env0 None (defaultState env0)) world0"

lemma w_panic_holds: "fw_holds w_panic (panic_doc env0 None (defaultState env0))"
  by (simp add: w_panic_def)

theorem panic_guard_blocks_witness:
  "\<exists>e. fw_enable env0 ''base-caddy-http'' None None None None w_panic = (Inl e, w_panic)"
  using panic_guard_blocks [OF w_panic_holds, of env0 "''base-caddy-http''" None None None None]
  by (simp add: panic_doc_def)

text \<open>
  The guard does not cover \<open>addServiceL4\<close>: with the panic flag set, any well-formed request with a
  fresh id still succeeds, and the document it leaves has the new rule enabled.
\<close>

theorem service_l4_ignores_panic:
  assumes "fw_holds w s" and "fs_panic_close s" and "env_write_error env STATE_FILE = None"
    and "starts_with i ''service-l4-''" and "i \<notin> set (ids s)" and "aa_service a = None"
    and "check_add_args (case aa_scope a of Some sc \<Rightarrow> sc | None \<Rightarrow> ''public'') a = Inr ()"
  shows "\<exists>r ws w' t. addServiceL4 env i a w = (Inr (r, ws), w') \<and> fw_holds w' t \<and> fs_panic_close t \<and>
    r \<in> set (rules_of t) \<and> rl_enabled r \<and> rl_id r = i"
proof -
  let ?sc = "case aa_scope a of Some sc \<Rightarrow> sc | None \<Rightarrow> ''public''"
  let ?r = "added_rule env i ''service-l4'' ?sc a"
  let ?t = "s\<lparr>fs_discovered := sort_rules env (fs_discovered s @ [?r])\<rparr>"
  have a: "add_doc env ''add-service-l4'' i ''service-l4'' ?sc a s = Inr (?t, ?r, [])"
    using assms(5,6) by (simp add: add_doc_def panicGuard_def findRule_None_iff applyServiceTag_def)
  have "fw_ok s" using assms(1) by (simp add: fw_holds_def)
  then have "fw_ok ?t" by (rule add_doc_ok(1) [OF a _ assms(7)]) simp
  from commit_add_returns [OF assms(1) a this assms(3)] obtain w' where
    w': "commit_add env ''add-service-l4'' i ''service-l4'' ?sc a w = (Inr (?r, []), w')" "fw_holds w' ?t" by blast
  have "addServiceL4 env i a w = (Inr (?r, []), w')"
    unfolding addServiceL4_def Let_def using assms(4,7) w'(1) by simp
  moreover have "?r \<in> set (rules_of ?t)" by simp
  moreover have "rl_enabled ?r" "rl_id ?r = i" by (simp_all add: added_rule_def)
  ultimately show ?thesis using w'(2) assms(2) by fastforce
qed

definition l4_args :: add_args where
  "l4_args = \<lparr>aa_port = Int_num 5432, aa_port_end = None, aa_proto = ''tcp'', aa_scope = None, aa_reason = Some ''db'',
     aa_source_cidrs = None, aa_service = None, aa_actor = None\<rparr>"

theorem service_l4_ignores_panic_witness:
  "\<exists>r ws w' t. addServiceL4 env0 ''service-l4-db'' l4_args w_panic = (Inr (r, ws), w') \<and> fw_holds w' t \<and>
    fs_panic_close t \<and> r \<in> set (rules_of t) \<and> rl_enabled r \<and> rl_id r = ''service-l4-db''"
proof (rule service_l4_ignores_panic [OF w_panic_holds])
  show "''service-l4-db'' \<notin> set (ids (panic_doc env0 None (defaultState env0)))"
    unfolding panic_doc_ids by (simp add: ids_def rules_of_def defaultState_def DEFAULT_BASE_def base_rule_def)
  show "check_add_args (case aa_scope l4_args of Some sc \<Rightarrow> sc | None \<Rightarrow> ''public'') l4_args = Inr ()" by code_simp
qed (simp_all add: panic_doc_def starts_with_def l4_args_def)

text \<open>
  Enabling or disabling a rule that exists changes that rule and no other: the rule ends up on or
  off, with the requested scope when one was given, every other rule, the panic flag and the egress
  entries are as before, and the table mirrors the new document.
\<close>

theorem toggle_exact:
  assumes "fw_holds w s" and "env_write_error env STATE_FILE = None"
    and "fw_enable env i sc cidrs sv actor w = (Inr (ro, ws), w') \<and> on \<or>
         fw_disable env i actor w = (Inr (ro, ws), w') \<and> \<not> on"
  shows "\<exists>t r. fw_holds w' t \<and> ro = Some r \<and> findRule t i = Some r \<and> rl_enabled r = on \<and> ids t = ids s \<and>
    (\<forall>j. j \<noteq> i \<longrightarrow> findRule t j = findRule s j) \<and> fs_panic_close t = fs_panic_close s \<and>
    fs_container_egress t = fs_container_egress s \<and>
    (on \<longrightarrow> (\<forall>x. sc = Some x \<and> x \<noteq> [] \<longrightarrow> rl_scope r = x))"
proof -
  obtain fn action where fn: "rule_mutator fn" "mutate env i action actor fn w = (Inr (ro, ws), w')"
    and eff: "\<And>b r us. fn b = Inr (r, us) \<Longrightarrow> rl_enabled r = on \<and> (on \<longrightarrow> (\<forall>x. sc = Some x \<and> x \<noteq> [] \<longrightarrow> rl_scope r = x))"
  proof (cases on)
    case True
    show ?thesis
    proof (rule that [of "enable_fn env sc cidrs sv actor" "''enable''"])
      show "rule_mutator (enable_fn env sc cidrs sv actor)" by (rule enable_mut.rule_mutator_axioms)
      show "mutate env i ''enable'' actor (enable_fn env sc cidrs sv actor) w = (Inr (ro, ws), w')"
        using assms(3) True by (simp add: fw_enable_def)
      show "rl_enabled r = on \<and> (on \<longrightarrow> (\<forall>x. sc = Some x \<and> x \<noteq> [] \<longrightarrow> rl_scope r = x))"
        if "enable_fn env sc cidrs sv actor b = Inr (r, us)" for b r us
        using enable_fn_effect [OF that] True by simp
    qed
  next
    case False
    with that [of "disable_fn env actor" "''disable''"] assms(3) disable_mut.rule_mutator_axioms
    show ?thesis by (simp add: fw_disable_def disable_fn_def)
  qed
  from mutate_success [OF fn(1) assms(1,2) fn(2)] obtain b r t where
    r: "fn b = Inr (r, ws)" "t = replace_rule i r s" "fw_holds w' t" "ro = Some r" "ids t = ids s"
    "\<And>j. findRule t j = (if j = i then Some r else findRule s j)" by metis
  with eff [OF r(1)] show ?thesis by (intro exI [of _ t] exI [of _ r]) simp
qed

theorem toggle_exact_witness:
  "\<exists>t r. fw_holds (snd (fw_disable env0 ''base-ssh'' None w_fresh)) t \<and> findRule t ''base-ssh'' = Some r \<and> \<not> rl_enabled r"
proof -
  have h: "fw_holds w_fresh (defaultState env0)" by (rule w_fresh_holds)
  have "findRule (defaultState env0) ''base-ssh'' \<noteq> None" by code_simp
  then obtain b where b: "findRule (defaultState env0) ''base-ssh'' = Some b" by blast
  have g: "panicGuard (defaultState env0) ''disable'' = Inr ()" by code_simp
  obtain t where "mutate_doc ''base-ssh'' ''disable'' (disable_fn env0 None) (defaultState env0) = Inr (t, b, [])"
    by (simp add: mutate_doc_def g b disable_fn_def)
  from disable_mut.mutate_returns [OF h this env0_writable, of None] obtain ro w' where
    run: "fw_disable env0 ''base-ssh'' None w_fresh = (Inr (ro, []), w')" by (auto simp: fw_disable_def)
  from toggle_exact [OF h env0_writable, of "''base-ssh''" None None None None ro "[]" w' False] run
  show ?thesis by auto
qed

text \<open>
  Discovery never opens anything and never loses an operator's decision: in the document it
  leaves, the base entries are untouched, every enabled rule is an enabled rule of before with the same
  scope and sources, and a rule disappears only when its own source was scanned, it is not a manual rule
  and it was last seen more than seven days ago.
\<close>

theorem discovery_never_opens:
  assumes "fw_holds w s" and "env_write_error env STATE_FILE = None" and "base_named (base_ids s)"
    and "\<forall>l\<in>set ls. listener_ok l"
  shows "\<exists>n w' t. reconcileDiscovery env ls w = (Inr n, w') \<and> fw_holds w' t \<and> fs_base t = fs_base s \<and>
    (\<forall>r'\<in>set (fs_discovered t). rl_enabled r' \<longrightarrow> (\<exists>r\<in>set (fs_discovered s). keeps_rule r r' \<and> rl_enabled r)) \<and>
    (\<forall>r\<in>set (fs_discovered s). (\<exists>r'\<in>set (fs_discovered t). keeps_rule r r') \<or>
       rl_source r \<in> ls_source ` set ls \<and> rl_source r \<noteq> ''manual'' \<and> rl_last_seen r < env_now env - RETENTION_MS)"
proof -
  obtain t a f g where d: "discovery_doc env ls s = (t, a, f, g)" by (cases "discovery_doc env ls s")
  have ok: "fw_ok s" using assms(1) by (simp add: fw_holds_def)
  have "fw_ok t" using discovery_doc_ok(1) [OF ok _ assms(3) d] assms(4) by blast
  then obtain w' where w': "reconcileDiscovery env ls w = (Inr (a, f, g), w')" "fw_holds w' t"
    using reconcileDiscovery_doc [OF assms(1) d _ assms(2)] by blast
  note new = discovery_doc_enabled [OF ok d]
  have base: "fs_base t = fs_base s" by (subst discovery_doc_result(1) [OF ok d]) simp
  show ?thesis using w' new base discovery_doc_result(3) [OF ok d] by blast
qed

theorem discovery_never_opens_witness:
  "\<exists>n w' t. reconcileDiscovery env0 [] w_fresh = (Inr n, w') \<and> fw_holds w' t \<and> fs_base t = fs_base (defaultState env0)"
proof -
  have b: "base_named (base_ids (defaultState env0))" by simp
  from discovery_never_opens [OF w_fresh_holds env0_writable b, of "[]"] show ?thesis by auto
qed

end
