(* ===== verification/Fw_Lockdown.thy ===== *)
theory Fw_Lockdown
  imports Sys_Frames Fw_Safety
begin

text \<open>
  The lockdown as an invariant: while the panic flag is set, no operation but \<open>panicOpen\<close> and \<open>addServiceL4\<close> can
  clear the flag or make a rule enabled that the lockdown left disabled. Every operation is looked at once, on the
  document it reads.
\<close>

section \<open>Invariants of the stored document\<close>

text \<open>The stored document has \<open>Q\<close>; before the first read there is none, and the default document will have it.\<close>

definition doc_inv :: "(fw_state \<Rightarrow> bool) \<Rightarrow> world \<Rightarrow> bool" where
  "doc_inv Q w \<longleftrightarrow> w_fw w = None \<and> (\<forall>env. Q (defaultState env)) \<or> (\<exists>t. fw_holds w t \<and> Q t)"

lemma doc_inv_upd [simp]:
  "doc_inv Q (w\<lparr>w_cmds := x1\<rparr>) = doc_inv Q w" "doc_inv Q (w\<lparr>w_audit := x2\<rparr>) = doc_inv Q w"
  "doc_inv Q (w\<lparr>w_files := x3\<rparr>) = doc_inv Q w" "doc_inv Q (w\<lparr>w_peers := x4\<rparr>) = doc_inv Q w"
  "doc_inv Q (w\<lparr>w_pool := x5\<rparr>) = doc_inv Q w" "doc_inv Q (w\<lparr>w_fw_reconciles := x6\<rparr>) = doc_inv Q w"
  "doc_inv Q (w\<lparr>w_vpn_config := x7\<rparr>) = doc_inv Q w" "doc_inv Q (w\<lparr>w_peer_seq := x8\<rparr>) = doc_inv Q w"
  "doc_inv Q (w\<lparr>w_routes := x9\<rparr>) = doc_inv Q w" "doc_inv Q (w\<lparr>w_ssh := x10\<rparr>) = doc_inv Q w"
  by (simp_all add: doc_inv_def)

lemma doc_holds: "fw_holds w t \<Longrightarrow> Q t \<Longrightarrow> doc_inv Q w"
  by (auto simp: doc_inv_def)

lemma doc_write: "fw_ok t \<Longrightarrow> Q t \<Longrightarrow> preserves (doc_inv Q) (writeState env t)"
proof (rule preservesI)
  fix w assume t: "fw_ok t" "Q t" and w: "doc_inv Q w"
  show "doc_inv Q (snd (writeState env t w))"
  proof (cases "env_write_error env STATE_FILE")
    case None
    with t show ?thesis by (intro doc_holds [of _ t]) (simp_all add: writeState_ok)
  next
    case (Some m)
    with t w show ?thesis by (simp add: writeState_fs_error)
  qed
qed

lemma doc_read:
  assumes "\<And>s. fw_ok s \<Longrightarrow> Q s \<Longrightarrow> preserves (doc_inv Q) (k s)"
  shows "preserves (doc_inv Q) (bindE (readState env) k)"
proof (rule preservesI)
  have step: "doc_inv Q (snd (k s w))" if "fw_holds w s" "Q s" for s w
    using assms [of s] that doc_holds [of w s Q] by (auto simp: preserves_def fw_holds_def)
  fix w assume w: "doc_inv Q w"
  show "doc_inv Q (snd (bindE (readState env) k w))"
  proof (cases "w_fw w = None \<and> (\<forall>env. Q (defaultState env))")
    case True
    show ?thesis
    proof (cases "env_write_error env STATE_FILE")
      case None
      with True step [of "fw_written (defaultState env) w"] show ?thesis by (simp add: readState_fresh)
    next
      case (Some m)
      with True w show ?thesis by (simp add: readState_def Let_def writeState_fs_error bindE_def)
    qed
  next
    case False
    with w obtain s where "fw_holds w s" "Q s" by (auto simp: doc_inv_def)
    with step show ?thesis by simp
  qed
qed

lemma doc_read_only: "preserves (doc_inv Q) (readState env)"
proof -
  have "readState env = bindE (readState env) ret" by (rule ext) (simp add: bindE_def split: prod.split sum.split)
  then show ?thesis using doc_read [of Q ret env] preserves_ret by metis
qed

lemma doc_reconcile: "preserves (doc_inv Q) (reconcile env dry force actor)"
  by (rule preserves_reconcile_tail) (simp_all add: doc_read_only)

lemma doc_frames: "ssh_frame (doc_inv Q)" "layer_frame (doc_inv Q)"
  by (simp_all add: ssh_frame_def layer_frame_def)

text \<open>The peer operations reach the document only through the convergence step.\<close>

lemma doc_peers:
  "preserves (doc_inv Q) (addPeer env name scope services actor)"
  "preserves (doc_inv Q) (rotatePeer env name actor)"
  "preserves (doc_inv Q) (disablePeer env name force actor)"
  "preserves (doc_inv Q) (enablePeer env name actor)"
  "preserves (doc_inv Q) (removePeer env name force actor)"
  "preserves (doc_inv Q) (setPeerScope env name scope services force actor)"
proof -
  have after: "preserves (doc_inv Q) (reconcileAfterPeerMutation env actor)"
    by (rule preserves_after_mutation) (simp_all add: doc_frames doc_read_only)
  have alloc: "preserves (doc_inv Q) (allocate_peer env n k sc sv a)" for n k sc sv a
    unfolding allocate_peer_def insert_peer_def seedPoolIfEmpty_def by (intro preserves_intros) simp_all
  show "preserves (doc_inv Q) (addPeer env name scope services actor)"
    "preserves (doc_inv Q) (rotatePeer env name actor)"
    "preserves (doc_inv Q) (disablePeer env name force actor)"
    "preserves (doc_inv Q) (enablePeer env name actor)"
    "preserves (doc_inv Q) (removePeer env name force actor)"
    "preserves (doc_inv Q) (setPeerScope env name scope services force actor)"
    unfolding addPeer_def rotatePeer_def rotate_key_def disablePeer_def enablePeer_def removePeer_def setPeerScope_def
      demote_gate_def
    by (intro after alloc doc_read preserves_intros; simp)+
qed

text \<open>One rule replaced, added or removed; the result of a scan.\<close>

lemma doc_mutate:
  assumes "rule_mutator fn"
    and "\<And>s b r ws. fw_ok s \<Longrightarrow> Q s \<Longrightarrow> findRule s i = Some b \<Longrightarrow> fn b = Inr (r, ws) \<Longrightarrow> rl_id r = i \<Longrightarrow> Q (replace_rule i r s)"
  shows "preserves (doc_inv Q) (mutate env i action actor fn)"
  unfolding mutate_def
proof (rule doc_read, rule preserves_lift_then)
  fix s x assume s: "fw_ok s" "Q s" and x: "mutate_doc i action fn s = Inr x"
  obtain t b ws where e: "x = (t, b, ws)" by (cases x)
  from rule_mutator.mutate_doc_Inr [OF assms(1) x [unfolded e]] obtain r where
    "findRule s i = Some b" "fn b = Inr (r, ws)" "t = replace_rule i r s" "rl_id r = i" by blast
  then have "Q t" using assms(2) [OF s] by blast
  moreover have "fw_ok t" using rule_mutator.mutate_doc_ok [OF assms(1) x [unfolded e] s(1)] by blast
  ultimately show "preserves (doc_inv Q) (case x of (t, before, ws) \<Rightarrow>
     bindE (writeState env t) (\<lambda>_.
     bindE (audit env ''firewall'' action (Some i) actor (Some (rule_json before))
       (map_option rule_json (findRule t i)) None) (\<lambda>_. ret (findRule t i, ws))))"
    unfolding e by (simp, intro doc_write preserves_intros) simp_all
qed

lemma doc_add:
  assumes "check_add_args scope a = Inr ()" and "source \<in> {''manual'', ''service-l4''}" and "\<And>s d. Q s \<Longrightarrow> Q (s\<lparr>fs_discovered := d\<rparr>)"
  shows "preserves (doc_inv Q) (commit_add env action i source scope a)"
  unfolding commit_add_def
proof (rule doc_read, rule preserves_lift_then)
  fix s x assume s: "fw_ok s" "Q s" and x: "add_doc env action i source scope a s = Inr x"
  obtain t r ws where e: "x = (t, r, ws)" by (cases x)
  have "Q t" unfolding add_doc_Inr(4) [OF x [unfolded e]] by (rule assms(3) [OF s(2)])
  then show "preserves (doc_inv Q) (case x of (t, r, ws) \<Rightarrow>
     bindE (writeState env t) (\<lambda>_.
     bindE (audit env ''firewall'' action (Some i) (aa_actor a) None (Some (rule_json r)) None) (\<lambda>_.
     ret (r, ws))))"
    using add_doc_ok(1) [OF x [unfolded e] s(1) assms(1,2)]
    unfolding e by (simp, intro doc_write preserves_intros) simp_all
qed

lemma doc_remove:
  assumes "\<And>s. Q s \<Longrightarrow> Q (s\<lparr>fs_discovered := filter (\<lambda>x. rl_id x \<noteq> i) (fs_discovered s)\<rparr>)"
  shows "preserves (doc_inv Q) (commit_remove env action source i actor)"
  unfolding commit_remove_def
proof (rule doc_read, rule preserves_lift_then)
  fix s x assume s: "fw_ok s" "Q s" and x: "remove_doc source i s = Inr x"
  obtain t r where e: "x = (t, r)" by (cases x)
  note ok = remove_doc_ok [OF x [unfolded e] s(1)]
  have "Q t" unfolding ok(3) by (rule assms [OF s(2)])
  with ok(1) show "preserves (doc_inv Q) (case x of (t, r) \<Rightarrow>
     bindE (writeState env t) (\<lambda>_.
     bindE (audit env ''firewall'' action (Some i) actor (Some (rule_json r)) None None) (\<lambda>_. ret r)))"
    unfolding e by (simp, intro doc_write preserves_intros) simp_all
qed

lemma doc_scan:
  assumes "\<And>s. Q s \<Longrightarrow> base_named (base_ids s)"
    and "\<And>s d. Q s \<Longrightarrow> \<forall>r'\<in>set d. rl_enabled r' \<longrightarrow> (\<exists>r\<in>set (fs_discovered s). keeps_rule r r' \<and> rl_enabled r) \<Longrightarrow>
      Q (s\<lparr>fs_discovered := d\<rparr>)"
  shows "preserves (doc_inv Q) (scan env)"
proof -
  have discovery: "preserves (doc_inv Q) (reconcileDiscovery env ls)" if ls: "\<And>l. l \<in> set ls \<Longrightarrow> listener_ok l" for ls
    unfolding reconcileDiscovery_def
  proof (rule doc_read)
    fix s assume s: "fw_ok s" "Q s"
    obtain t a f g where d: "discovery_doc env ls s = (t, a, f, g)" by (cases "discovery_doc env ls s")
    have "Q (s\<lparr>fs_discovered := fs_discovered t\<rparr>)" using discovery_doc_enabled [OF s(1) d] by (intro assms(2) s(2)) blast
    then have "Q t" using discovery_doc_result(1) [OF s(1) d] by simp
    moreover have "fw_ok t" using discovery_doc_ok(1) [OF s(1) ls assms(1) [OF s(2)] d] .
    ultimately show "preserves (doc_inv Q) (let (t, added, refreshed, gc) = discovery_doc env ls s in
       bindE (writeState env t) (\<lambda>_.
       bindE (if added > 0 \<or> gc > 0 then
           audit env ''firewall'' ''discover'' (Some (join '','' (sort (dedup (map ls_source ls))))) None
             (Some (JArr (map rule_json (fs_discovered s)))) (Some (JArr (map rule_json (fs_discovered t))))
             (Some (''added='' @ show_nat added @ '' refreshed='' @ show_nat refreshed @ '' gc='' @ show_nat gc))
         else ret ()) (\<lambda>_.
       ret (added, refreshed, gc))))"
      unfolding d by (simp add: doc_write preserves_intros)
  qed
  show ?thesis unfolding scan_def
    by (rule preserves_bind_val, intro preserves_intros, simp,
        rule preserves_bind_val, intro preserves_intros, simp,
        rule preserves_bind_val, intro preserves_intros, simp,
        rule preserves_bind_val, intro preserves_intros, simp, rule discovery)
      (auto dest: scanHost_ok scanLxc_ok scanDocker_ok scanCaddyL4_ok)
qed

section \<open>The lockdown\<close>

text \<open>The flag is set, and only rules of \<open>E\<close> are enabled.\<close>

definition locked :: "string set \<Rightarrow> fw_state \<Rightarrow> bool" where
  "locked E s \<longleftrightarrow> fs_panic_close s \<and> base_named (base_ids s) \<and> (\<forall>r\<in>set (rules_of s). rl_enabled r \<longrightarrow> rl_id r \<in> E)"

lemma locked_upd [simp]:
  "locked E (s\<lparr>fs_container_egress := e\<rparr>) = locked E s" "locked E (s\<lparr>fs_protected_upstreams := u\<rparr>) = locked E s"
  "locked E (s\<lparr>fs_nat := n\<rparr>) = locked E s"
  by (simp_all add: locked_def)

lemma locked_replace:
  assumes "locked E s" and "fw_ok s" and "findRule s i = Some b" and "rl_id r = i" and "rl_enabled r \<longrightarrow> rl_enabled b"
  shows "locked E (replace_rule i r s)"
proof -
  have "b \<in> set (rules_of s)" "rl_id b = i" using findRule_SomeD [OF assms(3)] by auto
  with assms show ?thesis
    by (auto simp: locked_def rules_of_replace_rule fw_okD base_ids_def base_ids_replace_rule)
qed

text \<open>A callback of \<open>mutate\<close> that does not switch a disabled rule on.\<close>

lemma locked_mutate:
  assumes "rule_mutator fn" and "\<And>r r' ws. fn r = Inr (r', ws) \<Longrightarrow> rl_enabled r' \<Longrightarrow> rl_enabled r"
  shows "preserves (doc_inv (locked E)) (mutate env i action actor fn)"
  by (rule doc_mutate [OF assms(1)]) (blast intro: locked_replace assms(2))

text \<open>What the guard refuses leaves the host as it is.\<close>

lemma locked_guarded:
  assumes "\<And>w s. fw_holds w s \<Longrightarrow> fs_panic_close s \<Longrightarrow> \<exists>e. m w = (Inl e, w)"
  shows "preserves (doc_inv (locked E)) m"
proof (rule preservesI)
  fix w assume w: "doc_inv (locked E) w"
  then obtain s where "fw_holds w s" "fs_panic_close s" by (auto simp: doc_inv_def locked_def defaultState_def)
  from assms [OF this] w show "doc_inv (locked E) (snd (m w))" by auto
qed

lemma locked_toggle:
  "preserves (doc_inv (locked E)) (fw_enable env i sc cidrs sv actor)"
  "preserves (doc_inv (locked E)) (setScope env i scope cidrs sv actor)"
  "preserves (doc_inv (locked E)) (addManual env a)"
  "preserves (doc_inv (locked E)) (fw_disable env i actor)"
  "preserves (doc_inv (locked E)) (setPort env i p pe actor)"
proof -
  show "preserves (doc_inv (locked E)) (fw_enable env i sc cidrs sv actor)"
    by (rule locked_guarded) (simp add: fw_enable_def mutate_panic)
  show "preserves (doc_inv (locked E)) (setScope env i scope cidrs sv actor)"
    by (rule locked_guarded) (cases "scope \<in> set VALID_SCOPES"; simp add: setScope_def mutate_panic)
  show "preserves (doc_inv (locked E)) (addManual env a)"
  proof (rule locked_guarded)
    fix w s assume "fw_holds w s" "fs_panic_close s"
    then show "\<exists>e. addManual env a w = (Inl e, w)"
      by (cases "check_add_args (case aa_scope a of Some sc \<Rightarrow> sc | None \<Rightarrow> ''undefined'') a")
        (simp_all add: addManual_def Let_def commit_add_panic)
  qed
  show "preserves (doc_inv (locked E)) (fw_disable env i actor)"
    unfolding fw_disable_def by (rule locked_mutate [OF disable_mut.rule_mutator_axioms]) (auto simp: disable_fn_def)
  show "preserves (doc_inv (locked E)) (setPort env i p pe actor)"
    unfolding setPort_def
    by (intro preserves_guard_then locked_mutate set_port_mutator)
      (auto dest!: port_in_num_val simp: set_port_fn_def split: option.splits)
qed

lemma locked_remove: "preserves (doc_inv (locked E)) (commit_remove env action source i actor)"
  by (rule doc_remove) (auto simp: locked_def rules_of_def)

lemma locked_panic:
  assumes "''base-ssh'' \<in> E"
  shows "preserves (doc_inv (locked E)) (panicClose env actor)"
proof -
  have "locked E (panic_doc env actor s)" if "locked E s" for s
    using that assms by (auto simp: locked_def panic_doc_def rules_of_def base_ids_def o_def)
  then show ?thesis
    unfolding panicClose_def Let_def by (intro doc_read preserves_bindE doc_write preserves_intros doc_reconcile; simp)
qed

lemma locked_egress:
  "preserves (doc_inv (locked E)) (allowEgress env c sv r i a)" "preserves (doc_inv (locked E)) (denyEgress env c sv a)"
  unfolding allowEgress_def denyEgress_def Let_def
  by (intro preserves_guard_then doc_read preserves_intros doc_write; simp)+

lemma locked_scan: "preserves (doc_inv (locked E)) (scan env)"
  by (rule doc_scan) (fastforce simp: locked_def rules_of_def keeps_ruleD(1))+

lemma locked_ingress:
  "preserves (doc_inv (locked E)) (bootCheckIngress env)" "preserves (doc_inv (locked E)) (protectIngress env inp)"
  "preserves (doc_inv (locked E)) (removeIngress env rid)"
  unfolding bootCheckIngress_def protectIngress_def removeIngress_def Let_def
  by (intro doc_read preserves_intros doc_write doc_read_only doc_reconcile; simp)+

lemma locked_server:
  "preserves (doc_inv (locked E)) (vpn_enable env ep p dns a)" "preserves (doc_inv (locked E)) (setListenPort env p a)"
  "preserves (doc_inv (locked E)) (vpn_disable env a)"
  unfolding vpn_enable_def setListenPort_def vpn_disable_def open_firewall_def align_firewall_def setNatIface_def
    clearNatIface_def with_nat_iface_def without_nat_iface_def Let_def
  by (intro locked_toggle doc_read preserves_intros doc_write doc_read_only doc_reconcile; simp)+

end
