(* ===== verification/Fw_Gate.thy ===== *)
theory Fw_Gate
  imports Fw_Safety Caddy_Routes
begin

text \<open>
  The gate between the document and the kernel: which sources a vpn-only rule admits, when the
  lockout check lets a ruleset through, which commands a reconcile issues, and what it records. Also the
  bookkeeping of container egress.
\<close>

section \<open>The lockout check\<close>

lemma lockoutCheck_ok_iff: "lockoutCheck s = Lockout_ok \<longleftrightarrow> (\<exists>r\<in>set (rules_of s). covers_ssh r \<and> ssh_reachable r)"
  by (auto simp: lockoutCheck_def Let_def list_ex_iff filter_empty_conv)

lemma covers_ssh_resolve [simp]: "covers_ssh (fst (resolve_rule ps r)) = covers_ssh r"
  by (simp add: covers_ssh_def split: option.split)

text \<open>Joining the peers in never makes an SSH rule unreachable, and makes a vpn-only one count as reachable.\<close>

lemma ssh_reachable_resolve: "rl_enabled r \<Longrightarrow> ssh_reachable (fst (resolve_rule ps r)) = ssh_reachable r"
  by (auto simp: ssh_reachable_def resolve_rule_def Let_def split: option.splits list.splits if_splits)

lemma lockout_resolve: "lockoutCheck (fst (resolveVpnSources ps s)) = Lockout_ok \<longleftrightarrow> lockoutCheck s = Lockout_ok"
proof -
  have "covers_ssh r \<Longrightarrow> rl_enabled r" for r by (simp add: covers_ssh_def)
  then show ?thesis
    unfolding lockoutCheck_ok_iff rules_of_resolve by (auto simp: ssh_reachable_resolve)
qed

section \<open>One reconcile, step by step\<close>

text \<open>The read and the peer join are over; what follows depends on the lockout verdict.\<close>

lemma reconcile_after_read:
  assumes "fw_holds w s" and "fst (resolveVpnSources (enabled_peers w) s) = t" and "render t = Inr rs"
  shows "reconcile env dry force actor w =
    (if lockoutCheck t = Lockout_ok \<or> force then
       (if dry then (Inr (accepted True rs (checksum env rs) (rule_count t) (snd (resolveVpnSources (enabled_peers w) s))), w)
        else apply_and_record env actor (fs_panic_close t) rs (checksum env rs) (rule_count t)
          (snd (resolveVpnSources (enabled_peers w) s)) w)
     else (case lockoutCheck t of Lockout_refused reason rules \<Rightarrow>
         (Inr \<lparr>rr_ok = False, rr_applied = False, rr_dryRun = False, rr_ruleset = rs, rr_checksum = checksum env rs,
             rr_ruleCount = rule_count t, rr_rejection = Some \<lparr>rj_reason = reason, rj_stderr = None, rj_rules = rules\<rparr>,
             rr_warnings = None\<rparr>,
          w\<lparr>w_fw_reconciles := w_fw_reconciles w @
            [\<lparr>rc_checksum = checksum env rs, rc_rule_count = rule_count t, rc_applied = 0, rc_rejection = Some reason,
              rc_by = actor\<rparr>]\<rparr>)))"
  using assms
  by (cases "resolveVpnSources (enabled_peers w) s"; cases "lockoutCheck t")
    (simp_all add: reconcile_def Let_def recordReconcile_def)

lemma reconcile_render_error:
  assumes "fw_holds w s" and "render (fst (resolveVpnSources (enabled_peers w) s)) = Inl e"
  shows "reconcile env dry force actor w = (Inl e, w)"
  using assms by (cases "resolveVpnSources (enabled_peers w) s") (simp add: reconcile_def Let_def)

text \<open>The program run of one apply, as a list of new commands.\<close>

lemma applyRuleset_cmds:
  "w_cmds (snd (applyRuleset env rs w)) \<in>
    {w_cmds w, w_cmds w @ [Cmd ''nft'' [''-f'', nft_file env] rs]}"
  by (auto simp: applyRuleset_def with_temp_file_def mkdirs_def bindE_def split: option.splits prod.splits sum.splits)

lemma applyRuleset_Inr:
  assumes "applyRuleset env rs w = (Inr p, w')"
  shows "p = env_spawn env (w_cmds w) (Cmd ''nft'' [''-f'', nft_file env] rs) \<and>
    w_cmds w' = w_cmds w @ [Cmd ''nft'' [''-f'', nft_file env] rs] \<and> w_fw_reconciles w' = w_fw_reconciles w"
  using assms
  by (auto simp: applyRuleset_def with_temp_file_def mkdirs_def bindE_def split: option.splits prod.splits sum.splits if_splits)

lemma stderr_trim_Inr: "stderr_trim r w = (Inr e, w') \<Longrightarrow> w' = w"
  by (auto simp: stderr_trim_def split: option.splits)

text \<open>The outcome reported, the row recorded and the commands issued agree.\<close>

lemma apply_and_record_truthful:
  assumes "apply_and_record env actor panic rs digest n ws w = (Inr r, w')"
  shows "\<exists>row. w_fw_reconciles w' = w_fw_reconciles w @ [row] \<and> rc_checksum row = digest \<and> rc_rule_count row = n \<and>
    rc_applied row = (if rr_ok r then 1 else 0) \<and> rr_applied r = rr_ok r \<and> rr_checksum r = digest \<and>
    (\<exists>cs. w_cmds w' = w_cmds w @ Cmd ''nft'' [''-f'', nft_file env] rs # cs) \<and>
    (rr_ok r \<longrightarrow> pr_status (env_spawn env (w_cmds w) (Cmd ''nft'' [''-f'', nft_file env] rs)) = Some 0)"
  using assms unfolding apply_and_record_def
  by (auto simp: eff_inv recordReconcile_def nft_def rejected_def accepted_def
      dest!: applyRuleset_Inr stderr_trim_Inr split: if_splits)

section \<open>Egress entries\<close>

lemma new_entry_allow [simp]: "eg_allow (new_entry c r) = []" "eg_container (new_entry c r) = c"
  by (simp_all add: new_entry_def)

lemma find_new: "find_entry c (es @ [new_entry c r]) = Some (case find_entry c es of None \<Rightarrow> new_entry c r | Some e \<Rightarrow> e)"
  by (simp add: find_entry_append split: option.split) (simp add: find_entry_def new_entry_def)

lemma find_new_other: "d \<noteq> c \<Longrightarrow> find_entry d (es @ [new_entry c r]) = find_entry d es"
  by (simp add: find_entry_append split: option.split) (simp add: find_entry_def new_entry_def)

definition allowed_doc :: "string \<Rightarrow> string \<Rightarrow> string option \<Rightarrow> string option \<Rightarrow> fw_state \<Rightarrow> fw_state" where
  "allowed_doc c service reason ip s = s\<lparr>fs_container_egress := Some (update_entry c (allow_entry service reason ip)
     (case find_entry c (egress_of s) of None \<Rightarrow> egress_of s @ [new_entry c reason] | Some _ \<Rightarrow> egress_of s))\<rparr>"

lemma allowed_doc_reach:
  "may_reach (allowed_doc c service reason ip s) d = (if d = c then insert service (may_reach s c) else may_reach s d)"
proof (cases "d = c")
  case True
  then show ?thesis
    by (auto simp: allowed_doc_def may_reach_def find_entry_update find_new allow_entry_allow split: option.splits if_splits)
next
  case False
  then show ?thesis
    by (auto simp: allowed_doc_def may_reach_def find_entry_update find_new_other split: option.splits)
qed

lemma allowed_doc_distinct:
  assumes "distinct (map eg_container (egress_of s))"
  shows "distinct (map eg_container (egress_of (allowed_doc c service reason ip s)))"
proof -
  have "c \<notin> eg_container ` set (egress_of s)" if "find_entry c (egress_of s) = None"
    using that by (auto simp: find_entry_def find_None_iff)
  with assms show ?thesis by (auto simp: allowed_doc_def split: option.split)
qed

lemma allow_returns:
  assumes "fw_holds w s" and "env_write_error env STATE_FILE = None" and "NAMED_SERVICES service \<noteq> None"
  shows "\<exists>e w'. allowEgress env c service reason ip actor w = (Inr e, w') \<and> fw_holds w' (allowed_doc c service reason ip s)"
proof -
  have "fw_ok (allowed_doc c service reason ip s)" using assms(1) by (simp add: fw_holds_def allowed_doc_def)
  with assms show ?thesis by (simp add: allowEgress_def Let_def writeState_ok allowed_doc_def)
qed

lemma deny_exact:
  assumes "fw_holds w s" and "env_write_error env STATE_FILE = None" and "distinct (map eg_container (egress_of s))"
  shows "\<exists>b w' t. denyEgress env c service actor w = (Inr b, w') \<and> fw_holds w' t \<and>
    may_reach t c = may_reach s c - {service} \<and> (\<forall>d. d \<noteq> c \<longrightarrow> may_reach t d = may_reach s d) \<and> rules_of t = rules_of s"
proof (cases "find_entry c (egress_of s)")
  case None
  then have "denyEgress env c service actor w = (Inr False, w)" using assms(1) by (simp add: denyEgress_def)
  with assms(1) None show ?thesis by (auto simp: may_reach_def)
next
  case (Some e)
  let ?e = "e\<lparr>eg_allow := filter (\<lambda>x. x \<noteq> service) (eg_allow e)\<rparr>"
  let ?t = "s\<lparr>fs_container_egress := Some (if eg_allow ?e = [] then remove_entry c (egress_of s)
      else update_entry c (\<lambda>_. ?e) (egress_of s))\<rparr>"
  have c: "eg_container ?e = c" using find_entry_container [OF Some] by simp
  have ok: "fw_ok ?t" using assms(1) by (simp add: fw_holds_def)
  obtain w' where "denyEgress env c service actor w = (Inr True, w')" "fw_holds w' ?t"
    using assms(1,2) ok Some by (auto simp: denyEgress_def Let_def writeState_ok)
  moreover have "may_reach ?t d = (if d = c then may_reach s c - {service} else may_reach s d)" for d
  proof (cases "eg_allow ?e = []")
    case True
    then show ?thesis using Some by (auto simp: may_reach_def find_entry_remove [OF assms(3)] filter_empty_conv)
  next
    case False
    then show ?thesis using Some find_entry_update_const [OF c, of "egress_of s" d] by (auto simp: may_reach_def)
  qed
  ultimately show ?thesis by (intro exI [of _ True] exI [of _ w'] exI [of _ ?t]) simp
qed

section \<open>Properties\<close>

text \<open>
  C4: the sources of an enabled vpn-only rule without explicit CIDRs are exactly the addresses of the
  enabled peers whose scope admits the rule's service tag, each once; when there is none, the rule is
  closed with the broadcast address. Every other rule is left as it is.
\<close>

theorem vpn_sources_exact:
  "rules_of (fst (resolveVpnSources (enabled_peers w) s)) = map (fst \<circ> resolve_rule (enabled_peers w)) (rules_of s) \<and>
   (\<forall>r\<in>set (rules_of s).
     if rl_enabled r \<and> rl_scope r = ''vpn-only'' \<and> rl_source_cidrs r \<in> {None, Some []}
     then (\<exists>cs. rl_source_cidrs (fst (resolve_rule (enabled_peers w) r)) = Some cs \<and> distinct cs \<and>
       (if \<exists>p\<in>set (w_peers w). peer_admitted (rl_service r) p
        then set cs = peer_cidr ` {p \<in> set (w_peers w). peer_admitted (rl_service r) p}
        else cs = [''255.255.255.255/32'']))
     else fst (resolve_rule (enabled_peers w) r) = r)"
proof (intro conjI ballI)
  show "rules_of (fst (resolveVpnSources (enabled_peers w) s)) = map (fst \<circ> resolve_rule (enabled_peers w)) (rules_of s)"
    by (rule rules_of_resolve)
  fix r assume "r \<in> set (rules_of s)"
  let ?src = "rule_sources (rl_service r) (enabled_peers w)"
  have adm: "{p \<in> set (enabled_peers w). scope_admits (rl_service r) p} = {p \<in> set (w_peers w). peer_admitted (rl_service r) p}"
    by (auto simp: enabled_peers_def peer_admitted_def scope_admits_def)
  have set: "set ?src = peer_cidr ` {p \<in> set (w_peers w). peer_admitted (rl_service r) p}" by (simp add: l4.resolve_set adm)
  then have empty: "?src = [] \<longleftrightarrow> \<not> (\<exists>p\<in>set (w_peers w). peer_admitted (rl_service r) p)"
    by (metis (mono_tags, lifting) empty_Collect_eq empty_is_image set_empty)
  have rest: "fst (resolve_rule (enabled_peers w) r) = r"
    if "\<not> (rl_enabled r \<and> rl_scope r = ''vpn-only'' \<and> rl_source_cidrs r \<in> {None, Some []})"
    using that by (auto simp: resolve_rule_def split: option.split list.split)
  show "if rl_enabled r \<and> rl_scope r = ''vpn-only'' \<and> rl_source_cidrs r \<in> {None, Some []}
     then (\<exists>cs. rl_source_cidrs (fst (resolve_rule (enabled_peers w) r)) = Some cs \<and> distinct cs \<and>
       (if \<exists>p\<in>set (w_peers w). peer_admitted (rl_service r) p
        then set cs = peer_cidr ` {p \<in> set (w_peers w). peer_admitted (rl_service r) p}
        else cs = [''255.255.255.255/32'']))
     else fst (resolve_rule (enabled_peers w) r) = r"
    using rest set empty l4.resolve_distinct resolve_rule_sources [of r "enabled_peers w"]
    by (auto simp: NO_ALLOWED_PEERS_SENTINEL_def)
qed

definition peer1 :: peer where
  "peer1 = \<lparr>pe_id = 1, pe_name = ''ops'', pe_public_key = ''K1'', pe_allowed_ip = ''10.100.0.10'', pe_scope = ''admin'',
     pe_services = None, pe_status = ''enabled'', pe_created_at = 0, pe_created_by = None, pe_rotated_at = None,
     pe_disabled_at = None\<rparr>"

definition vpn_rule :: rule where
  "vpn_rule = (base_rule ''base-ssh'' 22 ''tcp'' True ''ssh'' 0)\<lparr>rl_scope := ''vpn-only''\<rparr>"

theorem vpn_sources_exact_witness:
  "\<exists>cs. rl_source_cidrs (fst (resolve_rule (enabled_peers (world0\<lparr>w_peers := [peer1]\<rparr>)) vpn_rule)) = Some cs \<and>
    set cs = {''10.100.0.10/32''}"
proof -
  let ?w = "world0\<lparr>w_peers := [peer1]\<rparr>" and ?s = "(defaultState env0)\<lparr>fs_base := [vpn_rule]\<rparr>"
  have "vpn_rule \<in> set (rules_of ?s)" by simp
  with vpn_sources_exact [of ?w ?s] obtain cs where
    "rl_source_cidrs (fst (resolve_rule (enabled_peers ?w) vpn_rule)) = Some cs"
    "set cs = peer_cidr ` {p \<in> set (w_peers ?w). peer_admitted (rl_service vpn_rule) p}"
    by (auto simp: vpn_rule_def base_rule_def peer_admitted_def peer1_def)
  moreover have "{p \<in> set (w_peers ?w). peer_admitted (rl_service vpn_rule) p} = {peer1}"
    by (auto simp: peer_admitted_def peer1_def)
  ultimately show ?thesis by (simp add: peer_cidr_def peer1_def)
qed

text \<open>
  C5: the firewall and Caddy admit the same peers: an enabled vpn-only rule is joined, in the same
  order, with the addresses in the matcher of a vpn-only route with the same service tag. Only
  a rule that names its sources itself is not joined: it keeps exactly those.
\<close>

theorem layers_agree:
  assumes "rl_enabled r" and "rl_scope r = ''vpn-only''"
  shows "rl_source_cidrs (fst (resolve_rule peers r)) =
    (if rl_source_cidrs r \<in> {None, Some []} then Some (matcher_ips (rl_service r) peers) else rl_source_cidrs r)"
proof (cases "rl_source_cidrs r \<in> {None, Some []}")
  case True
  with resolve_rule_sources [OF assms True, of peers] show ?thesis by (simp add: matcher_ips_def Let_def resolvers_agree)
next
  case False
  then show ?thesis by (auto simp: resolve_rule_def split: option.split list.split)
qed

theorem layers_agree_witness:
  "rl_source_cidrs (fst (resolve_rule [peer1] vpn_rule)) = Some (matcher_ips None [peer1])"
  using layers_agree [of vpn_rule "[peer1]"] by (simp add: vpn_rule_def base_rule_def)

text \<open>
  A ruleset passes the lockout check exactly when some enabled TCP rule covers port 22 and has
  explicit source CIDRs or one of the scopes public, lan-only and vpn-only. Joining the peers in
  beforehand makes no difference, so an SSH rule that is vpn-only passes even when no peer exists and
  its only source is the broadcast address.
\<close>

theorem lockout_characterised:
  "lockoutCheck (fst (resolveVpnSources peers s)) = Lockout_ok \<longleftrightarrow>
    (\<exists>r\<in>set (rules_of s). rl_enabled r \<and> rl_proto r = ''tcp'' \<and> rl_port_start r \<le> 22 \<and>
      22 \<le> (case rl_port_end r of None \<Rightarrow> rl_port_start r | Some e \<Rightarrow> e) \<and>
      (rl_source_cidrs r \<notin> {None, Some []} \<or> rl_scope r \<in> {''public'', ''lan-only'', ''vpn-only''}))"
proof -
  have "ssh_reachable r \<longleftrightarrow> rl_source_cidrs r \<notin> {None, Some []} \<or> rl_scope r \<in> {''public'', ''lan-only'', ''vpn-only''}" for r
    by (auto simp: ssh_reachable_def split: option.split list.split)
  then show ?thesis unfolding lockout_resolve unfolding lockoutCheck_ok_iff by (auto simp: covers_ssh_def)
qed

theorem lockout_characterised_witness: "lockoutCheck (fst (resolveVpnSources [] (defaultState env0))) = Lockout_ok"
proof -
  let ?r = "base_rule ''base-ssh'' 22 ''tcp'' True ''ssh'' (env_now env0)"
  have "?r \<in> set (rules_of (defaultState env0))" by (simp add: rules_of_def defaultState_def DEFAULT_BASE_def)
  then show ?thesis unfolding lockout_characterised by (rule bexI [rotated]) (simp add: base_rule_def)
qed

text \<open>
  C6: without \<open>forceLockoutOk\<close> a reconcile of a document that fails the lockout check runs no command
  at all, dry run or not: it returns the rejection with its reason, and the host differs only in one new
  row, which records that rejection under the actor with applied = 0 and the checksum and count
  reported; a document that cannot even be rendered is an error and leaves no row. A dry run
  of a document that passes, or is forced, changes nothing.
\<close>

theorem lockout_gate:
  assumes "fw_holds w s" and "reconcile env dry force actor w = (r, w')"
    and "dry \<and> (force \<or> lockoutCheck s = Lockout_ok) \<or> \<not> force \<and> lockoutCheck s \<noteq> Lockout_ok"
  shows "w_cmds w' = w_cmds w \<and>
    (if force \<or> lockoutCheck s = Lockout_ok then w' = w
     else (\<forall>e. r = Inl e \<longrightarrow> w' = w) \<and>
       (\<forall>x. r = Inr x \<longrightarrow> \<not> rr_ok x \<and> \<not> rr_applied x \<and>
         (\<exists>row j. w' = w\<lparr>w_fw_reconciles := w_fw_reconciles w @ [row]\<rparr> \<and> rr_rejection x = Some j \<and>
            rc_rejection row = Some (rj_reason j) \<and> rc_applied row = 0 \<and> rc_by row = actor \<and>
            rc_checksum row = rr_checksum x \<and> rc_rule_count row = rr_ruleCount x)))"
proof (cases "render (fst (resolveVpnSources (enabled_peers w) s))")
  case (Inl e)
  with assms(1,2) show ?thesis by (auto simp: reconcile_render_error)
next
  case (Inr rs)
  note run = reconcile_after_read [OF assms(1) refl Inr, of env dry force actor]
  show ?thesis using assms(2,3) run
    by (auto simp: lockout_resolve split: lockout.splits if_splits)
qed

definition lan_ssh_off :: fw_state where
  "lan_ssh_off = (defaultState env0)\<lparr>fs_base := [(base_rule ''base-ssh'' 22 ''tcp'' True ''ssh'' 0)\<lparr>rl_scope := ''localhost-only''\<rparr>]\<rparr>"

lemma lan_ssh_off_ok: "fw_ok lan_ssh_off"
  by (simp add: lan_ssh_off_def fw_ok_defs defaultState_def base_rule_def rule_ok_def ports_ok_def
      VALID_SOURCES_def VALID_PROTOS_def VALID_SCOPES_def)

theorem lockout_gate_witness:
  "\<exists>row. w_cmds (snd (reconcile env0 False False None (fw_written lan_ssh_off world0))) = [] \<and>
    w_fw_reconciles (snd (reconcile env0 False False None (fw_written lan_ssh_off world0))) = [row] \<and> rc_rejection row \<noteq> None"
proof -
  have h: "fw_holds (fw_written lan_ssh_off world0) lan_ssh_off" by (simp add: lan_ssh_off_ok)
  have refused: "lockoutCheck lan_ssh_off \<noteq> Lockout_ok" by code_simp
  have "case reconcile env0 False False None (fw_written lan_ssh_off world0) of (Inr x, _) \<Rightarrow> True | _ \<Rightarrow> False" by code_simp
  then obtain x w' where run: "reconcile env0 False False None (fw_written lan_ssh_off world0) = (Inr x, w')"
    by (auto split: prod.splits sum.splits)
  show ?thesis using lockout_gate [OF h run] refused by (auto simp: run)
qed

text \<open>
  What a reconcile reports is what it did: when a real run returns, exactly one row was recorded,
  with the checksum of the reported ruleset and applied = 1 exactly when the result is ok; and an ok
  result means \<open>nft -f\<close> was run on that ruleset and exited with 0.
\<close>

theorem reconcile_truthful:
  assumes "fw_holds w s" and "reconcile env False force actor w = (Inr r, w')"
  shows "\<exists>row rs. w_fw_reconciles w' = w_fw_reconciles w @ [row] \<and> rc_checksum row = rr_checksum r \<and>
    rr_checksum r = checksum env rs \<and> render (fst (resolveVpnSources (enabled_peers w) s)) = Inr rs \<and>
    rc_applied row = (if rr_ok r then 1 else 0) \<and> rr_applied r = rr_ok r \<and>
    (rr_ok r \<longrightarrow> Cmd ''nft'' [''-f'', nft_file env] rs \<in> set (w_cmds w') \<and>
       pr_status (env_spawn env (w_cmds w) (Cmd ''nft'' [''-f'', nft_file env] rs)) = Some 0)"
proof (cases "render (fst (resolveVpnSources (enabled_peers w) s))")
  case (Inl e)
  with assms show ?thesis by (simp add: reconcile_render_error)
next
  case (Inr rs)
  let ?t = "fst (resolveVpnSources (enabled_peers w) s)"
  note run = reconcile_after_read [OF assms(1) refl Inr, of env False force actor]
  show ?thesis
  proof (cases "lockoutCheck ?t = Lockout_ok \<or> force")
    case True
    with run assms(2) have "apply_and_record env actor (fs_panic_close ?t) rs (checksum env rs) (rule_count ?t)
        (snd (resolveVpnSources (enabled_peers w) s)) w = (Inr r, w')" by simp
    from apply_and_record_truthful [OF this] Inr show ?thesis by fastforce
  next
    case False
    then obtain a b where "lockoutCheck ?t = Lockout_refused a b" by (cases "lockoutCheck ?t") auto
    with run assms(2) False Inr show ?thesis by auto
  qed
qed

theorem reconcile_truthful_witness:
  "\<exists>row. w_fw_reconciles (snd (reconcile env0 False False None (fw_written lan_ssh_off world0))) = [row] \<and> rc_applied row = 0"
proof -
  let ?w = "fw_written lan_ssh_off world0"
  have h: "fw_holds ?w lan_ssh_off" by (simp add: lan_ssh_off_ok)
  have "case reconcile env0 False False None ?w of (Inr r, _) \<Rightarrow> \<not> rr_ok r | _ \<Rightarrow> False" by code_simp
  then obtain r w' where run: "reconcile env0 False False None ?w = (Inr r, w')" "\<not> rr_ok r"
    by (auto split: prod.splits sum.splits)
  from reconcile_truthful [OF h run(1)] run(2) show ?thesis by (auto simp: run(1))
qed

text \<open>
  Allowing a known service for a container always succeeds on a consistent store and adds exactly
  that service for exactly that container; no firewall rule changes.
\<close>

theorem egress_allow_exact:
  assumes "fw_holds w s" and "env_write_error env STATE_FILE = None" and "NAMED_SERVICES service \<noteq> None"
  shows "\<exists>e w' t. allowEgress env c service reason ip actor w = (Inr e, w') \<and> fw_holds w' t \<and>
    may_reach t c = insert service (may_reach s c) \<and> (\<forall>d. d \<noteq> c \<longrightarrow> may_reach t d = may_reach s d) \<and>
    rules_of t = rules_of s"
proof -
  obtain e w' where "allowEgress env c service reason ip actor w = (Inr e, w')" "fw_holds w' (allowed_doc c service reason ip s)"
    using allow_returns [OF assms] by blast
  moreover have "rules_of (allowed_doc c service reason ip s) = rules_of s" by (simp add: allowed_doc_def)
  ultimately show ?thesis by (metis allowed_doc_reach)
qed

theorem egress_allow_exact_witness:
  "\<exists>e w' t. allowEgress env0 ''app'' ''pgbouncer'' None None None w_fresh = (Inr e, w') \<and> fw_holds w' t \<and>
    ''pgbouncer'' \<in> may_reach t ''app''"
proof -
  have "NAMED_SERVICES ''pgbouncer'' \<noteq> None" by code_simp
  from egress_allow_exact [OF w_fresh_holds env0_writable this, of "''app''" None None None] show ?thesis by fastforce
qed

text \<open>
  Allowing a service a container could not reach and denying it again restores what every
  container may reach.
\<close>

theorem egress_round_trip:
  assumes "fw_holds w s" and "env_write_error env STATE_FILE = None" and "NAMED_SERVICES service \<noteq> None"
    and "distinct (map eg_container (egress_of s))" and "service \<notin> may_reach s c"
  shows "\<exists>b w' t. bindE (allowEgress env c service reason ip actor) (\<lambda>_. denyEgress env c service actor) w = (Inr b, w') \<and>
    fw_holds w' t \<and> (\<forall>d. may_reach t d = may_reach s d)"
proof -
  let ?t = "allowed_doc c service reason ip s"
  obtain e v where a: "allowEgress env c service reason ip actor w = (Inr e, v)" "fw_holds v ?t"
    using allow_returns [OF assms(1-3)] by blast
  from deny_exact [OF a(2) assms(2) allowed_doc_distinct [OF assms(4)]] obtain b w' u where
    d: "denyEgress env c service actor v = (Inr b, w')" "fw_holds w' u"
    "may_reach u c = may_reach ?t c - {service}" "\<forall>d. d \<noteq> c \<longrightarrow> may_reach u d = may_reach ?t d" by blast
  then have "may_reach u d = may_reach s d" for d using assms(5) by (cases "d = c") (simp_all add: allowed_doc_reach)
  with a(1) d(1,2) show ?thesis by auto
qed

theorem egress_round_trip_witness:
  "\<exists>b w' t. bindE (allowEgress env0 ''app'' ''pgbouncer'' None None None) (\<lambda>_. denyEgress env0 ''app'' ''pgbouncer'' None) w_fresh =
    (Inr b, w') \<and> fw_holds w' t \<and> (\<forall>d. may_reach t d = may_reach (defaultState env0) d)"
proof (rule egress_round_trip [OF w_fresh_holds env0_writable])
  show "NAMED_SERVICES ''pgbouncer'' \<noteq> None" by code_simp
  show "distinct (map eg_container (egress_of (defaultState env0)))" by code_simp
  show "''pgbouncer'' \<notin> may_reach (defaultState env0) ''app''" by (simp add: may_reach_def egress_of_def defaultState_def find_entry_def)
qed

end
