(* ===== verification/Fw_Ruleset.thy ===== *)
theory Fw_Ruleset
  imports Fw_Gate PP_Lines
begin

text \<open>
  What the rendered ruleset says: it exists for every well-formed document with sane network
  settings, every enabled rule is one of its lines, disabled rules leave no trace, only a public rule
  without explicit sources accepts from anywhere, and operator text cannot leave its comment.
\<close>

section \<open>Lines of a joined text\<close>

lemma join_append: "xs \<noteq> [] \<Longrightarrow> ys \<noteq> [] \<Longrightarrow> join sep (xs @ ys) = join sep xs @ sep @ join sep ys"
proof (induction sep xs rule: join.induct)
  case (2 sep x)
  then show ?case by (cases ys) simp_all
qed simp_all

lemma framed_line:
  assumes "l \<in> set ls"
  shows "sublist (sep @ l @ sep) (sep @ join sep ls @ sep)"
proof -
  obtain p q where ls: "ls = p @ l # q" using assms by (meson split_list)
  have "\<exists>a b. sep @ join sep ls @ sep = a @ (sep @ l @ sep) @ b"
  proof (cases "p = []"; cases "q = []")
    assume "p = []" "q = []" then show ?thesis by (auto simp: ls intro: exI [of _ "[]"])
  next
    assume "p = []" "q \<noteq> []"
    then have "join sep ls = l @ sep @ join sep q" using join_append [of "[l]" q sep] by (simp add: ls)
    then show ?thesis by (intro exI [of _ "[]"] exI [of _ "join sep q @ sep"]) simp
  next
    assume "p \<noteq> []" "q = []"
    then have "join sep ls = join sep p @ sep @ l" using join_append [of p "[l]" sep] by (simp add: ls)
    then show ?thesis by (intro exI [of _ "sep @ join sep p"] exI [of _ "[]"]) simp
  next
    assume "p \<noteq> []" "q \<noteq> []"
    then have "join sep ls = join sep p @ sep @ l @ sep @ join sep q"
      using join_append [of p "l # q" sep] join_append [of "[l]" q sep] by (simp add: ls)
    then show ?thesis by (intro exI [of _ "sep @ join sep p"] exI [of _ "join sep q @ sep"]) simp
  qed
  then show ?thesis by (metis sublist_appendI)
qed

text \<open>A line strictly inside a joined text stands between two separators.\<close>

lemma inner_line:
  "xs \<noteq> [] \<Longrightarrow> ys \<noteq> [] \<Longrightarrow> sublist (sep @ b @ sep) (join sep (xs @ b # ys))"
proof -
  assume a: "xs \<noteq> []" "ys \<noteq> []"
  have "join sep (xs @ b # ys) = join sep xs @ (sep @ b @ sep) @ join sep ys"
    using join_append [of xs "b # ys" sep] join_append [of "[b]" ys sep] a by simp
  then show ?thesis by (metis sublist_appendI)
qed

section \<open>The shape of the ruleset\<close>

text \<open>The lines before the base chain, between the two chains, and after them.\<close>

lemma render_chains:
  assumes "render s = Inr t"
  obtains b d pre post where
    "rules_body ''    # (no enabled base rules)'' (filter rl_enabled (fs_base s)) = Inr b"
    "rules_body ''    # (no enabled discovered rules)'' (filter rl_enabled (fs_discovered s)) = Inr d"
    "t = join nl (pre @ [''  chain base_input {'', b, ''  }'', [], ''  chain discovered_input {'', d, ''  }''] @ post)" "post \<noteq> []"
proof -
  from assms obtain br b d e n ps bt where
    "bridgeFromState s = Inr br"
    and b: "rules_body ''    # (no enabled base rules)'' (filter rl_enabled (fs_base s)) = Inr b"
    and d: "rules_body ''    # (no enabled discovered rules)'' (filter rl_enabled (fs_discovered s)) = Inr d"
    and "renderContainerEgress s = Inr e" "renderNatPostrouting s = Inr n" "protectedUpstreams s = Inr ps"
    and "renderProtectedUpstreams s = Inr bt"
    unfolding render_def by (auto simp: bindR_Inr_iff)
  moreover obtain i x y where "br = (i, x, y)" by (cases br)
  moreover define post where "post = [[], ''  chain container_egress {'', ''    type filter hook forward priority 0;'', e, ''  }'', [],
        ''  chain nat_postrouting {'', ''    type nat hook postrouting priority 100;'', n, ''  }'', [],
        ''  chain protected_upstream_mark {'', ''    type filter hook output priority -20; policy accept;'',
        or_default (join nl (concat (map mark_lines ps))) no_protected, ''  }'', [],
        ''  chain protected_upstream_forward {'', ''    type filter hook forward priority -20; policy accept;'',
        or_default (join nl (concat (map forward_lines ps))) no_protected, ''  }'', ''}'', bt]"
  ultimately have "t = join nl ((RULESET_HEAD @ [''    iifname '' @ dq @ i @ dq @ '' accept''] @ INPUT_HOOK_TAIL) @
      [''  chain base_input {'', b, ''  }'', [], ''  chain discovered_input {'', d, ''  }''] @ post)" "post \<noteq> []"
    using assms by (simp_all add: render_def Let_def)
  with b d that show ?thesis by blast
qed

lemma rules_body_line:
  assumes "rules_body none rs = Inr body" and "r \<in> set rs"
  shows "\<exists>l. renderAllowRule r = Inr l \<and> sublist (nl @ l @ nl) (nl @ body @ nl)"
proof -
  have "rs \<noteq> []" using assms(2) by auto
  with assms(1) obtain ls where ls: "mapR renderAllowRule rs = Inr ls" "body = join nl ls"
    by (auto simp: rules_body_def bindR_Inr_iff)
  obtain i where i: "i < length rs" "rs ! i = r" using assms(2) by (auto simp: in_set_conv_nth)
  from mapR_Inr_nth [OF ls(1) i(1)] mapR_Inr_length [OF ls(1)] i
  have "renderAllowRule r = Inr (ls ! i)" "ls ! i \<in> set ls" by simp_all
  with framed_line [of "ls ! i" ls nl] ls(2) show ?thesis by auto
qed

text \<open>Rendering a rule never fails on a valid scope.\<close>

lemma renderAllowRule_total: "rl_scope r \<in> set VALID_SCOPES \<Longrightarrow> \<exists>l. renderAllowRule r = Inr l"
  by (auto simp: renderAllowRule_def sourcesFor_def VALID_SCOPES_def split: option.split list.split)

lemma rules_body_total:
  assumes "\<forall>r\<in>set rs. rl_scope r \<in> set VALID_SCOPES"
  shows "\<exists>b. rules_body none rs = Inr b"
proof -
  have "\<exists>ls. mapR renderAllowRule rs = Inr ls"
    using assms
  proof (induction rs)
    case (Cons r rs)
    with renderAllowRule_total [of r] show ?case by auto
  qed simp
  then show ?thesis by (auto simp: rules_body_def)
qed

definition network_ok :: "fw_state \<Rightarrow> bool" where
  "network_ok s \<longleftrightarrow> (case fs_network s of None \<Rightarrow> True | Some n \<Rightarrow>
       (case nc_bridge_iface n of None \<Rightarrow> True | Some x \<Rightarrow> IFACE_RE x) \<and>
       (case nc_bridge_cidr n of None \<Rightarrow> True | Some x \<Rightarrow> CIDR_RE x) \<and>
       (case nc_bridge_gw n of None \<Rightarrow> True | Some x \<Rightarrow> IPV4_RE x)) \<and>
     (case fs_nat s of None \<Rightarrow> True | Some n \<Rightarrow>
       (case nat_vpn_masquerade_iface n of None \<Rightarrow> True | Some x \<Rightarrow> x = [] \<or> IFACE_RE x)) \<and>
     (case fs_protected_upstreams s of None \<Rightarrow> True | Some es \<Rightarrow> length es \<le> 20 \<and> list_all protected_ok es)"

lemma bridge_total: "network_ok s \<Longrightarrow> \<exists>b. bridgeFromState s = Inr b"
proof -
  have d: "IFACE_RE DEFAULT_BRIDGE_IFACE" "CIDR_RE DEFAULT_BRIDGE_CIDR" "IPV4_RE DEFAULT_BRIDGE_GW" by code_simp+
  then show "network_ok s \<Longrightarrow> \<exists>b. bridgeFromState s = Inr b"
    by (auto simp: network_ok_def bridgeFromState_def Let_def split: option.splits)
qed

lemma protected_total: "network_ok s \<Longrightarrow> \<exists>es. protectedUpstreams s = Inr es"
proof -
  have "list_all protected_ok es \<Longrightarrow> mapR (\<lambda>e. if protected_ok e then Inr e else Inl (Fw Invalid_protected_entry)) es = Inr es" for es
    by (induction es) auto
  then show "network_ok s \<Longrightarrow> \<exists>es. protectedUpstreams s = Inr es"
    by (auto simp: network_ok_def protectedUpstreams_def Let_def split: option.splits)
qed

lemma nat_total: "network_ok s \<Longrightarrow> \<exists>n. renderNatPostrouting s = Inr n"
  by (auto simp: network_ok_def renderNatPostrouting_def Let_def truthy_def split: option.splits)

lemma render_exists:
  assumes "fw_ok s" and "network_ok s"
  shows "\<exists>t. render s = Inr t"
proof -
  have sc: "\<forall>r\<in>set (fs_base s @ fs_discovered s). rl_scope r \<in> set VALID_SCOPES"
    using assms(1) by (auto simp: fw_ok_def list_all_iff rules_of_def rule_ok_def)
  obtain i c g where b: "bridgeFromState s = Inr (i, c, g)" using bridge_total [OF assms(2)] by auto
  obtain x where x: "rules_body ''    # (no enabled base rules)'' (filter rl_enabled (fs_base s)) = Inr x"
    using rules_body_total [of "filter rl_enabled (fs_base s)"] sc by auto
  obtain y where y: "rules_body ''    # (no enabled discovered rules)'' (filter rl_enabled (fs_discovered s)) = Inr y"
    using rules_body_total [of "filter rl_enabled (fs_discovered s)"] sc by auto
  obtain es n where "protectedUpstreams s = Inr es" "renderNatPostrouting s = Inr n"
    using protected_total [OF assms(2)] nat_total [OF assms(2)] by blast
  then show ?thesis
    by (simp add: render_def b x y renderContainerEgress_def renderProtectedUpstreams_def Let_def)
qed

section \<open>Quotes\<close>

lemma quote_not_digit: "\<not> is_digit (CHR 0x22)"
  by code_simp

lemma show_int_quote: "CHR 0x22 \<notin> set (show_int i)"
  using show_nat_no_char [OF quote_not_digit] by (simp add: show_int_def)

lemma portMatch_quote: "rl_proto r \<in> {''tcp'', ''udp''} \<Longrightarrow> CHR 0x22 \<notin> set (portMatch r)"
  by (auto simp: portMatch_def show_int_quote split: option.split)

lemma rule_comment_quotes: "count_list (rule_comment r) (CHR 0x22) = 2"
  by (simp add: rule_comment_def Let_def dq_def)

lemma join_quote: "\<forall>c\<in>set cs. CHR 0x22 \<notin> set c \<Longrightarrow> CHR 0x22 \<notin> set (join '', '' cs)"
  using set_join_sub [of "'', ''" cs] by auto

lemma sourcesFor_quote:
  assumes "sourcesFor r = Inr (Some ss)" and "\<forall>c\<in>set (case rl_source_cidrs r of None \<Rightarrow> [] | Some cs \<Rightarrow> cs). CHR 0x22 \<notin> set c"
  shows "\<forall>c\<in>set ss. CHR 0x22 \<notin> set c"
  using assms by (auto simp: sourcesFor_def RFC1918_def VPN_CIDR_def LOCALHOST_V4_def split: option.splits list.splits if_splits)

section \<open>Properties\<close>

text \<open>
  Every enabled rule of a rendered document stands as a line of its own in the ruleset, exactly as
  the renderer prints it, and the ruleset of a document is the ruleset of its enabled rules: a disabled
  rule leaves no trace.
\<close>

theorem ruleset_lists_enabled_rules:
  assumes "render s = Inr t"
  shows "(\<forall>r\<in>set (rules_of s). rl_enabled r \<longrightarrow>
      (\<exists>l. renderAllowRule r = Inr l \<and> contains t (nl @ l @ nl))) \<and>
    render (s\<lparr>fs_base := filter rl_enabled (fs_base s), fs_discovered := filter rl_enabled (fs_discovered s)\<rparr>) = Inr t"
proof
  from render_chains [OF assms] obtain b d pre post where
    b: "rules_body ''    # (no enabled base rules)'' (filter rl_enabled (fs_base s)) = Inr b"
    and d: "rules_body ''    # (no enabled discovered rules)'' (filter rl_enabled (fs_discovered s)) = Inr d"
    and t: "t = join nl (pre @ [''  chain base_input {'', b, ''  }'', [], ''  chain discovered_input {'', d, ''  }''] @ post)"
    by metis
  have inb: "sublist (nl @ b @ nl) t"
    unfolding t using inner_line [of "pre @ [''  chain base_input {'']" "[''  }'', [], ''  chain discovered_input {'', d, ''  }''] @ post" nl b]
    by simp
  have ind: "sublist (nl @ d @ nl) t"
    unfolding t using inner_line [of "pre @ [''  chain base_input {'', b, ''  }'', [], ''  chain discovered_input {'']" "''  }'' # post" nl d]
    by simp
  show "\<forall>r\<in>set (rules_of s). rl_enabled r \<longrightarrow> (\<exists>l. renderAllowRule r = Inr l \<and> contains t (nl @ l @ nl))"
  proof (intro ballI impI)
    fix r assume "r \<in> set (rules_of s)" "rl_enabled r"
    then consider "r \<in> set (filter rl_enabled (fs_base s))" | "r \<in> set (filter rl_enabled (fs_discovered s))"
      by (auto simp: rules_of_def)
    then show "\<exists>l. renderAllowRule r = Inr l \<and> contains t (nl @ l @ nl)"
      unfolding contains_sublist
      using rules_body_line [OF b] rules_body_line [OF d] inb ind by (cases; metis sublist_order.order_trans)
  qed
  show "render (s\<lparr>fs_base := filter rl_enabled (fs_base s), fs_discovered := filter rl_enabled (fs_discovered s)\<rparr>) = Inr t"
    using assms by (simp add: render_def bridgeFromState_def renderContainerEgress_def renderNatPostrouting_def
        protectedUpstreams_def renderProtectedUpstreams_def)
qed

theorem ruleset_lists_enabled_rules_witness:
  "\<exists>t. render (defaultState env0) = Inr t \<and>
    contains t (nl @ ''    tcp dport 22 accept comment '' @ dq @ ''base-ssh: ssh'' @ dq @ nl)"
proof -
  have "network_ok (defaultState env0)" by (simp add: network_ok_def defaultState_def)
  then obtain t where t: "render (defaultState env0) = Inr t"
    using render_exists [OF fw_ok_default] by blast
  let ?r = "base_rule ''base-ssh'' 22 ''tcp'' True ''ssh'' 1767225600000"
  have "?r \<in> set (rules_of (defaultState env0))" "rl_enabled ?r"
    by (simp_all add: rules_of_def defaultState_def DEFAULT_BASE_def base_rule_def)
  with ruleset_lists_enabled_rules [OF t] obtain l where
    "renderAllowRule ?r = Inr l" "contains t (nl @ l @ nl)" by blast
  moreover have "renderAllowRule ?r = Inr (''    tcp dport 22 accept comment '' @ dq @ ''base-ssh: ssh'' @ dq)" by code_simp
  ultimately show ?thesis using t by auto
qed

text \<open>
  Only a rule whose scope is public and that has no explicit source CIDRs is rendered without a
  source match; and whatever the operator put in the id and the reason, the rendered line has exactly
  the two double quotes around its comment, so the text cannot leave it.
\<close>

theorem rule_line_closed:
  assumes "renderAllowRule r = Inr l" and "rl_proto r \<in> {''tcp'', ''udp''}"
    and "\<forall>c\<in>set (case rl_source_cidrs r of None \<Rightarrow> [] | Some cs \<Rightarrow> cs). CHR 0x22 \<notin> set c"
  shows "count_list l (CHR 0x22) = 2 \<and>
    (prefix ''    ip saddr { '' l \<longleftrightarrow> \<not> (rl_scope r = ''public'' \<and> rl_source_cidrs r \<in> {None, Some []}))"
proof -
  have p: "prefix ''tcp'' (portMatch r) \<or> prefix ''udp'' (portMatch r)"
    using assms(2) by (auto simp: portMatch_def split: option.split)
  obtain so where so: "sourcesFor r = Inr so" using assms(1) by (auto simp: renderAllowRule_def bindR_Inr_iff)
  show ?thesis
  proof (cases so)
    case None
    with so have "rl_scope r = ''public'' \<and> rl_source_cidrs r \<in> {None, Some []}"
      by (auto simp: sourcesFor_def split: option.splits list.splits if_splits)
    moreover from None so assms(1) have l: "l = ''    '' @ portMatch r @ '' accept '' @ rule_comment r" by (simp add: renderAllowRule_def)
    moreover from p have "\<not> prefix ''    ip saddr { '' l" unfolding l by (auto simp: prefix_def)
    ultimately show ?thesis by (simp add: portMatch_quote [OF assms(2)] rule_comment_quotes)
  next
    case (Some ss)
    with so have "\<not> (rl_scope r = ''public'' \<and> rl_source_cidrs r \<in> {None, Some []})"
      by (auto simp: sourcesFor_def split: option.splits list.splits if_splits)
    moreover from Some so assms(1)
    have l: "l = ''    ip saddr { '' @ join '', '' ss @ '' } '' @ portMatch r @ '' accept '' @ rule_comment r" by (simp add: renderAllowRule_def)
    moreover have "CHR 0x22 \<notin> set (join '', '' ss)" using sourcesFor_quote so Some assms(3) by (intro join_quote) blast
    ultimately show ?thesis by (simp add: portMatch_quote [OF assms(2)] rule_comment_quotes)
  qed
qed

theorem rule_line_closed_witness:
  "\<exists>l. renderAllowRule ((base_rule ''x'' 22 ''tcp'' True ''a'' 0)\<lparr>rl_reason := Some (dq @ '' accept'')\<rparr>) = Inr l \<and>
    count_list l (CHR 0x22) = 2"
proof -
  let ?r = "(base_rule ''x'' 22 ''tcp'' True ''a'' 0)\<lparr>rl_reason := Some (dq @ '' accept'')\<rparr>"
  obtain l where l: "renderAllowRule ?r = Inr l"
    by (simp add: renderAllowRule_def sourcesFor_def base_rule_def)
  from rule_line_closed [OF this] show ?thesis using l by (simp add: base_rule_def)
qed

end
