(* ===== verification/Fw_Converge.thy ===== *)
theory Fw_Converge
  imports Fw_Ruleset
begin

text \<open>
  When a reconcile succeeds. The other theorems on the reconcile say what a run means when it returns; here
  it is shown to return, and to apply the ruleset, on every consistent store whose SSH port is reachable, as long
  as \<open>nft\<close> accepts what it is given.
\<close>

text \<open>The host lets the process write its files and \<open>nft\<close> exits with 0.\<close>

definition nft_works :: "env \<Rightarrow> bool" where
  "nft_works env \<longleftrightarrow> (\<forall>p. env_write_error env p = None) \<and>
     (\<forall>cs args inp. pr_status (env_spawn env cs (Cmd ''nft'' args inp)) = Some 0)"

lemma resolved_ok: "fw_ok s \<Longrightarrow> fw_ok (fst (resolveVpnSources ps s))"
  by (simp add: fw_ok_def ids_def rules_of_resolve list_all_iff rule_ok_def ports_ok_def o_def)

lemma resolved_network: "network_ok (fst (resolveVpnSources ps s)) = network_ok s"
  by (simp add: network_ok_def)

lemma apply_completes:
  assumes "nft_works env"
  shows "\<exists>w'. apply_and_record env actor panic rs digest n ws w = (Inr (accepted False rs digest n ws), w')"
  using assms by (simp add: nft_works_def apply_and_record_def applyRuleset_def with_temp_file_def mkdirs_def nft_def
      recordReconcile_def)

lemma reconcile_completes:
  assumes "fw_holds w s" and "network_ok s" and "lockoutCheck s = Lockout_ok" and "nft_works env"
  shows "\<exists>r w'. reconcile env False force actor w = (Inr r, w') \<and> rr_ok r \<and> rr_applied r \<and> fw_holds w' s"
proof -
  let ?t = "fst (resolveVpnSources (enabled_peers w) s)"
  have "fw_ok s" using assms(1) by (simp add: fw_holds_def)
  then obtain rs where rs: "render ?t = Inr rs"
    using render_exists [OF resolved_ok] assms(2) by (auto simp: resolved_network)
  from reconcile_after_read [OF assms(1) refl rs, of env False force actor] assms(3)
  have "reconcile env False force actor w = apply_and_record env actor (fs_panic_close ?t) rs (checksum env rs) (rule_count ?t)
      (snd (resolveVpnSources (enabled_peers w) s)) w"
    by (simp add: lockout_resolve)
  then obtain r w' where r: "reconcile env False force actor w = (Inr r, w')" "rr_ok r" "rr_applied r"
    using apply_completes [OF assms(4)] by (fastforce simp: accepted_def)
  have "fw_holds w' s" using preservesD [OF reconcile_keeps_doc assms(1) r(1)] .
  with r show ?thesis by blast
qed

lemma default_network: "network_ok (defaultState env)"
  by (simp add: network_ok_def defaultState_def)

lemma default_lockout: "lockoutCheck (defaultState env) = Lockout_ok"
  unfolding lockoutCheck_ok_iff
  by (rule bexI [of _ "base_rule ''base-ssh'' 22 ''tcp'' True ''ssh'' (env_now env)"])
    (simp_all add: covers_ssh_def ssh_reachable_def rules_of_def defaultState_def DEFAULT_BASE_def base_rule_def)

lemma env0_nft_works: "nft_works env0"
  by (simp add: nft_works_def)

end
