(* ===== verification/Fw_Renderable.thy ===== *)
theory Fw_Renderable
  imports Fw_Lockdown Fw_Converge
begin

text \<open>
  The settings the renderer validates (bridge, NAT interface, protected upstreams) stay valid whatever the operator
  does: the NAT interface comes from a pattern with the renderer's alphabet and length, and a protected upstream is
  only stored after the document with it has been rendered.
\<close>

definition renderable :: "fw_state \<Rightarrow> bool" where
  "renderable s \<longleftrightarrow> network_ok s \<and> base_named (base_ids s)"

lemma renderable_upd [simp]:
  "renderable (s\<lparr>fs_container_egress := e\<rparr>) = renderable s" "renderable (s\<lparr>fs_discovered := d\<rparr>) = renderable s"
  "renderable (s\<lparr>fs_panic_close := p\<rparr>) = renderable s"
  by (simp_all add: renderable_def network_ok_def)

lemma renderable_replace: "fw_ok s \<Longrightarrow> rl_id r = i \<Longrightarrow> renderable s \<Longrightarrow> renderable (replace_rule i r s)"
  by (simp add: renderable_def network_ok_def base_ids_def base_ids_replace_rule fw_okD)

lemma renderable_panic: "renderable s \<Longrightarrow> renderable (panic_doc env a s)"
proof -
  have "network_ok (panic_doc env a s) = network_ok s" by (simp add: network_ok_def panic_doc_def)
  then show "renderable s \<Longrightarrow> renderable (panic_doc env a s)" by (simp add: renderable_def)
qed

lemma renderable_default: "renderable (defaultState env)"
  by (simp add: renderable_def default_network)

section \<open>The NAT interface\<close>

lemma dev_run_tag: "dev_run n b = Some d \<Longrightarrow> n \<le> 15 \<Longrightarrow> IFACE_RE d"
proof (induction n)
  case (Suc n)
  show ?case
  proof (cases "Suc n \<le> length (takeWhile is_tag b) \<and> is_word (b ! n) \<noteq> (Suc n < length b \<and> is_word (b ! Suc n))")
    case True
    then have d: "d = take (Suc n) b" using Suc.prems(1) by simp
    have "take (Suc n) b = take (Suc n) (takeWhile is_tag b)" using True
      by (metis append_eq_conv_conj length_takeWhile_le min.absorb1 take_all_iff take_take takeWhile_eq_take)
    then have "list_all is_tag d" unfolding d list_all_iff by (metis in_set_takeD set_takeWhileD)
    moreover have "length d = Suc n" using True length_takeWhile_le [of is_tag b] by (simp add: d)
    ultimately show ?thesis using Suc.prems(2) by (simp add: IFACE_RE_def)
  next
    case False
    then have "dev_run n b = Some d" using Suc.prems(1) by (simp only: dev_run.simps if_False)
    with Suc show ?thesis by simp
  qed
qed simp

lemma match_dev_tag: "match_dev pw s = Some d \<Longrightarrow> IFACE_RE d"
  by (induction pw s rule: match_dev.induct) (auto simp: Let_def dest: dev_run_tag split: option.splits if_splits)

lemma detectDefaultIface_ok: "detectDefaultIface env w = (Inr d, w') \<Longrightarrow> IFACE_RE d"
  by (auto simp: detectDefaultIface_def Let_def json_dev_def dest: match_dev_tag split: option.splits if_splits)

lemma bring_up_iface: "bring_up env ep p dns w = (Inr (iface, key), w') \<Longrightarrow> IFACE_RE iface"
  by (auto simp: bring_up_def eff_inv dest: detectDefaultIface_ok)

lemma renderable_nat: "IFACE_RE i \<Longrightarrow> renderable s \<Longrightarrow> renderable (with_nat_iface i s)" "renderable s \<Longrightarrow> renderable (without_nat_iface s)"
  by (auto simp: renderable_def network_ok_def with_nat_iface_def without_nat_iface_def split: option.splits)

section \<open>The protected upstreams\<close>

lemma protectedUpstreams_ok:
  "protectedUpstreams s = Inr es \<Longrightarrow> fs_protected_upstreams s = Some xs \<Longrightarrow> length xs \<le> 20 \<and> list_all protected_ok xs"
proof -
  have "mapR (\<lambda>e. if protected_ok e then Inr e else Inl (Fw Invalid_protected_entry)) ys = Inr zs \<Longrightarrow> list_all protected_ok ys" for ys zs
    by (induction ys arbitrary: zs) (auto simp: bindR_Inr_iff split: if_splits)
  then show "protectedUpstreams s = Inr es \<Longrightarrow> fs_protected_upstreams s = Some xs \<Longrightarrow> length xs \<le> 20 \<and> list_all protected_ok xs"
    by (auto simp: protectedUpstreams_def split: if_splits)
qed

lemma render_upstreams: "render s = Inr t \<Longrightarrow> \<exists>es. protectedUpstreams s = Inr es"
  by (auto simp: render_def bindR_Inr_iff renderProtectedUpstreams_def Let_def split: prod.splits)

lemma checked_renderable:
  assumes "checkIngressRuleset env (s\<lparr>fs_protected_upstreams := Some xs\<rparr>) w = (Inr u, w')" and "renderable s"
  shows "renderable (s\<lparr>fs_protected_upstreams := Some xs\<rparr>)"
proof -
  obtain t where "render (s\<lparr>fs_protected_upstreams := Some xs\<rparr>) = Inr t" using assms(1) by (auto simp: checkIngressRuleset_def eff_inv)
  from render_upstreams [OF this] obtain es where "protectedUpstreams (s\<lparr>fs_protected_upstreams := Some xs\<rparr>) = Inr es" by blast
  from protectedUpstreams_ok [OF this] assms(2) show ?thesis by (simp add: renderable_def network_ok_def)
qed

section \<open>Every operation\<close>

lemma bindE_ret_unit: "bindE m ret = m"
  by (rule ext) (simp add: bindE_def split: prod.split sum.split)

lemma renderable_toggle:
  "preserves (doc_inv renderable) (fw_enable env i sc cidrs sv actor)" "preserves (doc_inv renderable) (fw_disable env i actor)"
  "preserves (doc_inv renderable) (setScope env i scope cidrs sv actor)" "preserves (doc_inv renderable) (setPort env i p pe actor)"
  "preserves (doc_inv renderable) (addManual env a)" "preserves (doc_inv renderable) (addServiceL4 env i a)"
  "preserves (doc_inv renderable) (removeServiceL4 env i actor)" "preserves (doc_inv renderable) (removeManual env i actor)"
proof -
  note mut = doc_mutate [of _ renderable, OF _ renderable_replace]
  show "preserves (doc_inv renderable) (fw_enable env i sc cidrs sv actor)"
    unfolding fw_enable_def by (rule mut [OF enable_mut.rule_mutator_axioms])
  show "preserves (doc_inv renderable) (fw_disable env i actor)"
    unfolding fw_disable_def by (rule mut [OF disable_mut.rule_mutator_axioms])
  show "preserves (doc_inv renderable) (setScope env i scope cidrs sv actor)"
    unfolding setScope_def by (intro preserves_guard_then mut set_scope_mutator)
  show "preserves (doc_inv renderable) (setPort env i p pe actor)"
    unfolding setPort_def by (intro preserves_guard_then mut set_port_mutator) (auto dest!: port_in_num_val split: option.splits)
  show "preserves (doc_inv renderable) (addManual env a)"
    unfolding addManual_def Let_def by (intro preserves_lift_then doc_add) auto
  show "preserves (doc_inv renderable) (addServiceL4 env i a)"
    unfolding addServiceL4_def Let_def by (intro preserves_lift_then preserves_guard_then doc_add) auto
  show "preserves (doc_inv renderable) (removeServiceL4 env i actor)" "preserves (doc_inv renderable) (removeManual env i actor)"
    unfolding removeServiceL4_def removeManual_def by (intro doc_remove; simp)+
qed

lemma renderable_ops:
  "preserves (doc_inv renderable) (panicClose env actor)" "preserves (doc_inv renderable) (panicOpen env actor)"
  "preserves (doc_inv renderable) (allowEgress env c sv r j a)" "preserves (doc_inv renderable) (denyEgress env c sv a)"
  "preserves (doc_inv renderable) (bootCheckIngress env)"
  unfolding panicClose_def panicOpen_def allowEgress_def denyEgress_def bootCheckIngress_def Let_def
  by (intro preserves_guard_then doc_read preserves_intros doc_write doc_reconcile; simp add: renderable_panic)+

lemma renderable_scan: "preserves (doc_inv renderable) (scan env)"
  by (rule doc_scan) (simp_all add: renderable_def network_ok_def)

lemma renderable_ingress:
  "preserves (doc_inv renderable) (protectIngress env inp)" "preserves (doc_inv renderable) (removeIngress env rid)"
proof -
  have stored: "preserves (doc_inv renderable) (bindE (checkIngressRuleset env (s\<lparr>fs_protected_upstreams := Some xs\<rparr>))
      (\<lambda>_. bindE (writeState env (s\<lparr>fs_protected_upstreams := Some xs\<rparr>)) k))"
    if "fw_ok s" "renderable s" "\<And>u. preserves (doc_inv renderable) (k u)" for s xs and k :: "unit \<Rightarrow> 'a io"
  proof (rule preserves_bind_val)
    show "preserves (doc_inv renderable) (checkIngressRuleset env (s\<lparr>fs_protected_upstreams := Some xs\<rparr>))"
      by (intro preserves_intros) simp_all
    fix u w w' assume "checkIngressRuleset env (s\<lparr>fs_protected_upstreams := Some xs\<rparr>) w = (Inr u, w')"
    from checked_renderable [OF this that(2)] that(1,3)
    show "preserves (doc_inv renderable) (bindE (writeState env (s\<lparr>fs_protected_upstreams := Some xs\<rparr>)) k)"
      by (intro preserves_bindE doc_write) simp_all
  qed
  have added: "preserves (doc_inv renderable) (bindE (checkIngressRuleset env (s\<lparr>fs_protected_upstreams := Some xs\<rparr>))
      (\<lambda>_. writeState env (s\<lparr>fs_protected_upstreams := Some xs\<rparr>)))" if "fw_ok s" "renderable s" for s xs
    using stored [OF that, of ret xs] by (simp add: bindE_ret_unit preserves_ret)
  show "preserves (doc_inv renderable) (removeIngress env rid)"
    unfolding removeIngress_def Let_def
    by (intro doc_read preserves_option stored preserves_intros doc_reconcile; simp)
  show "preserves (doc_inv renderable) (protectIngress env inp)"
    unfolding protectIngress_def Let_def
    by (intro doc_read added preserves_intros doc_reconcile; simp)
qed

lemma renderable_server:
  "preserves (doc_inv renderable) (vpn_enable env ep p dns a)" "preserves (doc_inv renderable) (setListenPort env p a)"
  "preserves (doc_inv renderable) (vpn_disable env a)"
proof -
  have fw: "preserves (doc_inv renderable) (open_firewall env iface a)" if "IFACE_RE iface" for iface
    unfolding open_firewall_def setNatIface_def
    by (intro renderable_toggle doc_read preserves_intros doc_write doc_reconcile; simp add: renderable_nat that)
  have after: "preserves (doc_inv renderable) (bindE (bring_up env ep n dns) (\<lambda>(iface, key). bindE (open_firewall env iface a) (k iface key)))"
    if "\<And>iface key u. preserves (doc_inv renderable) (k iface key u)" for ep n and k :: "string \<Rightarrow> string \<Rightarrow> unit \<Rightarrow> 'a io"
  proof (rule preserves_bind_val)
    show "preserves (doc_inv renderable) (bring_up env ep n dns)" by (intro preserves_intros) simp_all
    show "preserves (doc_inv renderable) (case x of (iface, key) \<Rightarrow> bindE (open_firewall env iface a) (k iface key))"
      if "bring_up env ep n dns w = (Inr x, w')" for x w w'
      using that \<open>\<And>iface key u. preserves (doc_inv renderable) (k iface key u)\<close>
      by (cases x) (auto intro!: preserves_bindE fw dest: bring_up_iface)
  qed
  show "preserves (doc_inv renderable) (vpn_enable env ep p dns a)"
    unfolding vpn_enable_def Let_def by (intro after preserves_intros; simp)
  show "preserves (doc_inv renderable) (setListenPort env p a)"  "preserves (doc_inv renderable) (vpn_disable env a)"
  unfolding setListenPort_def vpn_disable_def align_firewall_def clearNatIface_def Let_def
  by (intro renderable_toggle doc_read preserves_intros doc_write doc_read_only doc_reconcile; simp add: renderable_nat)+
qed

end
