(* ===== verification/Vpn_Safety.thy ===== *)
theory Vpn_Safety
  imports Vpn_Pool Fw_Safety PP_Lines
begin

text \<open>
  What the VPN operations promise: addresses are handed out lowest first and never twice, the
  server configuration lists the enabled peers and nobody else, the guards against locking everybody
  out, the order in which the server is brought up, and the alignment of port, endpoint and firewall.
\<close>

section \<open>Allocation\<close>

definition seeded_pool :: "world \<Rightarrow> pool_row list" where
  "seeded_pool w = (if w_pool w = [] then seeded else w_pool w)"

lemma free_of_seeded_pool:
  assumes "vpn_inv w"
  shows "free_ips (seeded_pool w) = set POOL_IPS - pe_allowed_ip ` set (w_peers w)"
proof -
  let ?v = "if w_pool w = [] then w\<lparr>w_pool := seeded\<rparr> else w"
  have v: "vpn_inv ?v" using assms by (rule vpn_inv_seed)
  have ne: "w_pool ?v \<noteq> []" by (simp add: seeded_def POOL_IPS_def upt_rec)
  with v have "map pl_ip (w_pool ?v) = POOL_IPS" by (auto simp: vpn_inv_def pool_ok_def)
  then have "pool_ips (w_pool ?v) = set POOL_IPS" by (metis pool_ips_def list.set_map)
  moreover have "seeded_pool w = w_pool ?v" by (simp add: seeded_pool_def)
  ultimately show ?thesis using v by (simp add: vpn_inv_def pool_ok_def split: if_splits)
qed

text \<open>The row a new peer gets, and what the transaction does with it.\<close>

definition new_peer :: "env \<Rightarrow> int \<Rightarrow> string \<Rightarrow> string \<Rightarrow> string \<Rightarrow> string \<Rightarrow> string list option \<Rightarrow> string option \<Rightarrow> peer" where
  "new_peer env i name key ip scope services actor =
     \<lparr>pe_id = i, pe_name = name, pe_public_key = key, pe_allowed_ip = ip, pe_scope = scope, pe_services = services,
       pe_status = ''enabled'', pe_created_at = env_now env, pe_created_by = actor, pe_rotated_at = None, pe_disabled_at = None\<rparr>"

definition new_peer_fits :: "world \<Rightarrow> string \<Rightarrow> string \<Rightarrow> string \<Rightarrow> bool" where
  "new_peer_fits w name key scope \<longleftrightarrow>
     name \<notin> pe_name ` set (w_peers w) \<and> key \<notin> pe_public_key ` set (w_peers w) \<and> scope \<in> set PEER_SCOPES"

lemma allocate_peer_result:
  "allocate_peer env name key scope services actor w =
    (case pickFreeIp (seeded_pool w) of
       None \<Rightarrow> (Inl (Vpn Pool_exhausted), w)
     | Some ip \<Rightarrow>
         if new_peer_fits w name key scope \<and> ip \<notin> pe_allowed_ip ` set (w_peers w)
         then (Inr (w_peer_seq w + 1, ip),
           w\<lparr>w_peer_seq := w_peer_seq w + 1,
             w_peers := w_peers w @ [new_peer env (w_peer_seq w + 1) name key ip scope services actor],
             w_pool := claimIp ip (w_peer_seq w + 1) (seeded_pool w)\<rparr>)
         else (Inl (Sys Sqlite_constraint), w))"
proof (cases "w_pool w = []")
  case True
  then show ?thesis
    by (auto simp: allocate_peer_def seed_apply seeded_pool_def insert_peer_def txE_def bindE_def guardE_def new_peer_fits_def
        new_peer_def split: option.splits)
next
  case False
  then show ?thesis
    by (auto simp: allocate_peer_def seed_apply seeded_pool_def insert_peer_def txE_def bindE_def guardE_def new_peer_fits_def
        new_peer_def split: option.splits)
qed

section \<open>Lines of wg0.conf\<close>

definition wg_text_ok :: "string \<Rightarrow> bool" where
  "wg_text_ok s \<longleftrightarrow> newline \<notin> set s"

definition wg_peer_ok :: "peer \<Rightarrow> bool" where
  "wg_peer_ok p \<longleftrightarrow> wg_text_ok (pe_name p) \<and> wg_text_ok (pe_public_key p) \<and> wg_text_ok (pe_allowed_ip p)"

definition conf_head :: "env \<Rightarrow> string \<Rightarrow> int \<Rightarrow> string \<Rightarrow> string list" where
  "conf_head env priv port ip =
     [''# Generated by ProxyPilot VPN manager. Do not edit by hand.'',
      ''# NAT/forwarding live in nft table inet proxypilot, chain nat_postrouting.'',
      ''[Interface]'', ''Address = '' @ ip, ''MTU = '' @ show_int (resolveMtu env None),
      ''ListenPort = '' @ show_int port, ''PrivateKey = '' @ priv]"

lemma show_int_newline: "newline \<notin> set (show_int i)"
proof -
  have "\<not> is_digit newline" by (simp add: newline_def class_defs)
  from show_nat_no_char [OF this] show ?thesis by (simp add: show_int_def newline_def)
qed

lemma conf_lines:
  assumes "wg_text_ok priv" and "wg_text_ok ip" and "\<forall>p\<in>set ps. wg_peer_ok p"
  shows "split_on newline (renderWg0Conf env priv port ip ps) = conf_head env priv port ip @ concat (map peer_block ps) @ [[]]"
proof -
  let ?ls = "conf_head env priv port ip @ concat (map peer_block ps)"
  have "newline \<notin> set l" if "l \<in> set (peer_block p)" "wg_peer_ok p" for l p
    using that by (auto simp: peer_block_def wg_peer_ok_def wg_text_ok_def newline_def)
  moreover have "newline \<notin> set l" if "l \<in> set (conf_head env priv port ip)" for l
  proof -
    have "list_all (\<lambda>l. newline \<notin> set l) (conf_head env priv port ip)"
      using assms(1,2) show_int_newline by (simp add: conf_head_def wg_text_ok_def newline_def)
    with that show ?thesis by (simp add: list_all_iff)
  qed
  ultimately have "\<And>l. l \<in> set ?ls \<Longrightarrow> newline \<notin> set l" using assms(3) by auto
  moreover have "?ls \<noteq> []" by (simp add: conf_head_def)
  ultimately have "split_on newline (join [newline] ?ls) = ?ls" by (intro split_on_join) auto
  moreover have "renderWg0Conf env priv port ip ps = join [newline] ?ls @ [newline]"
    by (simp only: renderWg0Conf_def conf_head_def nl_def [folded newline_def])
  ultimately show ?thesis by (simp add: split_on_snoc)
qed

lemma key_line_iff:
  "''PublicKey = '' @ k \<in> set (conf_head env priv port ip @ concat (map peer_block ps) @ [[]]) \<longleftrightarrow> (\<exists>p\<in>set ps. pe_public_key p = k)"
proof -
  have "''PublicKey = '' @ k \<in> set (peer_block p) \<longleftrightarrow> pe_public_key p = k" for p by (auto simp: peer_block_def)
  moreover have "''PublicKey = '' @ k \<notin> set (conf_head env priv port ip)" by (simp add: conf_head_def)
  ultimately show ?thesis by auto
qed

section \<open>The peer table after an operation\<close>

lemma readPeerByName_sel: "readPeerByName name w = Some p \<Longrightarrow> p \<in> set (w_peers w) \<and> pe_name p = name"
  by (auto simp: readPeerByName_def find_Some_iff)

lemma need_peer_found: "readPeerByName name w = Some p \<Longrightarrow> need_peer name w = (Inr p, w)"
  by (simp add: need_peer_def)

lemma preserves_peers_after: "preserves (\<lambda>w. w_peers w = ps) (reconcileAfterPeerMutation env actor)"
proof (rule preserves_after_mutation)
  show "layer_frame (\<lambda>w. w_peers w = ps)" by (simp add: layer_frame_def)
  show "preserves (\<lambda>w. w_peers w = ps) (readState env)" by (intro preserves_intros) simp_all
qed

lemma disablePeer_peers:
  assumes "disablePeer env name force actor w = (Inr (Some ls), w')"
  obtains p where "readPeerByName name w = Some p" "pe_status p \<noteq> ''disabled''"
    "w_peers w' = map (\<lambda>q. if pe_id q = pe_id p then q\<lparr>pe_status := ''disabled'', pe_disabled_at := Some (env_now env)\<rparr> else q) (w_peers w)"
proof -
  from assms obtain p where p: "readPeerByName name w = Some p" "pe_status p \<noteq> ''disabled''"
    by (auto simp: disablePeer_def eff_inv need_peer_def split: option.splits if_splits)
  let ?v = "w\<lparr>w_peers := map (\<lambda>q. if pe_id q = pe_id p then q\<lparr>pe_status := ''disabled'', pe_disabled_at := Some (env_now env)\<rparr> else q) (w_peers w)\<rparr>"
  let ?rest = "bindE (converge_wg0 env (pe_public_key p)) (\<lambda>_.
       bindE (audit env ''vpn'' ''peer.disable'' (Some name) actor
         (Some (JObj [(''status'', JStr (pe_status p))])) (Some (status_json ''disabled'' p)) None) (\<lambda>_.
       bindE (reconcileAfterPeerMutation env actor) (\<lambda>layers. ret (Some layers))))"
  have run: "?rest ?v = (Inr (Some ls), w')"
    using assms p by (auto simp: disablePeer_def eff_inv need_peer_found)
  have "preserves (\<lambda>w. w_peers w = w_peers ?v) ?rest"
    by (intro preserves_intros preserves_peers_after; simp)
  from preservesD [OF this refl run] have "w_peers w' = w_peers ?v" .
  with p that show ?thesis by simp
qed

lemma enablePeer_peers:
  assumes "enablePeer env name actor w = (Inr (Some ls), w')"
  obtains p where "readPeerByName name w = Some p" "pe_status p \<noteq> ''enabled''"
    "w_peers w' = map (\<lambda>q. if pe_id q = pe_id p then q\<lparr>pe_status := ''enabled'', pe_disabled_at := None\<rparr> else q) (w_peers w)"
proof -
  from assms obtain p where p: "readPeerByName name w = Some p" "pe_status p \<noteq> ''enabled''"
    by (auto simp: enablePeer_def eff_inv need_peer_def split: option.splits if_splits)
  let ?v = "w\<lparr>w_peers := map (\<lambda>q. if pe_id q = pe_id p then q\<lparr>pe_status := ''enabled'', pe_disabled_at := None\<rparr> else q) (w_peers w)\<rparr>"
  let ?rest = "bindE (regenerateWg0 env) (\<lambda>_. bindE (syncconfWg0 env) (\<lambda>_.
       bindE (audit env ''vpn'' ''peer.enable'' (Some name) actor
         (Some (JObj [(''status'', JStr (pe_status p))])) (Some (status_json ''enabled'' p)) None) (\<lambda>_.
       bindE (reconcileAfterPeerMutation env actor) (\<lambda>layers. ret (Some layers)))))"
  have run: "?rest ?v = (Inr (Some ls), w')"
    using assms p by (auto simp: enablePeer_def eff_inv need_peer_found)
  have "preserves (\<lambda>w. w_peers w = w_peers ?v) ?rest"
    by (intro preserves_intros preserves_peers_after; simp)
  from preservesD [OF this refl run] have "w_peers w' = w_peers ?v" .
  with p that show ?thesis by simp
qed

section \<open>Properties\<close>

text \<open>
  C8: on a consistent address pool the allocation of a new peer has exactly three outcomes. When every
  address of \<open>10.100.0.10-254\<close> belongs to a peer, it fails with an exhausted pool; otherwise, when the
  name or the key is taken or the scope is unknown, it fails with the constraint of the table; in
  both cases the host is unchanged. Otherwise it returns the lowest address no peer has: the new row, enabled, is
  appended to the peers, the row of that address in the pool is claimed for it, and nothing else changes.
\<close>

theorem allocation_lowest_free:
  assumes "vpn_inv w" and "allocate_peer env name key scope services actor w = (r, w')"
    and "free = set POOL_IPS - pe_allowed_ip ` set (w_peers w)"
  shows "vpn_inv w' \<and> (case r of
      Inl e \<Rightarrow> w' = w \<and> (if free = {} then e = Vpn Pool_exhausted
        else e = Sys Sqlite_constraint \<and> \<not> new_peer_fits w name key scope)
    | Inr (i, ip) \<Rightarrow> new_peer_fits w name key scope \<and> ip \<in> free \<and> (\<forall>j\<in>free. ip_suffix ip \<le> ip_suffix j) \<and>
        i = w_peer_seq w + 1 \<and>
        w' = w\<lparr>w_peer_seq := i, w_peers := w_peers w @ [new_peer env i name key ip scope services actor],
          w_pool := claimIp ip i (seeded_pool w)\<rparr>)"
proof -
  have inv: "vpn_inv w'" by (rule preservesD [OF allocate_peer_inv assms(1,2)])
  note f = free_of_seeded_pool [OF assms(1), folded assms(3)]
  note res = allocate_peer_result [of env name key scope services actor w, unfolded assms(2)]
  show ?thesis
  proof (cases "pickFreeIp (seeded_pool w)")
    case None
    with res inv show ?thesis by (simp add: pool.pick_none f)
  next
    case (Some ip)
    from pool.pick_lowest [OF Some] have ip: "ip \<in> free" "\<forall>j\<in>free. ip_suffix ip \<le> ip_suffix j" unfolding f by blast+
    then have "ip \<notin> pe_allowed_ip ` set (w_peers w)" and "free \<noteq> {}" using assms(3) by blast+
    with ip res Some inv show ?thesis by (auto split: if_splits)
  qed
qed

lemma vpn_inv_world0: "vpn_inv world0"
  by (simp add: vpn_inv_def peers_ok_def pool_ok_def)

theorem allocation_lowest_free_witness:
  "\<exists>ip. fst (allocate_peer env0 ''ops'' ''K'' ''admin'' None None world0) = Inr (1, ip) \<and> ip \<in> set POOL_IPS \<and>
    (\<exists>p. w_peers (snd (allocate_peer env0 ''ops'' ''K'' ''admin'' None None world0)) = [p] \<and> pe_allowed_ip p = ip)"
proof -
  obtain r w' where run: "allocate_peer env0 ''ops'' ''K'' ''admin'' None None world0 = (r, w')" by fastforce
  have "new_peer_fits world0 ''ops'' ''K'' ''admin''" by (simp add: new_peer_fits_def PEER_SCOPES_def)
  moreover have "POOL_IPS \<noteq> []" by (simp add: POOL_IPS_def upt_rec)
  ultimately show ?thesis using allocation_lowest_free [OF vpn_inv_world0 run refl]
    by (auto simp: run new_peer_def split: sum.splits)
qed

text \<open>
  The server configuration that \<open>regenerateWg0\<close> writes has a \<open>PublicKey\<close> line for a key exactly when
  an enabled peer has that key; a disabled, revoked or removed peer is not in it.
\<close>

theorem conf_lists_enabled_peers:
  assumes "w_vpn_config w = Some cfg" and "w_files w WG_SERVER_PRIVATE = Some k" and "env_write_error env WG_CONFIG_FILE = None"
    and "\<forall>p\<in>set (w_peers w). wg_peer_ok p" and "wg_text_ok (trim k)"
  shows "\<exists>w' t. regenerateWg0 env w = (Inr (), w') \<and> w_files w' WG_CONFIG_FILE = Some t \<and>
    (\<forall>key. ''PublicKey = '' @ key \<in> set (split_on newline t) \<longleftrightarrow>
       (\<exists>p\<in>set (w_peers w). pe_status p = ''enabled'' \<and> pe_public_key p = key))"
proof -
  let ?t = "renderWg0Conf env (trim k) (vc_listen_port cfg) WG_SERVER_IP (readEnabledPeers w)"
  have ps: "set (readEnabledPeers w) = {p \<in> set (w_peers w). pe_status p = ''enabled''}"
    by (auto simp: readEnabledPeers_def enabled_peers_def)
  have ip: "wg_text_ok WG_SERVER_IP" by (simp add: wg_text_ok_def WG_SERVER_IP_def newline_def)
  have "regenerateWg0 env w = (Inr (), w\<lparr>w_files := (w_files w)(WG_CONFIG_FILE \<mapsto> ?t)\<rparr>)"
    using assms(1-3) by (simp add: regenerateWg0_def readVpnConfig_def writeWg0Conf_def)
  moreover have "''PublicKey = '' @ key \<in> set (split_on newline ?t) \<longleftrightarrow>
      (\<exists>p\<in>set (w_peers w). pe_status p = ''enabled'' \<and> pe_public_key p = key)" for key
  proof -
    have "\<forall>p\<in>set (readEnabledPeers w). wg_peer_ok p" using assms(4) ps by blast
    from conf_lines [OF assms(5) ip this] show ?thesis
      unfolding key_line_iff [of key env "trim k" "vc_listen_port cfg" WG_SERVER_IP "readEnabledPeers w", symmetric] ps
      by (simp only: key_line_iff ps) blast
  qed
  ultimately show ?thesis by fastforce
qed

definition w_vpn :: world where
  "w_vpn = world0\<lparr>w_vpn_config := Some \<lparr>vc_server_public_key = ''S'', vc_endpoint = ''vpn.example.org:49000'', vc_listen_port = 49000,
     vc_cidr = ''10.100.0.0/24'', vc_default_iface = ''eth0'', vc_dns = ''10.100.0.1''\<rparr>,
     w_files := [WG_SERVER_PRIVATE \<mapsto> ''sk'' @ nl],
     w_peers := [\<lparr>pe_id = 1, pe_name = ''ops'', pe_public_key = ''K1'', pe_allowed_ip = ''10.100.0.10'', pe_scope = ''admin'',
       pe_services = None, pe_status = ''enabled'', pe_created_at = 0, pe_created_by = None, pe_rotated_at = None,
       pe_disabled_at = None\<rparr>], w_peer_seq := 1\<rparr>"

theorem conf_lists_enabled_peers_witness:
  "\<exists>w' t. regenerateWg0 env0 w_vpn = (Inr (), w') \<and> w_files w' WG_CONFIG_FILE = Some t \<and>
    ''PublicKey = '' @ ''K1'' \<in> set (split_on newline t)"
proof -
  obtain cfg where c: "w_vpn_config w_vpn = Some cfg" by (simp add: w_vpn_def)
  have k: "w_files w_vpn WG_SERVER_PRIVATE = Some (''sk'' @ nl)" by (simp add: w_vpn_def)
  have "\<forall>p\<in>set (w_peers w_vpn). wg_peer_ok p" "wg_text_ok (trim (''sk'' @ nl))" by code_simp+
  from conf_lists_enabled_peers [OF c k _ this, of env0] obtain w' t where
    "regenerateWg0 env0 w_vpn = (Inr (), w')" "w_files w' WG_CONFIG_FILE = Some t"
    "''PublicKey = '' @ ''K1'' \<in> set (split_on newline t) \<longleftrightarrow>
      (\<exists>p\<in>set (w_peers w_vpn). pe_status p = ''enabled'' \<and> pe_public_key p = ''K1'')" by auto
  moreover have "\<exists>p\<in>set (w_peers w_vpn). pe_status p = ''enabled'' \<and> pe_public_key p = ''K1''" by (simp add: w_vpn_def)
  ultimately show ?thesis by blast
qed

text \<open>
  Without \<open>--force\<close> the last enabled peer can be neither disabled nor removed: both calls fail and
  leave the host unchanged.
\<close>

theorem last_peer_guard:
  assumes "PEER_NAME_RE name" and "readPeerByName name w = Some p" and "pe_status p = ''enabled''" and "countEnabledPeers w = 1"
  shows "disablePeer env name False actor w = (Inl (Vpn (Last_enabled_peer name)), w) \<and>
    removePeer env name False actor w = (Inl (Vpn (Last_enabled_peer name)), w)"
  using assms readPeerByName_sel [OF assms(2)]
  by (simp add: disablePeer_def removePeer_def remove_gate_def validatePeerName_def need_peer_found bindE_def guardE_def)

theorem last_peer_guard_witness:
  "disablePeer env0 ''ops'' False None w_vpn = (Inl (Vpn (Last_enabled_peer ''ops'')), w_vpn)"
proof -
  obtain p where p: "readPeerByName ''ops'' w_vpn = Some p" "pe_status p = ''enabled''" by (simp add: readPeerByName_def w_vpn_def)
  have "PEER_NAME_RE ''ops''" by code_simp
  moreover have "countEnabledPeers w_vpn = 1" by (simp add: countEnabledPeers_def enabled_peers_def w_vpn_def)
  ultimately show ?thesis using last_peer_guard [OF _ p, of env0 None] by blast
qed

text \<open>
  C34: disabling an enabled peer and enabling it again gives back the same peer table.
\<close>

theorem disable_enable_round_trip:
  assumes "distinct (map pe_name (w_peers w))" and "distinct (map pe_id (w_peers w))"
    and "readPeerByName name w = Some p" and "pe_status p = ''enabled''" and "pe_disabled_at p = None"
    and "disablePeer env name force actor w = (Inr (Some ls), w1)" and "enablePeer env' name actor' w1 = (Inr (Some ls'), w2)"
  shows "w_peers w2 = w_peers w"
proof -
  let ?f = "\<lambda>q. if pe_id q = pe_id p then q\<lparr>pe_status := ''disabled'', pe_disabled_at := Some (env_now env)\<rparr> else q"
  from disablePeer_peers [OF assms(6)] assms(3) have w1: "w_peers w1 = map ?f (w_peers w)" by auto
  have p: "p \<in> set (w_peers w)" "pe_name p = name" using readPeerByName_sel [OF assms(3)] by auto
  obtain q where q: "readPeerByName name w1 = Some q" "pe_status q \<noteq> ''enabled''"
    "w_peers w2 = map (\<lambda>x. if pe_id x = pe_id q then x\<lparr>pe_status := ''enabled'', pe_disabled_at := None\<rparr> else x) (w_peers w1)"
    by (rule enablePeer_peers [OF assms(7)])
  from readPeerByName_sel [OF q(1)] w1 obtain x where x: "x \<in> set (w_peers w)" "q = ?f x" "pe_name x = name" by auto
  then have "x = p" using assms(1) p by (auto simp: distinct_map dest: inj_onD)
  then have qi: "pe_id q = pe_id p" using x(2) by simp
  have "(?f y)\<lparr>pe_status := ''enabled'', pe_disabled_at := None\<rparr> = y" if "y \<in> set (w_peers w)" "pe_id y = pe_id p" for y
  proof -
    have "y = p" using that p(1) assms(2) by (auto simp: distinct_map dest: inj_onD)
    then show ?thesis using assms(4,5) by simp
  qed
  then show ?thesis unfolding q(3) w1 qi map_map by (intro map_idI) simp
qed

text \<open>
  A host on which every step of a peer change works: \<open>completes P m\<close> says that \<open>m\<close> returns, without an
  error, from every state with \<open>P\<close>, and keeps \<open>P\<close>.
\<close>

definition completes :: "(world \<Rightarrow> bool) \<Rightarrow> 'a io \<Rightarrow> bool" where
  "completes P m \<longleftrightarrow> (\<forall>w. P w \<longrightarrow> (\<exists>x w'. m w = (Inr x, w') \<and> P w'))"

lemma completesI: "(\<And>w. P w \<Longrightarrow> \<exists>x w'. m w = (Inr x, w') \<and> P w') \<Longrightarrow> completes P m"
  by (simp add: completes_def)

lemma completesD: "completes P m \<Longrightarrow> P w \<Longrightarrow> \<exists>x w'. m w = (Inr x, w') \<and> P w'"
  by (simp add: completes_def)

lemma completes_bind [intro]:
  assumes "completes P m" and "\<And>x. completes P (f x)"
  shows "completes P (bindE m f)"
proof (rule completesI)
  fix w assume "P w"
  then obtain x v where "m w = (Inr x, v)" "P v" using completesD [OF assms(1)] by blast
  then show "\<exists>x w'. bindE m f w = (Inr x, w') \<and> P w'" using completesD [OF assms(2)] by (auto simp: bindE_def)
qed

lemma completes_ret [intro]: "completes P (ret x)"
  by (simp add: completes_def)

definition peer_host :: "world \<Rightarrow> bool" where
  "peer_host w \<longleftrightarrow> (\<exists>c k. w_vpn_config w = Some c \<and> w_files w WG_SERVER_PRIVATE = Some k) \<and> w_fw w = Some Not_json \<and> w_routes w = []"

lemma regenerate_completes [intro]: "completes peer_host (regenerateWg0 env0)"
  by (rule completesI) (auto simp: peer_host_def regenerateWg0_def readVpnConfig_def writeWg0Conf_def)

lemma syncconf_completes [intro]: "completes peer_host (syncconfWg0 env0)"
  by (rule completesI) (auto simp: peer_host_def syncconfWg0_def)

lemma completes_catch:
  assumes "completes P m"
  shows "completes P (catchE m h)"
  using assms by (fastforce simp: completes_def catchE_def)

lemma peer_remove_completes: "completes peer_host (catchE (wgPeerRemove env0 key) (\<lambda>_. ret False))"
  by (rule completesI) (auto simp: peer_host_def wgPeerRemove_def catchE_def bindE_def guardE_def)

lemma converge_completes [intro]: "completes peer_host (converge_wg0 env0 key)"
  unfolding converge_wg0_def
  by (intro completes_bind completes_ret peer_remove_completes completes_catch regenerate_completes syncconf_completes)

lemma audit_completes [intro]: "completes peer_host (audit env s a r ac b f d)"
  by (rule completesI) (simp add: peer_host_def)

text \<open>With an unreadable firewall document and no routes, both reconcile layers only report.\<close>

lemma layers_complete [intro]: "completes peer_host (reconcileAfterPeerMutation env0 a)"
proof (rule completesI)
  fix v assume v: "peer_host v"
  then have "reconcile env0 False False a v = (Inl (Sys Json_syntax), v)" by (simp add: peer_host_def reconcile_def readState_def bindE_def)
  moreover have "\<exists>c l. reconcileVpnRoutes env0 a v = (Inr c, v\<lparr>w_audit := l\<rparr>)" using v
    by (auto simp: peer_host_def reconcileVpnRoutes_def vpn_routes_def)
  ultimately show "\<exists>x w'. reconcileAfterPeerMutation env0 a v = (Inr x, w') \<and> peer_host w'" using v
    by (auto simp: reconcileAfterPeerMutation_def bindE_def catchE_def peer_host_def)
qed

lemma disable_completes:
  assumes "PEER_NAME_RE name" and "readPeerByName name v = Some p" and "pe_status p = ''enabled''" and "peer_host v"
  shows "\<exists>ls v'. disablePeer env0 name True a v = (Inr (Some ls), v') \<and> peer_host v'"
proof -
  let ?v = "v\<lparr>w_peers := map (\<lambda>q. if pe_id q = pe_id p then q\<lparr>pe_status := ''disabled'', pe_disabled_at := Some (env_now env0)\<rparr> else q) (w_peers v)\<rparr>"
  let ?audit = "audit env0 ''vpn'' ''peer.disable'' (Some name) a
      (Some (JObj [(''status'', JStr (pe_status p))])) (Some (status_json ''disabled'' p)) None"
  have "peer_host ?v" using assms(4) by (simp add: peer_host_def)
  then obtain u v1 where v1: "converge_wg0 env0 (pe_public_key p) ?v = (Inr u, v1)" "peer_host v1"
    using completesD [OF converge_completes] by blast
  obtain u' v2 where v2: "?audit v1 = (Inr u', v2)" "peer_host v2" using completesD [OF audit_completes v1(2)] by blast
  obtain ls v3 where v3: "reconcileAfterPeerMutation env0 a v2 = (Inr ls, v3)" "peer_host v3"
    using completesD [OF layers_complete v2(2)] by blast
  have "update_peer (pe_id p) (\<lambda>q. q\<lparr>pe_status := ''disabled'', pe_disabled_at := Some (env_now env0)\<rparr>) v = (Inr (), ?v)"
    by (simp add: update_peer_def)
  then have "disablePeer env0 name True a v = (Inr (Some ls), v3)" using v1 v2(1) v3(1) assms(1-3)
    by (simp add: disablePeer_def validatePeerName_def need_peer_found del: audit_apply env0_sel)
  with v3(2) show ?thesis by blast
qed

lemma enable_completes:
  assumes "PEER_NAME_RE name" and "readPeerByName name v = Some p" and "pe_status p = ''disabled''" and "peer_host v"
  shows "\<exists>ls v'. enablePeer env0 name a v = (Inr (Some ls), v') \<and> peer_host v'"
proof -
  let ?v = "v\<lparr>w_peers := map (\<lambda>q. if pe_id q = pe_id p then q\<lparr>pe_status := ''enabled'', pe_disabled_at := None\<rparr> else q) (w_peers v)\<rparr>"
  let ?audit = "audit env0 ''vpn'' ''peer.enable'' (Some name) a
      (Some (JObj [(''status'', JStr (pe_status p))])) (Some (status_json ''enabled'' p)) None"
  have "peer_host ?v" using assms(4) by (simp add: peer_host_def)
  then obtain u v0 where v0: "regenerateWg0 env0 ?v = (Inr u, v0)" "peer_host v0" using completesD [OF regenerate_completes] by blast
  then obtain u1 v1 where v1: "syncconfWg0 env0 v0 = (Inr u1, v1)" "peer_host v1" using completesD [OF syncconf_completes] by blast
  obtain u' v2 where v2: "?audit v1 = (Inr u', v2)" "peer_host v2" using completesD [OF audit_completes v1(2)] by blast
  obtain ls v3 where v3: "reconcileAfterPeerMutation env0 a v2 = (Inr ls, v3)" "peer_host v3"
    using completesD [OF layers_complete v2(2)] by blast
  have "update_peer (pe_id p) (\<lambda>q. q\<lparr>pe_status := ''enabled'', pe_disabled_at := None\<rparr>) v = (Inr (), ?v)"
    by (simp add: update_peer_def)
  then have "enablePeer env0 name a v = (Inr (Some ls), v3)" using v0(1) v1(1) v2(1) v3(1) assms(1-3)
    by (simp add: enablePeer_def validatePeerName_def need_peer_found del: audit_apply)
  with v3(2) show ?thesis by blast
qed

definition w_bad :: world where
  "w_bad = w_vpn\<lparr>w_fw := Some Not_json\<rparr>"

theorem disable_enable_round_trip_witness:
  "\<exists>ls w1 ls' w2. disablePeer env0 ''ops'' True None w_bad = (Inr (Some ls), w1) \<and>
     enablePeer env0 ''ops'' None w1 = (Inr (Some ls'), w2) \<and> w_peers w2 = w_peers w_bad"
proof -
  have name: "PEER_NAME_RE ''ops''" by code_simp
  obtain p where p: "readPeerByName ''ops'' w_bad = Some p" "pe_status p = ''enabled''" "pe_disabled_at p = None"
    by (simp add: readPeerByName_def w_bad_def w_vpn_def)
  have "peer_host w_bad" by (simp add: peer_host_def w_bad_def w_vpn_def)
  then obtain ls w1 where d: "disablePeer env0 ''ops'' True None w_bad = (Inr (Some ls), w1)" "peer_host w1"
    using disable_completes [OF name p(1,2)] by blast
  obtain q where "w_peers w1 = map (\<lambda>x. if pe_id x = pe_id q then x\<lparr>pe_status := ''disabled'', pe_disabled_at := Some (env_now env0)\<rparr> else x)
      (w_peers w_bad)" "readPeerByName ''ops'' w_bad = Some q" by (rule disablePeer_peers [OF d(1)])
  then obtain x where "readPeerByName ''ops'' w1 = Some x" "pe_status x = ''disabled''"
    by (auto simp: readPeerByName_def w_bad_def w_vpn_def)
  then obtain ls' w2 where e: "enablePeer env0 ''ops'' None w1 = (Inr (Some ls'), w2)" using enable_completes [OF name _ _ d(2)] by blast
  have "distinct (map pe_name (w_peers w_bad))" "distinct (map pe_id (w_peers w_bad))" by (simp_all add: w_bad_def w_vpn_def)
  from disable_enable_round_trip [OF this p d(1) e] d(1) e show ?thesis by blast
qed

end
