(* ===== verification/Vpn_Dns.thy ===== *)
theory Vpn_Dns
  imports Fw_Ingress "HOL-Library.Word"
begin

text \<open>
  \<open>cli/src/core/vpn/dns.js\<close>, the resolver the VPN peers use: the list of names it answers itself, the DNS wire
  format it reads and writes, the decision for one query, and the framing of the TCP stream. Buffers are lists of
  bytes; the sockets that carry them, the timers and the upstream servers are not modelled: what an upstream answers is
  a parameter. The lower case of a name is taken on its bytes; the one character outside Latin-1 whose lower case is
  an ASCII letter (the Kelvin sign) is not treated.
\<close>

unbundle bit_operations_syntax

type_synonym byte = "8 word"
type_synonym buffer = "byte list"

definition VPN_DNS_FILE :: string where "VPN_DNS_FILE = ''/var/lib/proxypilot/vpn-dns.json''"

definition VPN_DNS_ADDRESS :: string where "VPN_DNS_ADDRESS = ''10.100.0.1''"

definition FALLBACK_UPSTREAMS :: "string list" where "FALLBACK_UPSTREAMS = [''1.1.1.1'', ''9.9.9.9'']"

definition TYPE_A :: "16 word" where "TYPE_A = 1"

section \<open>The list of names\<close>

text \<open>
  \<open>toLowerCase\<close> on the characters a byte can stand for: the ASCII letters and the accented capitals of Latin-1
  (all of U+00C0 to U+00DE but the multiplication sign).
\<close>

definition latin1_lower :: "char \<Rightarrow> char" where
  "latin1_lower c =
     (if 65 \<le> cc c \<and> cc c \<le> 90 \<or> 192 \<le> cc c \<and> cc c \<le> 222 \<and> cc c \<noteq> 215 then char_of (cc c + 32) else c)"

definition toLowerCase :: "string \<Rightarrow> string" where
  "toLowerCase s = map latin1_lower s"

text \<open>\<open>replace(/\.$/, '')\<close>\<close>

definition strip_dot :: "string \<Rightarrow> string" where
  "strip_dot s = (if s \<noteq> [] \<and> last s = CHR ''.'' then butlast s else s)"

definition is_label_char :: "char \<Rightarrow> bool" where
  "is_label_char c \<longleftrightarrow> is_lower c \<or> is_digit c \<or> c = CHR ''-''"

text \<open>\<open>[a-z0-9](?:[a-z0-9-]{0,61}[a-z0-9])?\<close> and \<open>[a-z][a-z0-9-]{0,61}[a-z0-9]\<close>\<close>

definition label_ok :: "string \<Rightarrow> bool" where
  "label_ok l \<longleftrightarrow> l \<noteq> [] \<and> length l \<le> 63 \<and> list_all is_label_char l \<and> hd l \<noteq> CHR ''-'' \<and> last l \<noteq> CHR ''-''"

definition tld_ok :: "string \<Rightarrow> bool" where
  "tld_ok l \<longleftrightarrow> 2 \<le> length l \<and> length l \<le> 63 \<and> list_all is_label_char l \<and> is_lower (hd l) \<and> last l \<noteq> CHR ''-''"

definition HOSTNAME_RE :: "string \<Rightarrow> bool" where
  "HOSTNAME_RE s \<longleftrightarrow>
     (let t = (if prefix ''*.'' s then drop 2 s else s); ps = split_on (CHR ''.'') t
      in 1 \<le> length t \<and> length t \<le> 253 \<and> 2 \<le> length ps \<and> list_all label_ok (butlast ps) \<and> tld_ok (last ps))"

definition clean_name :: "string \<Rightarrow> string" where
  "clean_name raw = strip_dot (toLowerCase (trim raw))"

fun normalize_loop :: "string list \<Rightarrow> string list \<Rightarrow> err + string list" where
  "normalize_loop out [] = Inr out"
| "normalize_loop out (raw # rest) =
     (let n = clean_name raw
      in if n = [] then normalize_loop out rest
         else if \<not> HOSTNAME_RE n then Inl (Vpn (Not_dns_hostname raw))
         else normalize_loop (if n \<in> set out then out else out @ [n]) rest)"

definition normalizeNames :: "jval option \<Rightarrow> err + string list" where
  "normalizeNames v = (case v of Some (JArr xs) \<Rightarrow> normalize_loop [] (map js_String xs) | _ \<Rightarrow> Inr [])"

text \<open>\<open>vpn-dns.json\<close>: an unreadable file and a file with an invalid name count as empty.\<close>

record dns_config =
  dc_managed :: "string list"
  dc_extra :: "string list"
  dc_updatedAt :: "jval option"

definition dns_config_of :: "string \<Rightarrow> dns_config option" where
  "dns_config_of t =
     (case JSON_parse t of
        None \<Rightarrow> None
      | Some v \<Rightarrow>
          if v = JNull then None
          else case (normalizeNames (jget (Some v) ''managed''), normalizeNames (jget (Some v) ''extra'')) of
            (Inr m, Inr e) \<Rightarrow>
              Some \<lparr>dc_managed = m, dc_extra = e,
                dc_updatedAt = (let u = jget (Some v) ''updatedAt'' in if js_truthy u then u else None)\<rparr>
          | _ \<Rightarrow> None)"

definition no_dns_config :: dns_config where
  "no_dns_config = \<lparr>dc_managed = [], dc_extra = [], dc_updatedAt = None\<rparr>"

definition readDnsConfig :: "dns_config io" where
  "readDnsConfig = getsE (\<lambda>w. case w_files w VPN_DNS_FILE of
     None \<Rightarrow> no_dns_config
   | Some t \<Rightarrow> (case dns_config_of t of None \<Rightarrow> no_dns_config | Some c \<Rightarrow> c))"

definition dns_config_json :: "dns_config \<Rightarrow> jval" where
  "dns_config_json c = JObj [(''managed'', JArr (map JStr (dc_managed c))), (''extra'', JArr (map JStr (dc_extra c))),
     (''updatedAt'', case dc_updatedAt c of None \<Rightarrow> JNull | Some u \<Rightarrow> u)]"

text \<open>A list that is not given (None) stays as it is.\<close>

definition writeDnsConfig :: "env \<Rightarrow> jval option \<Rightarrow> jval option \<Rightarrow> dns_config io" where
  "writeDnsConfig env managed extra =
     bindE readDnsConfig (\<lambda>cur.
     bindE (liftE (if managed = None then Inr (dc_managed cur) else normalizeNames managed)) (\<lambda>m.
     bindE (liftE (if extra = None then Inr (dc_extra cur) else normalizeNames extra)) (\<lambda>e.
     let next = \<lparr>dc_managed = m, dc_extra = e, dc_updatedAt = Some (JStr (iso (env_now env)))\<rparr> in
     bindE (mkdirs env ''/var/lib/proxypilot'') (\<lambda>_.
     bindE (atomicWrite env VPN_DNS_FILE (JSON_stringify (dns_config_json next) @ nl)) (\<lambda>_.
     ret next)))))"

definition entry_matches :: "string \<Rightarrow> string \<Rightarrow> bool" where
  "entry_matches n e = (if starts_with e ''*.'' then ends_with n (tl e) \<and> length n > length e - 1 else n = e)"

definition nameMatches :: "string \<Rightarrow> string list \<Rightarrow> bool" where
  "nameMatches name entries = list_ex (entry_matches (strip_dot (toLowerCase name))) entries"

text \<open>The nameserver of a \<open>resolv.conf\<close> line: \<open>/^nameserver\s+(\S+)/\<close> on the trimmed line.\<close>

definition nameserver :: "string \<Rightarrow> string option" where
  "nameserver l =
     (let t = trim l; r = drop 10 t; v = takeWhile (\<lambda>c. \<not> is_ws c) (dropWhile is_ws r)
      in if prefix ''nameserver'' t \<and> takeWhile is_ws r \<noteq> [] \<and> v \<noteq> [] then Some v else None)"

definition upstreamsFrom :: "string \<Rightarrow> string list \<Rightarrow> string list" where
  "upstreamsFrom resolvConf exclude =
     (let found = filter (\<lambda>ip. isIPv4 ip \<and> ip \<notin> set exclude) (List.map_filter nameserver (split_on newline resolvConf))
      in if found \<noteq> [] then found else FALLBACK_UPSTREAMS)"

section \<open>The wire format\<close>

definition readUInt16BE :: "buffer \<Rightarrow> nat \<Rightarrow> 16 word" where
  "readUInt16BE b i = push_bit 8 (ucast (b ! i)) OR ucast (b ! (i + 1))"

definition writeUInt16BE :: "16 word \<Rightarrow> nat \<Rightarrow> buffer \<Rightarrow> buffer" where
  "writeUInt16BE v i b = b[i := ucast (drop_bit 8 v), i + 1 := ucast v]"

definition writeUInt32BE :: "32 word \<Rightarrow> nat \<Rightarrow> buffer \<Rightarrow> buffer" where
  "writeUInt32BE v i b =
     b[i := ucast (drop_bit 24 v), i + 1 := ucast (drop_bit 16 v), i + 2 := ucast (drop_bit 8 v), i + 3 := ucast v]"

definition latin1 :: "buffer \<Rightarrow> string" where
  "latin1 b = map (\<lambda>x. char_of (unat x)) b"

function read_labels :: "buffer \<Rightarrow> nat \<Rightarrow> string list \<Rightarrow> (string list \<times> nat) option" where
  "read_labels buf p labels =
     (if length buf \<le> p then None
      else let len = unat (buf ! p)
           in if len = 0 then Some (labels, p + 1)
              else if (buf ! p) AND 0xc0 \<noteq> 0 \<or> len > 63 \<or> p + 1 + len > length buf then None
              else read_labels buf (p + 1 + len) (labels @ [latin1 (take len (drop (p + 1) buf))]))"
  by pat_completeness auto

termination by (relation "measure (\<lambda>(buf, p, _). length buf - p)") auto

record dns_query =
  dq_id :: "16 word"
  dq_flags :: "16 word"
  dq_name :: string
  dq_type :: "16 word"
  dq_qclass :: "16 word"
  dq_end :: nat

definition parseQuery :: "buffer \<Rightarrow> dns_query option" where
  "parseQuery buf =
     (if length buf < 12 then None
      else let flags = readUInt16BE buf 2
           in if flags AND 0x8000 \<noteq> 0 \<or> readUInt16BE buf 4 \<noteq> 1 then None
              else case read_labels buf 12 [] of
                None \<Rightarrow> None
              | Some (labels, p) \<Rightarrow>
                  if p + 4 > length buf then None
                  else Some \<lparr>dq_id = readUInt16BE buf 0, dq_flags = flags, dq_name = toLowerCase (join ''.'' labels),
                    dq_type = readUInt16BE buf p, dq_qclass = readUInt16BE buf (p + 2), dq_end = p + 4\<rparr>)"

text \<open>
  \<open>rr.writeUInt8(Number(octet), 12 + i)\<close>: out of range for a value or a position is a RangeError; what is not
  a number is stored as 0. The address is one the server is bound to, so its pieces are digits.
\<close>

definition octet_byte :: "string \<Rightarrow> err + byte" where
  "octet_byte s = (case js_number s of
     Int_num n \<Rightarrow> if 0 \<le> n \<and> n \<le> 255 then Inr (word_of_int n) else Inl (Sys Range_error)
   | Not_int \<Rightarrow> Inr 0)"

fun write_octets :: "nat \<Rightarrow> string list \<Rightarrow> buffer \<Rightarrow> err + buffer" where
  "write_octets i [] rr = Inr rr"
| "write_octets i (s # ss) rr =
     bindR (octet_byte s) (\<lambda>v. if i < length rr then write_octets (i + 1) ss (rr[i := v]) else Inl (Sys Range_error))"

definition answer_header :: "dns_query \<Rightarrow> bool \<Rightarrow> buffer" where
  "answer_header q withA =
     writeUInt16BE 0 10 (writeUInt16BE 0 8 (writeUInt16BE (if withA then 1 else 0) 6 (writeUInt16BE 1 4
       (writeUInt16BE (0x8000 OR 0x0400 OR (dq_flags q AND 0x0100) OR 0x0080) 2
         (writeUInt16BE (dq_id q) 0 (replicate 12 0))))))"

definition answer_record :: "32 word \<Rightarrow> buffer" where
  "answer_record ttl =
     writeUInt16BE 4 10 (writeUInt32BE ttl 6 (writeUInt16BE 1 4 (writeUInt16BE TYPE_A 2 (writeUInt16BE 0xc00c 0 (replicate 16 0)))))"

definition buildAnswer :: "buffer \<Rightarrow> dns_query \<Rightarrow> string \<Rightarrow> 32 word \<Rightarrow> err + buffer" where
  "buildAnswer buf q address ttl =
     (let question = take (dq_end q - 12) (drop 12 buf);
          withA = (dq_type q = TYPE_A \<and> dq_qclass q = 1);
          header = answer_header q withA
      in if \<not> withA then Inr (header @ question)
         else bindR (write_octets 12 (split_on (CHR ''.'') address) (answer_record ttl)) (\<lambda>rr. Inr (header @ question @ rr)))"

definition buildServfail :: "buffer \<Rightarrow> dns_query option \<Rightarrow> buffer option" where
  "buildServfail buf q =
     (let out = take (case q of Some x \<Rightarrow> dq_end x | None \<Rightarrow> min (length buf) 12) buf;
          flags = (case q of Some x \<Rightarrow> dq_flags x | None \<Rightarrow> readUInt16BE out 2)
      in if length out < 12 then None
         else Some (writeUInt16BE 0 10 (writeUInt16BE 0 8 (writeUInt16BE 0 6 (writeUInt16BE (if q = None then 0 else 1) 4
           (writeUInt16BE (0x8000 OR (flags AND 0x0100) OR 0x0080 OR 2) 2 out))))))"

definition localAnswer :: "buffer \<Rightarrow> string list \<Rightarrow> string \<Rightarrow> err + buffer option" where
  "localAnswer buf entries address =
     (case parseQuery buf of
        None \<Rightarrow> Inr None
      | Some q \<Rightarrow> if nameMatches (dq_name q) entries then bindR (buildAnswer buf q address 60) (\<lambda>b. Inr (Some b)) else Inr None)"

text \<open>The server's reply to one message; \<open>fwd\<close> is what the upstream servers answered to it.\<close>

definition respond :: "string list \<Rightarrow> string \<Rightarrow> (buffer \<Rightarrow> buffer option) \<Rightarrow> buffer \<Rightarrow> err + buffer option" where
  "respond names answerAddress fwd buf =
     (let q = parseQuery buf
      in bindR (case q of
            Some x \<Rightarrow> if nameMatches (dq_name x) names then bindR (buildAnswer buf x answerAddress 60) (\<lambda>b. Inr (Some b)) else Inr None
          | None \<Rightarrow> Inr None) (\<lambda>loc.
         case loc of
           Some b \<Rightarrow> Inr (Some b)
         | None \<Rightarrow> (case fwd buf of Some b \<Rightarrow> Inr (Some b) | None \<Rightarrow> Inr (buildServfail buf q))))"

section \<open>The TCP stream\<close>

text \<open>The loop over the pending bytes: the complete messages, and what stays pending.\<close>

function deframe :: "buffer \<Rightarrow> buffer list \<times> buffer" where
  "deframe pending =
     (if 2 \<le> length pending \<and> 2 + unat (readUInt16BE pending 0) \<le> length pending
      then let msg = take (unat (readUInt16BE pending 0)) (drop 2 pending);
               (ms, rest) = deframe (drop (2 + length msg) pending)
           in (msg # ms, rest)
      else ([], pending))"
  by pat_completeness auto

termination by (relation "measure length") auto

text \<open>The data events of one connection.\<close>

fun on_data :: "buffer \<Rightarrow> buffer list \<Rightarrow> buffer list \<times> buffer" where
  "on_data pending [] = ([], pending)"
| "on_data pending (d # ds) =
     (let (ms, rest) = deframe (pending @ d); (ms', rest') = on_data rest ds in (ms @ ms', rest'))"

definition frame :: "buffer \<Rightarrow> buffer" where
  "frame out = writeUInt16BE (of_nat (length out)) 0 (replicate 2 0) @ out"

end
