(* ===== verification/Ssh_LastSeen.thy ===== *)
theory Ssh_LastSeen
  imports Ssh_Access
begin

text \<open>
  \<open>cli/src/core/ssh-access/last-seen.js\<close>: the login times that \<open>last\<close> prints, and their transfer into the ledger.
  The offset of the local time zone is a parameter of the environment.
\<close>

section \<open>Parsing\<close>

definition MONTHS :: "string list" where
  "MONTHS = [''Jan'', ''Feb'', ''Mar'', ''Apr'', ''May'', ''Jun'', ''Jul'', ''Aug'', ''Sep'', ''Oct'', ''Nov'', ''Dec'']"

definition index_of :: "string \<Rightarrow> string list \<Rightarrow> int option" where
  "index_of x xs = (let n = length (takeWhile (\<lambda>y. y \<noteq> x) xs) in if n < length xs then Some (int n) else None)"

text \<open>\<open>/^\d{2}:\d{2}:\d{2}$/\<close>\<close>

definition TIME_RE :: "string \<Rightarrow> bool" where
  "TIME_RE s \<longleftrightarrow> (let ps = split_on (CHR '':'') s in length ps = 3 \<and> list_all (\<lambda>p. length p = 2 \<and> all_digits p) ps)"

record login =
  lg_user :: string
  lg_start :: int

definition parseLastLine :: "env \<Rightarrow> string \<Rightarrow> login option" where
  "parseLastLine env line =
     (if line = [] \<or> prefix ''wtmp begins'' line then None
      else let parts = split_ws line
           in if length parts < 8 \<or> parts ! 0 \<in> {''reboot'', ''shutdown'', ''~''} then None
              else case (index_of (parts ! 4) MONTHS, js_number (parts ! 5), js_number (parts ! 7)) of
                (Some monthIdx, Int_num day, Int_num year) \<Rightarrow>
                  if \<not> TIME_RE (parts ! 6) then None
                  else let hms = map (\<lambda>p. int (read_nat p)) (split_on (CHR '':'') (parts ! 6));
                           t = date_utc year monthIdx day (hms ! 0) (hms ! 1) (hms ! 2);
                           start = t + env_tz_offset env t * 60000
                       in if time_valid t \<and> time_valid start then Some \<lparr>lg_user = parts ! 0, lg_start = start\<rparr> else None
              | _ \<Rightarrow> None)"

section \<open>The latest login of each user\<close>

text \<open>The insertion-ordered \<open>Map\<close> as an association list.\<close>

fun latest_put :: "string \<Rightarrow> int \<Rightarrow> (string \<times> int) list \<Rightarrow> (string \<times> int) list" where
  "latest_put u t [] = [(u, t)]"
| "latest_put u t ((v, s) # m) = (if v = u then (v, max s t) # m else (v, s) # latest_put u t m)"

fun latest_by_user :: "env \<Rightarrow> (string \<times> int) list \<Rightarrow> string list \<Rightarrow> (string \<times> int) list" where
  "latest_by_user env m [] = m"
| "latest_by_user env m (l # ls) =
     (case parseLastLine env l of
        None \<Rightarrow> latest_by_user env m ls
      | Some x \<Rightarrow> latest_by_user env (latest_put (lg_user x) (lg_start x) m) ls)"

section \<open>The update\<close>

text \<open>The \<open>WHERE\<close> clause; the stored times are compared as ISO texts.\<close>

definition seen_hit :: "string \<Rightarrow> int \<Rightarrow> ssh_row \<Rightarrow> bool" where
  "seen_hit u ts r \<longleftrightarrow> sa_unix_user r = u \<and> sa_revoked_at r = None \<and>
     (case sa_last_seen_at r of None \<Rightarrow> True | Some s \<Rightarrow> iso s < iso ts)"

definition touch_user :: "int \<Rightarrow> string \<times> int \<Rightarrow> ssh_row list \<Rightarrow> ssh_row list \<times> nat" where
  "touch_user now uw rows =
     (let ts = min (snd uw) now
      in (map (\<lambda>r. if seen_hit (fst uw) ts r then r\<lparr>sa_last_seen_at := Some ts\<rparr> else r) rows,
          length (filter (seen_hit (fst uw) ts) rows)))"

fun touch_all :: "int \<Rightarrow> (string \<times> int) list \<Rightarrow> ssh_row list \<Rightarrow> ssh_row list \<times> nat" where
  "touch_all now [] rows = (rows, 0)"
| "touch_all now (uw # m) rows =
     (let (rows1, n) = touch_user now uw rows; (rows2, k) = touch_all now m rows1 in (rows2, n + k))"

text \<open>\<open>{ ok: false, reason }\<close> or \<open>{ ok: true, updated, users_seen }\<close>.\<close>

datatype touch_result = Touch_failed string | Touched nat nat

definition touchLastSeen :: "env \<Rightarrow> touch_result io" where
  "touchLastSeen env =
     bindE (spawn env ''last'' [''-F'', ''-i'', ''-n'', ''200''] []) (\<lambda>r.
     if pr_status r \<noteq> Some 0 then
       ret (Touch_failed (''last invocation failed: '' @
         (let e = out_trim (pr_stderr r)
          in if e \<noteq> [] then e else if truthy (pr_error r) then the (pr_error r) else ''unknown'')))
     else
       let latest = latest_by_user env [] (split_on newline (case pr_stdout r of None \<Rightarrow> [] | Some t \<Rightarrow> t)) in
       bindE (getsE (\<lambda>w. touch_all (env_now env) latest (w_ssh w))) (\<lambda>(rows, updated).
       bindE (modE (\<lambda>w. w\<lparr>w_ssh := rows\<rparr>)) (\<lambda>_.
       ret (Touched updated (length latest)))))"

end
