(* ===== verification/Ssh_Seen.thy ===== *)
theory Ssh_Seen
  imports Ssh_LastSeen PP_Example
begin

text \<open>
  What the transfer of login times does to the ledger: it moves the last-seen time of active rows forward, never
  past the present, touches nothing else, and finds nothing to do when it runs again on the same logins.
\<close>

section \<open>One row\<close>

definition later :: "int option \<Rightarrow> int \<Rightarrow> bool" where
  "later old t \<longleftrightarrow> (case old of None \<Rightarrow> True | Some s \<Rightarrow> iso s < iso t)"

definition seen_step :: "int \<Rightarrow> ssh_row \<Rightarrow> ssh_row \<Rightarrow> bool" where
  "seen_step now r r' \<longleftrightarrow> r' = r \<or>
     (\<exists>t. r' = r\<lparr>sa_last_seen_at := Some t\<rparr> \<and> t \<le> now \<and> sa_revoked_at r = None \<and> later (sa_last_seen_at r) t)"

lemma seen_step_refl [simp]: "seen_step now r r"
  by (simp add: seen_step_def)

lemma seen_step_trans: "seen_step now a b \<Longrightarrow> seen_step now b c \<Longrightarrow> seen_step now a c"
  by (fastforce simp: seen_step_def later_def split: option.splits)

lemma seen_hit_step: "seen_hit u (min t now) r \<Longrightarrow> seen_step now r (r\<lparr>sa_last_seen_at := Some (min t now)\<rparr>)"
  by (auto simp: seen_hit_def seen_step_def later_def)

section \<open>All rows\<close>

lemma touch_user_steps: "list_all2 (seen_step now) rows (fst (touch_user now uw rows))"
  by (simp add: touch_user_def Let_def list_all2_map2 list.rel_refl_strong seen_hit_step)

lemma touch_all_steps: "touch_all now m rows = (rows', n) \<Longrightarrow> list_all2 (seen_step now) rows rows'"
proof (induction now m rows arbitrary: n rule: touch_all.induct)
  case (2 now uw m rows)
  obtain rows1 k where 1: "touch_user now uw rows = (rows1, k)" by fastforce
  obtain l where l: "touch_all now m rows1 = (rows', l)" using 2 1 by (auto split: prod.splits)
  have "list_all2 (seen_step now) rows rows1" using touch_user_steps [of now rows uw] 1 by simp
  moreover have "list_all2 (seen_step now) rows1 rows'" using "2.IH" 1 l by simp
  ultimately show ?case by (rule list_all2_trans [rotated]) (rule seen_step_trans)
qed (simp add: list.rel_refl)

definition settled :: "int \<Rightarrow> (string \<times> int) list \<Rightarrow> ssh_row list \<Rightarrow> bool" where
  "settled now m rows \<longleftrightarrow> (\<forall>(u, t)\<in>set m. \<forall>r\<in>set rows. \<not> seen_hit u (min t now) r)"

lemma touch_user_none: "\<forall>r\<in>set rows. \<not> seen_hit u (min t now) r \<Longrightarrow> touch_user now (u, t) rows = (rows, 0)"
  by (simp add: touch_user_def Let_def filter_empty_conv map_idI)

lemma settled_touch: "settled now m rows \<Longrightarrow> touch_all now m rows = (rows, 0)"
  by (induction m) (auto simp: settled_def touch_user_none)

lemma settled_user: "settled now [(u, t)] (fst (touch_user now (u, t) rows))"
  by (auto simp: settled_def touch_user_def Let_def seen_hit_def split: option.splits)

lemma settled_other:
  assumes "settled now m rows" and "v \<notin> fst ` set m"
  shows "settled now m (fst (touch_user now (v, s) rows))"
proof -
  define f where "f = (\<lambda>r. if seen_hit v (min s now) r then r\<lparr>sa_last_seen_at := Some (min s now)\<rparr> else r)"
  have "\<not> seen_hit u (min t now) (f r)" if m: "(u, t) \<in> set m" and r: "r \<in> set rows" for u t r
  proof -
    have "u \<noteq> v" using assms(2) m by force
    moreover have "\<not> seen_hit u (min t now) r" using assms(1) m r by (auto simp: settled_def)
    ultimately show ?thesis by (simp add: f_def seen_hit_def)
  qed
  moreover have "fst (touch_user now (v, s) rows) = map f rows" by (simp add: touch_user_def Let_def f_def)
  ultimately show ?thesis by (auto simp: settled_def)
qed

lemma touch_all_settles:
  assumes "touch_all now m rows = (rows', n)" and "distinct (map fst m)" and "settled now p rows" and "fst ` set p \<inter> fst ` set m = {}"
  shows "settled now (p @ m) rows'"
  using assms
proof (induction now m rows arbitrary: n p rule: touch_all.induct)
  case (2 now uw m rows)
  obtain u t where uw: "uw = (u, t)" by fastforce
  obtain rows1 k where 1: "touch_user now (u, t) rows = (rows1, k)" by fastforce
  obtain l where l: "touch_all now m rows1 = (rows', l)" using "2.prems"(1) 1 uw by (auto split: prod.splits)
  have "settled now p rows1" using settled_other [OF "2.prems"(3), of u t] "2.prems"(4) 1 uw by auto
  moreover have "settled now [(u, t)] rows1" using settled_user [of now u t rows] 1 by simp
  ultimately have "settled now (p @ [(u, t)]) rows1" by (auto simp: settled_def)
  from "2.IH" [OF _ refl l _ this] show ?case using "2.prems"(2,4) uw 1 by auto
qed simp

lemma fst_latest_put: "fst ` set (latest_put u t m) = insert u (fst ` set m)"
  by (induction u t m rule: latest_put.induct) auto

lemma distinct_latest_put: "distinct (map fst m) \<Longrightarrow> distinct (map fst (latest_put u t m))"
  by (induction u t m rule: latest_put.induct) (auto simp: fst_latest_put)

lemma distinct_latest: "distinct (map fst m) \<Longrightarrow> distinct (map fst (latest_by_user env m ls))"
  by (induction env m ls rule: latest_by_user.induct) (auto simp: distinct_latest_put split: option.split)

section \<open>Properties\<close>

text \<open>
  The transfer of login times only moves last-seen times forward: it changes no other column and no revoked row,
  never stores a time after the present, and only stores a time later than the one it replaces. Running it again while
  \<open>last\<close> prints the same logins changes no row and reports no update.
\<close>

theorem last_seen_monotone:
  assumes "touchLastSeen env w = (Inr (Touched n k), w')"
    and "\<forall>a i. env_spawn env (w_cmds w') (Cmd ''last'' a i) = env_spawn env (w_cmds w) (Cmd ''last'' a i)"
  shows "list_all2 (\<lambda>r r'. r' = r \<or> (sa_revoked_at r = None \<and>
      (\<exists>t. r' = r\<lparr>sa_last_seen_at := Some t\<rparr> \<and> t \<le> env_now env \<and>
        (case sa_last_seen_at r of None \<Rightarrow> True | Some s \<Rightarrow> iso s < iso t)))) (w_ssh w) (w_ssh w') \<and>
    (\<exists>w''. touchLastSeen env w' = (Inr (Touched 0 k), w'') \<and> w_ssh w'' = w_ssh w')"
proof -
  let ?r = "env_spawn env (w_cmds w) (Cmd ''last'' [''-F'', ''-i'', ''-n'', ''200''] [])"
  let ?m = "latest_by_user env [] (split_on newline (case pr_stdout ?r of None \<Rightarrow> [] | Some t \<Rightarrow> t))"
  from assms(1) have t: "pr_status ?r = Some 0" "touch_all (env_now env) ?m (w_ssh w) = (w_ssh w', n)" "k = length ?m"
    by (auto simp: touchLastSeen_def eff_inv Let_def split: if_splits prod.splits)
  have "settled (env_now env) ?m (w_ssh w')"
    using touch_all_settles [OF t(2) distinct_latest, of "[]"] by (simp add: settled_def)
  then have s: "touch_all (env_now env) ?m (w_ssh w') = (w_ssh w', 0)" by (rule settled_touch)
  have again: "env_spawn env (w_cmds w') (Cmd ''last'' [''-F'', ''-i'', ''-n'', ''200''] []) = ?r" using assms(2) by blast
  have "touchLastSeen env w' = (Inr (Touched 0 k), w'\<lparr>w_cmds := w_cmds w' @ [Cmd ''last'' [''-F'', ''-i'', ''-n'', ''200''] []]\<rparr>)"
    using t(1,3) s again by (simp add: touchLastSeen_def bindE_def spawn_apply Let_def)
  moreover have "list_all2 (seen_step (env_now env)) (w_ssh w) (w_ssh w')" by (rule touch_all_steps [OF t(2)])
  ultimately show ?thesis
    by (auto simp: seen_step_def later_def elim!: list_all2_mono)
qed

definition env_last :: env where
  "env_last = with_answers (\<lambda>_. proc_ok ''alice pts/1 5.6.7.8 Wed Apr 30 13:00:00 2025 - down'')"

definition w_alice :: world where
  "w_alice = world0\<lparr>w_ssh := [\<lparr>sa_id = ''laptop'', sa_unix_user = ''alice'', sa_public_key = ''ssh-ed25519 AAAA'', sa_fingerprint = ''f'',
     sa_device_label = None, sa_added_at = 0, sa_added_by = None, sa_revoked_at = None, sa_revoked_by = None,
     sa_revoked_reason = None, sa_last_seen_at = None\<rparr>]\<rparr>"

theorem last_seen_monotone_witness:
  "\<exists>w'. touchLastSeen env_last w_alice = (Inr (Touched 1 1), w') \<and>
    (\<exists>w''. touchLastSeen env_last w' = (Inr (Touched 0 1), w'') \<and> w_ssh w'' = w_ssh w')"
proof -
  have "latest_by_user env_last [] (split_on newline ''alice pts/1 5.6.7.8 Wed Apr 30 13:00:00 2025 - down'') = [(''alice'', 1746018000000)]"
    by code_simp
  then obtain w' where "touchLastSeen env_last w_alice = (Inr (Touched 1 1), w')"
    by (auto simp: touchLastSeen_def bindE_def env_last_def w_alice_def touch_user_def Let_def seen_hit_def)
  then show ?thesis using last_seen_monotone [of env_last w_alice 1 1 w'] by (auto simp: env_last_def)
qed

end
