(* ===== verification/Sys_Machine.thy ===== *)
theory Sys_Machine
  imports Fw_Renderable Vpn_Safety Vpn_Dns Ssh_Seen
begin

text \<open>
  The whole command line as one machine: a step runs one command of the firewall, VPN, SSH or Caddy groups in an
  arbitrary environment (any clock, any answer of an external program, any failing write), or another program changes
  files. The invariants of the components hold in every state the machine can reach from a fresh installation.
\<close>

datatype op =
    Enable string "string option" "string list option" "string option" "string option"
  | Disable string "string option"
  | Set_scope string string "string list option" "string option" "string option"
  | Set_port string jsnum "jsnum option" "string option"
  | Add_manual add_args
  | Add_service_l4 string add_args
  | Remove_service_l4 string "string option"
  | Remove_manual string "string option"
  | Scan
  | Reconcile bool bool "string option"
  | Panic_close "string option"
  | Panic_open "string option"
  | Allow_egress string string "string option" "string option" "string option"
  | Deny_egress string string "string option"
  | Protect_ingress ingress_input
  | Remove_ingress string
  | Boot_check
  | Vpn_enable "string option" jsnum string "string option"
  | Vpn_port jsnum "string option"
  | Vpn_disable "string option"
  | Peer_add string string "string list option" "string option"
  | Peer_rotate string "string option"
  | Peer_disable string bool "string option"
  | Peer_enable string "string option"
  | Peer_remove string bool "string option"
  | Peer_scope string string "string list option" bool "string option"
  | Ssh_add string string string "string option" "string option"
  | Ssh_revoke string "string option" "string option"
  | Ssh_remove string "string option"
  | Ssh_sync bool "string option"
  | Password_auth bool bool "string option"
  | Route_add string "string option" string bool bool "string option"
  | Route_remove string
  | Route_enable string
  | Route_disable string
  | Touch_seen
  | Dns_write "jval option" "jval option"

definition void :: "'a io \<Rightarrow> unit io" where
  "void m = bindE m (\<lambda>_. ret ())"

fun run :: "env \<Rightarrow> op \<Rightarrow> unit io" where
  "run env (Enable i sc cidrs sv a) = void (fw_enable env i sc cidrs sv a)"
| "run env (Disable i a) = void (fw_disable env i a)"
| "run env (Set_scope i sc cidrs sv a) = void (setScope env i sc cidrs sv a)"
| "run env (Set_port i p pe a) = void (setPort env i p pe a)"
| "run env (Add_manual a) = void (addManual env a)"
| "run env (Add_service_l4 i a) = void (addServiceL4 env i a)"
| "run env (Remove_service_l4 i a) = void (removeServiceL4 env i a)"
| "run env (Remove_manual i a) = void (removeManual env i a)"
| "run env Scan = void (scan env)"
| "run env (Reconcile dry force a) = void (reconcile env dry force a)"
| "run env (Panic_close a) = void (panicClose env a)"
| "run env (Panic_open a) = void (panicOpen env a)"
| "run env (Allow_egress c sv r i a) = void (allowEgress env c sv r i a)"
| "run env (Deny_egress c sv a) = void (denyEgress env c sv a)"
| "run env (Protect_ingress inp) = void (protectIngress env inp)"
| "run env (Remove_ingress i) = void (removeIngress env i)"
| "run env Boot_check = void (bootCheckIngress env)"
| "run env (Vpn_enable ep p dns a) = void (vpn_enable env ep p dns a)"
| "run env (Vpn_port p a) = void (setListenPort env p a)"
| "run env (Vpn_disable a) = void (vpn_disable env a)"
| "run env (Peer_add n sc sv a) = void (addPeer env n sc sv a)"
| "run env (Peer_rotate n a) = void (rotatePeer env n a)"
| "run env (Peer_disable n f a) = void (disablePeer env n f a)"
| "run env (Peer_enable n a) = void (enablePeer env n a)"
| "run env (Peer_remove n f a) = void (removePeer env n f a)"
| "run env (Peer_scope n sc sv f a) = void (setPeerScope env n sc sv f a)"
| "run env (Ssh_add i u k l a) = void (addEntry env i u k l a)"
| "run env (Ssh_revoke i r a) = void (revokeEntry env i r a)"
| "run env (Ssh_remove i a) = void (removeEntry env i a)"
| "run env (Ssh_sync dry a) = void (ssh_reconcile env dry a)"
| "run env (Password_auth on f a) = void (setPasswordAuth env on f a)"
| "run env (Route_add d u p t v sv) = void (addRoute env d u p t v sv)"
| "run env (Route_remove d) = void (removeRoute env d)"
| "run env (Route_enable d) = void (enableRoute env d)"
| "run env (Route_disable d) = void (disableRoute env d)"
| "run env Touch_seen = void (touchLastSeen env)"
| "run env (Dns_write m x) = void (writeDnsConfig env m x)"

text \<open>The states that commands of \<open>A\<close> lead to, with other programs changing files at any moment.\<close>

inductive reaches :: "op set \<Rightarrow> world \<Rightarrow> world \<Rightarrow> bool" for A :: "op set" and w :: world where
  start: "reaches A w w"
| command: "reaches A w v \<Longrightarrow> c \<in> A \<Longrightarrow> reaches A w (snd (run env c v))"
| outside: "reaches A w v \<Longrightarrow> reaches A w (v\<lparr>w_files := f\<rparr>)"

lemma reaches_preserves:
  assumes "reaches A w v" and "P w" and "\<And>env c. c \<in> A \<Longrightarrow> preserves P (run env c)"
    and "\<And>v f. P v \<Longrightarrow> P (v\<lparr>w_files := f\<rparr>)"
  shows "P v"
  using assms(1)
proof induction
  case (command v c env)
  then show ?case using assms(3) by (simp add: preserves_def)
qed (simp_all add: assms(2,4))

lemma reaches_mono: "reaches A w v \<Longrightarrow> A \<subseteq> B \<Longrightarrow> reaches B w v"
  by (induction rule: reaches.induct) (auto intro: reaches.intros)

lemma reaches_trans: "reaches A v u \<Longrightarrow> reaches A w v \<Longrightarrow> reaches A w u"
  by (induction rule: reaches.induct) (auto intro: reaches.intros)

section \<open>Routes\<close>

lemma preserves_routes:
  assumes "\<And>w cs. P w \<Longrightarrow> P (w\<lparr>w_cmds := cs\<rparr>)" and "\<And>w f. P w \<Longrightarrow> P (w\<lparr>w_files := f\<rparr>)"
  shows "preserves P (addRoute env d u p t v sv)" "preserves P (removeRoute env d)" "preserves P (enableRoute env d)"
    "preserves P (disableRoute env d)"
  unfolding addRoute_def removeRoute_def enableRoute_def disableRoute_def rename_and_reload_def
  by (intro preserves_intros assms; simp add: assms)+

section \<open>Login times and names\<close>

lemma preserves_names: "(\<And>w f. P w \<Longrightarrow> P (w\<lparr>w_files := f\<rparr>)) \<Longrightarrow> preserves P (writeDnsConfig env m x)"
  unfolding writeDnsConfig_def readDnsConfig_def Let_def by (intro preserves_intros) simp_all

lemma preserves_seen:
  assumes "\<And>w cs. P w \<Longrightarrow> P (w\<lparr>w_cmds := cs\<rparr>)"
    and "\<And>w m rows n. P w \<Longrightarrow> touch_all (env_now env) m (w_ssh w) = (rows, n) \<Longrightarrow> P (w\<lparr>w_ssh := rows\<rparr>)"
  shows "preserves P (touchLastSeen env)"
proof (rule preservesI)
  fix w assume "P w"
  define w1 where "w1 = snd (spawn env ''last'' [''-F'', ''-i'', ''-n'', ''200''] [] w)"
  have "P w1" using assms(1) [OF \<open>P w\<close>] by (simp add: w1_def spawn_apply)
  have "P (w1\<lparr>w_ssh := fst (touch_all (env_now env) m (w_ssh w1))\<rparr>)" for m by (rule assms(2) [OF \<open>P w1\<close> surjective_pairing])
  then show "P (snd (touchLastSeen env w))"
    using \<open>P w1\<close> by (simp add: touchLastSeen_def bindE_def spawn_apply Let_def w1_def split_beta)
qed

lemma seen_step_sel:
  "seen_step now r r' \<Longrightarrow> sa_id r' = sa_id r \<and> sa_fingerprint r' = sa_fingerprint r \<and> (row_ok r' \<longleftrightarrow> row_ok r)"
  by (auto simp: seen_step_def row_ok_def)

lemma ledger_ok_seen:
  assumes "ledger_ok rows" and "touch_all now m rows = (rows', n)"
  shows "ledger_ok rows'"
proof -
  have "list_all2 (seen_step now) rows rows'" by (rule touch_all_steps [OF assms(2)])
  then have "map sa_id rows' = map sa_id rows \<and> map sa_fingerprint rows' = map sa_fingerprint rows \<and>
      ((\<forall>r\<in>set rows. row_ok r) \<longrightarrow> (\<forall>r\<in>set rows'. row_ok r))"
    by (induction rule: list_all2_induct) (simp_all add: seen_step_sel)
  with assms(1) show ?thesis by (simp add: ledger_ok_def)
qed

lemma ssh_frame_seen: "ssh_frame P \<Longrightarrow> preserves P (touchLastSeen env)"
  by (rule preserves_seen) (simp_all add: ssh_frameD)

lemma seen_ssh_inv: "preserves ssh_inv (touchLastSeen env)"
  by (rule preserves_seen) (auto simp: ssh_inv_def intro: ledger_ok_seen)

section \<open>The invariants of the components\<close>

lemma frames:
  "fw_frame vpn_inv" "vpn_frame ssh_inv" "ssh_frame vpn_inv" "ssh_frame (fw_inv B)" "fw_frame ssh_inv"
  by (simp_all add: fw_frame_def vpn_frame_def ssh_frame_def layer_frame_def ssh_inv_def)

lemma preserves_void: "preserves P m \<Longrightarrow> preserves P (void m)"
  unfolding void_def by (intro preserves_intros)

lemma run_fw_inv: "preserves (fw_inv DEFAULT_IDS) (run env c)"
proof -
  have B: "base_named DEFAULT_IDS" by simp
  have ssh: "ssh_frame (fw_inv DEFAULT_IDS)" by (rule frames)
  show ?thesis
    by (cases c; simp only: run.simps; rule preserves_void;
        (rule toggle_inv scan_inv [OF B] reconcile_inv panic_inv egress_inv ingress_inv vpn_server_inv peer_ops_inv
          ssh_frame_ops [OF ssh] ssh_frame_seen [OF ssh] ssh_frame_password preserves_routes preserves_names; simp)?)
qed

lemma run_vpn_inv: "preserves vpn_inv (run env c)"
  by (cases c; simp only: run.simps; rule preserves_void;
      (rule fw_frame_toggle fw_frame_ops fw_frame_reconcile fw_frame_server peer_ops_vpn_inv ssh_frame_ops ssh_frame_seen
        ssh_frame_password preserves_routes preserves_names; simp add: frames)?)

lemma run_ssh_inv: "preserves ssh_inv (run env c)"
  by (cases c; simp only: run.simps; rule preserves_void;
      (rule fw_frame_toggle fw_frame_ops fw_frame_reconcile fw_frame_server vpn_frame_peer_ops ssh_ops_inv
        preserves_rows_ssh_reconcile [where Q = ledger_ok, folded ssh_inv_def] seen_ssh_inv ssh_frame_password
        preserves_routes preserves_names;
       simp add: ssh_inv_def frames)?)

lemma run_renderable: "preserves (doc_inv renderable) (run env c)"
  by (cases c; simp only: run.simps; rule preserves_void;
      (rule renderable_toggle renderable_ops renderable_scan renderable_ingress renderable_server doc_reconcile doc_peers
        ssh_frame_ops ssh_frame_seen ssh_frame_password preserves_routes preserves_names; simp add: doc_frames)?)

lemma run_locked:
  assumes "''base-ssh'' \<in> E" and "\<And>a. c \<noteq> Panic_open a" and "\<And>i a. c \<noteq> Add_service_l4 i a"
  shows "preserves (doc_inv (locked E)) (run env c)"
proof -
  note rules = locked_toggle locked_remove locked_scan locked_panic [OF assms(1)] locked_egress locked_ingress locked_server
    doc_reconcile doc_peers ssh_frame_ops ssh_frame_seen ssh_frame_password preserves_routes preserves_names
  show ?thesis
    by (cases c; simp only: run.simps removeServiceL4_def removeManual_def; rule preserves_void;
        (rule rules; simp add: doc_frames)?) (use assms in blast)+
qed

section \<open>Properties\<close>

text \<open>
  C1: whatever commands run, in whatever order, in whatever environment, and whether they succeed or fail: from a fresh
  installation the firewall document stays well-formed and mirrored in its table with the default base entries, the
  peers keep distinct names, keys, ids and addresses that the pool accounts for, and the ledger of SSH keys keeps
  distinct ids and fingerprints.
\<close>

theorem system_invariant:
  assumes "reaches UNIV world0 w"
  shows "fw_inv DEFAULT_IDS w \<and> vpn_inv w \<and> ssh_inv w"
proof (intro conjI)
  show "fw_inv DEFAULT_IDS w"
    by (rule reaches_preserves [OF assms _ run_fw_inv]) (simp_all add: fw_inv_def)
  show "vpn_inv w"
    by (rule reaches_preserves [OF assms _ run_vpn_inv]) (simp_all add: vpn_inv_world0)
  show "ssh_inv w"
    by (rule reaches_preserves [OF assms _ run_ssh_inv]) (simp_all add: ssh_inv_def ledger_ok_def)
qed

lemma first_steps: "reaches UNIV world0 (snd (run env0 (Peer_disable ''ops'' False None) (snd (run env0 (Disable ''base-ssh'' None) world0))))"
  by (intro reaches.command reaches.start) simp_all

theorem system_invariant_witness:
  "vpn_inv (snd (run env0 (Peer_disable ''ops'' False None) (snd (run env0 (Disable ''base-ssh'' None) world0))))"
  using system_invariant [OF first_steps] by blast

text \<open>
  C2: the lockdown holds until it is lifted: in every state that commands other than \<open>panicOpen\<close> and \<open>addServiceL4\<close> can
  reach from a document with the panic flag set, the flag is still set, and a rule that is enabled was enabled when
  the lockdown began, or is the SSH entry.
\<close>

theorem lockdown_persists:
  assumes "reaches (- (range Panic_open \<union> {Add_service_l4 i a | i a. True})) w v" and "fw_holds w s" and "fs_panic_close s"
    and "base_named (base_ids s)"
  shows "\<exists>t. fw_holds v t \<and> fs_panic_close t \<and>
    (\<forall>r\<in>set (rules_of t). rl_enabled r \<longrightarrow> rl_id r = ''base-ssh'' \<or> (\<exists>q\<in>set (rules_of s). rl_id q = rl_id r \<and> rl_enabled q))"
proof -
  let ?E = "insert ''base-ssh'' (rl_id ` {q \<in> set (rules_of s). rl_enabled q})"
  have "locked ?E s" using assms(3,4) by (auto simp: locked_def)
  with assms(2) have w: "doc_inv (locked ?E) w" by (auto intro: doc_holds)
  have "preserves (doc_inv (locked ?E)) (run env c)" if "c \<in> - (range Panic_open \<union> {Add_service_l4 i a | i a. True})" for env c
    using that by (intro run_locked) auto
  then have "doc_inv (locked ?E) v" using reaches_preserves [where P = "doc_inv (locked ?E)", OF assms(1) w] by simp
  then obtain t where "fw_holds v t" "locked ?E t" by (auto simp: doc_inv_def locked_def defaultState_def)
  then show ?thesis by (intro exI [of _ t]) (auto simp: locked_def)
qed

theorem lockdown_persists_witness:
  "\<exists>t. fw_holds (snd (run env0 (Enable ''base-caddy-http'' None None None None) (snd (run env0 Scan w_panic)))) t \<and> fs_panic_close t"
proof -
  have "reaches (- (range Panic_open \<union> {Add_service_l4 i a | i a. True})) w_panic
      (snd (run env0 (Enable ''base-caddy-http'' None None None None) (snd (run env0 Scan w_panic))))"
    by (intro reaches.command reaches.start) auto
  moreover have "fs_panic_close (panic_doc env0 None (defaultState env0))" by (simp add: panic_doc_def)
  moreover have "base_named (base_ids (panic_doc env0 None (defaultState env0)))" by simp
  ultimately show ?thesis using lockdown_persists [OF _ w_panic_holds] by blast
qed

text \<open>
  C7: nothing an operator can do makes the firewall impossible to render: in every state reachable from a fresh
  installation, a reconcile that passes the lockout check returns and is applied, given an \<open>nft\<close> that accepts it.
\<close>

theorem reachable_reconcile_converges:
  assumes "reaches UNIV world0 w" and "fw_holds w s" and "lockoutCheck s = Lockout_ok" and "nft_works env"
  shows "\<exists>r w'. reconcile env False force actor w = (Inr r, w') \<and> rr_ok r \<and> rr_applied r \<and> fw_holds w' s"
proof -
  have "doc_inv renderable w"
    by (rule reaches_preserves [OF assms(1) _ run_renderable]) (simp_all add: doc_inv_def renderable_default)
  with assms(2) have "renderable s" by (auto simp: doc_inv_def fw_holds_def)
  then have "network_ok s" by (simp add: renderable_def)
  from reconcile_completes [OF assms(2) this assms(3,4)] show ?thesis .
qed

lemma reaches_fresh: "reaches UNIV world0 w_fresh"
proof -
  have "snd (run env0 Boot_check world0) = w_fresh"
    by (simp add: void_def bootCheckIngress_def readState_fresh recorded_def defaultState_def w_fresh_def guardE_def bindE_def)
  then show ?thesis by (metis UNIV_I reaches.command reaches.start)
qed

theorem reachable_reconcile_converges_witness:
  "\<exists>r w'. reconcile env0 False False None w_fresh = (Inr r, w') \<and> rr_ok r"
  using reachable_reconcile_converges [OF reaches_fresh w_fresh_holds default_lockout env0_nft_works, of False None] by blast

end
