(* ===== verification/Vpn_Lifecycle.thy ===== *)
theory Vpn_Lifecycle
  imports Fw_Renderable Vpn_Safety
begin

text \<open>
  The VPN server and the firewall together: the order in which \<open>enable\<close> works, what it leaves in both, moving the
  port, and what \<open>disable\<close> does not reset.
\<close>

section \<open>Effects on the document\<close>

lemma enable_fn_ports:
  assumes "enable_fn env None None None actor b = Inr (r, us)"
  shows "r = b\<lparr>rl_enabled := True, rl_enabled_at := Some (env_now env), rl_enabled_by := actor\<rparr>"
  using assms by (auto simp: enable_fn_def applyServiceTag_def)

lemma nat_frame [simp]:
  "rules_of (with_nat_iface i s) = rules_of s" "rules_of (without_nat_iface s) = rules_of s"
  "findRule (with_nat_iface i s) j = findRule s j" "findRule (without_nat_iface s) j = findRule s j"
  "lockoutCheck (with_nat_iface i s) = lockoutCheck s" "lockoutCheck (without_nat_iface s) = lockoutCheck s"
  by (simp_all add: with_nat_iface_def without_nat_iface_def rules_of_def findRule_def lockoutCheck_def)

lemma setNatIface_ok:
  "fw_holds w s \<Longrightarrow> env_write_error env STATE_FILE = None \<Longrightarrow>
    setNatIface env i w = (Inr (), fw_written (with_nat_iface i s) w) \<and> fw_holds (fw_written (with_nat_iface i s) w) (with_nat_iface i s)"
proof -
  assume w: "fw_holds w s" and env: "env_write_error env STATE_FILE = None"
  have "fw_ok (with_nat_iface i s)" using w by (simp add: fw_holds_def)
  with w env show ?thesis by (simp add: setNatIface_def writeState_ok)
qed

text \<open>A successful \<open>open_firewall\<close>, and one that is sure to succeed.\<close>

lemma open_firewall_doc:
  assumes "fw_holds w s" and "env_write_error env STATE_FILE = None" and "open_firewall env iface actor w = (Inr u, w')"
  obtains t b r where "fw_holds w' t" and "findRule s ''base-wireguard'' = Some b" and "findRule t ''base-wireguard'' = Some r"
    and "r = b\<lparr>rl_enabled := True, rl_enabled_at := Some (env_now env), rl_enabled_by := actor\<rparr>"
    and "\<And>j. j \<noteq> ''base-wireguard'' \<Longrightarrow> findRule t j = findRule s j"
    and "\<exists>n. fs_nat t = Some n \<and> nat_vpn_masquerade_iface n = Some iface"
proof -
  let ?i = "''base-wireguard''"
  from assms(3) obtain ro ws v x rr where
    en: "fw_enable env ?i None None None actor w = (Inr (ro, ws), v)" and
    na: "setNatIface env iface v = (Inr (), x)" and re: "reconcile env False False actor x = (Inr rr, w')"
    by (auto simp: open_firewall_def eff_inv guardE_def split: if_splits)
  obtain b r t where b: "findRule s ?i = Some b" and r: "enable_fn env None None None actor b = Inr (r, ws)" and "rl_id r = ?i"
    and "t = replace_rule ?i r s" and t: "fw_holds v t" and "ro = Some r" and "ids t = ids s"
    and f: "\<And>j. findRule t j = (if j = ?i then Some r else findRule s j)" and "\<exists>l. v = (fw_written t w)\<lparr>w_audit := l\<rparr>"
    by (rule mutate_success [OF enable_mut.rule_mutator_axioms assms(1,2) en [unfolded fw_enable_def]]) (rule that; (assumption | simp))
  from setNatIface_ok [OF t assms(2)] na have "fw_holds x (with_nat_iface iface t)" by auto
  from preservesD [OF reconcile_keeps_doc this re] have "fw_holds w' (with_nat_iface iface t)" .
  moreover have "\<exists>n. fs_nat (with_nat_iface iface t) = Some n \<and> nat_vpn_masquerade_iface n = Some iface"
    by (simp add: with_nat_iface_def)
  ultimately show ?thesis using that [of "with_nat_iface iface t" b r] b f enable_fn_ports [OF r] by simp
qed

lemma bring_up_config:
  assumes "bring_up env ep n dns w = (Inr (iface, key), w')"
  shows "w_vpn_config w' = Some \<lparr>vc_server_public_key = key, vc_endpoint = ep, vc_listen_port = n, vc_cidr = WG_DEFAULT_CIDR,
    vc_default_iface = iface, vc_dns = dns\<rparr>"
proof -
  let ?c = "Some \<lparr>vc_server_public_key = key, vc_endpoint = ep, vc_listen_port = n, vc_cidr = WG_DEFAULT_CIDR,
    vc_default_iface = iface, vc_dns = dns\<rparr>"
  from assms obtain v x y k where v: "v = x\<lparr>w_vpn_config := ?c\<rparr>" and y: "writeWg0Conf env k n WG_SERVER_IP (readEnabledPeers v) v = (Inr (), y)"
    and s: "start_unit env y = (Inr (), w')"
    by (auto simp: bring_up_def eff_inv writeVpnConfig_def)
  have "w_vpn_config y = ?c"
    using preservesD [OF preserves_writeWg0Conf [where P = "\<lambda>w. w_vpn_config w = ?c"] _ y] v by simp
  then show ?thesis
    using preservesD [OF preserves_vpn_helpers(5) [where P = "\<lambda>w. w_vpn_config w = ?c"] _ s] by simp
qed

lemma fw_frame_config: "fw_frame (\<lambda>w. w_vpn_config w = c)"
  by (simp add: fw_frame_def layer_frame_def)

lemma open_firewall_config:
  assumes "open_firewall env iface actor w = (r, w')"
  shows "w_vpn_config w' = w_vpn_config w"
proof -
  have "preserves (\<lambda>v. w_vpn_config v = w_vpn_config w) (open_firewall env iface actor)"
    unfolding open_firewall_def setNatIface_def
    by (intro preserves_bindE fw_frame_toggle fw_frame_store fw_frame_reconcile fw_frame_config preserves_guardE)
  from preservesD [OF this _ assms] show ?thesis by simp
qed

text \<open>Before the firewall is opened, only the server row, files and the command log change.\<close>

definition core_of :: "world \<Rightarrow> world" where
  "core_of w = w\<lparr>w_vpn_config := None, w_files := Map.empty, w_cmds := []\<rparr>"

lemma core_of_sel:
  assumes "core_of v = core_of w"
  shows "w_fw v = w_fw w" "w_fw_bak v = w_fw_bak w" "w_fw_rules v = w_fw_rules w" "w_fw_reconciles v = w_fw_reconciles w"
    "w_peers v = w_peers w" "fw_holds v s = fw_holds w s"
  using assms by (cases v; cases w; simp add: core_of_def fw_holds_def)+

lemma bring_up_core:
  assumes "bring_up env ep n dns w = (r, w')"
  shows "core_of w' = core_of w"
proof -
  have "preserves (\<lambda>v. core_of v = core_of w) (bring_up env ep n dns)"
    by (intro preserves_bring_up) (simp_all add: core_of_def)
  from preservesD [OF this _ assms] show ?thesis by simp
qed

lemma ignore_not_found_Inr:
  "ignore_not_found m w = (Inr u, w') \<Longrightarrow> (\<exists>a. m w = (Inr a, w')) \<or> (\<exists>i. m w = (Inl (Fw (Rule_not_found i)), w'))"
  by (auto simp: ignore_not_found_def catchE_def bindE_def split: prod.splits sum.splits err.splits fw_err.splits)

text \<open>\<open>setPort\<close> either moves the rule or finds none.\<close>

lemma setPort_cases:
  assumes "fw_holds w s" and "env_write_error env STATE_FILE = None" and "1 \<le> n" "n \<le> 65535"
  obtains (none) "findRule s i = None" "setPort env i (Int_num n) None actor w = (Inl (Fw (Rule_not_found i)), w)"
  | (moved) b l where "findRule s i = Some b"
      "setPort env i (Int_num n) None actor w =
        (Inr (Some (b\<lparr>rl_port_start := n, rl_port_end := None\<rparr>), []),
         (fw_written (replace_rule i (b\<lparr>rl_port_start := n, rl_port_end := None\<rparr>) s) w)\<lparr>w_audit := l\<rparr>)"
      "fw_ok (replace_rule i (b\<lparr>rl_port_start := n, rl_port_end := None\<rparr>) s)" "rl_id b = i"
proof -
  have m: "rule_mutator (set_port_fn n None)" using assms(3,4) by (intro set_port_mutator) auto
  have p: "setPort env i (Int_num n) None actor = mutate env i ''set-port'' actor (set_port_fn n None)"
    by (rule ext) (use assms(3,4) in \<open>simp add: setPort_def port_in_def\<close>)
  have g: "panicGuard s ''set-port'' = Inr ()" by (simp add: panicGuard_def)
  have ok: "fw_ok s" using assms(1) by (simp add: fw_holds_def)
  show ?thesis
  proof (cases "findRule s i")
    case None
    then have "mutate_doc i ''set-port'' (set_port_fn n None) s = Inl (Fw (Rule_not_found i))" by (simp add: mutate_doc_def g)
    from rule_mutator.mutate_throws [OF m assms(1) this] none None p show ?thesis by simp
  next
    case (Some b)
    let ?r = "b\<lparr>rl_port_start := n, rl_port_end := None\<rparr>"
    have b: "rl_id b = i" using findRule_SomeD [OF Some] by simp
    have d: "mutate_doc i ''set-port'' (set_port_fn n None) s = Inr (replace_rule i ?r s, b, [])"
      by (simp add: mutate_doc_def g Some set_port_fn_def)
    have "findRule (replace_rule i ?r s) i = Some ?r" using findRule_replace_rule [OF fw_okD(2) [OF ok] _ Some] b by simp
    with rule_mutator.mutate_returns [OF m assms(1) d assms(2)] p moved [OF Some _ rule_mutator.mutate_doc_ok(1) [OF m d ok] b]
    show ?thesis by auto
  qed
qed

lemma align_firewall_doc:
  assumes "fw_holds w s" and "env_write_error env STATE_FILE = None" and "1 \<le> n" "n \<le> 65535"
    and "align_firewall env n actor w = (Inr u, w')"
  shows "\<exists>t. fw_holds w' t \<and> (\<forall>r. findRule t ''base-wireguard'' = Some r \<longrightarrow> rl_port_start r = n) \<and>
    (\<forall>j. j \<noteq> ''base-wireguard'' \<longrightarrow> findRule t j = findRule s j) \<and> w_vpn_config w' = w_vpn_config w"
proof -
  let ?i = "''base-wireguard''"
  from assms(5) obtain v rr where v: "ignore_not_found (setPort env ?i (Int_num n) None actor) w = (Inr (), v)"
    and re: "reconcile env False False actor v = (Inr rr, w')"
    by (auto simp: align_firewall_def eff_inv guardE_def split: if_splits)
  have c: "w_vpn_config w' = w_vpn_config v"
    using preservesD [OF fw_frame_reconcile [OF fw_frame_config [of "w_vpn_config v"]] _ re] by simp
  show ?thesis
  proof (rule setPort_cases [OF assms(1-4), of ?i actor], goal_cases)
    case none: 1
    then have "v = w" using ignore_not_found_Inr [OF v] by auto
    with re have "fw_holds w' s" using preservesD [OF reconcile_keeps_doc assms(1)] by simp
    with c none \<open>v = w\<close> show ?thesis by (intro exI [of _ s]) simp
  next
    case moved: (2 b l)
    let ?t = "replace_rule ?i (b\<lparr>rl_port_start := n, rl_port_end := None\<rparr>) s"
    have "v = (fw_written ?t w)\<lparr>w_audit := l\<rparr>" using ignore_not_found_Inr [OF v] moved(2) by auto
    then have h: "fw_holds v ?t" and "w_vpn_config v = w_vpn_config w" using moved(3) by (simp, simp add: fw_written_def)
    have "findRule ?t j = (if j = ?i then Some (b\<lparr>rl_port_start := n, rl_port_end := None\<rparr>) else findRule s j)" for j
      using findRule_replace_rule [OF fw_okD(2) _ moved(1)] assms(1) moved(4) by (auto simp: fw_holds_def)
    with c \<open>w_vpn_config v = w_vpn_config w\<close> preservesD [OF reconcile_keeps_doc h re] show ?thesis by (intro exI [of _ ?t]) simp
  qed
qed

lemma rebind_config:
  assumes "rebind_port env cfg n w = (Inr u, w')"
  shows "\<exists>c. w_vpn_config w' = Some c \<and> vc_listen_port c = n \<and> vc_endpoint c = move_endpoint (vc_endpoint cfg) n"
  using assms by (auto simp: rebind_port_def eff_inv writeVpnConfig_def writeWg0Conf_def)

lemma find_append: "find P (xs @ ys) = (case find P xs of None \<Rightarrow> find P ys | Some x \<Rightarrow> Some x)"
  by (induction xs) auto

section \<open>Hosts for the witnesses\<close>

lemma bindE_returns_ret: "\<exists>v. m w = (Inr u, v) \<Longrightarrow> \<exists>v. bindE m (\<lambda>_. ret x) w = (Inr x, v)"
  by auto

definition env_vpn :: env where
  "env_vpn = with_answers (\<lambda>p. if p = ''ip'' then proc_ok ''default via 192.0.2.1 dev eth0 proto dhcp''
     else if p = ''wg'' then proc_ok ''KEY'' else proc_ok [])"

lemma env_vpn_sel [simp]:
  "env_spawn env_vpn cs c = (if cmd_prog c = ''ip'' then proc_ok ''default via 192.0.2.1 dev eth0 proto dhcp''
     else if cmd_prog c = ''wg'' then proc_ok ''KEY'' else proc_ok [])" "env_write_error env_vpn = (\<lambda>_. None)"
  by (simp_all add: env_vpn_def)

lemma env_vpn_nft: "nft_works env_vpn"
  by (simp add: nft_works_def)

definition EP :: string where "EP = ''vpn:49000''"

lemma detect_vpn: "detectDefaultIface env_vpn w = (Inr ''eth0'', w\<lparr>w_cmds := w_cmds w @ [Cmd ''ip'' [''-j'', ''route'', ''show'', ''default''] [],
    Cmd ''ip'' [''route'', ''show'', ''default''] []]\<rparr>)"
proof -
  have "json_dev ''default via 192.0.2.1 dev eth0 proto dhcp'' = None"
    "match_dev False ''default via 192.0.2.1 dev eth0 proto dhcp'' = Some ''eth0''" by code_simp+
  then show ?thesis by (simp add: detectDefaultIface_def)
qed

lemma server_key_vpn: "\<exists>v. server_key env_vpn None w = (Inr (''KEY'', ''KEY''), v)"
proof -
  have "trim ''KEY'' = ''KEY''" by code_simp
  then have "\<exists>v. generateKeypair env_vpn w = (Inr (''KEY'', ''KEY''), v)"
    by (simp add: generateKeypair_def out_trim_def guardE_def bindE_def Let_def)
  then obtain v where "generateKeypair env_vpn w = (Inr (''KEY'', ''KEY''), v)" ..
  then show ?thesis by (simp add: server_key_def)
qed

lemma start_unit_vpn: "\<exists>v. start_unit env_vpn w = (Inr (), v)"
  by (simp add: start_unit_def guardE_def bindE_def)

lemma bring_up_vpn:
  assumes "w_vpn_config w = None"
  shows "\<exists>v. bring_up env_vpn ep n dns w = (Inr (''eth0'', ''KEY''), v)"
proof -
  obtain v where v: "server_key env_vpn None (w\<lparr>w_cmds := w_cmds w @ [Cmd ''ip'' [''-j'', ''route'', ''show'', ''default''] [],
    Cmd ''ip'' [''route'', ''show'', ''default''] []]\<rparr>) = (Inr (''KEY'', ''KEY''), v)" using server_key_vpn by blast
  have run: "bring_up env_vpn ep n dns w = bindE (start_unit env_vpn) (\<lambda>_. ret (''eth0'', ''KEY''))
      (v\<lparr>w_vpn_config := Some \<lparr>vc_server_public_key = ''KEY'', vc_endpoint = ep, vc_listen_port = n, vc_cidr = WG_DEFAULT_CIDR,
          vc_default_iface = ''eth0'', vc_dns = dns\<rparr>,
        w_files := (w_files v)(WG_CONFIG_FILE \<mapsto> renderWg0Conf env_vpn ''KEY'' n WG_SERVER_IP (readEnabledPeers v))\<rparr>)"
    using assms v by (simp add: bring_up_def readVpnConfig_def detect_vpn writeVpnConfig_def writeWg0Conf_def readEnabledPeers_def
        enabled_peers_def)
  show ?thesis unfolding run
    by (rule bindE_returns_ret [OF start_unit_vpn])
qed

text \<open>A firewall that is sure to open: SSH passes the lockout check and the panic flag is clear.\<close>

lemma lockout_other_rule:
  assumes "fw_ok s" and "findRule s i = Some b" and "rl_id r = i" and "q \<in> set (rules_of s)" and "rl_id q \<noteq> i" and "covers_ssh q" and "ssh_reachable q"
  shows "lockoutCheck (replace_rule i r s) = Lockout_ok"
proof -
  have "q \<in> set (rules_of (replace_rule i r s))" using assms(1,4,5) by (auto simp: rules_of_replace_rule fw_okD)
  with assms(6,7) show ?thesis unfolding lockoutCheck_ok_iff by blast
qed

definition ssh_rule :: "env \<Rightarrow> rule" where
  "ssh_rule env = base_rule ''base-ssh'' 22 ''tcp'' True ''ssh'' (env_now env)"

lemma ssh_rule_default:
  "ssh_rule env \<in> set (rules_of (defaultState env))" "covers_ssh (ssh_rule env)" "ssh_reachable (ssh_rule env)" "rl_id (ssh_rule env) = ''base-ssh''"
  by (simp_all add: ssh_rule_def covers_ssh_def ssh_reachable_def rules_of_def defaultState_def DEFAULT_BASE_def base_rule_def)

definition wg_rule :: "env \<Rightarrow> rule" where
  "wg_rule env = the (findRule (defaultState env) ''base-wireguard'')"

lemma wg_rule_default: "findRule (defaultState env) ''base-wireguard'' = Some (wg_rule env)" "rl_id (wg_rule env) = ''base-wireguard''"
  "rl_port_start (wg_rule env) = 51820"
  by (simp_all add: wg_rule_def findRule_def rules_of_def defaultState_def DEFAULT_BASE_def base_rule_def)

text \<open>With another WireGuard entry in it, the default document still reconciles.\<close>

lemma default_replaced:
  assumes "rl_id r = ''base-wireguard''"
  shows "renderable (replace_rule ''base-wireguard'' r (defaultState env))"
    and "lockoutCheck (replace_rule ''base-wireguard'' r (defaultState env)) = Lockout_ok"
  using renderable_replace [OF _ assms renderable_default [of env]] wg_rule_default [of env] ssh_rule_default [of env]
    lockout_other_rule [of "defaultState env" "''base-wireguard''" "wg_rule env" r "ssh_rule env"] assms by simp_all

lemma open_firewall_default:
  assumes "fw_holds w (defaultState env_vpn)"
  shows "\<exists>w'. open_firewall env_vpn ''eth0'' actor w = (Inr (), w')"
proof -
  let ?i = "''base-wireguard''" and ?s = "defaultState env_vpn"
  let ?r = "(wg_rule env_vpn)\<lparr>rl_enabled := True, rl_enabled_at := Some (env_now env_vpn), rl_enabled_by := actor\<rparr>"
  let ?t = "replace_rule ?i ?r ?s"
  have ok: "env_write_error env_vpn STATE_FILE = None" by simp
  have "panicGuard ?s ''enable'' = Inr ()" by (simp add: panicGuard_def defaultState_def)
  then have doc: "mutate_doc ?i ''enable'' (enable_fn env_vpn None None None actor) ?s = Inr (?t, wg_rule env_vpn, [])"
    by (simp add: mutate_doc_def wg_rule_default enable_fn_def applyServiceTag_def)
  from enable_mut.mutate_returns [OF assms doc ok] obtain l where
    en: "fw_enable env_vpn ?i None None None actor w = (Inr (findRule ?t ?i, []), (fw_written ?t w)\<lparr>w_audit := l\<rparr>)"
    by (auto simp: fw_enable_def)
  have t: "fw_ok ?t" using enable_mut.mutate_doc_ok(1) [OF doc] by simp
  then have h: "fw_holds ((fw_written ?t w)\<lparr>w_audit := l\<rparr>) ?t" by simp
  let ?u = "with_nat_iface ''eth0'' ?t"
  let ?v = "fw_written ?u ((fw_written ?t w)\<lparr>w_audit := l\<rparr>)"
  have na: "setNatIface env_vpn ''eth0'' ((fw_written ?t w)\<lparr>w_audit := l\<rparr>) = (Inr (), ?v)" and hv: "fw_holds ?v ?u"
    using setNatIface_ok [OF h ok] by auto
  have r: "rl_id ?r = ?i" by (simp add: wg_rule_default)
  note default_replaced(1) [OF r, of env_vpn]
  moreover have "IFACE_RE ''eth0''" by code_simp
  ultimately have "network_ok ?u" using renderable_nat(1) by (simp add: renderable_def)
  moreover have "lockoutCheck ?u = Lockout_ok" using default_replaced(2) [OF r, of env_vpn] by simp
  ultimately obtain rr w' where "reconcile env_vpn False False actor ?v = (Inr rr, w')" "rr_ok rr"
    using reconcile_completes [OF hv _ _ env_vpn_nft] by blast
  with en na show ?thesis by (simp add: open_firewall_def)
qed

section \<open>Properties\<close>

text \<open>
  C20: \<open>enable\<close> touches the firewall last: when any earlier step fails (no default route, no key, a failing write, a
  unit that does not start), the call fails with that error and the firewall document, its backup, its table and the
  list of reconciles are as before.
\<close>

theorem firewall_opens_last:
  assumes "ep \<noteq> []" and "validateEndpoint ep = Inr x" and "validateListenPort p = Inr n" and "bring_up env ep n dns w = (Inl e, w')"
  shows "vpn_enable env (Some ep) p dns actor w = (Inl e, w') \<and> w_fw w' = w_fw w \<and> w_fw_bak w' = w_fw_bak w \<and>
    w_fw_rules w' = w_fw_rules w \<and> w_fw_reconciles w' = w_fw_reconciles w \<and> w_peers w' = w_peers w"
proof -
  have "vpn_enable env (Some ep) p dns actor w = (Inl e, w')"
    using assms by (simp add: vpn_enable_def truthy_def)
  moreover have "w_fw w' = w_fw w \<and> w_fw_bak w' = w_fw_bak w \<and> w_fw_rules w' = w_fw_rules w \<and>
      w_fw_reconciles w' = w_fw_reconciles w \<and> w_peers w' = w_peers w"
    using core_of_sel [OF bring_up_core [OF assms(4)]] by simp
  ultimately show ?thesis by blast
qed

lemma EP_ok: "EP \<noteq> []" "validateEndpoint EP = Inr (''vpn'', 49000)"
proof -
  have "js_number ''49000'' = Int_num 49000"
    by (simp add: js_number_digits all_digits_def class_defs read_nat_def digit_val_def)
  moreover have "match_endpoint EP = Some (''vpn'', ''49000'')"
    by (simp add: EP_def match_endpoint_def match_host_def is_host_char_def class_defs)
  ultimately show "validateEndpoint EP = Inr (''vpn'', 49000)" by (simp add: validateEndpoint_def EP_def)
qed (simp add: EP_def)

theorem firewall_opens_last_witness:
  "\<exists>w'. vpn_enable env0 (Some EP) (Int_num 49000) ''10.100.0.1'' None w_fresh = (Inl (Vpn No_default_iface), w') \<and> w_fw w' = w_fw w_fresh"
proof -
  have p: "validateListenPort (Int_num 49000) = Inr 49000" by (simp add: validateListenPort_def)
  have "trim [] = []" by code_simp
  then have "\<exists>w'. detectDefaultIface env0 w_fresh = (Inl (Vpn No_default_iface), w')"
    by (simp add: detectDefaultIface_def out_trim_def)
  then obtain w' where "bring_up env0 EP 49000 ''10.100.0.1'' w_fresh = (Inl (Vpn No_default_iface), w')"
    by (auto simp: bring_up_def readVpnConfig_def)
  from firewall_opens_last [OF EP_ok p this] show ?thesis by blast
qed

text \<open>
  A successful \<open>enable\<close> stores the requested endpoint and port, switches the base WireGuard entry on, routes the
  VPN out of the detected interface, and leaves every other rule alone. The port of the WireGuard entry is not
  aligned: it stays what it was, whatever port the server was told to listen on.
\<close>

theorem vpn_enable_opens:
  assumes "fw_holds w s" and "env_write_error env STATE_FILE = None" and "vpn_enable env (Some ep) p dns actor w = (Inr (ep', n, iface, key), w')"
  shows "\<exists>t b r. fw_holds w' t \<and> ep' = ep \<and> p = Int_num n \<and> 1 \<le> n \<and> n \<le> 65535 \<and> IFACE_RE iface \<and>
    w_vpn_config w' = Some \<lparr>vc_server_public_key = key, vc_endpoint = ep, vc_listen_port = n, vc_cidr = WG_DEFAULT_CIDR,
      vc_default_iface = iface, vc_dns = dns\<rparr> \<and>
    findRule s ''base-wireguard'' = Some b \<and> findRule t ''base-wireguard'' = Some r \<and> rl_enabled r \<and>
    rl_port_start r = rl_port_start b \<and> rl_scope r = rl_scope b \<and>
    (\<forall>j. j \<noteq> ''base-wireguard'' \<longrightarrow> findRule t j = findRule s j) \<and>
    (\<exists>m. fs_nat t = Some m \<and> nat_vpn_masquerade_iface m = Some iface)"
proof -
  from assms(3) obtain v x where up: "bring_up env ep n dns w = (Inr (iface, key), v)" and op: "open_firewall env iface actor v = (Inr (), x)"
    and w': "\<exists>l. w' = x\<lparr>w_audit := l\<rparr>" and n: "validateListenPort p = Inr n" "ep' = ep"
    by (auto simp: vpn_enable_def eff_inv)
  have p: "p = Int_num n" "1 \<le> n" "n \<le> 65535" using n(1) by (auto simp: validateListenPort_def split: jsnum.splits if_splits)
  have v: "fw_holds v s" using assms(1) core_of_sel(6) [OF bring_up_core [OF up]] by simp
  obtain t b r where t: "fw_holds x t" and b: "findRule s ''base-wireguard'' = Some b" and r: "findRule t ''base-wireguard'' = Some r"
    "r = b\<lparr>rl_enabled := True, rl_enabled_at := Some (env_now env), rl_enabled_by := actor\<rparr>"
    and o: "\<And>j. j \<noteq> ''base-wireguard'' \<Longrightarrow> findRule t j = findRule s j"
    and na: "\<exists>m. fs_nat t = Some m \<and> nat_vpn_masquerade_iface m = Some iface"
    by (rule open_firewall_doc [OF v assms(2) op]) (rule that; (assumption | simp))
  have "w_vpn_config w' = w_vpn_config v" using open_firewall_config [OF op] w' by auto
  with bring_up_config [OF up] have c: "w_vpn_config w' = Some \<lparr>vc_server_public_key = key, vc_endpoint = ep, vc_listen_port = n,
      vc_cidr = WG_DEFAULT_CIDR, vc_default_iface = iface, vc_dns = dns\<rparr>" by simp
  have h: "fw_holds w' t" using t w' by auto
  show ?thesis
    by (rule exI [of _ t], rule exI [of _ b], rule exI [of _ r]) (use h n(2) p bring_up_iface [OF up] c b r o na in simp)
qed

theorem vpn_enable_opens_witness:
  "\<exists>w' t r. vpn_enable env_vpn (Some EP) (Int_num 49000) ''10.100.0.1'' None (fw_written (defaultState env_vpn) world0) =
      (Inr (EP, 49000, ''eth0'', ''KEY''), w') \<and>
    fw_holds w' t \<and> findRule t ''base-wireguard'' = Some r \<and> rl_enabled r \<and> rl_port_start r = 51820"
proof -
  let ?w = "fw_written (defaultState env_vpn) world0"
  have h: "fw_holds ?w (defaultState env_vpn)" by simp
  have ok: "env_write_error env_vpn STATE_FILE = None" by simp
  obtain v where up: "bring_up env_vpn EP 49000 ''10.100.0.1'' ?w = (Inr (''eth0'', ''KEY''), v)" using bring_up_vpn [of ?w EP 49000 "''10.100.0.1''"] by (auto simp: fw_written_def)
  have "fw_holds v (defaultState env_vpn)" using h core_of_sel(6) [OF bring_up_core [OF up]] by simp
  then obtain x where op: "open_firewall env_vpn ''eth0'' None v = (Inr (), x)" using open_firewall_default by blast
  have "validateListenPort (Int_num 49000) = Inr 49000" by (simp add: validateListenPort_def)
  then obtain w' where run: "vpn_enable env_vpn (Some EP) (Int_num 49000) ''10.100.0.1'' None ?w = (Inr (EP, 49000, ''eth0'', ''KEY''), w')"
    using up op EP_ok by (simp add: vpn_enable_def truthy_def)
  from vpn_enable_opens [OF h ok run] run show ?thesis by (auto simp: wg_rule_default)
qed

text \<open>
  When \<open>setListenPort\<close> returns, the port is in the safe range, the stored configuration has that port and the
  returned endpoint, and a WireGuard entry in the firewall is open on the same port; every other rule is untouched.
\<close>

theorem port_aligned:
  assumes "fw_holds w s" and "env_write_error env STATE_FILE = None" and "setListenPort env p actor w = (Inr (n, ep, ch), w')"
  shows "p = Int_num n \<and> 49000 \<le> n \<and> n \<le> 49999 \<and>
    (\<exists>c. w_vpn_config w' = Some c \<and> vc_listen_port c = n \<and> vc_endpoint c = ep) \<and>
    (\<exists>t. fw_holds w' t \<and> (\<forall>r. findRule t ''base-wireguard'' = Some r \<longrightarrow> rl_port_start r = n) \<and>
      (\<forall>j. j \<noteq> ''base-wireguard'' \<longrightarrow> findRule t j = findRule s j))"
proof -
  from assms(3) have v: "validateListenPort p = Inr n" "isPortInSafeRange (Int_num n)"
    by (auto simp: setListenPort_def eff_inv Let_def split: option.splits if_splits)
  then have p: "p = Int_num n" "49000 \<le> n" "n \<le> 49999" "1 \<le> n" "n \<le> 65535"
    by (auto simp: validateListenPort_def isPortInSafeRange_def WG_SAFE_PORT_MIN_def WG_SAFE_PORT_MAX_def split: jsnum.splits if_splits)
  from assms(3) obtain cfg where cfg: "w_vpn_config w = Some cfg"
    by (auto simp: setListenPort_def readVpnConfig_def eff_inv split: option.splits)
  note run = assms(3) [unfolded setListenPort_def v(1)]
  consider (same) b where "w' = w" "n = vc_listen_port cfg" "ep = vc_endpoint cfg"
      "find (\<lambda>r. rl_id r = ''base-wireguard'') (fs_base s) = Some b" "rl_port_start b = n"
    | (realigned) x l where "align_firewall env n actor w = (Inr (), x)" "w' = x\<lparr>w_audit := l\<rparr>" "n = vc_listen_port cfg" "ep = vc_endpoint cfg"
    | (moved) y x l where "rebind_port env cfg n w = (Inr (), y)" "align_firewall env n actor y = (Inr (), x)" "w' = x\<lparr>w_audit := l\<rparr>"
      "ep = move_endpoint (vc_endpoint cfg) n"
    using run assms(1) cfg v(2)
    by (auto simp: readVpnConfig_def eff_inv Let_def split: option.splits if_splits)
  then have "(\<exists>c. w_vpn_config w' = Some c \<and> vc_listen_port c = n \<and> vc_endpoint c = ep) \<and>
    (\<exists>t. fw_holds w' t \<and> (\<forall>r. findRule t ''base-wireguard'' = Some r \<longrightarrow> rl_port_start r = n) \<and>
      (\<forall>j. j \<noteq> ''base-wireguard'' \<longrightarrow> findRule t j = findRule s j))"
  proof cases
    case same
    then have "findRule s ''base-wireguard'' = Some b" by (simp add: findRule_def rules_of_def find_append)
    with same cfg assms(1) show ?thesis by auto
  next
    case realigned
    with align_firewall_doc [OF assms(1,2) p(4,5) realigned(1)] cfg show ?thesis by auto
  next
    case moved
    have "fw_holds y s"
      using preservesD [OF preserves_bring_up(3) [where P = "\<lambda>w. fw_holds w s"] assms(1) moved(1)] by simp
    from align_firewall_doc [OF this assms(2) p(4,5) moved(2)] moved rebind_config [OF moved(1)] show ?thesis by auto
  qed
  with p show ?thesis by blast
qed

definition w_server :: world where
  "w_server = (fw_written (defaultState env0) world0)\<lparr>w_vpn_config := w_vpn_config w_vpn\<rparr>"

lemma w_server_holds: "fw_holds w_server (defaultState env0)"
  by (simp add: w_server_def)

lemma w_server_config: "\<exists>c. w_vpn_config w_server = Some c \<and> vc_listen_port c = 49000"
  by (simp add: w_server_def w_vpn_def)

theorem port_aligned_witness:
  "\<exists>ep ch w' t. setListenPort env0 (Int_num 49000) None w_server = (Inr (49000, ep, ch), w') \<and> fw_holds w' t \<and>
    (\<forall>r. findRule t ''base-wireguard'' = Some r \<longrightarrow> rl_port_start r = 49000)"
proof -
  let ?i = "''base-wireguard''"
  obtain c where c: "w_vpn_config w_server = Some c" "vc_listen_port c = 49000" using w_server_config by blast
  have al: "\<exists>x. align_firewall env0 49000 None w_server = (Inr (), x)"
  proof (rule setPort_cases [OF w_server_holds env0_writable, of 49000 ?i None], goal_cases)
    case (4 b l)
    let ?r = "b\<lparr>rl_port_start := 49000, rl_port_end := None\<rparr>"
    let ?x = "(fw_written (replace_rule ?i ?r (defaultState env0)) w_server)\<lparr>w_audit := l\<rparr>"
    have r: "rl_id ?r = ?i" using 4 by simp
    have "fw_holds ?x (replace_rule ?i ?r (defaultState env0))" using 4 by simp
    from reconcile_completes [OF this _ default_replaced(2) [OF r] env0_nft_works, of False None] default_replaced(1) [OF r]
    obtain rr x where "reconcile env0 False False None ?x = (Inr rr, x)" "rr_ok rr" by (auto simp: renderable_def)
    with 4 show ?case by (simp add: align_firewall_def ignore_not_found_def catchE_def bindE_def)
  qed (simp_all add: wg_rule_default)
  have b: "find (\<lambda>r. rl_id r = ?i) (fs_base (defaultState env0)) = Some (wg_rule env0)" "rl_port_start (wg_rule env0) = 51820"
    by (simp_all add: wg_rule_def findRule_def rules_of_def defaultState_def DEFAULT_BASE_def base_rule_def)
  from al obtain x where "align_firewall env0 49000 None w_server = (Inr (), x)" ..
  then obtain ep ch w' where run: "setListenPort env0 (Int_num 49000) None w_server = (Inr (49000, ep, ch), w')"
    using c b w_server_holds
    by (auto simp: setListenPort_def validateListenPort_def isPortInSafeRange_def WG_SAFE_PORT_MIN_def WG_SAFE_PORT_MAX_def
        readVpnConfig_def)
  from port_aligned [OF w_server_holds env0_writable run] run show ?thesis by auto
qed

section \<open>What disabling does not reset\<close>

definition key_lost :: "vpn_config \<Rightarrow> world \<Rightarrow> bool" where
  "key_lost c w \<longleftrightarrow> w_vpn_config w = Some c \<and> w_files w WG_SERVER_PRIVATE = None"

lemma key_lost_upd [simp]:
  "key_lost c (w\<lparr>w_cmds := x1\<rparr>) = key_lost c w" "key_lost c (w\<lparr>w_audit := x2\<rparr>) = key_lost c w" "key_lost c (w\<lparr>w_fw := x3\<rparr>) = key_lost c w"
  "key_lost c (w\<lparr>w_fw_bak := x4\<rparr>) = key_lost c w" "key_lost c (w\<lparr>w_fw_rules := x5\<rparr>) = key_lost c w"
  "key_lost c (w\<lparr>w_fw_reconciles := x6\<rparr>) = key_lost c w"
  by (simp_all add: key_lost_def)

lemma key_lost_temp: "preserves (key_lost c) (with_temp_file env p b (spawn env q a i))"
  by (rule preservesI) (simp add: with_temp_file_def key_lost_def split: option.split)

lemma key_lost_reconcile: "preserves (key_lost c) (reconcile env dry force actor)"
  unfolding reconcile_def apply_and_record_def applyRuleset_def
  by (intro key_lost_temp preserves_intros; simp)

lemma key_lost_disable: "preserves (key_lost c) (vpn_disable env actor)"
  unfolding vpn_disable_def fw_disable_def mutate_def clearNatIface_def readVpnConfig_def
  by (intro key_lost_reconcile preserves_intros; simp)

text \<open>
  Disabling the VPN does not start it afresh: when the server's private key file is gone, \<open>enable\<close> still refuses
  after a successful \<open>disable\<close>, with the error that recommends exactly that.
\<close>

theorem disable_keeps_lost_key:
  assumes "w_vpn_config w = Some c" and "w_files w WG_SERVER_PRIVATE = None" and "vpn_disable env actor w = (Inr x, w')"
    and "ep \<noteq> []" and "validateEndpoint ep = Inr y" and "validateListenPort p = Inr n" and "detectDefaultIface env' w' = (Inr i, v)"
  shows "vpn_enable env' (Some ep) p dns actor' w' = (Inl (Vpn Server_key_missing), v)"
proof -
  have "key_lost c w'" using preservesD [OF key_lost_disable _ assms(3)] assms(1,2) by (simp add: key_lost_def)
  then have w': "w_vpn_config w' = Some c" by (simp add: key_lost_def)
  have "preserves (key_lost c) (detectDefaultIface env')" by (intro preserves_intros) simp
  from preservesD [OF this \<open>key_lost c w'\<close> assms(7)] have "w_files v WG_SERVER_PRIVATE = None" by (simp add: key_lost_def)
  then have "server_key env' (Some c) v = (Inl (Vpn Server_key_missing), v)" by (simp add: server_key_def)
  then show ?thesis using assms(4-7) w' by (simp add: vpn_enable_def truthy_def bring_up_def readVpnConfig_def)
qed

lemma disable_default: "\<exists>w'. vpn_disable env0 None w_server = (Inr False, w')"
proof -
  let ?i = "''base-wireguard''" and ?s = "defaultState env0"
  let ?r = "(wg_rule env0)\<lparr>rl_enabled := False, rl_disabled_at := Some (env_now env0), rl_disabled_by := None\<rparr>"
  let ?t = "replace_rule ?i ?r ?s"
  define v where "v = w_server\<lparr>w_cmds := w_cmds w_server @ [Cmd ''systemctl'' [''disable'', ''--now'', ''wg-quick@'' @ WG_INTERFACE] []]\<rparr>"
  have v: "fw_holds v ?s" using w_server_holds by (simp add: v_def)
  have r: "rl_id ?r = ?i" by (simp add: wg_rule_default)
  have "panicGuard ?s ''disable'' = Inr ()" by (simp add: panicGuard_def)
  then have doc: "mutate_doc ?i ''disable'' (disable_fn env0 None) ?s = Inr (?t, wg_rule env0, [])"
    by (simp add: mutate_doc_def wg_rule_default disable_fn_def)
  from disable_mut.mutate_returns [OF v doc env0_writable] obtain l where
    dis: "fw_disable env0 ?i None v = (Inr (findRule ?t ?i, []), (fw_written ?t v)\<lparr>w_audit := l\<rparr>)" by (auto simp: fw_disable_def)
  have h: "fw_holds ((fw_written ?t v)\<lparr>w_audit := l\<rparr>) ?t" using disable_mut.mutate_doc_ok(1) [OF doc] by simp
  have nat: "clearNatIface env0 ((fw_written ?t v)\<lparr>w_audit := l\<rparr>) = (Inr (), (fw_written ?t v)\<lparr>w_audit := l\<rparr>)"
    using h by (simp add: clearNatIface_def defaultState_def)
  obtain rr w' where "reconcile env0 False False None ((fw_written ?t v)\<lparr>w_audit := l\<rparr>) = (Inr rr, w')" "rr_ok rr"
    using reconcile_completes [OF h _ default_replaced(2) [OF r] env0_nft_works, of False None] default_replaced(1) [OF r]
    by (auto simp: renderable_def)
  moreover obtain c where "w_vpn_config w_server = Some c" using w_server_config by blast
  ultimately show ?thesis using dis nat
    by (simp add: vpn_disable_def readVpnConfig_def ignore_not_found_def v_def catchE_def bindE_def guardE_def)
qed

theorem disable_keeps_lost_key_witness:
  "\<exists>w' v. vpn_disable env0 None w_server = (Inr False, w') \<and>
    vpn_enable env_vpn (Some EP) (Int_num 49000) ''10.100.0.1'' None w' = (Inl (Vpn Server_key_missing), v)"
proof -
  obtain c where c: "w_vpn_config w_server = Some c" using w_server_config by blast
  have k: "w_files w_server WG_SERVER_PRIVATE = None" by (simp add: w_server_def fw_written_def)
  obtain w' where d: "vpn_disable env0 None w_server = (Inr False, w')" using disable_default by blast
  have p: "validateListenPort (Int_num 49000) = Inr 49000" by (simp add: validateListenPort_def)
  from disable_keeps_lost_key [OF c k d EP_ok p detect_vpn] d show ?thesis by blast
qed

section \<open>The last full or admin peer\<close>

text \<open>
  Without \<open>--force\<close>, the only enabled full or admin peer cannot be demoted to single services while an enabled
  vpn-only rule without a service tag depends on it: the call fails naming those rules and changes nothing.
\<close>

theorem demote_guard:
  assumes "PEER_NAME_RE name" and "validateScope ''services'' services = Inr ()" and "readPeerByName name w = Some p"
    and "pe_status p = ''enabled''" and "pe_scope p \<in> {''full'', ''admin''}" and "other_full_admin p w = 0"
    and "fw_holds w s" and "r \<in> set (rules_of s)" and "rl_enabled r" and "rl_scope r = ''vpn-only''" and "\<not> truthy (rl_service r)"
  shows "\<exists>rs. setPeerScope env name ''services'' services False actor w = (Inl (Vpn (Last_full_admin_demote name rs)), w) \<and> rl_id r \<in> set rs"
proof -
  have r: "r \<in> set (untagged_vpn_only s)" using assms(8-11) by (simp add: untagged_vpn_only_def)
  then have ne: "untagged_vpn_only s \<noteq> []" by auto
  have "pe_name p = name" using readPeerByName_sel [OF assms(3)] by simp
  then have "demote_gate env p w = (Inl (Vpn (Last_full_admin_demote name (map rl_id (untagged_vpn_only s)))), w)"
    using assms(6,7) ne by (simp add: demote_gate_def catchE_def bindE_def guardE_def)
  moreover have "rl_id r \<in> set (map rl_id (untagged_vpn_only s))" using r by simp
  ultimately show ?thesis using assms(1-5)
    by (auto simp: setPeerScope_def validatePeerName_def need_peer_found)
qed

definition w_admin :: world where
  "w_admin = (fw_written ((defaultState env0)\<lparr>fs_base := [vpn_rule]\<rparr>) world0)\<lparr>w_peers := [peer1]\<rparr>"

theorem demote_guard_witness:
  "\<exists>rs. setPeerScope env0 ''ops'' ''services'' (Some [''db'']) False None w_admin = (Inl (Vpn (Last_full_admin_demote ''ops'' rs)), w_admin) \<and>
    ''base-ssh'' \<in> set rs"
proof -
  let ?s = "(defaultState env0)\<lparr>fs_base := [vpn_rule]\<rparr>"
  have "fw_ok ?s"
    by (simp add: fw_ok_defs vpn_rule_def defaultState_def base_rule_def rule_ok_def ports_ok_def
        VALID_SOURCES_def VALID_PROTOS_def VALID_SCOPES_def)
  then have h: "fw_holds w_admin ?s" by (simp add: w_admin_def)
  have n: "PEER_NAME_RE ''ops''" "validateScope ''services'' (Some [''db'']) = Inr ()" by code_simp+
  have p: "readPeerByName ''ops'' w_admin = Some peer1" by (simp add: readPeerByName_def w_admin_def peer1_def)
  have o: "pe_status peer1 = ''enabled''" "pe_scope peer1 \<in> {''full'', ''admin''}" "other_full_admin peer1 w_admin = 0"
    by (simp_all add: peer1_def other_full_admin_def w_admin_def)
  have r: "vpn_rule \<in> set (rules_of ?s)" "rl_enabled vpn_rule" "rl_scope vpn_rule = ''vpn-only''" "\<not> truthy (rl_service vpn_rule)"
    by (simp_all add: rules_of_def vpn_rule_def base_rule_def truthy_def)
  from demote_guard [OF n p o h r, of env0 None] show ?thesis by (simp add: vpn_rule_def base_rule_def)
qed

end
