(* ===== verification/Vpn_Endpoint.thy ===== *)
theory Vpn_Endpoint
  imports Vpn_Server PP_Example
begin

text \<open>
  The endpoint string that clients dial and the MTU of the tunnel: what the endpoint pattern accepts, what moving the
  port makes of it, and the range of the MTU.
\<close>

section \<open>The pattern\<close>

lemma colon_not_digit: "\<not> is_digit (CHR '':'')"
  by code_simp

lemma split_digits:
  assumes "\<forall>c\<in>set ds. is_digit c" and "\<not> is_digit x"
  shows "takeWhile is_digit (rev (h @ x # ds)) = rev ds" and "dropWhile is_digit (rev (h @ x # ds)) = x # rev h"
  using assms by (simp_all add: takeWhile_append dropWhile_append)

lemma match_endpoint_app:
  assumes "\<forall>c\<in>set ds. is_digit c"
  shows "match_endpoint (h @ CHR '':'' # ds) =
    (if ds \<noteq> [] \<and> length ds \<le> 5 then map_option (\<lambda>x. (x, ds)) (match_host h) else None)"
  unfolding match_endpoint_def Let_def split_digits [OF assms colon_not_digit] by simp

lemma match_endpoint_Some:
  assumes "match_endpoint e = Some (x, ds)"
  obtains h where "e = h @ CHR '':'' # ds" and "match_host h = Some x" and "\<forall>c\<in>set ds. is_digit c"
proof -
  let ?r = "dropWhile is_digit (rev e)"
  from assms have r: "?r = CHR '':'' # tl ?r" "match_host (rev (tl ?r)) = Some x" "ds = rev (takeWhile is_digit (rev e))"
    by (cases ?r; auto simp: match_endpoint_def Let_def split: if_splits)+
  have "rev e = rev ds @ ?r" using r(3) by simp
  then have "e = rev ?r @ ds" by (metis rev_append rev_rev_ident)
  moreover have "rev ?r = rev (tl ?r) @ [CHR '':'']" using r(1) by (metis rev.simps(2))
  ultimately have "e = rev (tl ?r) @ CHR '':'' # ds" by simp
  moreover have "\<forall>c\<in>set ds. is_digit c" using r(3) by (auto dest: set_takeWhileD)
  ultimately show ?thesis using that r(2) by blast
qed

lemma before_last_colon_app:
  assumes "CHR '':'' \<notin> set ds"
  shows "before_last_colon (h @ CHR '':'' # ds) = h"
proof -
  have "dropWhile (\<lambda>c. c \<noteq> CHR '':'') (rev ds @ CHR '':'' # rev h) = CHR '':'' # rev h"
    using assms by (subst dropWhile_append2) auto
  then show ?thesis by (simp add: before_last_colon_def)
qed

section \<open>Numbers as port strings\<close>

lemma show_nat_5: "n < 100000 \<Longrightarrow> length (show_nat n) \<le> 5"
proof -
  assume "n < 100000"
  then have "n div 10 div 10 < 1000" by simp
  from length_show_nat_3 [OF this] show ?thesis by (simp add: show_nat.simps [of n] show_nat.simps [of "n div 10"])
qed

lemma port_string:
  assumes "1 \<le> n" "n \<le> 65535"
  shows "\<forall>c\<in>set (show_int n). is_digit c" "show_int n \<noteq> []" "length (show_int n) \<le> 5" "js_number (show_int n) = Int_num n"
  using assms show_nat_5 [of "nat n"] by (auto simp: show_int_def dest: show_nat_digits)

section \<open>Properties\<close>

text \<open>
  Moving the port of an endpoint that validates gives an endpoint with the same host and the new port, and it
  validates again as long as it is not longer than 253 characters.
\<close>

theorem move_endpoint_valid:
  assumes "validateEndpoint ep = Inr (host, q)" and "1 \<le> n" "n \<le> 65535" and "length (move_endpoint ep n) \<le> 253"
  shows "validateEndpoint (move_endpoint ep n) = Inr (host, n)"
proof -
  from assms(1) obtain ds where m: "match_endpoint ep = Some (host, ds)"
    by (auto simp: validateEndpoint_def split: if_splits option.splits jsnum.splits)
  then obtain h where h: "ep = h @ CHR '':'' # ds" "match_host h = Some host" "\<forall>c\<in>set ds. is_digit c"
    by (rule match_endpoint_Some)
  have "CHR '':'' \<notin> set ds" using h(3) colon_not_digit by blast
  then have e: "move_endpoint ep n = h @ CHR '':'' # show_int n"
    unfolding move_endpoint_def h(1) by (simp add: before_last_colon_app)
  note ps = port_string [OF assms(2,3)]
  have "match_endpoint (move_endpoint ep n) = Some (host, show_int n)"
    unfolding e match_endpoint_app [OF ps(1)] using ps(2,3) h(2) by simp
  moreover have "move_endpoint ep n \<noteq> []" using e by simp
  ultimately show ?thesis using assms(2-4) ps(4) by (simp add: validateEndpoint_def)
qed

theorem move_endpoint_valid_witness: "validateEndpoint (move_endpoint ''vpn:51'' 49001) = Inr (''vpn'', 49001)"
proof (rule move_endpoint_valid)
  show "validateEndpoint ''vpn:51'' = Inr (''vpn'', 51)"
    by (simp add: validateEndpoint_def match_endpoint_def match_host_def is_host_char_def js_number_digits all_digits_def
        class_defs read_nat_def digit_val_def)
  have "length (show_int 49001) \<le> 5" by (rule port_string) simp_all
  then show "length (move_endpoint ''vpn:51'' 49001) \<le> 253" by (simp add: move_endpoint_def before_last_colon_def)
qed simp_all

text \<open>
  The MTU is always between 576 and 9000: the override, or else the environment's value, when it is an integer in
  that range, and 1280 otherwise.
\<close>

theorem mtu_in_range:
  "576 \<le> resolveMtu env ov \<and> resolveMtu env ov \<le> 9000 \<and>
   (\<forall>s. (ov = Some s \<or> ov = None \<and> env_VPN_MTU env = Some s) \<longrightarrow>
     resolveMtu env ov = (case js_number s of
        Int_num n \<Rightarrow> if s \<noteq> [] \<and> 576 \<le> n \<and> n \<le> 9000 then n else 1280 | Not_int \<Rightarrow> 1280))"
  by (auto simp: resolveMtu_def Let_def WG_DEFAULT_MTU_def WG_MTU_MIN_def WG_MTU_MAX_def split: option.split jsnum.split)

theorem mtu_in_range_witness: "resolveMtu env0 (Some ''1420'') = 1420"
proof -
  have "js_number ''1420'' = Int_num 1420" by (simp add: js_number_digits all_digits_def class_defs read_nat_def digit_val_def)
  then show ?thesis using mtu_in_range [of env0 "Some ''1420''"] by simp
qed

end
