(* ===== verification/PP_JsonText.thy ===== *)
theory PP_JsonText
  imports PP_Time
begin

text \<open>
  \<open>JSON.parse\<close> reads back what \<open>JSON.stringify(v, null, 2)\<close> prints, for every value without fractions and with
  numbers a double holds exactly. The fuel of the parser is bounded by the length of the text.
\<close>

section \<open>Layout\<close>

definition is_num_char :: "char \<Rightarrow> bool" where
  "is_num_char c \<longleftrightarrow> is_digit c \<or> c \<in> set ''+-.eE''"

text \<open>A value ends where the text ends, or before a character that continues no number.\<close>

definition ends_here :: "string \<Rightarrow> bool" where
  "ends_here r \<longleftrightarrow> (case r of [] \<Rightarrow> True | c # _ \<Rightarrow> \<not> is_num_char c)"

lemma ends_here_simps [simp]: "ends_here []" "ends_here (c # r) = (\<not> is_num_char c)"
  by (simp_all add: ends_here_def)

definition blank :: "string \<Rightarrow> bool" where
  "blank s \<longleftrightarrow> (\<forall>c\<in>set s. is_json_ws c)"

lemma blank_simps [simp]: "blank []" "blank (c # s) \<longleftrightarrow> is_json_ws c \<and> blank s" "blank (s @ t) \<longleftrightarrow> blank s \<and> blank t" "blank nl" "blank (indent n)"
  by (auto simp: blank_def nl_def newline_def indent_def is_json_ws_def)

lemma skip_blank: "blank s \<Longrightarrow> skip_ws (s @ t) = skip_ws t"
  by (simp add: skip_ws_def blank_def)

lemma skip_solid [simp]: "\<not> is_json_ws c \<Longrightarrow> skip_ws (c # t) = c # t"
  by (simp add: skip_ws_def)

lemma solid_chars [simp]:
  "\<not> is_json_ws (CHR '','')" "\<not> is_json_ws (CHR '']'')" "\<not> is_json_ws (CHR ''}'')" "\<not> is_json_ws (CHR '':'')"
  "\<not> is_json_ws (CHR ''['')" "\<not> is_json_ws (CHR ''{'')" "\<not> is_json_ws (CHR 0x22)"
  by (simp_all add: is_json_ws_def)

lemma num_stops [simp]: "\<not> is_num_char (CHR '','')" "\<not> is_num_char newline" "\<not> is_num_char (CHR 0x0A)"
  by (simp_all add: is_num_char_def class_defs newline_def)

section \<open>The values\<close>

fun exact :: "jval \<Rightarrow> bool" where
  "exact (JNum n) \<longleftrightarrow> 0 \<le> n \<and> n \<le> 2 ^ 53"
| "exact JFrac \<longleftrightarrow> False"
| "exact (JArr vs) \<longleftrightarrow> (\<forall>v\<in>set vs. exact v)"
| "exact (JObj kvs) \<longleftrightarrow> (\<forall>kv\<in>set kvs. exact (snd kv))"
| "exact _ \<longleftrightarrow> True"

fun fuel_of :: "jval \<Rightarrow> nat" where
  "fuel_of (JArr vs) = Suc (sum_list (map (\<lambda>v. Suc (fuel_of v)) vs))"
| "fuel_of (JObj kvs) = Suc (sum_list (map (\<lambda>kv. Suc (fuel_of (snd kv))) kvs))"
| "fuel_of _ = 1"

lemma show_nat_digit: "c \<in> set (show_nat n) \<Longrightarrow> is_digit c"
  using all_digits_show_nat [of n] by (simp add: all_digits_def list_all_iff)

text \<open>The first character of a printed value: no blank, and no bracket that would close an empty list.\<close>

definition opens_value :: "string \<Rightarrow> bool" where
  "opens_value s \<longleftrightarrow> s \<noteq> [] \<and> \<not> is_json_ws (hd s) \<and> hd s \<noteq> CHR '']'' \<and> hd s \<noteq> CHR ''}''"

lemma opens_value_Cons [simp]: "opens_value (c # s) \<longleftrightarrow> \<not> is_json_ws c \<and> c \<noteq> CHR '']'' \<and> c \<noteq> CHR ''}''"
  by (simp add: opens_value_def)

lemma digit_opens: "is_digit c \<Longrightarrow> \<not> is_json_ws c \<and> c \<noteq> CHR '']'' \<and> c \<noteq> CHR ''}'' \<and> c \<noteq> CHR 0x22 \<and>
    c \<noteq> CHR ''{'' \<and> c \<noteq> CHR ''['' \<and> c \<noteq> CHR ''t'' \<and> c \<noteq> CHR ''f'' \<and> c \<noteq> CHR ''n'' \<and> c \<noteq> CHR ''-''"
  by (auto simp: is_json_ws_def class_defs)

lemma show_nat_opens: "opens_value (show_nat n)"
  using digit_opens show_nat_digit [of "hd (show_nat n)" n] by (simp add: opens_value_def)

lemma pretty_opens: "exact v \<Longrightarrow> opens_value (pretty k v)"
  by (cases v) (simp_all add: json_string_def dq_def show_int_def show_nat_opens, simp_all add: is_json_ws_def)

section \<open>Numbers\<close>

lemma num_chars_digits:
  assumes "\<And>c. c \<in> set s \<Longrightarrow> is_digit c" and "ends_here r"
  shows "num_chars (s @ r) = s"
proof -
  have "\<And>c. c \<in> set s \<Longrightarrow> is_num_char c" using assms(1) by (simp add: is_num_char_def)
  moreover have "takeWhile is_num_char r = []" using assms(2) by (cases r) simp_all
  ultimately have "takeWhile is_num_char (s @ r) = s" by simp
  then show ?thesis by (simp add: num_chars_def is_num_char_def [abs_def])
qed

lemma parse_digits:
  assumes "all_digits s" and "int_part_ok s" and "ends_here r"
  shows "parse_num (s @ r) = Some (JNum (int (read_nat s)), r)"
proof -
  have ds: "\<And>c. c \<in> set s \<Longrightarrow> is_digit c" and ne: "s \<noteq> []"
    using assms(1,2) by (simp_all add: all_digits_def list_all_iff int_part_ok_def)
  have u: "(case s of c # t' \<Rightarrow> if c = CHR ''-'' then t' else s | [] \<Rightarrow> []) = s"
    using ds digit_opens ne by (cases s) simp_all
  have w: "takeWhile is_digit s = s" "dropWhile is_digit s = []" using ds by (rule takeWhile_all dropWhile_all, simp)+
  show ?thesis
    using num_chars_digits [OF ds assms(3)] u assms(2) js_number_digits [OF assms(1) ne]
    by (simp only: parse_num_def Let_def w) (simp add: w frac_ok_def)
qed

lemma int_part_show_nat: "int_part_ok (show_nat n)"
proof (cases "n < 10")
  case True
  then show ?thesis by (subst show_nat.simps) (simp add: int_part_ok_def)
next
  case False
  have "hd (show_nat n) \<noteq> CHR ''0''" if "0 < n" for n
    using that
  proof (induction n rule: less_induct)
    case (less n)
    show ?case
    proof (cases "n < 10")
      case True
      then have "show_nat n = [digit_char n]" by (subst show_nat.simps) simp
      moreover have "cc (digit_char n) \<noteq> cc (CHR ''0'')" using True less.prems by (simp add: cc_digit_char) (simp add: cc_def)
      ultimately show ?thesis by auto
    next
      case False
      then have "show_nat n = show_nat (n div 10) @ [digit_char (n mod 10)]" by (subst show_nat.simps) simp
      with less.IH [of "n div 10"] False show ?thesis by simp
    qed
  qed
  with False show ?thesis by (simp add: int_part_ok_def)
qed

lemma parse_show_nat: "ends_here r \<Longrightarrow> parse_num (show_nat n @ r) = Some (JNum (int n), r)"
  using parse_digits [OF _ int_part_show_nat, of n r] by simp

section \<open>Structure\<close>

lemma skip_opens: "opens_value s \<Longrightarrow> skip_ws (s @ r) = s @ r"
  by (cases s) (simp_all add: opens_value_def)

lemma parse_val_blank: "blank b \<Longrightarrow> parse_val f (b @ s) = parse_val f s"
  by (cases f) (simp_all add: skip_blank)

definition reads_back :: "jval \<Rightarrow> bool" where
  "reads_back v \<longleftrightarrow> (\<forall>k f r. fuel_of v \<le> f \<longrightarrow> ends_here r \<longrightarrow> parse_val f (pretty k v @ r) = Some (v, r))"

lemma parse_elems_pretty:
  assumes "vs \<noteq> []" and "\<forall>v\<in>set vs. reads_back v" and "sum_list (map (\<lambda>v. Suc (fuel_of v)) vs) \<le> f" and "blank b"
  shows "parse_elems f (b @ join ('','' @ nl) (map (\<lambda>v. indent m @ pretty m v) vs) @ nl @ indent k @ '']'' @ r) = Some (vs, r)"
  using assms
proof (induction vs arbitrary: f b)
  case (Cons v vs)
  then obtain g where f: "f = Suc g" by (cases f) auto
  have v: "fuel_of v \<le> g" "reads_back v" "sum_list (map (\<lambda>v. Suc (fuel_of v)) vs) \<le> g" using Cons.prems f by auto
  have bi: "blank (b @ indent m)" using Cons.prems(4) by simp
  show ?case
  proof (cases vs)
    case Nil
    have e: "ends_here (nl @ indent k @ '']'' @ r)" by (simp add: nl_def)
    have "parse_val g ((b @ indent m) @ pretty m v @ nl @ indent k @ '']'' @ r) = Some (v, nl @ indent k @ '']'' @ r)"
      using v(1,2) e by (subst parse_val_blank [OF bi]) (simp add: reads_back_def)
    moreover have "skip_ws ((nl @ indent k) @ '']'' @ r) = '']'' @ r" by (subst skip_blank) simp_all
    ultimately show ?thesis by (simp add: f Nil)
  next
    case (Cons w ws)
    let ?t = "join ('','' @ nl) (map (\<lambda>v. indent m @ pretty m v) vs) @ nl @ indent k @ '']'' @ r"
    have "parse_val g ((b @ indent m) @ pretty m v @ '','' @ nl @ ?t) = Some (v, '','' @ nl @ ?t)"
      using v(1,2) by (subst parse_val_blank [OF bi]) (simp add: reads_back_def)
    moreover have "parse_elems g (nl @ ?t) = Some (vs, r)"
      by (rule Cons.IH) (use Cons.prems v Cons in auto)
    ultimately show ?thesis using Cons by (simp add: f)
  qed
qed simp

lemma parse_members_pretty:
  assumes "kvs \<noteq> []" and "\<forall>kv\<in>set kvs. reads_back (snd kv)" and "sum_list (map (\<lambda>kv. Suc (fuel_of (snd kv))) kvs) \<le> f"
    and "blank b"
  shows "parse_members f (b @ join ('','' @ nl) (map (\<lambda>(a, v). indent m @ json_string a @ '': '' @ pretty m v) kvs) @
    nl @ indent k @ ''}'' @ r) = Some (kvs, r)"
  using assms
proof (induction kvs arbitrary: f b)
  case (Cons kv kvs)
  obtain a v where kv: "kv = (a, v)" by fastforce
  from Cons.prems obtain g where f: "f = Suc g" by (cases f) auto
  have v: "fuel_of v \<le> g" "reads_back v" "sum_list (map (\<lambda>kv. Suc (fuel_of (snd kv))) kvs) \<le> g"
    using Cons.prems f kv by auto
  have bi: "blank (b @ indent m)" using Cons.prems(4) by simp
  have key: "skip_ws ((b @ indent m) @ json_string a @ t) = CHR 0x22 # concat (map quote_char a) @ dq @ t" for t
    by (subst skip_blank [OF bi]) (simp add: json_string_def dq_def)
  have val: "parse_val g (CHR '' '' # pretty m v @ t) = Some (v, t)" if "ends_here t" for t
    using v(1,2) that parse_val_blank [of "'' ''" g] by (simp add: reads_back_def is_json_ws_def)
  show ?case
  proof (cases kvs)
    case Nil
    let ?e = "nl @ indent k @ ''}'' @ r"
    have e: "ends_here ?e" by (simp add: nl_def)
    have "skip_ws ((nl @ indent k) @ ''}'' @ r) = ''}'' @ r" by (subst skip_blank) simp_all
    with key [of "'': '' @ pretty m v @ ?e"] val [OF e] show ?thesis
      by (simp add: f kv Nil parse_str_json_string)
  next
    case (Cons w ws)
    let ?t = "join ('','' @ nl) (map (\<lambda>(a, v). indent m @ json_string a @ '': '' @ pretty m v) kvs) @ nl @ indent k @ ''}'' @ r"
    have "parse_members g (nl @ ?t) = Some (kvs, r)"
      by (rule Cons.IH) (use Cons.prems v Cons in auto)
    with key [of "'': '' @ pretty m v @ '','' @ nl @ ?t"] val [of "'','' @ nl @ ?t"] show ?thesis
      using Cons by (simp add: f kv parse_str_json_string)
  qed
qed simp

lemma pretty_reads_back: "exact v \<Longrightarrow> reads_back v"
proof (induction v)
  case (JNum n)
  obtain c t where c: "show_nat (nat n) = c # t" "is_digit c"
    using show_nat_digit [of _ "nat n"] by (cases "show_nat (nat n)") auto
  show ?case unfolding reads_back_def
  proof (intro allI impI)
    fix k f r assume f: "fuel_of (JNum n) \<le> f" and e: "ends_here r"
    from f obtain g where "f = Suc g" by (cases f) auto
    then show "parse_val f (pretty k (JNum n) @ r) = Some (JNum n, r)"
      using JNum parse_show_nat [OF e, of "nat n"] c digit_opens [OF c(2)] by (auto simp: show_int_def)
  qed
next
  case (JStr s)
  show ?case unfolding reads_back_def
  proof (intro allI impI)
    fix k f r assume "fuel_of (JStr s) \<le> f"
    then obtain g where "f = Suc g" by (cases f) auto
    then show "parse_val f (pretty k (JStr s) @ r) = Some (JStr s, r)"
      using parse_str_json_string [of s r] by (simp add: json_string_def dq_def)
  qed
next
  case (JArr vs)
  then have rb: "\<forall>v\<in>set vs. reads_back v" by simp
  show ?case unfolding reads_back_def
  proof (intro allI impI)
    fix k f r assume "fuel_of (JArr vs) \<le> f"
    then obtain g where g: "f = Suc g" "sum_list (map (\<lambda>v. Suc (fuel_of v)) vs) \<le> g" by (cases f) auto
    show "parse_val f (pretty k (JArr vs) @ r) = Some (JArr vs, r)"
    proof (cases vs)
      case (Cons v ws)
      let ?t = "join ('','' @ nl) (map (\<lambda>v. indent (k + 2) @ pretty (k + 2) v) vs) @ nl @ indent k @ '']'' @ r"
      have "opens_value (pretty (k + 2) v)" using JArr.prems Cons by (simp add: pretty_opens)
      then obtain d ds where "skip_ws (nl @ ?t) = d # ds" "d \<noteq> CHR '']''"
        using Cons by (cases ws; cases "pretty (k + 2) v") (simp_all add: skip_blank opens_value_def)
      moreover have "parse_elems g (nl @ ?t) = Some (vs, r)"
        by (rule parse_elems_pretty) (use Cons rb g in auto)
      ultimately show ?thesis using Cons g by simp
    qed (simp add: g)
  qed
next
  case (JObj kvs)
  then have rb: "\<forall>kv\<in>set kvs. reads_back (snd kv)" by (auto simp: snds.simps)
  show ?case unfolding reads_back_def
  proof (intro allI impI)
    fix k f r assume "fuel_of (JObj kvs) \<le> f"
    then obtain g where g: "f = Suc g" "sum_list (map (\<lambda>kv. Suc (fuel_of (snd kv))) kvs) \<le> g" by (cases f) auto
    show "parse_val f (pretty k (JObj kvs) @ r) = Some (JObj kvs, r)"
    proof (cases kvs)
      case (Cons kv ws)
      obtain a v where kv: "kv = (a, v)" by fastforce
      let ?t = "join ('','' @ nl) (map (\<lambda>(a, v). indent (k + 2) @ json_string a @ '': '' @ pretty (k + 2) v) kvs) @
        nl @ indent k @ ''}'' @ r"
      obtain ds where "skip_ws (nl @ ?t) = CHR 0x22 # ds"
        using Cons kv by (cases ws) (simp_all add: skip_blank json_string_def dq_def)
      moreover have "parse_members g (nl @ ?t) = Some (kvs, r)"
        by (rule parse_members_pretty) (use Cons rb g in auto)
      ultimately show ?thesis using Cons g by simp
    qed (simp add: g)
  qed
qed (auto simp: reads_back_def prefix_def Suc_le_eq gr0_conv_Suc is_json_ws_def)

section \<open>Fuel\<close>

lemma length_join: "sum_list (map length xs) \<le> length (join sep xs)"
  by (induction sep xs rule: join.induct) auto

lemma fuel_enough: "fuel_of v \<le> 2 * length (pretty k v)"
proof (induction v arbitrary: k)
  case (JArr vs)
  have "sum_list (map (\<lambda>v. Suc (fuel_of v)) vs) \<le> sum_list (map (\<lambda>v. 2 * length (indent (k + 2) @ pretty (k + 2) v)) vs)"
  proof (rule sum_list_mono)
    fix v assume "v \<in> set vs"
    then have "fuel_of v \<le> 2 * length (pretty (k + 2) v)" by (rule JArr)
    then show "Suc (fuel_of v) \<le> 2 * length (indent (k + 2) @ pretty (k + 2) v)" by (simp add: indent_def)
  qed
  also have "\<dots> \<le> 2 * length (join ('','' @ nl) (map (\<lambda>v. indent (k + 2) @ pretty (k + 2) v) vs))"
    using length_join [of "map (\<lambda>v. indent (k + 2) @ pretty (k + 2) v) vs" "'','' @ nl"]
    by (simp only: sum_list_const_mult [of 2, where f = "\<lambda>v. length (indent (k + 2) @ pretty (k + 2) v)"]) (simp add: o_def)
  finally show ?case by simp
next
  case (JObj kvs)
  let ?f = "\<lambda>(a, v). indent (k + 2) @ json_string a @ '': '' @ pretty (k + 2) v"
  have "sum_list (map (\<lambda>kv. Suc (fuel_of (snd kv))) kvs) \<le> sum_list (map (\<lambda>kv. 2 * length (?f kv)) kvs)"
  proof (rule sum_list_mono)
    fix kv assume m: "kv \<in> set kvs"
    obtain a v where kv: "kv = (a, v)" by fastforce
    have "fuel_of v \<le> 2 * length (pretty (k + 2) v)" by (rule JObj [OF m]) (simp add: kv snds.simps)
    then show "Suc (fuel_of (snd kv)) \<le> 2 * length (?f kv)" by (simp add: kv indent_def)
  qed
  also have "\<dots> \<le> 2 * length (join ('','' @ nl) (map ?f kvs))"
    using length_join [of "map ?f kvs" "'','' @ nl"] by (simp only: sum_list_const_mult) (simp add: o_def)
  finally show ?case by simp
qed (simp_all add: show_int_def json_string_def dq_def Suc_le_eq)

text \<open>What the code writes to a file and reads again: the printed value and a newline.\<close>

theorem JSON_round_trip: "exact v \<Longrightarrow> JSON_parse (JSON_stringify v @ nl) = Some v"
proof -
  assume v: "exact v"
  have "fuel_of v \<le> 2 * length (JSON_stringify v @ nl) + 2"
    using fuel_enough [of v 0] by (simp add: JSON_stringify_def)
  moreover have "ends_here nl" by (simp add: nl_def)
  ultimately have "parse_val (2 * length (JSON_stringify v @ nl) + 2) (JSON_stringify v @ nl) = Some (v, nl)"
    using pretty_reads_back [OF v] unfolding reads_back_def JSON_stringify_def by blast
  moreover have "skip_ws nl = []" using skip_blank [of nl "[]"] by (simp add: skip_ws_def)
  ultimately show ?thesis by (simp add: JSON_parse_def)
qed

end
