(* ===== verification/Vpn_Resolver.thy ===== *)
theory Vpn_Resolver
  imports Vpn_Dns PP_JsonText PP_Lines PP_Example
begin

text \<open>
  What the VPN resolver guarantees: it reads every well-formed query, stays inside the buffer, sends a configured name
  into the tunnel without asking anyone, never mistakes an answer for a query, and takes a TCP stream apart the same
  way however the bytes arrive.
\<close>

declare read_labels.simps [simp del] deframe.simps [simp del]

section \<open>Sixteen-bit fields\<close>

definition u16 :: "16 word \<Rightarrow> buffer" where
  "u16 v = [ucast (drop_bit 8 v), ucast v]"

lemma u16_length [simp]: "length (u16 v) = 2"
  by (simp add: u16_def)

lemma join_bytes: "(push_bit 8 (ucast (ucast (drop_bit 8 v) :: 8 word)) OR ucast (ucast v :: 8 word)) = (v :: 16 word)"
  by (rule bit_word_eqI) (auto simp: bit_simps)

lemma read_u16:
  assumes "length pre = i"
  shows "readUInt16BE (pre @ u16 v @ post) i = v"
  using assms join_bytes by (auto simp: readUInt16BE_def u16_def nth_append)

lemma header_bytes:
  "answer_header q a = u16 (dq_id q) @ u16 (0x8000 OR 0x0400 OR (dq_flags q AND 0x0100) OR 0x0080) @ u16 1 @
    u16 (if a then 1 else 0) @ u16 0 @ u16 0"
  by (simp add: answer_header_def writeUInt16BE_def u16_def eval_nat_numeral)

lemma header_length [simp]: "length (answer_header q a) = 12"
  by (simp add: header_bytes)

lemma header_fields:
  "readUInt16BE (answer_header q a @ r) 0 = dq_id q"
  "readUInt16BE (answer_header q a @ r) 2 = 0x8000 OR 0x0400 OR (dq_flags q AND 0x0100) OR 0x0080"
  "readUInt16BE (answer_header q a @ r) 4 = 1"
  "readUInt16BE (answer_header q a @ r) 6 = (if a then 1 else 0)"
  unfolding header_bytes
  using read_u16 [of "[]" 0 "dq_id q"]
    read_u16 [of "u16 (dq_id q)" 2 "0x8000 OR 0x0400 OR (dq_flags q AND 0x0100) OR 0x0080"]
    read_u16 [of "u16 (dq_id q) @ u16 (0x8000 OR 0x0400 OR (dq_flags q AND 0x0100) OR 0x0080)" 4 1]
    read_u16 [of "u16 (dq_id q) @ u16 (0x8000 OR 0x0400 OR (dq_flags q AND 0x0100) OR 0x0080) @ u16 1" 6 "if a then 1 else 0"]
  by simp_all

lemma response_bit: "(0x8000 OR x) AND 0x8000 \<noteq> (0 :: 16 word)"
proof -
  have "bit ((0x8000 OR x) AND 0x8000) 15" by (simp add: bit_simps)
  then show ?thesis by auto
qed

section \<open>Labels\<close>

definition encode_labels :: "buffer list \<Rightarrow> buffer" where
  "encode_labels ls = concat (map (\<lambda>l. of_nat (length l) # l) ls) @ [0]"

lemma label_byte:
  assumes "0 < n" "n \<le> 63"
  shows "unat (of_nat n :: 8 word) = n" and "(of_nat n :: 8 word) AND 0xc0 = 0"
proof -
  show u: "unat (of_nat n :: 8 word) = n" using assms by (simp add: unat_of_nat)
  have "\<not> (bit n k \<and> bit (0xc0 :: 8 word) k)" if "k < 8" for k
  proof (cases "k < 6")
    case True
    then have "k \<in> {0, 1, 2, 3, 4, 5}" by auto
    then show ?thesis by (auto simp: bit_numeral_rec)
  next
    case False
    then have "(2::nat) ^ 6 \<le> 2 ^ k" by (intro power_increasing) auto
    then have "n div 2 ^ k = 0" using assms by simp
    then show ?thesis by (simp add: bit_iff_odd)
  qed
  then show "(of_nat n :: 8 word) AND 0xc0 = 0" by (intro bit_word_eqI) (auto simp: bit_simps)
qed

lemma read_encoded:
  assumes "\<forall>l\<in>set ls. 0 < length l \<and> length l \<le> 63"
  shows "read_labels (pre @ encode_labels ls @ post) (length pre) acc =
    Some (acc @ map latin1 ls, length pre + length (encode_labels ls))"
  using assms
proof (induction ls arbitrary: pre acc)
  case Nil
  then show ?case by (simp add: encode_labels_def read_labels.simps)
next
  case (Cons l ls)
  let ?b = "of_nat (length l) :: 8 word"
  have e: "encode_labels (l # ls) = ?b # l @ encode_labels ls" by (simp add: encode_labels_def)
  have l: "unat ?b = length l" "?b AND 0xc0 = 0" "0 < length l" "length l \<le> 63"
    using Cons.prems label_byte [of "length l"] by auto
  let ?buf = "pre @ (?b # l @ encode_labels ls) @ post"
  have "read_labels ?buf (length pre) acc =
      read_labels ((pre @ ?b # l) @ encode_labels ls @ post) (length (pre @ ?b # l)) (acc @ [latin1 l])"
    using l by (subst read_labels.simps) (simp add: nth_append Let_def)
  also have "\<dots> = Some ((acc @ [latin1 l]) @ map latin1 ls, length (pre @ ?b # l) + length (encode_labels ls))"
    by (rule Cons.IH) (use Cons.prems in simp)
  finally show ?case unfolding e by simp
qed

lemma read_labels_bounds:
  "read_labels buf p acc = Some (ls, e) \<Longrightarrow> p < e \<and> e \<le> length buf"
proof (induction buf p acc rule: read_labels.induct)
  case (1 buf p labels)
  let ?n = "unat (buf ! p)"
  show ?case
  proof (cases "p < length buf \<and> ?n \<noteq> 0 \<and> (buf ! p) AND 0xc0 = 0 \<and> ?n \<le> 63 \<and> p + 1 + ?n \<le> length buf")
    case True
    then have "read_labels buf (p + 1 + ?n) (labels @ [latin1 (take ?n (drop (p + 1) buf))]) = Some (ls, e)"
      using "1.prems" by (subst (asm) read_labels.simps) (simp add: Let_def)
    from "1.IH" [OF _ refl _ _ this] True show ?thesis by simp
  next
    case False
    with "1.prems" show ?thesis by (subst (asm) read_labels.simps) (auto simp: Let_def not_le split: if_splits)
  qed
qed

section \<open>Queries\<close>

text \<open>A query as a resolver sends it: header, one question, anything behind it.\<close>

definition encode_query :: "16 word \<Rightarrow> 16 word \<Rightarrow> buffer \<Rightarrow> buffer list \<Rightarrow> 16 word \<Rightarrow> 16 word \<Rightarrow> buffer \<Rightarrow> buffer" where
  "encode_query i flags counts ls ty cl extra = u16 i @ u16 flags @ u16 1 @ counts @ encode_labels ls @ u16 ty @ u16 cl @ extra"

lemma parse_encoded:
  assumes "flags AND 0x8000 = 0" and "length counts = 6" and "\<forall>l\<in>set ls. 0 < length l \<and> length l \<le> 63"
  shows "parseQuery (encode_query i flags counts ls ty cl extra) =
    Some \<lparr>dq_id = i, dq_flags = flags, dq_name = toLowerCase (join ''.'' (map latin1 ls)), dq_type = ty, dq_qclass = cl,
      dq_end = 12 + length (encode_labels ls) + 4\<rparr>"
proof -
  let ?b = "encode_query i flags counts ls ty cl extra" and ?n = "length (encode_labels ls)"
  let ?h = "u16 i @ u16 flags @ u16 1 @ counts"
  have h: "length ?h = 12" using assms(2) by simp
  have f: "readUInt16BE ?b 0 = i" "readUInt16BE ?b 2 = flags" "readUInt16BE ?b 4 = 1"
    using read_u16 [of "[]" 0 i] read_u16 [of "u16 i" 2 flags] read_u16 [of "u16 i @ u16 flags" 4 1] by (simp_all add: encode_query_def)
  have l: "read_labels ?b 12 [] = Some (map latin1 ls, 12 + ?n)"
    using read_encoded [OF assms(3), of ?h "u16 ty @ u16 cl @ extra" "[]"] h by (simp add: encode_query_def)
  have "readUInt16BE ?b (12 + ?n) = ty"
    using read_u16 [of "?h @ encode_labels ls" "12 + ?n" ty "u16 cl @ extra"] h by (simp add: encode_query_def)
  moreover have "readUInt16BE ?b (12 + ?n + 2) = cl"
    using read_u16 [of "?h @ encode_labels ls @ u16 ty" "12 + ?n + 2" cl extra] h by (simp add: encode_query_def)
  moreover have "length ?b = 12 + ?n + 4 + length extra" using h by (simp add: encode_query_def)
  ultimately show ?thesis using f l assms(1) by (simp add: parseQuery_def)
qed

lemma parse_bounds:
  assumes "parseQuery buf = Some q"
  shows "17 \<le> dq_end q" and "dq_end q \<le> length buf" and "12 \<le> length buf" and "dq_flags q AND 0x8000 = 0"
  using assms read_labels_bounds [of buf 12 "[]"]
  by (fastforce simp: parseQuery_def Let_def split: if_splits option.splits)+

section \<open>Answers\<close>

lemma vpn_record: "write_octets 12 (split_on (CHR ''.'') VPN_DNS_ADDRESS) (answer_record 60) =
    Inr [0xc0, 0x0c, 0, 1, 0, 1, 0, 0, 0, 60, 0, 4, 10, 100, 0, 1]"
proof -
  have "split_on (CHR ''.'') VPN_DNS_ADDRESS = [''10'', ''100'', ''0'', ''1'']" by code_simp
  moreover have "octet_byte ''10'' = Inr 10" "octet_byte ''100'' = Inr 100" "octet_byte ''0'' = Inr 0" "octet_byte ''1'' = Inr 1"
    by (simp_all add: octet_byte_def js_number_digits all_digits_def class_defs read_nat_def digit_val_def)
  moreover have "answer_record 60 = [0xc0, 0x0c, 0, 1, 0, 1, 0, 0, 0, 60, 0, 4, 0, 0, 0, 0]" by code_simp
  ultimately show ?thesis by (simp add: numeral_eq_Suc)
qed

lemma build_vpn_answer:
  "buildAnswer buf q VPN_DNS_ADDRESS 60 =
    (let a = (dq_type q = TYPE_A \<and> dq_qclass q = 1)
     in Inr (answer_header q a @ take (dq_end q - 12) (drop 12 buf) @
       (if a then [0xc0, 0x0c, 0, 1, 0, 1, 0, 0, 0, 60, 0, 4, 10, 100, 0, 1] else [])))"
  by (simp add: buildAnswer_def Let_def vpn_record)

section \<open>The stream\<close>

lemma deframe_step:
  assumes "2 \<le> length p" and "2 + unat (readUInt16BE p 0) \<le> length p"
  shows "deframe p = (let n = unat (readUInt16BE p 0); (ms, r) = deframe (drop (2 + n) p) in (take n (drop 2 p) # ms, r))"
  using assms by (subst deframe.simps) (simp add: Let_def min_def)

lemma deframe_stop:
  "\<not> (2 \<le> length p \<and> 2 + unat (readUInt16BE p 0) \<le> length p) \<Longrightarrow> deframe p = ([], p)"
  by (subst deframe.simps) (rule if_not_P)

lemma readUInt16BE_append: "2 \<le> length p \<Longrightarrow> readUInt16BE (p @ d) 0 = readUInt16BE p 0"
  by (auto simp: readUInt16BE_def nth_append)

text \<open>Bytes that arrive later do not change how the earlier ones were cut.\<close>

lemma deframe_append:
  "deframe (p @ d) = (let (ms, r) = deframe p; (ms', r') = deframe (r @ d) in (ms @ ms', r'))"
proof (induction p rule: deframe.induct)
  case (1 p)
  show ?case
  proof (cases "2 \<le> length p \<and> 2 + unat (readUInt16BE p 0) \<le> length p")
    case True
    let ?n = "unat (readUInt16BE p 0)"
    have m: "min (length p - 2) ?n = ?n" using True by auto
    have "deframe (p @ d) = (let (ms, r) = deframe (drop (2 + ?n) p @ d) in (take ?n (drop 2 p) # ms, r))"
      using True by (subst deframe_step) (simp_all add: readUInt16BE_append Let_def)
    moreover have "deframe (drop (2 + ?n) p @ d) = (let (ms, r) = deframe (drop (2 + ?n) p); (ms', r') = deframe (r @ d) in (ms @ ms', r'))"
      using "1.IH" [OF True refl] m by simp
    ultimately show ?thesis using True by (simp add: deframe_step Let_def split: prod.split)
  next
    case False
    then show ?thesis by (simp add: deframe_stop)
  qed
qed

lemma deframe_residue: "deframe p = (ms, r) \<Longrightarrow> deframe r = ([], r)"
proof (induction p arbitrary: ms rule: deframe.induct)
  case (1 p)
  show ?case
  proof (cases "2 \<le> length p \<and> 2 + unat (readUInt16BE p 0) \<le> length p")
    case True
    have m: "min (length p - 2) (unat (readUInt16BE p 0)) = unat (readUInt16BE p 0)" using True by auto
    from True obtain ms' where "deframe (drop (2 + unat (readUInt16BE p 0)) p) = (ms', r)"
      using "1.prems" by (auto simp: deframe_step Let_def split: prod.splits)
    with "1.IH" [OF True refl] m show ?thesis by simp
  next
    case False
    with "1.prems" show ?thesis by (simp add: deframe_stop)
  qed
qed

lemma on_data_concat: "deframe p = ([], p) \<Longrightarrow> on_data p ds = deframe (p @ concat ds)"
proof (induction ds arbitrary: p)
  case (Cons d ds)
  obtain ms r where f: "deframe (p @ d) = (ms, r)" by fastforce
  have "on_data r ds = deframe (r @ concat ds)" by (rule Cons.IH) (rule deframe_residue [OF f])
  with f deframe_append [of "p @ d" "concat ds"] show ?case by (simp split: prod.split)
qed simp

lemma frame_bytes: "frame m = u16 (of_nat (length m)) @ m"
  by (simp add: frame_def writeUInt16BE_def u16_def numeral_2_eq_2)

lemma deframe_frame:
  assumes "length m < 2 ^ 16"
  shows "deframe (frame m @ r) = (m # fst (deframe r), snd (deframe r))"
proof -
  have n: "unat (readUInt16BE (frame m @ r) 0) = length m"
    using assms read_u16 [of "[]" 0 "of_nat (length m)" "m @ r"] by (simp add: frame_bytes unat_of_nat)
  then have "deframe (frame m @ r) = (let (ms, x) = deframe (drop (2 + length m) (frame m @ r)) in (take (length m) (drop 2 (frame m @ r)) # ms, x))"
    by (subst deframe_step) (simp_all add: frame_bytes)
  then show ?thesis by (simp add: frame_bytes split: prod.split)
qed

section \<open>Names\<close>

lemma entry_wildcard: "entry_matches n (''*.'' @ s) \<longleftrightarrow> (\<exists>p. p \<noteq> [] \<and> n = p @ ''.'' @ s)"
  by (auto simp: entry_matches_def starts_with_def ends_with_def suffix_def)

lemma lower_label_char: "is_label_char c \<or> c = CHR ''.'' \<or> c = CHR ''*'' \<Longrightarrow> latin1_lower c = c \<and> \<not> is_ws c"
  by (auto simp: is_label_char_def latin1_lower_def class_defs)

lemma split_on_last: "t \<noteq> [] \<Longrightarrow> last t = c \<Longrightarrow> last (split_on c t) = []"
  by (cases t rule: rev_cases) (simp_all add: split_on_snoc)

lemma hostname_parts:
  assumes "HOSTNAME_RE n"
  obtains t where "n = t \<or> n = ''*.'' @ t" "t \<noteq> []" "last t \<noteq> CHR ''.''" "\<forall>c\<in>set t. is_label_char c \<or> c = CHR ''.''"
proof
  let ?t = "if prefix ''*.'' n then drop 2 n else n" and ?ps = "split_on (CHR ''.'') (if prefix ''*.'' n then drop 2 n else n)"
  have t: "?t \<noteq> []" "list_all label_ok (butlast ?ps)" "tld_ok (last ?ps)" using assms by (auto simp: HOSTNAME_RE_def Let_def)
  show "n = ?t \<or> n = ''*.'' @ ?t" by (auto simp: prefix_def)
  show "?t \<noteq> []" by (rule t)
  show "last ?t \<noteq> CHR ''.''"
  proof
    assume "last ?t = CHR ''.''"
    with t(1) have "last ?ps = []" by (rule split_on_last)
    with t(3) show False by (simp add: tld_ok_def)
  qed
  have "list_all is_label_char p" if "p \<in> set ?ps" for p
  proof -
    obtain xs y where ps: "?ps = xs @ [y]" by (cases ?ps rule: rev_cases) simp_all
    from that t(2,3) have "p \<in> set xs \<or> p = y" "list_all label_ok xs" "tld_ok y" unfolding ps by auto
    then show ?thesis by (auto simp: list_all_iff label_ok_def tld_ok_def)
  qed
  moreover have "set ?t \<subseteq> {CHR ''.''} \<union> (\<Union>p\<in>set ?ps. set p)"
    using set_join_sub [of "''.''" ?ps] by simp
  ultimately show "\<forall>c\<in>set ?t. is_label_char c \<or> c = CHR ''.''" unfolding list_all_iff by blast
qed

lemma hostname_clean: "HOSTNAME_RE n \<Longrightarrow> clean_name n = n \<and> n \<noteq> []"
proof (erule hostname_parts)
  fix t assume t: "n = t \<or> n = ''*.'' @ t" "t \<noteq> []" "last t \<noteq> CHR ''.''" "\<forall>c\<in>set t. is_label_char c \<or> c = CHR ''.''"
  have c: "latin1_lower c = c \<and> \<not> is_ws c" if "c \<in> set n" for c
    using that t(1,4) by (intro lower_label_char) auto
  then have "trim n = n" by (intro trim_nonws) simp
  moreover have "toLowerCase n = n" using c by (simp add: toLowerCase_def map_idI)
  moreover have "n \<noteq> []" "last n \<noteq> CHR ''.''" using t(1-3) by auto
  ultimately show ?thesis by (simp add: clean_name_def strip_dot_def)
qed

definition names_ok :: "string list \<Rightarrow> bool" where
  "names_ok ns \<longleftrightarrow> distinct ns \<and> (\<forall>n\<in>set ns. HOSTNAME_RE n)"

lemma normalize_loop_ok: "normalize_loop out xs = Inr ns \<Longrightarrow> names_ok out \<Longrightarrow> names_ok ns"
proof (induction out xs rule: normalize_loop.induct)
  case (2 out raw rest)
  let ?n = "clean_name raw"
  consider "?n = []" | "?n \<noteq> []" "HOSTNAME_RE ?n" using "2.prems"(1) by (cases "?n = []"; cases "HOSTNAME_RE ?n") (simp_all add: Let_def)
  then show ?case
  proof cases
    case 2
    have "names_ok (if ?n \<in> set out then out else out @ [?n])" using 2 "2.prems"(2) by (simp add: names_ok_def)
    with "2.IH"(2) [OF refl] 2 "2.prems"(1) show ?thesis by (simp add: Let_def)
  qed (use "2.IH"(1) "2.prems" in \<open>simp add: Let_def\<close>)
qed simp

lemma normalizeNames_ok: "normalizeNames v = Inr ns \<Longrightarrow> names_ok ns"
  using normalize_loop_ok [of "[]"] by (auto simp: normalizeNames_def names_ok_def split: option.splits jval.splits)

lemma normalize_loop_same: "names_ok (out @ ns) \<Longrightarrow> normalize_loop out ns = Inr (out @ ns)"
  by (induction ns arbitrary: out) (auto simp: names_ok_def Let_def hostname_clean)

lemma normalizeNames_same: "names_ok ns \<Longrightarrow> normalizeNames (Some (JArr (map JStr ns))) = Inr ns"
  using normalize_loop_same [of "[]" ns] by (simp add: normalizeNames_def o_def)

section \<open>The file\<close>

definition config_ok :: "dns_config \<Rightarrow> bool" where
  "config_ok c \<longleftrightarrow> names_ok (dc_managed c) \<and> names_ok (dc_extra c)"

lemma config_read_ok: "readDnsConfig w = (Inr c, w') \<Longrightarrow> config_ok c"
  by (auto simp: readDnsConfig_def no_dns_config_def dns_config_of_def config_ok_def names_ok_def normalizeNames_ok [unfolded names_ok_def]
      split: option.splits if_splits sum.splits)

lemma iso_neq_Nil: "iso t \<noteq> []"
  by (simp add: iso_def Let_def split: prod.split)

lemma config_text:
  assumes "config_ok c" and "dc_updatedAt c = Some (JStr (iso t))"
  shows "dns_config_of (JSON_stringify (dns_config_json c) @ nl) = Some c"
proof -
  have "exact (dns_config_json c)" using assms(2) by (auto simp: dns_config_json_def)
  from JSON_round_trip [OF this] assms show ?thesis
    by (simp add: dns_config_of_def dns_config_json_def jget_def normalizeNames_same config_ok_def js_truthy_def iso_neq_Nil)
qed

section \<open>Properties\<close>

text \<open>
  Every well-formed query with one question is read back field by field: any id, any flags without the response
  bit, any sequence of labels of 1 to 63 bytes, any type and class, whatever follows the question.
\<close>

theorem query_round_trip:
  assumes "flags AND 0x8000 = 0" and "length counts = 6" and "\<forall>l\<in>set ls. 0 < length l \<and> length l \<le> 63"
  shows "parseQuery (encode_query i flags counts ls ty cl extra) =
    Some \<lparr>dq_id = i, dq_flags = flags, dq_name = toLowerCase (join ''.'' (map latin1 ls)), dq_type = ty, dq_qclass = cl,
      dq_end = 12 + length (encode_labels ls) + 4\<rparr>"
  using assms by (rule parse_encoded)

definition query1 :: buffer where
  "query1 = encode_query 7 0x0100 (replicate 6 0) [[65, 98]] 1 1 []"

theorem query_round_trip_witness: "\<exists>q. parseQuery query1 = Some q \<and> dq_id q = 7 \<and> dq_name q = ''ab'' \<and> dq_type q = 1"
proof -
  have f: "(0x0100 :: 16 word) AND 0x8000 = 0" and l: "\<forall>l\<in>set [[65, 98] :: buffer]. 0 < length l \<and> length l \<le> 63" by simp_all
  have "toLowerCase (join ''.'' (map latin1 [[65, 98]])) = ''ab''" by code_simp
  with query_round_trip [OF f _ l, of "replicate 6 0" 7 1 1 "[]"] show ?thesis by (simp add: query1_def)
qed

text \<open>
  A query for a configured name goes into the tunnel without asking an upstream server: the reply has the id of the
  query, the response bit, the question as it came, and for an IN A question exactly one record, the VPN address with
  a time to live of 60 seconds; for any other type it has none. The reply is itself never taken for a query.
\<close>

theorem configured_name_answered:
  assumes "parseQuery buf = Some q" and "nameMatches (dq_name q) names"
  shows "\<exists>ans. respond names VPN_DNS_ADDRESS fwd buf = Inr (Some ans) \<and> localAnswer buf names VPN_DNS_ADDRESS = Inr (Some ans) \<and>
    readUInt16BE ans 0 = dq_id q \<and> take (dq_end q - 12) (drop 12 ans) = take (dq_end q - 12) (drop 12 buf) \<and>
    (if dq_type q = 1 \<and> dq_qclass q = 1
     then readUInt16BE ans 6 = 1 \<and> drop (dq_end q) ans = [0xc0, 0x0c, 0, 1, 0, 1, 0, 0, 0, 60, 0, 4, 10, 100, 0, 1]
     else readUInt16BE ans 6 = 0 \<and> length ans = dq_end q) \<and>
    parseQuery ans = None"
proof -
  note b = parse_bounds [OF assms(1)]
  let ?a = "dq_type q = TYPE_A \<and> dq_qclass q = 1" and ?qs = "take (dq_end q - 12) (drop 12 buf)"
  let ?rr = "if ?a then [0xc0, 0x0c, 0, 1, 0, 1, 0, 0, 0, 60, 0, 4, 10, 100, 0, 1] else []"
  let ?ans = "answer_header q ?a @ ?qs @ ?rr"
  have l: "length ?qs = dq_end q - 12" using b by simp
  have "parseQuery ?ans = None"
    using response_bit [of "0x0400 OR (dq_flags q AND 0x0100) OR 0x0080"] by (simp add: parseQuery_def header_fields(2) or.assoc)
  moreover have "respond names VPN_DNS_ADDRESS fwd buf = Inr (Some ?ans)" "localAnswer buf names VPN_DNS_ADDRESS = Inr (Some ?ans)"
    using assms by (simp_all add: respond_def localAnswer_def build_vpn_answer Let_def)
  moreover have "drop (dq_end q) ?ans = ?rr" "length ?ans = dq_end q + length ?rr" "take (dq_end q - 12) (drop 12 ?ans) = ?qs" using l b by simp_all
  ultimately show ?thesis using header_fields(1,4) [of q ?a "?qs @ ?rr"]
    by (intro exI [of _ ?ans]) (auto simp: TYPE_A_def)
qed

theorem configured_name_answered_witness:
  "\<exists>ans. respond [''ab''] VPN_DNS_ADDRESS (\<lambda>_. None) query1 = Inr (Some ans) \<and> readUInt16BE ans 0 = 7 \<and> readUInt16BE ans 6 = 1"
proof -
  let ?q = "\<lparr>dq_id = 7, dq_flags = 0x0100, dq_name = ''ab'', dq_type = 1, dq_qclass = 1, dq_end = 20\<rparr>"
  have "toLowerCase (join ''.'' (map latin1 [[65, 98]])) = ''ab''" by code_simp
  moreover have "length (encode_labels [[65, 98]]) = 4" by (simp add: encode_labels_def)
  ultimately have q: "parseQuery query1 = Some ?q"
    using parse_encoded [of "0x0100" "replicate 6 0" "[[65, 98]]" 7 1 1 "[]"] by (simp add: query1_def)
  have m: "nameMatches (dq_name ?q) [''ab'']" by code_simp
  from configured_name_answered [OF q m, of "\<lambda>_. None"] show ?thesis by auto
qed

text \<open>
  C40: the TCP stream is cut into messages independently of how the network cuts it: however the framed messages arrive
  in pieces, the server sees exactly those messages, in order, and nothing stays pending.
\<close>

theorem tcp_chunking:
  assumes "\<forall>m\<in>set ms. length m < 2 ^ 16" and "concat ds = concat (map frame ms)"
  shows "on_data [] ds = (ms, [])"
proof -
  have "deframe (concat (map frame ms)) = (ms, [])" using assms(1)
  proof (induction ms)
    case Nil
    then show ?case by (simp add: deframe_stop)
  next
    case (Cons m ms)
    then show ?case using deframe_frame [of m "concat (map frame ms)"] by simp
  qed
  moreover have "on_data [] ds = deframe ([] @ concat ds)" by (rule on_data_concat) (simp add: deframe_stop)
  ultimately show ?thesis using assms(2) by simp
qed

theorem tcp_chunking_witness: "on_data [] [[0], [2, 1], [], [2, 0, 0]] = ([[1, 2], []], [])"
proof -
  have l: "\<forall>m\<in>set [[1, 2], [] :: buffer]. length m < 2 ^ 16" by simp
  have c: "concat [[0], [2, 1], [], [2, 0, 0]] = concat (map frame [[1, 2], []])" by code_simp
  from tcp_chunking [OF l c] show ?thesis .
qed

text \<open>
  What \<open>writeDnsConfig\<close> stores is what \<open>readDnsConfig\<close> reads back: a write that returns leaves a file that reads as
  the returned configuration, a list that was not given is the one the file held before, and both lists hold
  distinct valid names in the form a lookup compares with.
\<close>

theorem dns_config_round_trip:
  assumes "writeDnsConfig env managed extra w = (Inr c, w')" and "readDnsConfig w = (Inr old, w)"
  shows "readDnsConfig w' = (Inr c, w') \<and> (managed = None \<longrightarrow> dc_managed c = dc_managed old) \<and>
    (extra = None \<longrightarrow> dc_extra c = dc_extra old) \<and>
    (\<forall>n\<in>set (dc_managed c @ dc_extra c). HOSTNAME_RE n \<and> clean_name n = n) \<and> distinct (dc_managed c) \<and> distinct (dc_extra c)"
proof -
  have old: "config_ok old" by (rule config_read_ok [OF assms(2)])
  from assms have c: "config_ok c" "dc_updatedAt c = Some (JStr (iso (env_now env)))"
    "managed = None \<longrightarrow> dc_managed c = dc_managed old" "extra = None \<longrightarrow> dc_extra c = dc_extra old"
    "w_files w' VPN_DNS_FILE = Some (JSON_stringify (dns_config_json c) @ nl)"
    using old by (auto simp: writeDnsConfig_def eff_inv Let_def atomicWrite_Inr config_ok_def normalizeNames_ok split: if_splits)
  have "readDnsConfig w' = (Inr c, w')" using config_text [OF c(1,2)] c(5) by (simp add: readDnsConfig_def)
  with c(1,3,4) show ?thesis by (auto simp: config_ok_def names_ok_def hostname_clean)
qed

theorem dns_config_round_trip_witness:
  "\<exists>c w'. writeDnsConfig env0 (Some (JArr [JStr '' Ab.Example.com.''])) None world0 = (Inr c, w') \<and> readDnsConfig w' = (Inr c, w')"
proof -
  have n: "normalizeNames (Some (JArr [JStr '' Ab.Example.com.''])) = Inr [''ab.example.com'']" by code_simp
  have r: "readDnsConfig world0 = (Inr no_dns_config, world0)" by (simp add: readDnsConfig_def)
  obtain c w' where "writeDnsConfig env0 (Some (JArr [JStr '' Ab.Example.com.''])) None world0 = (Inr c, w')"
    using n r by (simp add: writeDnsConfig_def bindE_def mkdirs_def atomicWrite_ok Let_def)
  with dns_config_round_trip [OF this r] show ?thesis by blast
qed

end
