(* ===== verification/Ssh_Files.thy ===== *)
theory Ssh_Files
  imports Ssh_Ledger
begin

text \<open>
  From the ledger to the \<open>authorized_keys\<close> files: what a reconcile, a revocation and a removal leave on disk.
\<close>

lemma managed_line_inj:
  assumes "ledger_ok rows" and "e \<in> set rows" and "e' \<in> set rows" and "renderManagedLine e = renderManagedLine e'"
  shows "e = e'"
proof -
  have "sa_id e = sa_id e'" using assms managed_line_id [of e] managed_line_id [of e'] by (simp add: ledger_ok_def row_ok_def)
  with assms show ?thesis by (auto simp: ledger_ok_def distinct_map dest: inj_onD)
qed

text \<open>The active rows of a user, each once, in the order of their ids.\<close>

definition rows_in_file :: "world \<Rightarrow> string \<Rightarrow> ssh_row list \<Rightarrow> bool" where
  "rows_in_file w u es \<longleftrightarrow> set es = {e \<in> set (w_ssh w). sa_unix_user e = u \<and> sa_revoked_at e = None} \<and> sorted_wrt (<) (map sa_id es)"

lemma rows_in_file_sort:
  assumes "ledger_ok (w_ssh w)" and "mset es = mset (active_keys w u)"
  shows "rows_in_file w u (sort_by (\<lambda>a b. sa_id a \<le> sa_id b) es)"
proof -
  let ?s = "sort_by (\<lambda>a b. sa_id a \<le> sa_id b) es"
  have m: "mset ?s = mset (active_keys w u)" using assms(2) by simp
  have "distinct (map sa_id (active_keys w u))" using assms(1) by (simp add: active_keys_def ledger_ok_def distinct_map_filter)
  moreover have "mset (map sa_id ?s) = mset (map sa_id (active_keys w u))" using m by (metis mset_map)
  ultimately have d: "distinct (map sa_id ?s)" by (metis mset_eq_imp_distinct_iff)
  have "sorted_wrt (\<lambda>a b. sa_id a \<le> sa_id b) ?s" by (rule sorted_wrt_sort_by) auto
  then have "sorted (map sa_id ?s)" by (simp add: sorted_wrt_map)
  with d have "sorted_wrt (<) (map sa_id ?s)" by (simp add: strict_sorted_iff)
  moreover have "set ?s = {e \<in> set (w_ssh w). sa_unix_user e = u \<and> sa_revoked_at e = None}"
    using mset_eq_setD [OF m] by (auto simp: active_keys_def)
  ultimately show ?thesis by (simp add: rows_in_file_def)
qed

text \<open>The whole of a user's file after a reconcile.\<close>

lemma reconciled_lines:
  assumes "ssh_inv w" and "getent_stable env" and "homes_ok env (w_ssh w)" and "ssh_reconcile env False actor w = (Inr r, w')"
    and "row \<in> set (w_ssh w)" and "user_db env (sa_unix_user row) = Some pw"
  obtains es where "rows_in_file w (sa_unix_user row) es"
    and "file_text w' (ak_path pw) = plan_body (partitionExisting (file_text w (ak_path pw)) @ map renderManagedLine es)"
    and "filter isProxypilotManagedLine (text_lines (file_text w' (ak_path pw))) = map renderManagedLine es"
    and "partitionExisting (file_text w' (ak_path pw)) = partitionExisting (file_text w (ak_path pw))"
proof -
  obtain es where es: "set es = set (active_keys w (sa_unix_user row))" "mset es = mset (active_keys w (sa_unix_user row))"
    and f: "file_text w' (ak_path pw) = pn_body (planUser es (file_text w (ak_path pw)))"
    by (rule ssh_reconcile_plan [OF assms(2-6)])
  have ok: "\<forall>e\<in>set es. row_ok e" unfolding es(1) using active_keys_ok [OF assms(1)] by blast
  have "rows_in_file w (sa_unix_user row) (sort_by (\<lambda>a b. sa_id a \<le> sa_id b) es)"
    using assms(1) by (intro rows_in_file_sort es(2)) (simp add: ssh_inv_def)
  then show thesis
    by (rule that) (simp add: f planUser_def Let_def managed_lines_def, simp_all add: f partition_of_plan [OF ok] managed_lines_def)
qed

text \<open>The managed lines of a user's file after a reconcile.\<close>

lemma reconciled_file:
  assumes "ssh_inv w" and "getent_stable env" and "homes_ok env (w_ssh w)" and "ssh_reconcile env False actor w = (Inr r, w')"
    and "row \<in> set (w_ssh w)" and "user_db env (sa_unix_user row) = Some pw"
  shows "set (filter isProxypilotManagedLine (text_lines (file_text w' (ak_path pw)))) = renderManagedLine ` set (active_keys w (sa_unix_user row))"
    and "partitionExisting (file_text w' (ak_path pw)) = partitionExisting (file_text w (ak_path pw))"
proof -
  obtain es where es: "set es = set (active_keys w (sa_unix_user row))" "mset es = mset (active_keys w (sa_unix_user row))"
    and f: "file_text w' (ak_path pw) = pn_body (planUser es (file_text w (ak_path pw)))"
    by (rule ssh_reconcile_plan [OF assms(2-6)])
  have ok: "\<forall>e\<in>set es. row_ok e" unfolding es(1) using active_keys_ok [OF assms(1)] by blast
  show "set (filter isProxypilotManagedLine (text_lines (file_text w' (ak_path pw)))) = renderManagedLine ` set (active_keys w (sa_unix_user row))"
    unfolding f partition_of_plan(2) [OF ok] by (simp add: set_managed_lines es)
  show "partitionExisting (file_text w' (ak_path pw)) = partitionExisting (file_text w (ak_path pw))"
    unfolding f by (rule partition_of_plan(1) [OF ok])
qed

text \<open>What runs before the reconcile of a revocation and of a removal.\<close>

lemma writeStateFromDb_Inr:
  "writeStateFromDb env w = (Inr u, v) \<Longrightarrow> \<exists>b. v = w\<lparr>w_files := (w_files w)(SSH_STATE_FILE \<mapsto> b)\<rparr>"
  by (auto simp: writeStateFromDb_def eff_inv mkdirs_def split: option.splits)

lemma need_row_unique:
  assumes "ledger_ok (w_ssh w)" and "row \<in> set (w_ssh w)"
  shows "need_row (sa_id row) w = (Inr row, w)"
proof -
  obtain x where x: "find (\<lambda>r. sa_id r = sa_id row) (w_ssh w) = Some x"
    using assms(2) by (cases "find (\<lambda>r. sa_id r = sa_id row) (w_ssh w)") (auto simp: find_None_iff)
  then have "x \<in> set (w_ssh w)" "sa_id x = sa_id row" by (auto simp: find_Some_iff)
  then have "x = row" using assms by (auto simp: ledger_ok_def distinct_map dest: inj_onD)
  with x show ?thesis by (simp add: need_row_def findById_def)
qed

definition revoked :: "env \<Rightarrow> string option \<Rightarrow> string option \<Rightarrow> ssh_row \<Rightarrow> ssh_row" where
  "revoked env reason actor r = r\<lparr>sa_revoked_at := Some (env_now env), sa_revoked_by := actor, sa_revoked_reason := reason\<rparr>"

lemma revokeEntry_run:
  assumes "ledger_ok (w_ssh w)" and "row \<in> set (w_ssh w)" and "sa_revoked_at row = None"
    and "revokeEntry env (sa_id row) reason actor w = (Inr res, w')"
  obtains v r where "w_ssh v = map (\<lambda>e. if e = row then revoked env reason actor e else e) (w_ssh w)"
    and "ssh_reconcile env False actor v = (Inr r, w')"
proof -
  have f: "map (\<lambda>r. if sa_id r = sa_id row then revoked env reason actor r else r) (w_ssh w) =
      map (\<lambda>e. if e = row then revoked env reason actor e else e) (w_ssh w)"
    using assms(1,2) by (auto simp: ledger_ok_def distinct_map dest: inj_onD)
  let ?v = "w\<lparr>w_ssh := map (\<lambda>r. if sa_id r = sa_id row then revoked env reason actor r else r) (w_ssh w)\<rparr>"
  have "\<exists>x l r. writeStateFromDb env ?v = (Inr (), x) \<and> ssh_reconcile env False actor (x\<lparr>w_audit := l\<rparr>) = (Inr r, w')"
    using assms(3,4) need_row_unique [OF assms(1,2)] unfolding revokeEntry_def revoked_def [symmetric] by (auto simp: eff_inv)
  then obtain x l r where x: "writeStateFromDb env ?v = (Inr (), x)"
    and r: "ssh_reconcile env False actor (x\<lparr>w_audit := l\<rparr>) = (Inr r, w')" by blast
  from writeStateFromDb_Inr [OF x] have "w_ssh (x\<lparr>w_audit := l\<rparr>) = w_ssh ?v" by auto
  with that [OF _ r] f show ?thesis by simp
qed

lemma removeEntry_run:
  assumes "ledger_ok (w_ssh w)" and "row \<in> set (w_ssh w)" and "removeEntry env (sa_id row) actor w = (Inr res, w')"
  obtains v r where "w_ssh v = filter (\<lambda>e. sa_id e \<noteq> sa_id row) (w_ssh w)" and "\<And>q. q \<noteq> SSH_STATE_FILE \<Longrightarrow> w_files v q = w_files w q"
    and "ssh_reconcile env False actor v = (Inr r, w')"
proof -
  let ?v = "w\<lparr>w_ssh := filter (\<lambda>e. sa_id e \<noteq> sa_id row) (w_ssh w)\<rparr>"
  from assms(3) need_row_unique [OF assms(1,2)] obtain x l r where x: "writeStateFromDb env ?v = (Inr (), x)"
    and r: "ssh_reconcile env False actor (x\<lparr>w_audit := l\<rparr>) = (Inr r, w')"
    by (auto simp: removeEntry_def eff_inv)
  from writeStateFromDb_Inr [OF x] have "w_ssh (x\<lparr>w_audit := l\<rparr>) = w_ssh ?v"
    "\<And>q. q \<noteq> SSH_STATE_FILE \<Longrightarrow> w_files (x\<lparr>w_audit := l\<rparr>) q = w_files w q" by auto
  with that [OF _ _ r] show ?thesis by simp
qed

section \<open>A host with one user\<close>

definition w_key :: world where
  "w_key = world0\<lparr>w_ssh := [row1]\<rparr>"

lemma w_key_inv: "ssh_inv w_key"
  unfolding w_key_def by code_simp

lemma env0_getent: "getent_stable env0"
  by (simp add: getent_stable_def)

lemma env0_root: "user_db env0 ''root'' = Some \<lparr>pw_uid = 0, pw_gid = 0, pw_home = ''/root''\<rparr>"
proof -
  have "USER_RE ''root''" by code_simp
  then show ?thesis by (simp add: user_db_def resolveUser_def env0_def)
qed

lemma w_key_homes: "homes_ok env0 (w_ssh w_key)"
  by (simp add: homes_ok_def w_key_def split: option.split)

lemma rewrite_returns: "\<exists>x w'. rewrite_user env0 False actor u es pw w = (Inr x, w')"
  by (simp add: rewrite_user_def readExisting_def Let_def mkdirs_def)

lemma users_return: "\<exists>x w'. reconcile_users env0 False actor gs w = (Inr x, w')"
proof (induction gs arbitrary: w)
  case (Cons g gs)
  obtain u es where g: "g = (u, es)" by (cases g)
  obtain r v where v: "resolveUser env0 u w = (r, v)" by fastforce
  show ?case
  proof (cases r)
    case (Inl e)
    from Cons.IH [of v] obtain us ws w' where "reconcile_users env0 False actor gs v = (Inr (us, ws), w')" by auto
    with Inl v show ?thesis by (simp add: g bindE_def catchE_def)
  next
    case (Inr pw)
    from rewrite_returns obtain a b x where a: "rewrite_user env0 False actor u es pw v = (Inr (a, b), x)" by fastforce
    from Cons.IH [of x] obtain us ws w' where "reconcile_users env0 False actor gs x = (Inr (us, ws), w')" by auto
    with Inr v a show ?thesis by (simp add: g bindE_def catchE_def)
  qed
qed simp

lemma reconcile_returns: "\<exists>x w'. ssh_reconcile env0 False actor w = (Inr x, w')"
  using users_return by (simp add: ssh_reconcile_def mkdirs_def)

lemma commit_returns:
  fixes k :: "user_result list \<times> ssh_warning list \<Rightarrow> ssh_result"
  shows "\<exists>b u. bindE (writeStateFromDb env0) (\<lambda>_. bindE (audit env0 s a r ac x y d) (\<lambda>_. bindE (ssh_reconcile env0 False None) (\<lambda>z. ret (k z)))) w =
    (Inr b, u)"
proof -
  obtain v where v: "writeStateFromDb env0 w = (Inr (), v)" by (simp add: writeStateFromDb_def mkdirs_def)
  obtain q u where "ssh_reconcile env0 False None (snd (audit env0 s a r ac x y d v)) = (Inr q, u)" using reconcile_returns by blast
  with v show ?thesis by simp
qed

lemma root_id: "ID_RE ''laptop''"
  by code_simp

section \<open>Properties\<close>

text \<open>
  C33: after a reconcile that returns, the \<open>authorized_keys\<close> file of every user who has a row in the ledger, be it only revoked ones, and
  whose home is found is, byte for byte, the operator's lines as they were before, followed by one line for each active row of that user, in the order of the
  ids; read back, its managed lines are these and none twice. Every file that belongs to no such user is as before, so
  the file of a user whose last row was deleted keeps its key (\<open>remove_leaves_key\<close>).
\<close>

theorem keys_match_ledger:
  assumes "ssh_inv w" and "getent_stable env" and "homes_ok env (w_ssh w)" and "ssh_reconcile env False actor w = (Inr r, w')"
  shows "(\<forall>row\<in>set (w_ssh w). \<forall>pw. user_db env (sa_unix_user row) = Some pw \<longrightarrow> (\<exists>es.
      rows_in_file w (sa_unix_user row) es \<and>
      file_text w' (ak_path pw) = plan_body (partitionExisting (file_text w (ak_path pw)) @ map renderManagedLine es) \<and>
      filter isProxypilotManagedLine (text_lines (file_text w' (ak_path pw))) = map renderManagedLine es \<and>
      partitionExisting (file_text w' (ak_path pw)) = partitionExisting (file_text w (ak_path pw)))) \<and>
    (\<forall>q. (\<forall>row\<in>set (w_ssh w). \<forall>pw. user_db env (sa_unix_user row) = Some pw \<longrightarrow> q \<noteq> ak_path pw) \<longrightarrow> w_files w' q = w_files w q)"
proof (intro conjI ballI allI impI)
  fix row pw assume "row \<in> set (w_ssh w)" "user_db env (sa_unix_user row) = Some pw"
  from reconciled_lines [OF assms this] show "\<exists>es. rows_in_file w (sa_unix_user row) es \<and>
      file_text w' (ak_path pw) = plan_body (partitionExisting (file_text w (ak_path pw)) @ map renderManagedLine es) \<and>
      filter isProxypilotManagedLine (text_lines (file_text w' (ak_path pw))) = map renderManagedLine es \<and>
      partitionExisting (file_text w' (ak_path pw)) = partitionExisting (file_text w (ak_path pw))" by metis
next
  fix q assume q: "\<forall>row\<in>set (w_ssh w). \<forall>pw. user_db env (sa_unix_user row) = Some pw \<longrightarrow> q \<noteq> ak_path pw"
  show "w_files w' q = w_files w q"
  proof (rule ssh_reconcile_others [OF assms(2-4)])
    show "q \<noteq> ak_path pw" if "row \<in> set (w_ssh w)" "user_db env (sa_unix_user row) = Some pw" for row pw
      using bspec [OF q that(1)] that(2) by simp
  qed
qed

theorem keys_match_ledger_witness:
  "\<exists>r w'. ssh_reconcile env0 False None w_key = (Inr r, w') \<and>
    set (filter isProxypilotManagedLine (text_lines (file_text w' (ak_path \<lparr>pw_uid = 0, pw_gid = 0, pw_home = ''/root''\<rparr>)))) = {renderManagedLine row1}"
proof -
  obtain r w' where run: "ssh_reconcile env0 False None w_key = (Inr r, w')" using reconcile_returns by blast
  let ?pw = "\<lparr>pw_uid = 0, pw_gid = 0, pw_home = ''/root''\<rparr>"
  have row: "row1 \<in> set (w_ssh w_key)" by (simp add: w_key_def)
  have u: "user_db env0 (sa_unix_user row1) = Some ?pw" using env0_root by (simp add: row1_def)
  note files = mp [OF spec [OF bspec [OF conjunct1 [OF keys_match_ledger [OF w_key_inv env0_getent w_key_homes run]] row]] u]
  obtain es where es: "rows_in_file w_key (sa_unix_user row1) es"
    "filter isProxypilotManagedLine (text_lines (file_text w' (ak_path ?pw))) = map renderManagedLine es"
    using files by (elim exE conjE)
  have "set es = {e \<in> set (w_ssh w_key). sa_unix_user e = sa_unix_user row1 \<and> sa_revoked_at e = None}"
    using es(1) unfolding rows_in_file_def by (rule conjunct1)
  also have "\<dots> = {row1}" by (auto simp: w_key_def row1_def)
  finally have "set (map renderManagedLine es) = {renderManagedLine row1}" by simp
  with run show ?thesis unfolding es(2) [symmetric] by (intro exI conjI)
qed

text \<open>
  A revocation that returns has taken the key out of the user's file and nothing else: the line of the revoked row
  is gone, and the managed lines left are those of the user's other active rows.
\<close>

theorem revoke_removes_key:
  assumes "ssh_inv w" and "getent_stable env" and "homes_ok env (w_ssh w)" and "row \<in> set (w_ssh w)"
    and "sa_revoked_at row = None" and "user_db env (sa_unix_user row) = Some pw"
    and "revokeEntry env (sa_id row) reason actor w = (Inr res, w')"
  shows "renderManagedLine row \<notin> set (text_lines (file_text w' (ak_path pw))) \<and>
    set (filter isProxypilotManagedLine (text_lines (file_text w' (ak_path pw)))) =
      renderManagedLine ` {e \<in> set (w_ssh w) - {row}. sa_unix_user e = sa_unix_user row \<and> sa_revoked_at e = None}"
proof -
  let ?u = "sa_unix_user row" and ?f = "\<lambda>e. if e = row then revoked env reason actor e else e"
  have inv: "ledger_ok (w_ssh w)" using assms(1) by (simp add: ssh_inv_def)
  obtain v r where v: "w_ssh v = map ?f (w_ssh w)" and run: "ssh_reconcile env False actor v = (Inr r, w')"
    by (rule revokeEntry_run [OF inv assms(4,5,7)])
  have keep: "sa_unix_user (?f e) = sa_unix_user e" "sa_id (?f e) = sa_id e" "sa_fingerprint (?f e) = sa_fingerprint e"
    "row_ok (?f e) = row_ok e" for e by (simp_all add: revoked_def row_ok_def)
  have v1: "ssh_inv v" using inv unfolding ssh_inv_def v ledger_ok_def by (simp add: keep o_def) (auto simp: revoked_def row_ok_def)
  have v2: "homes_ok env (w_ssh v)" by (rule homes_ok_users [OF assms(3)]) (auto simp: v revoked_def)
  have v3: "?f row \<in> set (w_ssh v)" and v4: "user_db env (sa_unix_user (?f row)) = Some pw" using assms(4,6) by (simp_all add: v revoked_def)
  have act: "set (active_keys v ?u) = {e \<in> set (w_ssh w) - {row}. sa_unix_user e = ?u \<and> sa_revoked_at e = None}"
  proof -
    have r: "sa_revoked_at (revoked env reason actor e) = Some (env_now env)" for e by (simp add: revoked_def)
    then have n: "revoked env reason actor row \<noteq> row" using assms(5) by (metis option.distinct(1))
    have "e \<in> set (active_keys v ?u) \<longleftrightarrow> e \<in> {e \<in> set (w_ssh w) - {row}. sa_unix_user e = ?u \<and> sa_revoked_at e = None}" for e
      unfolding active_keys_def v using r n by (cases "e = row") auto
    then show ?thesis by blast
  qed
  have m: "set (filter isProxypilotManagedLine (text_lines (file_text w' (ak_path pw)))) =
      renderManagedLine ` {e \<in> set (w_ssh w) - {row}. sa_unix_user e = ?u \<and> sa_revoked_at e = None}"
    using reconciled_file(1) [OF v1 assms(2) v2 run v3 v4] unfolding keep(1) act .
  have "isProxypilotManagedLine (renderManagedLine row)" using inv assms(4) by (auto simp: ledger_ok_def row_ok_def intro: managed_line_recognised)
  moreover have "renderManagedLine row \<notin> renderManagedLine ` {e \<in> set (w_ssh w) - {row}. sa_unix_user e = ?u \<and> sa_revoked_at e = None}"
    using managed_line_inj [OF inv assms(4)] by auto
  ultimately have "renderManagedLine row \<notin> set (text_lines (file_text w' (ak_path pw)))" unfolding m [symmetric] by simp
  with m show ?thesis by blast
qed

theorem revoke_removes_key_witness:
  "\<exists>res w'. revokeEntry env0 ''laptop'' None None w_key = (Inr res, w') \<and>
    renderManagedLine row1 \<notin> set (text_lines (file_text w' (ak_path \<lparr>pw_uid = 0, pw_gid = 0, pw_home = ''/root''\<rparr>)))"
proof -
  have row: "row1 \<in> set (w_ssh w_key)" "sa_revoked_at row1 = None" by (simp_all add: w_key_def row1_def)
  have u: "user_db env0 (sa_unix_user row1) = Some \<lparr>pw_uid = 0, pw_gid = 0, pw_home = ''/root''\<rparr>" using env0_root by (simp add: row1_def)
  have i: "sa_id row1 = ''laptop''" by (simp add: row1_def)
  have n: "need_row (sa_id row1) w_key = (Inr row1, w_key)" using need_row_unique w_key_inv row(1) by (simp add: ssh_inv_def)
  have "validateId (sa_id row1) = Inr ()" unfolding i by (simp add: validateId_def root_id)
  then have "\<exists>res w'. revokeEntry env0 (sa_id row1) None None w_key = (Inr res, w')"
    using n row(2) commit_returns by (simp add: revokeEntry_def del: audit_apply)
  then obtain res w' where run: "revokeEntry env0 (sa_id row1) None None w_key = (Inr res, w')" by blast
  from revoke_removes_key [OF w_key_inv env0_getent w_key_homes row u run] run show ?thesis unfolding i by blast
qed

text \<open>
  Removing a user's only row does not revoke the key: the user is no longer in the ledger, no group is made for it,
  and its \<open>authorized_keys\<close> file stays as it was, managed line included.
\<close>

theorem remove_leaves_key:
  assumes "ssh_inv w" and "getent_stable env" and "homes_ok env (w_ssh w)" and "row \<in> set (w_ssh w)"
    and "\<forall>e\<in>set (w_ssh w). sa_unix_user e = sa_unix_user row \<longrightarrow> e = row" and "user_db env (sa_unix_user row) = Some pw"
    and "ak_path pw \<noteq> SSH_STATE_FILE" and "removeEntry env (sa_id row) actor w = (Inr res, w')"
  shows "w_files w' (ak_path pw) = w_files w (ak_path pw)"
proof -
  have inv: "ledger_ok (w_ssh w)" using assms(1) by (simp add: ssh_inv_def)
  obtain v r where v: "w_ssh v = filter (\<lambda>e. sa_id e \<noteq> sa_id row) (w_ssh w)" "\<And>q. q \<noteq> SSH_STATE_FILE \<Longrightarrow> w_files v q = w_files w q"
    and run: "ssh_reconcile env False actor v = (Inr r, w')"
    by (rule removeEntry_run [OF inv assms(4,8)]) (rule that; (assumption | simp))
  have sub: "set (w_ssh v) \<subseteq> set (w_ssh w)" by (auto simp: v(1))
  have "homes_ok env (w_ssh v)" by (rule homes_ok_users [OF assms(3)]) (use sub in auto)
  note files = reconcile_users_files [OF assms(2) distinct_paths_by_user [OF this] ssh_reconcile_run [OF run]]
  have "ak_path pw \<notin> set (paths_of env (by_user v))"
  proof
    assume "ak_path pw \<in> set (paths_of env (by_user v))"
    then obtain u es b where g: "(u, es) \<in> set (by_user v)" and b: "user_db env u = Some b" "ak_path pw = ak_path b"
      by (auto simp: paths_of_def split: option.splits dest!: sym [of "Some _"])
    from by_user_sub [OF g] obtain e where e: "e \<in> set (w_ssh v)" "sa_unix_user e = u" by auto
    have "sa_unix_user row = sa_unix_user e"
      using homes_okD [OF assms(3,4), of e pw b] e sub assms(6) b by auto
    with assms(5) e sub have "e = row" by auto
    with e(1) show False by (simp add: v(1))
  qed
  with files have "w_files w' (ak_path pw) = w_files v (ak_path pw)" by blast
  with v(2) assms(7) show ?thesis by simp
qed

theorem remove_leaves_key_witness:
  "\<exists>res w'. removeEntry env0 ''laptop'' None w_key = (Inr res, w') \<and>
    w_files w' (ak_path \<lparr>pw_uid = 0, pw_gid = 0, pw_home = ''/root''\<rparr>) = w_files w_key (ak_path \<lparr>pw_uid = 0, pw_gid = 0, pw_home = ''/root''\<rparr>)"
proof -
  let ?pw = "\<lparr>pw_uid = 0, pw_gid = 0, pw_home = ''/root''\<rparr>"
  have row: "row1 \<in> set (w_ssh w_key)" and only: "\<forall>e\<in>set (w_ssh w_key). sa_unix_user e = sa_unix_user row1 \<longrightarrow> e = row1" by (simp_all add: w_key_def)
  have u: "user_db env0 (sa_unix_user row1) = Some ?pw" using env0_root by (simp add: row1_def)
  have p: "ak_path ?pw \<noteq> SSH_STATE_FILE" by code_simp
  have i: "sa_id row1 = ''laptop''" by (simp add: row1_def)
  have n: "need_row (sa_id row1) w_key = (Inr row1, w_key)" using need_row_unique w_key_inv row by (simp add: ssh_inv_def)
  have "validateId (sa_id row1) = Inr ()" unfolding i by (simp add: validateId_def root_id)
  then have "\<exists>res w'. removeEntry env0 (sa_id row1) None w_key = (Inr res, w')"
    using n commit_returns by (simp add: removeEntry_def del: audit_apply)
  then obtain res w' where run: "removeEntry env0 (sa_id row1) None w_key = (Inr res, w')" by blast
  from remove_leaves_key [OF w_key_inv env0_getent w_key_homes row only u p run] run show ?thesis unfolding i by blast
qed

end
