(* ===== verification/Fw_Detect.thy ===== *)
theory Fw_Detect
  imports Fw_Render "HOL-Library.Word"
begin

unbundle bit_operations_syntax

text \<open>
  \<open>cli/src/core/firewall/detect.js\<close>: finding the managed Incus bridge and computing its network
  address. The bitwise operators of JavaScript work on 32-bit integers and \<open>>>>\<close> reads the result
  unsigned, which is arithmetic on \<^typ>\<open>32 word\<close>.
\<close>

section \<open>Address arithmetic\<close>

definition ipToInt :: "string \<Rightarrow> 32 word" where
  "ipToInt ip =
     foldl (\<lambda>a b. push_bit 8 a + word_of_int (num_val (js_number b))) 0 (split_on (CHR ''.'') ip)"

definition intToIp :: "32 word \<Rightarrow> string" where
  "intToIp n = join ''.''
     [show_nat (unat (drop_bit 24 n AND 0xff)), show_nat (unat (drop_bit 16 n AND 0xff)),
      show_nat (unat (drop_bit 8 n AND 0xff)), show_nat (unat (n AND 0xff))]"

definition netmask :: "nat \<Rightarrow> 32 word" where
  "netmask plen = (if plen = 0 then 0 else push_bit (32 - plen) (NOT 0))"

definition networkAddress :: "string \<Rightarrow> nat \<Rightarrow> string" where
  "networkAddress addr plen = intToIp (ipToInt addr AND netmask plen)"

section \<open>Bridge detection\<close>

record bridge =
  br_iface :: string
  br_cidr :: string
  br_gw :: string
  br_candidatesCount :: nat

definition managed_bridge :: "jval \<Rightarrow> bool" where
  "managed_bridge e \<longleftrightarrow> jget (Some e) ''type'' = Some (JStr ''bridge'') \<and> jget (Some e) ''managed'' = Some (JBool True)"

definition bridge_ipv4 :: "jval \<Rightarrow> string option" where
  "bridge_ipv4 e =
     (case jget (jget (Some e) ''config'') ''ipv4.address'' of
        Some (JStr a) \<Rightarrow> if a = ''none'' then None else Some a
      | _ \<Rightarrow> None)"

definition bridge_name :: "jval \<Rightarrow> string" where
  "bridge_name e = js_String_opt (jget (Some e) ''name'')"

definition bridge_candidates :: "env \<Rightarrow> jval list \<Rightarrow> jval list" where
  "bridge_candidates env entries =
     sort_by (\<lambda>a b. env_locale_le env (bridge_name a) (bridge_name b))
       (filter (\<lambda>e. bridge_ipv4 e \<noteq> None) (filter managed_bridge entries))"

definition bridge_from :: "env \<Rightarrow> string \<Rightarrow> bridge option" where
  "bridge_from env text =
     (case JSON_parse (if text = [] then ''[]'' else text) of
        Some (JArr entries) \<Rightarrow>
          (case bridge_candidates env entries of
             [] \<Rightarrow> None
           | e # es \<Rightarrow>
               (case split_on (CHR ''/'') (the (bridge_ipv4 e)) of
                  [gw, plen] \<Rightarrow>
                    if IPV4_RE gw \<and> prefix_len_ok plen
                    then Some \<lparr>br_iface = bridge_name e,
                           br_cidr = networkAddress gw (read_nat plen) @ ''/'' @ show_nat (read_nat plen),
                           br_gw = gw, br_candidatesCount = length (e # es)\<rparr>
                    else None
                | _ \<Rightarrow> None))
      | _ \<Rightarrow> None)"

definition detectBridge :: "env \<Rightarrow> bridge option io" where
  "detectBridge env =
     bindE (spawn env ''incus'' [''network'', ''list'', ''--format'', ''json''] []) (\<lambda>r.
     ret (if pr_status r \<noteq> Some 0 then None
          else bridge_from env (case pr_stdout r of None \<Rightarrow> [] | Some t \<Rightarrow> t)))"

section \<open>Octets of a word\<close>

lemma unat_drop_octet: "unat (drop_bit n (w :: 32 word) AND 0xff) = unat w div 2 ^ n mod 256"
proof -
  have "drop_bit n w AND 0xff = take_bit 8 (drop_bit n w)"
    by (simp only: take_bit_eq_mask mask_eq_exp_minus_1) simp
  then have "unat (drop_bit n w AND 0xff) = take_bit 8 (drop_bit n (unat w))"
    by (simp only: unsigned_take_bit_eq unat_drop_bit_eq)
  then show ?thesis by (simp add: take_bit_eq_mod drop_bit_eq_div)
qed

lemma show_nat_no_dot: "CHR ''.'' \<notin> set (show_nat n)"
  by (rule show_nat_no_char) (simp add: class_defs)

lemma split_dots:
  "split_on (CHR ''.'') (join ''.'' [show_nat a, show_nat b, show_nat c, show_nat d]) =
    [show_nat a, show_nat b, show_nat c, show_nat d]"
  by (rule split_on_join) (auto simp: show_nat_no_dot)

lemma ipToInt_quad:
  "ipToInt (join ''.'' [show_nat a, show_nat b, show_nat c, show_nat d]) =
    word_of_nat (a * 2 ^ 24 + b * 2 ^ 16 + c * 2 ^ 8 + d)"
  by (simp add: ipToInt_def split_dots push_bit_eq_mult algebra_simps del: join.simps)

lemma octets_sum:
  fixes u :: nat
  assumes "u < 2 ^ 32"
  shows "u div 2 ^ 24 mod 256 * 2 ^ 24 + u div 2 ^ 16 mod 256 * 2 ^ 16 + u div 2 ^ 8 mod 256 * 2 ^ 8 + u mod 256 = u"
proof -
  define a b c where "a = u div 256" and "b = a div 256" and "c = b div 256"
  have e: "u div 2 ^ 8 = a" "u div 2 ^ 16 = b" "u div 2 ^ 24 = c"
    by (simp_all add: a_def b_def c_def div_mult2_eq [symmetric])
  have "c < 256" using assms by (simp add: c_def b_def a_def div_mult2_eq [symmetric])
  then have "c mod 256 = c" by simp
  moreover have "u = 256 * a + u mod 256" "a = 256 * b + a mod 256" "b = 256 * c + b mod 256"
    by (simp_all add: a_def b_def c_def)
  ultimately show ?thesis unfolding e by simp
qed

lemma ipToInt_intToIp [simp]: "ipToInt (intToIp w) = w"
proof -
  let ?u = "unat w"
  have "w AND 0xff = drop_bit 0 w AND 0xff" by simp
  then have d: "unat (w AND 0xff) = ?u mod 256" by (simp add: unat_drop_octet del: drop_bit_0)
  have "ipToInt (intToIp w) = word_of_nat (?u div 2 ^ 24 mod 256 * 2 ^ 24 + ?u div 2 ^ 16 mod 256 * 2 ^ 16 +
      ?u div 2 ^ 8 mod 256 * 2 ^ 8 + ?u mod 256)"
    unfolding intToIp_def ipToInt_quad by (simp only: unat_drop_octet d)
  moreover have "?u < 2 ^ 32" using unsigned_less [of w] by simp
  ultimately show ?thesis by (simp only: octets_sum) simp
qed

lemma bit_netmask: "plen \<le> 32 \<Longrightarrow> bit (netmask plen) i \<longleftrightarrow> 32 - plen \<le> i \<and> i < 32"
  by (auto simp: netmask_def bit_push_bit_iff bit_simps)

end
