(* ===== verification/Mock_Locks.thy ===== *)
theory Mock_Locks
  imports Complex_Main PP_Strings
begin

text \<open>
  The checkout lock of a project: \<open>admin/backend/src/mock2/lock-logic.js\<close> (the decisions) and \<open>mock2/locks.js\<close> (the rows
  of \<open>mock2_locks\<close>), with the boot sweep of \<open>mock2/db.js\<close> and \<open>reactivateLease\<close> of \<open>mock2/foundation-adopt-store.js\<close>. A
  time is its number of milliseconds; the stored time of the last write is None when its text cannot be parsed. The
  clock and the fresh UUIDs are arguments, and so is the numeric value of the idle setting, None where \<open>Number\<close> gives
  no finite number.
\<close>

section \<open>Rows and holders\<close>

datatype holder = Operation string | Cycle int | User string | Maintenance

datatype lease_state = Active | Uncertain

record lock_row =
  lk_user :: "string option"
  lk_cycle :: "int option"
  lk_acquired :: int
  lk_last_write :: "int option"
  lk_takeover_by :: "string option"
  lk_takeover_at :: "int option"
  lk_op :: "string option"
  lk_op_state :: "lease_state option"
  lk_op_kind :: "string option"

type_synonym locks = "int \<Rightarrow> lock_row option"

definition lockHolder :: "lock_row option \<Rightarrow> holder option" where
  "lockHolder r = (case r of None \<Rightarrow> None | Some k \<Rightarrow>
     (case lk_op k of Some t \<Rightarrow> Some (Operation t) | None \<Rightarrow>
       (case lk_cycle k of Some c \<Rightarrow> Some (Cycle c) | None \<Rightarrow> map_option User (lk_user k))))"

section \<open>The idle timer\<close>

definition DEFAULT_LOCK_IDLE_MINUTES :: rat where "DEFAULT_LOCK_IDLE_MINUTES = 15"

definition LOCK_WARN_SECONDS :: rat where "LOCK_WARN_SECONDS = 120"

definition msSinceWrite :: "lock_row option \<Rightarrow> int \<Rightarrow> int option" where
  "msSinceWrite r now = (case r of None \<Rightarrow> None | Some k \<Rightarrow> map_option (\<lambda>l. now - l) (lk_last_write k))"

definition timeRemainingMs :: "lock_row option \<Rightarrow> int \<Rightarrow> rat \<Rightarrow> rat option" where
  "timeRemainingMs r now idle =
     (if (case r of Some k \<Rightarrow> lk_op k \<noteq> None | None \<Rightarrow> False) then None
      else map_option (\<lambda>since. max 0 idle * 60000 - of_int since) (msSinceWrite r now))"

definition isLockExpired :: "lock_row option \<Rightarrow> int \<Rightarrow> rat \<Rightarrow> bool" where
  "isLockExpired r now idle =
     (if (case r of Some k \<Rightarrow> lk_op k \<noteq> None | None \<Rightarrow> False) then False
      else case timeRemainingMs r now idle of None \<Rightarrow> False | Some t \<Rightarrow> t \<le> 0)"

definition inWarnWindow :: "lock_row option \<Rightarrow> int \<Rightarrow> rat \<Rightarrow> bool" where
  "inWarnWindow r now idle =
     (case timeRemainingMs r now idle of None \<Rightarrow> False | Some t \<Rightarrow> if t \<le> 0 then False else t \<le> LOCK_WARN_SECONDS * 1000)"

definition resolveIdleMinutes :: "rat option \<Rightarrow> rat" where
  "resolveIdleMinutes n = (case n of None \<Rightarrow> DEFAULT_LOCK_IDLE_MINUTES | Some x \<Rightarrow> if x < 1 then DEFAULT_LOCK_IDLE_MINUTES else x)"

section \<open>The decision to acquire\<close>

definition checkoutOperationReason :: "lock_row \<Rightarrow> string" where
  "checkoutOperationReason k =
     (let label = (if lk_op_kind k = Some ''task-continuity'' then ''Task-state synchronization'' else ''A project write'')
      in if lk_op_state k = Some Uncertain
         then label @ '' has an unconfirmed outcome. Inspect the project and confirm the remote operation has stopped before resolving it; no automatic takeover is allowed.''
         else label @ '' is in progress. Wait for it to finish; it cannot be force-released while the remote operation may be running.'')"

record verdict =
  vd_ok :: bool
  vd_reason :: string
  vd_canTakeover :: bool
  vd_heldBy :: "holder option"

definition verdict :: "bool \<Rightarrow> string \<Rightarrow> bool \<Rightarrow> holder option \<Rightarrow> verdict" where
  "verdict ok reason takeover held = \<lparr>vd_ok = ok, vd_reason = reason, vd_canTakeover = takeover, vd_heldBy = held\<rparr>"

definition is_user :: "holder \<Rightarrow> bool" where
  "is_user h \<longleftrightarrow> (case h of User _ \<Rightarrow> True | _ \<Rightarrow> False)"

definition mayAcquire :: "lock_row option \<Rightarrow> holder option \<Rightarrow> string \<Rightarrow> int \<Rightarrow> rat \<Rightarrow> verdict" where
  "mayAcquire r requester role now idle =
     (if (case r of Some k \<Rightarrow> lk_op k \<noteq> None | None \<Rightarrow> False)
      then verdict False (checkoutOperationReason (the r)) False (Some Maintenance)
      else case requester of
        None \<Rightarrow> verdict False ''no requester'' False None
      | Some q \<Rightarrow>
          if is_user q \<and> role = ''viewer'' then verdict False ''viewers cannot check out a project'' False None
          else case lockHolder r of
            None \<Rightarrow> verdict True ''free'' False None
          | Some h \<Rightarrow>
              if h = q then verdict True ''already held by requester'' False (Some h)
              else if isLockExpired r now idle then verdict True ''previous hold expired'' False (Some h)
              else verdict False ''held by another writer'' True (Some h))"

definition shouldAutoRelease :: "lock_row option \<Rightarrow> int \<Rightarrow> rat \<Rightarrow> bool" where
  "shouldAutoRelease r now idle = (if lockHolder r = None then False else isLockExpired r now idle)"

text \<open>The view for the client, None for a lock nobody holds. The columns it copies unchanged are left out.\<close>

record lock_shape =
  sh_holder :: holder
  sh_remaining_ms :: "rat option"
  sh_remaining_seconds :: "int option"
  sh_expired :: bool
  sh_warn :: bool
  sh_reason :: "string option"

definition publicLockShape :: "lock_row option \<Rightarrow> int \<Rightarrow> rat \<Rightarrow> lock_shape option" where
  "publicLockShape r now idle =
     (case lockHolder r of
        None \<Rightarrow> None
      | Some (Operation _) \<Rightarrow>
          Some \<lparr>sh_holder = Maintenance, sh_remaining_ms = None, sh_remaining_seconds = None, sh_expired = False, sh_warn = False,
            sh_reason = Some (checkoutOperationReason (the r))\<rparr>
      | Some h \<Rightarrow>
          (let remaining = timeRemainingMs r now idle
           in Some \<lparr>sh_holder = h, sh_remaining_ms = remaining, sh_remaining_seconds = map_option (\<lambda>t. \<lfloor>t / 1000\<rfloor>) remaining,
                sh_expired = isLockExpired r now idle, sh_warn = inWarnWindow r now idle, sh_reason = None\<rparr>))"

section \<open>Human and cycle holds\<close>

datatype acquire_result = Acquired string lock_row | Refused string "lock_row option" bool "holder option"

text \<open>A requester is a user or a cycle.\<close>

definition acquireLock :: "int \<Rightarrow> rat \<Rightarrow> int \<Rightarrow> holder \<Rightarrow> string \<Rightarrow> bool \<Rightarrow> locks \<Rightarrow> acquire_result \<times> locks" where
  "acquireLock now idle pid requester role force db =
     (let current = db pid; v = mayAcquire current (Some requester) role now idle
      in if (case current of Some k \<Rightarrow> lk_op k \<noteq> None | None \<Rightarrow> False)
         then (Refused (checkoutOperationReason (the current)) None False (Some Maintenance), db)
         else if \<not> force \<and> \<not> vd_ok v then (Refused (vd_reason v) current (vd_canTakeover v) (vd_heldBy v), db)
         else
           let sameHolder = (lockHolder current = Some requester);
               row = \<lparr>lk_user = (case requester of User u \<Rightarrow> Some u | _ \<Rightarrow> None),
                 lk_cycle = (case requester of Cycle c \<Rightarrow> Some c | _ \<Rightarrow> None),
                 lk_acquired = (if sameHolder then lk_acquired (the current) else now), lk_last_write = Some now,
                 lk_takeover_by = None, lk_takeover_at = None, lk_op = None, lk_op_state = None, lk_op_kind = None\<rparr>
           in (Acquired (if force then ''forced'' else ''acquired'') row, db(pid \<mapsto> row)))"

definition touchLock :: "int \<Rightarrow> int \<Rightarrow> holder option \<Rightarrow> locks \<Rightarrow> bool \<times> locks" where
  "touchLock now pid holder db =
     (case (lockHolder (db pid), holder) of
        (Some (Operation _), _) \<Rightarrow> (False, db)
      | (Some h, Some q) \<Rightarrow> if h = q then (True, db(pid := map_option (\<lambda>k. k\<lparr>lk_last_write := Some now\<rparr>) (db pid))) else (False, db)
      | _ \<Rightarrow> (False, db))"

datatype release_result = Released | Retained string | Not_released string

definition releaseLock :: "int \<Rightarrow> holder option \<Rightarrow> locks \<Rightarrow> release_result \<times> locks" where
  "releaseLock pid holder db =
     (case db pid of
        None \<Rightarrow> (Not_released ''not held'', db)
      | Some cur \<Rightarrow>
          if lk_op cur \<noteq> None then
            (case (holder, lk_cycle cur) of
               (Some (Cycle c), Some d) \<Rightarrow>
                 if c = d
                 then (let cur' = cur\<lparr>lk_cycle := None, lk_op_state := Some Uncertain\<rparr>
                       in (Retained (checkoutOperationReason (cur\<lparr>lk_op_state := Some Uncertain\<rparr>)), db(pid \<mapsto> cur')))
                 else (Not_released (checkoutOperationReason cur), db)
             | _ \<Rightarrow> (Not_released (checkoutOperationReason cur), db))
          else if holder \<noteq> None \<and> lockHolder (Some cur) \<noteq> holder then (Not_released ''held by another writer'', db)
          else (Released, db(pid := None)))"

definition requestTakeover :: "int \<Rightarrow> int \<Rightarrow> string option \<Rightarrow> locks \<Rightarrow> string option \<times> locks" where
  "requestTakeover now pid user db =
     (case db pid of
        None \<Rightarrow> (Some ''not held'', db)
      | Some cur \<Rightarrow>
          if lk_op cur \<noteq> None then (Some (checkoutOperationReason cur), db)
          else if lockHolder (Some cur) = None then (Some ''not held'', db)
          else (None, db(pid \<mapsto> cur\<lparr>lk_takeover_by := user, lk_takeover_at := Some now\<rparr>)))"

definition lockGuard :: "int \<Rightarrow> rat \<Rightarrow> int \<Rightarrow> holder option \<Rightarrow> string \<Rightarrow> locks \<Rightarrow> verdict" where
  "lockGuard now idle pid requester role db = mayAcquire (db pid) requester role now idle"

section \<open>Operation reservations\<close>

definition MAX_SAFE :: int where "MAX_SAFE = 9007199254740991"

definition LEASE_KINDS :: "string list" where
  "LEASE_KINDS = [''task-continuity'', ''mcp-write'', ''project-write'', ''restore'']"

text \<open>\<open>/^[a-f0-9]{8}-[a-f0-9]{4}-4[a-f0-9]{3}-[89ab][a-f0-9]{3}-[a-f0-9]{12}$/\<close>\<close>

definition hex_low :: "char \<Rightarrow> bool" where
  "hex_low c \<longleftrightarrow> c \<in> set ''0123456789abcdef''"

definition uuid4 :: "string \<Rightarrow> bool" where
  "uuid4 s \<longleftrightarrow>
     (let ps = split_on (CHR ''-'') s
      in map length ps = [8, 4, 4, 4, 12] \<and> list_all (list_all hex_low) ps \<and> hd (ps ! 2) = CHR ''4'' \<and> hd (ps ! 3) \<in> set ''89ab'')"

definition validOperation :: "int \<Rightarrow> string \<Rightarrow> bool" where
  "validOperation pid token \<longleftrightarrow> pid \<le> MAX_SAFE \<and> 0 < pid \<and> uuid4 token"

text \<open>The \<open>UPDATE\<close> of an attached reservation hits a row only if it has no user and no reservation.\<close>

definition acquireCheckoutOperationLease ::
  "int \<Rightarrow> string \<Rightarrow> int \<Rightarrow> string \<Rightarrow> int option \<Rightarrow> locks \<Rightarrow> (string + string) \<times> locks" where
  "acquireCheckoutOperationLease now token pid kind cycleId db =
     (if \<not> (pid \<le> MAX_SAFE \<and> 0 < pid) \<or> kind \<notin> set LEASE_KINDS then (Inl ''invalid project or operation'', db)
      else
        let current = db pid; holder = lockHolder current;
            attached = (kind = ''task-continuity'' \<and>
              (case cycleId of None \<Rightarrow> False | Some c \<Rightarrow> 0 < c \<and> c \<le> MAX_SAFE \<and> holder = Some (Cycle c)))
        in if cycleId \<noteq> None \<and> \<not> attached then (Inl ''the original cycle no longer owns this project'', db)
           else if holder \<noteq> None \<and> \<not> attached then
             (Inl (if lk_op (the current) \<noteq> None then checkoutOperationReason (the current) else ''held by another writer''), db)
           else if attached then
             (let cur = the current
              in if lk_user cur = None \<and> lk_op cur = None
                 then (Inr token, db(pid \<mapsto> cur\<lparr>lk_op := Some token, lk_op_state := Some Active, lk_op_kind := Some kind\<rparr>))
                 else (Inl ''the original cycle no longer owns this project'', db))
           else (Inr token, db(pid \<mapsto> \<lparr>lk_user = None, lk_cycle = None, lk_acquired = now, lk_last_write = Some now,
             lk_takeover_by = None, lk_takeover_at = None, lk_op = Some token, lk_op_state = Some Active, lk_op_kind = Some kind\<rparr>)))"

definition markTaskContinuityLeaseUncertain :: "int \<Rightarrow> string \<Rightarrow> locks \<Rightarrow> bool \<times> locks" where
  "markTaskContinuityLeaseUncertain pid token db =
     (case db pid of
        Some cur \<Rightarrow> if validOperation pid token \<and> lk_op cur = Some token
                    then (True, db(pid \<mapsto> cur\<lparr>lk_op_state := Some Uncertain\<rparr>)) else (False, db)
      | None \<Rightarrow> (False, db))"

definition settleTaskContinuityLease :: "int \<Rightarrow> int \<Rightarrow> string \<Rightarrow> locks \<Rightarrow> bool \<times> locks" where
  "settleTaskContinuityLease now pid token db =
     (if \<not> validOperation pid token then (False, db)
      else case db pid of
        None \<Rightarrow> (False, db)
      | Some row \<Rightarrow>
          if lk_op row \<noteq> Some token then (False, db)
          else if lk_cycle row \<noteq> None \<or> lk_user row \<noteq> None
          then (True, db(pid \<mapsto> row\<lparr>lk_op := None, lk_op_state := None, lk_op_kind := None, lk_last_write := Some now\<rparr>))
          else (True, db(pid := None)))"

definition reactivateLease :: "int \<Rightarrow> int \<Rightarrow> string \<Rightarrow> locks \<Rightarrow> bool \<times> locks" where
  "reactivateLease now pid token db =
     (case db pid of
        Some cur \<Rightarrow> if lk_op cur = Some token then (True, db(pid \<mapsto> cur\<lparr>lk_op_state := Some Active, lk_last_write := Some now\<rparr>)) else (False, db)
      | None \<Rightarrow> (False, db))"

section \<open>The sweeps\<close>

text \<open>
  \<open>sweepMock2Locks\<close> over the rows it listed. \<open>onIdle\<close> is the caller's callback, None when there is none: it may change
  the table while the sweep waits for it, and answers that it handled the lock, escalated it, or threw.
\<close>

datatype idle_answer = Handled | Escalated | Threw

type_synonym on_idle = "(lock_row \<Rightarrow> locks \<Rightarrow> idle_answer \<times> locks) option"

fun sweep_rows :: "int \<Rightarrow> rat \<Rightarrow> on_idle \<Rightarrow> (int \<times> lock_row) list \<Rightarrow> locks \<Rightarrow> (nat \<times> nat) \<times> locks" where
  "sweep_rows now idle onIdle [] db = ((0, 0), db)"
| "sweep_rows now idle onIdle ((pid, k) # rest) db =
     (if \<not> shouldAutoRelease (Some k) now idle \<or> (\<exists>c. lockHolder (Some k) = Some (Cycle c)) then sweep_rows now idle onIdle rest db
      else
        let (a, db1) = (case onIdle of None \<Rightarrow> (Handled, db) | Some f \<Rightarrow> f k db);
            db2 = (if a = Handled then snd (releaseLock pid None db1) else db1);
            ((rel, cons), db3) = sweep_rows now idle onIdle rest db2
        in ((if a = Handled then Suc rel else rel, Suc cons), db3))"

text \<open>The boot sweep: reservations become uncertain, the locks of cycles go.\<close>

definition sweepMock2OnBoot :: "locks \<Rightarrow> locks" where
  "sweepMock2OnBoot db = (\<lambda>pid.
     case db pid of
       None \<Rightarrow> None
     | Some k \<Rightarrow>
         if lk_op k \<noteq> None then Some (k\<lparr>lk_op_state := Some Uncertain, lk_cycle := None\<rparr>)
         else if lk_cycle k \<noteq> None then None else Some k)"

end
