(* ===== verification/Mock_LockSafety.thy ===== *)
theory Mock_LockSafety
  imports Mock_Locks
begin

text \<open>
  The checkout lock as a machine: every operation on the table, in any order, by anyone. A reservation made for a remote
  operation outlives everything but its own settlement; rows stay well-formed; a hold passes to another writer only
  when it is free, or idle for the configured time.
\<close>

section \<open>The machine\<close>

datatype lock_op =
    Acquire int rat int "string + int" string bool
  | Touch int int "holder option"
  | Release int "holder option"
  | Takeover int int "string option"
  | Lease int string int string "int option"
  | Mark_uncertain int string
  | Settle int int string
  | Reactivate int int string
  | Idle_sweep int rat "(int \<times> lock_row) list"
  | Boot

definition requester_of :: "string + int \<Rightarrow> holder" where
  "requester_of q = (case q of Inl u \<Rightarrow> User u | Inr c \<Rightarrow> Cycle c)"

fun lock_run :: "lock_op \<Rightarrow> locks \<Rightarrow> locks" where
  "lock_run (Acquire now idle pid q role force) db = snd (acquireLock now idle pid (requester_of q) role force db)"
| "lock_run (Touch now pid h) db = snd (touchLock now pid h db)"
| "lock_run (Release pid h) db = snd (releaseLock pid h db)"
| "lock_run (Takeover now pid u) db = snd (requestTakeover now pid u db)"
| "lock_run (Lease now t pid kind c) db = snd (acquireCheckoutOperationLease now t pid kind c db)"
| "lock_run (Mark_uncertain pid t) db = snd (markTaskContinuityLeaseUncertain pid t db)"
| "lock_run (Settle now pid t) db = snd (settleTaskContinuityLease now pid t db)"
| "lock_run (Reactivate now pid t) db = snd (reactivateLease now pid t db)"
| "lock_run (Idle_sweep now idle rows) db = snd (sweep_rows now idle None rows db)"
| "lock_run Boot db = sweepMock2OnBoot db"

inductive lock_reach :: "lock_op set \<Rightarrow> locks \<Rightarrow> locks \<Rightarrow> bool" for A :: "lock_op set" and db :: locks where
  start: "lock_reach A db db"
| step: "lock_reach A db d \<Longrightarrow> c \<in> A \<Longrightarrow> lock_reach A db (lock_run c d)"

lemma lock_reach_inv:
  assumes "lock_reach A db d" and "P db" and "\<And>c d. c \<in> A \<Longrightarrow> P d \<Longrightarrow> P (lock_run c d)"
  shows "P d"
  using assms(1) by induction (simp_all add: assms(2,3))

lemma sweep_preserves:
  assumes "P db" and "\<And>d pid. P d \<Longrightarrow> P (snd (releaseLock pid None d))"
  shows "P (snd (sweep_rows now idle None rows db))"
  using assms(1)
proof (induction rows arbitrary: db)
  case (Cons pk rows)
  obtain pid k where pk: "pk = (pid, k)" by fastforce
  show ?case using Cons assms(2) [OF Cons.prems, of pid] by (simp add: pk Let_def split_beta)
qed simp

section \<open>Reservations\<close>

definition reserved :: "int \<Rightarrow> string \<Rightarrow> locks \<Rightarrow> bool" where
  "reserved pid t db \<longleftrightarrow> (\<exists>k. db pid = Some k \<and> lk_op k = Some t)"

lemma reserved_release: "reserved pid t db \<Longrightarrow> reserved pid t (snd (releaseLock p h db))"
  by (auto simp: reserved_def releaseLock_def Let_def split: option.splits holder.splits)

lemma reserved_step:
  assumes "reserved pid t db" and "\<And>now. c \<noteq> Settle now pid t"
  shows "reserved pid t (lock_run c db)"
proof (cases c)
  case (Acquire now idle p q role force)
  then show ?thesis using assms(1) by (auto simp: reserved_def acquireLock_def Let_def)
next
  case (Touch now p h)
  then show ?thesis using assms(1) by (auto simp: reserved_def touchLock_def lockHolder_def split: option.splits holder.splits)
next
  case (Release p h)
  then show ?thesis using reserved_release [OF assms(1)] by simp
next
  case (Takeover now p u)
  then show ?thesis using assms(1) by (auto simp: reserved_def requestTakeover_def split: option.splits)
next
  case (Lease now s p kind cy)
  then show ?thesis using assms(1)
    by (auto simp: reserved_def acquireCheckoutOperationLease_def Let_def lockHolder_def split: option.splits)
next
  case (Mark_uncertain p s)
  then show ?thesis using assms(1) by (auto simp: reserved_def markTaskContinuityLeaseUncertain_def split: option.splits)
next
  case (Settle now p s)
  then have "p \<noteq> pid \<or> s \<noteq> t" using assms(2) [of now] by simp
  with Settle assms(1) show ?thesis by (auto simp: reserved_def settleTaskContinuityLease_def split: option.splits)
next
  case (Reactivate now p s)
  then show ?thesis using assms(1) by (auto simp: reserved_def reactivateLease_def split: option.splits)
next
  case (Idle_sweep now idle rows)
  then show ?thesis using sweep_preserves [where P = "reserved pid t", OF assms(1) reserved_release] by simp
next
  case Boot
  then show ?thesis using assms(1) by (auto simp: reserved_def sweepMock2OnBoot_def)
qed

section \<open>Rows\<close>

text \<open>
  A row has a holder; a user and a cycle never share it; the three columns of a reservation are set together, with a kind
  the schema allows, and only a reservation for task continuity stands beside a cycle.
\<close>

definition lock_row_ok :: "lock_row \<Rightarrow> bool" where
  "lock_row_ok k \<longleftrightarrow> lockHolder (Some k) \<noteq> None \<and> (lk_user k = None \<or> lk_cycle k = None) \<and>
     (lk_op k = None \<longleftrightarrow> lk_op_state k = None) \<and> (lk_op k = None \<longleftrightarrow> lk_op_kind k = None) \<and>
     (lk_op k \<noteq> None \<longrightarrow> lk_user k = None \<and> the (lk_op_kind k) \<in> set LEASE_KINDS \<and>
       (lk_cycle k \<noteq> None \<longrightarrow> lk_op_kind k = Some ''task-continuity''))"

definition locks_ok :: "locks \<Rightarrow> bool" where
  "locks_ok db \<longleftrightarrow> (\<forall>pid k. db pid = Some k \<longrightarrow> lock_row_ok k)"

lemma locks_okD: "locks_ok db \<Longrightarrow> db pid = Some k \<Longrightarrow> lock_row_ok k"
  by (simp add: locks_ok_def)

lemma locks_ok_put: "locks_ok db \<Longrightarrow> (\<And>k. r = Some k \<Longrightarrow> lock_row_ok k) \<Longrightarrow> locks_ok (db(pid := r))"
  by (simp add: locks_ok_def)

lemmas row_defs = lock_row_ok_def lockHolder_def

lemma ok_release:
  assumes "locks_ok db"
  shows "locks_ok (snd (releaseLock p h db))"
  using assms locks_okD [OF assms, of p]
  by (auto simp: releaseLock_def Let_def row_defs intro!: locks_ok_put split: option.splits holder.splits)

lemma ok_step:
  assumes "locks_ok db"
  shows "locks_ok (lock_run c db)"
proof (cases c)
  case (Acquire now idle p q role force)
  then show ?thesis using assms locks_okD [OF assms, of p]
    by (auto simp: acquireLock_def Let_def requester_of_def row_defs intro!: locks_ok_put split: sum.splits)
next
  case (Touch now p h)
  then show ?thesis using assms locks_okD [OF assms, of p]
    by (auto simp: touchLock_def row_defs intro!: locks_ok_put split: option.splits holder.splits)
next
  case (Release p h)
  then show ?thesis using ok_release [OF assms] by simp
next
  case (Takeover now p u)
  then show ?thesis using assms locks_okD [OF assms, of p]
    by (auto simp: requestTakeover_def row_defs intro!: locks_ok_put split: option.splits)
next
  case (Lease now s p kind cy)
  then show ?thesis using assms locks_okD [OF assms, of p]
    by (auto simp: acquireCheckoutOperationLease_def Let_def row_defs intro!: locks_ok_put split: option.splits)
next
  case (Mark_uncertain p s)
  then show ?thesis using assms locks_okD [OF assms, of p]
    by (auto simp: markTaskContinuityLeaseUncertain_def row_defs intro!: locks_ok_put split: option.splits)
next
  case (Settle now p s)
  then show ?thesis using assms locks_okD [OF assms, of p]
    by (auto simp: settleTaskContinuityLease_def row_defs intro!: locks_ok_put split: option.splits)
next
  case (Reactivate now p s)
  then show ?thesis using assms locks_okD [OF assms, of p]
    by (auto simp: reactivateLease_def row_defs intro!: locks_ok_put split: option.splits)
next
  case (Idle_sweep now idle rows)
  then show ?thesis using sweep_preserves [where P = locks_ok, OF assms ok_release] by simp
next
  case Boot
  have "lock_row_ok k" if "sweepMock2OnBoot db pid = Some k" for pid k
    using that locks_okD [OF assms, of pid] by (cases "db pid") (auto simp: sweepMock2OnBoot_def row_defs split: if_splits)
  with Boot show ?thesis by (simp add: locks_ok_def)
qed

section \<open>Properties\<close>

text \<open>
  C35: a reservation made for a remote operation holds until that operation settles it: no expiry, no forced
  acquisition, no forced release, no sweep, no restart and no other reservation takes it away, in any sequence of
  operations that does not settle this token for this project. While it stands nobody can acquire the lock.
\<close>

theorem reservation_persists:
  assumes "lock_reach (- {Settle now pid t | now. True}) db d" and "db pid = Some k" and "lk_op k = Some t"
  shows "(\<exists>k'. d pid = Some k' \<and> lk_op k' = Some t) \<and>
    (\<exists>m. acquireLock now idle pid q role force d = (Refused m None False (Some Maintenance), d))"
proof -
  have "reserved pid t db" using assms(2,3) by (simp add: reserved_def)
  then have "reserved pid t d" using lock_reach_inv [where P = "reserved pid t", OF assms(1)] reserved_step by blast
  then show ?thesis by (auto simp: reserved_def acquireLock_def Let_def)
qed

definition lease_token :: string where "lease_token = ''01234567-89ab-4def-8123-456789abcdef''"

definition leased :: locks where
  "leased = snd (acquireCheckoutOperationLease 0 lease_token 1 ''restore'' None Map.empty)"

theorem reservation_persists_witness:
  "\<exists>k. lock_run Boot (lock_run (Release 1 None) (lock_run (Acquire 9 15 1 (Inl ''eve'') ''admin'' True) leased)) 1 = Some k \<and>
    lk_op k = Some lease_token"
proof -
  let ?A = "- {Settle now 1 lease_token | now. True}"
  have r: "lock_reach ?A leased (lock_run Boot (lock_run (Release 1 None) (lock_run (Acquire 9 15 1 (Inl ''eve'') ''admin'' True) leased)))"
    by (intro lock_reach.step lock_reach.start) simp_all
  obtain k where "leased 1 = Some k" "lk_op k = Some lease_token"
    by (simp add: leased_def acquireCheckoutOperationLease_def MAX_SAFE_def LEASE_KINDS_def Let_def lockHolder_def)
  from reservation_persists [OF r this] show ?thesis by blast
qed

text \<open>
  C36: the rows stay well-formed from the empty table on, whatever operations run: every row has a holder, a user and a
  cycle never hold together, a reservation has its state and an allowed kind, and it shares its row with a cycle only
  for task continuity.
\<close>

theorem lock_rows_wellformed:
  assumes "lock_reach UNIV Map.empty d" and "d pid = Some k"
  shows "lockHolder (Some k) \<noteq> None \<and> (lk_user k = None \<or> lk_cycle k = None) \<and>
    (lk_op k = None \<longleftrightarrow> lk_op_state k = None) \<and> (lk_op k = None \<longleftrightarrow> lk_op_kind k = None) \<and>
    (lk_op k \<noteq> None \<longrightarrow> lk_user k = None \<and> (\<exists>kind\<in>set LEASE_KINDS. lk_op_kind k = Some kind) \<and>
      (lk_cycle k \<noteq> None \<longrightarrow> lk_op_kind k = Some ''task-continuity''))"
proof -
  have "locks_ok d" by (rule lock_reach_inv [OF assms(1)]) (simp_all add: locks_ok_def ok_step [unfolded locks_ok_def])
  from locks_okD [OF this assms(2)] show ?thesis by (auto simp: lock_row_ok_def)
qed

theorem lock_rows_wellformed_witness:
  "\<exists>k. lock_run (Acquire 0 15 1 (Inl ''ann'') ''editor'' False) Map.empty 1 = Some k \<and> lockHolder (Some k) \<noteq> None \<and> lk_op_state k = None"
proof -
  have r: "lock_reach UNIV Map.empty (lock_run (Acquire 0 15 1 (Inl ''ann'') ''editor'' False) Map.empty)"
    by (intro lock_reach.step lock_reach.start) simp
  obtain k where k: "lock_run (Acquire 0 15 1 (Inl ''ann'') ''editor'' False) Map.empty 1 = Some k" "lk_op k = None"
    by (simp add: acquireLock_def mayAcquire_def verdict_def requester_of_def is_user_def lockHolder_def Let_def)
  from lock_rows_wellformed [OF r k(1)] k show ?thesis by blast
qed

text \<open>
  Without force, a human or cycle gets the lock exactly when no operation holds a reservation, the requester is
  not a viewer, and the lock is free, already the requester's, or idle past its time; with the configured idle time the
  last write of an ousted holder is at least a minute old. A refusal changes nothing, a success makes the requester the
  holder and leaves the other projects alone.
\<close>

theorem acquire_exact:
  assumes "idle = resolveIdleMinutes raw"
  shows "case acquireLock now idle pid (requester_of q) role False db of
      (Refused m r c h, d) \<Rightarrow> d = db \<and> ((\<exists>k. db pid = Some k \<and> lk_op k \<noteq> None) \<or> (\<exists>u. q = Inl u \<and> role = ''viewer'') \<or>
        (lockHolder (db pid) \<notin> {None, Some (requester_of q)} \<and> \<not> isLockExpired (db pid) now idle))
    | (Acquired m r, d) \<Rightarrow> d = db(pid \<mapsto> r) \<and> lockHolder (Some r) = Some (requester_of q) \<and>
        \<not> (\<exists>k. db pid = Some k \<and> lk_op k \<noteq> None) \<and> \<not> (\<exists>u. q = Inl u \<and> role = ''viewer'') \<and>
        (lockHolder (db pid) \<in> {None, Some (requester_of q)} \<or>
          (\<exists>k w. db pid = Some k \<and> lk_last_write k = Some w \<and> 60000 \<le> now - w))"
proof -
  have i: "1 \<le> idle" by (auto simp: assms resolveIdleMinutes_def DEFAULT_LOCK_IDLE_MINUTES_def split: option.split)
  have old: "\<exists>k w. db pid = Some k \<and> lk_last_write k = Some w \<and> 60000 \<le> now - w" if "isLockExpired (db pid) now idle"
  proof -
    from that obtain k w where k: "db pid = Some k" "lk_last_write k = Some w" "max 0 idle * 60000 - of_int (now - w) \<le> (0 :: rat)"
      by (auto simp: isLockExpired_def timeRemainingMs_def msSinceWrite_def split: option.splits if_splits)
    with i have "of_int 60000 \<le> (of_int (now - w) :: rat)" by simp
    then have "60000 \<le> now - w" by (simp only: of_int_le_iff)
    with k show ?thesis by blast
  qed
  show ?thesis
    using old by (cases q; cases "db pid")
      (auto simp: acquireLock_def mayAcquire_def verdict_def requester_of_def is_user_def Let_def lockHolder_def split: option.split)
qed

theorem acquire_exact_witness:
  "\<exists>r. acquireLock 5 (resolveIdleMinutes None) 1 (requester_of (Inl ''ann'')) ''editor'' False Map.empty = (Acquired ''acquired'' r, [1 \<mapsto> r]) \<and>
    lockHolder (Some r) = Some (User ''ann'')"
proof -
  obtain r d where "acquireLock 5 (resolveIdleMinutes None) 1 (requester_of (Inl ''ann'')) ''editor'' False Map.empty = (Acquired ''acquired'' r, d)"
    by (simp add: acquireLock_def mayAcquire_def verdict_def requester_of_def is_user_def lockHolder_def Let_def)
  with acquire_exact [OF refl, where now = 5 and raw = None and pid = 1 and q = "Inl ''ann''" and role = "''editor''" and db = Map.empty]
  show ?thesis by (simp add: requester_of_def)
qed



end
