(* ===== verification/Snap_Retention.thy ===== *)
theory Snap_Retention
  imports PP_Time
begin

text \<open>
  \<open>admin/backend/src/lib/snapshot-retention.js\<close>: which snapshots of a guest are too many, and the loop that deletes
  them one at a time and reads the inventory back after each. The host executor and the provider of the limits are
  arguments: they act on and read a state of their own. The event monitor (\<open>startSnapshotRetention\<close>) is timers and
  sockets around the same plan and is not modelled.
\<close>

section \<open>Times\<close>

definition digits_of :: "nat \<Rightarrow> string \<Rightarrow> bool" where
  "digits_of n s \<longleftrightarrow> length s = n \<and> all_digits s"

definition num :: "string \<Rightarrow> int" where
  "num s = int (read_nat s)"

text \<open>
  The pieces of \<open>/^\d{4}-\d\d-\d\dT\d\d:\d\d:\d\d(?:\.\d{1,9})?(?:Z|[+-]\d\d:\d\d)$/\<close>: date and time, fraction, and
  the minutes east of Greenwich with whether they are in range.
\<close>

definition zone_of :: "string \<Rightarrow> (int \<times> bool) option" where
  "zone_of z =
     (if z = ''Z'' then Some (0, True)
      else if length z = 6 \<and> (hd z = CHR ''+'' \<or> hd z = CHR ''-'') \<and> digits_of 2 (take 2 (drop 1 z)) \<and> z ! 3 = CHR '':'' \<and>
        digits_of 2 (drop 4 z)
      then (let h = num (take 2 (drop 1 z)); m = num (drop 4 z)
            in Some ((if hd z = CHR ''-'' then - (h * 60 + m) else h * 60 + m), h \<le> 23 \<and> m \<le> 59))
      else None)"

definition stamp_parts :: "string \<Rightarrow> (string \<times> string \<times> (int \<times> bool)) option" where
  "stamp_parts s =
     (let d = take 19 s; r = drop 19 s;
          f = (if prefix ''.'' r then takeWhile is_digit (tl r) else []);
          z = (if prefix ''.'' r then dropWhile is_digit (tl r) else r)
      in if length d = 19 \<and> digits_of 4 (take 4 d) \<and> d ! 4 = CHR ''-'' \<and> digits_of 2 (take 2 (drop 5 d)) \<and> d ! 7 = CHR ''-'' \<and>
           digits_of 2 (take 2 (drop 8 d)) \<and> d ! 10 = CHR ''T'' \<and> digits_of 2 (take 2 (drop 11 d)) \<and> d ! 13 = CHR '':'' \<and>
           digits_of 2 (take 2 (drop 14 d)) \<and> d ! 16 = CHR '':'' \<and> digits_of 2 (drop 17 d) \<and>
           (prefix ''.'' r \<longrightarrow> 1 \<le> length f \<and> length f \<le> 9)
         then map_option (\<lambda>o'. (d, f, o')) (zone_of z) else None)"

text \<open>
  \<open>Date.parse\<close> on such a text: fields out of range give NaN, a day past the end of its month runs on, and the fraction
  counts to the millisecond.
\<close>

definition stamp_ms :: "string \<Rightarrow> string \<Rightarrow> int \<times> bool \<Rightarrow> int option" where
  "stamp_ms d f zo =
     (let y = num (take 4 d); mo = num (take 2 (drop 5 d)); day = num (take 2 (drop 8 d)); h = num (take 2 (drop 11 d));
          mi = num (take 2 (drop 14 d)); s = num (drop 17 d); ms = num (take 3 (f @ ''000''))
      in if 1 \<le> mo \<and> mo \<le> 12 \<and> 1 \<le> day \<and> day \<le> 31 \<and> mi \<le> 59 \<and> s \<le> 59 \<and>
           (h \<le> 23 \<or> h = 24 \<and> mi = 0 \<and> s = 0 \<and> ms = 0) \<and> snd zo
         then Some ((((days_from_civil y mo 1 + day - 1) * 24 + h) * 60 + mi - fst zo) * 60000 + s * 1000 + ms) else None)"

datatype retention_error =
    Keep_invalid | Inventory_unavailable | Name_invalid | Time_missing | Time_invalid | Boundary_tie
  | Host_threw string | Json_syntax | Type_error_thrown | List_failed | List_not_array | Created_not_verified
  | Created_outside | Prune_failed string | Not_verified_absent string | Kept_changing

definition creationTime :: "jval option \<Rightarrow> retention_error + int" where
  "creationTime v =
     (case v of
        Some (JStr s) \<Rightarrow>
          (case stamp_parts s of
             None \<Rightarrow> Inl Time_missing
           | Some (d, f, zo) \<Rightarrow>
               (case stamp_ms d f zo of
                  None \<Rightarrow> Inl Time_invalid
                | Some ms \<Rightarrow> Inr (ms * 1000000 + num (take 6 (drop 3 (f @ ''000000000''))))))
      | _ \<Rightarrow> Inl Time_missing)"

section \<open>The plan\<close>

text \<open>\<open>/^[A-Za-z0-9][A-Za-z0-9_.-]{0,62}$/\<close>\<close>

definition SNAPSHOT_NAME_RE :: "string \<Rightarrow> bool" where
  "SNAPSHOT_NAME_RE s \<longleftrightarrow> s \<noteq> [] \<and> length s \<le> 63 \<and> is_alnum (hd s) \<and> list_all (\<lambda>c. is_alnum c \<or> c \<in> set ''_.-'') s"

record timed =
  tm_snapshot :: jval
  tm_name :: string
  tm_time :: int

fun timed_all :: "jval option list \<Rightarrow> jval list \<Rightarrow> retention_error + timed list" where
  "timed_all seen [] = Inr []"
| "timed_all seen (v # vs) =
     (let n = jget (Some v) ''name''
      in if \<not> js_truthy (Some v) \<or> \<not> SNAPSHOT_NAME_RE (js_String_opt n) \<or> n \<in> set seen then Inl Name_invalid
         else bindR (creationTime (jget (Some v) ''created_at'')) (\<lambda>t.
           bindR (timed_all (n # seen) vs) (\<lambda>ts.
           Inr (\<lparr>tm_snapshot = v, tm_name = js_String_opt n, tm_time = t\<rparr> # ts))))"

text \<open>The order of the comparator; \<open>le\<close> is \<open>localeCompare\<close>.\<close>

definition older :: "(string \<Rightarrow> string \<Rightarrow> bool) \<Rightarrow> timed \<Rightarrow> timed \<Rightarrow> bool" where
  "older le a b \<longleftrightarrow> tm_time a < tm_time b \<or> tm_time a = tm_time b \<and> le (tm_name a) (tm_name b)"

definition snapshotRetentionPlan :: "(string \<Rightarrow> string \<Rightarrow> bool) \<Rightarrow> jval option \<Rightarrow> jval option \<Rightarrow> retention_error + jval list" where
  "snapshotRetentionPlan le inst keep =
     (case keep of
        Some (JNum k) \<Rightarrow>
          if k < 1 \<or> 1000 < k then Inl Keep_invalid
          else if \<not> js_truthy inst then Inl Inventory_unavailable
          else (case jget inst ''snapshots'' of
             Some (JArr vs) \<Rightarrow>
               bindR (timed_all [] vs) (\<lambda>ts.
               let snapshots = sort_by (older le) ts; excess = length snapshots - nat k
               in if 0 < excess \<and> tm_time (snapshots ! (excess - 1)) = tm_time (snapshots ! excess) then Inl Boundary_tie
                  else Inr (map tm_snapshot (take excess snapshots)))
           | _ \<Rightarrow> Inl Inventory_unavailable)
      | _ \<Rightarrow> Inl Keep_invalid)"

section \<open>Limits and inventory\<close>

text \<open>What the provider answers, None when it throws; arrays and other values count as no limits.\<close>

definition readLimits :: "jval option \<Rightarrow> jval \<times> bool" where
  "readLimits v = (case v of Some (JObj kvs) \<Rightarrow> (JObj kvs, False) | _ \<Rightarrow> (JObj [], True))"

definition has_own :: "jval \<Rightarrow> string \<Rightarrow> bool" where
  "has_own v k \<longleftrightarrow> jget (Some v) k \<noteq> None"

type_synonym 's host = "string list \<Rightarrow> 's \<Rightarrow> (string + int \<times> string) \<times> 's"

fun find_instance :: "string \<Rightarrow> jval list \<Rightarrow> retention_error + jval option" where
  "find_instance name [] = Inr None"
| "find_instance name (v # vs) =
     (if v = JNull then Inl Type_error_thrown
      else if jget (Some v) ''name'' = Some (JStr name) then Inr (Some v) else find_instance name vs)"

definition parse_instances :: "string \<Rightarrow> string \<Rightarrow> retention_error + jval option" where
  "parse_instances name out =
     (case JSON_parse out of
        None \<Rightarrow> Inl Json_syntax
      | Some (JArr vs) \<Rightarrow> find_instance name vs
      | Some _ \<Rightarrow> Inl List_not_array)"

definition readRetentionInstance :: "'s host \<Rightarrow> string \<Rightarrow> 's \<Rightarrow> (retention_error + jval option) \<times> 's" where
  "readRetentionInstance host name s =
     (case host [''incus'', ''list'', name, ''--format'', ''json''] s of
        (Inl m, s') \<Rightarrow> (Inl (Host_threw m), s')
      | (Inr (code, out), s') \<Rightarrow> (if code \<noteq> 0 then Inl List_failed else parse_instances name out, s'))"

text \<open>\<open>snapshots.some(snapshot => snapshot.name === n)\<close>, on the array and on the value.\<close>

fun some_named :: "string \<Rightarrow> jval list \<Rightarrow> retention_error + bool" where
  "some_named n [] = Inr False"
| "some_named n (v # vs) =
     (if v = JNull then Inl Type_error_thrown
      else if jget (Some v) ''name'' = Some (JStr n) then Inr True else some_named n vs)"

definition has_snapshot :: "jval option \<Rightarrow> string \<Rightarrow> retention_error + bool" where
  "has_snapshot snapshots n = (case snapshots of Some (JArr vs) \<Rightarrow> some_named n vs | _ \<Rightarrow> Inl Type_error_thrown)"

definition has_snapshot_opt :: "jval option \<Rightarrow> string \<Rightarrow> retention_error + bool" where
  "has_snapshot_opt inst n =
     (let snapshots = jget inst ''snapshots''
      in if nullish inst \<or> nullish snapshots then Inr False else has_snapshot snapshots n)"

section \<open>Enforcement\<close>

datatype retention_result = Skipped "string list" bool | Kept int "string list" | Failed retention_error "string list"

text \<open>One round, up to the deletion: what ends the loop, or the name of the snapshot to delete.\<close>

definition next_prune ::
  "(string \<Rightarrow> string \<Rightarrow> bool) \<Rightarrow> string \<Rightarrow> string option \<Rightarrow> jval \<Rightarrow> string list \<Rightarrow> jval option \<Rightarrow> retention_result + string" where
  "next_prune le name created limits deleted inst =
     (case (case created of None \<Rightarrow> Inr True | Some c \<Rightarrow> has_snapshot_opt inst c) of
        Inl e \<Rightarrow> Inl (Failed e deleted)
      | Inr ok \<Rightarrow>
          if \<not> ok then Inl (Failed Created_not_verified deleted)
          else if \<not> has_own limits name then Inl (Skipped deleted False)
          else (case snapshotRetentionPlan le inst (jget (Some limits) name) of
             Inl e \<Rightarrow> Inl (Failed e deleted)
           | Inr [] \<Rightarrow> Inl (Kept (case jget (Some limits) name of Some (JNum k) \<Rightarrow> k | _ \<Rightarrow> 0) deleted)
           | Inr (v # _) \<Rightarrow>
               let n = js_String_opt (jget (Some v) ''name'')
               in if Some n = created then Inl (Failed Created_outside deleted) else Inr n))"

text \<open>One deletion, read back as gone.\<close>

definition delete_snapshot :: "'s host \<Rightarrow> string \<Rightarrow> string \<Rightarrow> 's \<Rightarrow> (retention_error + unit) \<times> 's" where
  "delete_snapshot host name n s =
     (case host [''incus'', ''snapshot'', ''delete'', name, n] s of
        (Inl m, s2) \<Rightarrow> (Inl (Host_threw m), s2)
      | (Inr (code, out), s2) \<Rightarrow>
          if code \<noteq> 0 then (Inl (Prune_failed n), s2)
          else (case readRetentionInstance host name s2 of
             (Inl e, s3) \<Rightarrow> (Inl e, s3)
           | (Inr after, s3) \<Rightarrow>
               (bindR (if js_truthy after then has_snapshot (jget after ''snapshots'') n else Inr True)
                  (\<lambda>there. if there then Inl (Not_verified_absent n) else Inr ()), s3)))"

text \<open>The rounds of the loop, at most 1000 as in the code.\<close>

fun prune_rounds ::
  "nat \<Rightarrow> (string \<Rightarrow> string \<Rightarrow> bool) \<Rightarrow> 's host \<Rightarrow> ('s \<Rightarrow> jval option) \<Rightarrow> string \<Rightarrow> string option \<Rightarrow> string list \<Rightarrow> 's \<Rightarrow>
    retention_result \<times> 's" where
  "prune_rounds 0 le host limits name created deleted s = (Failed Kept_changing deleted, s)"
| "prune_rounds (Suc r) le host limits name created deleted s =
     (case readRetentionInstance host name s of
        (Inl e, s1) \<Rightarrow> (Failed e deleted, s1)
      | (Inr inst, s1) \<Rightarrow>
          (case next_prune le name created (fst (readLimits (limits s1))) deleted inst of
             Inl res \<Rightarrow> (res, s1)
           | Inr n \<Rightarrow>
               (case delete_snapshot host name n s1 of
                  (Inl e, s2) \<Rightarrow> (Failed e deleted, s2)
                | (Inr u, s2) \<Rightarrow> prune_rounds r le host limits name created (deleted @ [n]) s2)))"

definition enforceSnapshotRetention ::
  "(string \<Rightarrow> string \<Rightarrow> bool) \<Rightarrow> 's host \<Rightarrow> ('s \<Rightarrow> jval option) \<Rightarrow> string \<Rightarrow> string option \<Rightarrow> 's \<Rightarrow> retention_result \<times> 's" where
  "enforceSnapshotRetention le host limits name created s =
     (let (ls, unavailable) = readLimits (limits s)
      in if \<not> has_own ls name then (Skipped [] unavailable, s)
         else prune_rounds 1000 le host limits name created [] s)"

end
