(* ===== verification/Snap_Safety.thy ===== *)
theory Snap_Safety
  imports Snap_Retention PP_JsonText
begin

text \<open>
  What snapshot retention guarantees: the plan is the excess of oldest snapshots and nothing else, each strictly older
  than every snapshot that stays; the loop issues no other command than listing the guest and deleting planned
  snapshots, never the snapshot it was started for, and reports as deleted exactly what it deleted.
\<close>

section \<open>The order by time\<close>

lemma insert_older: "sorted (map tm_time ts) \<Longrightarrow> sorted (map tm_time (insert_by (older le) x ts))"
  by (induction ts) (auto simp: older_def set_insert_by)

lemma sort_older: "sorted (map tm_time (sort_by (older le) ts))"
  by (induction ts) (simp_all add: insert_older)

lemma timed_all_Inr:
  "timed_all seen vs = Inr ts \<Longrightarrow> map tm_snapshot ts = vs \<and>
    (\<forall>t\<in>set ts. creationTime (jget (Some (tm_snapshot t)) ''created_at'') = Inr (tm_time t))"
  by (induction seen vs arbitrary: ts rule: timed_all.induct) (auto simp: Let_def bindR_Inr_iff split: if_splits)

lemma timed_all_name: "timed_all seen vs = Inr ts \<Longrightarrow> t \<in> set ts \<Longrightarrow> tm_name t = js_String_opt (jget (Some (tm_snapshot t)) ''name'')"
  by (induction seen vs arbitrary: ts rule: timed_all.induct) (auto simp: Let_def bindR_Inr_iff split: if_splits)

text \<open>Two snapshots of the inventory in the order of their creation, and where the times are equal in the order of their names.\<close>

definition created_before :: "jval \<Rightarrow> jval \<Rightarrow> bool" where
  "created_before a b \<longleftrightarrow> (\<exists>t t'. creationTime (jget (Some a) ''created_at'') = Inr t \<and>
     creationTime (jget (Some b) ''created_at'') = Inr t' \<and> t \<le> t')"

definition tied_by_name :: "(string \<Rightarrow> string \<Rightarrow> bool) \<Rightarrow> jval \<Rightarrow> jval \<Rightarrow> bool" where
  "tied_by_name le a b \<longleftrightarrow> (creationTime (jget (Some a) ''created_at'') = creationTime (jget (Some b) ''created_at'') \<longrightarrow>
     le (js_String_opt (jget (Some a) ''name'')) (js_String_opt (jget (Some b) ''name'')))"

lemma sort_by_name:
  assumes "\<And>a b. le a b \<or> le b a" and "\<And>a b c. le a b \<Longrightarrow> le b c \<Longrightarrow> le a c"
  shows "sorted_wrt (older le) (sort_by (older le) ts)"
proof (rule sorted_wrt_sort_by)
  show "older le a b \<or> older le b a" for a b using assms(1) [of "tm_name a" "tm_name b"] by (auto simp: older_def)
  show "older le a c" if "older le a b" "older le b c" for a b c
    using that assms(2) [of "tm_name a" "tm_name b" "tm_name c"] by (auto simp: older_def)
qed

lemma plan_in_order:
  assumes "timed_all [] vs = Inr ts"
  shows "sorted_wrt created_before (map tm_snapshot (take n (sort_by (older le) ts)))"
    and "(\<And>a b. le a b \<or> le b a) \<Longrightarrow> (\<And>a b c. le a b \<Longrightarrow> le b c \<Longrightarrow> le a c) \<Longrightarrow>
      sorted_wrt (tied_by_name le) (map tm_snapshot (take n (sort_by (older le) ts)))"
proof -
  let ?xs = "sort_by (older le) ts"
  have mem: "t \<in> set ts" if "t \<in> set (take n ?xs)" for t using in_set_takeD [OF that] by simp
  have time: "creationTime (jget (Some (tm_snapshot t)) ''created_at'') = Inr (tm_time t)" if "t \<in> set ts" for t
    using timed_all_Inr [OF assms] that by blast
  have "sorted_wrt (\<lambda>a b. tm_time a \<le> tm_time b) (take n ?xs)" using sort_older [of le ts] by (simp add: sorted_wrt_map sorted_wrt_take)
  then show "sorted_wrt created_before (map tm_snapshot (take n ?xs))"
    unfolding sorted_wrt_map by (rule sorted_wrt_mono_rel [rotated]) (simp add: created_before_def time mem)
  assume "\<And>a b. le a b \<or> le b a" and "\<And>a b c. le a b \<Longrightarrow> le b c \<Longrightarrow> le a c"
  then have "sorted_wrt (older le) (take n ?xs)" by (intro sorted_wrt_take sort_by_name) blast+
  then show "sorted_wrt (tied_by_name le) (map tm_snapshot (take n ?xs))"
    unfolding sorted_wrt_map
    by (rule sorted_wrt_mono_rel [rotated]) (auto simp: tied_by_name_def older_def time mem timed_all_name [OF assms mem, symmetric])
qed

lemma plan_cases:
  assumes "snapshotRetentionPlan le inst (Some (JNum k)) = Inr del"
  obtains vs ts where "jget inst ''snapshots'' = Some (JArr vs)" "timed_all [] vs = Inr ts" "1 \<le> k"
    "del = map tm_snapshot (take (length vs - nat k) (sort_by (older le) ts))"
    "0 < length vs - nat k \<longrightarrow> tm_time (sort_by (older le) ts ! (length vs - nat k - 1)) \<noteq> tm_time (sort_by (older le) ts ! (length vs - nat k))"
proof -
  from assms obtain vs ts where "jget inst ''snapshots'' = Some (JArr vs)" "timed_all [] vs = Inr ts" "1 \<le> k"
      "del = map tm_snapshot (take (length ts - nat k) (sort_by (older le) ts))"
      "0 < length ts - nat k \<longrightarrow> tm_time (sort_by (older le) ts ! (length ts - nat k - 1)) \<noteq> tm_time (sort_by (older le) ts ! (length ts - nat k))"
    by (auto simp: snapshotRetentionPlan_def Let_def bindR_Inr_iff split: if_splits option.splits jval.splits)
  moreover from this(2) have "length ts = length vs" using timed_all_Inr by (metis length_map)
  ultimately show ?thesis using that by simp
qed

text \<open>Around a strict step of a sorted list, everything before is smaller than everything behind.\<close>

lemma sorted_gap:
  fixes xs :: "int list"
  assumes "sorted xs" and "0 < n" and "n < length xs" and "xs ! (n - 1) \<noteq> xs ! n"
    and "a \<in> set (take n xs)" and "b \<in> set (drop n xs)"
  shows "a < b"
proof -
  obtain i where i: "i < n" "a = xs ! i" using assms(3,5) by (auto simp: in_set_conv_nth)
  obtain j where "j < length (drop n xs)" "drop n xs ! j = b" using assms(6) unfolding in_set_conv_nth by blast
  then have j: "n + j < length xs" "b = xs ! (n + j)" using assms(3) by auto
  have "xs ! i \<le> xs ! (n - 1)" "xs ! (n - 1) \<le> xs ! n" "xs ! n \<le> xs ! (n + j)"
    using assms(1-3) i j by (auto intro!: sorted_nth_mono)
  with assms(4) i j show ?thesis by simp
qed

section \<open>The commands of the loop\<close>

definition list_cmd :: "string \<Rightarrow> string list" where
  "list_cmd name = [''incus'', ''list'', name, ''--format'', ''json'']"

definition delete_cmd :: "string \<Rightarrow> string \<Rightarrow> string list" where
  "delete_cmd name n = [''incus'', ''snapshot'', ''delete'', name, n]"

lemma delete_not_list [simp]: "delete_cmd name n \<noteq> list_cmd m"
  by (simp add: delete_cmd_def list_cmd_def)

text \<open>A host that also writes down what it was asked.\<close>

definition logged :: "'s host \<Rightarrow> ('s \<times> string list list) host" where
  "logged host c sl = (let (r, s') = host c (fst sl) in (r, (s', snd sl @ [c])))"

lemma read_logged:
  "readRetentionInstance (logged host) name (s, l) =
    (let (r, s') = readRetentionInstance host name s in (r, (s', l @ [list_cmd name])))"
  by (simp add: readRetentionInstance_def logged_def list_cmd_def split: prod.split sum.split)

text \<open>What a run from \<open>deleted\<close> deletes, and how it ends.\<close>

definition honest :: "string \<Rightarrow> string option \<Rightarrow> string list \<Rightarrow> retention_result \<Rightarrow> string list list \<Rightarrow> bool" where
  "honest name created deleted res new \<longleftrightarrow>
     (\<exists>ns. filter (\<lambda>c. c \<noteq> list_cmd name) new = map (delete_cmd name) ns \<and> (\<forall>n\<in>set ns. Some n \<noteq> created) \<and>
       (case res of Skipped d _ \<Rightarrow> d = deleted @ ns | Kept k d \<Rightarrow> d = deleted @ ns
        | Failed e d \<Rightarrow> d = deleted @ ns \<or> (\<exists>n. d @ [n] = deleted @ ns)))"

lemma honest_read: "honest name created deleted res (list_cmd name # new) = honest name created deleted res new"
  by (simp add: honest_def)

lemma honest_stop: "(case res of Skipped d _ \<Rightarrow> d | Kept k d \<Rightarrow> d | Failed e d \<Rightarrow> d) = deleted \<Longrightarrow> honest name created deleted res []"
  unfolding honest_def by (intro exI [of _ "[]"]) (cases res; simp)

lemma honest_failed: "Some n \<noteq> created \<Longrightarrow> honest name created deleted (Failed e deleted) [delete_cmd name n]"
  unfolding honest_def by (intro exI [of _ "[n]"]) simp

lemma honest_delete:
  "Some n \<noteq> created \<Longrightarrow> honest name created (deleted @ [n]) res new \<Longrightarrow> honest name created deleted res (delete_cmd name n # new)"
  unfolding honest_def by (elim exE) (rule_tac x = "n # ns" in exI, auto split: retention_result.splits)

lemma next_prune_created: "next_prune le name created limits deleted inst = Inr n \<Longrightarrow> Some n \<noteq> created"
  by (auto simp: next_prune_def Let_def split: if_splits option.splits sum.splits list.splits)

lemma next_prune_deleted:
  "next_prune le name created limits deleted inst = Inl res \<Longrightarrow>
    (case res of Skipped d _ \<Rightarrow> d | Kept k d \<Rightarrow> d | Failed e d \<Rightarrow> d) = deleted"
  by (auto simp: next_prune_def Let_def split: if_splits option.splits sum.splits list.splits)

lemma next_prune_kept:
  assumes "next_prune le name created limits deleted inst = Inl (Kept k d)"
  shows "\<exists>vs. jget inst ''snapshots'' = Some (JArr vs) \<and> length vs \<le> nat k \<and> 1 \<le> k \<and>
    (\<forall>c. created = Some c \<longrightarrow> has_snapshot_opt inst c = Inr True)"
proof -
  have p: "snapshotRetentionPlan le inst (jget (Some limits) name) = Inr []"
    and k: "k = (case jget (Some limits) name of Some (JNum k) \<Rightarrow> k | _ \<Rightarrow> 0)"
    and c: "\<And>c. created = Some c \<Longrightarrow> has_snapshot_opt inst c = Inr True"
    using assms by (auto simp: next_prune_def Let_def split: if_splits option.splits sum.splits list.splits)
  from p obtain j where j: "jget (Some limits) name = Some (JNum j)"
    by (auto simp: snapshotRetentionPlan_def split: option.splits jval.splits)
  with p have "snapshotRetentionPlan le inst (Some (JNum j)) = Inr []" by simp
  then obtain vs ts where v: "jget inst ''snapshots'' = Some (JArr vs)" "timed_all [] vs = Inr ts" "1 \<le> j"
    "[] = map tm_snapshot (take (length vs - nat j) (sort_by (older le) ts))" by (rule plan_cases)
  have "length ts = length vs" using timed_all_Inr [OF v(2)] by (metis length_map)
  with v(4) have "length vs \<le> nat j" by (cases "vs = []") auto
  with v(1,3) c j k show ?thesis by simp
qed

lemma delete_logged:
  "delete_snapshot (logged host) name n (s, l) = (r, s', l') \<Longrightarrow>
    \<exists>new. l' = l @ delete_cmd name n # new \<and> filter (\<lambda>c. c \<noteq> list_cmd name) new = []"
  by (auto simp: delete_snapshot_def read_logged logged_def Let_def delete_cmd_def split: prod.splits sum.splits if_splits)

lemma rounds_honest:
  "prune_rounds r le (logged host) (\<lambda>sl. limits (fst sl)) name created deleted (s, l) = (res, s', l') \<Longrightarrow>
    \<exists>new. l' = l @ new \<and> honest name created deleted res new"
proof (induction r arbitrary: deleted s l)
  case 0
  then show ?case by (auto intro: honest_stop)
next
  case (Suc r)
  obtain i s1 where i: "readRetentionInstance host name s = (i, s1)" by fastforce
  define l1 where "l1 = l @ [list_cmd name]"
  show ?case
  proof (cases i)
    case (Inl e)
    with Suc.prems i have "res = Failed e deleted \<and> l' = l @ [list_cmd name]" by (simp add: read_logged)
    then show ?thesis by (simp add: honest_read honest_stop)
  next
    case inst: (Inr inst)
    let ?n = "next_prune le name created (fst (readLimits (limits s1))) deleted inst"
    show ?thesis
    proof (cases ?n)
      case (Inl x)
      with Suc.prems i inst have "res = x \<and> l' = l @ [list_cmd name]" by (simp add: read_logged)
      then show ?thesis using next_prune_deleted [OF Inl] by (simp add: honest_read honest_stop)
    next
      case n: (Inr n)
      note nc = next_prune_created [OF n]
      obtain d s2 l2 where d: "delete_snapshot (logged host) name n (s1, l1) = (d, s2, l2)" by (metis prod.exhaust)
      from delete_logged [OF d] obtain ls where ls: "l2 = l @ list_cmd name # delete_cmd name n # ls" "filter (\<lambda>c. c \<noteq> list_cmd name) ls = []"
        by (auto simp: l1_def)
      show ?thesis
      proof (cases d)
        case (Inl e)
        with Suc.prems i inst n d have "res = Failed e deleted" "l' = l2" by (simp_all add: read_logged l1_def)
        then show ?thesis using honest_failed [OF nc, of name deleted e] ls by (simp add: honest_def)
      next
        case (Inr u)
        with Suc.prems i inst n d
        have "prune_rounds r le (logged host) (\<lambda>sl. limits (fst sl)) name created (deleted @ [n]) (s2, l2) = (res, s', l')"
          by (simp add: read_logged l1_def)
        then obtain new where "l' = l2 @ new" "honest name created (deleted @ [n]) res new" using Suc.IH by blast
        then show ?thesis using honest_delete [OF nc, of name deleted res "ls @ new"] ls by (auto simp: honest_read honest_def)
      qed
    qed
  qed
qed

lemma rounds_kept:
  "prune_rounds r le host limits name created deleted s = (Kept k d, s') \<Longrightarrow>
    \<exists>s0 inst vs. readRetentionInstance host name s0 = (Inr inst, s') \<and> jget inst ''snapshots'' = Some (JArr vs) \<and>
      length vs \<le> nat k \<and> 1 \<le> k \<and> (\<forall>c. created = Some c \<longrightarrow> has_snapshot_opt inst c = Inr True)"
proof (induction r arbitrary: deleted s)
  case (Suc r)
  then show ?case
    by (auto split: prod.splits sum.splits dest!: next_prune_kept)
qed simp

section \<open>Properties\<close>

text \<open>
  C38: a retention plan is the excess of oldest snapshots: it splits the inventory into the planned ones and the newest
  \<open>keep\<close>, and every planned snapshot was created strictly before every snapshot that stays, to the nanosecond. The
  plan lists the oldest first, and those of the same time in the order of their names where the comparison of names is a total order (as
  \<open>localeCompare\<close> is). Where the creation times tie at the boundary there is no plan.
\<close>

theorem plan_exact:
  assumes "snapshotRetentionPlan le inst (Some (JNum k)) = Inr del"
  shows "\<exists>vs stay. jget inst ''snapshots'' = Some (JArr vs) \<and> mset vs = mset del + mset stay \<and>
    length stay = min (nat k) (length vs) \<and>
    (\<forall>d\<in>set del. \<forall>v\<in>set stay. \<exists>t t'. creationTime (jget (Some d) ''created_at'') = Inr t \<and>
      creationTime (jget (Some v) ''created_at'') = Inr t' \<and> t < t') \<and>
    sorted_wrt created_before del \<and>
    ((\<forall>a b. le a b \<or> le b a) \<and> (\<forall>a b c. le a b \<longrightarrow> le b c \<longrightarrow> le a c) \<longrightarrow> sorted_wrt (tied_by_name le) del)"
proof -
  obtain vs ts where p: "jget inst ''snapshots'' = Some (JArr vs)" "timed_all [] vs = Inr ts" "1 \<le> k"
    "del = map tm_snapshot (take (length vs - nat k) (sort_by (older le) ts))"
    "0 < length vs - nat k \<longrightarrow> tm_time (sort_by (older le) ts ! (length vs - nat k - 1)) \<noteq> tm_time (sort_by (older le) ts ! (length vs - nat k))"
    by (rule plan_cases [OF assms])
  define n where "n = length vs - nat k"
  define xs where "xs = sort_by (older le) ts"
  have ts: "map tm_snapshot ts = vs" "\<forall>t\<in>set ts. creationTime (jget (Some (tm_snapshot t)) ''created_at'') = Inr (tm_time t)"
    using timed_all_Inr [OF p(2)] by simp_all
  then have len: "length ts = length vs" by (metis length_map)
  let ?stay = "map tm_snapshot (drop n xs)"
  have "mset vs = image_mset tm_snapshot (mset xs)" by (simp add: xs_def flip: ts(1))
  also have "mset xs = mset (take n xs) + mset (drop n xs)" by (metis append_take_drop_id mset_append)
  also have "image_mset tm_snapshot \<dots> = mset del + mset ?stay" by (simp add: p(4) n_def xs_def)
  finally have split: "mset vs = mset del + mset ?stay" .
  have keep: "length ?stay = min (nat k) (length vs)" using len by (simp add: xs_def n_def)
  have sx: "set xs = set ts" by (simp add: xs_def)
  have lt: "tm_time a < tm_time b" if "a \<in> set (take n xs)" "b \<in> set (drop n xs)" for a b
  proof (rule sorted_gap [where n = n and xs = "map tm_time xs"])
    show "sorted (map tm_time xs)" unfolding xs_def by (rule sort_older)
    have l: "length xs = length vs" using len by (simp add: xs_def)
    show n: "0 < n" using that(1) by (cases n) auto
    then show m: "n < length (map tm_time xs)" using p(3) l by (simp add: n_def)
    show "map tm_time xs ! (n - 1) \<noteq> map tm_time xs ! n" using p(5) n m by (simp add: n_def xs_def)
  qed (use that in \<open>auto simp: take_map drop_map\<close>)
  have age: "\<forall>d\<in>set del. \<forall>v\<in>set ?stay. \<exists>t t'. creationTime (jget (Some d) ''created_at'') = Inr t \<and>
      creationTime (jget (Some v) ''created_at'') = Inr t' \<and> t < t'"
  proof (intro ballI)
    fix d v assume "d \<in> set del" "v \<in> set ?stay"
    then obtain a b where ab: "a \<in> set (take n xs)" "b \<in> set (drop n xs)" "d = tm_snapshot a" "v = tm_snapshot b"
      unfolding p(4) n_def xs_def by auto
    then have "a \<in> set ts" "b \<in> set ts" using sx by (auto dest: in_set_takeD in_set_dropD)
    with ts(2) ab lt [OF ab(1,2)] show "\<exists>t t'. creationTime (jget (Some d) ''created_at'') = Inr t \<and>
      creationTime (jget (Some v) ''created_at'') = Inr t' \<and> t < t'" by simp
  qed
  have order: "sorted_wrt created_before del"
    "(\<forall>a b. le a b \<or> le b a) \<and> (\<forall>a b c. le a b \<longrightarrow> le b c \<longrightarrow> le a c) \<longrightarrow> sorted_wrt (tied_by_name le) del"
    unfolding p(4) using plan_in_order [OF p(2)] by blast+
  from p(1) split keep age order show ?thesis by (intro exI [of _ vs] exI [of _ ?stay]) simp
qed

definition snap :: "string \<Rightarrow> string \<Rightarrow> jval" where
  "snap n t = JObj [(''name'', JStr n), (''created_at'', JStr t)]"

definition guest2 :: jval where
  "guest2 = JObj [(''name'', JStr ''app''), (''snapshots'', JArr [snap ''b'' ''2026-01-02T00:00:00Z'', snap ''a'' ''2026-01-01T00:00:00.5+01:00''])]"

lemma guest2_plan: "snapshotRetentionPlan (\<lambda>a b. True) (Some guest2) (Some (JNum 1)) = Inr [snap ''a'' ''2026-01-01T00:00:00.5+01:00'']"
  by code_simp

theorem plan_exact_witness:
  "\<exists>t t'. creationTime (Some (JStr ''2026-01-01T00:00:00.5+01:00'')) = Inr t \<and> creationTime (Some (JStr ''2026-01-02T00:00:00Z'')) = Inr t' \<and> t < t'"
proof -
  have s: "jget (Some guest2) ''snapshots'' = Some (JArr [snap ''b'' ''2026-01-02T00:00:00Z'', snap ''a'' ''2026-01-01T00:00:00.5+01:00''])"
    by code_simp
  from plan_exact [OF guest2_plan] s obtain stay where st: "{#snap ''b'' ''2026-01-02T00:00:00Z'', snap ''a'' ''2026-01-01T00:00:00.5+01:00''#} =
      {#snap ''a'' ''2026-01-01T00:00:00.5+01:00''#} + mset stay"
    "\<forall>v\<in>set stay. \<exists>t t'. creationTime (jget (Some (snap ''a'' ''2026-01-01T00:00:00.5+01:00'')) ''created_at'') = Inr t \<and>
      creationTime (jget (Some v) ''created_at'') = Inr t' \<and> t < t'"
    by auto
  from st(1) have "mset stay = {#snap ''b'' ''2026-01-02T00:00:00Z''#}" by (simp add: add_mset_commute)
  then have "snap ''b'' ''2026-01-02T00:00:00Z'' \<in> set stay" by (metis set_mset_mset multi_member_last)
  with st(2) show ?thesis by (fastforce simp: snap_def jget_def)
qed

text \<open>
  Enforcing the retention of a guest asks the host for nothing but the inventory of the guest and the deletion of
  its snapshots, never of the snapshot the run was started for; the deletions it reports are the deletions it asked for, the
  last of them possibly missing when the run failed on it. When it reports the guest as kept, the inventory it read last
  has no more than the allowed number of snapshots and still has the new one.
\<close>

theorem retention_honest:
  assumes "enforceSnapshotRetention le (logged host) (\<lambda>sl. limits (fst sl)) name created (s, []) = (res, s', log)"
  shows "\<exists>ns. filter (\<lambda>c. c \<noteq> list_cmd name) log = map (delete_cmd name) ns \<and> (\<forall>n\<in>set ns. Some n \<noteq> created) \<and>
    (case res of
       Skipped d _ \<Rightarrow> d = ns
     | Failed e d \<Rightarrow> d = ns \<or> (\<exists>n. d @ [n] = ns)
     | Kept k d \<Rightarrow> d = ns \<and> (\<exists>s0 inst vs. readRetentionInstance host name s0 = (Inr inst, s') \<and>
         jget inst ''snapshots'' = Some (JArr vs) \<and> length vs \<le> nat k \<and> 1 \<le> k \<and>
         (\<forall>c. created = Some c \<longrightarrow> has_snapshot_opt inst c = Inr True)))"
proof (cases "has_own (fst (readLimits (limits s))) name")
  case False
  with assms show ?thesis by (auto simp: enforceSnapshotRetention_def split: prod.splits)
next
  case True
  with assms have run: "prune_rounds 1000 le (logged host) (\<lambda>sl. limits (fst sl)) name created [] (s, []) = (res, s', log)"
    by (auto simp: enforceSnapshotRetention_def split: prod.splits)
  then have h: "honest name created [] res log" using rounds_honest by fastforce
  show ?thesis
  proof (cases res)
    case (Kept k d)
    from rounds_kept [OF run [unfolded Kept]] obtain sl inst vs where
      "readRetentionInstance (logged host) name sl = (Inr inst, s', log)" "jget inst ''snapshots'' = Some (JArr vs)"
      "length vs \<le> nat k" "1 \<le> k" "\<forall>c. created = Some c \<longrightarrow> has_snapshot_opt inst c = Inr True" by blast
    moreover from this(1) have "readRetentionInstance host name (fst sl) = (Inr inst, s')"
      by (cases sl) (auto simp: read_logged split: prod.splits)
    ultimately show ?thesis using h Kept by (auto simp: honest_def)
  qed (use h in \<open>auto simp: honest_def\<close>)
qed

text \<open>A host whose only guest is its state; a deletion leaves the guest with its newest snapshot.\<close>

definition guest1 :: jval where
  "guest1 = JObj [(''name'', JStr ''app''), (''snapshots'', JArr [snap ''b'' ''2026-01-02T00:00:00Z''])]"

definition one_guest :: "jval host" where
  "one_guest c g = (if c = list_cmd ''app'' then (Inr (0, JSON_stringify (JArr [g]) @ nl), g) else (Inr (0, []), guest1))"

lemma read_one_guest:
  assumes "exact g" and "g \<noteq> JNull" and "jget (Some g) ''name'' = Some (JStr ''app'')"
  shows "readRetentionInstance one_guest ''app'' g = (Inr (Some g), g)"
  using JSON_round_trip [of "JArr [g]"] assms by (simp add: readRetentionInstance_def one_guest_def list_cmd_def parse_instances_def)

theorem retention_honest_witness:
  "\<exists>s' log. enforceSnapshotRetention (\<lambda>a b. True) (logged one_guest) (\<lambda>sl. Some (JObj [(''app'', JNum 1)])) ''app'' (Some ''b'') (guest2, []) =
      (Kept 1 [''a''], s', log) \<and> filter (\<lambda>c. c \<noteq> list_cmd ''app'') log = [delete_cmd ''app'' ''a'']"
proof -
  let ?L = "JObj [(''app'', JNum 1)]" and ?enf = "enforceSnapshotRetention (\<lambda>a b. True) (logged one_guest) (\<lambda>sl. Some (JObj [(''app'', JNum 1)])) ''app'' (Some ''b'')"
  have g: "exact guest2" "guest2 \<noteq> JNull" "jget (Some guest2) ''name'' = Some (JStr ''app'')"
    "exact guest1" "guest1 \<noteq> JNull" "jget (Some guest1) ''name'' = Some (JStr ''app'')"
    by (simp_all add: guest2_def guest1_def snap_def jget_def)
  note r = read_one_guest [OF g(1-3)] read_one_guest [OF g(4-6)]
  have n: "next_prune (\<lambda>a b. True) ''app'' (Some ''b'') ?L [] (Some guest2) = Inr ''a''"
    "next_prune (\<lambda>a b. True) ''app'' (Some ''b'') ?L [''a''] (Some guest1) = Inl (Kept 1 [''a''])" by code_simp+
  have d: "delete_snapshot (logged one_guest) ''app'' ''a'' (guest2, l) = (Inr (), guest1, l @ [delete_cmd ''app'' ''a'', list_cmd ''app''])" for l
  proof -
    have "has_snapshot (jget (Some guest1) ''snapshots'') ''a'' = Inr False" "js_truthy (Some guest1)" by code_simp+
    moreover have "logged one_guest (delete_cmd ''app'' ''a'') (guest2, l) = (Inr (0, []), guest1, l @ [delete_cmd ''app'' ''a''])"
      by (simp add: logged_def one_guest_def)
    ultimately show ?thesis by (simp add: delete_snapshot_def read_logged r flip: delete_cmd_def)
  qed
  have p: "prune_rounds (Suc (Suc 998)) (\<lambda>a b. True) (logged one_guest) (\<lambda>sl. Some ?L) ''app'' (Some ''b'') [] (guest2, []) =
      (Kept 1 [''a''], guest1, [list_cmd ''app'', delete_cmd ''app'' ''a'', list_cmd ''app'', list_cmd ''app''])"
    by (simp only: prune_rounds.simps) (simp add: read_logged r n d readLimits_def)
  have "?enf (guest2, []) = prune_rounds 1000 (\<lambda>a b. True) (logged one_guest) (\<lambda>sl. Some ?L) ''app'' (Some ''b'') [] (guest2, [])"
    by (simp add: enforceSnapshotRetention_def readLimits_def has_own_def jget_def)
  also have "(1000::nat) = Suc (Suc 998)" by simp
  finally have run: "?enf (guest2, []) = (Kept 1 [''a''], guest1, [list_cmd ''app'', delete_cmd ''app'' ''a'', list_cmd ''app'', list_cmd ''app''])"
    using p by simp
  from retention_honest [where limits = "\<lambda>_. Some ?L" and host = one_guest, OF run] run show ?thesis by (auto simp: delete_cmd_def)
qed

end
