(* ===== verification/L4_Forward.thy ===== *)
theory L4_Forward
  imports PP_Time
begin

text \<open>
  Port forwards of a service: \<open>admin/backend/src/lib/shell-quote.js\<close>, \<open>lib/l4-reconciler.js\<close> and \<open>lib/l4-reserved-ports.js\<close>.
  The host executor is an argument: it takes a command line and a state of its own and answers the output, or the error with
  which the command failed. The default executor (\<open>exec\<close>, or \<open>nsenter\<close> from the container) is I/O. The rows are those of
  \<open>service_l4_forwards\<close>.
\<close>

section \<open>Quoting\<close>

definition squote :: char where "squote = CHR 0x27"

text \<open>The four characters that stand for a single quote: close, escaped quote, reopen.\<close>

definition quote_escape :: string where "quote_escape = [squote, CHR 0x5C, squote, squote]"

definition shellSingleQuote :: "string option \<Rightarrow> string" where
  "shellSingleQuote s = (case s of None \<Rightarrow> [squote, squote]
     | Some t \<Rightarrow> [squote] @ concat (map (\<lambda>c. if c = squote then quote_escape else [c]) t) @ [squote])"

section \<open>Rows and plans\<close>

record l4_row =
  lf_id :: string
  lf_service :: string
  lf_proto :: string
  lf_listen :: int
  lf_listen_end :: "int option"
  lf_connect :: int
  lf_connect_end :: "int option"
  lf_description :: "string option"
  lf_enabled :: int

definition range_end :: "int option \<Rightarrow> int \<Rightarrow> int option" where
  "range_end e s = (case e of Some x \<Rightarrow> if x \<noteq> 0 \<and> x \<noteq> s then Some x else None | None \<Rightarrow> None)"

definition port_part :: "int \<Rightarrow> int option \<Rightarrow> string" where
  "port_part s e = (case range_end e s of Some x \<Rightarrow> show_int s @ ''-'' @ show_int x | None \<Rightarrow> show_int s)"

definition renderIncusEndpoint :: "string \<Rightarrow> int \<Rightarrow> int option \<Rightarrow> string \<Rightarrow> string" where
  "renderIncusEndpoint proto s e address = proto @ '':'' @ address @ '':'' @ port_part s e"

record l4_plan =
  lp_incusName :: string
  lp_deviceName :: string
  lp_ruleId :: string
  lp_listen :: string
  lp_connect :: string
  lp_proto :: string
  lp_listenPort :: int
  lp_listenPortEnd :: "int option"
  lp_description :: "string option"

definition INSTANCE_PREFIX :: string where "INSTANCE_PREFIX = ''pp-''"

definition incus_name :: "string \<Rightarrow> string" where
  "incus_name lxcName = (if starts_with lxcName INSTANCE_PREFIX then lxcName else INSTANCE_PREFIX @ lxcName)"

definition planServiceL4Forward :: "l4_row \<Rightarrow> string \<Rightarrow> string \<Rightarrow> string + l4_plan" where
  "planServiceL4Forward r bridgeIp lxcName =
     (if bridgeIp = [] then Inl ''planServiceL4Forward: bridgeIp is required''
      else if lxcName = [] then Inl ''planServiceL4Forward: lxcName is required''
      else if lf_id r = [] then Inl ''planServiceL4Forward: forward.id is required''
      else Inr \<lparr>lp_incusName = incus_name lxcName, lp_deviceName = ''ppl4-'' @ lf_id r, lp_ruleId = ''service-l4-'' @ lf_id r,
        lp_listen = renderIncusEndpoint (lf_proto r) (lf_listen r) (lf_listen_end r) ''0.0.0.0'',
        lp_connect = renderIncusEndpoint (lf_proto r) (lf_connect r) (lf_connect_end r) bridgeIp,
        lp_proto = lf_proto r, lp_listenPort = lf_listen r, lp_listenPortEnd = lf_listen_end r, lp_description = lf_description r\<rparr>)"

section \<open>Running a plan\<close>

record exec_error =
  xe_stderr :: string
  xe_stdout :: string
  xe_message :: string

type_synonym 's exec = "string \<Rightarrow> 's \<Rightarrow> (exec_error + string) \<times> 's"

definition err_text :: "exec_error \<Rightarrow> string" where
  "err_text e = (if xe_stderr e \<noteq> [] then xe_stderr e else xe_message e)"

text \<open>Case-insensitive search for one of several texts.\<close>

definition mentions :: "string list \<Rightarrow> string \<Rightarrow> bool" where
  "mentions ps s \<longleftrightarrow> list_ex (\<lambda>p. contains (to_lower s) p) ps"

definition incus_add_command :: "l4_plan \<Rightarrow> string" where
  "incus_add_command p = join '' '' [''incus config device add'', lp_incusName p, lp_deviceName p, ''proxy'',
     ''listen='' @ lp_listen p, ''connect='' @ lp_connect p]"

definition cli_args :: "l4_plan \<Rightarrow> string option \<Rightarrow> string list" where
  "cli_args p serviceTag =
     [''firewall'', ''add-service-l4'', ''--id'', lp_ruleId p, ''--port'', show_int (lp_listenPort p), ''--proto'', lp_proto p,
      ''--reason'', (case lp_description p of Some (c # d) \<Rightarrow> c # d
        | _ \<Rightarrow> ''service-l4 '' @ lp_proto p @ ''/'' @ port_part (lp_listenPort p) (lp_listenPortEnd p))] @
     (case lp_listenPortEnd p of Some e \<Rightarrow> if e \<noteq> 0 then [''--port-end'', show_int e] else [] | None \<Rightarrow> []) @
     (case serviceTag of Some (c # t) \<Rightarrow> [''--service'', c # t] | _ \<Rightarrow> [])"

definition cli_command :: "string \<Rightarrow> string list \<Rightarrow> string" where
  "cli_command bin args = bin @ '' '' @ join '' '' (map (\<lambda>a. shellSingleQuote (Some a)) args)"

datatype piece_status = Applied | Present

definition applyServiceL4Plan ::
  "string \<Rightarrow> 's exec \<Rightarrow> l4_plan \<Rightarrow> string option \<Rightarrow> 's \<Rightarrow> (string + piece_status \<times> piece_status) \<times> 's" where
  "applyServiceL4Plan bin exec p serviceTag s =
     (let (r1, s1) = exec (incus_add_command p) s
      in case (case r1 of Inr out \<Rightarrow> Inr Applied
            | Inl e \<Rightarrow> if mentions [''already exists'', ''conflict''] (err_text e) then Inr Present
                       else Inl (''incus device add failed: '' @ trim (err_text e))) of
           Inl m \<Rightarrow> (Inl m, s1)
         | Inr incusStatus \<Rightarrow>
             (let (r2, s2) = exec (cli_command bin (''--json'' # cli_args p serviceTag)) s1
              in (case r2 of
                    Inr out \<Rightarrow> Inr (incusStatus, Applied)
                  | Inl e \<Rightarrow>
                      if mentions [''already exists''] (err_text e) \<or> mentions [''already exists''] (xe_stdout e)
                      then Inr (incusStatus, Present)
                      else Inl (''proxypilot firewall add-service-l4 failed: '' @
                        trim (if err_text e \<noteq> [] then err_text e else xe_stdout e)), s2)))"

definition remove_device_command :: "string \<Rightarrow> string \<Rightarrow> string" where
  "remove_device_command incusName deviceName = ''incus config device remove '' @ incusName @ '' '' @ deviceName"

definition remove_rule_command :: "string \<Rightarrow> string \<Rightarrow> string" where
  "remove_rule_command bin ruleId = bin @ '' --json firewall remove-service-l4 '' @ shellSingleQuote (Some ruleId)"

definition removeServiceL4Plan ::
  "string \<Rightarrow> 's exec \<Rightarrow> string \<Rightarrow> string \<Rightarrow> string \<Rightarrow> 's \<Rightarrow> (string + unit) \<times> 's" where
  "removeServiceL4Plan bin exec incusName deviceName ruleId s =
     (let (r1, s1) = exec (remove_device_command incusName deviceName) s;
          e1 = (case r1 of Inr out \<Rightarrow> []
            | Inl e \<Rightarrow> if mentions [''not found'', ''doesn'' @ [squote] @ ''t exist'', ''does not exist''] (err_text e) then []
                       else [''incus device remove: '' @ trim (err_text e)]);
          (r2, s2) = exec (remove_rule_command bin ruleId) s1;
          e2 = (case r2 of Inr out \<Rightarrow> []
            | Inl e \<Rightarrow> if \<not> mentions [''not found'', ''not_found''] (err_text e) \<and> \<not> mentions [''already_absent'', ''not found''] (xe_stdout e)
                       then [''proxypilot firewall remove-service-l4: '' @ trim (if err_text e \<noteq> [] then err_text e else xe_stdout e)]
                       else [])
      in (if e1 @ e2 \<noteq> [] then Inl (join ''; '' (e1 @ e2)) else Inr (), s2))"

section \<open>The live devices\<close>

record l4_device =
  dv_name :: string
  dv_type :: "string option"
  dv_listen :: "string option"
  dv_connect :: "string option"

definition key_char :: "char \<Rightarrow> bool" where
  "key_char c \<longleftrightarrow> is_alnum c \<or> c = CHR ''_'' \<or> c = CHR ''-''"

text \<open>\<open>/^([A-Za-z0-9_-][A-Za-z0-9_.\-]*):\s*$/\<close> and \<open>/^(\s+)([A-Za-z0-9_\-]+):\s*(.*)$/\<close>\<close>

definition match_top :: "string \<Rightarrow> string option" where
  "match_top raw =
     (let n = takeWhile (\<lambda>c. key_char c \<or> c = CHR ''.'') raw; r = drop (length n) raw
      in if n \<noteq> [] \<and> key_char (hd n) \<and> prefix '':'' r \<and> list_all is_ws (tl r) then Some n else None)"

definition match_prop :: "string \<Rightarrow> (string \<times> string) option" where
  "match_prop raw =
     (let w = takeWhile is_ws raw; b = dropWhile is_ws raw; k = takeWhile key_char b; r = drop (length k) b;
          v = dropWhile is_ws (tl r)
      in if w \<noteq> [] \<and> k \<noteq> [] \<and> prefix '':'' r \<and> CHR 0x0D \<notin> set v then Some (k, trim v) else None)"

definition set_prop :: "string \<Rightarrow> string \<Rightarrow> l4_device \<Rightarrow> l4_device" where
  "set_prop k v d =
     (if k = ''type'' then d\<lparr>dv_type := Some v\<rparr> else if k = ''listen'' then d\<lparr>dv_listen := Some v\<rparr>
      else if k = ''connect'' then d\<lparr>dv_connect := Some v\<rparr> else d)"

definition flush :: "l4_device option \<Rightarrow> l4_device list" where
  "flush cur = (case cur of None \<Rightarrow> [] | Some d \<Rightarrow> [d])"

fun device_lines :: "l4_device option \<Rightarrow> string list \<Rightarrow> l4_device list" where
  "device_lines cur [] = flush cur"
| "device_lines cur (raw # rest) =
     (if raw = [] \<or> starts_with raw ''#'' then device_lines cur rest
      else case match_top raw of
        Some n \<Rightarrow> flush cur @ device_lines (Some \<lparr>dv_name = n, dv_type = None, dv_listen = None, dv_connect = None\<rparr>) rest
      | None \<Rightarrow>
          (case (match_prop raw, cur) of
             (Some (k, v), Some d) \<Rightarrow> device_lines (Some (set_prop k v d)) rest
           | _ \<Rightarrow> device_lines cur rest))"

definition parseIncusDeviceShow :: "string \<Rightarrow> l4_device list" where
  "parseIncusDeviceShow text = filter (\<lambda>d. dv_type d = Some ''proxy'') (device_lines None (split_on newline text))"

definition listIncusDevices :: "'s exec \<Rightarrow> string \<Rightarrow> 's \<Rightarrow> (string + l4_device list) \<times> 's" where
  "listIncusDevices exec incusName s =
     (let (r, s1) = exec (''incus config device show '' @ shellSingleQuote (Some incusName)) s
      in (case r of Inr out \<Rightarrow> Inr (parseIncusDeviceShow out)
          | Inl e \<Rightarrow> if mentions [''not found'', ''doesn'' @ [squote] @ ''t exist'', ''does not exist''] (err_text e) then Inr []
                     else Inl (xe_message e), s1))"

end
