(* ===== verification/L4_Reserved.thy ===== *)
theory L4_Reserved
  imports L4_Forward
begin

text \<open>
  \<open>lib/l4-reserved-ports.js\<close>, the kernel's reserved ports of the forwarded UDP ranges, and the reconcile of
  \<open>lib/l4-reconciler.js\<close> that ends with it. The path of the drop-in is an argument (an environment variable may replace it).
\<close>

section \<open>The value\<close>

definition udp_ranges :: "l4_row list \<Rightarrow> (int \<times> int) list" where
  "udp_ranges rows = List.map_filter (\<lambda>r.
     if lf_enabled r = 0 \<or> lf_proto r \<noteq> ''udp'' then None
     else map_option (\<lambda>e. (lf_listen r, e)) (range_end (lf_listen_end r) (lf_listen r))) rows"

text \<open>The loop over the sorted ranges; the last merged range grows or a new one starts.\<close>

fun coalesce :: "(int \<times> int) list \<Rightarrow> (int \<times> int) list \<Rightarrow> (int \<times> int) list" where
  "coalesce merged [] = merged"
| "coalesce merged ((s, e) # rest) =
     (if merged = [] \<or> s > snd (last merged) + 1 then coalesce (merged @ [(s, e)]) rest
      else coalesce (butlast merged @ [(fst (last merged), max (snd (last merged)) e)]) rest)"

definition merged_ranges :: "l4_row list \<Rightarrow> (int \<times> int) list" where
  "merged_ranges rows = coalesce [] (sort_by (\<lambda>a b. fst a \<le> fst b) (udp_ranges rows))"

definition buildReservedPortsValue :: "l4_row list \<Rightarrow> string" where
  "buildReservedPortsValue rows = join '','' (map (\<lambda>(s, e). show_int s @ ''-'' @ show_int e) (merged_ranges rows))"

definition RESERVED_PORTS_HEADER :: string where
  "RESERVED_PORTS_HEADER = join nl
     [''# Managed by ProxyPilot. Do not edit.'', ''#'',
      ''# Reserves the listen ranges of every UDP L4 forward in'',
      ''# service_l4_forwards so the kernel refuses to assign ephemeral'',
      ''# ports inside them. Without this, an ephemeral allocation made'',
      ''# during early boot can collide with a port inside the range and'',
      ''# block Incus from binding the proxy device for the whole range '' @ emdash,
      ''# WebRTC media goes dark and only a manual re-reconcile recovers.'', '''']"

definition reservedPortsBody :: "string \<Rightarrow> string" where
  "reservedPortsBody value =
     (if value \<noteq> [] then RESERVED_PORTS_HEADER @ ''net.ipv4.ip_local_reserved_ports = '' @ value @ nl else [])"

section \<open>The drop-in\<close>

definition b64_char :: "nat \<Rightarrow> char" where
  "b64_char n = ''ABCDEFGHIJKLMNOPQRSTUVWXYZabcdefghijklmnopqrstuvwxyz0123456789+/'' ! n"

fun base64 :: "string \<Rightarrow> string" where
  "base64 (a # b # c # r) =
     b64_char (cc a div 4) # b64_char (cc a mod 4 * 16 + cc b div 16) # b64_char (cc b mod 16 * 4 + cc c div 64) #
     b64_char (cc c mod 64) # base64 r"
| "base64 [a, b] = [b64_char (cc a div 4), b64_char (cc a mod 4 * 16 + cc b div 16), b64_char (cc b mod 16 * 4), CHR ''='']"
| "base64 [a] = [b64_char (cc a div 4), b64_char (cc a mod 4 * 16), CHR ''='', CHR ''='']"
| "base64 [] = []"

definition dir_of :: "string \<Rightarrow> string" where
  "dir_of path =
     (let d = (if CHR ''/'' \<in> set path then rev (tl (dropWhile (\<lambda>c. c \<noteq> CHR ''/'') (rev path))) else butlast path)
      in if d = [] then ''/'' else d)"

definition read_command :: "string \<Rightarrow> string" where
  "read_command path = ''cat '' @ shellSingleQuote (Some path) @ '' 2>/dev/null || true''"

definition write_command :: "string \<Rightarrow> string \<Rightarrow> string" where
  "write_command path body =
     (let d = shellSingleQuote (Some (dir_of path))
      in ''mkdir -p '' @ d @ '' && t=$(mktemp '' @ d @ ''/.proxypilot-reserved-XXXXXX) && printf '' @ [squote] @ ''%s'' @ [squote] @
         '' '' @ [squote] @ base64 body @ [squote] @ '' | base64 -d > '' @ dq @ ''$t'' @ dq @ '' && chmod 0644 '' @ dq @ ''$t'' @ dq @
         '' && mv -f '' @ dq @ ''$t'' @ dq @ '' '' @ shellSingleQuote (Some path))"

record reserved_result =
  rs_value :: string
  rs_changed :: bool
  rs_applied :: bool
  rs_error :: "string option"

definition reconcileReservedPorts :: "string \<Rightarrow> 's exec \<Rightarrow> l4_row list \<Rightarrow> 's \<Rightarrow> reserved_result \<times> 's" where
  "reconcileReservedPorts path exec rows s =
     (let value = buildReservedPortsValue (filter (\<lambda>r. lf_enabled r = 1) rows); desired = reservedPortsBody value;
          result = (\<lambda>c a e. \<lparr>rs_value = value, rs_changed = c, rs_applied = a, rs_error = e\<rparr>);
          (r0, s0) = exec (read_command path) s; current = (case r0 of Inr out \<Rightarrow> out | Inl e \<Rightarrow> [])
      in if current = desired then (result False True None, s0)
         else
           let (r1, s1) = exec (if desired = [] then ''rm -f '' @ shellSingleQuote (Some path) else write_command path desired) s0
           in case r1 of
             Inl e \<Rightarrow> (result False False (Some ((if desired = [] then ''rm '' else ''write '') @ path @ '': '' @ trim (err_text e))), s1)
           | Inr out \<Rightarrow>
               (let (r2, s2) = exec (''sysctl -p '' @ shellSingleQuote (Some (if desired = [] then ''/etc/sysctl.conf'' else path))) s1
                in case r2 of
                  Inl e \<Rightarrow> (result True False (Some (''sysctl -p: '' @ trim (err_text e))), s2)
                | Inr out \<Rightarrow> (result True True None, s2)))"

section \<open>The reconcile of a service\<close>

datatype outcome = Out_applied string "piece_status \<times> piece_status" | Out_removed string | Out_error string string

fun apply_rows ::
  "string \<Rightarrow> 's exec \<Rightarrow> string \<Rightarrow> string \<Rightarrow> string option \<Rightarrow> l4_row list \<Rightarrow> 's \<Rightarrow> (string + outcome list) \<times> 's" where
  "apply_rows bin exec bridgeIp lxcName tag [] s = (Inr [], s)"
| "apply_rows bin exec bridgeIp lxcName tag (r # rs) s =
     (case planServiceL4Forward r bridgeIp lxcName of
        Inl m \<Rightarrow> (Inl m, s)
      | Inr p \<Rightarrow>
          (let (a, s1) = applyServiceL4Plan bin exec p tag s;
               here = (case a of Inr st \<Rightarrow> Out_applied (lf_id r) st | Inl m \<Rightarrow> Out_error (lf_id r) m);
               (rest, s2) = apply_rows bin exec bridgeIp lxcName tag rs s1
           in (bindR rest (\<lambda>os. Inr (here # os)), s2)))"

definition forward_id :: "string \<Rightarrow> string" where
  "forward_id name = (if prefix ''ppl4-'' name then drop 5 name else name)"

fun remove_orphans ::
  "string \<Rightarrow> 's exec \<Rightarrow> string \<Rightarrow> string list \<Rightarrow> l4_device list \<Rightarrow> 's \<Rightarrow> outcome list \<times> 's" where
  "remove_orphans bin exec incusName wanted [] s = ([], s)"
| "remove_orphans bin exec incusName wanted (d # ds) s =
     (let i = forward_id (dv_name d)
      in if i \<in> set wanted then remove_orphans bin exec incusName wanted ds s
         else (let (a, s1) = removeServiceL4Plan bin exec incusName (dv_name d) (''service-l4-'' @ i) s;
                   (os, s2) = remove_orphans bin exec incusName wanted ds s1
               in ((case a of Inr u \<Rightarrow> Out_removed i | Inl m \<Rightarrow> Out_error i m) # os, s2)))"

definition reconcileServiceL4Forwards ::
  "string \<Rightarrow> string \<Rightarrow> 's exec \<Rightarrow> l4_row list \<Rightarrow> string \<Rightarrow> string \<Rightarrow> string \<Rightarrow> string option \<Rightarrow> 's \<Rightarrow>
    (string + outcome list \<times> reserved_result) \<times> 's" where
  "reconcileServiceL4Forwards bin path exec rows serviceId lxcName bridgeIp tag s =
     (let desired = filter (\<lambda>r. lf_service r = serviceId \<and> lf_enabled r = 1) rows;
          (live, s1) = listIncusDevices exec (incus_name lxcName) s
      in case live of
        Inl m \<Rightarrow> (Inl m, s1)
      | Inr devs \<Rightarrow>
          (let (applied, s2) = apply_rows bin exec bridgeIp lxcName tag desired s1
           in case applied of
             Inl m \<Rightarrow> (Inl m, s2)
           | Inr os \<Rightarrow>
               (let (removed, s3) = remove_orphans bin exec (incus_name lxcName) (map lf_id desired)
                      (filter (\<lambda>d. starts_with (dv_name d) ''ppl4-'') devs) s2;
                    (reserved, s4) = reconcileReservedPorts path exec rows s3
                in (Inr (os @ removed, reserved), s4))))"

end
