(* ===== verification/L4_Safety.thy ===== *)
theory L4_Safety
  imports L4_Reserved PP_Example
begin

text \<open>
  What the forwards guarantee: no value reaches a shell as anything but one word; the reserved ports are exactly the
  ports of the forwarded UDP ranges; a reconcile never removes a forward that is wanted, and leaves no other.
\<close>

section \<open>Words of a shell\<close>

text \<open>
  How a POSIX shell splits a line of plain characters, single-quoted texts and backslash escapes into words. None: a
  character that the line would need to be read further for (another kind of quoting, an expansion, an operator).
\<close>

definition shell_plain :: "char \<Rightarrow> bool" where
  "shell_plain c \<longleftrightarrow> is_alnum c \<or> c \<in> set ''-_./:=,+@%''"

fun shell_words :: "string option \<Rightarrow> bool \<Rightarrow> string \<Rightarrow> string list option" where
  "shell_words cur q [] = (if q then None else Some (case cur of None \<Rightarrow> [] | Some w \<Rightarrow> [w]))"
| "shell_words cur True (c # s) =
     (if c = squote then shell_words cur False s
      else shell_words (Some ((case cur of None \<Rightarrow> [] | Some w \<Rightarrow> w) @ [c])) True s)"
| "shell_words cur False (c # s) =
     (if c = squote then shell_words (Some (case cur of None \<Rightarrow> [] | Some w \<Rightarrow> w)) True s
      else if c = CHR 0x5C then
        (case s of [] \<Rightarrow> None | d # t \<Rightarrow> shell_words (Some ((case cur of None \<Rightarrow> [] | Some w \<Rightarrow> w) @ [d])) False t)
      else if c = CHR '' '' then
        (case cur of None \<Rightarrow> shell_words None False s | Some w \<Rightarrow> map_option ((#) w) (shell_words None False s))
      else if shell_plain c then shell_words (Some ((case cur of None \<Rightarrow> [] | Some w \<Rightarrow> w) @ [c])) False s
      else None)"

lemma squote_simps [simp]: "squote \<noteq> CHR 0x5C" "\<not> shell_plain squote" "\<not> shell_plain (CHR '' '')" "squote \<noteq> CHR '' ''"
  "CHR 0x5C \<noteq> squote" "CHR '' '' \<noteq> squote"
  by (simp_all add: squote_def shell_plain_def class_defs)

lemma plain_word:
  assumes "\<forall>c\<in>set w. shell_plain c"
  shows "shell_words (Some v) False (w @ s) = shell_words (Some (v @ w)) False s"
  using assms
proof (induction w arbitrary: v)
  case (Cons c w)
  then have "c \<noteq> squote" "c \<noteq> CHR 0x5C" "c \<noteq> CHR '' ''" by (auto simp: shell_plain_def class_defs squote_def)
  with Cons show ?case by simp
qed simp

lemma quoted_body:
  "shell_words (Some v) True (concat (map (\<lambda>c. if c = squote then quote_escape else [c]) t) @ squote # s) =
    shell_words (Some (v @ t)) False s"
  by (induction t arbitrary: v) (simp_all add: quote_escape_def)

lemma quoted_word: "shell_words None False (shellSingleQuote (Some t) @ s) = shell_words (Some t) False s"
  using quoted_body [of "[]" t s] by (simp add: shellSingleQuote_def)

lemma quoted_words:
  "shell_words (Some w) False (concat (map (\<lambda>a. CHR '' '' # shellSingleQuote (Some a)) args)) = Some (w # args)"
proof (induction args arbitrary: w)
  case (Cons a args)
  then show ?case using quoted_word [of a "concat (map (\<lambda>a. CHR '' '' # shellSingleQuote (Some a)) args)"] by simp
qed simp

lemma join_space: "xs \<noteq> [] \<Longrightarrow> CHR '' '' # join '' '' xs = concat (map (\<lambda>x. CHR '' '' # x) xs)"
  by (induction "'' ''" xs rule: join.induct) auto

section \<open>Ranges\<close>

definition covers_port :: "(int \<times> int) list \<Rightarrow> int \<Rightarrow> bool" where
  "covers_port rs p \<longleftrightarrow> (\<exists>(s, e)\<in>set rs. s \<le> p \<and> p \<le> e)"

lemma covers_append [simp]: "covers_port (xs @ ys) p \<longleftrightarrow> covers_port xs p \<or> covers_port ys p"
  by (auto simp: covers_port_def)

lemma covers_Cons [simp]: "covers_port ((s, e) # xs) p \<longleftrightarrow> s \<le> p \<and> p \<le> e \<or> covers_port xs p"
  by (auto simp: covers_port_def)

lemma covers_Nil [simp]: "\<not> covers_port [] p"
  by (simp add: covers_port_def)

definition apart :: "(int \<times> int) list \<Rightarrow> bool" where
  "apart rs \<longleftrightarrow> sorted_wrt (\<lambda>a b. snd a + 1 < fst b) rs \<and> (\<forall>(s, e)\<in>set rs. s \<le> e)"

lemma coalesce_ok:
  assumes "apart merged" and "sorted (map fst rs)" and "\<forall>(s, e)\<in>set rs. s \<le> e"
    and "\<forall>m\<in>set merged. \<forall>r\<in>set rs. fst m \<le> fst r"
  shows "apart (coalesce merged rs) \<and> (\<forall>p. covers_port (coalesce merged rs) p \<longleftrightarrow> covers_port merged p \<or> covers_port rs p)"
  using assms
proof (induction merged rs rule: coalesce.induct)
  case (2 merged s e rest)
  show ?case
  proof (cases merged rule: rev_cases)
    case Nil
    then show ?thesis using 2 by (auto simp: apart_def)
  next
    case (snoc ms m)
    obtain a b where m: "m = (a, b)" by fastforce
    have ms: "\<forall>x\<in>set ms. snd x + 1 < a" "apart ms" "a \<le> b" using "2.prems"(1) by (auto simp: snoc m apart_def sorted_wrt_append)
    have le: "a \<le> s" "s \<le> e" "sorted (map fst rest)" "\<forall>r\<in>set rest. s \<le> fst r" using "2.prems" by (auto simp: snoc m)
    show ?thesis
    proof (cases "s > b + 1")
      case True
      have "apart (merged @ [(s, e)])" using ms le True "2.prems"(1) by (fastforce simp: snoc m apart_def sorted_wrt_append)
      then show ?thesis using "2.IH"(1) "2.prems" le True by (auto simp: snoc m)
    next
      case False
      have "apart (ms @ [(a, max b e)])" using ms by (auto simp: apart_def sorted_wrt_append)
      then show ?thesis using "2.IH"(2) "2.prems" le False by (auto simp: snoc m)
    qed
  qed
qed simp

lemma range_end_Some: "range_end e s = Some x \<longleftrightarrow> e = Some x \<and> x \<noteq> 0 \<and> x \<noteq> s"
  by (auto simp: range_end_def split: option.splits if_splits)

lemma udp_ranges_mem:
  "(s, e) \<in> set (udp_ranges rows) \<longleftrightarrow>
    (\<exists>r\<in>set rows. lf_enabled r \<noteq> 0 \<and> lf_proto r = ''udp'' \<and> range_end (lf_listen_end r) (lf_listen r) = Some e \<and> lf_listen r = s)"
  by (force simp: udp_ranges_def List.map_filter_def split: if_splits)

lemma sorted_fst_sort: "sorted (map fst (sort_by (\<lambda>a b. fst a \<le> fst (b :: int \<times> int)) xs))"
proof -
  have "sorted (map fst (insert_by (\<lambda>a b. fst a \<le> fst (b :: int \<times> int)) x ys))" if "sorted (map fst ys)" for x ys
    using that by (induction ys) (auto simp: set_insert_by)
  then show ?thesis by (induction xs) simp_all
qed

section \<open>Outcomes\<close>

definition outcome_id :: "outcome \<Rightarrow> string" where
  "outcome_id x = (case x of Out_applied i _ \<Rightarrow> i | Out_removed i \<Rightarrow> i | Out_error i _ \<Rightarrow> i)"

lemma apply_rows_ids:
  "apply_rows bin exec ip lxc tag rs s = (Inr os, s') \<Longrightarrow> map outcome_id os = map lf_id rs \<and> (\<forall>x\<in>set os. \<nexists>i. x = Out_removed i)"
proof (induction rs arbitrary: os s)
  case (Cons r rs)
  from Cons.prems obtain x os1 s1 where "os = x # os1" "outcome_id x = lf_id r" "\<nexists>i. x = Out_removed i"
    "apply_rows bin exec ip lxc tag rs s1 = (Inr os1, s')"
    by (auto simp: Let_def outcome_id_def bindR_Inr_iff split: sum.splits prod.splits)
  with Cons.IH show ?case by simp
qed simp

lemma remove_orphans_ids:
  "remove_orphans bin exec n wanted ds s = (os, s') \<Longrightarrow>
    map outcome_id os = filter (\<lambda>i. i \<notin> set wanted) (map (forward_id \<circ> dv_name) ds) \<and> (\<forall>x\<in>set os. \<nexists>i st. x = Out_applied i st)"
proof (induction ds arbitrary: os s)
  case (Cons d ds)
  show ?case
  proof (cases "forward_id (dv_name d) \<in> set wanted")
    case True
    with Cons show ?thesis by (simp add: Let_def)
  next
    case False
    with Cons.prems obtain x os1 s1 where "os = x # os1" "outcome_id x = forward_id (dv_name d)" "\<nexists>i st. x = Out_applied i st"
      "remove_orphans bin exec n wanted ds s1 = (os1, s')"
      by (auto simp: Let_def outcome_id_def split: sum.splits prod.splits)
    with Cons.IH False show ?thesis by simp
  qed
qed simp

section \<open>Properties\<close>

text \<open>
  C39: no value can break out of the command line it is put into: a shell splits the line built for the firewall command
  into the program and exactly the given arguments, whatever characters the arguments hold.
\<close>

theorem cli_command_words:
  assumes "bin \<noteq> []" and "\<forall>c\<in>set bin. shell_plain c"
  shows "shell_words None False (cli_command bin args) = Some (bin # args)"
proof -
  have b: "shell_words None False (bin @ s) = shell_words (Some bin) False s" for s
  proof (cases bin)
    case (Cons c w)
    then have "c \<noteq> squote" "c \<noteq> CHR 0x5C" "c \<noteq> CHR '' ''" using assms(2) by (auto simp: shell_plain_def class_defs squote_def)
    then show ?thesis using plain_word [of w "[c]" s] assms(2) Cons by simp
  qed (use assms(1) in simp)
  show ?thesis
  proof (cases "args = []")
    case True
    then show ?thesis using b [of "'' ''"] by (simp add: cli_command_def)
  next
    case False
    have "cli_command bin args = bin @ concat (map (\<lambda>a. CHR '' '' # shellSingleQuote (Some a)) args)"
      using join_space [of "map (\<lambda>a. shellSingleQuote (Some a)) args"] False by (simp add: cli_command_def o_def)
    with b quoted_words [of bin args] show ?thesis by simp
  qed
qed

theorem cli_command_words_witness:
  "shell_words None False (cli_command ''/usr/local/bin/proxypilot'' [''--reason'', ''$(reboot); '' @ [squote] @ ''x'']) =
    Some [''/usr/local/bin/proxypilot'', ''--reason'', ''$(reboot); '' @ [squote] @ ''x'']"
proof -
  have "\<forall>c\<in>set ''/usr/local/bin/proxypilot''. shell_plain c" by code_simp
  from cli_command_words [OF _ this, of "[''--reason'', ''$(reboot); '' @ [squote] @ ''x'']"] show ?thesis by simp
qed

text \<open>
  The kernel reserves exactly the ports of the enabled UDP range forwards: a port is in one of the printed ranges when
  and only when some such forward listens on it, and the ranges are in ascending order with a gap between any two.
\<close>

theorem reserved_ports_exact:
  assumes "\<forall>r\<in>set rows. \<forall>e. range_end (lf_listen_end r) (lf_listen r) = Some e \<longrightarrow> lf_listen r \<le> e"
  shows "\<exists>rs. buildReservedPortsValue rows = join '','' (map (\<lambda>(s, e). show_int s @ ''-'' @ show_int e) rs) \<and>
    sorted_wrt (\<lambda>a b. snd a + 1 < fst b) rs \<and>
    (\<forall>p. (\<exists>(s, e)\<in>set rs. s \<le> p \<and> p \<le> e) \<longleftrightarrow>
      (\<exists>r\<in>set rows. lf_enabled r \<noteq> 0 \<and> lf_proto r = ''udp'' \<and>
        (\<exists>e. lf_listen_end r = Some e \<and> e \<noteq> 0 \<and> e \<noteq> lf_listen r \<and> lf_listen r \<le> p \<and> p \<le> e)))"
proof -
  let ?u = "udp_ranges rows" and ?so = "sort_by (\<lambda>a b. fst a \<le> fst b) (udp_ranges rows)"
  have le: "\<forall>(s, e)\<in>set ?so. s \<le> e" using assms by (auto simp: udp_ranges_mem)
  have m: "apart (merged_ranges rows)" "covers_port (merged_ranges rows) p \<longleftrightarrow> covers_port ?so p" for p
    using coalesce_ok [OF _ sorted_fst_sort le, of "[]"] by (simp_all add: merged_ranges_def apart_def)
  have "covers_port ?so p \<longleftrightarrow> (\<exists>s e. (s, e) \<in> set ?u \<and> s \<le> p \<and> p \<le> e)" for p by (auto simp: covers_port_def)
  moreover have "(\<exists>s e. (s, e) \<in> set ?u \<and> s \<le> p \<and> p \<le> e) \<longleftrightarrow>
      (\<exists>r\<in>set rows. lf_enabled r \<noteq> 0 \<and> lf_proto r = ''udp'' \<and>
        (\<exists>e. lf_listen_end r = Some e \<and> e \<noteq> 0 \<and> e \<noteq> lf_listen r \<and> lf_listen r \<le> p \<and> p \<le> e))" for p
    unfolding udp_ranges_mem range_end_Some by blast
  ultimately show ?thesis using m
    by (intro exI [of _ "merged_ranges rows"]) (simp add: buildReservedPortsValue_def apart_def flip: covers_port_def)
qed

definition media_row :: l4_row where
  "media_row = \<lparr>lf_id = ''m'', lf_service = ''s'', lf_proto = ''udp'', lf_listen = 50000, lf_listen_end = Some 60000, lf_connect = 50000,
    lf_connect_end = Some 60000, lf_description = None, lf_enabled = 1\<rparr>"

theorem reserved_ports_exact_witness:
  "\<exists>rs. buildReservedPortsValue [media_row] = join '','' (map (\<lambda>(s, e). show_int s @ ''-'' @ show_int e) rs) \<and>
    (\<exists>(s, e)\<in>set rs. s \<le> 55555 \<and> 55555 \<le> e) \<and> \<not> (\<exists>(s, e)\<in>set rs. s \<le> 49999 \<and> 49999 \<le> e)"
proof -
  have "\<forall>r\<in>set [media_row]. \<forall>e. range_end (lf_listen_end r) (lf_listen r) = Some e \<longrightarrow> lf_listen r \<le> e"
    by (simp add: media_row_def range_end_def)
  from reserved_ports_exact [OF this] obtain rs where
    rs: "buildReservedPortsValue [media_row] = join '','' (map (\<lambda>(s, e). show_int s @ ''-'' @ show_int e) rs)"
    "\<forall>p. (\<exists>(s, e)\<in>set rs. s \<le> p \<and> p \<le> e) \<longleftrightarrow> 50000 \<le> p \<and> p \<le> 60000"
    by (auto simp: media_row_def)
  then show ?thesis by (intro exI [of _ rs]) simp
qed

text \<open>
  A reconcile of a service that returns has dealt with every wanted forward and with every orphaned device, and with
  nothing else: its outcomes are one applied or failed entry per enabled row of the service, in order, and one removed or
  failed entry per live \<open>ppl4-\<close> device that no enabled row claims. A wanted forward is never removed.
\<close>

theorem l4_reconcile_complete:
  assumes "reconcileServiceL4Forwards bin path exec rows sid lxc ip tag s = (Inr (os, res), s')"
  shows "\<exists>devs s1 os1 os2. listIncusDevices exec (incus_name lxc) s = (Inr devs, s1) \<and> os = os1 @ os2 \<and>
    map outcome_id os1 = map lf_id (filter (\<lambda>r. lf_service r = sid \<and> lf_enabled r = 1) rows) \<and>
    map outcome_id os2 = filter (\<lambda>i. \<forall>r\<in>set rows. lf_service r = sid \<longrightarrow> lf_enabled r = 1 \<longrightarrow> lf_id r \<noteq> i)
      (map (forward_id \<circ> dv_name) (filter (\<lambda>d. starts_with (dv_name d) ''ppl4-'') devs)) \<and>
    (\<forall>x\<in>set os1. \<nexists>i. x = Out_removed i) \<and> (\<forall>x\<in>set os2. \<nexists>i st. x = Out_applied i st)"
proof -
  let ?want = "filter (\<lambda>r. lf_service r = sid \<and> lf_enabled r = 1) rows"
  obtain live s1 where l: "listIncusDevices exec (incus_name lxc) s = (live, s1)" by fastforce
  with assms obtain devs where d: "live = Inr devs" by (cases live) (simp_all add: reconcileServiceL4Forwards_def)
  obtain a s2 where a: "apply_rows bin exec ip lxc tag ?want s1 = (a, s2)" by fastforce
  with assms l d obtain os1 where o1: "a = Inr os1" by (cases a) (simp_all add: reconcileServiceL4Forwards_def)
  obtain os2 s3 where r: "remove_orphans bin exec (incus_name lxc) (map lf_id ?want) (filter (\<lambda>d. starts_with (dv_name d) ''ppl4-'') devs) s2 = (os2, s3)"
    by fastforce
  from assms l d a o1 r have os: "os = os1 @ os2" by (simp add: reconcileServiceL4Forwards_def split: prod.splits)
  have "(\<lambda>i. i \<notin> set (map lf_id ?want)) = (\<lambda>i. \<forall>r\<in>set rows. lf_service r = sid \<longrightarrow> lf_enabled r = 1 \<longrightarrow> lf_id r \<noteq> i)" by auto
  with remove_orphans_ids [OF r] apply_rows_ids [OF a [unfolded o1]] l d os show ?thesis
    by (intro exI [of _ devs] exI [of _ s1] exI [of _ os1] exI [of _ os2]) simp
qed

text \<open>A host on which every command succeeds and prints one device nobody wants.\<close>

definition stale_host :: "unit exec" where
  "stale_host c s = (Inr (''ppl4-old:'' @ nl @ ''  type: proxy'' @ nl), s)"

theorem l4_reconcile_complete_witness:
  "\<exists>os res s'. reconcileServiceL4Forwards ''pp'' ''/etc/r'' stale_host [media_row] ''s'' ''web'' ''10.0.0.9'' None () = (Inr (os, res), s') \<and>
    map outcome_id os = [''m'', ''old'']"
proof -
  have l: "listIncusDevices stale_host (incus_name ''web'') () = (Inr [\<lparr>dv_name = ''ppl4-old'', dv_type = Some ''proxy'', dv_listen = None, dv_connect = None\<rparr>], ())"
    by code_simp
  obtain os res s' where r: "reconcileServiceL4Forwards ''pp'' ''/etc/r'' stale_host [media_row] ''s'' ''web'' ''10.0.0.9'' None () = (Inr (os, res), s')"
    using l by (auto simp: reconcileServiceL4Forwards_def media_row_def planServiceL4Forward_def applyServiceL4Plan_def stale_host_def
      bindR_def Let_def case_prod_beta)
  have "forward_id ''ppl4-old'' = ''old''" "starts_with ''ppl4-old'' ''ppl4-''" by code_simp+
  with l4_reconcile_complete [OF r] l have "map outcome_id os = [''m'', ''old'']" by (auto simp: media_row_def)
  with r show ?thesis by (intro exI [of _ os] exI [of _ res] exI [of _ s'] conjI)
qed

end
