(* ===== verification/Route_Render.thy ===== *)
theory Route_Render
  imports PP_Strings
begin

text \<open>
  Moving the upstream address of a service: \<open>admin/backend/src/lib/route-render.js\<close> and \<open>lib/guest-routes.js\<close>. The address of a
  guest is kept twice, in the row of its service and in the Caddy site file of each of its domains; the code changes both or
  neither. As in the code, what renders, validates, reloads, reads and writes is an argument (\<open>deps\<close>), and so is the fence,
  the check that the caller still owns its lease. \<open>dp_clock\<close> and \<open>dp_busy\<close> belong to the database handle: the time it writes for
  \<open>CURRENT_TIMESTAMP\<close>, and whether it refuses an UPDATE of the services, with which message.
\<close>

section \<open>The two stores\<close>

text \<open>The error a dependency throws: the lost lease, or another one with its \<open>stderr\<close> and message.\<close>

datatype rerr = Lease_lost | Err string string

record service =
  sv_id :: string
  sv_name :: string
  sv_kind :: string
  sv_runtime :: "string option"
  sv_type :: string
  sv_status :: string
  sv_target_ip :: "string option"
  sv_lxc :: "string option"
  sv_is_admin :: int
  sv_updated :: int

record http_route =
  hr_id :: string
  hr_service :: string
  hr_domain :: string
  hr_path :: string
  hr_port :: int
  hr_ssl :: bool
  hr_force_https :: bool
  hr_health :: "string option"

text \<open>\<open>rw_files\<close> are the site files; everything else a dependency may look at or change is \<open>rw_ext\<close>.\<close>

record 'x rworld =
  rw_files :: "string \<Rightarrow> string option"
  rw_services :: "service list"
  rw_routes :: "http_route list"
  rw_ext :: 'x

type_synonym ('x, 'a) rio = "('x rworld, rerr, 'a) eff"

record 'x deps =
  dp_regenerate :: "string \<Rightarrow> ('x, unit) rio"
  dp_adapt :: "('x, unit) rio"
  dp_reload :: "('x, unit) rio"
  dp_path :: "string \<Rightarrow> string"
  dp_read :: "string \<Rightarrow> 'x rworld \<Rightarrow> rerr + string"
  dp_write :: "string \<Rightarrow> string \<Rightarrow> ('x, unit) rio"
  dp_remove :: "string \<Rightarrow> ('x, unit) rio"
  dp_fence :: "('x, unit) rio option"
  dp_rollback :: bool
  dp_clock :: "'x rworld \<Rightarrow> int"
  dp_busy :: "'x rworld \<Rightarrow> string option"

section \<open>Rendering\<close>

definition domainsForService :: "http_route list \<Rightarrow> string \<Rightarrow> string list" where
  "domainsForService routes sid = filter (\<lambda>d. d \<noteq> []) (dedup (map hr_domain (filter (\<lambda>r. hr_service r = sid) routes)))"

record backup =
  bk_domain :: string
  bk_path :: string
  bk_existed :: bool
  bk_content :: "string option"

text \<open>A file that exists but cannot be read counts as one that did not exist.\<close>

definition snapshot_one :: "'x deps \<Rightarrow> 'x rworld \<Rightarrow> string \<Rightarrow> backup" where
  "snapshot_one d w domain =
     (let path = dp_path d domain;
          content = (if rw_files w path = None then None else case dp_read d path w of Inr c \<Rightarrow> Some c | Inl e \<Rightarrow> None)
      in \<lparr>bk_domain = domain, bk_path = path, bk_existed = (content \<noteq> None), bk_content = content\<rparr>)"

definition snapshotDomainConfigs :: "'x deps \<Rightarrow> string list \<Rightarrow> 'x rworld \<Rightarrow> backup list" where
  "snapshotDomainConfigs d domains w = map (snapshot_one d w) domains"

definition guard :: "'x deps \<Rightarrow> ('x, unit) rio" where
  "guard d = (case dp_fence d of None \<Rightarrow> ret () | Some f \<Rightarrow> f)"

definition restore_one :: "'x deps \<Rightarrow> backup \<Rightarrow> ('x, unit) rio" where
  "restore_one d b =
     bindE (guard d) (\<lambda>_.
     catchE (case bk_content b of
         Some c \<Rightarrow> if bk_existed b then dp_write d (bk_path b) c else dp_remove d (bk_path b)
       | None \<Rightarrow> dp_remove d (bk_path b)) (\<lambda>_. ret ()))"

definition restore :: "'x deps \<Rightarrow> backup list \<Rightarrow> ('x, unit) rio" where
  "restore d backups =
     bindE (forE backups (restore_one d)) (\<lambda>_.
     bindE (guard d) (\<lambda>_.
     catchE (dp_reload d) (\<lambda>_. ret ())))"

text \<open>\<open>if (isLeaseLost(e)) throw e\<close> at the end of a \<open>catch\<close>.\<close>

definition rethrow_lost :: "('x, unit) rio \<Rightarrow> ('x, unit) rio" where
  "rethrow_lost m = catchE m (\<lambda>e. if e = Lease_lost then throw e else ret ())"

definition failWith :: "'x deps \<Rightarrow> backup list \<Rightarrow> rerr \<Rightarrow> string \<Rightarrow> ('x, unit) rio" where
  "failWith d backups err message =
     (if err = Lease_lost then throw err
      else bindE (if dp_rollback d then rethrow_lost (restore d backups) else ret ()) (\<lambda>_. throw (Err [] message)))"

text \<open>\<open>err?.message || err\<close> and \<open>err?.stderr || err?.message || err\<close>\<close>

definition message_of :: "rerr \<Rightarrow> string" where
  "message_of e = (case e of Lease_lost \<Rightarrow> ''Error'' | Err se m \<Rightarrow> if m \<noteq> [] then m else ''Error'')"

definition stderr_of :: "rerr \<Rightarrow> string" where
  "stderr_of e = (case e of Err se m \<Rightarrow> if se \<noteq> [] then se else message_of e | Lease_lost \<Rightarrow> message_of e)"

definition renderDomains :: "'x deps \<Rightarrow> string list \<Rightarrow> ('x, string list) rio" where
  "renderDomains d domains =
     (let targets = dedup (filter (\<lambda>x. x \<noteq> []) domains)
      in if targets = [] then ret []
         else
           bindE (guard d) (\<lambda>_.
           bindE (getsE (snapshotDomainConfigs d targets)) (\<lambda>backups.
           bindE (catchE (forE targets (\<lambda>dom. bindE (guard d) (\<lambda>_. dp_regenerate d dom)))
             (\<lambda>e. failWith d backups e (''Failed to render Caddy config: '' @ message_of e))) (\<lambda>_.
           bindE (catchE (bindE (guard d) (\<lambda>_. dp_adapt d))
             (\<lambda>e. failWith d backups e (''Generated Caddy config failed validation: '' @ stderr_of e))) (\<lambda>_.
           bindE (catchE (bindE (guard d) (\<lambda>_. dp_reload d))
             (\<lambda>e. failWith d backups e (''Caddy reload failed: '' @ stderr_of e))) (\<lambda>_.
           ret targets))))))"

section \<open>Moving the address\<close>

record upstream_move =
  um_changed :: bool
  um_old :: "string option"
  um_new :: "string option"
  um_domains :: "string list"

definition update_service :: "'x deps \<Rightarrow> string \<Rightarrow> (service \<Rightarrow> service) \<Rightarrow> ('x, unit) rio" where
  "update_service d sid f w =
     (case dp_busy d w of
        Some m \<Rightarrow> (Inl (Err [] m), w)
      | None \<Rightarrow> (Inr (), w\<lparr>rw_services := map (\<lambda>s. if sv_id s = sid then f s else s) (rw_services w)\<rparr>))"

text \<open>The change of the address also writes \<open>updated_at\<close>; putting it back does not.\<close>

definition set_target_ip :: "'x deps \<Rightarrow> string \<Rightarrow> string option \<Rightarrow> ('x, unit) rio" where
  "set_target_ip d sid ip = bindE (getsE (dp_clock d)) (\<lambda>t. update_service d sid (\<lambda>s. s\<lparr>sv_target_ip := ip, sv_updated := t\<rparr>))"

definition revert_target_ip :: "'x deps \<Rightarrow> string \<Rightarrow> string option \<Rightarrow> ('x, unit) rio" where
  "revert_target_ip d sid old = update_service d sid (\<lambda>s. s\<lparr>sv_target_ip := old\<rparr>)"

definition applyServiceUpstream :: "'x deps \<Rightarrow> string \<Rightarrow> string option \<Rightarrow> ('x, upstream_move) rio" where
  "applyServiceUpstream d sid ip =
     bindE (getsE rw_services) (\<lambda>services.
     case find (\<lambda>s. sv_id s = sid) services of
       None \<Rightarrow> throw (Err [] (''Service '' @ sid @ '' not found''))
     | Some row \<Rightarrow>
         (let old = sv_target_ip row
          in if ip = None \<or> ip = Some [] \<or> old = ip
             then ret \<lparr>um_changed = False, um_old = old, um_new = (if ip = None then old else ip), um_domains = []\<rparr>
             else
               bindE (getsE (\<lambda>w. domainsForService (rw_routes w) sid)) (\<lambda>domains.
               bindE (guard d) (\<lambda>_.
               bindE (set_target_ip d sid ip) (\<lambda>_.
               bindE (catchE (bindE (renderDomains d domains) (\<lambda>_. ret ()))
                 (\<lambda>err. bindE (if err = Lease_lost then ret ()
                     else rethrow_lost (bindE (guard d) (\<lambda>_. revert_target_ip d sid old))) (\<lambda>_. throw err))) (\<lambda>_.
               ret \<lparr>um_changed = True, um_old = old, um_new = ip, um_domains = domains\<rparr>))))))"

section \<open>The routes of a guest\<close>

definition insert_service :: "service \<Rightarrow> ('x, unit) rio" where
  "insert_service s =
     bindE (getsE rw_services) (\<lambda>ss.
     bindE (guardE (sv_id s \<notin> sv_id ` set ss) (Err [] ''UNIQUE constraint failed: services.id'')) (\<lambda>_.
     modE (\<lambda>w. w\<lparr>rw_services := rw_services w @ [s]\<rparr>)))"

definition findOrCreateLxcService :: "'x deps \<Rightarrow> ('x, string) rio \<Rightarrow> string \<Rightarrow> string option \<Rightarrow> ('x, service) rio" where
  "findOrCreateLxcService d uuid name ip =
     bindE (getsE rw_services) (\<lambda>ss.
     case find (\<lambda>s. sv_lxc s = Some name \<and> sv_is_admin s = 0) ss of
       Some s \<Rightarrow> ret s
     | None \<Rightarrow>
         bindE uuid (\<lambda>i.
         bindE (getsE (dp_clock d)) (\<lambda>t.
         (let s = \<lparr>sv_id = i, sv_name = name, sv_kind = ''container_service'', sv_runtime = Some ''lxc'', sv_type = ''docker'',
                sv_status = ''active'', sv_target_ip = ip, sv_lxc = Some name, sv_is_admin = 0, sv_updated = t\<rparr>
          in bindE (insert_service s) (\<lambda>_. ret s)))))"

record sync_result =
  sy_changed :: bool
  sy_domains :: "string list"
  sy_warning :: "string option"

definition syncServiceUpstream :: "'x deps \<Rightarrow> service \<Rightarrow> string option \<Rightarrow> ('x, sync_result) rio" where
  "syncServiceUpstream d s ip =
     (if ip = None \<or> ip = Some [] \<or> sv_target_ip s = ip
      then ret \<lparr>sy_changed = False, sy_domains = [], sy_warning = None\<rparr>
      else catchE (bindE (applyServiceUpstream d (sv_id s) ip) (\<lambda>r.
          ret \<lparr>sy_changed = um_changed r, sy_domains = um_domains r, sy_warning = None\<rparr>))
        (\<lambda>e. if e = Lease_lost then throw e
          else ret \<lparr>sy_changed = False, sy_domains = [], sy_warning = Some (''Container address moved to '' @
            (case ip of Some x \<Rightarrow> x | None \<Rightarrow> []) @ '' but the existing routes could not be re-rendered ('' @ message_of e @
            ''). Those routes still point at '' @
            (case sv_target_ip s of Some (c # t) \<Rightarrow> c # t | _ \<Rightarrow> ''an unrecorded address'') @ ''.'')\<rparr>))"

record wanted_route =
  wr_domain :: string
  wr_port :: int
  wr_cert :: bool
  wr_health :: "string option"

record guest_routes =
  gr_serviceId :: string
  gr_created :: "string list"
  gr_existing :: "string list"
  gr_conflicts :: "(string \<times> string) list"
  gr_rendered :: "string list"
  gr_renderWarning :: "string option"
  gr_upstreamWarning :: "string option"

definition insert_http_route :: "http_route \<Rightarrow> ('x, unit) rio" where
  "insert_http_route r =
     bindE (getsE rw_routes) (\<lambda>rs.
     bindE (guardE (hr_id r \<notin> hr_id ` set rs) (Err [] ''UNIQUE constraint failed: service_http_routes.id'')) (\<lambda>_.
     bindE (guardE ((hr_domain r, hr_path r) \<notin> (\<lambda>x. (hr_domain x, hr_path x)) ` set rs)
       (Err [] ''UNIQUE constraint failed: service_http_routes.domain, service_http_routes.path_prefix'')) (\<lambda>_.
     modE (\<lambda>w. w\<lparr>rw_routes := rw_routes w @ [r]\<rparr>))))"

text \<open>The loop over the wanted routes, with the created, existing and conflicting domains so far.\<close>

fun add_routes ::
  "'x deps \<Rightarrow> ('x, string) rio \<Rightarrow> string \<Rightarrow> wanted_route list \<Rightarrow> string list \<times> string list \<times> (string \<times> string) list \<Rightarrow>
    ('x, string list \<times> string list \<times> (string \<times> string) list) rio" where
  "add_routes d uuid sid [] acc = ret acc"
| "add_routes d uuid sid (s # rest) (created, existing, conflicts) =
     bindE (guard d) (\<lambda>_.
     bindE (getsE rw_routes) (\<lambda>rs.
     let domain = to_lower (wr_domain s)
     in case find (\<lambda>r. hr_domain r = domain \<and> hr_path r = ''/'') rs of
          Some row \<Rightarrow> add_routes d uuid sid rest
            (if hr_service row = sid then (created, existing @ [domain], conflicts)
             else (created, existing, conflicts @ [(domain, ''already routed elsewhere; not added'')]))
        | None \<Rightarrow>
            bindE (catchE (bindE (bindE uuid (\<lambda>i. insert_http_route \<lparr>hr_id = i, hr_service = sid, hr_domain = domain, hr_path = ''/'',
                hr_port = wr_port s, hr_ssl = wr_cert s, hr_force_https = wr_cert s,
                hr_health = (if wr_health s = Some [] then None else wr_health s)\<rparr>))
              (\<lambda>_. ret (created @ [domain], existing, conflicts)))
              (\<lambda>e. ret (created, existing, conflicts @ [(domain, ''could not add: '' @ message_of e)]))) (\<lambda>acc.
            add_routes d uuid sid rest acc)))"

definition configureGuestRoutes ::
  "'x deps \<Rightarrow> ('x, string) rio \<Rightarrow> string \<Rightarrow> string option \<Rightarrow> wanted_route list \<Rightarrow> ('x, guest_routes) rio" where
  "configureGuestRoutes d uuid name ip services =
     bindE (guard d) (\<lambda>_.
     bindE (findOrCreateLxcService d uuid name ip) (\<lambda>svc.
     bindE (guard d) (\<lambda>_.
     bindE (syncServiceUpstream d svc ip) (\<lambda>sync.
     bindE (add_routes d uuid (sv_id svc) services ([], [], [])) (\<lambda>(created, existing, conflicts).
     bindE (if created @ existing = [] then ret ([], None)
       else bindE (guard d) (\<lambda>_.
         catchE (bindE (renderDomains d (created @ existing)) (\<lambda>ds. ret (ds, None)))
           (\<lambda>e. if e = Lease_lost then throw e
             else ret ([], Some (''Routes were recorded but Caddy was not updated: '' @ message_of e))))) (\<lambda>(rendered, warning).
     ret \<lparr>gr_serviceId = sv_id svc, gr_created = created, gr_existing = existing, gr_conflicts = conflicts,
       gr_rendered = rendered, gr_renderWarning = warning, gr_upstreamWarning = sy_warning sync\<rparr>))))))"

end
