(* ===== verification/Route_Site.thy ===== *)
theory Route_Site
  imports Route_Render
begin

text \<open>
  What a dependency bundle promises (a locale), what \<open>renderDomains\<close> and \<open>applyServiceUpstream\<close> do with any bundle that keeps
  the promises, and the bundle of \<open>admin/backend/src/routes/services.js\<close> (\<open>caddyRenderDeps\<close>), which does. The merge of a
  domain's rows into a site text, the Caddy binary and the file system's failures are arguments.
\<close>

section \<open>The contract\<close>

definition same_rows :: "'x rworld \<Rightarrow> 'x rworld \<Rightarrow> bool" where
  "same_rows w w' \<longleftrightarrow> rw_services w' = rw_services w \<and> rw_routes w' = rw_routes w"

definition same_files :: "'x rworld \<Rightarrow> 'x rworld \<Rightarrow> bool" where
  "same_files w w' \<longleftrightarrow> rw_files w' = rw_files w"

lemma same_refl [simp]: "same_rows w w" "same_files w w"
  by (simp_all add: same_rows_def same_files_def)

lemma same_rows_trans: "same_rows w w' \<Longrightarrow> same_rows w' w'' \<Longrightarrow> same_rows w w''"
  by (simp add: same_rows_def)

text \<open>The rows after the change of an address, and after it has been put back.\<close>

definition moved :: "string \<Rightarrow> string option \<Rightarrow> int \<Rightarrow> service list \<Rightarrow> service list" where
  "moved sid ip t = map (\<lambda>s. if sv_id s = sid then s\<lparr>sv_target_ip := ip, sv_updated := t\<rparr> else s)"

definition stamped :: "string \<Rightarrow> int \<Rightarrow> service list \<Rightarrow> service list" where
  "stamped sid t = map (\<lambda>s. if sv_id s = sid then s\<lparr>sv_updated := t\<rparr> else s)"

locale site_deps =
  fixes d :: "'x deps"
  assumes regenerate: "dp_regenerate d dn w = (r, w') \<Longrightarrow>
      same_rows w w' \<and> (\<forall>p. p \<noteq> dp_path d dn \<longrightarrow> rw_files w' p = rw_files w p)"
    and adapt: "dp_adapt d w = (r, w') \<Longrightarrow> same_rows w w' \<and> same_files w w'"
    and reload: "dp_reload d w = (r, w') \<Longrightarrow> same_rows w w' \<and> same_files w w'"
    and fence: "guard d w = (r, w') \<Longrightarrow> same_rows w w' \<and> same_files w w' \<and> (\<forall>e. r = Inl e \<longrightarrow> e = Lease_lost)"
    and write_file: "dp_write d p c w = (r, w') \<Longrightarrow> same_rows w w' \<and> (\<forall>q. q \<noteq> p \<longrightarrow> rw_files w' q = rw_files w q)"
    and remove_file: "dp_remove d p w = (r, w') \<Longrightarrow> same_rows w w' \<and> (\<forall>q. q \<noteq> p \<longrightarrow> rw_files w' q = rw_files w q)"

text \<open>Moreover the files \<open>f0\<close> can be read, and their texts can be put back.\<close>

locale restorable_deps = site_deps d for d :: "'x deps" +
  fixes f0 :: "string \<Rightarrow> string option"
  assumes read_back: "rw_files w = f0 \<Longrightarrow> f0 p = Some c \<Longrightarrow> dp_read d p w = Inr c"
    and write_back: "f0 p = Some c \<Longrightarrow> dp_write d p c w = (r, w') \<Longrightarrow> rw_files w' p = Some c"
    and remove_back: "f0 p = None \<Longrightarrow> dp_remove d p w = (r, w') \<Longrightarrow> rw_files w' p = None"
    and rollback: "dp_rollback d"

lemma catchE_ignore: "catchE m (\<lambda>_. ret ()) w = (r, w') \<Longrightarrow> r = Inr () \<and> (\<exists>r'. m w = (r', w'))"
  by (cases "m w"; cases "fst (m w)") auto

lemma bindE_any:
  assumes "bindE m f w = (r, w')"
  obtains (stop) e where "m w = (Inl e, w')" and "r = Inl e" | (go) a v where "m w = (Inr a, v)" and "f a v = (r, w')"
  using assms by (cases "m w"; cases "fst (m w)") (auto simp: prod_eq_iff)

lemma catchE_any:
  assumes "catchE m h w = (r, w')"
  obtains (ok) a where "m w = (Inr a, w')" and "r = Inr a" | (handled) e v where "m w = (Inl e, v)" and "h e v = (r, w')"
  using assms by (cases "m w"; cases "fst (m w)") (auto simp: prod_eq_iff)

text \<open>Only site files of the domains \<open>ts\<close> differ.\<close>

definition outside :: "'x deps \<Rightarrow> string list \<Rightarrow> 'x rworld \<Rightarrow> 'x rworld \<Rightarrow> bool" where
  "outside d ts w w' \<longleftrightarrow> same_rows w w' \<and> (\<forall>p. p \<notin> dp_path d ` set ts \<longrightarrow> rw_files w' p = rw_files w p)"

lemma outside_refl [simp]: "outside d ts w w"
  by (simp add: outside_def)

lemma outside_trans: "outside d ts w w' \<Longrightarrow> outside d ts w' w'' \<Longrightarrow> outside d ts w w''"
  by (auto simp: outside_def intro: same_rows_trans)

lemma outside_same: "same_rows w w' \<Longrightarrow> same_files w w' \<Longrightarrow> outside d ts w w'"
  by (simp add: outside_def same_files_def)

context site_deps
begin

lemma guarded_outside:
  assumes "bindE (guard d) (\<lambda>_. m) w = (r, w')" and "\<And>u r u'. m u = (r, u') \<Longrightarrow> outside d ts u u'"
  shows "outside d ts w w'"
  using assms(1)
proof (cases rule: bindE_any)
  case (stop e)
  with fence show ?thesis by (blast intro: outside_same)
next
  case (go a u)
  with fence assms(2) show ?thesis by (blast intro: outside_same outside_trans)
qed

lemma regenerate_loop:
  "set us \<subseteq> set ts \<Longrightarrow> forE us (\<lambda>dn. bindE (guard d) (\<lambda>_. dp_regenerate d dn)) w = (r, w') \<Longrightarrow> outside d ts w w'"
proof (induction us arbitrary: w)
  case (Cons t us)
  have one: "outside d ts u u'" if "bindE (guard d) (\<lambda>_. dp_regenerate d t) u = (r', u')" for u u' r'
    using that
  proof (rule guarded_outside)
    fix v q v' assume "dp_regenerate d t v = (q, v')"
    from regenerate [OF this] Cons.prems(1) show "outside d ts v v'"
      unfolding outside_def by (metis image_eqI list.set_intros(1) subsetD)
  qed
  from Cons.prems(2) have "bindE (bindE (guard d) (\<lambda>_. dp_regenerate d t)) (\<lambda>_. forE us (\<lambda>dn. bindE (guard d) (\<lambda>_. dp_regenerate d dn))) w = (r, w')"
    by simp
  then show ?case
  proof (cases rule: bindE_any)
    case (stop e)
    with one show ?thesis by blast
  next
    case (go a u)
    with Cons.prems(1) show ?thesis using outside_trans [OF one [OF go(1)] Cons.IH [OF _ go(2)]] by simp
  qed
qed simp

end

context restorable_deps
begin

lemma snapshot_content: "rw_files w = f0 \<Longrightarrow> bk_content (snapshot_one d w dn) = f0 (dp_path d dn) \<and>
    bk_existed (snapshot_one d w dn) = (f0 (dp_path d dn) \<noteq> None) \<and> bk_path (snapshot_one d w dn) = dp_path d dn"
  using read_back [of w "dp_path d dn"] by (cases "f0 (dp_path d dn)") (auto simp: snapshot_one_def Let_def)

lemma restore_one_ok:
  assumes "rw_files v = f0" and "restore_one d (snapshot_one d v dn) w = (r, w')"
  shows "same_rows w w' \<and> (\<forall>p. p \<noteq> dp_path d dn \<longrightarrow> rw_files w' p = rw_files w p) \<and>
    (\<forall>e. r = Inl e \<longrightarrow> e = Lease_lost) \<and> (r = Inr () \<longrightarrow> rw_files w' (dp_path d dn) = f0 (dp_path d dn))"
  using assms(2)[unfolded restore_one_def]
proof (cases rule: bindE_any)
  case (stop e)
  then show ?thesis using fence by (auto simp: same_files_def)
next
  case (go a u)
  note s = snapshot_content [OF assms(1), of dn]
  from fence [OF go(1)] have u: "same_rows w u" "rw_files u = rw_files w" by (simp_all add: same_files_def)
  show ?thesis
  proof (cases "f0 (dp_path d dn)")
    case None
    with go(2) s obtain r' where "r = Inr ()" "dp_remove d (dp_path d dn) u = (r', w')"
      by (auto dest!: catchE_ignore)
    with remove_file remove_back None u show ?thesis by (metis same_rows_trans old.sum.distinct(2))
  next
    case (Some c)
    with go(2) s obtain r' where "r = Inr ()" "dp_write d (dp_path d dn) c u = (r', w')"
      by (auto dest!: catchE_ignore)
    with write_file write_back Some u show ?thesis by (metis same_rows_trans old.sum.distinct(2))
  qed
qed

lemma restore_all:
  assumes "rw_files v = f0" and "forE (map (snapshot_one d v) ts) (restore_one d) w = (r, w')"
  shows "same_rows w w' \<and> (\<forall>e. r = Inl e \<longrightarrow> e = Lease_lost) \<and>
    (r = Inr () \<longrightarrow> (\<forall>p. p \<in> dp_path d ` set ts \<or> rw_files w p = f0 p \<longrightarrow> rw_files w' p = f0 p))"
  using assms(2)
proof (induction ts arbitrary: w)
  case (Cons t ts)
  from Cons.prems have "bindE (restore_one d (snapshot_one d v t)) (\<lambda>_. forE (map (snapshot_one d v) ts) (restore_one d)) w = (r, w')"
    by simp
  then show ?case
  proof (cases rule: bindE_any)
    case (stop e)
    with restore_one_ok [OF assms(1) stop(1)] show ?thesis by simp
  next
    case (go a u)
    from restore_one_ok [OF assms(1) go(1)] have u: "same_rows w u" "rw_files u (dp_path d t) = f0 (dp_path d t)"
      "\<forall>p. p \<noteq> dp_path d t \<longrightarrow> rw_files u p = rw_files w p" by auto
    with Cons.IH [OF go(2)] show ?thesis by (auto intro: same_rows_trans) metis+
  qed
qed auto

lemma failWith_restores:
  assumes "rw_files v = f0" and "failWith d (snapshotDomainConfigs d ts v) e m w = (Inl x, w')" and "x \<noteq> Lease_lost"
    and "same_rows v w" and "\<forall>p. p \<notin> dp_path d ` set ts \<longrightarrow> rw_files w p = f0 p"
  shows "same_rows v w' \<and> rw_files w' = f0"
proof -
  from assms(2,3) have "e \<noteq> Lease_lost" by (auto simp: failWith_def)
  with assms(2) rollback have "(bindE (rethrow_lost (restore d (snapshotDomainConfigs d ts v))) (\<lambda>_. throw (Err [] m)) :: ('x, unit) rio) w = (Inl x, w')"
    by (simp add: failWith_def)
  then obtain u where u: "rethrow_lost (restore d (snapshotDomainConfigs d ts v)) w = (Inr (), u)" "w' = u"
    using assms(3)
  proof (cases rule: bindE_any)
    case (stop e')
    then have "e' = Lease_lost" by (auto simp: rethrow_lost_def elim!: catchE_any split: if_splits)
    with stop assms(3) show ?thesis by simp
  qed simp
  have "restore d (snapshotDomainConfigs d ts v) w = (r, z) \<Longrightarrow> same_rows w z \<and> (\<forall>e. r = Inl e \<longrightarrow> e = Lease_lost) \<and>
      (r = Inr () \<longrightarrow> rw_files z = f0)" for r z
  proof -
    assume a: "restore d (snapshotDomainConfigs d ts v) w = (r, z)"
    from a [unfolded restore_def snapshotDomainConfigs_def] show ?thesis
    proof (cases rule: bindE_any)
      case (stop e')
      with restore_all [OF assms(1) stop(1)] show ?thesis by simp
    next
      case (go x1 y)
      note y = restore_all [OF assms(1) go(1)]
      from go(2) show ?thesis
      proof (cases rule: bindE_any)
        case (stop e')
        with y fence [OF stop(1)] show ?thesis by (auto intro: same_rows_trans)
      next
        case (go x2 y2)
        with catchE_ignore obtain r' where "r = Inr ()" "dp_reload d y2 = (r', z)" by metis
        with y fence [OF go(1)] reload assms(5) show ?thesis
          by (auto simp: same_files_def intro!: ext) (metis same_rows_trans)+
      qed
    qed
  qed
  with u assms(4) show ?thesis by (auto simp: rethrow_lost_def elim!: catchE_any split: if_splits intro: same_rows_trans)
qed


lemma failWith_throws: "\<exists>x w'. failWith d bs e m w = (Inl x, w')"
  by (cases "rethrow_lost (restore d bs) w"; cases "fst (rethrow_lost (restore d bs) w)") (auto simp: failWith_def)

lemma stage:
  assumes "rw_files v = f0" and "outside d ts v u"
    and "bindE (catchE m (\<lambda>e. failWith d (snapshotDomainConfigs d ts v) e (text e))) k u = (r, w')"
    and "\<And>r u'. m u = (r, u') \<Longrightarrow> outside d ts u u'"
  obtains (undone) x where "r = Inl x" and "x \<noteq> Lease_lost \<Longrightarrow> same_rows v w' \<and> rw_files w' = f0"
  | (passed) a u' where "m u = (Inr a, u')" and "outside d ts v u'" and "k a u' = (r, w')"
proof (cases "m u")
  case (Pair q u')
  with assms(2,4) have o: "outside d ts v u'" by (blast intro: outside_trans)
  show ?thesis
  proof (cases q)
    case (Inl e)
    obtain x z where z: "failWith d (snapshotDomainConfigs d ts v) e (text e) u' = (Inl x, z)" using failWith_throws by blast
    with assms(3) Pair Inl have r: "r = Inl x" "w' = z" by auto
    have "same_rows v w' \<and> rw_files w' = f0" if "x \<noteq> Lease_lost"
      using failWith_restores [OF assms(1) z that] o assms(1) r(2) by (simp add: outside_def)
    with r(1) show ?thesis by (rule undone)
  next
    case (Inr a)
    with assms(3) Pair o show ?thesis by (intro passed [of a u']) simp_all
  qed
qed

lemma render_atomic:
  assumes "rw_files w = f0" and "renderDomains d ds w = (Inl x, w')" and "x \<noteq> Lease_lost"
  shows "same_rows w w' \<and> rw_files w' = f0"
proof -
  let ?ts = "dedup (filter (\<lambda>x. x \<noteq> []) ds)"
  have ne: "?ts \<noteq> []" using assms(2) by (auto simp: renderDomains_def Let_def)
  from assms(2) [unfolded renderDomains_def Let_def if_not_P [OF ne]] show ?thesis
  proof (cases rule: bindE_any)
    case (stop e)
    with fence [OF stop(1)] assms(3) show ?thesis by simp
  next
    case (go a v)
    from fence [OF go(1)] assms(1) have v: "rw_files v = f0" "same_rows w v" by (simp_all add: same_files_def)
    have o: "outside d ?ts v v" by simp
    from go(2) have 1: "bindE (catchE (forE ?ts (\<lambda>dn. bindE (guard d) (\<lambda>_. dp_regenerate d dn)))
        (\<lambda>e. failWith d (snapshotDomainConfigs d ?ts v) e (''Failed to render Caddy config: '' @ message_of e))) (\<lambda>_.
      bindE (catchE (bindE (guard d) (\<lambda>_. dp_adapt d))
        (\<lambda>e. failWith d (snapshotDomainConfigs d ?ts v) e (''Generated Caddy config failed validation: '' @ stderr_of e))) (\<lambda>_.
      bindE (catchE (bindE (guard d) (\<lambda>_. dp_reload d))
        (\<lambda>e. failWith d (snapshotDomainConfigs d ?ts v) e (''Caddy reload failed: '' @ stderr_of e))) (\<lambda>_.
      ret ?ts))) v = (Inl x, w')" by simp
    have "x \<noteq> Lease_lost \<longrightarrow> same_rows v w' \<and> rw_files w' = f0"
    proof (rule stage [OF v(1) o 1])
      fix a1 u1 assume u1: "outside d ?ts v u1" and 2: "bindE (catchE (bindE (guard d) (\<lambda>_. dp_adapt d))
        (\<lambda>e. failWith d (snapshotDomainConfigs d ?ts v) e (''Generated Caddy config failed validation: '' @ stderr_of e))) (\<lambda>_.
        bindE (catchE (bindE (guard d) (\<lambda>_. dp_reload d))
          (\<lambda>e. failWith d (snapshotDomainConfigs d ?ts v) e (''Caddy reload failed: '' @ stderr_of e))) (\<lambda>_. ret ?ts)) u1 = (Inl x, w')"
      show ?thesis
      proof (rule stage [OF v(1) u1 2])
        fix a2 u2 assume u2: "outside d ?ts v u2" and 3: "bindE (catchE (bindE (guard d) (\<lambda>_. dp_reload d))
          (\<lambda>e. failWith d (snapshotDomainConfigs d ?ts v) e (''Caddy reload failed: '' @ stderr_of e))) (\<lambda>_. ret ?ts) u2 = (Inl x, w')"
        show ?thesis
          by (rule stage [OF v(1) u2 3]) (use reload in \<open>auto elim!: guarded_outside intro: outside_same\<close>)
      qed (use adapt in \<open>auto elim!: guarded_outside intro: outside_same\<close>)
    qed (auto intro: regenerate_loop [OF subset_refl])
    with assms(3) v(2) show ?thesis by (blast intro: same_rows_trans)
  qed
qed


text \<open>After a failed render the revert runs on the restored files, whether the database takes it or not.\<close>

lemma failed_undone:
  assumes "rw_files u = f0" and x: "x \<noteq> Lease_lost"
    and run: "bindE (catchE (bindE (renderDomains d ds) (\<lambda>_. ret ()))
        (\<lambda>err. bindE (if err = Lease_lost then ret () else rethrow_lost (bindE (guard d) (\<lambda>_. revert_target_ip d sid old))) (\<lambda>_. throw err)))
      (\<lambda>_. ret a) u = (Inl x, w')"
  shows "\<exists>z. same_rows u z \<and> rw_files z = f0 \<and> w' = snd (revert_target_ip d sid old z)"
proof -
  obtain r z where rd: "renderDomains d ds u = (r, z)" by fastforce
  from run rd obtain e where e: "r = Inl e" by (cases r) auto
  with run rd have h: "(bindE (if e = Lease_lost then ret () else rethrow_lost (bindE (guard d) (\<lambda>_. revert_target_ip d sid old)))
      (\<lambda>_. throw e) :: ('x, unit) rio) z = (Inl x, w')"
    by (auto elim!: bindE_any)
  then have ne: "e \<noteq> Lease_lost" using x by auto
  from render_atomic [OF assms(1) rd [unfolded e] ne] have z: "same_rows u z" "rw_files z = f0" by auto
  obtain g y where gy: "guard d z = (g, y)" by fastforce
  have g: "g = Inr ()"
  proof (cases g)
    case (Inl e')
    with fence [OF gy] have "e' = Lease_lost" by simp
    with h gy Inl ne x show ?thesis by (simp add: rethrow_lost_def)
  qed simp
  from fence [OF gy] z have y: "same_rows u y" "rw_files y = f0" by (auto simp: same_files_def intro: same_rows_trans)
  from h gy g ne have "w' = snd (revert_target_ip d sid old y)"
    by (cases "dp_busy d y") (simp_all add: rethrow_lost_def revert_target_ip_def update_service_def)
  with y show ?thesis by blast
qed

lemma set_back:
  assumes "distinct (map sv_id ss)" and "find (\<lambda>s. sv_id s = sid) ss = Some row"
  shows "map (\<lambda>s. if sv_id s = sid then s\<lparr>sv_target_ip := sv_target_ip row\<rparr> else s) (moved sid ip t ss) = stamped sid t ss"
proof -
  have "s = row" if "s \<in> set ss" "sv_id s = sid" for s
    using assms that by (auto simp: find_Some_iff distinct_conv_nth in_set_conv_nth)
  then show ?thesis by (auto simp: moved_def stamped_def)
qed

lemma apply_atomic:
  assumes f: "rw_files w = f0" and ids: "distinct (map sv_id (rw_services w))"
    and ap: "applyServiceUpstream d sid ip w = (Inl x, w')" and x: "x \<noteq> Lease_lost"
  shows "rw_routes w' = rw_routes w \<and> rw_files w' = f0 \<and>
    (rw_services w' = rw_services w \<or> (\<exists>t. rw_services w' = stamped sid t (rw_services w)) \<or>
     (\<exists>t m. dp_busy d w' = Some m \<and> rw_services w' = moved sid ip t (rw_services w)))"
proof (cases "find (\<lambda>s. sv_id s = sid) (rw_services w)")
  case None
  with ap f show ?thesis by (simp add: applyServiceUpstream_def)
next
  case (Some row)
  let ?old = "sv_target_ip row" and ?ds = "domainsForService (rw_routes w) sid"
  from ap Some have "bindE (guard d) (\<lambda>_. bindE (set_target_ip d sid ip) (\<lambda>_.
      bindE (catchE (bindE (renderDomains d ?ds) (\<lambda>_. ret ()))
        (\<lambda>err. bindE (if err = Lease_lost then ret () else rethrow_lost (bindE (guard d) (\<lambda>_. revert_target_ip d sid ?old))) (\<lambda>_. throw err))) (\<lambda>_.
      ret \<lparr>um_changed = True, um_old = ?old, um_new = ip, um_domains = ?ds\<rparr>))) w = (Inl x, w')"
    by (simp add: applyServiceUpstream_def Let_def split: if_splits)
  then show ?thesis
  proof (cases rule: bindE_any)
    case (stop e)
    with fence [OF stop(1)] x show ?thesis by simp
  next
    case (go a v)
    from fence [OF go(1)] f have v: "same_rows w v" "rw_files v = f0" by (simp_all add: same_files_def)
    from go(2) show ?thesis
    proof (cases rule: bindE_any)
      case (stop e)
      with v show ?thesis by (auto simp: set_target_ip_def update_service_def same_rows_def split: option.splits)
    next
      case (go b u)
      then have u: "u = v\<lparr>rw_services := moved sid ip (dp_clock d v) (rw_services v)\<rparr>"
        by (auto simp: set_target_ip_def update_service_def moved_def split: option.splits)
      with v have "rw_files u = f0" by simp
      from failed_undone [OF this x go(2)] obtain z where z: "same_rows u z" "rw_files z = f0"
        and r: "w' = snd (revert_target_ip d sid ?old z)" by blast
      show ?thesis
      proof (cases "dp_busy d z")
        case None
        with r z u v set_back [OF ids Some, of ip "dp_clock d v"] show ?thesis
          by (auto simp: revert_target_ip_def update_service_def same_rows_def)
      next
        case (Some m)
        with r z u v show ?thesis by (auto simp: revert_target_ip_def update_service_def same_rows_def)
      qed
    qed
  qed
qed

end

section \<open>The bundle of the service routes\<close>

text \<open>
  What lies outside: the merge of a domain's rows (None: nothing to serve), the directory set-up, the file system's answers
  (a failing write leaves some text behind), the two runs of Caddy, and what else happens to the world while a file is
  written (\<open>sh_pass\<close>), such as the lease going to another worker, and the clock and the refusals of the database.
\<close>

record 'x site_host =
  sh_dir :: string
  sh_merge :: "'x rworld \<Rightarrow> string \<Rightarrow> rerr + string option"
  sh_structure :: "'x \<Rightarrow> (rerr + unit) \<times> 'x"
  sh_write :: "string \<Rightarrow> string \<Rightarrow> 'x \<Rightarrow> (rerr \<times> string option) option"
  sh_unlink_fails :: "string \<Rightarrow> 'x \<Rightarrow> bool"
  sh_read :: "string \<Rightarrow> 'x \<Rightarrow> rerr option"
  sh_adapt :: "'x rworld \<Rightarrow> (rerr + unit) \<times> 'x"
  sh_reload :: "'x rworld \<Rightarrow> (rerr + unit) \<times> 'x"
  sh_pass :: "'x \<Rightarrow> 'x"
  sh_clock :: "'x \<Rightarrow> int"
  sh_busy :: "'x \<Rightarrow> string option"

definition caddyFileName :: "string \<Rightarrow> string" where
  "caddyFileName domain = concat (map (\<lambda>c. if c = CHR ''*'' then ''_wildcard_'' else [c]) domain)"

definition caddyFilePath :: "string \<Rightarrow> string \<Rightarrow> string" where
  "caddyFilePath sites_dir domain = sites_dir @ ''/'' @ caddyFileName domain"

definition writeCaddyConfig :: "'x site_host \<Rightarrow> string \<Rightarrow> string \<Rightarrow> ('x, unit) rio" where
  "writeCaddyConfig h path content w =
     (let (r, left) = (case sh_write h path content (rw_ext w) of None \<Rightarrow> (Inr (), Some content) | Some (e, l) \<Rightarrow> (Inl e, l))
      in (r, w\<lparr>rw_files := (rw_files w)(path := left), rw_ext := sh_pass h (rw_ext w)\<rparr>))"

text \<open>\<open>unlink(path).catch(() => {})\<close>\<close>

definition unlink_quiet :: "'x site_host \<Rightarrow> string \<Rightarrow> ('x, unit) rio" where
  "unlink_quiet h path w =
     (Inr (), w\<lparr>rw_files := (if sh_unlink_fails h path (rw_ext w) then rw_files w else (rw_files w)(path := None)),
        rw_ext := sh_pass h (rw_ext w)\<rparr>)"

definition hosted :: "('x rworld \<Rightarrow> (rerr + unit) \<times> 'x) \<Rightarrow> ('x, unit) rio" where
  "hosted m w = (let (r, x) = m w in (r, w\<lparr>rw_ext := x\<rparr>))"

definition regenerateDomainCaddyConfig :: "'x site_host \<Rightarrow> string \<Rightarrow> ('x, unit) rio" where
  "regenerateDomainCaddyConfig h domain w =
     (let path = caddyFilePath (sh_dir h) domain
      in case sh_merge h w domain of
           Inl e \<Rightarrow> (Inl e, w)
         | Inr None \<Rightarrow> unlink_quiet h path w
         | Inr (Some merged) \<Rightarrow>
             bindE (hosted (\<lambda>w. sh_structure h (rw_ext w))) (\<lambda>_. writeCaddyConfig h path merged) w)"

definition lease_fence :: "('x \<Rightarrow> bool) \<Rightarrow> ('x, unit) rio" where
  "lease_fence lost w = (if lost (rw_ext w) then Inl Lease_lost else Inr (), w)"

definition caddyRenderDeps :: "'x site_host \<Rightarrow> ('x \<Rightarrow> bool) option \<Rightarrow> 'x deps" where
  "caddyRenderDeps h lost =
     \<lparr>dp_regenerate = regenerateDomainCaddyConfig h, dp_adapt = hosted (sh_adapt h), dp_reload = hosted (sh_reload h),
      dp_path = caddyFilePath (sh_dir h),
      dp_read = (\<lambda>p w. case sh_read h p (rw_ext w) of Some e \<Rightarrow> Inl e
        | None \<Rightarrow> (case rw_files w p of Some c \<Rightarrow> Inr c | None \<Rightarrow> Inl (Err [] ''ENOENT''))),
      dp_write = writeCaddyConfig h, dp_remove = unlink_quiet h, dp_fence = map_option lease_fence lost, dp_rollback = True,
      dp_clock = (\<lambda>w. sh_clock h (rw_ext w)), dp_busy = (\<lambda>w. sh_busy h (rw_ext w))\<rparr>"

interpretation caddy: site_deps "caddyRenderDeps h lost" for h :: "'x site_host" and lost
  by unfold_locales
    (auto simp: caddyRenderDeps_def regenerateDomainCaddyConfig_def writeCaddyConfig_def unlink_quiet_def hosted_def guard_def
      lease_fence_def same_rows_def same_files_def Let_def split: sum.splits option.splits prod.splits if_splits elim!: bindE_any)

lemma caddy_restorable:
  assumes "\<And>p c x. f0 p = Some c \<Longrightarrow> sh_read h p x = None \<and> sh_write h p c x = None" and "\<And>p x. \<not> sh_unlink_fails h p x"
  shows "restorable_deps (caddyRenderDeps h lost) f0"
  using assms by unfold_locales
    (auto simp: caddyRenderDeps_def writeCaddyConfig_def unlink_quiet_def Let_def split: option.splits)

text \<open>A host whose file system does not fail.\<close>

definition reliable :: "'x site_host \<Rightarrow> 'x site_host" where
  "reliable h = h\<lparr>sh_write := (\<lambda>_ _ _. None), sh_unlink_fails := (\<lambda>_ _. False), sh_read := (\<lambda>_ _. None)\<rparr>"

interpretation steady: restorable_deps "caddyRenderDeps (reliable h) lost" f0 for h :: "'x site_host" and lost f0
  by (rule caddy_restorable) (simp_all add: reliable_def)

end
