(* ===== verification/Route_Safety.thy ===== *)
theory Route_Safety
  imports Route_Site
begin

text \<open>
  Moving an upstream address: all or nothing, the files agree with the rows afterwards, nothing is written after the lease has
  gone, and the one case in which the rollback loses a file.
\<close>

section \<open>What a successful render leaves\<close>

lemma caddy_sel:
  "dp_regenerate (caddyRenderDeps h l) = regenerateDomainCaddyConfig h" "dp_adapt (caddyRenderDeps h l) = hosted (sh_adapt h)"
  "dp_reload (caddyRenderDeps h l) = hosted (sh_reload h)" "dp_path (caddyRenderDeps h l) = caddyFilePath (sh_dir h)"
  "dp_remove (caddyRenderDeps h l) = unlink_quiet h" "dp_rollback (caddyRenderDeps h l)"
  "dp_clock (caddyRenderDeps h l) = (\<lambda>w. sh_clock h (rw_ext w))" "dp_busy (caddyRenderDeps h l) = (\<lambda>w. sh_busy h (rw_ext w))"
  by (simp_all add: caddyRenderDeps_def)

lemma catchE_failWith: "catchE m (\<lambda>e. failWith d bs e (text e)) w = (Inr a, w') \<Longrightarrow> m w = (Inr a, w')"
  by (erule catchE_any) (auto simp: failWith_def elim!: bindE_any split: if_splits)

lemma guarded_InrE:
  assumes "bindE (guard d) k w = (Inr b, w')"
  obtains v where "guard d w = (Inr (), v)" and "k () v = (Inr b, w')"
  using assms by (auto simp: bindE_Inr_iff)

lemma stage_InrE:
  assumes "bindE (catchE m (\<lambda>e. failWith d bs e (text e))) k w = (Inr b, w')"
  obtains v where "m w = (Inr (), v)" and "k () v = (Inr b, w')"
  using assms by (auto simp: bindE_Inr_iff dest: catchE_failWith)

lemma ret_InrD: "ret a w = (Inr b, w') \<Longrightarrow> b = a \<and> w' = w"
  by simp

lemma render_ok:
  assumes "renderDomains (caddyRenderDeps h lost) ds w = (Inr ts, w')"
  shows "ts = dedup (filter (\<lambda>x. x \<noteq> []) ds) \<and> (\<exists>u. same_rows u w' \<and> same_files u w' \<and>
    (\<exists>v. same_rows w v \<and> forE ts (\<lambda>dn. bindE (guard (caddyRenderDeps h lost)) (\<lambda>_. dp_regenerate (caddyRenderDeps h lost) dn)) v = (Inr (), u)))"
proof -
  let ?d = "caddyRenderDeps h lost" and ?ts = "dedup (filter (\<lambda>x. x \<noteq> []) ds)"
  show ?thesis
  proof (cases "?ts = []")
    case True
    with assms show ?thesis by (auto simp: renderDomains_def dedup_def intro: exI [of _ w])
  next
    case False
    then have "bindE (guard ?d) (\<lambda>_. bindE (getsE (snapshotDomainConfigs ?d ?ts)) (\<lambda>bs.
        bindE (catchE (forE ?ts (\<lambda>dn. bindE (guard ?d) (\<lambda>_. dp_regenerate ?d dn)))
          (\<lambda>e. failWith ?d bs e (''Failed to render Caddy config: '' @ message_of e))) (\<lambda>_.
        bindE (catchE (bindE (guard ?d) (\<lambda>_. dp_adapt ?d))
          (\<lambda>e. failWith ?d bs e (''Generated Caddy config failed validation: '' @ stderr_of e))) (\<lambda>_.
        bindE (catchE (bindE (guard ?d) (\<lambda>_. dp_reload ?d))
          (\<lambda>e. failWith ?d bs e (''Caddy reload failed: '' @ stderr_of e))) (\<lambda>_. ret ?ts))))) w = (Inr ts, w')"
      using assms by (simp add: renderDomains_def Let_def)
    then obtain v u u1 u2 u3 u4 where v: "guard ?d w = (Inr (), v)"
      and u: "forE ?ts (\<lambda>dn. bindE (guard ?d) (\<lambda>_. dp_regenerate ?d dn)) v = (Inr (), u)"
      and s: "guard ?d u = (Inr (), u1)" "dp_adapt ?d u1 = (Inr (), u2)" "guard ?d u2 = (Inr (), u3)" "dp_reload ?d u3 = (Inr (), u4)"
      and r: "ts = ?ts" "w' = u4"
      apply (rule guarded_InrE)
      apply (drule bindE_Inr_step [OF getsE_apply, THEN trans [OF sym]])
      apply (elim stage_InrE guarded_InrE)
      apply (drule ret_InrD)
      apply (rule that, assumption+, erule conjunct1, erule conjunct2)
      done
    from caddy.fence [OF s(1)] caddy.adapt [OF s(2)] caddy.fence [OF s(3)] caddy.reload [OF s(4)]
    have "same_rows u u4 \<and> same_files u u4" by (simp add: same_rows_def same_files_def)
    with v u r caddy.fence show ?thesis by blast
  qed
qed


lemma regenerate_text:
  assumes "\<And>w dn. sh_merge h w dn = body (rw_services w) (rw_routes w) dn" and "\<And>p x. \<not> sh_unlink_fails h p x"
    and "dp_regenerate (caddyRenderDeps h lost) dn w = (Inr (), w')"
  shows "body (rw_services w) (rw_routes w) dn = Inr (rw_files w' (caddyFilePath (sh_dir h) dn))"
  using assms(3) by (auto simp: assms(1,2) caddyRenderDeps_def regenerateDomainCaddyConfig_def unlink_quiet_def writeCaddyConfig_def
    hosted_def bindE_Inr_iff Let_def split: sum.splits option.splits prod.splits)

lemma loop_text:
  assumes h: "\<And>w dn. sh_merge h w dn = body (rw_services w) (rw_routes w) dn" "\<And>p x. \<not> sh_unlink_fails h p x"
  shows "forE ts (\<lambda>dn. bindE (guard (caddyRenderDeps h lost)) (\<lambda>_. dp_regenerate (caddyRenderDeps h lost) dn)) w = (Inr (), w') \<Longrightarrow>
    inj_on (caddyFilePath (sh_dir h)) (set ts) \<Longrightarrow> distinct ts \<Longrightarrow>
    same_rows w w' \<and> (\<forall>dn\<in>set ts. body (rw_services w) (rw_routes w) dn = Inr (rw_files w' (caddyFilePath (sh_dir h) dn)))"
proof (induction ts arbitrary: w)
  case (Cons t ts)
  let ?d = "caddyRenderDeps h lost"
  from Cons.prems(1) obtain v u where v: "guard ?d w = (Inr (), v)" and u: "dp_regenerate ?d t v = (Inr (), u)"
    and l: "forE ts (\<lambda>dn. bindE (guard ?d) (\<lambda>_. dp_regenerate ?d dn)) u = (Inr (), w')"
    by (auto simp: bindE_Inr_iff)
  have s: "same_rows w u" using caddy.fence [OF v] caddy.regenerate [OF u] by (blast intro: same_rows_trans)
  from Cons.IH [OF l] Cons.prems(2,3) have ih: "same_rows u w'"
    "\<forall>dn\<in>set ts. body (rw_services u) (rw_routes u) dn = Inr (rw_files w' (caddyFilePath (sh_dir h) dn))" by auto
  have p: "dp_path ?d = caddyFilePath (sh_dir h)" by (simp add: caddyRenderDeps_def)
  have "caddyFilePath (sh_dir h) t \<notin> caddyFilePath (sh_dir h) ` set ts" using Cons.prems(2,3) by (auto simp: inj_on_def)
  with caddy.regenerate_loop [OF subset_refl l] have "rw_files w' (caddyFilePath (sh_dir h) t) = rw_files u (caddyFilePath (sh_dir h) t)"
    by (simp add: outside_def p)
  with regenerate_text [where body = body, OF h u] s ih caddy.fence [OF v] show ?case
    by (auto simp: same_rows_def)
qed simp

section \<open>Fenced effects\<close>

text \<open>
  The fence is the check of the lease, and every single effect keeps \<open>Q\<close> when it starts while the lease is held.
\<close>

definition fenced :: "'x deps \<Rightarrow> ('x \<Rightarrow> bool) \<Rightarrow> ('x rworld \<Rightarrow> bool) \<Rightarrow> bool" where
  "fenced d lost Q \<longleftrightarrow> dp_fence d = Some (lease_fence lost) \<and> (\<forall>w. \<not> lost (rw_ext w) \<longrightarrow> Q w \<longrightarrow>
     (\<forall>dn. Q (snd (dp_regenerate d dn w))) \<and> Q (snd (dp_adapt d w)) \<and> Q (snd (dp_reload d w)) \<and>
     (\<forall>p c. Q (snd (dp_write d p c w))) \<and> (\<forall>p. Q (snd (dp_remove d p w))) \<and>
     (\<forall>ss. Q (w\<lparr>rw_services := ss\<rparr>)) \<and> (\<forall>rs. Q (w\<lparr>rw_routes := rs\<rparr>)))"

lemma held_then:
  assumes "fenced d lost Q" and "\<And>w. \<not> lost (rw_ext w) \<Longrightarrow> Q w \<Longrightarrow> Q (snd (m w))"
  shows "preserves Q (bindE (guard d) (\<lambda>_. m))"
proof (rule preservesI)
  fix w assume "Q w"
  with assms show "Q (snd (bindE (guard d) (\<lambda>_. m) w))"
    by (cases "lost (rw_ext w)") (simp_all add: fenced_def guard_def lease_fence_def bindE_def)
qed

lemma held_first:
  assumes "Q (snd (m w))" and "\<And>a. preserves Q (k a)"
  shows "Q (snd (bindE m k w))"
  using assms by (cases rule: bindE_cases [of m w k]) (auto simp: preserves_def)

lemma keeps_guard: "fenced d lost Q \<Longrightarrow> preserves Q (guard d)"
  by (simp add: fenced_def guard_def preserves_def lease_fence_def)

lemma catch_ignored: "snd (catchE m (\<lambda>_. ret ()) w) = snd (m w)"
  by (cases "m w"; cases "fst (m w)") auto

lemma keeps_restore: assumes k: "fenced d lost Q" shows "preserves Q (restore d bs)"
  unfolding restore_def restore_one_def
  by (intro preserves_intros held_then [OF k])
    (use k in \<open>auto simp: fenced_def catch_ignored split: option.splits\<close>)

lemma keeps_failWith: "fenced d lost Q \<Longrightarrow> preserves Q (failWith d bs e m)"
  unfolding failWith_def rethrow_lost_def by (intro preserves_intros keeps_restore)

lemma keeps_render: assumes k: "fenced d lost Q" shows "preserves Q (renderDomains d ds)"
  unfolding renderDomains_def Let_def
  by (intro preserves_intros keeps_failWith [OF k] keeps_guard [OF k] held_then [OF k]) (use k in \<open>auto simp: fenced_def\<close>)

lemma keeps_update: "fenced d lost Q \<Longrightarrow> \<not> lost (rw_ext w) \<Longrightarrow> Q w \<Longrightarrow> Q (snd (update_service d sid f w))"
  by (simp add: fenced_def update_service_def split: option.split)

lemma keeps_row:
  "fenced d lost Q \<Longrightarrow> \<not> lost (rw_ext w) \<Longrightarrow> Q w \<Longrightarrow> Q (snd (set_target_ip d sid ip w))"
  "fenced d lost Q \<Longrightarrow> \<not> lost (rw_ext w) \<Longrightarrow> Q w \<Longrightarrow> Q (snd (revert_target_ip d sid ip w))"
  by (simp_all add: set_target_ip_def revert_target_ip_def keeps_update)

lemma keeps_upstream: assumes k: "fenced d lost Q" shows "preserves Q (applyServiceUpstream d sid ip)"
  unfolding applyServiceUpstream_def Let_def rethrow_lost_def
  by (intro preserves_intros keeps_guard [OF k] held_then [OF k] held_first [where Q = Q] keeps_row [OF k] keeps_render [OF k])

lemma keeps_sync: "fenced d lost Q \<Longrightarrow> preserves Q (syncServiceUpstream d s ip)"
  unfolding syncServiceUpstream_def by (intro preserves_intros keeps_upstream)


lemma insert_route_world: "snd (insert_http_route r w) = w \<or> (\<exists>rs. snd (insert_http_route r w) = w\<lparr>rw_routes := rs\<rparr>)"
  by (auto simp: insert_http_route_def guardE_apply bindE_def)

lemma find_or_create_world:
  "snd (findOrCreateLxcService d (getsE g) name ip w) = w \<or> (\<exists>ss. snd (findOrCreateLxcService d (getsE g) name ip w) = w\<lparr>rw_services := ss\<rparr>)"
  by (auto simp: findOrCreateLxcService_def insert_service_def guardE_apply bindE_def Let_def split: option.splits)

lemma added_world:
  "snd (catchE (bindE (bindE (getsE g) (\<lambda>i. insert_http_route (row i))) (\<lambda>_. ret a)) (\<lambda>e. ret (b e)) w) = snd (insert_http_route (row (g w)) w)"
  by (cases "insert_http_route (row (g w)) w"; cases "fst (insert_http_route (row (g w)) w)") auto

lemma keeps_rows:
  assumes "fenced d lost Q" and "\<not> lost (rw_ext w)" and "Q w"
  shows "Q (snd (insert_http_route r w))" and "Q (snd (findOrCreateLxcService d (getsE g) name ip w))"
  using insert_route_world [of r w] find_or_create_world [of d g name ip w]
  by (elim disjE exE; use assms in \<open>simp add: fenced_def\<close>)+

lemma keeps_add:
  assumes k: "fenced d lost Q"
  shows "preserves Q (add_routes d (getsE g) sid ss acc)"
proof (induction ss arbitrary: acc)
  case (Cons s ss)
  obtain created existing conflicts where acc: "acc = (created, existing, conflicts)" by (cases acc) auto
  show ?case
    unfolding acc add_routes.simps Let_def
  proof (rule held_then [OF k], subst bindE_Inr_step [OF getsE_apply])
    fix w assume h: "\<not> lost (rw_ext w)" and q: "Q w"
    show "Q (snd ((case find (\<lambda>r. hr_domain r = to_lower (wr_domain s) \<and> hr_path r = ''/'') (rw_routes w) of
        None \<Rightarrow> bindE (catchE (bindE (bindE (getsE g) (\<lambda>i. insert_http_route \<lparr>hr_id = i, hr_service = sid,
              hr_domain = to_lower (wr_domain s), hr_path = ''/'', hr_port = wr_port s, hr_ssl = wr_cert s, hr_force_https = wr_cert s,
              hr_health = (if wr_health s = Some [] then None else wr_health s)\<rparr>))
            (\<lambda>_. ret (created @ [to_lower (wr_domain s)], existing, conflicts)))
            (\<lambda>e. ret (created, existing, conflicts @ [(to_lower (wr_domain s), ''could not add: '' @ message_of e)])))
          (add_routes d (getsE g) sid ss)
      | Some row \<Rightarrow> add_routes d (getsE g) sid ss
          (if hr_service row = sid then (created, existing @ [to_lower (wr_domain s)], conflicts)
           else (created, existing, conflicts @ [(to_lower (wr_domain s), ''already routed elsewhere; not added'')]))) w))"
    proof (cases "find (\<lambda>r. hr_domain r = to_lower (wr_domain s) \<and> hr_path r = ''/'') (rw_routes w)")
      case None
      then show ?thesis
        by (simp only: option.case) (rule held_first [where Q = Q], simp only: added_world, rule keeps_rows [OF k h q], rule Cons.IH)
    next
      case (Some row)
      have "Q (snd (add_routes d (getsE g) sid ss acc' w))" for acc'
        using Cons.IH q unfolding preserves_def by blast
      with Some show ?thesis by (simp only: option.case)
    qed
  qed
qed (simp add: preserves_ret)

lemma keeps_configure:
  assumes k: "fenced d lost Q"
  shows "preserves Q (configureGuestRoutes d (getsE g) name ip services)"
proof -
  have first: "preserves Q (bindE (guard d) (\<lambda>_. bindE (findOrCreateLxcService d (getsE g) name ip) rest))"
    if "\<And>s. preserves Q (rest s)" for rest
    by (rule held_then [OF k], rule held_first [where Q = Q], rule keeps_rows [OF k], assumption+) (rule that)
  show ?thesis
    unfolding configureGuestRoutes_def
    by (rule first) (intro preserves_intros keeps_guard [OF k] keeps_sync [OF k] keeps_add [OF k] keeps_render [OF k])
qed

lemma set_step: "bindE (set_target_ip d sid ip) k w = (Inr r, w') \<Longrightarrow> k () (w\<lparr>rw_services := moved sid ip (dp_clock d w) (rw_services w)\<rparr>) = (Inr r, w')"
  by (auto simp: set_target_ip_def update_service_def moved_def bindE_def split: option.splits)

lemma bind_retD: "bindE m (\<lambda>_. ret c) w = (Inr a, w') \<Longrightarrow> \<exists>b. m w = (Inr b, w')"
  by (cases "m w"; cases "fst (m w)") auto

lemma bind_throw: "bindE m (\<lambda>_. throw e) w \<noteq> (Inr a, w')"
  by (cases "m w"; cases "fst (m w)") auto

lemma apply_ok:
  assumes "applyServiceUpstream d sid ip w = (Inr m, w')" and "um_changed m"
  obtains v ts where "guard d w = (Inr (), v)"
    and "renderDomains d (domainsForService (rw_routes w) sid)
      (v\<lparr>rw_services := moved sid ip (dp_clock d v) (rw_services v)\<rparr>) = (Inr ts, w')"
proof (cases "find (\<lambda>s. sv_id s = sid) (rw_services w)")
  case None
  with assms show ?thesis by (simp add: applyServiceUpstream_def)
next
  case (Some row)
  with assms have "bindE (guard d) (\<lambda>_. bindE (set_target_ip d sid ip) (\<lambda>_.
      bindE (catchE (bindE (renderDomains d (domainsForService (rw_routes w) sid)) (\<lambda>_. ret ()))
        (\<lambda>err. bindE (if err = Lease_lost then ret ()
          else rethrow_lost (bindE (guard d) (\<lambda>_. revert_target_ip d sid (sv_target_ip row)))) (\<lambda>_. throw err))) (\<lambda>_.
      ret \<lparr>um_changed = True, um_old = sv_target_ip row, um_new = ip, um_domains = domainsForService (rw_routes w) sid\<rparr>))) w = (Inr m, w')"
    by (auto simp: applyServiceUpstream_def Let_def split: if_splits)
  then obtain v where v: "guard d w = (Inr (), v)" and c: "bindE (catchE (bindE (renderDomains d (domainsForService (rw_routes w) sid)) (\<lambda>_. ret ()))
        (\<lambda>err. bindE (if err = Lease_lost then ret ()
          else rethrow_lost (bindE (guard d) (\<lambda>_. revert_target_ip d sid (sv_target_ip row)))) (\<lambda>_. throw err))) (\<lambda>_.
      ret \<lparr>um_changed = True, um_old = sv_target_ip row, um_new = ip, um_domains = domainsForService (rw_routes w) sid\<rparr>)
        (v\<lparr>rw_services := moved sid ip (dp_clock d v) (rw_services v)\<rparr>) = (Inr m, w')"
    by (rule guarded_InrE) (drule set_step, rule that)
  from bind_retD [OF c] obtain b where "catchE (bindE (renderDomains d (domainsForService (rw_routes w) sid)) (\<lambda>_. ret ()))
        (\<lambda>err. bindE (if err = Lease_lost then ret ()
          else rethrow_lost (bindE (guard d) (\<lambda>_. revert_target_ip d sid (sv_target_ip row)))) (\<lambda>_. throw err))
        (v\<lparr>rw_services := moved sid ip (dp_clock d v) (rw_services v)\<rparr>) = (Inr b, w')" by blast
  then show ?thesis
  proof (cases rule: catchE_any)
    case (ok a)
    from bind_retD [OF ok(1)] show ?thesis by (elim exE) (rule that [OF v])
  qed (simp add: bind_throw)
qed

section \<open>Properties\<close>

text \<open>
  C19: moving the address of a service is undone when it fails for any reason but a lost lease: the routes and the text of every
  site file are as they were, provided the old texts can be read and written back, and so are the rows of the services but for the
  time of the last change of this one. Only when the database refuses the statement that puts the address back does the row keep the new one.
\<close>

theorem upstream_move_atomic:
  assumes "applyServiceUpstream (caddyRenderDeps h lost) sid ip w = (Inl x, w')" and "x \<noteq> Lease_lost"
    and "distinct (map sv_id (rw_services w))"
    and "\<forall>p c e. rw_files w p = Some c \<longrightarrow> sh_read h p e = None \<and> sh_write h p c e = None" and "\<forall>p e. \<not> sh_unlink_fails h p e"
  shows "rw_routes w' = rw_routes w \<and> rw_files w' = rw_files w \<and>
    (rw_services w' = rw_services w \<or> (\<exists>t. rw_services w' = stamped sid t (rw_services w)) \<or>
     (\<exists>t m. sh_busy h (rw_ext w') = Some m \<and> rw_services w' = moved sid ip t (rw_services w)))"
proof -
  have "restorable_deps (caddyRenderDeps h lost) (rw_files w)" using assms(4,5) by (intro caddy_restorable) auto
  from restorable_deps.apply_atomic [OF this refl assms(3,1,2)] show ?thesis by (simp add: caddy_sel)
qed

text \<open>
  C20: after a successful move the row of the service holds the new address and the site file of each of its domains is the text
  rendered from the rows as they are now: no domain is left on the old address.
\<close>

theorem upstream_move_renders:
  assumes "applyServiceUpstream (caddyRenderDeps h lost) sid ip w = (Inr m, w')" and "um_changed m"
    and "\<forall>w dn. sh_merge h w dn = body (rw_services w) (rw_routes w) dn" and "\<forall>p e. \<not> sh_unlink_fails h p e"
    and "inj_on (caddyFilePath (sh_dir h)) (set (domainsForService (rw_routes w) sid))"
  shows "rw_routes w' = rw_routes w \<and>
    rw_services w' = moved sid ip (sh_clock h (rw_ext w)) (rw_services w) \<and>
    (\<forall>r\<in>set (rw_routes w). hr_service r = sid \<longrightarrow> hr_domain r \<noteq> [] \<longrightarrow>
      body (rw_services w') (rw_routes w') (hr_domain r) = Inr (rw_files w' (caddyFilePath (sh_dir h) (hr_domain r))))"
proof -
  let ?d = "caddyRenderDeps h lost" and ?ds = "domainsForService (rw_routes w) sid"
  obtain v ts where v: "guard ?d w = (Inr (), v)" and "renderDomains ?d ?ds
      (v\<lparr>rw_services := moved sid ip (dp_clock ?d v) (rw_services v)\<rparr>) = (Inr ts, w')"
    by (rule apply_ok [OF assms(1,2)])
  moreover define u where "u = v\<lparr>rw_services := moved sid ip (dp_clock ?d v) (rw_services v)\<rparr>"
  ultimately have r: "renderDomains ?d ?ds u = (Inr ts, w')" by simp
  have ds: "dedup (filter (\<lambda>x. x \<noteq> []) ?ds) = ts" "set ts = set ?ds" "distinct ts" using render_ok [OF r] by (auto simp: domainsForService_def)
  from render_ok [OF r] obtain y z where y: "same_rows u y" "same_rows z w'" "same_files z w'"
    and l: "forE ts (\<lambda>dn. bindE (guard ?d) (\<lambda>_. dp_regenerate ?d dn)) y = (Inr (), z)" by blast
  from loop_text [where body = body, OF _ _ l] assms(3-5) ds
  have t: "same_rows y z" "\<forall>dn\<in>set ?ds. body (rw_services y) (rw_routes y) dn = Inr (rw_files z (caddyFilePath (sh_dir h) dn))" by simp_all
  have "hr_domain r \<in> set ?ds" if "r \<in> set (rw_routes w)" "hr_service r = sid" "hr_domain r \<noteq> []" for r
    using that by (auto simp: domainsForService_def)
  moreover have "rw_ext v = rw_ext w" using v by (auto simp: guard_def caddyRenderDeps_def lease_fence_def split: option.splits if_splits)
  ultimately show ?thesis using t y caddy.fence [OF v] by (simp add: u_def same_rows_def same_files_def caddy_sel)
qed


text \<open>
  C21: nothing is written by a worker whose lease has gone: whatever holds before, and is kept by every single effect (a row, a
  site file, a run of Caddy) that starts while the lease is held, holds after the configuration of a guest's routes, wherever
  in between the lease was lost, and whether it succeeds, fails or rolls back.
\<close>

theorem every_write_fenced:
  assumes "fenced d lost Q" and "Q w"
  shows "Q (snd (configureGuestRoutes d (getsE g) name ip services w))"
  using keeps_configure [OF assms(1)] assms(2) by (simp add: preserves_def)

text \<open>
  C22: a site file that exists but could not be read when the snapshot was taken is not left alone by the rollback: when the new
  configuration then fails validation, the file is removed, and the domain is no longer served.
\<close>

theorem unreadable_backup_lost:
  assumes "dn \<noteq> []" and "\<forall>e. sh_read h (caddyFilePath (sh_dir h) dn) e \<noteq> None"
    and "\<forall>v. \<exists>new. sh_merge h v dn = Inr (Some new)" and "\<forall>x. fst (sh_structure h x) = Inr ()"
    and "\<forall>p c x. sh_write h p c x = None" and "\<forall>p x. \<not> sh_unlink_fails h p x"
    and "\<forall>v. \<exists>se m x. sh_adapt h v = (Inl (Err se m), x)"
  shows "\<exists>m w'. renderDomains (caddyRenderDeps h None) [dn] w = (Inl (Err [] m), w') \<and> rw_files w' (caddyFilePath (sh_dir h) dn) = None"
proof -
  let ?d = "caddyRenderDeps h None" and ?p = "caddyFilePath (sh_dir h) dn"
  have b: "snapshotDomainConfigs ?d [dn] w = [\<lparr>bk_domain = dn, bk_path = ?p, bk_existed = False, bk_content = None\<rparr>]"
    using assms(2) by (auto simp: snapshotDomainConfigs_def snapshot_one_def caddyRenderDeps_def Let_def split: option.splits)
  obtain new x0 where "sh_merge h w dn = Inr (Some new)" "sh_structure h (rw_ext w) = (Inr (), x0)"
    using assms(3,4) by (metis prod.collapse)
  then obtain u where u: "regenerateDomainCaddyConfig h dn w = (Inr (), u)"
    using assms(5) by (simp add: regenerateDomainCaddyConfig_def hosted_def writeCaddyConfig_def bindE_def)
  obtain se m x where a: "sh_adapt h u = (Inl (Err se m), x)" using assms(7) by blast
  obtain q z where z: "hosted (sh_reload h) (snd (unlink_quiet h ?p (u\<lparr>rw_ext := x\<rparr>))) = (q, z)" by fastforce
  have g: "guard ?d = ret ()" by (simp add: guard_def caddyRenderDeps_def)
  have "restore ?d (snapshotDomainConfigs ?d [dn] w) (u\<lparr>rw_ext := x\<rparr>) = (Inr (), z)"
    using z by (cases q) (simp_all add: b restore_def restore_one_def g caddy_sel unlink_quiet_def)
  then have "renderDomains ?d [dn] w = (Inl (Err [] (''Generated Caddy config failed validation: '' @ stderr_of (Err se m))), z)"
    using u a assms(1) by (simp add: renderDomains_def dedup_def Let_def g failWith_def rethrow_lost_def hosted_def caddy_sel)
  moreover have "rw_files z ?p = None" using z assms(6) by (auto simp: hosted_def unlink_quiet_def Let_def split: prod.splits)
  ultimately show ?thesis by blast
qed

section \<open>Witnesses\<close>

text \<open>A host on which every text names the address of the service; Caddy answers what it is told to.\<close>

definition demo_body :: "service list \<Rightarrow> http_route list \<Rightarrow> string \<Rightarrow> rerr + string option" where
  "demo_body ss rs dn = Inr (Some (concat (map (\<lambda>s. case sv_target_ip s of Some a \<Rightarrow> a | None \<Rightarrow> []) ss)))"

definition demo_host :: "(rerr + unit) \<Rightarrow> bool site_host" where
  "demo_host a = \<lparr>sh_dir = ''/sites'', sh_merge = (\<lambda>w dn. demo_body (rw_services w) (rw_routes w) dn),
     sh_structure = (\<lambda>x. (Inr (), x)), sh_write = (\<lambda>_ _ _. None), sh_unlink_fails = (\<lambda>_ _. False), sh_read = (\<lambda>_ _. None),
     sh_adapt = (\<lambda>w. (a, rw_ext w)), sh_reload = (\<lambda>w. (Inr (), rw_ext w)), sh_pass = (\<lambda>_. True),
     sh_clock = (\<lambda>_. 7), sh_busy = (\<lambda>_. None)\<rparr>"

definition demo_service :: service where
  "demo_service = \<lparr>sv_id = ''a'', sv_name = ''web'', sv_kind = ''container_service'', sv_runtime = Some ''lxc'', sv_type = ''docker'',
     sv_status = ''active'', sv_target_ip = Some ''10.0.0.1'', sv_lxc = Some ''web'', sv_is_admin = 0, sv_updated = 0\<rparr>"

definition demo_route :: "string \<Rightarrow> http_route" where
  "demo_route dn = \<lparr>hr_id = dn, hr_service = ''a'', hr_domain = dn, hr_path = ''/'', hr_port = 80, hr_ssl = True,
     hr_force_https = True, hr_health = None\<rparr>"

definition demo_world :: "bool rworld" where
  "demo_world = \<lparr>rw_files = [''/sites/x.org'' \<mapsto> ''10.0.0.1''], rw_services = [demo_service],
     rw_routes = [demo_route ''x.org'', demo_route ''y.org''], rw_ext = False\<rparr>"

definition rejected :: "rerr + unit" where "rejected = Inl (Err ''bad'' [])"

theorem upstream_move_atomic_witness:
  "let (r, w') = applyServiceUpstream (caddyRenderDeps (demo_host rejected) None) ''a'' (Some ''10.0.0.2'') demo_world
   in r = Inl (Err [] ''Generated Caddy config failed validation: bad'') \<and> map sv_target_ip (rw_services w') = [Some ''10.0.0.1''] \<and>
     rw_files w' = rw_files demo_world"
proof -
  let ?r = "applyServiceUpstream (caddyRenderDeps (demo_host rejected) None) ''a'' (Some ''10.0.0.2'') demo_world"
  have r: "?r = (Inl (Err [] ''Generated Caddy config failed validation: bad''), snd ?r)" by (rule prod_eqI) (code_simp, simp)
  have "distinct (map sv_id (rw_services demo_world))" by code_simp
  from upstream_move_atomic [OF r _ this] have "rw_files (snd ?r) = rw_files demo_world \<and> map sv_target_ip (rw_services (snd ?r)) = [Some ''10.0.0.1'']"
    by (auto simp: demo_host_def stamped_def demo_world_def demo_service_def)
  then show ?thesis by (subst r) simp
qed

theorem upstream_move_renders_witness:
  "let w' = snd (applyServiceUpstream (caddyRenderDeps (demo_host (Inr ())) None) ''a'' (Some ''10.0.0.2'') demo_world)
   in rw_files w' ''/sites/x.org'' = Some ''10.0.0.2'' \<and> rw_files w' ''/sites/y.org'' = Some ''10.0.0.2''"
proof -
  let ?r = "applyServiceUpstream (caddyRenderDeps (demo_host (Inr ())) None) ''a'' (Some ''10.0.0.2'') demo_world"
  let ?m = "\<lparr>um_changed = True, um_old = Some ''10.0.0.1'', um_new = Some ''10.0.0.2'', um_domains = [''x.org'', ''y.org'']\<rparr>"
  have "fst ?r = Inr ?m" by code_simp
  then obtain w' where r: "?r = (Inr ?m, w')" by (metis prod.collapse)
  have i: "domainsForService (rw_routes demo_world) ''a'' = [''x.org'', ''y.org'']"
    "caddyFilePath (sh_dir (demo_host (Inr ()))) ''x.org'' = ''/sites/x.org''"
    "caddyFilePath (sh_dir (demo_host (Inr ()))) ''y.org'' = ''/sites/y.org''" by code_simp+
  then have inj: "inj_on (caddyFilePath (sh_dir (demo_host (Inr ())))) (set (domainsForService (rw_routes demo_world) ''a''))" by simp
  have "\<forall>w dn. sh_merge (demo_host (Inr ())) w dn = demo_body (rw_services w) (rw_routes w) dn"
    "\<forall>p e. \<not> sh_unlink_fails (demo_host (Inr ())) p e" by (simp_all add: demo_host_def)
  from upstream_move_renders [OF r _ this inj] i
  have "rw_files w' ''/sites/x.org'' = Some ''10.0.0.2''" "rw_files w' ''/sites/y.org'' = Some ''10.0.0.2''"
    by (auto simp: demo_world_def demo_route_def demo_service_def demo_body_def moved_def split: option.splits)
  with r show ?thesis by simp
qed

definition one_changed :: "bool rworld \<Rightarrow> bool" where
  "one_changed w \<longleftrightarrow> (\<not> rw_ext w \<longrightarrow> rw_files w = rw_files demo_world) \<and>
     (\<exists>p. \<forall>q. q \<noteq> p \<longrightarrow> rw_files w q = rw_files demo_world q)"

text \<open>The lease goes with the first file that is written: no second file is.\<close>

theorem every_write_fenced_witness:
  "\<exists>p. \<forall>q. q \<noteq> p \<longrightarrow>
    rw_files (snd (configureGuestRoutes (caddyRenderDeps (demo_host (Inr ())) (Some id)) (getsE (\<lambda>w. ''n'')) ''web'' (Some ''10.0.0.2'') [] demo_world)) q =
    rw_files demo_world q"
proof -
  have "fenced (caddyRenderDeps (demo_host (Inr ())) (Some id)) id one_changed"
    by (auto simp: fenced_def caddyRenderDeps_def demo_host_def one_changed_def regenerateDomainCaddyConfig_def demo_body_def
      unlink_quiet_def writeCaddyConfig_def hosted_def Let_def bindE_def)
  moreover have "one_changed demo_world" by (simp add: one_changed_def)
  ultimately have "one_changed (snd (configureGuestRoutes (caddyRenderDeps (demo_host (Inr ())) (Some id)) (getsE (\<lambda>w. ''n'')) ''web''
    (Some ''10.0.0.2'') [] demo_world))" by (rule every_write_fenced)
  then show ?thesis by (simp add: one_changed_def)
qed

theorem unreadable_backup_lost_witness:
  "rw_files demo_world ''/sites/x.org'' = Some ''10.0.0.1'' \<and>
    (\<exists>m w'. renderDomains (caddyRenderDeps (demo_host rejected\<lparr>sh_read := \<lambda>_ _. Some (Err [] ''EIO'')\<rparr>) None) [''x.org''] demo_world =
      (Inl (Err [] m), w') \<and> rw_files w' ''/sites/x.org'' = None)"
proof -
  have "caddyFilePath (sh_dir (demo_host rejected\<lparr>sh_read := \<lambda>_ _. Some (Err [] ''EIO'')\<rparr>)) ''x.org'' = ''/sites/x.org''" by code_simp
  with unreadable_backup_lost [of "''x.org''" "demo_host rejected\<lparr>sh_read := \<lambda>_ _. Some (Err [] ''EIO'')\<rparr>" demo_world]
  show ?thesis by (simp add: demo_host_def demo_body_def rejected_def demo_world_def)
qed

end
