(* ===== verification/Net_Egress.thy ===== *)
theory Net_Egress
  imports PP_Time
begin

text \<open>
  Declared outbound access of the application builder's projects: \<open>admin/backend/src/mock2/egress-logic.js\<close> (reading the
  declarations, validation), \<open>mock2/egress-grants.js\<close> (the table \<open>mock2_egress_grants\<close>) and the two queue operations of
  \<open>mock2/queue.js\<close> it calls. Timestamps of the rows are not modelled. Strings are bytes; white space is the ASCII one, and
  the one character outside ASCII whose lower case is an ASCII letter (the Kelvin sign) is not treated.
\<close>

section \<open>Validation\<close>

text \<open>
  \<open>PROTOCOLS[s]\<close> on a plain object. Two lower-case names are inherited from \<open>Object.prototype\<close> and are truthy: what the code
  then passes on prints as the second component says.
\<close>

definition PROTOCOLS :: "(string \<times> string) list" where
  "PROTOCOLS = [(''tcp'', ''tcp''), (''udp'', ''udp''), (''tls'', ''tcp''), (''ldaps'', ''tcp''), (''https'', ''tcp''),
     (''ldap'', ''tcp''), (''http'', ''tcp''), (''constructor'', ''function Object() { [native code] }''),
     (''__proto__'', ''[object Object]'')]"

definition normalizeProtocol :: "string option \<Rightarrow> string option" where
  "normalizeProtocol p =
     (let s = to_lower (trim (case p of None \<Rightarrow> ''tcp'' | Some t \<Rightarrow> if t = [] then ''tcp'' else t))
      in case map_of PROTOCOLS s of Some q \<Rightarrow> Some q | None \<Rightarrow> if s = [] then Some ''tcp'' else None)"

definition octet_text :: "string \<Rightarrow> bool" where
  "octet_text o' \<longleftrightarrow> o' \<noteq> [] \<and> length o' \<le> 3 \<and> all_digits o' \<and> read_nat o' \<le> 255"

definition isIpv4 :: "string \<Rightarrow> bool" where
  "isIpv4 host \<longleftrightarrow> (let ps = split_on (CHR ''.'') (trim host) in length ps = 4 \<and> list_all octet_text ps)"

text \<open>\<open>[a-z0-9]([a-z0-9-]{0,61}[a-z0-9])?\<close>\<close>

definition host_label :: "string \<Rightarrow> bool" where
  "host_label l \<longleftrightarrow> l \<noteq> [] \<and> length l \<le> 63 \<and> list_all (\<lambda>c. is_lower c \<or> is_digit c \<or> c = CHR ''-'') l \<and>
     hd l \<noteq> CHR ''-'' \<and> last l \<noteq> CHR ''-''"

definition isEgressHost :: "string \<Rightarrow> bool" where
  "isEgressHost host \<longleftrightarrow>
     (let h = to_lower (trim host)
      in h \<noteq> [] \<and> length h \<le> 253 \<and>
         (isIpv4 h \<or> (let ps = split_on (CHR ''.'') h in 2 \<le> length ps \<and> list_all host_label ps)))"

definition isEgressPort :: "jsnum \<Rightarrow> bool" where
  "isEgressPort n = (case n of Int_num p \<Rightarrow> 1 \<le> p \<and> p \<le> 65535 | Not_int \<Rightarrow> False)"

definition grantKey :: "string \<Rightarrow> int \<Rightarrow> string option \<Rightarrow> string" where
  "grantKey host port protocol =
     to_lower (trim host) @ ''|'' @ show_int port @ ''|'' @ (case normalizeProtocol protocol of Some q \<Rightarrow> q | None \<Rightarrow> ''tcp'')"

datatype egress_refusal = Bad_host | Bad_port | Bad_protocol

definition validateOperatorEgressInput :: "string \<Rightarrow> jsnum \<Rightarrow> string option \<Rightarrow> egress_refusal + string \<times> int \<times> string" where
  "validateOperatorEgressInput host port protocol =
     (let proto = normalizeProtocol protocol
      in if \<not> isEgressHost host then Inl Bad_host
         else if \<not> isEgressPort port then Inl Bad_port
         else (case (proto, port) of
             (Some q, Int_num p) \<Rightarrow> Inr (to_lower (trim host), p, q)
           | _ \<Rightarrow> Inl Bad_protocol))"

section \<open>Reading the declarations\<close>

definition stripQuotes :: "string \<Rightarrow> string" where
  "stripQuotes v =
     (let s = trim v
      in if starts_with s dq \<and> ends_with s dq \<or> starts_with s [CHR 0x27] \<and> ends_with s [CHR 0x27]
         then butlast (tl s) else s)"

record raw_entry =
  re_host :: "string option"
  re_port :: "string option"
  re_protocol :: "string option"
  re_reason :: "string option"

definition no_entry :: raw_entry where
  "no_entry = \<lparr>re_host = None, re_port = None, re_protocol = None, re_reason = None\<rparr>"

definition set_key :: "string \<times> string \<Rightarrow> raw_entry \<Rightarrow> raw_entry" where
  "set_key kv e =
     (let k = to_lower (fst kv); v = Some (stripQuotes (snd kv))
      in if k = ''host'' then e\<lparr>re_host := v\<rparr> else if k = ''port'' then e\<lparr>re_port := v\<rparr>
         else if k = ''protocol'' then e\<lparr>re_protocol := v\<rparr> else if k = ''reason'' then e\<lparr>re_reason := v\<rparr> else e)"

text \<open>\<open>(.*)$\<close> of a line: no carriage return in it.\<close>

definition dot_all :: "string \<Rightarrow> string option" where
  "dot_all s = (if CHR 0x0D \<in> set s then None else Some s)"

text \<open>\<open>/^egress:\s*(#.*)?$/\<close>\<close>

definition is_egress_line :: "string \<Rightarrow> bool" where
  "is_egress_line line \<longleftrightarrow> prefix ''egress:'' line \<and>
     (let r = dropWhile is_ws (drop 7 line) in r = [] \<or> hd r = CHR ''#'' \<and> dot_all r \<noteq> None)"

text \<open>\<open>/^([a-zA-Z_]+):\s*(.*)$/\<close>\<close>

definition match_kv :: "string \<Rightarrow> (string \<times> string) option" where
  "match_kv s =
     (let k = takeWhile (\<lambda>c. is_lower c \<or> is_upper c \<or> c = CHR ''_'') s; r = drop (length k) s
      in if k \<noteq> [] \<and> prefix '':'' r then map_option (\<lambda>v. (k, v)) (dot_all (dropWhile is_ws (tl r))) else None)"

text \<open>\<open>/^\s*-\s*(.*)$/\<close>\<close>

definition match_dash :: "string \<Rightarrow> string option" where
  "match_dash line =
     (let s = dropWhile is_ws line in if prefix ''-'' s then dot_all (dropWhile is_ws (tl s)) else None)"

definition entry_list :: "raw_entry option \<Rightarrow> raw_entry list" where
  "entry_list cur = (case cur of None \<Rightarrow> [] | Some e \<Rightarrow> [e])"

fun egress_lines :: "bool \<Rightarrow> raw_entry option \<Rightarrow> string list \<Rightarrow> raw_entry list" where
  "egress_lines inside cur [] = entry_list cur"
| "egress_lines inside cur (line # rest) =
     (if is_egress_line line then egress_lines True cur rest
      else if \<not> inside then egress_lines False cur rest
      else if line \<noteq> [] \<and> \<not> is_ws (hd line) then entry_list cur
      else if trim line = [] \<or> prefix ''#'' (dropWhile is_ws line) then egress_lines True cur rest
      else case match_dash line of
        Some r \<Rightarrow> entry_list cur @ egress_lines True (Some (case match_kv r of Some kv \<Rightarrow> set_key kv no_entry | None \<Rightarrow> no_entry)) rest
      | None \<Rightarrow>
          (case (if line \<noteq> [] \<and> is_ws (hd line) then match_kv (dropWhile is_ws line) else None, cur) of
             (Some kv, Some e) \<Rightarrow> egress_lines True (Some (set_key kv e)) rest
           | _ \<Rightarrow> egress_lines True cur rest))"

record declared =
  de_host :: string
  de_port :: int
  de_protocol :: string
  de_reason :: string

definition key_of :: "declared \<Rightarrow> string" where
  "key_of g = grantKey (de_host g) (de_port g) (Some (de_protocol g))"

definition or_empty :: "string option \<Rightarrow> string" where
  "or_empty x = (case x of None \<Rightarrow> [] | Some s \<Rightarrow> s)"

definition declared_of :: "raw_entry \<Rightarrow> declared option" where
  "declared_of e =
     (let host = trim (or_empty (re_host e));
          port = (case re_port e of None \<Rightarrow> Not_int | Some s \<Rightarrow> js_number s);
          protocol = normalizeProtocol (re_protocol e)
      in if \<not> isEgressHost host \<or> \<not> isEgressPort port then None
         else (case (port, protocol) of
             (Int_num p, Some q) \<Rightarrow> Some \<lparr>de_host = to_lower host, de_port = p, de_protocol = q, de_reason = trim (or_empty (re_reason e))\<rparr>
           | _ \<Rightarrow> None))"

text \<open>The first entry of each key.\<close>

fun first_by_key :: "string list \<Rightarrow> declared list \<Rightarrow> declared list" where
  "first_by_key seen [] = []"
| "first_by_key seen (g # gs) =
     (if key_of g \<in> set seen then first_by_key seen gs else g # first_by_key (key_of g # seen) gs)"

definition parseDeclaredEgress :: "string \<Rightarrow> declared list" where
  "parseDeclaredEgress text = first_by_key [] (List.map_filter declared_of (egress_lines False None (split_lines text)))"

section \<open>The table\<close>

datatype grant_status = Pending | Approved | Denied | Revoked

record grant_row =
  eg_id :: int
  eg_project :: int
  eg_host :: string
  eg_port :: int
  eg_protocol :: string
  eg_reason :: "string option"
  eg_status :: grant_status
  eg_reachable :: "string option"
  eg_decided_by :: "int option"
  eg_origin :: string

datatype queue_status = Open | In_progress | Resolved | Dismissed

record queue_item =
  qi_key :: string
  qi_project :: int
  qi_ref :: int
  qi_detail :: string
  qi_status :: queue_status
  qi_resolution :: "string option"

record egress_db =
  db_grants :: "grant_row list"
  db_queue :: "queue_item list"

definition row_key :: "grant_row \<Rightarrow> string" where
  "row_key r = grantKey (eg_host r) (eg_port r) (Some (eg_protocol r))"

definition egressQueueKey :: "int \<Rightarrow> string \<Rightarrow> string" where
  "egressQueueKey project k = ''egress:'' @ show_int project @ '':'' @ k"

definition shortDetail :: "declared \<Rightarrow> string" where
  "shortDetail g = ''Egress to '' @ de_host g @ '':'' @ show_int (de_port g) @ ''/'' @ de_protocol g @
     (let reason = trim (de_reason g) in if reason \<noteq> [] then '' '' @ emdash @ '' '' @ reason else [])"

definition raiseQueueItem :: "string \<Rightarrow> int \<Rightarrow> int \<Rightarrow> string \<Rightarrow> egress_db \<Rightarrow> egress_db" where
  "raiseQueueItem key project ref detail db =
     db\<lparr>db_queue :=
       (if \<exists>q\<in>set (db_queue db). qi_key q = key
        then map (\<lambda>q. if qi_key q = key then q\<lparr>qi_ref := ref, qi_detail := detail, qi_status := Open, qi_resolution := None\<rparr> else q) (db_queue db)
        else db_queue db @ [\<lparr>qi_key = key, qi_project = project, qi_ref = ref, qi_detail = detail, qi_status = Open, qi_resolution = None\<rparr>])\<rparr>"

definition resolveQueueItem :: "string \<Rightarrow> string \<Rightarrow> egress_db \<Rightarrow> egress_db" where
  "resolveQueueItem key resolution db =
     db\<lparr>db_queue := map (\<lambda>q. if qi_key q = key \<and> qi_status q \<noteq> Resolved then q\<lparr>qi_status := Resolved, qi_resolution := Some resolution\<rparr> else q) (db_queue db)\<rparr>"

definition next_id :: "egress_db \<Rightarrow> int" where
  "next_id db = (if db_grants db = [] then 1 else Max (eg_id ` set (db_grants db)) + 1)"

definition update_grant :: "int \<Rightarrow> (grant_row \<Rightarrow> grant_row) \<Rightarrow> egress_db \<Rightarrow> egress_db" where
  "update_grant i f db = db\<lparr>db_grants := map (\<lambda>r. if eg_id r = i then f r else r) (db_grants db)\<rparr>"

definition listApprovedEgressGrants :: "egress_db \<Rightarrow> int \<Rightarrow> grant_row list" where
  "listApprovedEgressGrants db project = filter (\<lambda>r. eg_project r = project \<and> eg_status r = Approved) (db_grants db)"

section \<open>Synchronising the declarations\<close>

text \<open>The declarations are validated again.\<close>

definition redeclare :: "declared \<Rightarrow> declared option" where
  "redeclare d =
     (case normalizeProtocol (Some (de_protocol d)) of
        Some q \<Rightarrow> if isEgressHost (de_host d) \<and> isEgressPort (Int_num (de_port d))
          then Some \<lparr>de_host = to_lower (trim (de_host d)), de_port = de_port d, de_protocol = q, de_reason = trim (de_reason d)\<rparr> else None
      | None \<Rightarrow> None)"

definition opt_text :: "string \<Rightarrow> string option" where
  "opt_text s = (if s = [] then None else Some s)"

definition sync_one :: "int \<Rightarrow> grant_row list \<Rightarrow> declared \<Rightarrow> egress_db \<Rightarrow> egress_db" where
  "sync_one pid existing g db =
     (case find (\<lambda>r. row_key r = key_of g) (rev existing) of
        None \<Rightarrow>
          (let i = next_id db
           in raiseQueueItem (egressQueueKey pid (key_of g)) pid i (shortDetail g)
                (db\<lparr>db_grants := db_grants db @ [\<lparr>eg_id = i, eg_project = pid, eg_host = de_host g, eg_port = de_port g,
                   eg_protocol = de_protocol g, eg_reason = opt_text (de_reason g), eg_status = Pending, eg_reachable = None,
                   eg_decided_by = None, eg_origin = ''declared''\<rparr>]\<rparr>))
      | Some row \<Rightarrow>
          if eg_reason row \<noteq> opt_text (de_reason g) \<and> (eg_status row = Pending \<or> eg_status row = Approved)
          then update_grant (eg_id row) (\<lambda>r. r\<lparr>eg_reason := opt_text (de_reason g)\<rparr>) db else db)"

definition sweeps :: "string list \<Rightarrow> grant_row \<Rightarrow> bool" where
  "sweeps keys r \<longleftrightarrow> eg_origin r \<noteq> ''operator'' \<and> row_key r \<notin> set keys \<and> eg_status r \<noteq> Revoked \<and> eg_status r \<noteq> Denied"

definition sweep_one :: "int \<Rightarrow> grant_row \<Rightarrow> egress_db \<Rightarrow> egress_db" where
  "sweep_one pid r db =
     resolveQueueItem (egressQueueKey pid (row_key r)) ''egress declaration removed'' (update_grant (eg_id r) (\<lambda>x. x\<lparr>eg_status := Revoked\<rparr>) db)"

definition syncDeclaredEgress :: "int \<Rightarrow> declared list \<Rightarrow> egress_db \<Rightarrow> egress_db" where
  "syncDeclaredEgress pid declared db =
     (let decl = first_by_key [] (List.map_filter redeclare declared);
          existing = filter (\<lambda>r. eg_project r = pid) (db_grants db);
          db1 = fold (sync_one pid existing) decl db
      in fold (sweep_one pid) (filter (sweeps (map key_of decl)) existing) db1)"

section \<open>Decisions\<close>

text \<open>\<open>Number(decidedBy)\<close> as SQLite stores it: NaN becomes NULL.\<close>

definition sql_number :: "string option \<Rightarrow> int option" where
  "sql_number s = (case s of None \<Rightarrow> None | Some t \<Rightarrow> (case js_number t of Int_num n \<Rightarrow> Some n | Not_int \<Rightarrow> None))"

definition setEgressGrantStatus :: "int \<Rightarrow> grant_status \<Rightarrow> string option \<Rightarrow> egress_db \<Rightarrow> egress_db" where
  "setEgressGrantStatus i status decidedBy =
     update_grant i (\<lambda>r. r\<lparr>eg_status := status, eg_decided_by := sql_number decidedBy\<rparr>)"

definition setEgressGrantReachable :: "int \<Rightarrow> string option \<Rightarrow> egress_db \<Rightarrow> egress_db" where
  "setEgressGrantReachable i x = update_grant i (\<lambda>r. r\<lparr>eg_reachable := x\<rparr>)"

datatype operator_result = Refused_input egress_refusal | Bind_error | Granted int bool

text \<open>A protocol that is not a string cannot be bound to the statement, which throws before anything is written.\<close>

definition insertOperatorEgressGrant ::
  "int \<Rightarrow> string \<Rightarrow> jsnum \<Rightarrow> string option \<Rightarrow> string \<Rightarrow> string option \<Rightarrow> egress_db \<Rightarrow> operator_result \<times> egress_db" where
  "insertOperatorEgressGrant pid host port protocol reason decidedBy db =
     (case validateOperatorEgressInput host port protocol of
        Inl e \<Rightarrow> (Refused_input e, db)
      | Inr (h, p, q) \<Rightarrow>
          if q \<noteq> ''tcp'' \<and> q \<noteq> ''udp'' then (Bind_error, db)
          else (case find (\<lambda>r. eg_project r = pid \<and> eg_host r = h \<and> eg_port r = p \<and> eg_protocol r = q) (db_grants db) of
              Some row \<Rightarrow>
                (Granted (eg_id row) True, update_grant (eg_id row) (\<lambda>r. r\<lparr>eg_status := Approved, eg_origin := ''operator'',
                   eg_reason := (if trim reason \<noteq> [] then Some (trim reason) else case eg_reason row of Some (c # t) \<Rightarrow> Some (c # t) | _ \<Rightarrow> None),
                   eg_decided_by := sql_number decidedBy\<rparr>) db)
            | None \<Rightarrow>
                (let i = next_id db
                 in (Granted i False, db\<lparr>db_grants := db_grants db @ [\<lparr>eg_id = i, eg_project = pid, eg_host = h, eg_port = p,
                      eg_protocol = q, eg_reason = opt_text (trim reason), eg_status = Approved, eg_reachable = None,
                      eg_decided_by = sql_number decidedBy, eg_origin = ''operator''\<rparr>]\<rparr>))))"

end
