(* ===== verification/Net_Fence.thy ===== *)
theory Net_Fence
  imports Net_Egress
begin

text \<open>
  The network fence of the application builder's projects: \<open>admin/backend/src/mock2/network-logic.js\<close> (addresses, the plan, the
  nftables text) and \<open>mock2/firewall.js\<close> (the reconcile). A rule is built as a record and printed; the printed lines are the
  lines of the code's templates. Resolving a host name, the host's NAT set-up and the runs of \<open>nft\<close> are arguments.
\<close>

section \<open>Addresses\<close>

definition PRIVATE_DEST_RANGES :: "string list" where
  "PRIVATE_DEST_RANGES = [''10.0.0.0/8'', ''172.16.0.0/12'', ''192.168.0.0/16'', ''169.254.0.0/16'']"

definition EGRESS_LOG_PREFIX_OK :: string where "EGRESS_LOG_PREFIX_OK = ''mock2-egress-ok''"
definition EGRESS_LOG_PREFIX_DENY :: string where "EGRESS_LOG_PREFIX_DENY = ''mock2-egress-deny''"
definition EGRESS_LOG_PREFIX_GRANT :: string where "EGRESS_LOG_PREFIX_GRANT = ''mock2-egress-grant''"

definition bridgeNameForProject :: "int \<Rightarrow> string" where
  "bridgeNameForProject i = ''m2br'' @ show_int i"

definition bridge_block :: "int \<Rightarrow> int" where
  "bridge_block n = 200 + (n - 1) div 256 mod 56"

definition bridge_third :: "int \<Rightarrow> int" where
  "bridge_third n = (n - 1) mod 256"

text \<open>None: the id is no positive integer, and the function throws.\<close>

definition bridgeCidrForProject :: "int \<Rightarrow> string option" where
  "bridgeCidrForProject n =
     (if n < 1 then None else Some (''10.'' @ show_int (bridge_block n) @ ''.'' @ show_int (bridge_third n) @ ''.0/24''))"

definition digits13 :: "string \<Rightarrow> bool" where
  "digits13 s \<longleftrightarrow> s \<noteq> [] \<and> length s \<le> 3 \<and> all_digits s"

text \<open>\<open>/^(\d{1,3})\.(\d{1,3})\.(\d{1,3})\.\d{1,3}\/\d{1,2}$/\<close>\<close>

definition match_cidr :: "string \<Rightarrow> (string \<times> string \<times> string) option" where
  "match_cidr cidr =
     (case split_on (CHR ''/'') cidr of
        [a, l] \<Rightarrow>
          (case split_on (CHR ''.'') a of
             [p, q, r, s] \<Rightarrow>
               if list_all digits13 [p, q, r, s] \<and> l \<noteq> [] \<and> length l \<le> 2 \<and> all_digits l then Some (p, q, r) else None
           | _ \<Rightarrow> None)
      | _ \<Rightarrow> None)"

definition gatewayForCidr :: "string \<Rightarrow> string option" where
  "gatewayForCidr cidr = map_option (\<lambda>(p, q, r). p @ ''.'' @ q @ ''.'' @ r @ ''.1'') (match_cidr cidr)"

definition subnetPrefixForCidr :: "string \<Rightarrow> string option" where
  "subnetPrefixForCidr cidr = map_option (\<lambda>(p, q, r). p @ ''.'' @ q @ ''.'' @ r @ ''.'') (match_cidr cidr)"

section \<open>The plan\<close>

record wired_grant =
  wg_host :: string
  wg_ip :: string
  wg_port :: int
  wg_protocol :: string

record project =
  pj_id :: int
  pj_lifecycle :: string
  pj_bridge_cidr :: "string option"
  pj_container_ip :: "string option"
  pj_web_port :: "int option"
  pj_egress :: "wired_grant list"

record fence_entry =
  fe_id :: int
  fe_cidr :: string
  fe_gateway :: string
  fe_containerIp :: string
  fe_webPort :: int
  fe_egress :: "wired_grant list"

definition given :: "string option \<Rightarrow> bool" where
  "given x \<longleftrightarrow> x \<noteq> None \<and> x \<noteq> Some []"

definition isFencedProject :: "project \<Rightarrow> bool" where
  "isFencedProject p \<longleftrightarrow> pj_lifecycle p = ''active'' \<or> pj_lifecycle p = ''archived'' \<and> given (pj_container_ip p)"

text \<open>
  The subnet of a project: the stored one, or the one its id gives. The ids come from the table, so the function that throws
  for other ids is only called where it does not.
\<close>

definition project_cidr :: "project \<Rightarrow> string option" where
  "project_cidr p = (if given (pj_bridge_cidr p) then pj_bridge_cidr p else bridgeCidrForProject (pj_id p))"

definition fence_entry :: "project \<Rightarrow> fence_entry option" where
  "fence_entry p =
     (if \<not> isFencedProject p then None
      else case project_cidr p of
        None \<Rightarrow> None
      | Some cidr \<Rightarrow>
          (case (gatewayForCidr cidr, pj_container_ip p, pj_web_port p) of
             (Some gateway, Some (c # ip), Some port) \<Rightarrow>
               if port = 0 then None
               else Some \<lparr>fe_id = pj_id p, fe_cidr = cidr, fe_gateway = gateway, fe_containerIp = c # ip, fe_webPort = port,
                 fe_egress = pj_egress p\<rparr>
           | _ \<Rightarrow> None))"

definition buildFenceEntries :: "project list \<Rightarrow> fence_entry list" where
  "buildFenceEntries = List.map_filter fence_entry"

section \<open>Rules\<close>

datatype dest = Addr string | Private_ranges

datatype action = Log string | Accept | Drop | Reject

record nft_rule =
  nr_saddr :: "string option"
  nr_daddr :: "dest option"
  nr_l4 :: "(string \<times> int) option"
  nr_new :: bool
  nr_action :: action
  nr_comment :: string

definition show_dest :: "dest \<Rightarrow> string" where
  "show_dest d = (case d of Addr a \<Rightarrow> a | Private_ranges \<Rightarrow> ''{ '' @ join '', '' PRIVATE_DEST_RANGES @ '' }'')"

definition show_action :: "action \<Rightarrow> string" where
  "show_action a = (case a of Log p \<Rightarrow> ''log prefix '' @ dq @ p @ dq | Accept \<Rightarrow> ''accept'' | Drop \<Rightarrow> ''drop''
     | Reject \<Rightarrow> ''reject with icmpx type admin-prohibited'')"

definition show_rule :: "nft_rule \<Rightarrow> string" where
  "show_rule r = ''    '' @ join '' ''
     ((case nr_saddr r of Some a \<Rightarrow> [''ip saddr '' @ a] | None \<Rightarrow> []) @
      (case nr_daddr r of Some d \<Rightarrow> [''ip daddr '' @ show_dest d] | None \<Rightarrow> []) @
      (case nr_l4 r of Some (p, n) \<Rightarrow> [p @ '' dport '' @ show_int n] | None \<Rightarrow> []) @
      (if nr_new r then [''ct state new''] else []) @
      [show_action (nr_action r), ''comment '' @ dq @ nr_comment r @ dq])"

definition tag_of :: "fence_entry \<Rightarrow> string" where
  "tag_of e = ''mock2 p'' @ show_int (fe_id e)"

definition mk_rule :: "string option \<Rightarrow> dest option \<Rightarrow> (string \<times> int) option \<Rightarrow> bool \<Rightarrow> action \<Rightarrow> string \<Rightarrow> nft_rule" where
  "mk_rule s d l n a c = \<lparr>nr_saddr = s, nr_daddr = d, nr_l4 = l, nr_new = n, nr_action = a, nr_comment = c\<rparr>"

definition grant_ip :: "wired_grant \<Rightarrow> string" where
  "grant_ip g = trim (if wg_ip g \<noteq> [] then wg_ip g else if isIpv4 (wg_host g) then wg_host g else [])"

definition grant_rules :: "string \<Rightarrow> int \<Rightarrow> wired_grant \<Rightarrow> nft_rule list" where
  "grant_rules cidr pid g =
     (case normalizeProtocol (Some (wg_protocol g)) of
        None \<Rightarrow> []
      | Some proto \<Rightarrow>
          if grant_ip g = [] \<or> \<not> isIpv4 (grant_ip g) \<or> \<not> isEgressPort (Int_num (wg_port g)) then []
          else [mk_rule (Some cidr) (Some (Addr (grant_ip g))) (Some (proto, wg_port g)) True
                  (Log (EGRESS_LOG_PREFIX_GRANT @ '' p'' @ show_int pid @ '': '')) (''mock2 p'' @ show_int pid @ '' egress-grant-log''),
                mk_rule (Some cidr) (Some (Addr (grant_ip g))) (Some (proto, wg_port g)) False Accept
                  (''mock2 p'' @ show_int pid @ '' egress-grant'')])"

definition forward_rules :: "fence_entry \<Rightarrow> nft_rule list" where
  "forward_rules e =
     [mk_rule None (Some (Addr (fe_containerIp e))) (Some (''tcp'', fe_webPort e)) False Accept (tag_of e @ '' web''),
      mk_rule None (Some (Addr (fe_containerIp e))) None False Drop (tag_of e @ '' deny-inbound'')] @
     concat (map (grant_rules (fe_cidr e) (fe_id e)) (fe_egress e)) @
     [mk_rule (Some (fe_cidr e)) (Some Private_ranges) None True (Log (EGRESS_LOG_PREFIX_DENY @ '' p'' @ show_int (fe_id e) @ '': ''))
        (tag_of e @ '' deny-private-log''),
      mk_rule (Some (fe_cidr e)) (Some Private_ranges) None False Reject (tag_of e @ '' deny-private''),
      mk_rule (Some (fe_cidr e)) None None True (Log (EGRESS_LOG_PREFIX_OK @ '' p'' @ show_int (fe_id e) @ '': '')) (tag_of e @ '' egress-log''),
      mk_rule (Some (fe_cidr e)) None None False Accept (tag_of e @ '' egress'')]"

definition input_rules :: "fence_entry \<Rightarrow> nft_rule list" where
  "input_rules e =
     [mk_rule (Some (fe_cidr e)) (Some (Addr (fe_gateway e))) (Some (''udp'', 53)) False Accept (tag_of e @ '' dns''),
      mk_rule (Some (fe_cidr e)) (Some (Addr (fe_gateway e))) (Some (''tcp'', 53)) False Accept (tag_of e @ '' dns''),
      mk_rule (Some (fe_cidr e)) (Some (Addr (fe_gateway e))) (Some (''udp'', 67)) False Accept (tag_of e @ '' dhcp''),
      mk_rule (Some (fe_cidr e)) None None False Drop (tag_of e @ '' deny-host'')]"

definition chain_body :: "nft_rule list \<Rightarrow> string" where
  "chain_body rs = (if rs = [] then ''    # (no active project bridges)'' else join nl (map show_rule rs))"

definition renderMock2Nft :: "fence_entry list \<Rightarrow> string" where
  "renderMock2Nft es = join nl
     [''# Generated by ProxyPilot Mock2 (Phase M4, ADR-010). Do not edit by hand.'',
      ''# A dedicated table so the CLI firewall'' @ [CHR 0x27] @ ''s `flush table inet proxypilot` can'',
      ''# never clobber it, and so a disabled host has no Mock2 nftables state at all.'',
      ''add table inet mock2'', ''flush table inet mock2'', [],
      ''table inet mock2 {'', ''  chain forward {'', ''    type filter hook forward priority -10; policy accept;'',
      ''    ct state established,related accept'', ''    ct state invalid drop'', chain_body (concat (map forward_rules es)), ''  }'', [],
      ''  chain input {'', ''    type filter hook input priority -10; policy accept;'', ''    ct state established,related accept'',
      chain_body (concat (map input_rules es)), ''  }'', ''}'', []]"

section \<open>The reconcile\<close>

text \<open>
  The wired grants of a project: its approved ones whose host resolves. \<open>resolve\<close> stands for \<open>resolveEgressHost\<close>, which answers
  an IPv4 address or nothing.
\<close>

definition wire :: "(string \<Rightarrow> string option) \<Rightarrow> grant_row list \<Rightarrow> wired_grant list" where
  "wire resolve rows = List.map_filter (\<lambda>g. map_option (\<lambda>ip.
     \<lparr>wg_host = eg_host g, wg_ip = ip, wg_port = eg_port g, wg_protocol = eg_protocol g\<rparr>) (resolve (eg_host g))) rows"

definition attachApprovedEgress :: "(string \<Rightarrow> string option) \<Rightarrow> egress_db \<Rightarrow> project list \<Rightarrow> project list" where
  "attachApprovedEgress resolve db = map (\<lambda>p.
     p\<lparr>pj_egress := (if \<not> isFencedProject p \<or> pj_id p = 0 then [] else wire resolve (listApprovedEgressGrants db (pj_id p)))\<rparr>)"

record fence_state =
  fs_entries :: "fence_entry list"
  fs_applied_ok :: bool
  fs_error :: "string option"

definition last_chars :: "nat \<Rightarrow> string \<Rightarrow> string" where
  "last_chars n s = drop (length s - n) s"

text \<open>\<open>nft -f -\<close> answers its exit code and its output; without entries the table is deleted, whatever that answers.\<close>

definition applyMock2Nft :: "(string \<Rightarrow> 's \<Rightarrow> (int \<times> string) \<times> 's) \<Rightarrow> ('s \<Rightarrow> 's) \<Rightarrow> string \<Rightarrow> bool \<Rightarrow> 's \<Rightarrow> (string option) \<times> 's" where
  "applyMock2Nft nft delete_table ruleset hasEntries s =
     (if \<not> hasEntries then (None, delete_table s)
      else let ((code, out), s') = nft ruleset s in (if code = 0 then None else Some (last_chars 500 (trim out)), s'))"

definition reconcileMock2Firewall ::
  "('s \<Rightarrow> 's) \<Rightarrow> (string \<Rightarrow> 's \<Rightarrow> (int \<times> string) \<times> 's) \<Rightarrow> ('s \<Rightarrow> 's) \<Rightarrow> (string \<Rightarrow> string option) \<Rightarrow> egress_db \<Rightarrow> project list \<Rightarrow> 's \<Rightarrow> fence_state \<times> 's" where
  "reconcileMock2Firewall host_egress nft delete_table resolve db projects s =
     (let entries = buildFenceEntries (attachApprovedEgress resolve db projects);
          (err, s') = applyMock2Nft nft delete_table (renderMock2Nft entries) (entries \<noteq> []) (host_egress s)
      in (\<lparr>fs_entries = entries, fs_applied_ok = (err = None), fs_error = (if err = Some [] then None else err)\<rparr>, s'))"

section \<open>The other readings\<close>

record port_drift =
  dr_tcp :: "int list"
  dr_udp :: "int list"
  dr_hasDrift :: bool

definition BENIGN_SYSTEM_TCP_PORTS :: "int list" where "BENIGN_SYSTEM_TCP_PORTS = [5355]"
definition BENIGN_SYSTEM_UDP_PORTS :: "int list" where "BENIGN_SYSTEM_UDP_PORTS = [68, 546, 5353, 5355]"

definition computePortDrift :: "int option \<Rightarrow> int list \<Rightarrow> int list \<Rightarrow> port_drift" where
  "computePortDrift declared tcpAnyHost udpAnyHost =
     (let tcp = filter (\<lambda>p. Some p \<noteq> declared \<and> p \<notin> set BENIGN_SYSTEM_TCP_PORTS) tcpAnyHost;
          udp = filter (\<lambda>p. p \<notin> set BENIGN_SYSTEM_UDP_PORTS) udpAnyHost
      in \<lparr>dr_tcp = tcp, dr_udp = udp, dr_hasDrift = (tcp \<noteq> [] \<or> udp \<noteq> [])\<rparr>)"

end
