(* ===== verification/Net_Safety.thy ===== *)
theory Net_Safety
  imports Net_Fence PP_Lines
begin

text \<open>
  What the fence lets through. The rules are read as nftables reads them: the first rule with a verdict that matches decides,
  log rules pass on, the policy accepts. An address is its 32-bit value.
\<close>

section \<open>Reading a chain\<close>

definition addr_val :: "string \<Rightarrow> nat" where
  "addr_val s = foldl (\<lambda>a o'. 256 * a + read_nat o') 0 (split_on (CHR ''.'') s)"

definition in_net :: "string \<Rightarrow> nat \<Rightarrow> bool" where
  "in_net net v \<longleftrightarrow>
     (case split_on (CHR ''/'') net of
        [a, l] \<Rightarrow> v div 2 ^ (32 - read_nat l) = addr_val a div 2 ^ (32 - read_nat l)
      | _ \<Rightarrow> v = addr_val net)"

datatype conn_state = New | Established | Related | Invalid

record packet =
  pk_src :: nat
  pk_dst :: nat
  pk_proto :: string
  pk_dport :: int
  pk_state :: conn_state

definition is_private :: "nat \<Rightarrow> bool" where
  "is_private v \<longleftrightarrow> (\<exists>n\<in>set PRIVATE_DEST_RANGES. in_net n v)"

definition in_dest :: "dest \<Rightarrow> nat \<Rightarrow> bool" where
  "in_dest d v = (case d of Addr a \<Rightarrow> in_net a v | Private_ranges \<Rightarrow> is_private v)"

definition rule_matches :: "nft_rule \<Rightarrow> packet \<Rightarrow> bool" where
  "rule_matches r p \<longleftrightarrow>
     (case nr_saddr r of None \<Rightarrow> True | Some a \<Rightarrow> in_net a (pk_src p)) \<and>
     (case nr_daddr r of None \<Rightarrow> True | Some d \<Rightarrow> in_dest d (pk_dst p)) \<and>
     (case nr_l4 r of None \<Rightarrow> True | Some (q, n) \<Rightarrow> pk_proto p = q \<and> pk_dport p = n) \<and> (nr_new r \<longrightarrow> pk_state p = New)"

fun chain :: "nft_rule list \<Rightarrow> packet \<Rightarrow> action" where
  "chain [] p = Accept"
| "chain (r # rs) p =
     (if rule_matches r p then (case nr_action r of Log x \<Rightarrow> chain rs p | a \<Rightarrow> a) else chain rs p)"

definition fence_forward :: "fence_entry list \<Rightarrow> packet \<Rightarrow> action" where
  "fence_forward es p =
     (if pk_state p = Established \<or> pk_state p = Related then Accept else if pk_state p = Invalid then Drop
      else chain (concat (map forward_rules es)) p)"

definition fence_input :: "fence_entry list \<Rightarrow> packet \<Rightarrow> action" where
  "fence_input es p =
     (if pk_state p = Established \<or> pk_state p = Related then Accept else chain (concat (map input_rules es)) p)"

lemma rule_matches_mk: "rule_matches (mk_rule s d l n a c) p \<longleftrightarrow>
    (case s of None \<Rightarrow> True | Some x \<Rightarrow> in_net x (pk_src p)) \<and> (case d of None \<Rightarrow> True | Some x \<Rightarrow> in_dest x (pk_dst p)) \<and>
    (case l of None \<Rightarrow> True | Some (q, m) \<Rightarrow> pk_proto p = q \<and> pk_dport p = m) \<and> (n \<longrightarrow> pk_state p = New)"
  by (simp add: rule_matches_def mk_rule_def)

lemma mk_action [simp]: "nr_action (mk_rule s d l n a c) = a"
  by (simp add: mk_rule_def)

section \<open>The forward chain\<close>

definition grant_passes :: "wired_grant \<Rightarrow> packet \<Rightarrow> bool" where
  "grant_passes g p \<longleftrightarrow> normalizeProtocol (Some (wg_protocol g)) = Some (pk_proto p) \<and> isIpv4 (grant_ip g) \<and> grant_ip g \<noteq> [] \<and>
     isEgressPort (Int_num (wg_port g)) \<and> pk_dport p = wg_port g \<and> in_net (grant_ip g) (pk_dst p)"

definition is_web :: "fence_entry \<Rightarrow> packet \<Rightarrow> bool" where
  "is_web f p \<longleftrightarrow> pk_proto p = ''tcp'' \<and> pk_dport p = fe_webPort f"

lemma chain_grant:
  assumes "in_net cidr (pk_src p)"
  shows "chain (grant_rules cidr i g @ rs) p = (if grant_passes g p then Accept else chain rs p)"
proof (cases "normalizeProtocol (Some (wg_protocol g)) = None \<or> grant_ip g = [] \<or> \<not> isIpv4 (grant_ip g) \<or> \<not> isEgressPort (Int_num (wg_port g))")
  case True
  then have "grant_rules cidr i g = []" "\<not> grant_passes g p" by (auto simp: grant_rules_def grant_passes_def split: option.splits)
  then show ?thesis by simp
next
  case False
  then obtain q where q: "normalizeProtocol (Some (wg_protocol g)) = Some q" by auto
  with False show ?thesis using assms
    by (simp add: grant_rules_def grant_passes_def rule_matches_mk in_dest_def conj_commute)
qed

lemma chain_grants:
  "in_net cidr (pk_src p) \<Longrightarrow>
    chain (concat (map (grant_rules cidr i) gs) @ rs) p = (if \<exists>g\<in>set gs. grant_passes g p then Accept else chain rs p)"
  by (induction gs) (simp_all add: chain_grant)

lemma chain_grants_other:
  "\<not> in_net cidr (pk_src p) \<Longrightarrow> chain (concat (map (grant_rules cidr i) gs) @ rs) p = chain rs p"
  by (induction gs) (auto simp: grant_rules_def rule_matches_mk split: option.splits)

lemma chain_entry:
  assumes "pk_state p = New"
  shows "chain (forward_rules f @ rs) p =
    (if in_net (fe_containerIp f) (pk_dst p) then if is_web f p then Accept else Drop
     else if in_net (fe_cidr f) (pk_src p)
       then if \<exists>g\<in>set (fe_egress f). grant_passes g p then Accept else if is_private (pk_dst p) then Reject else Accept
     else chain rs p)"
  using assms by (auto simp: forward_rules_def rule_matches_mk in_dest_def is_web_def chain_grants chain_grants_other)

lemma chain_walk:
  assumes "pk_state p = New" and "in_net (fe_cidr e) (pk_src p)" and "\<forall>f\<in>set xs. \<not> in_net (fe_cidr f) (pk_src p)"
  shows "fence_forward (xs @ e # ys) p =
    (case find (\<lambda>f. in_net (fe_containerIp f) (pk_dst p)) (xs @ [e]) of
       Some f \<Rightarrow> if is_web f p then Accept else Drop
     | None \<Rightarrow> if \<exists>g\<in>set (fe_egress e). grant_passes g p then Accept else if is_private (pk_dst p) then Reject else Accept)"
proof -
  have "chain (concat (map forward_rules (xs @ e # ys))) p =
    (case find (\<lambda>f. in_net (fe_containerIp f) (pk_dst p)) (xs @ [e]) of
       Some f \<Rightarrow> if is_web f p then Accept else Drop
     | None \<Rightarrow> if \<exists>g\<in>set (fe_egress e). grant_passes g p then Accept else if is_private (pk_dst p) then Reject else Accept)"
    using assms(3)
    by (induction xs) (simp_all add: chain_entry [OF assms(1)] assms(2))
  with assms(1) show ?thesis by (simp add: fence_forward_def)
qed

lemma find_skip: "\<forall>f\<in>set xs. \<not> P f \<Longrightarrow> find P (xs @ ys) = find P ys"
  by (induction xs) auto

section \<open>The subnets\<close>

definition quad :: "nat \<Rightarrow> nat \<Rightarrow> nat \<Rightarrow> nat \<Rightarrow> string" where
  "quad a b c d = join ''.'' [show_nat a, show_nat b, show_nat c, show_nat d]"

lemma no_dot [simp]: "CHR ''.'' \<notin> set (show_nat n)" and no_slash [simp]: "CHR ''/'' \<notin> set (show_nat n)"
  by (rule show_nat_no_char, simp add: class_defs)+

lemma quad_parts: "split_on (CHR ''.'') (quad a b c d) = [show_nat a, show_nat b, show_nat c, show_nat d]"
  unfolding quad_def by (rule split_on_join) (auto simp: no_dot)

lemma quad_val: "addr_val (quad a b c d) = ((a * 256 + b) * 256 + c) * 256 + d"
  by (simp add: addr_val_def quad_parts algebra_simps)

lemma quad_chars: "x \<in> set (quad a b c d) \<Longrightarrow> is_digit x \<or> x = CHR ''.''"
  by (auto simp: quad_def dest: show_nat_digits)

lemma quad_slash: "CHR ''/'' \<notin> set (quad a b c d)"
  using quad_chars [of "CHR ''/''" a b c d] by (auto simp: class_defs)

lemma split_slash: "CHR ''/'' \<notin> set a \<Longrightarrow> CHR ''/'' \<notin> set l \<Longrightarrow> split_on (CHR ''/'') (a @ ''/'' @ l) = [a, l]"
  using split_on_join [of "[a, l]" "CHR ''/''"] by force

lemma in_net_quad [simp]: "in_net (quad a b c d) v \<longleftrightarrow> v = ((a * 256 + b) * 256 + c) * 256 + d"
proof -
  have "split_on (CHR ''/'') (quad a b c d) = [quad a b c d]"
    using quad_slash [of a b c d] unfolding split_on_def by (intro split_by_none) auto
  then show ?thesis by (simp add: in_net_def quad_val)
qed

lemma in_net_cidr: "in_net (quad a b c d @ CHR ''/'' # show_nat l) v \<longleftrightarrow>
    v div 2 ^ (32 - l) = (((a * 256 + b) * 256 + c) * 256 + d) div 2 ^ (32 - l)"
proof -
  from split_slash [OF quad_slash no_slash] show ?thesis by (simp add: in_net_def quad_val)
qed

definition third_val :: "int \<Rightarrow> nat" where
  "third_val i = (10 * 256 + nat (bridge_block i)) * 256 + nat (bridge_third i)"

lemma derived_cidr:
  assumes "1 \<le> i"
  shows "bridgeCidrForProject i = Some (quad 10 (nat (bridge_block i)) (nat (bridge_third i)) 0 @ ''/'' @ show_nat 24)"
proof -
  have n: "show_nat 10 = ''10''" "show_nat 0 = ''0''" "show_nat 24 = ''24''" by code_simp+
  have "0 \<le> bridge_block i" "0 \<le> bridge_third i" by (simp_all add: bridge_block_def bridge_third_def)
  then show ?thesis using assms by (simp add: bridgeCidrForProject_def quad_def n show_int_def)
qed

lemma in_derived: "1 \<le> i \<Longrightarrow> bridgeCidrForProject i = Some c \<Longrightarrow> in_net c v \<longleftrightarrow> v div 256 = third_val i"
  by (auto simp: derived_cidr in_net_cidr [of _ _ _ _ 24, simplified] third_val_def)

lemma base_256:
  fixes a b t u :: nat
  assumes "a * 256 + t = b * 256 + u" and "t < 256" and "u < 256"
  shows "a = b \<and> t = u"
proof -
  have "(a * 256 + t) div 256 = a" "(a * 256 + t) mod 256 = t" "(b * 256 + u) div 256 = b" "(b * 256 + u) mod 256 = u"
    using assms(2,3) by simp_all
  with assms(1) show ?thesis by simp
qed

lemma third_val_inject:
  assumes "1 \<le> i" "i \<le> 14336" "1 \<le> j" "j \<le> 14336" "third_val i = third_val j"
  shows "i = j"
proof -
  have b: "0 \<le> bridge_third k" "bridge_third k < 256" "0 \<le> bridge_block k" for k
    by (simp_all add: bridge_third_def bridge_block_def)
  have "nat (bridge_third k) < 256" for k using b [of k] by linarith
  from base_256 [OF assms(5) [unfolded third_val_def] this this]
  have "10 * 256 + nat (bridge_block i) = 10 * 256 + nat (bridge_block j)" "nat (bridge_third i) = nat (bridge_third j)" by blast+
  then have "bridge_block i = bridge_block j" "bridge_third i = bridge_third j" using b [of i] b [of j] by linarith+
  moreover have "(k - 1) div 256 mod 56 = (k - 1) div 256" if "1 \<le> k" "k \<le> 14336" for k :: int
    using that by (intro mod_pos_pos_trivial) auto
  ultimately have "(i - 1) div 256 = (j - 1) div 256" "(i - 1) mod 256 = (j - 1) mod 256"
    using assms by (simp_all add: bridge_block_def bridge_third_def)
  then show ?thesis by (metis div_mult_mod_eq diff_add_cancel)
qed


lemma third_val_range:
  assumes "1 \<le> i"
  shows "10 * 65536 + 200 * 256 \<le> third_val i" and "third_val i < 10 * 65536 + 65536"
proof -
  have "bridge_block i \<le> 255" "200 \<le> bridge_block i" "bridge_third i < 256" "0 \<le> bridge_third i"
    using pos_mod_bound [of 56 "(i - 1) div 256"] by (simp_all add: bridge_block_def bridge_third_def)
  then have "nat (bridge_block i) \<le> 255" "200 \<le> nat (bridge_block i)" "nat (bridge_third i) < 256" by linarith+
  then show "10 * 65536 + 200 * 256 \<le> third_val i" and "third_val i < 10 * 65536 + 65536" by (simp_all add: third_val_def)
qed

lemma fixed_nets: "''10.0.0.0/8'' = quad 10 0 0 0 @ ''/'' @ show_nat 8" "''10.0.100.0/24'' = quad 10 0 100 0 @ ''/'' @ show_nat 24"
  "''10.100.0.0/24'' = quad 10 100 0 0 @ ''/'' @ show_nat 24"
  by code_simp+

lemma gateway_derived: "1 \<le> i \<Longrightarrow> bridgeCidrForProject i = Some c \<Longrightarrow>
    gatewayForCidr c = Some (quad 10 (nat (bridge_block i)) (nat (bridge_third i)) 1)"
proof -
  assume i: "1 \<le> i" and c: "bridgeCidrForProject i = Some c"
  have n: "show_nat 10 = ''10''" "show_nat 0 = ''0''" "show_nat (Suc 0) = ''1''" "show_nat 24 = ''24''" "digits13 ''10''" "digits13 ''0''"
    "all_digits ''24''" by code_simp+
  have d: "digits13 (show_nat k)" if "k < 1000" for k
    using that length_show_nat_3 [of k] by (simp add: digits13_def)
  have "nat (bridge_block i) < 1000" "nat (bridge_third i) < 1000"
    using pos_mod_bound [of 56 "(i - 1) div 256"] pos_mod_bound [of 256 "i - 1"]
    unfolding bridge_block_def bridge_third_def by linarith+
  with d have d': "digits13 (show_nat (nat (bridge_block i)))" "digits13 (show_nat (nat (bridge_third i)))" by auto
  from c have c': "c = quad 10 (nat (bridge_block i)) (nat (bridge_third i)) 0 @ ''/'' @ show_nat 24" by (simp add: derived_cidr [OF i])
  have "match_cidr c = Some (show_nat 10, show_nat (nat (bridge_block i)), show_nat (nat (bridge_third i)))"
    unfolding match_cidr_def c' split_slash [OF quad_slash no_slash] list.case quad_parts using d' by (simp add: n)
  then show ?thesis by (simp add: gatewayForCidr_def quad_def n)
qed

section \<open>Entries of projects\<close>

lemma fence_entry_Some: "fence_entry q = Some e \<Longrightarrow> fe_id e = pj_id q \<and> project_cidr q = Some (fe_cidr e) \<and>
    gatewayForCidr (fe_cidr e) = Some (fe_gateway e) \<and> fe_egress e = pj_egress q \<and> isFencedProject q"
  by (auto simp: fence_entry_def split: if_splits option.splits list.splits)

lemma entry_of_project:
  assumes "e \<in> set (buildFenceEntries ps)"
  obtains q where "q \<in> set ps" and "fence_entry q = Some e" and "fe_id e = pj_id q" and "project_cidr q = Some (fe_cidr e)"
    and "gatewayForCidr (fe_cidr e) = Some (fe_gateway e)" and "fe_egress e = pj_egress q" and "isFencedProject q"
proof -
  obtain q where "q \<in> set ps" "fence_entry q = Some e"
    using assms by (auto simp: buildFenceEntries_def List.map_filter_def)
  with that fence_entry_Some show ?thesis by metis
qed

definition own_subnet :: "project \<Rightarrow> bool" where
  "own_subnet q \<longleftrightarrow> 1 \<le> pj_id q \<and> pj_id q \<le> 14336 \<and> (given (pj_bridge_cidr q) \<longrightarrow> pj_bridge_cidr q = bridgeCidrForProject (pj_id q))"

lemma own_cidr: "own_subnet q \<Longrightarrow> project_cidr q = bridgeCidrForProject (pj_id q)"
  by (simp add: own_subnet_def project_cidr_def)

lemma entries_before:
  assumes "distinct (map pj_id ps)" and "\<forall>q\<in>set ps. own_subnet q" and "e \<in> set (buildFenceEntries ps)" and "in_net (fe_cidr e) v"
  obtains xs ys where "buildFenceEntries ps = xs @ e # ys" and "\<forall>f\<in>set xs. \<not> in_net (fe_cidr f) v"
proof -
  obtain xs ys where s: "buildFenceEntries ps = xs @ e # ys" "e \<notin> set xs" using split_list_first [OF assms(3)] by blast
  obtain qe where qe: "qe \<in> set ps" "fence_entry qe = Some e" "project_cidr qe = Some (fe_cidr e)"
    using entry_of_project [OF assms(3)] by metis
  have "\<not> in_net (fe_cidr f) v" if f: "f \<in> set xs" for f
  proof
    assume v: "in_net (fe_cidr f) v"
    have "f \<in> set (buildFenceEntries ps)" using f s(1) by simp
    then obtain qf where qf: "qf \<in> set ps" "fence_entry qf = Some f" "project_cidr qf = Some (fe_cidr f)"
      using entry_of_project by metis
    have o: "own_subnet qe" "own_subnet qf" using assms(2) qe qf by auto
    have "third_val (pj_id qe) = third_val (pj_id qf)"
      using in_derived [of "pj_id qe" "fe_cidr e" v] in_derived [of "pj_id qf" "fe_cidr f" v] own_cidr [OF o(1)] own_cidr [OF o(2)]
        o qe(3) qf(3) v assms(4) by (simp add: own_subnet_def)
    with third_val_inject o have "pj_id qe = pj_id qf" by (simp add: own_subnet_def)
    with assms(1) qe(1) qf(1) have "qe = qf" by (auto simp: distinct_map inj_on_def)
    with qe(2) qf(2) f s(2) show False by simp
  qed
  with s(1) show ?thesis using that by blast
qed

lemma attach_ids: "map pj_id (attachApprovedEgress resolve db ps) = map pj_id ps"
  by (simp add: attachApprovedEgress_def)

lemma attach_own: "\<forall>q\<in>set ps. own_subnet q \<Longrightarrow> \<forall>q\<in>set (attachApprovedEgress resolve db ps). own_subnet q"
  by (auto simp: attachApprovedEgress_def own_subnet_def)

lemma attach_egress: "q \<in> set (attachApprovedEgress resolve db ps) \<Longrightarrow> isFencedProject q \<Longrightarrow> own_subnet q \<Longrightarrow>
    pj_egress q = wire resolve (listApprovedEgressGrants db (pj_id q))"
  by (auto simp: attachApprovedEgress_def isFencedProject_def own_subnet_def)

section \<open>Properties\<close>

text \<open>
  C30: up to 14336 projects the subnets derived from the ids are pairwise disjoint, private, apart from the shared bridge and from the
  VPN, and hold their gateway; beyond that they repeat.
\<close>

theorem subnets_disjoint:
  assumes "1 \<le> i" "i \<le> 14336" "1 \<le> j" "j \<le> 14336" "i \<noteq> j"
  shows "\<exists>c c' g. bridgeCidrForProject i = Some c \<and> bridgeCidrForProject j = Some c' \<and> gatewayForCidr c = Some g \<and>
    (\<forall>v. in_net c v \<longrightarrow> \<not> in_net c' v \<and> is_private v \<and> \<not> in_net ''10.0.100.0/24'' v \<and> \<not> in_net ''10.100.0.0/24'' v) \<and>
    (\<forall>v. in_net g v \<longrightarrow> in_net c v) \<and> bridgeCidrForProject (i + 14336) = Some c"
proof -
  obtain c c' where c: "bridgeCidrForProject i = Some c" "bridgeCidrForProject j = Some c'" using assms by (simp add: derived_cidr)
  have v: "\<not> in_net c' v \<and> is_private v \<and> \<not> in_net ''10.0.100.0/24'' v \<and> \<not> in_net ''10.100.0.0/24'' v" if "in_net c v" for v
  proof -
    have d: "v div 256 = third_val i" using that in_derived [OF assms(1) c(1)] by simp
    have "v div 16777216 = v div 256 div 65536" by (simp add: div_mult2_eq [symmetric])
    with d third_val_range [OF assms(1)] have "v div 16777216 = 10" by simp
    then have "is_private v" by (simp add: is_private_def PRIVATE_DEST_RANGES_def fixed_nets(1) in_net_cidr)
    moreover have "\<not> in_net c' v" using d in_derived [OF assms(3) c(2)] third_val_inject assms by auto
    ultimately show ?thesis using d third_val_range [OF assms(1)] by (simp add: fixed_nets in_net_cidr)
  qed
  have b: "0 \<le> bridge_block i" "0 \<le> bridge_third i" by (simp_all add: bridge_block_def bridge_third_def)
  have "in_net c w" if "in_net (quad 10 (nat (bridge_block i)) (nat (bridge_third i)) 1) w" for w
    using that in_derived [OF assms(1) c(1)] by (simp add: third_val_def)
  moreover have "bridge_block (i + 14336) = bridge_block i" "bridge_third (i + 14336) = bridge_third i"
  proof -
    have "i + 14336 - 1 = (i - 1) + 56 * 256" by simp
    then have "(i + 14336 - 1) div 256 = (i - 1) div 256 + 56" "(i + 14336 - 1) mod 256 = (i - 1) mod 256"
      using div_mult_self1 [of 256 "i - 1" 56] mod_mult_self1 [of "i - 1" 56 256] by (simp_all only: add.commute)
    then show "bridge_block (i + 14336) = bridge_block i" "bridge_third (i + 14336) = bridge_third i"
      by (simp_all only: bridge_block_def bridge_third_def mod_add_self2)
  qed
  ultimately show ?thesis using c v gateway_derived [OF assms(1) c(1)] assms(1) by (auto simp: bridgeCidrForProject_def)
qed

text \<open>
  C31: a new connection from a project's subnet to a private address that is no project's container is accepted exactly when an
  approved grant of that project names the address, the port and the protocol; otherwise it is rejected.
\<close>

theorem private_reach_exact:
  assumes "distinct (map pj_id ps)" and "\<forall>q\<in>set ps. own_subnet q"
    and "e \<in> set (buildFenceEntries (attachApprovedEgress resolve db ps))" and "in_net (fe_cidr e) (pk_src p)" and "pk_state p = New"
    and "is_private (pk_dst p)" and "\<forall>f\<in>set (buildFenceEntries (attachApprovedEgress resolve db ps)). \<not> in_net (fe_containerIp f) (pk_dst p)"
    and "\<forall>h ip. resolve h = Some ip \<longrightarrow> isIpv4 ip \<and> ip \<noteq> [] \<and> trim ip = ip"
  shows "fence_forward (buildFenceEntries (attachApprovedEgress resolve db ps)) p =
    (if \<exists>r\<in>set (db_grants db). eg_project r = fe_id e \<and> eg_status r = Approved \<and>
        (\<exists>ip. resolve (eg_host r) = Some ip \<and> in_net ip (pk_dst p)) \<and> 1 \<le> eg_port r \<and> eg_port r \<le> 65535 \<and> eg_port r = pk_dport p \<and>
        normalizeProtocol (Some (eg_protocol r)) = Some (pk_proto p)
     then Accept else Reject)"
proof -
  let ?ps = "attachApprovedEgress resolve db ps"
  have d: "distinct (map pj_id ?ps)" using assms(1) by (simp add: attach_ids)
  obtain xs ys where s: "buildFenceEntries ?ps = xs @ e # ys" "\<forall>f\<in>set xs. \<not> in_net (fe_cidr f) (pk_src p)"
    using entries_before [OF d attach_own [OF assms(2)] assms(3,4)] by blast
  obtain q where q: "q \<in> set ?ps" "fe_id e = pj_id q" "fe_egress e = pj_egress q" "isFencedProject q"
    using entry_of_project [OF assms(3)] by metis
  then have eg: "fe_egress e = wire resolve (listApprovedEgressGrants db (fe_id e))"
    using attach_egress attach_own [OF assms(2)] by metis
  have "find (\<lambda>f. in_net (fe_containerIp f) (pk_dst p)) (xs @ [e]) = None"
    using assms(7) s(1) by (auto simp: find_None_iff)
  with chain_walk [OF assms(5,4) s(2), of ys] assms(6) s(1)
  have "fence_forward (buildFenceEntries ?ps) p = (if \<exists>g\<in>set (fe_egress e). grant_passes g p then Accept else Reject)" by simp
  moreover have "(\<exists>g\<in>set (fe_egress e). grant_passes g p) \<longleftrightarrow>
      (\<exists>r\<in>set (db_grants db). eg_project r = fe_id e \<and> eg_status r = Approved \<and>
        (\<exists>ip. resolve (eg_host r) = Some ip \<and> in_net ip (pk_dst p)) \<and> 1 \<le> eg_port r \<and> eg_port r \<le> 65535 \<and> eg_port r = pk_dport p \<and>
        normalizeProtocol (Some (eg_protocol r)) = Some (pk_proto p))"
    using assms(8) by (fastforce simp: eg wire_def listApprovedEgressGrants_def List.map_filter_def grant_passes_def grant_ip_def
      isEgressPort_def)
  ultimately show ?thesis by simp
qed


text \<open>
  The web port of a project is not closed to the other projects, as the fence means it to be: the plan's order decides. From the
  subnet of a later entry the web port of an earlier one is accepted, in the other direction it is rejected.
\<close>

theorem web_port_by_order:
  assumes "es = xs @ a # ys @ b # zs" and "pk_state p = New" and "pk_state q = New"
    and "in_net (fe_cidr b) (pk_src p)" and "\<forall>f\<in>set (xs @ a # ys). \<not> in_net (fe_cidr f) (pk_src p)"
    and "in_net (fe_containerIp a) (pk_dst p)" and "\<forall>f\<in>set xs. \<not> in_net (fe_containerIp f) (pk_dst p)" and "is_web a p"
    and "in_net (fe_cidr a) (pk_src q)" and "\<forall>f\<in>set xs. \<not> in_net (fe_cidr f) (pk_src q)"
    and "\<forall>f\<in>set (xs @ [a]). \<not> in_net (fe_containerIp f) (pk_dst q)" and "is_private (pk_dst q)" and "fe_egress a = []"
  shows "fence_forward es p = Accept \<and> fence_forward es q = Reject"
proof
  have "find (\<lambda>f. in_net (fe_containerIp f) (pk_dst p)) ((xs @ a # ys) @ [b]) = Some a"
    using assms(6,7) by (simp add: find_skip)
  with chain_walk [OF assms(2,4,5), of zs] assms(1,8) show "fence_forward es p = Accept" by simp
  have "find (\<lambda>f. in_net (fe_containerIp f) (pk_dst q)) (xs @ [a]) = None" using assms(11) by (auto simp: find_None_iff)
  with chain_walk [OF assms(3,9,10), of "ys @ b # zs"] assms(1,12,13) show "fence_forward es q = Reject" by simp
qed

text \<open>
  Of the host itself a project reaches its own gateway for DNS and DHCP and nothing else: every other new packet from its subnet
  to the host is dropped.
\<close>

theorem host_reach_exact:
  assumes "distinct (map pj_id ps)" and "\<forall>q\<in>set ps. own_subnet q" and "e \<in> set (buildFenceEntries ps)"
    and "in_net (fe_cidr e) (pk_src p)" and "pk_state p \<noteq> Established" and "pk_state p \<noteq> Related"
  shows "fence_input (buildFenceEntries ps) p =
    (if in_net (fe_gateway e) (pk_dst p) \<and> (pk_proto p, pk_dport p) \<in> {(''udp'', 53), (''tcp'', 53), (''udp'', 67)} then Accept else Drop)"
proof -
  obtain xs ys where s: "buildFenceEntries ps = xs @ e # ys" "\<forall>f\<in>set xs. \<not> in_net (fe_cidr f) (pk_src p)"
    using entries_before [OF assms(1-4)] by blast
  have "chain (concat (map input_rules (xs @ e # ys))) p =
    (if in_net (fe_gateway e) (pk_dst p) \<and> (pk_proto p, pk_dport p) \<in> {(''udp'', 53), (''tcp'', 53), (''udp'', 67)} then Accept else Drop)"
    using s(2)
  proof (induction xs)
    case Nil
    show ?case using assms(4) by (auto simp: input_rules_def rule_matches_mk in_dest_def)
  next
    case (Cons f xs)
    then have "chain (input_rules f @ rs) p = chain rs p" for rs by (simp add: input_rules_def rule_matches_mk)
    with Cons show ?case by simp
  qed
  with s(1) assms(5,6) show ?thesis by (simp add: fence_input_def)
qed


section \<open>Witnesses\<close>

theorem subnets_disjoint_witness:
  "\<exists>c c' g. bridgeCidrForProject 1 = Some c \<and> bridgeCidrForProject 2 = Some c' \<and> gatewayForCidr c = Some g \<and>
    (\<forall>v. in_net c v \<longrightarrow> \<not> in_net c' v) \<and> bridgeCidrForProject 14337 = Some c"
  using subnets_disjoint [of 1 2] by auto

definition two_projects :: "project list" where
  "two_projects =
     [\<lparr>pj_id = 2, pj_lifecycle = ''active'', pj_bridge_cidr = Some ''10.200.1.0/24'', pj_container_ip = Some ''10.200.1.10'',
        pj_web_port = Some 3000, pj_egress = []\<rparr>,
      \<lparr>pj_id = 1, pj_lifecycle = ''active'', pj_bridge_cidr = None, pj_container_ip = Some ''10.200.0.10'',
        pj_web_port = Some 3000, pj_egress = []\<rparr>]"

definition one_grant :: egress_db where
  "one_grant = \<lparr>db_grants = [\<lparr>eg_id = 1, eg_project = 1, eg_host = ''10.0.0.5'', eg_port = 636, eg_protocol = ''ldaps'',
     eg_reason = None, eg_status = Approved, eg_reachable = None, eg_decided_by = None, eg_origin = ''declared''\<rparr>], db_queue = []\<rparr>"

definition literal :: "string \<Rightarrow> string option" where
  "literal h = (if h = ''10.0.0.5'' then Some h else None)"

definition from_first :: "string \<Rightarrow> string \<Rightarrow> int \<Rightarrow> packet" where
  "from_first src dst port = \<lparr>pk_src = addr_val src, pk_dst = addr_val dst, pk_proto = ''tcp'', pk_dport = port, pk_state = New\<rparr>"

definition two_entries :: "fence_entry list" where
  "two_entries = buildFenceEntries (attachApprovedEgress literal one_grant two_projects)"

definition new_entry :: fence_entry where
  "new_entry = \<lparr>fe_id = 2, fe_cidr = ''10.200.1.0/24'', fe_gateway = ''10.200.1.1'', fe_containerIp = ''10.200.1.10'', fe_webPort = 3000,
     fe_egress = []\<rparr>"

definition old_entry :: fence_entry where
  "old_entry = \<lparr>fe_id = 1, fe_cidr = ''10.200.0.0/24'', fe_gateway = ''10.200.0.1'', fe_containerIp = ''10.200.0.10'', fe_webPort = 3000,
     fe_egress = [\<lparr>wg_host = ''10.0.0.5'', wg_ip = ''10.0.0.5'', wg_port = 636, wg_protocol = ''ldaps''\<rparr>]\<rparr>"

lemma two_facts:
  "two_entries = [new_entry, old_entry]" "distinct (map pj_id two_projects)" "\<forall>q\<in>set two_projects. own_subnet q"
  "\<forall>q\<in>set (attachApprovedEgress literal one_grant two_projects). own_subnet q"
  "distinct (map pj_id (attachApprovedEgress literal one_grant two_projects))"
  by code_simp+

lemma quads:
  "''10.200.0.10'' = quad 10 200 0 10" "''10.200.1.10'' = quad 10 200 1 10" "''10.0.0.5'' = quad 10 0 0 5"
  "''10.200.0.1'' = quad 10 200 0 1" "''10.200.1.1'' = quad 10 200 1 1"
  by code_simp+

lemma nets:
  "''10.200.0.0/24'' = quad 10 200 0 0 @ CHR ''/'' # show_nat 24" "''10.200.1.0/24'' = quad 10 200 1 0 @ CHR ''/'' # show_nat 24"
  "''10.0.0.0/8'' = quad 10 0 0 0 @ CHR ''/'' # show_nat 8"
  by code_simp+

lemma example_addresses:
  "addr_val ''10.200.0.10'' = 180879370" "addr_val ''10.200.1.10'' = 180879626" "addr_val ''10.0.0.5'' = 167772165"
  "addr_val ''10.200.0.1'' = 180879361"
  unfolding quads by (simp_all add: quad_val)

lemma example_nets:
  "in_net ''10.200.0.10'' v \<longleftrightarrow> v = 180879370" "in_net ''10.200.1.10'' v \<longleftrightarrow> v = 180879626" "in_net ''10.0.0.5'' v \<longleftrightarrow> v = 167772165"
  "in_net ''10.200.0.1'' v \<longleftrightarrow> v = 180879361" "in_net ''10.200.1.1'' v \<longleftrightarrow> v = 180879617"
  "in_net ''10.200.0.0/24'' v \<longleftrightarrow> v div 256 = 706560" "in_net ''10.200.1.0/24'' v \<longleftrightarrow> v div 256 = 706561"
  unfolding quads nets by (simp_all add: in_net_cidr)

lemma example_private: "v div 16777216 = 10 \<Longrightarrow> is_private v"
  by (simp add: is_private_def PRIVATE_DEST_RANGES_def nets(3) in_net_cidr)

lemmas example_simps = from_first_def new_entry_def old_entry_def example_addresses example_nets example_private is_web_def

theorem private_reach_exact_witness:
  "fence_forward two_entries (from_first ''10.200.0.10'' ''10.0.0.5'' 636) = Accept \<and>
   fence_forward two_entries (from_first ''10.200.0.10'' ''10.0.0.5'' 22) = Reject"
proof -
  have e: "old_entry \<in> set two_entries" by (simp add: two_facts)
  have h: "in_net (fe_cidr old_entry) (pk_src (from_first ''10.200.0.10'' ''10.0.0.5'' n))" "pk_state (from_first s d n) = New"
    "is_private (pk_dst (from_first ''10.200.0.10'' ''10.0.0.5'' n))"
    "\<forall>f\<in>set [new_entry, old_entry]. \<not> in_net (fe_containerIp f) (pk_dst (from_first ''10.200.0.10'' ''10.0.0.5'' n))" for n s d
    by (simp_all add: example_simps)
  have r: "\<forall>h ip. literal h = Some ip \<longrightarrow> isIpv4 ip \<and> ip \<noteq> [] \<and> trim ip = ip"
  proof -
    have "isIpv4 ''10.0.0.5''" "trim ''10.0.0.5'' = ''10.0.0.5''" by code_simp+
    then show ?thesis by (auto simp: literal_def)
  qed
  note t = private_reach_exact [OF two_facts(2,3) e [unfolded two_entries_def] h(1,2,3)
    h(4) [folded two_facts(1), unfolded two_entries_def] r, folded two_entries_def]
  have n: "normalizeProtocol (Some ''ldaps'') = Some ''tcp''" by code_simp
  show ?thesis unfolding t by (simp add: one_grant_def literal_def n example_simps)
qed

theorem web_port_by_order_witness:
  "fence_forward [new_entry, old_entry] (from_first ''10.200.0.10'' ''10.200.1.10'' 3000) = Accept \<and>
   fence_forward [new_entry, old_entry] (from_first ''10.200.1.10'' ''10.200.0.10'' 3000) = Reject"
proof (rule web_port_by_order [where xs = "[]" and ys = "[]" and zs = "[]" and a = new_entry and b = old_entry])
qed (simp_all add: example_simps)

theorem host_reach_exact_witness:
  "fence_input two_entries (from_first ''10.200.0.10'' ''10.200.0.1'' 53) = Accept \<and>
   fence_input two_entries (from_first ''10.200.0.10'' ''10.200.0.1'' 3001) = Drop"
proof -
  have e: "old_entry \<in> set two_entries" by (simp add: two_facts)
  have h: "in_net (fe_cidr old_entry) (pk_src (from_first ''10.200.0.10'' ''10.200.0.1'' n))" "pk_state (from_first s d n) = New" for n s d
    by (simp_all add: example_simps)
  have g: "in_net (fe_gateway old_entry) (pk_dst (from_first ''10.200.0.10'' ''10.200.0.1'' n))" for n
    by (simp add: example_simps)
  note t = host_reach_exact [OF two_facts(5,4) e [unfolded two_entries_def] h(1), folded two_entries_def]
  show ?thesis using t [of 53] t [of 3001] by (simp add: h g) (simp add: from_first_def)
qed

end
