(* ===== verification/Net_Approval.thy ===== *)
theory Net_Approval
  imports Net_Egress
begin

text \<open>
  What synchronising a project's declarations does to the table of grants: the container declares, and only an approval opens.
\<close>

section \<open>The declared keys\<close>

lemma first_by_key_keys: "set seen \<union> set (map key_of (first_by_key seen gs)) = set seen \<union> key_of ` set gs"
proof (induction gs arbitrary: seen)
  case (Cons g gs)
  show ?case using Cons [of seen] Cons [of "key_of g # seen"] by (cases "key_of g \<in> set seen") auto
qed simp

lemma first_by_key_distinct: "distinct (map key_of (first_by_key seen gs)) \<and> set seen \<inter> set (map key_of (first_by_key seen gs)) = {}"
  by (induction gs arbitrary: seen) (auto simp: disjoint_iff)

section \<open>Rows through a synchronisation\<close>

definition reworded :: "grant_row \<Rightarrow> grant_row \<Rightarrow> bool" where
  "reworded r r' \<longleftrightarrow> r' = r\<lparr>eg_reason := eg_reason r'\<rparr>"

lemma reworded_refl [simp]: "reworded r r"
  by (simp add: reworded_def)

lemma reworded_fields: "reworded r r' \<Longrightarrow> eg_id r' = eg_id r \<and> eg_project r' = eg_project r \<and> eg_status r' = eg_status r \<and>
    eg_origin r' = eg_origin r \<and> row_key r' = row_key r"
  by (cases r, cases r') (auto simp: reworded_def row_key_def)

lemma reworded_upd: "reworded r r' \<Longrightarrow> reworded r (r'\<lparr>eg_reason := x\<rparr>)"
  by (cases r, cases r') (auto simp: reworded_def)

text \<open>A database after some of the declarations of \<open>pid\<close>: the old rows at most reworded, then pending rows.\<close>

definition synced :: "int \<Rightarrow> grant_row list \<Rightarrow> egress_db \<Rightarrow> bool" where
  "synced pid rows db \<longleftrightarrow> (\<exists>olds news. db_grants db = olds @ news \<and> list_all2 reworded rows olds \<and>
     (\<forall>(r, r')\<in>set (zip rows olds). eg_project r \<noteq> pid \<longrightarrow> r' = r) \<and>
     (\<forall>n\<in>set news. eg_status n = Pending \<and> eg_project n = pid))"

lemma raise_grants [simp]: "db_grants (raiseQueueItem k p i d db) = db_grants db"
  and resolve_grants [simp]: "db_grants (resolveQueueItem k t db) = db_grants db"
  and update_grants: "db_grants (update_grant i f db) = map (\<lambda>r. if eg_id r = i then f r else r) (db_grants db)"
  by (simp_all add: raiseQueueItem_def resolveQueueItem_def update_grant_def)

lemma synced_start: "synced pid (db_grants db) db"
  unfolding synced_def by (rule exI [of _ "db_grants db"], rule exI [of _ "[]"]) (auto simp: list.rel_refl zip_same)

lemma synced_reword:
  assumes "synced pid rows db" and "distinct (map eg_id rows)" and "row \<in> set rows" and "eg_project row = pid"
  shows "synced pid rows (update_grant (eg_id row) (\<lambda>r. r\<lparr>eg_reason := x\<rparr>) db)"
proof -
  let ?u = "\<lambda>r. if eg_id r = eg_id row then r\<lparr>eg_reason := x\<rparr> else r"
  obtain olds news where o: "db_grants db = olds @ news" "list_all2 reworded rows olds"
      "\<forall>(r, r')\<in>set (zip rows olds). eg_project r \<noteq> pid \<longrightarrow> r' = r" "\<forall>n\<in>set news. eg_status n = Pending \<and> eg_project n = pid"
    using assms(1) by (auto simp: synced_def)
  have "list_all2 reworded rows (map ?u olds)"
    using o(2) by (auto simp: list_all2_conv_all_nth reworded_upd)
  moreover have "r' = r" if z: "(r, r') \<in> set (zip rows (map ?u olds))" and p: "eg_project r \<noteq> pid" for r r'
  proof -
    obtain s where s: "(r, s) \<in> set (zip rows olds)" "r' = ?u s" using z by (auto simp: zip_map2)
    with o(3) p have "s = r" by auto
    moreover have "eg_id r \<noteq> eg_id row"
      using assms(2-4) p set_zip_leftD [OF s(1)] by (auto simp: distinct_map inj_on_def)
    ultimately show ?thesis using s(2) by simp
  qed
  ultimately show ?thesis unfolding synced_def update_grants o(1)
    using o(4) by (intro exI [of _ "map ?u olds"] exI [of _ "map ?u news"]) auto
qed

lemma synced_add:
  assumes "synced pid rows db" and "eg_status n = Pending" and "eg_project n = pid" and "db_grants db' = db_grants db @ [n]"
  shows "synced pid rows db'"
proof -
  obtain olds news where "db_grants db = olds @ news" "list_all2 reworded rows olds"
      "\<forall>(r, r')\<in>set (zip rows olds). eg_project r \<noteq> pid \<longrightarrow> r' = r" "\<forall>n\<in>set news. eg_status n = Pending \<and> eg_project n = pid"
    using assms(1) by (auto simp: synced_def)
  with assms(2-4) show ?thesis unfolding synced_def by (intro exI [of _ olds] exI [of _ "news @ [n]"]) auto
qed

lemma synced_one:
  assumes "synced pid rows db" and "distinct (map eg_id rows)"
  shows "synced pid rows (sync_one pid (filter (\<lambda>r. eg_project r = pid) rows) g db)"
proof (cases "find (\<lambda>r. row_key r = key_of g) (rev (filter (\<lambda>r. eg_project r = pid) rows))")
  case None
  then show ?thesis unfolding sync_one_def by (auto simp: Let_def intro!: synced_add [OF assms(1)])
next
  case (Some row)
  then have "row \<in> set rows" "eg_project row = pid" by (auto simp: find_Some_iff in_set_conv_nth rev_filter dest: nth_mem)
  with Some synced_reword [OF assms] assms(1) show ?thesis by (simp add: sync_one_def)
qed

lemma synced_all: "synced pid rows db \<Longrightarrow> distinct (map eg_id rows) \<Longrightarrow>
    synced pid rows (fold (sync_one pid (filter (\<lambda>r. eg_project r = pid) rows)) decl db)"
  by (induction decl arbitrary: db) (simp_all add: synced_one)

lemma sweep_grants: "db_grants (fold (sweep_one pid) rs db) =
    map (\<lambda>r. if eg_id r \<in> eg_id ` set rs then r\<lparr>eg_status := Revoked\<rparr> else r) (db_grants db)"
  by (induction rs arbitrary: db) (auto simp: sweep_one_def update_grants)

lemma synced_statuses:
  "list_all2 reworded rows olds \<Longrightarrow>
    map eg_id (filter (\<lambda>r. P (eg_id r) \<and> eg_project r = pid \<and> eg_status r = Approved) olds) =
    map eg_id (filter (\<lambda>r. P (eg_id r) \<and> eg_project r = pid \<and> eg_status r = Approved) rows)"
  by (induction rule: list_all2_induct) (auto dest: reworded_fields)

lemma synced_others:
  "list_all2 reworded rows olds \<Longrightarrow> \<forall>(r, r')\<in>set (zip rows olds). eg_project r \<noteq> pid \<longrightarrow> r' = r \<Longrightarrow>
    filter (\<lambda>r. eg_project r \<noteq> pid) olds = filter (\<lambda>r. eg_project r \<noteq> pid) rows"
  by (induction rule: list_all2_induct) (auto dest: reworded_fields)

lemma swept_approved:
  "filter (\<lambda>r. eg_project r = pid \<and> eg_status r = Approved) (map (\<lambda>r. if eg_id r \<in> S then r\<lparr>eg_status := Revoked\<rparr> else r) xs) =
    filter (\<lambda>r. eg_id r \<notin> S \<and> eg_project r = pid \<and> eg_status r = Approved) xs"
  by (induction xs) auto

lemma swept_others:
  "\<forall>r\<in>set xs. eg_project r \<noteq> pid \<longrightarrow> eg_id r \<notin> S \<Longrightarrow>
    filter (\<lambda>r. eg_project r \<noteq> pid) (map (\<lambda>r. if eg_id r \<in> S then r\<lparr>eg_status := Revoked\<rparr> else r) xs) = filter (\<lambda>r. eg_project r \<noteq> pid) xs"
  by (induction xs) auto

section \<open>Properties\<close>

text \<open>
  C32: after a project's declarations were synchronised, its approved grants are those approved before that an operator gave or that are
  still declared: a declaration by itself approves nothing, dropping one closes it, and the rows of other projects do not change.
\<close>

theorem sync_exact:
  assumes "distinct (map eg_id (db_grants db))"
  shows "map eg_id (listApprovedEgressGrants (syncDeclaredEgress pid ds db) pid) =
      map eg_id (filter (\<lambda>r. eg_origin r = ''operator'' \<or> row_key r \<in> key_of ` set (List.map_filter redeclare ds))
        (listApprovedEgressGrants db pid)) \<and>
    filter (\<lambda>r. eg_project r \<noteq> pid) (db_grants (syncDeclaredEgress pid ds db)) = filter (\<lambda>r. eg_project r \<noteq> pid) (db_grants db)"
proof -
  let ?rows = "db_grants db"
  let ?ex = "filter (\<lambda>r. eg_project r = pid) ?rows"
  let ?decl = "first_by_key [] (List.map_filter redeclare ds)"
  let ?R = "filter (sweeps (map key_of ?decl)) ?ex"
  let ?u = "\<lambda>r. if eg_id r \<in> eg_id ` set ?R then r\<lparr>eg_status := Revoked\<rparr> else r"
  have k: "set (map key_of ?decl) = key_of ` set (List.map_filter redeclare ds)"
    using first_by_key_keys [of "[]" "List.map_filter redeclare ds"] by simp
  obtain olds news where o: "db_grants (fold (sync_one pid ?ex) ?decl db) = olds @ news" "list_all2 reworded ?rows olds"
      "\<forall>(r, r')\<in>set (zip ?rows olds). eg_project r \<noteq> pid \<longrightarrow> r' = r" "\<forall>n\<in>set news. eg_status n = Pending \<and> eg_project n = pid"
    using synced_all [OF synced_start assms, of pid ?decl] unfolding synced_def by blast
  have g: "db_grants (syncDeclaredEgress pid ds db) = map ?u (olds @ news)"
    by (simp add: syncDeclaredEgress_def Let_def sweep_grants o(1))
  have R: "eg_id r \<in> eg_id ` set ?R \<longleftrightarrow> r \<in> set ?R" if "r \<in> set ?rows" for r
    using that assms by (auto simp: distinct_map inj_on_def)
  have same: "(eg_id r \<notin> eg_id ` set ?R \<and> eg_project r = pid \<and> eg_status r = Approved) \<longleftrightarrow>
      (eg_origin r = ''operator'' \<or> row_key r \<in> key_of ` set (List.map_filter redeclare ds)) \<and> eg_project r = pid \<and> eg_status r = Approved"
    if r: "r \<in> set ?rows" for r
  proof -
    have "r \<in> set ?R \<longleftrightarrow> eg_project r = pid \<and> eg_origin r \<noteq> ''operator'' \<and> row_key r \<notin> key_of ` set (List.map_filter redeclare ds) \<and>
        eg_status r \<noteq> Revoked \<and> eg_status r \<noteq> Denied"
      using r unfolding set_filter sweeps_def k by blast
    then show ?thesis unfolding R [OF r] by (cases "eg_status r") (auto simp only: grant_status.distinct)
  qed
  have "map eg_id (listApprovedEgressGrants (syncDeclaredEgress pid ds db) pid) =
      map eg_id (filter (\<lambda>r. eg_origin r = ''operator'' \<or> row_key r \<in> key_of ` set (List.map_filter redeclare ds))
        (listApprovedEgressGrants db pid))"
  proof -
    have "listApprovedEgressGrants (syncDeclaredEgress pid ds db) pid =
        filter (\<lambda>r. eg_id r \<notin> eg_id ` set ?R \<and> eg_project r = pid \<and> eg_status r = Approved) olds"
      unfolding listApprovedEgressGrants_def g swept_approved filter_append
      using o(4) by (simp add: filter_empty_conv)
    also have "map eg_id \<dots> = map eg_id (filter (\<lambda>r. eg_id r \<notin> eg_id ` set ?R \<and> eg_project r = pid \<and> eg_status r = Approved) ?rows)"
      by (rule synced_statuses [OF o(2)])
    also have "filter (\<lambda>r. eg_id r \<notin> eg_id ` set ?R \<and> eg_project r = pid \<and> eg_status r = Approved) ?rows =
        filter (\<lambda>r. eg_origin r = ''operator'' \<or> row_key r \<in> key_of ` set (List.map_filter redeclare ds)) (listApprovedEgressGrants db pid)"
      using same by (auto simp: listApprovedEgressGrants_def conj_commute intro!: filter_cong)
    finally show ?thesis .
  qed
  moreover have "filter (\<lambda>r. eg_project r \<noteq> pid) (db_grants (syncDeclaredEgress pid ds db)) = filter (\<lambda>r. eg_project r \<noteq> pid) (db_grants db)"
  proof -
    have n: "filter (\<lambda>r. eg_project r \<noteq> pid) news = []" using o(4) by (simp add: filter_empty_conv)
    have "eg_id r' \<notin> eg_id ` set ?R" if r': "r' \<in> set olds" "eg_project r' \<noteq> pid" for r'
    proof -
      obtain r where r: "r \<in> set ?rows" "reworded r r'"
        using o(2) r'(1) by (metis list_all2_conv_all_nth in_set_conv_nth)
      with R [of r] r'(2) reworded_fields [of r r'] show ?thesis by auto
    qed
    then have "filter (\<lambda>r. eg_project r \<noteq> pid) (map ?u olds) = filter (\<lambda>r. eg_project r \<noteq> pid) olds" by (intro swept_others) blast
    moreover have "filter (\<lambda>r. eg_project r \<noteq> pid) (map ?u news) = filter (\<lambda>r. eg_project r \<noteq> pid) news"
      using o(4) by (intro swept_others) auto
    ultimately show ?thesis unfolding g map_append filter_append using n synced_others [OF o(2,3)] by simp
  qed
  ultimately show ?thesis by blast
qed

section \<open>Witness\<close>

definition three_grants :: egress_db where
  "three_grants = \<lparr>db_grants =
     [\<lparr>eg_id = 1, eg_project = 7, eg_host = ''ldap.example'', eg_port = 636, eg_protocol = ''tcp'', eg_reason = None, eg_status = Approved,
        eg_reachable = None, eg_decided_by = None, eg_origin = ''declared''\<rparr>,
      \<lparr>eg_id = 2, eg_project = 7, eg_host = ''10.0.0.5'', eg_port = 25, eg_protocol = ''tcp'', eg_reason = None, eg_status = Approved,
        eg_reachable = None, eg_decided_by = None, eg_origin = ''operator''\<rparr>,
      \<lparr>eg_id = 3, eg_project = 8, eg_host = ''ldap.example'', eg_port = 636, eg_protocol = ''tcp'', eg_reason = None, eg_status = Approved,
        eg_reachable = None, eg_decided_by = None, eg_origin = ''declared''\<rparr>], db_queue = []\<rparr>"

definition one_declaration :: "declared list" where
  "one_declaration = parseDeclaredEgress (join nl [''egress:'', ''  - host: smtp.example'', ''    port: 587''])"

lemma declared_keys: "key_of ` set (List.map_filter redeclare one_declaration) = {''smtp.example|587|tcp''}"
  "map row_key (db_grants three_grants) = [''ldap.example|636|tcp'', ''10.0.0.5|25|tcp'', ''ldap.example|636|tcp'']"
  by code_simp+

theorem sync_exact_witness:
  "map eg_id (listApprovedEgressGrants (syncDeclaredEgress 7 one_declaration three_grants) 7) = [2] \<and>
   filter (\<lambda>r. eg_project r \<noteq> 7) (db_grants (syncDeclaredEgress 7 one_declaration three_grants)) = [db_grants three_grants ! 2]"
proof -
  have d: "distinct (map eg_id (db_grants three_grants))" by code_simp
  show ?thesis using sync_exact [OF d, of 7 one_declaration] declared_keys(2)
    by (simp add: declared_keys(1) three_grants_def listApprovedEgressGrants_def)
qed

text \<open>
  The approver of a decision is not recorded: users have UUID ids, \<open>Number\<close> of one is NaN, and the column is NULL.
\<close>

lemma approver_lost:
  "map eg_decided_by (db_grants (setEgressGrantStatus 1 Approved (Some ''3f2c7a10-9f0e-4c1b-8a55-0d2e6b7c8d9e'') three_grants)) = [None, None, None]"
  by code_simp

end
