(* ===== verification/Mig_Plan.thy ===== *)
theory Mig_Plan
  imports Complex_Main PP_Time
begin

text \<open>
  Guest migrations, the pure part: \<open>admin/backend/src/lib/migration/token.js\<close> (the token of an agent) and
  \<open>lib/migration/plan.js\<close> (the target of a migration, its phases and its checklist). SHA-256 and the random bytes are
  arguments. A time is its number of milliseconds; \<open>mi_expires\<close> is None when the stored text is not a time (the empty
  text is what no expiry is stored as).
\<close>

section \<open>Tokens\<close>

definition is_b64url :: "char \<Rightarrow> bool" where
  "is_b64url c \<longleftrightarrow> is_alnum c \<or> c = CHR ''_'' \<or> c = CHR ''-''"

definition is_lower_hex :: "char \<Rightarrow> bool" where
  "is_lower_hex c \<longleftrightarrow> is_digit c \<or> 97 \<le> cc c \<and> cc c \<le> 102"

text \<open>\<open>/^pmig_([0-9a-f]{12})_([A-Za-z0-9_-]{43})$/\<close>\<close>

definition parseToken :: "string \<Rightarrow> (string \<times> string) option" where
  "parseToken presented =
     (let i = take 12 (drop 5 presented); secret = drop 18 presented
      in if length presented = 61 \<and> take 5 presented = ''pmig_'' \<and> list_all is_lower_hex i \<and> presented ! 17 = CHR ''_'' \<and>
           list_all is_b64url secret
         then Some (i, secret) else None)"

definition MAX_TTL_SECONDS :: rat where "MAX_TTL_SECONDS = 30 * 24 * 3600"
definition MIN_TTL_SECONDS :: rat where "MIN_TTL_SECONDS = 300"

text \<open>\<open>asked\<close> is None where \<open>Number\<close> gives no finite number.\<close>

definition token_ttl :: "rat option \<Rightarrow> rat option" where
  "token_ttl asked = (case asked of None \<Rightarrow> None
     | Some t \<Rightarrow> if t > 0 then Some (max MIN_TTL_SECONDS (min MAX_TTL_SECONDS t)) else None)"

record minted =
  mt_token :: string
  mt_id :: string
  mt_hash :: string
  mt_expires :: "int option"

text \<open>The expiry in whole milliseconds, as \<open>Date\<close> keeps it.\<close>

definition mintMigrationToken :: "(string \<Rightarrow> string) \<Rightarrow> string \<Rightarrow> string \<Rightarrow> rat option \<Rightarrow> int \<Rightarrow> minted" where
  "mintMigrationToken sha i secret asked now =
     \<lparr>mt_token = ''pmig_'' @ i @ ''_'' @ secret, mt_id = i, mt_hash = sha secret,
      mt_expires = map_option (\<lambda>t. \<lfloor>of_int now + t * 1000\<rfloor>) (token_ttl asked)\<rparr>"

definition secretMatches :: "(string \<Rightarrow> string) \<Rightarrow> string \<Rightarrow> string \<Rightarrow> bool" where
  "secretMatches sha secret stored \<longleftrightarrow> sha secret = stored"

section \<open>The target\<close>

record mig_spec =
  sp_mode :: string
  sp_transport :: string
  sp_name :: string
  sp_type :: string
  sp_cpu :: int
  sp_memory :: rat
  sp_disk :: "int option"
  sp_pool :: "string option"
  sp_network :: "string option"
  sp_nested :: bool
  sp_dirs :: "string list"
  sp_excludes :: "string list"
  sp_database :: string
  sp_service :: "string option"
  sp_image :: "string option"
  sp_auto :: bool
  sp_keep_agent :: bool
  sp_install_tools :: bool
  sp_freeze :: string

record target_input =
  ti_mode :: string
  ti_name :: string
  ti_type :: "string option"
  ti_source_kind :: "string option"
  ti_transport :: "string option"
  ti_cpu :: "int option"
  ti_memory :: "rat option"
  ti_disk :: "int option"
  ti_pool :: "string option"
  ti_network :: "string option"
  ti_nested :: bool
  ti_dirs :: "string list"
  ti_excludes :: "string list"
  ti_database :: "string option"
  ti_service :: "string option"
  ti_image :: "string option"
  ti_auto :: bool
  ti_keep_agent :: bool
  ti_install_tools :: "bool option"
  ti_freeze :: "string option"

datatype target_refusal =
    Bad_mode | Bad_name | Bad_type | Bad_transport | Application_transport | Machine_transport | Tar_of_vm | Bad_cpu | Bad_memory
  | Bad_disk | Disk_missing | Bad_pool | Bad_network | Not_absolute string | Dir_refused string | Bad_exclude | Bad_database
  | Bad_service | Image_override

definition MODES :: "string list" where "MODES = [''whole-machine'', ''application'']"
definition TRANSPORTS :: "string list" where "TRANSPORTS = [''incus-migrate'', ''rootfs-tar'', ''file-sync'']"
definition GUEST_TYPES :: "string list" where "GUEST_TYPES = [''container'', ''virtual-machine'']"
definition PHASE_IDS :: "string list" where
  "PHASE_IDS = [''inventory'', ''transfer'', ''import'', ''post-import'', ''cutover'']"
definition TERMINAL :: "string list" where "TERMINAL = [''completed'', ''failed'', ''cancelled'']"
definition NEW_GUEST_IMAGE :: string where "NEW_GUEST_IMAGE = ''images:debian/13''"
definition DEFAULT_RSYNC_EXCLUDES :: "string list" where
  "DEFAULT_RSYNC_EXCLUDES =
     [''.git/'', ''node_modules/'', ''vendor/'', ''.venv/'', ''venv/'', ''__pycache__/'', ''*.pyc'', ''.next/cache/'', ''.nuxt/'',
      ''dist/cache/'', ''.cache/'', ''.parcel-cache/'', ''tmp/'', ''temp/'', ''*.log'', ''logs/'', ''*.sock'', ''*.pid'', ''*.swp'', ''.DS_Store'',
      ''storage/framework/cache/'', ''storage/logs/'']"

text \<open>\<open>/^[a-zA-Z0-9]([a-zA-Z0-9-]{0,61}[a-zA-Z0-9])?$/\<close> and \<open>/^[A-Za-z0-9][A-Za-z0-9._-]{0,62}$/\<close>\<close>

definition GUEST_NAME_RE :: "string \<Rightarrow> bool" where
  "GUEST_NAME_RE s \<longleftrightarrow> s \<noteq> [] \<and> length s \<le> 63 \<and> is_alnum (hd s) \<and> is_alnum (last s) \<and> list_all (\<lambda>c. is_alnum c \<or> c = CHR ''-'') s"

definition POOL_RE :: "string \<Rightarrow> bool" where
  "POOL_RE s \<longleftrightarrow> s \<noteq> [] \<and> length s \<le> 63 \<and> is_alnum (hd s) \<and> list_all (\<lambda>c. is_alnum c \<or> c \<in> set ''._-'') s"

definition or_text :: "string option \<Rightarrow> string \<Rightarrow> string" where
  "or_text x d = (case x of Some (c # t) \<Rightarrow> c # t | _ \<Rightarrow> d)"

definition resolveTransport :: "string \<Rightarrow> string \<Rightarrow> string \<Rightarrow> string option \<Rightarrow> string option" where
  "resolveTransport mode type sourceKind requested =
     (if or_text requested [] \<noteq> [] then if or_text requested [] \<in> set TRANSPORTS then requested else None
      else if mode = ''application'' then Some ''file-sync''
      else if type = ''container'' \<and> sourceKind \<in> {''proxmox-lxc'', ''lxc''} then Some ''rootfs-tar'' else Some ''incus-migrate'')"

definition strip_slashes :: "string \<Rightarrow> string" where
  "strip_slashes s = rev (dropWhile (\<lambda>c. c = CHR ''/'') (rev s))"

text \<open>One entry of \<open>app_dirs\<close>: absolute, not the root, no parent traversal.\<close>

definition app_dir :: "string \<Rightarrow> target_refusal + string" where
  "app_dir p =
     (if \<not> (prefix ''/'' p \<and> CHR 0x00 \<notin> set p \<and> newline \<notin> set p) then Inl (Not_absolute p)
      else if p = ''/'' \<or> ''..'' \<in> set (split_on (CHR ''/'') p) then Inl (Dir_refused p)
      else Inr (if strip_slashes p = [] then ''/'' else strip_slashes p))"

fun add_excludes :: "string list \<Rightarrow> string list \<Rightarrow> target_refusal + string list" where
  "add_excludes acc [] = Inr acc"
| "add_excludes acc (e # es) =
     (let s = trim e
      in if s = [] \<or> length s > 200 \<or> newline \<in> set s then Inl Bad_exclude
         else add_excludes (if s \<in> set acc then acc else acc @ [s]) es)"

definition SERVICE_RE :: "string \<Rightarrow> bool" where
  "SERVICE_RE s \<longleftrightarrow> s \<noteq> [] \<and> length s \<le> 128 \<and> list_all (\<lambda>c. is_alnum c \<or> c \<in> set ''@._-'') s"

text \<open>The application part: directories, exclusions, database, service; empty for a whole machine.\<close>

definition app_part :: "target_input \<Rightarrow> target_refusal + string list \<times> string list \<times> string \<times> string option \<times> string option" where
  "app_part i =
     (if ti_mode i \<noteq> ''application'' then Inr ([], DEFAULT_RSYNC_EXCLUDES, ''none'', None, None)
      else bindR (mapR app_dir (ti_dirs i)) (\<lambda>dirs. bindR (add_excludes DEFAULT_RSYNC_EXCLUDES (ti_excludes i)) (\<lambda>ex.
        let db = or_text (ti_database i) ''none''; sv = or_text (ti_service i) []
        in if db \<notin> {''none'', ''postgres'', ''mysql'', ''sqlite''} then Inl Bad_database
           else if sv \<noteq> [] \<and> \<not> SERVICE_RE sv then Inl Bad_service
           else if or_text (ti_image i) NEW_GUEST_IMAGE \<noteq> NEW_GUEST_IMAGE then Inl Image_override
           else Inr (dirs, ex, db, if sv = [] then None else Some sv, Some NEW_GUEST_IMAGE))))"

definition named :: "string option \<Rightarrow> string option" where
  "named x = (if x = Some [] then None else x)"

definition ok_if :: "('a \<Rightarrow> bool) \<Rightarrow> 'a option \<Rightarrow> bool" where
  "ok_if P x = (case x of None \<Rightarrow> True | Some a \<Rightarrow> P a)"

definition validateTarget :: "target_input \<Rightarrow> target_refusal + mig_spec" where
  "validateTarget i =
     (let mode = ti_mode i; type = or_text (ti_type i) ''container'';
          transport = resolveTransport mode type (or_text (ti_source_kind i) ''unknown'') (ti_transport i);
          cpu = (case ti_cpu i of None \<Rightarrow> 2 | Some n \<Rightarrow> n); memory = (case ti_memory i of None \<Rightarrow> 4 | Some n \<Rightarrow> n)
      in bindR (guardR (mode \<in> set MODES) Bad_mode) (\<lambda>_. bindR (guardR (GUEST_NAME_RE (ti_name i)) Bad_name) (\<lambda>_.
         bindR (guardR (type \<in> set GUEST_TYPES) Bad_type) (\<lambda>_. bindR (guardR (transport \<noteq> None) Bad_transport) (\<lambda>_.
         bindR (guardR (\<not> (mode = ''application'' \<and> transport \<noteq> Some ''file-sync'')) Application_transport) (\<lambda>_.
         bindR (guardR (\<not> (mode = ''whole-machine'' \<and> transport = Some ''file-sync'')) Machine_transport) (\<lambda>_.
         bindR (guardR (\<not> (transport = Some ''rootfs-tar'' \<and> type \<noteq> ''container'')) Tar_of_vm) (\<lambda>_.
         bindR (guardR (1 \<le> cpu \<and> cpu \<le> 128) Bad_cpu) (\<lambda>_. bindR (guardR (1 / 4 \<le> memory \<and> memory \<le> 1024) Bad_memory) (\<lambda>_.
         bindR (guardR (ok_if (\<lambda>n. 1 \<le> n \<and> n \<le> 8192) (ti_disk i)) Bad_disk) (\<lambda>_.
         bindR (guardR (\<not> (type = ''virtual-machine'' \<and> ti_disk i = None)) Disk_missing) (\<lambda>_.
         bindR (guardR (ok_if POOL_RE (named (ti_pool i))) Bad_pool) (\<lambda>_.
         bindR (guardR (ok_if POOL_RE (named (ti_network i))) Bad_network) (\<lambda>_.
         bindR (app_part i) (\<lambda>(dirs, ex, db, sv, im).
         Inr \<lparr>sp_mode = mode, sp_transport = the transport, sp_name = ti_name i, sp_type = type, sp_cpu = cpu, sp_memory = memory,
           sp_disk = ti_disk i, sp_pool = named (ti_pool i), sp_network = named (ti_network i), sp_nested = ti_nested i, sp_dirs = dirs,
           sp_excludes = ex, sp_database = db, sp_service = sv, sp_image = im, sp_auto = ti_auto i, sp_keep_agent = ti_keep_agent i,
           sp_install_tools = (ti_install_tools i \<noteq> Some False),
           sp_freeze = (if or_text (ti_freeze i) [] \<in> {''stop'', ''read-only'', ''none''} then or_text (ti_freeze i) [] else ''stop'')\<rparr>)))))))))))))))"

section \<open>Phases and checklist\<close>

fun phase_index :: "'a \<Rightarrow> 'a list \<Rightarrow> nat option" where
  "phase_index x [] = None"
| "phase_index x (y # ys) = (if x = y then Some 0 else map_option Suc (phase_index x ys))"

definition canAdvance :: "string \<Rightarrow> string \<Rightarrow> bool" where
  "canAdvance a b = (case (phase_index a PHASE_IDS, phase_index b PHASE_IDS) of (Some i, Some j) \<Rightarrow> i \<le> j | _ \<Rightarrow> False)"

text \<open>The steps with the modes they belong to; all are required.\<close>

definition CHECKLIST :: "(string \<times> string list) list" where
  "CHECKLIST =
     [(''snapshot_pre_cutover'', MODES), (''inventory_reviewed'', MODES), (''route_created'', MODES), (''egress_reviewed'', MODES),
      (''secrets_entered'', MODES), (''health_check'', MODES), (''final_delta_sync'', [''application'']), (''dns_switched'', MODES),
      (''source_frozen'', MODES), (''verified'', MODES), (''snapshot_post_cutover'', MODES)]"

definition checklist_steps :: "string \<Rightarrow> string list" where
  "checklist_steps mode = map fst (filter (\<lambda>s. mode \<in> set (snd s)) CHECKLIST)"

record step_done =
  sd_at :: int
  sd_by :: "string option"
  sd_note :: "string option"

type_synonym checklist = "string \<Rightarrow> step_done option"

definition checklistFor :: "string \<Rightarrow> checklist \<Rightarrow> (string \<times> bool) list" where
  "checklistFor mode state = map (\<lambda>s. (s, state s \<noteq> None)) (checklist_steps mode)"

definition checklistComplete :: "string \<Rightarrow> checklist \<Rightarrow> bool" where
  "checklistComplete mode state \<longleftrightarrow> list_all snd (checklistFor mode state)"

definition checklistProgress :: "string \<Rightarrow> checklist \<Rightarrow> nat \<times> nat \<times> string list" where
  "checklistProgress mode state =
     (let rows = checklistFor mode state in (length rows, length (filter snd rows), map fst (filter (\<lambda>r. \<not> snd r) rows)))"

section \<open>Commands and pins\<close>

definition installCommand :: "string \<Rightarrow> string \<Rightarrow> string" where
  "installCommand baseUrl token = ''curl -fsSL '' @ strip_slashes baseUrl @ ''/api/migrations/agent/'' @ token @ ''/install.sh | sudo sh''"

definition formatPin :: "string \<Rightarrow> string option" where
  "formatPin hex = (let h = filter is_lower_hex (to_lower hex) in if length h = 64 then Some (''sha256:'' @ h) else None)"

definition parsePin :: "string \<Rightarrow> string option" where
  "parsePin pin =
     (let s = to_lower (trim pin) in if take 7 s = ''sha256:'' \<and> length s = 71 \<and> list_all is_lower_hex (drop 7 s) then Some (drop 7 s) else None)"

text \<open>\<open>parseDebian13Release\<close> of \<open>lib/debian13-guest.js\<close>: \<open>/^([A-Z_]+)=(?:"([^"]*)"|'([^']*)'|([^\s#]*))$/\<close> on each line.\<close>

definition quoted_by :: "char \<Rightarrow> string \<Rightarrow> bool" where
  "quoted_by q v \<longleftrightarrow> 2 \<le> length v \<and> hd v = q \<and> last v = q \<and> q \<notin> set (butlast (tl v))"

definition release_field :: "string \<Rightarrow> (string \<times> string) option" where
  "release_field line =
     (let k = takeWhile (\<lambda>c. is_upper c \<or> c = CHR ''_'') line; r = drop (length k) line; v = tl r
      in if k = [] \<or> \<not> prefix ''='' r then None
         else if quoted_by (CHR 0x22) v \<or> quoted_by (CHR 0x27) v then Some (k, butlast (tl v))
         else if list_all (\<lambda>c. \<not> is_ws c \<and> c \<noteq> CHR ''#'') v then Some (k, v) else None)"

definition parseDebian13Release :: "string \<Rightarrow> bool" where
  "parseDebian13Release content \<longleftrightarrow> length content \<le> 8192 \<and>
     (let fields = rev (List.map_filter release_field (split_lines content))
      in map_of fields ''ID'' = Some ''debian'' \<and> map_of fields ''VERSION_ID'' = Some ''13'')"

end
