(* ===== verification/Mig_Service.thy ===== *)
theory Mig_Service
  imports Mig_Plan
begin

text \<open>
  Guest migrations, the rows and the host: \<open>admin/backend/src/lib/migration/service.js\<close> and the agent router of
  \<open>admin/backend/src/routes/migrations.js\<close>. A row holds the columns the operations read; the event stream, the audit
  log, the samples and the text of the answers are not modelled. The host (\<open>incus\<close>, \<open>proxypilot\<close>, \<open>tar\<close>, the files
  of the work directory) answers an operation by \<open>me_do\<close>, an arbitrary function; whether an inventory raises a blocking
  concern (the measured capacity and \<open>manifestConcerns\<close>) is the argument \<open>me_blocking\<close>.
\<close>

section \<open>Rows, host, errors\<close>

record os_release =
  os_id :: "string option"
  os_version :: "string option"
  os_arch :: "string option"
  os_hostname :: "string option"

record mig =
  mi_id :: int
  mi_mode :: string
  mi_transport :: string
  mi_status :: string
  mi_phase :: string
  mi_spec :: mig_spec
  mi_target :: string
  mi_token_id :: string
  mi_token_hash :: string
  mi_expires :: "int option"
  mi_claimed_by :: "string option"
  mi_claimed_at :: "int option"
  mi_last_seen :: "int option"
  mi_source_ip :: "string option"
  mi_revoked_at :: "int option"
  mi_revoked_by :: "string option"
  mi_manifest :: "os_release option"
  mi_approved_at :: "int option"
  mi_approved_by :: "string option"
  mi_checklist :: checklist
  mi_bytes_done :: int
  mi_bytes_total :: "int option"
  mi_error :: "string option"
  mi_finished_at :: "int option"
  mi_updated_at :: int
  mi_guest_created :: "bool option"

text \<open>\<open>Receive\<close> writes what arrives of a request body to a file.\<close>

datatype host_op =
    Exec "string list" | Magic string | Stat string | Mkdir string | Write_text string string | Receive string | Rm string

record answer =
  an_status :: int
  an_stdout :: string
  an_stderr :: string

record 'h mig_world =
  mw_rows :: "mig list"
  mw_next :: int
  mw_host :: 'h

record 'h mig_env =
  me_now :: int
  me_sha :: "string \<Rightarrow> string"
  me_prefix :: string
  me_work :: string
  me_number :: "rat \<Rightarrow> string"
  me_do :: "host_op \<Rightarrow> 'h \<Rightarrow> answer \<times> 'h"
  me_blocking :: "mig \<Rightarrow> 'h \<Rightarrow> bool \<times> 'h"
  me_fits :: "mig \<Rightarrow> string \<Rightarrow> 'h \<Rightarrow> bool \<times> 'h"
  me_routes :: "string list \<Rightarrow> 'h \<Rightarrow> string list option"

datatype token_refusal = T_bad | T_revoked | T_finished | T_expired | T_claimed

datatype mig_error =
    Refused_token token_refusal | Refused_target target_refusal | No_such_migration | Target_busy | Guest_exists | Status_is string
  | No_inventory | Already_approved | Not_debian13 | Blocking_concern | Invalid_manifest | Host_failed | Fence_unverified
  | Fence_incomplete | Not_proved string | No_rootfs | Failed_with string | Hash_differs | Unknown_engine | Database_name
  | Upload_refused | Switch_refused | Already_revoked | Nothing_to_do | Guest_absent | Adopted_guest | Routes_unread | Published
  | Unknown_step | No_dirs | Not_listening | Threw

type_synonym ('h, 'a) mig_eff = "('h mig_world, mig_error, 'a) eff"

definition host :: "'h mig_env \<Rightarrow> host_op \<Rightarrow> ('h, answer) mig_eff" where
  "host E oper w = (let (a, h) = me_do E oper (mw_host w) in (Inr a, w\<lparr>mw_host := h\<rparr>))"

definition exec :: "'h mig_env \<Rightarrow> string list \<Rightarrow> ('h, answer) mig_eff" where
  "exec E argv = host E (Exec argv)"

text \<open>A host operation that must succeed.\<close>

definition must :: "'h mig_env \<Rightarrow> host_op \<Rightarrow> mig_error \<Rightarrow> ('h, answer) mig_eff" where
  "must E oper e = bindE (host E oper) (\<lambda>a. bindE (guardE (an_status a = 0) e) (\<lambda>_. ret a))"

definition find_row :: "(mig \<Rightarrow> bool) \<Rightarrow> ('h, mig option) mig_eff" where
  "find_row P = getsE (\<lambda>w. find P (mw_rows w))"

definition set_row :: "int \<Rightarrow> (mig \<Rightarrow> mig) \<Rightarrow> ('h, unit) mig_eff" where
  "set_row i f = modE (\<lambda>w. w\<lparr>mw_rows := map (\<lambda>r. if mi_id r = i then f r else r) (mw_rows w)\<rparr>)"

definition need_mig :: "int \<Rightarrow> ('h, mig) mig_eff" where
  "need_mig i = bindE (find_row (\<lambda>r. mi_id r = i)) (\<lambda>x. case x of None \<Rightarrow> throw No_such_migration | Some r \<Rightarrow> ret r)"

section \<open>The token\<close>

definition verifyToken :: "'h mig_env \<Rightarrow> mig option \<Rightarrow> string \<Rightarrow> string option \<Rightarrow> token_refusal + bool" where
  "verifyToken E row presented claimant =
     (case (parseToken presented, row) of
        (Some (i, secret), Some r) \<Rightarrow>
          if i \<noteq> mi_token_id r \<or> \<not> secretMatches (me_sha E) secret (mi_token_hash r) then Inl T_bad
          else if mi_revoked_at r \<noteq> None then Inl T_revoked
          else if mi_status r \<in> set TERMINAL then Inl T_finished
          else if (case mi_expires r of Some t \<Rightarrow> me_now E > t | None \<Rightarrow> False) then Inl T_expired
          else (case (mi_claimed_by r, claimant) of
              (Some a, Some c) \<Rightarrow> if a \<noteq> c then Inl T_claimed else Inr False
            | (a, _) \<Rightarrow> Inr (a = None))
      | _ \<Rightarrow> Inl T_bad)"

datatype token_word = Revoked_token | Spent | Expired_token | Active_token | Unclaimed

definition tokenState :: "'h mig_env \<Rightarrow> mig \<Rightarrow> token_word \<times> bool" where
  "tokenState E r =
     (if mi_revoked_at r \<noteq> None then (Revoked_token, False)
      else if mi_status r \<in> set TERMINAL then (Spent, False)
      else if (case mi_expires r of Some t \<Rightarrow> me_now E > t | None \<Rightarrow> False) then (Expired_token, False)
      else if mi_claimed_by r \<noteq> None then (Active_token, True) else (Unclaimed, True))"

definition authenticate :: "'h mig_env \<Rightarrow> string \<Rightarrow> string option \<Rightarrow> string option \<Rightarrow> ('h, mig) mig_eff" where
  "authenticate E presented claimant ip =
     (case parseToken presented of
        None \<Rightarrow> throw (Refused_token T_bad)
      | Some (i, secret) \<Rightarrow>
          bindE (find_row (\<lambda>r. mi_token_id r = i)) (\<lambda>row.
          (case verifyToken E row presented claimant of
             Inl e \<Rightarrow> throw (Refused_token e)
           | Inr first \<Rightarrow>
               bindE (if first \<and> claimant \<noteq> None
                      then set_row (mi_id (the row)) (\<lambda>r. r\<lparr>mi_claimed_by := claimant, mi_claimed_at := Some (me_now E), mi_source_ip := ip,
                        mi_updated_at := me_now E\<rparr>) else ret ()) (\<lambda>_.
               bindE (set_row (mi_id (the row)) (\<lambda>r. r\<lparr>mi_last_seen := Some (me_now E)\<rparr>)) (\<lambda>_. need_mig (mi_id (the row)))))))"

text \<open>The router takes an empty run header for none, and cuts a long one.\<close>

definition agentAuth :: "'h mig_env \<Rightarrow> string \<Rightarrow> string \<Rightarrow> string option \<Rightarrow> ('h, mig) mig_eff" where
  "agentAuth E token run ip = authenticate E token (if take 64 run = [] then None else Some (take 64 run)) ip"

definition revokeToken :: "'h mig_env \<Rightarrow> int \<Rightarrow> string option \<Rightarrow> ('h, unit) mig_eff" where
  "revokeToken E i actor =
     bindE (need_mig i) (\<lambda>row. bindE (guardE (mi_revoked_at row = None) Already_revoked) (\<lambda>_.
     set_row i (\<lambda>r. r\<lparr>mi_revoked_at := Some (me_now E), mi_revoked_by := map_option (take 120) (case actor of Some [] \<Rightarrow> None | a \<Rightarrow> a),
       mi_updated_at := me_now E\<rparr>)))"

definition fail_mig :: "'h mig_env \<Rightarrow> int \<Rightarrow> string \<Rightarrow> ('h, 'a) mig_eff" where
  "fail_mig E i message =
     bindE (set_row i (\<lambda>r. r\<lparr>mi_status := ''failed'', mi_error := Some (take 1000 message), mi_finished_at := Some (me_now E),
       mi_updated_at := me_now E\<rparr>)) (\<lambda>_. throw (Failed_with message))"

section \<open>The guest\<close>

definition fence_name :: "'h mig_env \<Rightarrow> string \<Rightarrow> string" where
  "fence_name E target = (if prefix (me_prefix E) target then drop (length (me_prefix E)) target else target)"

text \<open>The fallback stands for text that is empty or no JSON.\<close>

definition parse_or :: "string \<Rightarrow> jval \<Rightarrow> jval" where
  "parse_or s d = (if s = [] then d else case JSON_parse s of Some v \<Rightarrow> v | None \<Rightarrow> d)"

text \<open>The elements of an optional array; anything else throws.\<close>

definition array_or_none :: "jval option \<Rightarrow> mig_error + jval list" where
  "array_or_none v = (if \<not> js_truthy v then Inr [] else case v of Some (JArr vs) \<Rightarrow> Inr vs | _ \<Rightarrow> Inl Threw)"

definition entry_for :: "string \<Rightarrow> string \<Rightarrow> jval \<Rightarrow> bool" where
  "entry_for bare target e \<longleftrightarrow> js_truthy (Some e) \<and> (jget (Some e) ''container'' = Some (JStr bare) \<or> jget (Some e) ''container'' = Some (JStr target))"

definition entry_service :: "jval \<Rightarrow> string option" where
  "entry_service e =
     (let service = jget (Some e) ''service''; port = jget (Some e) ''port''; proto = jget (Some e) ''proto''
      in if js_truthy service then Some (js_String_opt service)
         else if js_truthy port then Some ((if js_truthy proto then js_String_opt proto else ''tcp'') @ '':'' @ js_String_opt port) else None)"

definition fenceGuest :: "'h mig_env \<Rightarrow> string \<Rightarrow> ('h, string list) mig_eff" where
  "fenceGuest E target =
     bindE (exec E [''proxypilot'', ''--json'', ''firewall'', ''egress'', ''list'']) (\<lambda>a.
     bindE (guardE (an_status a = 0) Fence_unverified) (\<lambda>_.
     bindE (liftE (array_or_none (jget (Some (parse_or (an_stdout a) (JObj []))) ''entries''))) (\<lambda>vs.
     let svcs = List.map_filter entry_service (filter (entry_for (fence_name E target) target) vs)
     in bindE (forE svcs (\<lambda>s. bindE (exec E [''proxypilot'', ''--json'', ''firewall'', ''egress'', ''deny'', fence_name E target, s]) (\<lambda>d.
          guardE (an_status d = 0) Fence_incomplete))) (\<lambda>_. ret svcs))))"

definition verifyImportedGuest :: "'h mig_env \<Rightarrow> string \<Rightarrow> ('h, unit) mig_eff" where
  "verifyImportedGuest E name =
     (let read = exec E [''incus'', ''exec'', name, ''--'', ''cat'', ''/etc/os-release'']
      in bindE read (\<lambda>a.
         bindE (if an_status a \<noteq> 0
                then bindE (must E (Exec [''incus'', ''start'', name]) (Not_proved (name @ '' could not start for Debian 13 /etc/os-release verification'')))
                  (\<lambda>_. bindE read (\<lambda>b. ret (b, True)))
                else ret (a, False)) (\<lambda>(release, started).
         if an_status release \<noteq> 0 \<or> \<not> parseDebian13Release (an_stdout release)
         then bindE (exec E [''incus'', ''stop'', name, ''--force''])
           (\<lambda>_. throw (Not_proved (name @ '':/etc/os-release did not prove Debian 13; guest stopped'')))
         else if started
         then bindE (must E (Exec [''incus'', ''stop'', name]) (Not_proved (name @ '' proved Debian 13 but could not be stopped after verification'')))
           (\<lambda>_. ret ())
         else ret ())))"

definition guest_config :: "'h mig_env \<Rightarrow> mig_spec \<Rightarrow> (string \<times> string) list" where
  "guest_config E s =
     [(''limits.cpu'', show_int (sp_cpu s)), (''limits.memory'', me_number E (sp_memory s) @ ''GB''), (''boot.autostart'', ''false'')] @
     (if sp_nested s then [(''security.nesting'', ''true''), (''security.syscalls.intercept.mknod'', ''true''),
        (''security.syscalls.intercept.setxattr'', ''true''), (''security.syscalls.intercept.bpf'', ''true''),
        (''security.syscalls.intercept.bpf.devices'', ''true'')] else [])"

definition guest_argv :: "'h mig_env \<Rightarrow> mig_spec \<Rightarrow> string list" where
  "guest_argv E s =
     (case sp_pool s of Some p \<Rightarrow> [''--storage'', p] | None \<Rightarrow> []) @ (case sp_network s of Some n \<Rightarrow> [''--network'', n] | None \<Rightarrow> []) @
     concat (map (\<lambda>(k, v). [''--config'', k @ ''='' @ v]) (guest_config E s)) @
     (case sp_disk s of Some d \<Rightarrow> [''--device'', ''root,size='' @ show_int d @ ''GB''] | None \<Rightarrow> [])"

definition release_proved :: "answer \<Rightarrow> bool" where
  "release_proved a \<longleftrightarrow> an_status a = 0 \<and> parseDebian13Release (an_stdout a)"

definition ensureApplicationGuest :: "'h mig_env \<Rightarrow> mig \<Rightarrow> ('h, unit) mig_eff" where
  "ensureApplicationGuest E row =
     (let t = mi_target row; s = mi_spec row; verify = exec E [''incus'', ''exec'', t, ''--'', ''cat'', ''/etc/os-release'']
      in bindE (guardE (sp_image s = Some ''images:debian/13'') (Refused_target Image_override)) (\<lambda>_.
         bindE (exec E [''incus'', ''config'', ''show'', t]) (\<lambda>existing.
         if an_status existing = 0
         then bindE verify (\<lambda>a. bindE (guardE (release_proved a) (Not_proved (''existing guest '' @ t @ '' does not prove Debian 13 in /etc/os-release''))) (\<lambda>_. set_row (mi_id row) (\<lambda>r. r\<lparr>mi_guest_created := Some False\<rparr>)))
         else bindE (must E (Exec ([''incus'', ''launch'', ''images:debian/13'', t] @ guest_argv E s)) Host_failed) (\<lambda>_.
              bindE verify (\<lambda>a.
              if release_proved a
              then bindE (set_row (mi_id row) (\<lambda>r. r\<lparr>mi_guest_created := Some True\<rparr>)) (\<lambda>_. bindE (fenceGuest E t) (\<lambda>_. ret ()))
              else bindE (exec E [''incus'', ''stop'', t, ''--force'']) (\<lambda>x. throw (Not_proved (''new migration guest '' @ t @ '' did not prove Debian 13 in /etc/os-release; '' @
                     (if an_status x = 0 then ''stopped'' else ''could not be stopped'')))))))))"

section \<open>Creating, inventory, approval\<close>

definition createMigration :: "'h mig_env \<Rightarrow> string \<Rightarrow> string \<Rightarrow> rat option \<Rightarrow> target_input \<Rightarrow> ('h, int \<times> string) mig_eff" where
  "createMigration E rand_id rand_secret ttl input =
     (case validateTarget input of
        Inl e \<Rightarrow> throw (Refused_target e)
      | Inr spec \<Rightarrow>
          (let t = me_prefix E @ sp_name spec; m = mintMigrationToken (me_sha E) rand_id rand_secret ttl (me_now E)
           in bindE (find_row (\<lambda>r. mi_target r = t \<and> mi_status r \<notin> set TERMINAL)) (\<lambda>clash.
              bindE (guardE (Option.is_none clash) Target_busy) (\<lambda>_.
              bindE (exec E [''incus'', ''config'', ''show'', t]) (\<lambda>a.
              bindE (guardE (\<not> (an_status a = 0 \<and> sp_mode spec = ''whole-machine'')) Guest_exists) (\<lambda>_.
              bindE (find_row (\<lambda>r. mi_token_id r = mt_id m)) (\<lambda>same. bindE (guardE (Option.is_none same) Threw) (\<lambda>_.
              bindE (getsE mw_next) (\<lambda>i.
              bindE (modE (\<lambda>w. w\<lparr>mw_next := i + 1, mw_rows := mw_rows w @ [\<lparr>mi_id = i, mi_mode = sp_mode spec, mi_transport = sp_transport spec,
                mi_status = ''created'', mi_phase = ''inventory'', mi_spec = spec, mi_target = t, mi_token_id = mt_id m, mi_token_hash = mt_hash m,
                mi_expires = mt_expires m, mi_claimed_by = None, mi_claimed_at = None, mi_last_seen = None, mi_source_ip = None,
                mi_revoked_at = None, mi_revoked_by = None, mi_manifest = None, mi_approved_at = None, mi_approved_by = None,
                mi_checklist = (\<lambda>_. None), mi_bytes_done = 0, mi_bytes_total = None, mi_error = None, mi_finished_at = None,
                mi_updated_at = me_now E, mi_guest_created = None\<rparr>]\<rparr>)) (\<lambda>_. ret (i, mt_token m)))))))))))"

text \<open>\<open>manifest\<close> is what \<open>validateManifest\<close> makes of the request, None where it refuses.\<close>

definition recordManifest :: "'h mig_env \<Rightarrow> mig \<Rightarrow> os_release option \<Rightarrow> ('h, bool) mig_eff" where
  "recordManifest E row manifest =
     (case manifest of
        None \<Rightarrow> throw Invalid_manifest
      | Some m \<Rightarrow>
          (let auto = sp_auto (mi_spec row)
           in bindE (set_row (mi_id row) (\<lambda>r. r\<lparr>mi_manifest := Some m, mi_status := (if auto then ''running'' else ''awaiting_review''),
                mi_updated_at := me_now E,
                mi_approved_at := (if mi_approved_at r = None \<and> auto then Some (me_now E) else mi_approved_at r),
                mi_approved_by := (if mi_approved_by r = None \<and> auto then Some ''auto_transfer'' else mi_approved_by r)\<rparr>)) (\<lambda>_.
              bindE (modE (\<lambda>w. w\<lparr>mw_host := snd (me_blocking E row (mw_host w))\<rparr>)) (\<lambda>_. ret auto))))"

definition is_debian13 :: "os_release option \<Rightarrow> bool" where
  "is_debian13 m \<longleftrightarrow> (case m of None \<Rightarrow> False | Some os \<Rightarrow> os_id os = Some ''debian'' \<and> os_version os = Some ''13'')"

definition approve_commit :: "'h mig_env \<Rightarrow> int \<Rightarrow> string option \<Rightarrow> ('h, unit) mig_eff" where
  "approve_commit E i actor =
     set_row i (\<lambda>r. r\<lparr>mi_approved_at := Some (me_now E), mi_approved_by := actor, mi_status := ''running'', mi_phase := ''transfer'',
       mi_updated_at := me_now E\<rparr>)"

definition approveTransfer :: "'h mig_env \<Rightarrow> int \<Rightarrow> string option \<Rightarrow> bool \<Rightarrow> ('h, unit) mig_eff" where
  "approveTransfer E i actor override =
     bindE (need_mig i) (\<lambda>row.
     bindE (guardE (mi_status row \<notin> set TERMINAL) (Status_is (mi_status row))) (\<lambda>_.
     bindE (guardE (mi_manifest row \<noteq> None) No_inventory) (\<lambda>_.
     bindE (guardE (mi_approved_at row = None) Already_approved) (\<lambda>_.
     bindE (guardE (mi_mode row = ''whole-machine'' \<longrightarrow> is_debian13 (mi_manifest row)) Not_debian13) (\<lambda>_.
     bindE (\<lambda>w. let (b, h) = me_blocking E row (mw_host w) in (Inr b, w\<lparr>mw_host := h\<rparr>)) (\<lambda>blocking.
     bindE (guardE (\<not> blocking \<or> override) Blocking_concern) (\<lambda>_.
     bindE (if mi_mode row = ''application'' then ensureApplicationGuest E row else ret ()) (\<lambda>_.
     approve_commit E i actor))))))))"

end
