(* ===== verification/Mig_Transfer.thy ===== *)
theory Mig_Transfer
  imports Mig_Service
begin

text \<open>
  Guest migrations, from the job the agent polls to the clean-up: the second half of
  \<open>admin/backend/src/lib/migration/service.js\<close>, and the requests of the agent router of \<open>routes/migrations.js\<close>. The compressor a job
  names is not modelled.
\<close>

section \<open>The job\<close>

definition last_line :: "string \<Rightarrow> string" where
  "last_line s = (case rev (filter (\<lambda>l. l \<noteq> []) (split_on newline (trim s))) of [] \<Rightarrow> [] | l # _ \<Rightarrow> l)"

definition trust_name :: "mig \<Rightarrow> string" where
  "trust_name row = ''pp-migrate-'' @ show_int (mi_id row)"

text \<open>The trust token of an \<open>incus-migrate\<close> transfer; the address and the fingerprint of the answer are not modelled.\<close>

definition incusTrustToken :: "'h mig_env \<Rightarrow> mig \<Rightarrow> ('h, string) mig_eff" where
  "incusTrustToken E row =
     bindE (exec E [''incus'', ''config'', ''get'', ''core.https_address'']) (\<lambda>addr.
     bindE (guardE (an_status addr = 0) Host_failed) (\<lambda>_. bindE (guardE (trim (an_stdout addr) \<noteq> []) Not_listening) (\<lambda>_.
     bindE (exec E [''incus'', ''config'', ''trust'', ''add'', ''--name'', trust_name row, ''--quiet'']) (\<lambda>mk.
     bindE (if an_status mk \<noteq> 0 \<or> last_line (an_stdout mk) = []
            then bindE (exec E [''incus'', ''config'', ''trust'', ''add'', trust_name row]) (\<lambda>old.
              bindE (guardE (\<not> (an_status old \<noteq> 0 \<or> last_line (an_stdout old) = [])) Host_failed) (\<lambda>_. ret (last_line (an_stdout old))))
            else ret (last_line (an_stdout mk))) (\<lambda>token.
     bindE (exec E [''incus'', ''info'']) (\<lambda>_. ret token))))))"

definition syncTarget :: "'h mig_env \<Rightarrow> mig \<Rightarrow> ('h, string list) mig_eff" where
  "syncTarget E row =
     bindE (exec E [''incus'', ''config'', ''show'', mi_target row]) (\<lambda>a. bindE (guardE (an_status a = 0) Guest_absent) (\<lambda>_.
     bindE (guardE (sp_dirs (mi_spec row) \<noteq> []) No_dirs) (\<lambda>_. ret (sp_dirs (mi_spec row)))))"

datatype carried = Nothing | Trust string | Rootfs | Dirs "string list" | Job_error mig_error

record job =
  jb_status :: string
  jb_phase :: string
  jb_approved :: bool
  jb_cancelled :: bool
  jb_collect :: bool
  jb_poll :: int
  jb_carries :: carried

definition row_approved :: "mig \<Rightarrow> bool" where
  "row_approved row \<longleftrightarrow> mi_approved_at row \<noteq> None \<or> sp_auto (mi_spec row)"

definition job_of :: "mig \<Rightarrow> bool \<Rightarrow> carried \<Rightarrow> job" where
  "job_of row approved c = \<lparr>jb_status = mi_status row, jb_phase = mi_phase row, jb_approved = approved,
     jb_cancelled = (mi_status row = ''cancelled''), jb_collect = (mi_manifest row = None),
     jb_poll = (if mi_status row = ''awaiting_review'' then 15 else 5), jb_carries = c\<rparr>"

definition agentJob :: "'h mig_env \<Rightarrow> mig \<Rightarrow> ('h, job) mig_eff" where
  "agentJob E row =
     (if \<not> row_approved row then ret (job_of row False Nothing)
      else if mi_transport row = ''incus-migrate''
        then catchE (bindE (incusTrustToken E row) (\<lambda>t. ret (job_of row True (Trust t)))) (\<lambda>e. ret (job_of row False (Job_error e)))
      else if mi_transport row = ''rootfs-tar'' then ret (job_of row True Rootfs)
      else if mi_transport row = ''file-sync''
        then catchE (bindE (syncTarget E row) (\<lambda>ds. ret (job_of row True (Dirs ds)))) (\<lambda>e. ret (job_of row False (Job_error e)))
      else ret (job_of row True Nothing))"

section \<open>Trust\<close>

definition trust_fingerprint :: "string \<Rightarrow> jval \<Rightarrow> string option" where
  "trust_fingerprint name c =
     (if jget (Some c) ''name'' = Some (JStr name) \<and> js_truthy (jget (Some c) ''fingerprint'')
      then Some (js_String_opt (jget (Some c) ''fingerprint'')) else None)"

definition trust_list :: "jval \<Rightarrow> mig_error + jval list" where
  "trust_list v = (if \<not> js_truthy (Some v) then Inr [] else case v of JArr vs \<Rightarrow> Inr vs | JStr s \<Rightarrow> Inr [] | _ \<Rightarrow> Inl Threw)"

definition revokeTrust :: "'h mig_env \<Rightarrow> mig \<Rightarrow> ('h, unit) mig_eff" where
  "revokeTrust E row =
     bindE (exec E [''incus'', ''config'', ''trust'', ''list'', ''--format'', ''json'']) (\<lambda>a.
     if an_status a \<noteq> 0 then ret ()
     else bindE (liftE (trust_list (parse_or (an_stdout a) (JArr [])))) (\<lambda>cs.
          forE (List.map_filter (trust_fingerprint (trust_name row)) cs) (\<lambda>fp.
            bindE (exec E [''incus'', ''config'', ''trust'', ''remove'', fp]) (\<lambda>_. ret ()))))"

definition switchTransport :: "'h mig_env \<Rightarrow> mig \<Rightarrow> string \<Rightarrow> ('h, job) mig_eff" where
  "switchTransport E row tr =
     bindE (guardE (mi_mode row = ''whole-machine'') Switch_refused) (\<lambda>_. bindE (guardE (mi_transport row \<noteq> tr) Switch_refused) (\<lambda>_.
     bindE (guardE (mi_transport row = ''incus-migrate'' \<and> tr = ''rootfs-tar'') Switch_refused) (\<lambda>_.
     bindE (guardE (mi_status row \<notin> set TERMINAL) (Status_is (mi_status row))) (\<lambda>_.
     bindE (guardE (row_approved row) Switch_refused) (\<lambda>_. bindE (guardE (mi_phase row = ''transfer'') Switch_refused) (\<lambda>_.
     bindE (guardE (sp_type (mi_spec row) \<noteq> ''virtual-machine'') Switch_refused) (\<lambda>_.
     bindE (\<lambda>w. let (b, h) = me_fits E row tr (mw_host w) in (Inr b, w\<lparr>mw_host := h\<rparr>)) (\<lambda>fits.
     bindE (guardE fits Blocking_concern) (\<lambda>_.
     bindE (set_row (mi_id row) (\<lambda>r. r\<lparr>mi_transport := tr, mi_spec := (mi_spec row)\<lparr>sp_transport := tr\<rparr>, mi_updated_at := me_now E\<rparr>)) (\<lambda>_.
     bindE (catchE (revokeTrust E row) (\<lambda>_. ret ())) (\<lambda>_. bindE (need_mig (mi_id row)) (agentJob E))))))))))))"

section \<open>Events\<close>

record agent_event =
  ae_kind :: string
  ae_phase :: "string option"
  ae_bytes :: "int option"
  ae_total :: "int option"
  ae_message :: "string option"

definition EVENT_KINDS :: "string list" where
  "EVENT_KINDS = [''progress'', ''log'', ''error'', ''phase'', ''state'']"

text \<open>Byte counts are whole: the route accepts only numbers that are not negative, and the code rounds them.\<close>

definition recordEvent :: "'h mig_env \<Rightarrow> mig \<Rightarrow> agent_event \<Rightarrow> ('h, string) mig_eff" where
  "recordEvent E row ev =
     (let next = (case ae_phase ev of Some p \<Rightarrow> if p \<noteq> [] \<and> canAdvance (mi_phase row) p then p else mi_phase row | None \<Rightarrow> mi_phase row)
      in bindE (set_row (mi_id row) (\<lambda>r. r\<lparr>mi_updated_at := me_now E,
           mi_phase := (if next \<noteq> mi_phase row then next else mi_phase r),
           mi_bytes_done := (case ae_bytes ev of Some b \<Rightarrow> max 0 b | None \<Rightarrow> mi_bytes_done r),
           mi_bytes_total := (case ae_total ev of Some b \<Rightarrow> Some (max 0 b) | None \<Rightarrow> mi_bytes_total r),
           mi_error := (if ae_kind ev = ''error'' then Some (take 1000 (or_text (ae_message ev) ''the agent reported an error'')) else mi_error r),
           mi_status := (if mi_status row = ''created'' \<or> mi_status row = ''awaiting_review'' \<and> next \<noteq> ''inventory'' then ''running'' else mi_status r)\<rparr>))
           (\<lambda>_. ret next))"

section \<open>Artifacts\<close>

definition work_path :: "'h mig_env \<Rightarrow> mig \<Rightarrow> string \<Rightarrow> string" where
  "work_path E row name = me_work E @ ''/'' @ show_int (mi_id row) @ ''/'' @ name"

definition decompressor :: "string \<Rightarrow> string" where
  "decompressor magic =
     (if take 4 magic = [CHR 0x28, CHR 0xB5, CHR 0x2F, CHR 0xFD] then ''zstd -dc''
      else if take 2 magic = [CHR 0x1F, CHR 0x8B] then ''gzip -dc'' else ''cat'')"

definition decompressorFor :: "'h mig_env \<Rightarrow> string \<Rightarrow> ('h, string) mig_eff" where
  "decompressorFor E path = bindE (host E (Magic path)) (\<lambda>a. ret (decompressor (an_stdout a)))"

definition q2 :: string where "q2 = dq @ ''$2'' @ dq"
definition q1 :: string where "q1 = dq @ ''$1'' @ dq"

definition unpackIntoGuest :: "'h mig_env \<Rightarrow> mig \<Rightarrow> string \<Rightarrow> ('h, unit) mig_eff" where
  "unpackIntoGuest E row tarPath =
     bindE (decompressorFor E tarPath) (\<lambda>d.
     bindE (must E (Exec [''sh'', ''-c'', d @ '' '' @ q2 @ '' | incus exec '' @ q1 @ '' -- tar -xf - -C /'', ''sh'', mi_target row, tarPath]) Host_failed)
       (\<lambda>_. ret ()))"

definition db_name_ok :: "string \<Rightarrow> bool" where
  "db_name_ok s \<longleftrightarrow> s \<noteq> [] \<and> length s \<le> 63 \<and> list_all (\<lambda>c. is_alnum c \<or> c = CHR ''_'') s"

text \<open>The engine and the database a dump names; the script runs in the guest with the database's own name in it.\<close>

definition restore_script :: "string \<Rightarrow> string \<Rightarrow> mig_error + string" where
  "restore_script d engineAndDb =
     (let ps = split_on (CHR '':'') engineAndDb; engine = hd ps; dbname = (case ps of _ # n # _ \<Rightarrow> n | _ \<Rightarrow> [])
      in if engine = ''postgres'' then
           if \<not> db_name_ok dbname then Inl Database_name
           else Inr (d @ '' '' @ q2 @ '' | incus exec '' @ q1 @ '' -- sh -c '' @ [CHR 0x27] @ ''command -v pg_restore >/dev/null || { echo '' @ dq @
             ''postgresql is not installed in the guest'' @ dq @ '' >&2; exit 90; }; su postgres -c '' @ dq @ ''createdb '' @ dbname @ dq @
             '' 2>/dev/null; su postgres -c '' @ dq @ ''pg_restore --no-owner --no-acl -d '' @ dbname @ dq @ [CHR 0x27])
         else if engine = ''mysql'' then
           Inr (d @ '' '' @ q2 @ '' | incus exec '' @ q1 @ '' -- sh -c '' @ [CHR 0x27] @ ''command -v mysql >/dev/null || { echo '' @ dq @
             ''mysql is not installed in the guest'' @ dq @ '' >&2; exit 90; }; mysql'' @ [CHR 0x27])
         else Inl Unknown_engine)"

definition restoreIntoGuest :: "'h mig_env \<Rightarrow> mig \<Rightarrow> string \<Rightarrow> string \<Rightarrow> ('h, unit) mig_eff" where
  "restoreIntoGuest E row dumpPath engineAndDb =
     bindE (decompressorFor E dumpPath) (\<lambda>d. bindE (liftE (restore_script d engineAndDb)) (\<lambda>script.
     bindE (must E (Exec [''sh'', ''-c'', script, ''sh'', mi_target row, dumpPath]) Host_failed) (\<lambda>_. ret ())))"

text \<open>
  What a request body comes to: it broke, and this is the text the migration fails with, or it arrived whole with its SHA-256.
\<close>

datatype upload = Broken string | Whole string

definition safe_name :: "'h mig_env \<Rightarrow> string \<Rightarrow> string" where
  "safe_name E name =
     (let s = take 64 (map (\<lambda>c. if is_alnum c \<or> c \<in> set ''._-'' then c else CHR ''_'') name) in if s = [] then show_int (me_now E) else s)"

definition receiveArtifact :: "'h mig_env \<Rightarrow> mig \<Rightarrow> upload \<Rightarrow> string option \<Rightarrow> string \<Rightarrow> string \<Rightarrow> ('h, unit) mig_eff" where
  "receiveArtifact E row body expected kind name =
     (let path = work_path E row (if kind = ''rootfs'' then ''rootfs.tar.gz'' else kind @ ''-'' @ safe_name E name @ ''.bin'')
      in bindE (must E (Mkdir (me_work E @ ''/'' @ show_int (mi_id row))) Threw) (\<lambda>_. bindE (host E (Receive path)) (\<lambda>_.
         case body of
           Broken reason \<Rightarrow> bindE (host E (Rm path)) (\<lambda>_. fail_mig E (mi_id row) reason)
         | Whole sha \<Rightarrow>
             if (case expected of Some e \<Rightarrow> to_lower e \<noteq> sha | None \<Rightarrow> False) then bindE (host E (Rm path)) (\<lambda>_. throw Hash_differs)
             else if kind = ''dir'' \<or> kind = ''dbdump''
               then (let unpack = (if kind = ''dir'' then unpackIntoGuest E row path else restoreIntoGuest E row path name);
                         clean = bindE (host E (Rm path)) (\<lambda>_. ret ())
                     in bindE (catchE unpack (\<lambda>e. bindE clean (\<lambda>_. throw e))) (\<lambda>_. clean))
               else ret ())))"

section \<open>Import\<close>

definition normalizeArch :: "string option \<Rightarrow> string" where
  "normalizeArch a =
     (let s = to_lower (or_text a [])
      in if s \<in> {''amd64'', ''x86_64''} then ''x86_64'' else if s \<in> {''arm64'', ''aarch64''} then ''aarch64'' else ''x86_64'')"

definition image_metadata :: "'h mig_env \<Rightarrow> mig \<Rightarrow> string" where
  "image_metadata E row =
     (let m = mi_manifest row;
          field = (\<lambda>x d. case x of Some (c # t) \<Rightarrow> c # t | _ \<Rightarrow> d)
      in join nl [''architecture: '' @ normalizeArch (case m of Some os \<Rightarrow> os_arch os | None \<Rightarrow> None),
           ''creation_date: '' @ show_int (me_now E div 1000), ''properties:'',
           ''  description: ProxyPilot migration '' @ show_int (mi_id row) @ '' from '' @
             field (case m of Some os \<Rightarrow> os_hostname os | None \<Rightarrow> None) ''an unknown source'',
           ''  os: '' @ field (case m of Some os \<Rightarrow> os_id os | None \<Rightarrow> None) ''unknown'',
           ''  release: '' @ field (case m of Some os \<Rightarrow> os_version os | None \<Rightarrow> None) ''unknown'', []])"

text \<open>The image import, once more from a decompressed copy when Incus would not read the compressed one.\<close>

definition import_image :: "'h mig_env \<Rightarrow> string \<Rightarrow> string \<Rightarrow> string \<Rightarrow> ('h, unit) mig_eff" where
  "import_image E meta rootfs alias =
     (let import = (\<lambda>p. exec E [''incus'', ''image'', ''import'', meta, p, ''--alias'', alias]); plain = rootfs @ ''.plain.tar''
      in bindE (import rootfs) (\<lambda>a.
         bindE (if an_status a = 0 then ret a
                else bindE (decompressorFor E rootfs) (\<lambda>d.
                  if d = ''cat'' then ret a
                  else bindE (exec E [''sh'', ''-c'', d @ '' '' @ q1 @ '' > '' @ q2, ''sh'', rootfs, plain]) (\<lambda>x.
                    if an_status x \<noteq> 0 then ret a
                    else bindE (import plain) (\<lambda>b. bindE (exec E [''rm'', ''-f'', plain]) (\<lambda>_. ret b))))) (\<lambda>r.
         guardE (an_status r = 0) Host_failed)))"

text \<open>
  Everything \<open>importRootfsTar\<close> does on the host. The write of the row comes after it, in \<open>finish_commit\<close>: between the two
  lie the waits of all these commands, and other requests.
\<close>

definition import_checks :: "'h mig_env \<Rightarrow> mig \<Rightarrow> ('h, unit) mig_eff" where
  "import_checks E row =
     (let wd = me_work E @ ''/'' @ show_int (mi_id row); rootfs = work_path E row ''rootfs.tar.gz''; meta = work_path E row ''metadata.tar.xz'';
          alias = ''pp-migration-'' @ show_int (mi_id row); t = mi_target row
      in bindE (guardE (is_debian13 (mi_manifest row)) Not_debian13) (\<lambda>_. bindE (must E (Mkdir wd) Threw) (\<lambda>_.
         bindE (must E (Stat rootfs) No_rootfs) (\<lambda>_. bindE (must E (Mkdir (wd @ ''/meta'')) Threw) (\<lambda>_.
         bindE (must E (Write_text (wd @ ''/meta/metadata.yaml'') (image_metadata E row)) Threw) (\<lambda>_.
         bindE (must E (Exec [''tar'', ''-cJf'', meta, ''-C'', wd @ ''/meta'', ''metadata.yaml'']) Host_failed) (\<lambda>_.
         bindE (import_image E meta rootfs alias) (\<lambda>_.
         bindE (exec E ([''incus'', ''init'', alias, t] @ guest_argv E (mi_spec row))) (\<lambda>init.
         bindE (exec E [''incus'', ''image'', ''delete'', alias]) (\<lambda>_. bindE (guardE (an_status init = 0) Host_failed) (\<lambda>_.
         bindE (must E (Rm wd) Threw) (\<lambda>_. bindE (fenceGuest E t) (\<lambda>_. verifyImportedGuest E t)))))))))))))"

definition finish_commit :: "'h mig_env \<Rightarrow> int \<Rightarrow> bool option \<Rightarrow> ('h, unit) mig_eff" where
  "finish_commit E i created =
     set_row i (\<lambda>r. r\<lparr>mi_phase := ''post-import'', mi_status := ''ready'', mi_updated_at := me_now E, mi_guest_created := created\<rparr>)"

text \<open>A refusal on the other transports fails the migration.\<close>

definition refusal_text :: "mig_error \<Rightarrow> string" where
  "refusal_text e = (case e of Fence_unverified \<Rightarrow> ''fence unverified'' | Fence_incomplete \<Rightarrow> ''fence incomplete'' | Not_proved s \<Rightarrow> s | _ \<Rightarrow> [])"

definition or_fail :: "'h mig_env \<Rightarrow> int \<Rightarrow> ('h, 'a) mig_eff \<Rightarrow> ('h, 'a) mig_eff" where
  "or_fail E i m = catchE m (\<lambda>e. if e = Threw then throw Threw else fail_mig E i (refusal_text e))"

definition finish_checks :: "'h mig_env \<Rightarrow> mig \<Rightarrow> ('h, unit) mig_eff" where
  "finish_checks E row =
     (if mi_transport row = ''rootfs-tar'' then bindE (need_mig (mi_id row)) (import_checks E)
      else bindE (exec E [''incus'', ''config'', ''show'', mi_target row]) (\<lambda>a.
           bindE (if an_status a = 0 then ret ()
                  else fail_mig E (mi_id row) (''the transfer reported success but '' @ mi_target row @ '' does not exist on this host'')) (\<lambda>_.
           bindE (or_fail E (mi_id row) (fenceGuest E (mi_target row))) (\<lambda>_.
           or_fail E (mi_id row) (verifyImportedGuest E (mi_target row))))))"

definition finish_created :: "mig \<Rightarrow> bool option" where
  "finish_created row = (if mi_transport row = ''file-sync'' then mi_guest_created row else Some True)"

definition agentFinish :: "'h mig_env \<Rightarrow> mig \<Rightarrow> bool \<Rightarrow> string option \<Rightarrow> int option \<Rightarrow> ('h, unit) mig_eff" where
  "agentFinish E row okay message bytes =
     (if \<not> okay then fail_mig E (mi_id row) (or_text message ''the agent reported a failure'')
      else bindE (case bytes of Some b \<Rightarrow> set_row (mi_id row) (\<lambda>r. r\<lparr>mi_bytes_done := max 0 b\<rparr>) | None \<Rightarrow> ret ()) (\<lambda>_.
           bindE (finish_checks E row) (\<lambda>_. finish_commit E (mi_id row) (finish_created row))))"

section \<open>Ending\<close>

definition last_heard :: "mig \<Rightarrow> int" where
  "last_heard r = (case mi_last_seen r of Some t \<Rightarrow> t | None \<Rightarrow> mi_updated_at r)"

definition stall_text :: "mig \<Rightarrow> int \<Rightarrow> string" where
  "stall_text r ms = ''no contact from the agent since '' @ iso (last_heard r) @ '' ('' @ show_int \<lfloor>of_int ms / 60000 + 1 / 2 :: rat\<rfloor> @ '' minutes) '' @ emdash @
     '' the source went away mid-transfer. An upload cannot be resumed: create a new migration and run its command on the source again.''"

definition sweepStalled :: "'h mig_env \<Rightarrow> int \<Rightarrow> ('h, int list) mig_eff" where
  "sweepStalled E maxSilenceMs =
     bindE (getsE (\<lambda>w. filter (\<lambda>r. mi_status r = ''running'' \<and> mi_phase r = ''transfer'' \<and> last_heard r < me_now E - maxSilenceMs) (mw_rows w))) (\<lambda>rs.
     bindE (forE rs (\<lambda>r. catchE (fail_mig E (mi_id r) (stall_text r maxSilenceMs)) (\<lambda>_. ret ()))) (\<lambda>_. ret (map mi_id rs)))"

definition cancel_commit :: "'h mig_env \<Rightarrow> int \<Rightarrow> string option \<Rightarrow> ('h, mig) mig_eff" where
  "cancel_commit E i reason =
     bindE (need_mig i) (\<lambda>row. bindE (guardE (mi_status row \<notin> set TERMINAL) (Status_is (mi_status row))) (\<lambda>_.
     bindE (set_row i (\<lambda>r. r\<lparr>mi_status := ''cancelled'', mi_finished_at := Some (me_now E), mi_updated_at := me_now E,
       mi_error := (case reason of Some (c # t) \<Rightarrow> Some (take 500 (c # t)) | _ \<Rightarrow> None)\<rparr>)) (\<lambda>_. ret row)))"

definition cancelMigration :: "'h mig_env \<Rightarrow> int \<Rightarrow> string option \<Rightarrow> ('h, unit) mig_eff" where
  "cancelMigration E i reason = bindE (cancel_commit E i reason) (revokeTrust E)"

definition setChecklistStep :: "'h mig_env \<Rightarrow> int \<Rightarrow> string \<Rightarrow> bool \<Rightarrow> string option \<Rightarrow> string option \<Rightarrow> ('h, bool) mig_eff" where
  "setChecklistStep E i step isdone who note =
     bindE (need_mig i) (\<lambda>row.
     bindE (guardE (\<not> (mi_status row \<in> set TERMINAL \<and> mi_status row \<noteq> ''completed'')) (Status_is (mi_status row))) (\<lambda>_.
     bindE (guardE (step \<in> set (checklist_steps (mi_mode row))) Unknown_step) (\<lambda>_.
     let some = (\<lambda>x. if x = Some [] then None else x);
         state = (if isdone then (mi_checklist row)(step \<mapsto> \<lparr>sd_at = me_now E, sd_by = some who, sd_note = map_option (take 500) (some note)\<rparr>)
                  else (mi_checklist row)(step := None));
         complete = checklistComplete (mi_mode row) state
     in bindE (set_row i (\<lambda>r. r\<lparr>mi_checklist := state, mi_updated_at := me_now E, mi_phase := ''cutover'',
          mi_status := (if complete then ''completed'' else ''ready''), mi_finished_at := (if complete then Some (me_now E) else None)\<rparr>)) (\<lambda>_. ret complete))))"

section \<open>Clean-up\<close>

definition is_running :: "string \<Rightarrow> bool" where
  "is_running s \<longleftrightarrow> contains (to_lower s) ''running''"

text \<open>What the clean-up finds out first: Some state when the guest is to be deleted. The export before it is not modelled.\<close>

definition cleanup_plan :: "'h mig_env \<Rightarrow> mig \<Rightarrow> bool \<Rightarrow> bool \<Rightarrow> ('h, string option) mig_eff" where
  "cleanup_plan E row deleteGuest removeRecord =
     (let t = mi_target row
      in if \<not> deleteGuest then ret None
         else bindE (exec E [''incus'', ''config'', ''show'', t]) (\<lambda>a.
           if an_status a \<noteq> 0 then bindE (guardE removeRecord Guest_absent) (\<lambda>_. ret None)
           else bindE (guardE (mi_guest_created row \<noteq> Some False) Adopted_guest) (\<lambda>_.
                bindE (getsE (\<lambda>w. me_routes E [t, fence_name E t] (mw_host w))) (\<lambda>bound.
                bindE (guardE (bound \<noteq> None) Routes_unread) (\<lambda>_. bindE (guardE (bound = Some []) Published) (\<lambda>_.
                bindE (exec E [''incus'', ''list'', t, ''--format'', ''csv'', ''-c'', ''s'']) (\<lambda>s. ret (Some (trim (an_stdout s)))))))))) "

definition cleanup_guest :: "'h mig_env \<Rightarrow> mig \<Rightarrow> string \<Rightarrow> bool \<Rightarrow> ('h, unit) mig_eff" where
  "cleanup_guest E row state force =
     bindE (if is_running state then must E (Exec ([''incus'', ''stop'', mi_target row] @ (if force then [''--force''] else []))) Host_failed
            else ret \<lparr>an_status = 0, an_stdout = [], an_stderr = []\<rparr>) (\<lambda>_.
     bindE (must E (Exec [''incus'', ''delete'', mi_target row]) Host_failed) (\<lambda>_. ret ()))"

definition cleanupMigration :: "'h mig_env \<Rightarrow> int \<Rightarrow> bool \<Rightarrow> bool \<Rightarrow> bool \<Rightarrow> bool \<Rightarrow> ('h, unit) mig_eff" where
  "cleanupMigration E i deleteGuest removeRecord force dryRun =
     bindE (need_mig i) (\<lambda>row.
     bindE (guardE (deleteGuest \<or> removeRecord) Nothing_to_do) (\<lambda>_.
     bindE (guardE (mi_status row \<in> set TERMINAL \<or> mi_status row = ''ready'') (Status_is (mi_status row))) (\<lambda>_.
     bindE (cleanup_plan E row deleteGuest removeRecord) (\<lambda>plan.
     if dryRun then ret ()
     else bindE (case plan of Some state \<Rightarrow> cleanup_guest E row state force | None \<Rightarrow> ret ()) (\<lambda>_.
          bindE (host E (Rm (me_work E @ ''/'' @ show_int i))) (\<lambda>_.
          if \<not> removeRecord then ret ()
          else bindE (if mi_revoked_at row = None \<and> mi_status row \<notin> set TERMINAL then revokeToken E i None else ret ()) (\<lambda>_.
               bindE (revokeTrust E row) (\<lambda>_. modE (\<lambda>w. w\<lparr>mw_rows := filter (\<lambda>r. mi_id r \<noteq> i) (mw_rows w)\<rparr>)))))))))"

section \<open>The agent's requests\<close>

datatype agent_request =
    Install | Get_job | Inventory "os_release option" | Event agent_event | Artifact string upload "string option" string
  | Transport string | Finish bool "string option" "int option"

definition accepted_kinds :: "string \<Rightarrow> string list" where
  "accepted_kinds transport =
     (if transport = ''rootfs-tar'' then [''rootfs''] else if transport = ''file-sync'' then [''dir'', ''dbdump''] else [])"

definition agentRequest :: "'h mig_env \<Rightarrow> string \<Rightarrow> string \<Rightarrow> string option \<Rightarrow> agent_request \<Rightarrow> ('h, unit) mig_eff" where
  "agentRequest E token run ip req =
     bindE (agentAuth E token run ip) (\<lambda>row.
     case req of
       Install \<Rightarrow> ret ()
     | Get_job \<Rightarrow> bindE (agentJob E row) (\<lambda>_. ret ())
     | Inventory m \<Rightarrow> bindE (recordManifest E row m) (\<lambda>_. ret ())
     | Event ev \<Rightarrow> bindE (recordEvent E row ev) (\<lambda>_. ret ())
     | Artifact kind body expected name \<Rightarrow>
         bindE (guardE (kind \<in> set (accepted_kinds (mi_transport row))) Upload_refused) (\<lambda>_. receiveArtifact E row body expected kind name)
     | Transport tr \<Rightarrow> bindE (switchTransport E row tr) (\<lambda>_. ret ())
     | Finish okay message bytes \<Rightarrow> agentFinish E row okay message bytes)"

end
