(* ===== verification/Mig_Law.thy ===== *)
theory Mig_Law
  imports Mig_Transfer
begin

text \<open>
  What every operation on the migrations leaves alone. A law is a statement about one row that is kept by every change the
  operations make: the locale lists those changes, and shows that the whole step relation keeps the law for every row. The
  late steps are the writes an operation makes after its waits on the host, in any order with other requests.
\<close>

section \<open>The machine\<close>

inductive mig_step :: "'h mig_world \<Rightarrow> 'h mig_world \<Rightarrow> bool" where
  request: "mig_step w (snd (agentRequest E token run ip req w))"
| create: "mig_step w (snd (createMigration E rand_id rand_secret ttl input w))"
| approve: "mig_step w (snd (approveTransfer E i actor override w))"
| revoke: "mig_step w (snd (revokeToken E i actor w))"
| cancel: "mig_step w (snd (cancelMigration E i reason w))"
| sweep: "mig_step w (snd (sweepStalled E ms w))"
| check: "mig_step w (snd (setChecklistStep E i step isdone who note w))"
| cleanup: "mig_step w (snd (cleanupMigration E i deleteGuest removeRecord force dryRun w))"
| late_ready: "mig_step w (snd (finish_commit E i created w))"
| late_approve: "mig_step w (snd (approve_commit E i actor w))"
| late_fail: "mig_step w (snd ((fail_mig E i message :: ('h, unit) mig_eff) w))"
| other: "mig_step w (w\<lparr>mw_host := h\<rparr>)"

inductive mig_reach :: "'h mig_world \<Rightarrow> 'h mig_world \<Rightarrow> bool" where
  start: "mig_reach w w"
| step: "mig_reach w v \<Longrightarrow> mig_step v u \<Longrightarrow> mig_reach w u"

inductive_cases mig_stepE: "mig_step w v"

lemma mig_reach_inv:
  assumes "mig_reach w v" and "P w" and "\<And>a b. P a \<Longrightarrow> mig_step a b \<Longrightarrow> P b"
  shows "P v"
  using assms by (induction rule: mig_reach.induct) blast+

text \<open>A fresh database.\<close>

definition no_migrations :: "'h \<Rightarrow> 'h mig_world" where
  "no_migrations h = \<lparr>mw_rows = [], mw_next = 1, mw_host = h\<rparr>"

section \<open>Laws of rows\<close>

definition same_core :: "mig \<Rightarrow> mig \<Rightarrow> bool" where
  "same_core r r' \<longleftrightarrow> mi_id r' = mi_id r \<and> mi_mode r' = mi_mode r \<and> mi_token_id r' = mi_token_id r \<and> mi_token_hash r' = mi_token_hash r \<and>
     mi_claimed_by r' = mi_claimed_by r \<and> mi_checklist r' = mi_checklist r \<and> (mi_status r' = ''completed'' \<longrightarrow> mi_status r = ''completed'') \<and>
     (mi_revoked_at r \<noteq> None \<longrightarrow> mi_revoked_at r' \<noteq> None)"

definition row_law :: "(mig \<Rightarrow> bool) \<Rightarrow> int \<Rightarrow> 'h mig_world \<Rightarrow> bool" where
  "row_law Q n w \<longleftrightarrow> distinct (map mi_id (mw_rows w)) \<and> (\<forall>r\<in>set (mw_rows w). Q r \<and> mi_id r < mw_next w) \<and> n \<le> mw_next w"

lemma row_lawD: "row_law Q n w \<Longrightarrow> r \<in> set (mw_rows w) \<Longrightarrow> Q r"
  by (simp add: row_law_def)

lemma row_law_host [simp]: "row_law Q n (w\<lparr>mw_host := h\<rparr>) = row_law Q n w"
  by (simp add: row_law_def)

lemma find_set: "find P xs = Some x \<Longrightarrow> x \<in> set xs \<and> P x"
  by (auto simp: find_Some_iff in_set_conv_nth)

lemma row_law_unique: "row_law Q n w \<Longrightarrow> a \<in> set (mw_rows w) \<Longrightarrow> b \<in> set (mw_rows w) \<Longrightarrow> mi_id a = mi_id b \<Longrightarrow> a = b"
  by (auto simp: row_law_def distinct_map inj_on_def)

lemma set_row_world: "snd (set_row i f w) = w\<lparr>mw_rows := map (\<lambda>r. if mi_id r = i then f r else r) (mw_rows w)\<rparr>"
  by (simp add: set_row_def)

lemma row_law_set:
  assumes "row_law Q n w" and "\<And>r. r \<in> set (mw_rows w) \<Longrightarrow> mi_id r = i \<Longrightarrow> Q (f r) \<and> mi_id (f r) = mi_id r"
  shows "row_law Q n (snd (set_row i f w))"
proof -
  define g where "g = (\<lambda>r. if mi_id r = i then f r else r)"
  have old: "distinct (map mi_id (mw_rows w))" "\<forall>r\<in>set (mw_rows w). Q r \<and> mi_id r < mw_next w" "n \<le> mw_next w"
    using assms(1) by (simp_all add: row_law_def)
  have one: "mi_id (g r) = mi_id r \<and> Q (g r)" if "r \<in> set (mw_rows w)" for r
    using assms(2) old(2) that by (simp add: g_def)
  then have "map mi_id (map g (mw_rows w)) = map mi_id (mw_rows w)" by simp
  moreover have "\<forall>r\<in>set (map g (mw_rows w)). Q r \<and> mi_id r < mw_next w" using one old(2) by simp
  moreover have "snd (set_row i f w) = w\<lparr>mw_rows := map g (mw_rows w)\<rparr>" by (simp add: set_row_world g_def)
  ultimately show ?thesis using old by (simp add: row_law_def del: map_map)
qed

lemma find_row_law: "preserves (row_law Q n) (find_row P)"
  by (simp add: find_row_def preserves_intros)

lemma need_mig_bind:
  fixes k :: "mig \<Rightarrow> ('h, 'a) mig_eff"
  assumes "\<And>w row. row_law Q n w \<Longrightarrow> row \<in> set (mw_rows w) \<Longrightarrow> mi_id row = i \<Longrightarrow> row_law Q n (snd (k row w))"
  shows "preserves (row_law Q n) (bindE (need_mig i) k)"
proof (rule preservesI)
  fix w :: "'h mig_world" assume l: "row_law Q n w"
  show "row_law Q n (snd (bindE (need_mig i) k w))"
  proof (cases "find (\<lambda>r. mi_id r = i) (mw_rows w)")
    case None
    then show ?thesis using l by (simp add: need_mig_def find_row_def bindE_def)
  next
    case (Some row)
    with assms [OF l, of row] find_set [OF Some] show ?thesis by (simp add: need_mig_def find_row_def bindE_def)
  qed
qed

lemma need_mig_law [preserves_intros]: "preserves (row_law Q n) (need_mig i)"
  unfolding need_mig_def by (intro preserves_intros find_row_law)

lemma host_law [preserves_intros]: "preserves (row_law Q n) (host E oper)"
  by (rule preservesI) (simp add: host_def split: prod.split)

lemma asked_law [preserves_intros]: "preserves (row_law Q n) (\<lambda>w. let (b, h) = f (mw_host w) in (Inr b, w\<lparr>mw_host := h\<rparr>))"
  by (rule preservesI) (simp split: prod.split)

lemma exec_law [preserves_intros]: "preserves (row_law Q n) (exec E argv)"
  and must_law [preserves_intros]: "preserves (row_law Q n) (must E oper e)"
  unfolding exec_def must_def by (intro preserves_intros)+

lemma preserves_snd: "preserves P m \<Longrightarrow> P w \<Longrightarrow> P (snd (m w))"
  by (simp add: preserves_def)

locale migration_law =
  fixes Q :: "mig \<Rightarrow> bool" and n :: int
  assumes plain: "Q r \<Longrightarrow> same_core r r' \<Longrightarrow> Q r'"
    and claim: "Q r \<Longrightarrow> mi_claimed_by r = None \<Longrightarrow> Q (r\<lparr>mi_claimed_by := c\<rparr>)"
    and checked: "Q r \<Longrightarrow> Q (r\<lparr>mi_checklist := st, mi_status := (if checklistComplete (mi_mode r) st then ''completed'' else ''ready'')\<rparr>)"
    and fresh: "n \<le> mi_id r \<Longrightarrow> mi_status r = ''created'' \<Longrightarrow> Q r"
begin

lemma set_plain: "(\<And>r. same_core r (f r)) \<Longrightarrow> preserves (row_law Q n) (set_row i f)"
  by (rule preservesI, rule row_law_set) (auto intro: plain dest: row_lawD simp: same_core_def)

lemma fail_law [preserves_intros]: "preserves (row_law Q n) (fail_mig E i message)"
  unfolding fail_mig_def by (intro preserves_intros set_plain) (simp add: same_core_def)

lemma fence_law [preserves_intros]: "preserves (row_law Q n) (fenceGuest E t)"
  and proof_law [preserves_intros]: "preserves (row_law Q n) (verifyImportedGuest E t)"
  unfolding fenceGuest_def verifyImportedGuest_def Let_def by (intro preserves_intros)+

lemma guest_law [preserves_intros]: "preserves (row_law Q n) (ensureApplicationGuest E row)"
  unfolding ensureApplicationGuest_def Let_def by (intro preserves_intros set_plain) (simp_all add: same_core_def)

lemma approve_commit_law [preserves_intros]: "preserves (row_law Q n) (approve_commit E i actor)"
  and finish_commit_law [preserves_intros]: "preserves (row_law Q n) (finish_commit E i created)"
  unfolding approve_commit_def finish_commit_def by (intro set_plain, simp add: same_core_def)+

lemma approve_law: "preserves (row_law Q n) (approveTransfer E i actor override)"
  unfolding approveTransfer_def by (intro preserves_intros)

lemma revoke_law [preserves_intros]: "preserves (row_law Q n) (revokeToken E i actor)"
  unfolding revokeToken_def by (intro preserves_intros set_plain) (simp add: same_core_def)

lemma insert_law:
  fixes k :: "int \<Rightarrow> 'a"
  assumes "\<And>i. mi_id (R i) = i \<and> mi_status (R i) = ''created''"
  shows "preserves (row_law Q n) (bindE (getsE mw_next) (\<lambda>i. bindE (modE (\<lambda>w. w\<lparr>mw_next := i + 1, mw_rows := mw_rows w @ [R i]\<rparr>)) (\<lambda>_. ret (k i))))"
  using assms by (intro preservesI) (auto simp: row_law_def bindE_def fresh)

lemma create_law: "preserves (row_law Q n) (createMigration E rand_id rand_secret ttl input)"
  unfolding createMigration_def Let_def
  by (cases "validateTarget input"; simp only: sum.case) (intro preserves_intros insert_law find_row_law; simp)+

lemma auth_law [preserves_intros]:
  fixes E :: "'h mig_env"
  shows "preserves (row_law Q n) (authenticate E presented claimant ip)"
proof (rule preservesI)
  fix w :: "'h mig_world" assume l: "row_law Q n w"
  show "row_law Q n (snd (authenticate E presented claimant ip w))"
  proof (cases "parseToken presented")
    case None
    then show ?thesis using l by (simp add: authenticate_def)
  next
    case (Some p)
    obtain i secret where p: "p = (i, secret)" by force
    let ?row = "find (\<lambda>r. mi_token_id r = i) (mw_rows w)"
    show ?thesis
    proof (cases "verifyToken E ?row presented claimant")
      case (Inl e)
      then show ?thesis using l by (simp add: authenticate_def Some p find_row_def)
    next
      case (Inr first)
      then obtain row where row: "?row = Some row" by (auto simp: verifyToken_def Some p split: option.splits)
      have free: "first \<Longrightarrow> mi_claimed_by row = None"
        using Inr by (auto simp: verifyToken_def Some p row split: if_splits option.splits)
      let ?c = "set_row (mi_id row) (\<lambda>r. r\<lparr>mi_claimed_by := claimant, mi_claimed_at := Some (me_now E), mi_source_ip := ip, mi_updated_at := me_now E\<rparr>)"
      have c: "row_law Q n (snd (?c w))" if first
      proof (rule row_law_set [OF l])
        fix r assume r: "r \<in> set (mw_rows w)" "mi_id r = mi_id row"
        have "r = row" using row_law_unique [OF l r(1) _ r(2)] find_set [OF row] by blast
        with r l claim [of row claimant] free that have "Q (row\<lparr>mi_claimed_by := claimant\<rparr>)" by (auto dest: row_lawD)
        with \<open>r = row\<close> plain show "Q (r\<lparr>mi_claimed_by := claimant, mi_claimed_at := Some (me_now E), mi_source_ip := ip, mi_updated_at := me_now E\<rparr>) \<and>
            mi_id (r\<lparr>mi_claimed_by := claimant, mi_claimed_at := Some (me_now E), mi_source_ip := ip, mi_updated_at := me_now E\<rparr>) = mi_id r"
          by (simp add: same_core_def)
      qed
      let ?m = "if first \<and> claimant \<noteq> None then ?c else ret ()"
      let ?k = "bindE (set_row (mi_id row) (\<lambda>r. r\<lparr>mi_last_seen := Some (me_now E)\<rparr>)) (\<lambda>_. need_mig (mi_id row))"
      have "row_law Q n (snd (?m w))" using c l by simp
      moreover have "preserves (row_law Q n) ?k" by (intro preserves_intros set_plain) (simp add: same_core_def)
      moreover have "fst (?m w) = Inr ()" by (simp add: set_row_def)
      ultimately have "row_law Q n (snd (bindE ?m (\<lambda>_. ?k) w))" by (cases "?m w") (auto simp: preserves_def bindE_def)
      then show ?thesis by (auto simp: authenticate_def Some p find_row_def Inr [unfolded row] row split: if_splits)
    qed
  qed
qed

lemma agentAuth_law [preserves_intros]: "preserves (row_law Q n) (agentAuth E token run ip)"
  unfolding agentAuth_def by (intro preserves_intros)

lemma job_law [preserves_intros]: "preserves (row_law Q n) (agentJob E row)"
  unfolding agentJob_def incusTrustToken_def syncTarget_def by (intro preserves_intros)

lemma manifest_law [preserves_intros]: "preserves (row_law Q n) (recordManifest E row m)"
  unfolding recordManifest_def Let_def by (intro preserves_intros set_plain) (simp_all add: same_core_def)

lemma event_law [preserves_intros]: "preserves (row_law Q n) (recordEvent E row ev)"
  unfolding recordEvent_def Let_def by (intro preserves_intros set_plain) (simp add: same_core_def)

lemma unpack_law [preserves_intros]: "preserves (row_law Q n) (unpackIntoGuest E row p)"
  and restore_law [preserves_intros]: "preserves (row_law Q n) (restoreIntoGuest E row p name)"
  unfolding unpackIntoGuest_def restoreIntoGuest_def decompressorFor_def by (intro preserves_intros)+

lemma artifact_law [preserves_intros]: "preserves (row_law Q n) (receiveArtifact E row body expected kind name)"
  unfolding receiveArtifact_def Let_def by (cases body; simp only: upload.case; intro preserves_intros)

lemma trust_law [preserves_intros]: "preserves (row_law Q n) (revokeTrust E row)"
  unfolding revokeTrust_def by (intro preserves_intros)

lemma switch_law [preserves_intros]: "preserves (row_law Q n) (switchTransport E row tr)"
  unfolding switchTransport_def by (intro preserves_intros set_plain) (simp add: same_core_def)

lemma image_law [preserves_intros]: "preserves (row_law Q n) (import_image E meta rootfs alias)"
  unfolding import_image_def decompressorFor_def Let_def by (intro preserves_intros)

lemma import_law [preserves_intros]: "preserves (row_law Q n) (import_checks E row)"
  unfolding import_checks_def Let_def by (intro preserves_intros)

lemma checks_law [preserves_intros]: "preserves (row_law Q n) (finish_checks E row)"
  unfolding finish_checks_def or_fail_def by (intro preserves_intros)

lemma finish_law [preserves_intros]: "preserves (row_law Q n) (agentFinish E row okay message bytes)"
  unfolding agentFinish_def by (intro preserves_intros set_plain) (simp add: same_core_def)

lemma request_law: "preserves (row_law Q n) (agentRequest E token run ip req)"
  unfolding agentRequest_def by (cases req; simp only: agent_request.case; intro preserves_intros)

lemma sweep_law: "preserves (row_law Q n) (sweepStalled E ms)"
  unfolding sweepStalled_def by (intro preserves_intros)

lemma cancel_law: "preserves (row_law Q n) (cancelMigration E i reason)"
  unfolding cancelMigration_def cancel_commit_def by (intro preserves_intros set_plain) (simp add: same_core_def)

lemma remove_row_law: "row_law Q n w \<Longrightarrow> row_law Q n (w\<lparr>mw_rows := filter P (mw_rows w)\<rparr>)"
  by (auto simp: row_law_def distinct_map inj_on_def)

lemma cleanup_law: "preserves (row_law Q n) (cleanupMigration E i deleteGuest removeRecord force dryRun)"
  unfolding cleanupMigration_def cleanup_plan_def cleanup_guest_def Let_def by (intro preserves_intros remove_row_law)

lemma check_law: "preserves (row_law Q n) (setChecklistStep E i step isdone who note)"
  unfolding setChecklistStep_def
proof (rule need_mig_bind)
  fix w :: "'h mig_world" and row
  assume l: "row_law Q n w" and row: "row \<in> set (mw_rows w)" "mi_id row = i"
  have "row_law Q n (snd (set_row i (\<lambda>r. r\<lparr>mi_checklist := state, mi_updated_at := t, mi_phase := ph,
      mi_status := (if checklistComplete (mi_mode row) state then ''completed'' else ''ready''), mi_finished_at := fin\<rparr>) w))" for state t ph fin
  proof (rule row_law_set [OF l])
    fix r assume "r \<in> set (mw_rows w)" "mi_id r = i"
    with row_law_unique [OF l] row have r: "r = row" by blast
    have "Q (row\<lparr>mi_checklist := state, mi_status := (if checklistComplete (mi_mode row) state then ''completed'' else ''ready'')\<rparr>)"
      using checked row_lawD [OF l row(1)] by blast
    from plain [OF this] show "Q (r\<lparr>mi_checklist := state, mi_updated_at := t, mi_phase := ph,
        mi_status := (if checklistComplete (mi_mode row) state then ''completed'' else ''ready''), mi_finished_at := fin\<rparr>) \<and>
        mi_id (r\<lparr>mi_checklist := state, mi_updated_at := t, mi_phase := ph,
        mi_status := (if checklistComplete (mi_mode row) state then ''completed'' else ''ready''), mi_finished_at := fin\<rparr>) = mi_id r"
      by (simp add: same_core_def r)
  qed
  then show "row_law Q n (snd (bindE (guardE (\<not> (mi_status row \<in> set TERMINAL \<and> mi_status row \<noteq> ''completed'')) (Status_is (mi_status row))) (\<lambda>_.
     bindE (guardE (step \<in> set (checklist_steps (mi_mode row))) Unknown_step) (\<lambda>_.
     let some = (\<lambda>x. if x = Some [] then None else x);
         state = (if isdone then (mi_checklist row)(step \<mapsto> \<lparr>sd_at = me_now E, sd_by = some who, sd_note = map_option (take 500) (some note)\<rparr>)
                  else (mi_checklist row)(step := None));
         complete = checklistComplete (mi_mode row) state
     in bindE (set_row i (\<lambda>r. r\<lparr>mi_checklist := state, mi_updated_at := me_now E, mi_phase := ''cutover'',
          mi_status := (if complete then ''completed'' else ''ready''), mi_finished_at := (if complete then Some (me_now E) else None)\<rparr>))
          (\<lambda>_. ret complete))) w))"
    using l by (simp add: guardE_def bindE_def Let_def set_row_def)
qed

lemmas run_laws = request_law create_law approve_law revoke_law cancel_law sweep_law check_law cleanup_law finish_commit_law
  approve_commit_law fail_law

lemma step_law: "row_law Q n w \<Longrightarrow> mig_step w v \<Longrightarrow> row_law Q n v"
  by (erule mig_stepE) (auto intro: run_laws [THEN preserves_snd])

lemma reach_law: "mig_reach w v \<Longrightarrow> row_law Q n w \<Longrightarrow> row_law Q n v"
  by (erule mig_reach_inv) (assumption, rule step_law)

end

end
