(* ===== verification/Mig_Example.thy ===== *)
theory Mig_Example
  imports Mig_Law
begin

text \<open>
  A migration in application mode on a host where the target guest exists and every command succeeds: the state after its creation,
  and after the first poll of its agent. The properties of the migrations are applied to it.
\<close>

definition good_host :: "host_op \<Rightarrow> answer" where
  "good_host oper = \<lparr>an_status = 0,
     an_stdout = (case oper of Exec argv \<Rightarrow> if take 2 argv = [''incus'', ''exec''] then ''ID=debian'' @ nl @ ''VERSION_ID=13'' else [] | _ \<Rightarrow> []),
     an_stderr = []\<rparr>"

definition example_env :: "host_op list mig_env" where
  "example_env = \<lparr>me_now = 0, me_sha = (\<lambda>s. s), me_prefix = ''pp-'', me_work = ''/w'', me_number = (\<lambda>_. ''4''),
     me_do = (\<lambda>oper h. (good_host oper, h @ [oper])), me_blocking = (\<lambda>_ h. (False, h)), me_fits = (\<lambda>_ _ h. (True, h)),
     me_routes = (\<lambda>_ _. Some [])\<rparr>"

definition app_input :: target_input where
  "app_input = \<lparr>ti_mode = ''application'', ti_name = ''shop'', ti_type = None, ti_source_kind = None, ti_transport = None, ti_cpu = None,
     ti_memory = None, ti_disk = None, ti_pool = None, ti_network = None, ti_nested = False, ti_dirs = [''/srv/shop''], ti_excludes = [],
     ti_database = None, ti_service = None, ti_image = None, ti_auto = False, ti_keep_agent = False, ti_install_tools = None, ti_freeze = None\<rparr>"

definition example_id :: string where "example_id = ''0123456789ab''"
definition example_secret :: string where "example_secret = replicate 43 (CHR ''s'')"
definition example_token :: string where "example_token = ''pmig_'' @ example_id @ ''_'' @ example_secret"

definition created_world :: "host_op list mig_world" where
  "created_world = snd (createMigration example_env example_id example_secret None app_input (no_migrations []))"

definition claimed_world :: "host_op list mig_world" where
  "claimed_world = snd (agentRequest example_env example_token ''run-a'' None Get_job created_world)"

lemma created_reach: "mig_reach (no_migrations []) created_world"
  unfolding created_world_def by (rule mig_reach.step [OF mig_reach.start mig_step.create])

lemma claimed_reach: "mig_reach (no_migrations []) claimed_world"
  unfolding claimed_world_def by (rule mig_reach.step [OF created_reach mig_step.request])

lemma example_parsed: "parseToken example_token = Some (example_id, example_secret)"
  by (simp add: parseToken_def example_token_def example_id_def example_secret_def list_all_iff is_b64url_def is_lower_hex_def is_alnum_def
    is_digit_def is_lower_def cc_def)

definition app_spec :: mig_spec where
  "app_spec = \<lparr>sp_mode = ''application'', sp_transport = ''file-sync'', sp_name = ''shop'', sp_type = ''container'', sp_cpu = 2, sp_memory = 4,
     sp_disk = None, sp_pool = None, sp_network = None, sp_nested = False, sp_dirs = [''/srv/shop''], sp_excludes = DEFAULT_RSYNC_EXCLUDES,
     sp_database = ''none'', sp_service = None, sp_image = Some NEW_GUEST_IMAGE, sp_auto = False, sp_keep_agent = False,
     sp_install_tools = True, sp_freeze = ''stop''\<rparr>"

lemma app_input_fields:
  "ti_mode app_input = ''application''" "ti_name app_input = ''shop''" "ti_type app_input = None" "ti_source_kind app_input = None"
  "ti_transport app_input = None" "ti_cpu app_input = None" "ti_memory app_input = None" "ti_disk app_input = None" "ti_pool app_input = None"
  "ti_network app_input = None" "ti_nested app_input = False" "ti_dirs app_input = [''/srv/shop'']" "ti_excludes app_input = []"
  "ti_database app_input = None" "ti_service app_input = None" "ti_image app_input = None" "ti_auto app_input = False"
  "ti_keep_agent app_input = False" "ti_install_tools app_input = None" "ti_freeze app_input = None"
  by (simp_all add: app_input_def)

lemma app_spec: "validateTarget app_input = Inr app_spec"
proof -
  have "app_dir ''/srv/shop'' = Inr ''/srv/shop''" by code_simp
  then have a: "app_part app_input = Inr ([''/srv/shop''], DEFAULT_RSYNC_EXCLUDES, ''none'', None, Some NEW_GUEST_IMAGE)"
    by (simp add: app_part_def app_input_fields or_text_def Let_def)
  have g: "GUEST_NAME_RE ''shop''" by code_simp
  have r: "resolveTransport ''application'' ''container'' ''unknown'' None = Some ''file-sync''" by code_simp
  show ?thesis
    by (simp add: validateTarget_def Let_def a g r app_input_fields guardR_def or_text_def ok_if_def named_def MODES_def GUEST_TYPES_def app_spec_def)
qed

definition created_row :: mig where
  "created_row = \<lparr>mi_id = 1, mi_mode = ''application'', mi_transport = ''file-sync'', mi_status = ''created'', mi_phase = ''inventory'',
     mi_spec = app_spec, mi_target = ''pp-shop'', mi_token_id = example_id, mi_token_hash = example_secret, mi_expires = None, mi_claimed_by = None,
     mi_claimed_at = None, mi_last_seen = None, mi_source_ip = None, mi_revoked_at = None, mi_revoked_by = None, mi_manifest = None,
     mi_approved_at = None, mi_approved_by = None, mi_checklist = (\<lambda>_. None), mi_bytes_done = 0, mi_bytes_total = None, mi_error = None,
     mi_finished_at = None, mi_updated_at = 0, mi_guest_created = None\<rparr>"

definition claimed_row :: mig where
  "claimed_row = created_row\<lparr>mi_claimed_by := Some ''run-a'', mi_claimed_at := Some 0, mi_last_seen := Some 0\<rparr>"

lemma app_spec_fields: "sp_mode app_spec = ''application''" "sp_transport app_spec = ''file-sync''" "sp_name app_spec = ''shop''" "sp_auto app_spec = False"
  by (simp_all add: app_spec_def)

lemma created_world: "mw_rows created_world = [created_row]"
  by (simp add: created_world_def createMigration_def app_spec app_spec_fields Let_def bindE_def find_row_def guardE_def exec_def host_def
    no_migrations_def mintMigrationToken_def token_ttl_def created_row_def example_env_def)

lemma verify_unclaimed: "verifyToken example_env (Some created_row) example_token (Some c) = Inr True"
  by (simp add: verifyToken_def example_parsed created_row_def example_env_def secretMatches_def TERMINAL_def)

lemma example_now: "me_now example_env = 0"
  by (simp add: example_env_def)

lemma claimed_row_eq: "created_row\<lparr>mi_claimed_by := Some ''run-a'', mi_claimed_at := Some 0, mi_source_ip := None, mi_updated_at := 0, mi_last_seen := Some 0\<rparr> = claimed_row"
  by (simp add: claimed_row_def created_row_def)

lemma created_ids: "mi_id created_row = 1" "mi_token_id created_row = example_id" "mi_id claimed_row = 1"
  by (simp_all add: claimed_row_def created_row_def)

lemma claimed_auth: "agentAuth example_env example_token ''run-a'' None created_world = (Inr claimed_row, created_world\<lparr>mw_rows := [claimed_row]\<rparr>)"
  by (simp add: agentAuth_def authenticate_def example_parsed find_row_def created_world verify_unclaimed need_mig_def bindE_def set_row_def created_ids example_now
    claimed_row_eq)

lemma claimed_open: "\<not> row_approved claimed_row"
  by (simp add: row_approved_def claimed_row_def created_row_def app_spec_fields)

lemma claimed_world: "mw_rows claimed_world = [claimed_row]"
  by (simp add: claimed_world_def agentRequest_def claimed_auth agentJob_def claimed_open bindE_def)

end
