(* ===== verification/Mig_Safety.thy ===== *)
theory Mig_Safety
  imports Mig_Example
begin

text \<open>
  Guest migrations: what the claim of a token guarantees and what it does not, what a completed migration is, what has been
  checked of a guest that is reported ready, and six cases in which a promise of the code is not kept.
\<close>

section \<open>Laws of the reachable databases\<close>

interpretation any: migration_law "\<lambda>_. True" 1
  by unfold_locales simp_all

interpretation claimed: migration_law "\<lambda>r. mi_id r = i \<longrightarrow> mi_claimed_by r = Some c \<and> mi_token_id r = t" "i + 1" for i c t
  by unfold_locales (auto simp: same_core_def)

interpretation revoked: migration_law "\<lambda>r. mi_id r = i \<longrightarrow> mi_revoked_at r \<noteq> None" "i + 1" for i
  by unfold_locales (auto simp: same_core_def)

interpretation complete: migration_law "\<lambda>r. mi_status r = ''completed'' \<longrightarrow> checklistComplete (mi_mode r) (mi_checklist r)" 1
  by unfold_locales (auto simp: same_core_def split: if_splits)

lemma fresh_law: "row_law Q 1 (no_migrations h)"
  by (simp add: row_law_def no_migrations_def)

lemma reachable_law: "mig_reach (no_migrations h) w \<Longrightarrow> row_law (\<lambda>_. True) 1 w"
  by (rule any.reach_law [OF _ fresh_law])

lemma law_at:
  assumes "mig_reach (no_migrations h) w" and "r \<in> set (mw_rows w)" and "Q r"
  shows "row_law (\<lambda>x. mi_id x = mi_id r \<longrightarrow> Q x) (mi_id r + 1) w"
proof -
  have l: "row_law (\<lambda>_. True) 1 w" by (rule reachable_law [OF assms(1)])
  have "x = r" if "x \<in> set (mw_rows w)" "mi_id x = mi_id r" for x by (rule row_law_unique [OF l that(1) assms(2) that(2)])
  with l assms(2,3) show ?thesis by (force simp: row_law_def)
qed

section \<open>Accepted requests\<close>

definition accepts :: "'h mig_env \<Rightarrow> mig \<Rightarrow> string \<Rightarrow> bool" where
  "accepts E r token \<longleftrightarrow> (\<exists>secret. parseToken token = Some (mi_token_id r, secret) \<and> me_sha E secret = mi_token_hash r) \<and> snd (tokenState E r)"

lemma verify_accepts:
  "accepts E r token \<Longrightarrow> verifyToken E (Some r) token claimant =
    (case (mi_claimed_by r, claimant) of (Some a, Some c) \<Rightarrow> if a \<noteq> c then Inl T_claimed else Inr False | (a, _) \<Rightarrow> Inr (a = None))"
  by (auto simp: accepts_def tokenState_def verifyToken_def secretMatches_def split: if_splits option.splits)

lemma verify_Inr: "verifyToken E (Some r) token claimant = Inr b \<Longrightarrow> accepts E r token"
  by (auto simp: accepts_def tokenState_def verifyToken_def secretMatches_def split: if_splits option.splits)

lemma find_unique: "row_law Q n w \<Longrightarrow> r \<in> set (mw_rows w) \<Longrightarrow> find (\<lambda>x. mi_id x = mi_id r) (mw_rows w) = Some r"
proof (cases "find (\<lambda>x. mi_id x = mi_id r) (mw_rows w)")
  case None
  assume "r \<in> set (mw_rows w)"
  with None show ?thesis by (auto simp: find_None_iff)
next
  case (Some x)
  assume "row_law Q n w" "r \<in> set (mw_rows w)"
  with Some row_law_unique [of Q n w x r] find_set [OF Some] show ?thesis by auto
qed

lemma find_updated:
  "(\<And>x. mi_id (f x) = mi_id x) \<Longrightarrow> find (\<lambda>x. mi_id x = i) rows = Some r \<Longrightarrow>
    find (\<lambda>x. mi_id x = i) (map (\<lambda>x. if mi_id x = i then f x else x) rows) = Some (f r)"
  by (induction rows) (auto split: if_splits)

lemma need_found: "find (\<lambda>x. mi_id x = i) (mw_rows w) = Some r \<Longrightarrow> need_mig i w = (Inr r, w)"
  by (simp add: need_mig_def find_row_def bindE_def)

lemma set_row_step: "set_row i f w = (Inr (), w\<lparr>mw_rows := map (\<lambda>r. if mi_id r = i then f r else r) (mw_rows w)\<rparr>)"
  by (simp add: set_row_def)

text \<open>
  C23: a claimed token belongs to its run: in every later state the row is still claimed by it, and a request with that token which
  names another run is refused and changes nothing.
\<close>

theorem claim_exclusive:
  assumes "mig_reach (no_migrations h) w" and "r \<in> set (mw_rows w)" and "mi_claimed_by r = Some c" and "mig_reach w v"
    and "parseToken token = Some (i, secret)" and "find (\<lambda>x. mi_token_id x = i) (mw_rows v) = Some r'" and "mi_id r' = mi_id r"
    and "take 64 run \<noteq> []" and "take 64 run \<noteq> c"
  shows "mi_claimed_by r' = Some c \<and> (\<exists>e. agentRequest E token run ip req v = (Inl (Refused_token e), v))"
proof -
  have "row_law (\<lambda>x. mi_id x = mi_id r \<longrightarrow> mi_claimed_by x = Some c \<and> mi_token_id x = mi_token_id r) (mi_id r + 1) v"
    by (rule claimed.reach_law [OF assms(4) law_at [OF assms(1,2)]]) (simp add: assms(3))
  with row_lawD find_set [OF assms(6)] assms(7) have c: "mi_claimed_by r' = Some c" by fastforce
  have "verifyToken E (Some r') token (Some (take 64 run)) \<noteq> Inr b" for b
  proof
    assume a: "verifyToken E (Some r') token (Some (take 64 run)) = Inr b"
    with verify_accepts [OF verify_Inr [OF a]] c assms(9) show False by (simp split: if_splits)
  qed
  then obtain e where "verifyToken E (Some r') token (Some (take 64 run)) = Inl e" by (cases "verifyToken E (Some r') token (Some (take 64 run))") auto
  with c assms(5,6,8) show ?thesis
    by (auto simp: agentRequest_def agentAuth_def authenticate_def find_row_def bindE_def)
qed

text \<open>
  C24: a revoked token stays revoked: whatever happens to the database afterwards, every request that carries it is refused and
  changes nothing.
\<close>

theorem revoked_for_good:
  assumes "mig_reach (no_migrations h) w" and "r \<in> set (mw_rows w)" and "mi_revoked_at r \<noteq> None" and "mig_reach w v"
    and "parseToken token = Some (i, secret)" and "find (\<lambda>x. mi_token_id x = i) (mw_rows v) = Some r'" and "mi_id r' = mi_id r"
  shows "\<exists>e. agentRequest E token run ip req v = (Inl (Refused_token e), v)"
proof -
  have "row_law (\<lambda>x. mi_id x = mi_id r \<longrightarrow> mi_revoked_at x \<noteq> None) (mi_id r + 1) v"
    by (rule revoked.reach_law [OF assms(4) law_at [OF assms(1,2)]]) (rule assms(3))
  with row_lawD find_set [OF assms(6)] assms(7) have "mi_revoked_at r' \<noteq> None" by fastforce
  then have "\<exists>e. verifyToken E (Some r') token c = Inl e" for c
    by (auto simp: verifyToken_def split: option.splits prod.splits)
  then obtain e where "verifyToken E (Some r') token (if take 64 run = [] then None else Some (take 64 run)) = Inl e" by blast
  with assms(5,6) show ?thesis by (auto simp: agentRequest_def agentAuth_def authenticate_def find_row_def bindE_def)
qed

text \<open>
  The claim is not asked of a request that names no run: with the token alone, every request to a claimed migration is
  accepted, and the claim stays as it is.
\<close>

theorem claim_bypassed:
  assumes "mig_reach (no_migrations h) w" and "find (\<lambda>x. mi_token_id x = i) (mw_rows w) = Some r" and "parseToken token = Some (i, secret)"
    and "accepts E r token" and "mi_claimed_by r = Some c"
  shows "agentAuth E token [] ip w =
    (Inr (r\<lparr>mi_last_seen := Some (me_now E)\<rparr>), snd (set_row (mi_id r) (\<lambda>x. x\<lparr>mi_last_seen := Some (me_now E)\<rparr>) w))"
proof -
  have l: "row_law (\<lambda>_. True) 1 w" by (rule reachable_law [OF assms(1)])
  have v: "verifyToken E (Some r) token None = Inr False" using verify_accepts [OF assms(4), of None] assms(5) by simp
  have f: "find (\<lambda>x. mi_id x = mi_id r) (mw_rows w) = Some r" using find_unique [OF l] find_set [OF assms(2)] by blast
  have "find (\<lambda>x. mi_id x = mi_id r) (mw_rows (snd (set_row (mi_id r) (\<lambda>x. x\<lparr>mi_last_seen := Some (me_now E)\<rparr>) w))) =
      Some (r\<lparr>mi_last_seen := Some (me_now E)\<rparr>)"
    using find_updated [OF _ f, of "\<lambda>x. x\<lparr>mi_last_seen := Some (me_now E)\<rparr>"] by (simp add: set_row_step)
  from need_found [OF this] v assms(2,3) show ?thesis
    by (simp add: agentAuth_def authenticate_def find_row_def set_row_step)
qed

text \<open>
  C26: a completed migration has every step of its checklist done, in every reachable state and whatever was un-marked or redone.
\<close>

theorem completed_exact:
  assumes "mig_reach (no_migrations h) w" and "r \<in> set (mw_rows w)" and "mi_status r = ''completed''"
  shows "\<forall>s\<in>set (checklist_steps (mi_mode r)). mi_checklist r s \<noteq> None"
proof -
  have "checklistComplete (mi_mode r) (mi_checklist r)"
    using row_lawD [OF complete.reach_law [OF assms(1) fresh_law] assms(2)] assms(3) by simp
  then show ?thesis by (simp add: checklistComplete_def checklistFor_def list_all_iff)
qed

section \<open>A host that is watched\<close>

text \<open>
  A host on which the answer to a command depends on the command alone, with the commands it was asked: enough for runs that ask
  nothing twice. The checks of an imported guest, further down, are about any host.
\<close>

definition watched :: "(host_op \<Rightarrow> answer) \<Rightarrow> host_op list mig_env \<Rightarrow> bool" where
  "watched f E \<longleftrightarrow> me_do E = (\<lambda>oper h. (f oper, h @ [oper]))"

lemma watched_host: "watched f E \<Longrightarrow> host E oper w = (Inr (f oper), w\<lparr>mw_host := mw_host w @ [oper]\<rparr>)"
  by (simp add: watched_def host_def)

lemma watched_must: "watched f E \<Longrightarrow> must E oper e w =
    (if an_status (f oper) = 0 then Inr (f oper) else Inl e, w\<lparr>mw_host := mw_host w @ [oper]\<rparr>)"
  by (simp add: must_def bindE_def watched_host guardE_def)

lemma watched_exec: "watched f E \<Longrightarrow> exec E argv w = (Inr (f (Exec argv)), w\<lparr>mw_host := mw_host w @ [Exec argv]\<rparr>)"
  by (simp add: exec_def watched_host)

lemmas watched_simps = watched_host watched_must watched_exec

text \<open>
  C27: approval is not asked of an upload: while the agent's job still says that nothing is approved, a directory it sends is unpacked
  into the root of the target guest.
\<close>

theorem unapproved_unpack:
  assumes "watched f E" and "agentAuth E token run ip w = (Inr row, w')" and "\<not> row_approved row" and "mi_transport row = ''file-sync''"
    and "an_status (f (Mkdir (me_work E @ ''/'' @ show_int (mi_id row)))) = 0" and "path = work_path E row (''dir-'' @ safe_name E name @ ''.bin'')"
  shows "fst (agentJob E row w') = Inr (job_of row False Nothing) \<and>
    Exec [''sh'', ''-c'', decompressor (an_stdout (f (Magic path))) @ '' '' @ q2 @ '' | incus exec '' @ q1 @ '' -- tar -xf - -C /'', ''sh'', mi_target row, path]
      \<in> set (mw_host (snd (agentRequest E token run ip (Artifact ''dir'' (Whole sha) None name) w)))"
  using assms(2-6) by (simp add: agentRequest_def agentJob_def accepted_kinds_def receiveArtifact_def Let_def unpackIntoGuest_def decompressorFor_def
    watched_simps [OF assms(1)] bindE_def catchE_def guardE_def)

text \<open>
  C28: the clean-up deletes a guest the migration did not create: of a migration that ended before its approval it is not known
  whether it created its guest, and the check refuses only when it is known that it did not.
\<close>

theorem foreign_guest_deleted:
  assumes "watched f E" and "find (\<lambda>r. mi_id r = i) (mw_rows w) = Some row" and "mi_status row \<in> set TERMINAL" and "mi_guest_created row = None"
    and "an_status (f (Exec [''incus'', ''config'', ''show'', mi_target row])) = 0" and "\<And>names h. me_routes E names h = Some []"
    and "\<not> is_running (trim (an_stdout (f (Exec [''incus'', ''list'', mi_target row, ''--format'', ''csv'', ''-c'', ''s'']))))"
  shows "Exec [''incus'', ''delete'', mi_target row] \<in> set (mw_host (snd (cleanupMigration E i True False force False w)))"
  using assms(3-) by (simp add: cleanupMigration_def need_found [OF assms(2)] cleanup_plan_def cleanup_guest_def Let_def
    watched_simps [OF assms(1)] bindE_def guardE_def)

text \<open>
  C29: a cancelled migration comes back to life: when an import was under way, its last write overwrites the cancellation, and the
  token the cancellation ended is usable again.
\<close>

theorem cancelled_revived:
  assumes "find (\<lambda>r. mi_id r = i) (mw_rows w) = Some row" and "fst (cancel_commit E i reason w) = Inr x" and "mi_revoked_at row = None"
    and "\<And>t. mi_expires row = Some t \<Longrightarrow> me_now E \<le> t"
  shows "\<exists>mid late. find (\<lambda>r. mi_id r = i) (mw_rows (snd (cancel_commit E i reason w))) = Some mid \<and> mi_status mid = ''cancelled'' \<and>
      \<not> snd (tokenState E mid) \<and>
      find (\<lambda>r. mi_id r = i) (mw_rows (snd (finish_commit E i created (snd (cancel_commit E i reason w))))) = Some late \<and>
      mi_status late = ''ready'' \<and> snd (tokenState E late)"
proof -
  define f where "f = (\<lambda>r :: mig. r\<lparr>mi_status := ''cancelled'', mi_finished_at := Some (me_now E), mi_updated_at := me_now E,
    mi_error := (case reason of Some (c # t) \<Rightarrow> Some (take 500 (c # t)) | _ \<Rightarrow> None)\<rparr>)"
  define g where "g = (\<lambda>r :: mig. r\<lparr>mi_phase := ''post-import'', mi_status := ''ready'', mi_updated_at := me_now E, mi_guest_created := created\<rparr>)"
  have kept: "mi_id (f x) = mi_id x" "mi_id (g x) = mi_id x" for x by (simp_all add: f_def g_def)
  have c: "snd (cancel_commit E i reason w) = snd (set_row i f w)"
    using assms(2) by (auto simp: cancel_commit_def need_found [OF assms(1)] f_def bindE_def guardE_def set_row_step split: if_splits)
  have m: "find (\<lambda>r. mi_id r = i) (mw_rows (snd (set_row i f w))) = Some (f row)"
    using find_updated [OF kept(1) assms(1)] by (simp add: set_row_step)
  have l: "find (\<lambda>r. mi_id r = i) (mw_rows (snd (finish_commit E i created (snd (set_row i f w))))) = Some (g (f row))"
    using find_updated [OF kept(2) m] by (simp add: finish_commit_def set_row_step g_def [abs_def, symmetric])
  have "mi_status (f row) = ''cancelled''" "\<not> snd (tokenState E (f row))" "mi_status (g (f row)) = ''ready''" "snd (tokenState E (g (f row)))"
    using assms(3,4) by (auto simp: f_def g_def tokenState_def TERMINAL_def not_less split: option.splits)
  with c m l show ?thesis by auto
qed

text \<open>
  Un-marking a step of a completed migration revives its token, which the end of the migration had ended for good.
\<close>

theorem completed_revived:
  assumes "find (\<lambda>r. mi_id r = i) (mw_rows w) = Some row" and "mi_status row = ''completed''" and "step \<in> set (checklist_steps (mi_mode row))"
    and "mi_revoked_at row = None" and "\<And>t. mi_expires row = Some t \<Longrightarrow> me_now E \<le> t"
  shows "\<not> snd (tokenState E row) \<and> (\<exists>late. find (\<lambda>r. mi_id r = i) (mw_rows (snd (setChecklistStep E i step False who note w))) = Some late \<and>
    mi_status late = ''ready'' \<and> snd (tokenState E late))"
proof -
  define state where "state = (mi_checklist row)(step := None)"
  define g where "g = (\<lambda>r :: mig. r\<lparr>mi_checklist := state, mi_updated_at := me_now E, mi_phase := ''cutover'', mi_status := ''ready'', mi_finished_at := None\<rparr>)"
  have kept: "mi_id (g x) = mi_id x" for x by (simp add: g_def)
  have inc: "\<not> checklistComplete (mi_mode row) state"
    using assms(3) by (auto simp: checklistComplete_def checklistFor_def list_all_iff state_def)
  have "snd (setChecklistStep E i step False who note w) = snd (set_row i g w)"
    using assms(2,3) inc by (simp add: setChecklistStep_def need_found [OF assms(1)] Let_def bindE_def guardE_def state_def [symmetric] set_row_step g_def)
  moreover have "find (\<lambda>r. mi_id r = i) (mw_rows (snd (set_row i g w))) = Some (g row)"
    using find_updated [OF kept assms(1)] by (simp add: set_row_step)
  ultimately show ?thesis using assms(2,4,5) by (auto simp: g_def tokenState_def TERMINAL_def not_less split: option.splits)
qed

section \<open>What was checked of an imported guest\<close>

definition list_argv :: "string list" where
  "list_argv = [''proxypilot'', ''--json'', ''firewall'', ''egress'', ''list'']"

definition deny_argv :: "'h mig_env \<Rightarrow> string \<Rightarrow> string \<Rightarrow> string list" where
  "deny_argv E t s = [''proxypilot'', ''--json'', ''firewall'', ''egress'', ''deny'', fence_name E t, s]"

definition release_argv :: "string \<Rightarrow> string list" where
  "release_argv t = [''incus'', ''exec'', t, ''--'', ''cat'', ''/etc/os-release'']"

text \<open>
  The host keeps a log of what it was asked and what it answered; an answer may depend on all of it, so a command asked twice can be
  answered differently: a guest that is down tells nothing before it is started.
\<close>

type_synonym host_log = "(host_op \<times> answer) list"

definition answers :: "(host_op \<Rightarrow> host_log \<Rightarrow> answer) \<Rightarrow> host_log mig_env \<Rightarrow> bool" where
  "answers g E \<longleftrightarrow> me_do E = (\<lambda>oper h. (g oper h, h @ [(oper, g oper h)]))"

lemma logged_host: "answers g E \<Longrightarrow> host E oper w = (Inr (g oper (mw_host w)), w\<lparr>mw_host := mw_host w @ [(oper, g oper (mw_host w))]\<rparr>)"
  by (simp add: answers_def host_def)

lemma logged_exec: "answers g E \<Longrightarrow>
    exec E argv w = (Inr (g (Exec argv) (mw_host w)), w\<lparr>mw_host := mw_host w @ [(Exec argv, g (Exec argv) (mw_host w))]\<rparr>)"
  by (simp add: exec_def logged_host)

lemma logged_must: "answers g E \<Longrightarrow> must E oper e w =
    (if an_status (g oper (mw_host w)) = 0 then Inr (g oper (mw_host w)) else Inl e, w\<lparr>mw_host := mw_host w @ [(oper, g oper (mw_host w))]\<rparr>)"
  by (simp add: must_def bindE_def logged_host guardE_def)

lemmas logged_simps = logged_host logged_must logged_exec

text \<open>The log of a fence that is complete: the list is read, and then every entry of the guest is denied.\<close>

definition fence_log :: "'h mig_env \<Rightarrow> string \<Rightarrow> host_log \<Rightarrow> bool" where
  "fence_log E t trail \<longleftrightarrow> (\<exists>a vs ds. trail = (Exec list_argv, a) # ds \<and> an_status a = 0 \<and>
     array_or_none (jget (Some (parse_or (an_stdout a) (JObj []))) ''entries'') = Inr vs \<and>
     map fst ds = map (\<lambda>s. Exec (deny_argv E t s)) (List.map_filter entry_service (filter (entry_for (fence_name E t) t) vs)) \<and>
     (\<forall>d\<in>set ds. an_status (snd d) = 0))"

text \<open>
  The log of a proof: a guest that is up says that it is Debian 13; one that is not is started, says so then, and is stopped
  again.
\<close>

definition proof_log :: "string \<Rightarrow> host_log \<Rightarrow> bool" where
  "proof_log t trail \<longleftrightarrow> (\<exists>a. trail = [(Exec (release_argv t), a)] \<and> release_proved a) \<or>
     (\<exists>a b c d. trail = [(Exec (release_argv t), a), (Exec [''incus'', ''start'', t], b), (Exec (release_argv t), c), (Exec [''incus'', ''stop'', t], d)] \<and>
        an_status a \<noteq> 0 \<and> an_status b = 0 \<and> release_proved c \<and> an_status d = 0)"

definition checked_log :: "'h mig_env \<Rightarrow> string \<Rightarrow> host_log \<Rightarrow> bool" where
  "checked_log E t trail \<longleftrightarrow> (\<exists>before fence proven. trail = before @ fence @ proven \<and> fence_log E t fence \<and> proof_log t proven)"

lemma deny_loop:
  assumes "answers g E"
  shows "forE svcs (\<lambda>s. bindE (exec E (deny_argv E t s)) (\<lambda>d. guardE (an_status d = 0) Fence_incomplete)) u = (Inr (), v) \<Longrightarrow>
    \<exists>ds. mw_host v = mw_host u @ ds \<and> map fst ds = map (\<lambda>s. Exec (deny_argv E t s)) svcs \<and> (\<forall>d\<in>set ds. an_status (snd d) = 0)"
proof (induction svcs arbitrary: u)
  case (Cons s svcs)
  let ?a = "g (Exec (deny_argv E t s)) (mw_host u)"
  have e: "exec E (deny_argv E t s) u = (Inr ?a, u\<lparr>mw_host := mw_host u @ [(Exec (deny_argv E t s), ?a)]\<rparr>)" by (rule logged_exec [OF assms])
  from Cons.prems have a: "an_status ?a = 0" and
    r: "forE svcs (\<lambda>s. bindE (exec E (deny_argv E t s)) (\<lambda>d. guardE (an_status d = 0) Fence_incomplete))
      (u\<lparr>mw_host := mw_host u @ [(Exec (deny_argv E t s), ?a)]\<rparr>) = (Inr (), v)"
    by (simp_all add: e bindE_Inr_iff guardE_Inr_iff)
  from Cons.IH [OF r] obtain ds where "mw_host v = mw_host u @ (Exec (deny_argv E t s), ?a) # ds"
    "map fst ds = map (\<lambda>s. Exec (deny_argv E t s)) svcs" "\<forall>d\<in>set ds. an_status (snd d) = 0" by auto
  with a show ?case by (intro exI [of _ "(Exec (deny_argv E t s), ?a) # ds"]) simp
qed simp

lemma fence_logged:
  assumes "answers g E" and "fenceGuest E t u = (Inr svcs, v)"
  shows "\<exists>trail. mw_host v = mw_host u @ trail \<and> fence_log E t trail"
proof -
  let ?a = "g (Exec list_argv) (mw_host u)"
  from assms(2) obtain vs where a: "an_status ?a = 0" and
    vs: "array_or_none (jget (Some (parse_or (an_stdout ?a) (JObj []))) ''entries'') = Inr vs" and
    r: "forE (List.map_filter entry_service (filter (entry_for (fence_name E t) t) vs))
      (\<lambda>s. bindE (exec E (deny_argv E t s)) (\<lambda>d. guardE (an_status d = 0) Fence_incomplete))
      (u\<lparr>mw_host := mw_host u @ [(Exec list_argv, ?a)]\<rparr>) = (Inr (), v)"
    unfolding fenceGuest_def list_argv_def [symmetric] deny_argv_def [symmetric] Let_def by (auto simp: eff_inv logged_exec [OF assms(1)])
  from deny_loop [OF assms(1) r] a vs show ?thesis by (fastforce simp: fence_log_def)
qed

lemma proof_logged:
  assumes "answers g E" and "verifyImportedGuest E t u = (Inr (), v)"
  shows "\<exists>trail. mw_host v = mw_host u @ trail \<and> proof_log t trail"
  using assms(2) unfolding verifyImportedGuest_def release_argv_def [symmetric] Let_def
  by (auto simp: eff_inv logged_simps [OF assms(1)] release_proved_def proof_log_def split: if_splits)

lemma checked_logI:
  assumes "answers g E" and "prefix h (mw_host u)" and "fenceGuest E t u = (Inr svcs, v)" and "verifyImportedGuest E t v = (Inr (), x)"
  shows "\<exists>trail. mw_host x = h @ trail \<and> checked_log E t trail"
proof -
  obtain before fence proven where "mw_host u = h @ before" "mw_host v = mw_host u @ fence" "fence_log E t fence"
    "mw_host x = mw_host v @ proven" "proof_log t proven"
    using assms(2) fence_logged [OF assms(1,3)] proof_logged [OF assms(1,4)] by (auto simp: prefix_def)
  then show ?thesis by (intro exI [of _ "before @ fence @ proven"]) (auto simp: checked_log_def)
qed

lemma grows:
  assumes "answers g E"
  shows "preserves (\<lambda>w. prefix h (mw_host w)) (host E oper)" "preserves (\<lambda>w. prefix h (mw_host w)) (must E oper e)"
    "preserves (\<lambda>w. prefix h (mw_host w)) (exec E argv)" "preserves (\<lambda>w. prefix h (mw_host w)) (set_row i f)"
    "preserves (\<lambda>w. prefix h (mw_host w)) (need_mig i)"
  by (auto simp: preserves_def logged_simps [OF assms] set_row_def need_mig_def find_row_def bindE_def split: option.splits)

lemma import_grows: "answers g E \<Longrightarrow> preserves (\<lambda>w. prefix h (mw_host w)) (import_image E meta rootfs alias)"
  unfolding import_image_def Let_def decompressorFor_def by (intro preserves_intros grows)

lemma or_fail_Inr: "or_fail E i m w = (Inr a, v) \<longleftrightarrow> m w = (Inr a, v)"
  by (auto simp: or_fail_def catchE_def fail_mig_def bindE_def set_row_def split: prod.splits sum.splits if_splits)

text \<open>A part of the import that ends in the fence and the proof; what comes before them only lengthens the trail.\<close>

definition ends_checked :: "host_log mig_env \<Rightarrow> string \<Rightarrow> (host_log, unit) mig_eff \<Rightarrow> bool" where
  "ends_checked E t m \<longleftrightarrow> (\<forall>h w v. prefix h (mw_host w) \<longrightarrow> m w = (Inr (), v) \<longrightarrow> (\<exists>trail. mw_host v = h @ trail \<and> checked_log E t trail))"

lemma ends_checked_base: "answers g E \<Longrightarrow> ends_checked E t (bindE (fenceGuest E t) (\<lambda>_. verifyImportedGuest E t))"
  by (auto simp: ends_checked_def eff_inv dest: checked_logI)

lemma ends_checked_bind:
  assumes "\<And>h. preserves (\<lambda>w. prefix h (mw_host w)) m" and "\<And>a. ends_checked E t (f a)"
  shows "ends_checked E t (bindE m f)"
  unfolding ends_checked_def
proof (intro allI impI)
  fix h w v assume "prefix h (mw_host w)" and "bindE m f w = (Inr (), v)"
  then obtain a x where "prefix h (mw_host w)" "m w = (Inr a, x)" "f a x = (Inr (), v)" by (auto simp: bindE_Inr_iff)
  with preservesD [OF assms(1)] have "prefix h (mw_host x)" "f a x = (Inr (), v)" by blast+
  with assms(2) [of a] show "\<exists>trail. mw_host v = h @ trail \<and> checked_log E t trail" by (simp add: ends_checked_def)
qed

lemma import_checked: "answers g E \<Longrightarrow> ends_checked E (mi_target row) (import_checks E row)"
  unfolding import_checks_def Let_def by (intro ends_checked_bind ends_checked_base grows import_grows preserves_guardE)

lemma finish_checked:
  assumes "answers g E" and "\<And>x. find (\<lambda>r. mi_id r = mi_id row) (mw_rows w) = Some x \<Longrightarrow> mi_target x = mi_target row"
    and "finish_checks E row w = (Inr (), v)"
  shows "\<exists>trail. mw_host v = mw_host w @ trail \<and> checked_log E (mi_target row) trail"
proof (cases "mi_transport row = ''rootfs-tar''")
  case True
  with assms(3) obtain x where x: "find (\<lambda>r. mi_id r = mi_id row) (mw_rows w) = Some x" "import_checks E x w = (Inr (), v)"
    by (auto simp: finish_checks_def eff_inv need_mig_def find_row_def split: option.splits)
  with import_checked [OF assms(1), of x] assms(2) show ?thesis by (auto simp: ends_checked_def)
next
  case False
  let ?op = "Exec [''incus'', ''config'', ''show'', mi_target row]"
  let ?x = "w\<lparr>mw_host := mw_host w @ [(?op, g ?op (mw_host w))]\<rparr>"
  from False obtain y svcs where "fenceGuest E (mi_target row) ?x = (Inr svcs, y)" "verifyImportedGuest E (mi_target row) y = (Inr (), v)"
    using assms(3) by (auto simp: finish_checks_def eff_inv or_fail_Inr fail_mig_def logged_exec [OF assms(1)] split: if_splits)
  from checked_logI [OF assms(1) _ this, of "mw_host w"] show ?thesis by simp
qed

text \<open>
  C25: when the agent's finish is accepted the row is set to ready last, after the egress list was read and every entry of the guest
  removed from it, and after the guest itself said that it is Debian 13: either it was up and said so, or its release could not be read, it was
  started, said so then and was stopped again. This is the end of the log of the commands that were run, with
  the answers they got; an answer may depend on everything that was run before it.
\<close>

theorem ready_is_checked:
  assumes "answers g E" and "find (\<lambda>r. mi_id r = mi_id row) (mw_rows w) = Some row"
    and "agentFinish E row True message bytes w = (Inr (), v)"
  shows "(\<exists>trail. mw_host v = mw_host w @ trail \<and> checked_log E (mi_target row) trail) \<and>
    (\<exists>u. mw_host u = mw_host v \<and> finish_commit E (mi_id row) (finish_created row) u = (Inr (), v))"
proof -
  define f where "f = (\<lambda>r :: mig. case bytes of Some b \<Rightarrow> r\<lparr>mi_bytes_done := max 0 b\<rparr> | None \<Rightarrow> r)"
  have kept: "mi_id (f x) = mi_id x" "mi_target (f x) = mi_target x" for x by (simp_all add: f_def split: option.split)
  let ?w = "snd (set_row (mi_id row) f w)"
  have "agentFinish E row True message bytes w = bindE (finish_checks E row) (\<lambda>_. finish_commit E (mi_id row) (finish_created row)) ?w"
    by (cases bytes) (simp_all add: agentFinish_def f_def set_row_def bindE_def)
  with assms(3) obtain u where u: "finish_checks E row ?w = (Inr (), u)" "finish_commit E (mi_id row) (finish_created row) u = (Inr (), v)"
    by (auto simp: eff_inv)
  have "mi_target x = mi_target row" if "find (\<lambda>r. mi_id r = mi_id row) (mw_rows ?w) = Some x" for x
    using find_updated [of f, OF kept(1) assms(2)] that by (auto simp: set_row_step kept)
  from finish_checked [OF assms(1) this u(1)] u(2) show ?thesis by (auto simp: finish_commit_def set_row_step)
qed

section \<open>The target\<close>

lemma strip_slashes_append: "\<exists>k. p = strip_slashes p @ replicate k (CHR ''/'')"
proof -
  have "rev p = takeWhile (\<lambda>c. c = CHR ''/'') (rev p) @ rev (strip_slashes p)" by (simp add: strip_slashes_def)
  moreover have "takeWhile (\<lambda>c. c = CHR ''/'') (rev p) = replicate (length (takeWhile (\<lambda>c. c = CHR ''/'') (rev p))) (CHR ''/'')"
    by (intro replicate_eqI) (auto dest: set_takeWhileD)
  ultimately have "p = strip_slashes p @ rev (replicate (length (takeWhile (\<lambda>c. c = CHR ''/'') (rev p))) (CHR ''/''))"
    by (metis rev_append rev_rev_ident)
  then show ?thesis by (auto simp: rev_replicate)
qed

text \<open>
  The root directory, refused as a directory of the application, is accepted as soon as it is written with more than one slash;
  a parent traversal never is.
\<close>

theorem root_slips_through:
  "app_dir ''/'' = Inl (Dir_refused ''/'') \<and> (2 \<le> k \<longrightarrow> app_dir (replicate k (CHR ''/'')) = Inr ''/'') \<and>
    (app_dir p = Inr d \<longrightarrow> ''..'' \<notin> set (split_on (CHR ''/'') p))"
proof (intro conjI impI)
  show "app_dir ''/'' = Inl (Dir_refused ''/'')" by code_simp
  show "''..'' \<notin> set (split_on (CHR ''/'') p)" if "app_dir p = Inr d" using that by (auto simp: app_dir_def split: if_splits)
  assume k: "2 \<le> k"
  then obtain m where m: "k = Suc (Suc m)" by (metis Suc_le_D numeral_2_eq_2 Suc_le_mono)
  have "''..'' \<notin> set (split_on (CHR ''/'') (replicate k (CHR ''/'')))"
  proof
    assume a: "''..'' \<in> set (split_on (CHR ''/'') (replicate k (CHR ''/'')))"
    have "t = []" if "t \<in> set (split_on (CHR ''/'') (replicate n (CHR ''/'')))" for t and n :: nat
      using that by (induction n) (auto simp: split_on_def)
    with a show False by blast
  qed
  moreover have "strip_slashes (replicate k (CHR ''/'')) = []" by (simp add: strip_slashes_def dropWhile_replicate)
  ultimately show "app_dir (replicate k (CHR ''/'')) = Inr ''/''" using m by (auto simp: app_dir_def newline_def)
qed

section \<open>Marking every step\<close>

definition mark_steps :: "'h mig_env \<Rightarrow> int \<Rightarrow> string option \<Rightarrow> string option \<Rightarrow> string list \<Rightarrow> 'h mig_world \<Rightarrow> 'h mig_world" where
  "mark_steps E i who note = fold (\<lambda>s w. snd (setChecklistStep E i s True who note w))"

definition markable :: "mig \<Rightarrow> bool" where
  "markable r \<longleftrightarrow> mi_status r \<notin> set TERMINAL \<or> mi_status r = ''completed''"

lemma mark_one:
  assumes "find (\<lambda>r. mi_id r = i) (mw_rows w) = Some row" and "markable row" and "s \<in> set (checklist_steps (mi_mode row))"
  shows "\<exists>late d. find (\<lambda>r. mi_id r = i) (mw_rows (snd (setChecklistStep E i s True who note w))) = Some late \<and> markable late \<and>
    mi_mode late = mi_mode row \<and> mi_checklist late = (mi_checklist row)(s \<mapsto> d) \<and>
    (checklistComplete (mi_mode late) (mi_checklist late) \<longrightarrow> mi_status late = ''completed'')"
proof -
  define some where "some = (\<lambda>x. if x = Some [] then None else x :: string option)"
  define state where "state = (mi_checklist row)(s \<mapsto> \<lparr>sd_at = me_now E, sd_by = some who, sd_note = map_option (take 500) (some note)\<rparr>)"
  define g where "g = (\<lambda>r :: mig. r\<lparr>mi_checklist := state, mi_updated_at := me_now E, mi_phase := ''cutover'',
      mi_status := (if checklistComplete (mi_mode row) state then ''completed'' else ''ready''),
      mi_finished_at := (if checklistComplete (mi_mode row) state then Some (me_now E) else None)\<rparr>)"
  have kept: "mi_id (g x) = mi_id x" for x by (simp add: g_def)
  have "snd (setChecklistStep E i s True who note w) = snd (set_row i g w)"
    using assms(2,3) unfolding setChecklistStep_def markable_def
    by (auto simp: need_found [OF assms(1)] Let_def bindE_def guardE_def state_def [symmetric] some_def [symmetric] set_row_step g_def)
  moreover have "find (\<lambda>r. mi_id r = i) (mw_rows (snd (set_row i g w))) = Some (g row)"
    using find_updated [OF kept assms(1)] by (simp add: set_row_step)
  moreover have "markable (g row)" "mi_mode (g row) = mi_mode row" "mi_checklist (g row) = state" by (simp_all add: g_def markable_def TERMINAL_def)
  moreover have "checklistComplete (mi_mode row) state \<longrightarrow> mi_status (g row) = ''completed''" by (simp add: g_def)
  ultimately show ?thesis unfolding state_def by metis
qed

lemma mark_many:
  assumes "find (\<lambda>r. mi_id r = i) (mw_rows w) = Some row" and "markable row" and "set xs \<subseteq> set (checklist_steps (mi_mode row))"
  shows "\<exists>late. find (\<lambda>r. mi_id r = i) (mw_rows (mark_steps E i who note xs w)) = Some late \<and> markable late \<and> mi_mode late = mi_mode row \<and>
    (\<forall>s. mi_checklist late s \<noteq> None \<longleftrightarrow> s \<in> set xs \<or> mi_checklist row s \<noteq> None) \<and>
    (xs \<noteq> [] \<and> checklistComplete (mi_mode late) (mi_checklist late) \<longrightarrow> mi_status late = ''completed'')"
  using assms(3)
proof (induction xs rule: rev_induct)
  case Nil
  show ?case using assms(1,2) by (simp add: mark_steps_def)
next
  case (snoc s xs)
  then obtain mid where mid: "find (\<lambda>r. mi_id r = i) (mw_rows (mark_steps E i who note xs w)) = Some mid" "markable mid" "mi_mode mid = mi_mode row"
    "\<forall>s. mi_checklist mid s \<noteq> None \<longleftrightarrow> s \<in> set xs \<or> mi_checklist row s \<noteq> None" by auto
  have s: "s \<in> set (checklist_steps (mi_mode mid))" using snoc.prems mid(3) by simp
  obtain late d where "find (\<lambda>r. mi_id r = i) (mw_rows (mark_steps E i who note (xs @ [s]) w)) = Some late" "markable late" "mi_mode late = mi_mode mid"
      "mi_checklist late = (mi_checklist mid)(s \<mapsto> d)" "checklistComplete (mi_mode late) (mi_checklist late) \<longrightarrow> mi_status late = ''completed''"
    using mark_one [OF mid(1,2) s, of E who "note"] by (auto simp: mark_steps_def)
  moreover from this(4) have "mi_checklist late t \<noteq> None \<longleftrightarrow> t = s \<or> mi_checklist mid t \<noteq> None" for t by simp
  ultimately show ?case using mid(3,4) by (intro exI [of _ late] conjI) (simp_all del: fun_upd_apply)
qed

text \<open>
  The cut-over gets done: a migration that has neither failed nor been cancelled is completed once every step of its checklist
  has been marked, in whatever order and however often.
\<close>

theorem marking_completes:
  assumes "find (\<lambda>r. mi_id r = i) (mw_rows w) = Some row" and "mi_mode row \<in> set MODES" and "mi_status row \<notin> {''failed'', ''cancelled''}"
    and "set xs = set (checklist_steps (mi_mode row))"
  shows "\<exists>late. find (\<lambda>r. mi_id r = i) (mw_rows (mark_steps E i who note xs w)) = Some late \<and> mi_status late = ''completed''"
proof -
  have m: "markable row" using assms(3) by (auto simp: markable_def TERMINAL_def)
  have "checklist_steps (mi_mode row) \<noteq> []"
    using assms(2) by (auto simp: checklist_steps_def CHECKLIST_def MODES_def)
  with assms(4) have "xs \<noteq> []" by force
  moreover obtain late where l: "find (\<lambda>r. mi_id r = i) (mw_rows (mark_steps E i who note xs w)) = Some late" "mi_mode late = mi_mode row"
      "\<forall>s. mi_checklist late s \<noteq> None \<longleftrightarrow> s \<in> set xs \<or> mi_checklist row s \<noteq> None"
      "xs \<noteq> [] \<and> checklistComplete (mi_mode late) (mi_checklist late) \<longrightarrow> mi_status late = ''completed''"
    using mark_many [OF assms(1) m equalityD1 [OF assms(4)], of E who "note"] by blast
  moreover have "checklistComplete (mi_mode late) (mi_checklist late)"
    using l(2,3) assms(4) unfolding checklistComplete_def checklistFor_def list_all_iff by simp
  ultimately show ?thesis by blast
qed

section \<open>The properties at work\<close>

lemma example_watched: "watched good_host example_env"
  by (simp add: watched_def example_env_def)

lemma claimed_fields: "mi_claimed_by claimed_row = Some ''run-a''" "mi_token_id claimed_row = example_id" "mi_token_hash claimed_row = example_secret"
  "mi_status claimed_row = ''created''" "mi_revoked_at claimed_row = None" "mi_expires claimed_row = None" "mi_transport claimed_row = ''file-sync''"
  "mi_target claimed_row = ''pp-shop''"
  by (simp_all add: claimed_row_def created_row_def)

lemma claimed_found: "find (\<lambda>x. mi_token_id x = example_id) (mw_rows claimed_world) = Some claimed_row"
  by (simp add: claimed_world claimed_fields)

theorem claim_exclusive_witness:
  "\<exists>e. agentRequest example_env example_token ''run-b'' None Get_job claimed_world = (Inl (Refused_token e), claimed_world)"
  using claim_exclusive [OF claimed_reach _ claimed_fields(1) mig_reach.start example_parsed claimed_found refl, of "''run-b''"]
  by (simp add: claimed_world)

theorem claim_bypassed_witness:
  "\<exists>row w. agentAuth example_env example_token [] None claimed_world = (Inr row, w) \<and> mi_claimed_by row = Some ''run-a''"
proof -
  have a: "accepts example_env claimed_row example_token"
    by (simp add: accepts_def example_parsed claimed_fields tokenState_def TERMINAL_def) (simp add: example_env_def)
  show ?thesis
    unfolding claim_bypassed [OF claimed_reach claimed_found example_parsed a claimed_fields(1)] by (simp add: claimed_fields)
qed

definition revoked_world :: "host_op list mig_world" where
  "revoked_world = snd (revokeToken example_env 1 None claimed_world)"

lemma revoked_reach: "mig_reach (no_migrations []) revoked_world"
  unfolding revoked_world_def by (rule mig_reach.step [OF claimed_reach mig_step.revoke])

lemma revoked_world: "mw_rows revoked_world = [claimed_row\<lparr>mi_revoked_at := Some 0, mi_revoked_by := None, mi_updated_at := 0\<rparr>]"
  by (simp add: revoked_world_def revokeToken_def need_mig_def find_row_def claimed_world created_ids claimed_fields bindE_def guardE_def set_row_def example_now)

theorem revoked_for_good_witness:
  "\<exists>e. agentRequest example_env example_token ''run-a'' None Get_job revoked_world = (Inl (Refused_token e), revoked_world)"
  by (rule revoked_for_good [OF revoked_reach _ _ mig_reach.start example_parsed _ refl]) (simp_all add: revoked_world claimed_fields)

theorem unapproved_unpack_witness:
  "fst (agentJob example_env claimed_row (created_world\<lparr>mw_rows := [claimed_row]\<rparr>)) = Inr (job_of claimed_row False Nothing) \<and>
   Exec [''sh'', ''-c'', ''cat '' @ q2 @ '' | incus exec '' @ q1 @ '' -- tar -xf - -C /'', ''sh'', ''pp-shop'', ''/w/1/dir-srv.bin'']
     \<in> set (mw_host (snd (agentRequest example_env example_token ''run-a'' None (Artifact ''dir'' (Whole ''00'') None ''srv'') created_world)))"
proof -
  have d: "decompressor (an_stdout (good_host (Magic p))) = ''cat''" for p by (simp add: good_host_def decompressor_def)
  have p: "work_path example_env claimed_row (''dir-'' @ safe_name example_env ''srv'' @ ''.bin'') = ''/w/1/dir-srv.bin''" by code_simp
  have o: "an_status (good_host oper) = 0" for oper by (simp add: good_host_def)
  show ?thesis
    using unapproved_unpack [OF example_watched claimed_auth claimed_open claimed_fields(7) o p [symmetric], of "''00''"]
    by (simp only: d claimed_fields(8) append_Cons append_Nil simp_thms)
qed

definition cancelled_world :: "host_op list mig_world" where
  "cancelled_world = snd (cancelMigration example_env 1 None created_world)"

definition cancelled_row :: mig where
  "cancelled_row = created_row\<lparr>mi_status := ''cancelled'', mi_finished_at := Some 0\<rparr>"

lemma created_fields: "mi_status created_row = ''created''" "mi_revoked_at created_row = None" "mi_expires created_row = None"
  by (simp_all add: created_row_def)

lemma cancel_created: "cancel_commit example_env 1 None created_world = (Inr created_row, created_world\<lparr>mw_rows := [cancelled_row]\<rparr>)"
  by (simp add: cancel_commit_def need_mig_def find_row_def created_world created_ids created_fields TERMINAL_def bindE_def guardE_def set_row_def
    example_now) (simp add: cancelled_row_def created_row_def)

lemma no_output: "parse_or [] d = d"
  by (simp add: parse_or_def)

lemma cancelled_world: "mw_rows cancelled_world = [cancelled_row]"
  by (simp add: cancelled_world_def cancelMigration_def cancel_created bindE_def revokeTrust_def watched_simps [OF example_watched])
     (simp add: good_host_def no_output trust_list_def List.map_filter_def liftE_def ret_def)

theorem foreign_guest_deleted_witness:
  "Exec [''incus'', ''delete'', ''pp-shop''] \<in> set (mw_host (snd (cleanupMigration example_env 1 True False False False cancelled_world)))"
proof -
  have "mi_target cancelled_row = ''pp-shop''" by (simp add: cancelled_row_def created_row_def)
  moreover have "\<not> is_running (trim [])" by code_simp
  ultimately show ?thesis
    using foreign_guest_deleted [OF example_watched, of 1 cancelled_world cancelled_row False]
    by (simp add: cancelled_world) (simp add: cancelled_row_def created_row_def TERMINAL_def good_host_def example_env_def)
qed

theorem cancelled_revived_witness:
  "\<exists>late. find (\<lambda>r. mi_id r = 1) (mw_rows (snd (finish_commit example_env 1 (Some True) (snd (cancel_commit example_env 1 None created_world))))) =
     Some late \<and> mi_status late = ''ready'' \<and> snd (tokenState example_env late)"
  using cancelled_revived [of 1 created_world created_row example_env None created_row "Some True"]
  by (simp only: created_world cancel_created created_ids created_fields find.simps fst_conv simp_thms if_True option.distinct) blast

theorem completed_revived_witness:
  "\<exists>late. find (\<lambda>r. mi_id r = 1) (mw_rows (snd (setChecklistStep example_env 1 ''verified'' False None None
     (created_world\<lparr>mw_rows := [created_row\<lparr>mi_status := ''completed''\<rparr>]\<rparr>)))) = Some late \<and> mi_status late = ''ready'' \<and> snd (tokenState example_env late)"
proof -
  have "''verified'' \<in> set (checklist_steps ''application'')" by (simp add: checklist_steps_def CHECKLIST_def MODES_def)
  then show ?thesis
    using completed_revived [of 1 "created_world\<lparr>mw_rows := [created_row\<lparr>mi_status := ''completed''\<rparr>]\<rparr>" "created_row\<lparr>mi_status := ''completed''\<rparr>" "''verified''"
      example_env None None]
    by (simp add: created_ids created_fields) (auto simp: created_row_def)
qed

theorem root_slips_through_witness:
  "app_dir ''///'' = Inr ''/'' \<and> app_dir ''/srv/'' = Inr ''/srv'' \<and> ''..'' \<notin> set (split_on (CHR ''/'') ''/srv/'')"
proof -
  have "app_dir ''/srv/'' = Inr ''/srv''" by code_simp
  then show ?thesis using root_slips_through [of 3 "''/srv/''" "''/srv''"] by (simp add: eval_nat_numeral)
qed

theorem marking_completes_witness:
  "\<exists>late. find (\<lambda>r. mi_id r = 1) (mw_rows (mark_steps example_env 1 None None (rev (checklist_steps ''application'')) claimed_world)) = Some late \<and>
     mi_status late = ''completed''"
  by (rule marking_completes [of 1 claimed_world claimed_row])
     (simp_all add: claimed_world created_ids claimed_fields MODES_def, simp_all add: claimed_row_def created_row_def)

theorem completed_exact_witness:
  "\<exists>r (w :: host_op list mig_world). mig_reach (no_migrations []) w \<and> r \<in> set (mw_rows w) \<and> mi_status r = ''completed'' \<and>
     (\<forall>s\<in>set (checklist_steps (mi_mode r)). mi_checklist r s \<noteq> None)"
proof -
  let ?w = "mark_steps example_env 1 None None (checklist_steps ''application'') claimed_world"
  have mode: "mi_mode claimed_row = ''application''" by (simp add: claimed_row_def created_row_def)
  then have c: "set (checklist_steps ''application'') \<subseteq> set (checklist_steps (mi_mode claimed_row))" by simp
  have f: "find (\<lambda>r. mi_id r = 1) (mw_rows claimed_world) = Some claimed_row" by (simp add: claimed_world created_ids)
  have m: "markable claimed_row" by (simp add: markable_def claimed_fields TERMINAL_def)
  have n: "checklist_steps ''application'' \<noteq> []" by (simp add: checklist_steps_def CHECKLIST_def MODES_def)
  obtain late where l: "find (\<lambda>r. mi_id r = 1) (mw_rows ?w) = Some late" "mi_mode late = mi_mode claimed_row"
      "\<forall>s. mi_checklist late s \<noteq> None \<longleftrightarrow> s \<in> set (checklist_steps ''application'') \<or> mi_checklist claimed_row s \<noteq> None"
      "checklist_steps ''application'' \<noteq> [] \<and> checklistComplete (mi_mode late) (mi_checklist late) \<longrightarrow> mi_status late = ''completed''"
    using mark_many [OF f m c, of example_env None None] by blast
  have "checklistComplete (mi_mode late) (mi_checklist late)"
    using l(2,3) mode by (simp add: checklistComplete_def checklistFor_def list_all_iff)
  with l(4) n have d: "mi_status late = ''completed''" by blast
  have "mig_reach (no_migrations []) (mark_steps example_env 1 None None xs claimed_world)" for xs
    by (induction xs rule: rev_induct) (auto simp: mark_steps_def claimed_reach intro: mig_reach.step mig_step.check)
  then have r: "mig_reach (no_migrations []) ?w" .
  have m: "late \<in> set (mw_rows ?w)" using find_set [OF l(1)] by blast
  show ?thesis by (rule exI [of _ late], rule exI [of _ ?w], intro conjI) (fact r m d completed_exact [OF r m d])+
qed

text \<open>A guest that is down: its release cannot be read before it is started.\<close>

definition down_host :: "host_op \<Rightarrow> host_log \<Rightarrow> answer" where
  "down_host oper h =
     (if oper = Exec (release_argv ''pp-shop'') \<and> Exec [''incus'', ''start'', ''pp-shop''] \<notin> set (map fst h)
      then \<lparr>an_status = 1, an_stdout = [], an_stderr = []\<rparr> else good_host oper)"

definition down_env :: "host_log mig_env" where
  "down_env = \<lparr>me_now = 0, me_sha = (\<lambda>s. s), me_prefix = ''pp-'', me_work = ''/w'', me_number = (\<lambda>_. ''4''),
     me_do = (\<lambda>oper h. (down_host oper h, h @ [(oper, down_host oper h)])), me_blocking = (\<lambda>_ h. (False, h)), me_fits = (\<lambda>_ _ h. (True, h)),
     me_routes = (\<lambda>_ _. Some [])\<rparr>"

lemma down_logged: "answers down_host down_env"
  by (simp add: answers_def down_env_def)

lemma done_fence: "fenceGuest down_env t w = (Inr [], w\<lparr>mw_host := mw_host w @ [(Exec list_argv, good_host (Exec list_argv))]\<rparr>)"
  by (simp add: fenceGuest_def logged_exec [OF down_logged] bindE_def guardE_def list_argv_def down_host_def release_argv_def)
     (simp add: good_host_def no_output jget_def array_or_none_def js_truthy_def liftE_def List.map_filter_def)

lemma done_release:
  assumes "Exec [''incus'', ''start'', ''pp-shop''] \<notin> set (map fst (mw_host w))"
  shows "\<exists>v. verifyImportedGuest down_env ''pp-shop'' w = (Inr (), v) \<and> Exec [''incus'', ''start'', ''pp-shop''] \<in> set (map fst (mw_host v))"
proof -
  have "parseDebian13Release (''ID=debian'' @ nl @ ''VERSION_ID=13'')" by code_simp
  then show ?thesis using assms
    by (simp add: verifyImportedGuest_def Let_def logged_simps [OF down_logged] bindE_def down_host_def release_argv_def) (simp add: good_host_def)
qed

theorem ready_is_checked_witness:
  "\<exists>v trail. agentFinish down_env claimed_row True None None ((no_migrations [])\<lparr>mw_rows := [claimed_row]\<rparr>) = (Inr (), v) \<and>
     mw_host v = trail \<and> checked_log down_env ''pp-shop'' trail \<and> Exec [''incus'', ''start'', ''pp-shop''] \<in> set (map fst trail)"
proof -
  let ?w = "(no_migrations [])\<lparr>mw_rows := [claimed_row]\<rparr> :: host_log mig_world"
  let ?c = "(Exec [''incus'', ''config'', ''show'', ''pp-shop''], good_host (Exec [''incus'', ''config'', ''show'', ''pp-shop'']))"
  let ?u = "?w\<lparr>mw_host := [?c, (Exec list_argv, good_host (Exec list_argv))]\<rparr>"
  obtain x where x: "verifyImportedGuest down_env ''pp-shop'' ?u = (Inr (), x)" "Exec [''incus'', ''start'', ''pp-shop''] \<in> set (map fst (mw_host x))"
    using done_release [of ?u] by (auto simp: list_argv_def)
  have "down_host (Exec [''incus'', ''config'', ''show'', ''pp-shop'']) [] = good_host (Exec [''incus'', ''config'', ''show'', ''pp-shop''])"
    by (simp add: down_host_def release_argv_def)
  then have e: "exec down_env [''incus'', ''config'', ''show'', ''pp-shop''] ?w = (Inr (snd ?c), ?w\<lparr>mw_host := [?c]\<rparr>)"
    by (simp add: logged_exec [OF down_logged] no_migrations_def)
  have f: "fenceGuest down_env ''pp-shop'' (?w\<lparr>mw_host := [?c]\<rparr>) = (Inr [], ?u)" by (simp add: done_fence)
  have "an_status (snd ?c) = 0" by (simp add: good_host_def)
  with e f x(1) have "finish_checks down_env claimed_row ?w = (Inr (), x)"
    by (auto simp: finish_checks_def claimed_fields bindE_Inr_iff or_fail_Inr)
  then obtain v where v: "agentFinish down_env claimed_row True None None ?w = (Inr (), v)" "mw_host v = mw_host x"
    by (simp add: agentFinish_def finish_commit_def set_row_step bindE_def)
  from ready_is_checked [OF down_logged _ v(1)] v x(2) show ?thesis by (simp add: claimed_fields no_migrations_def)
qed

end
