(* ===== verification/Auth_Session.thy ===== *)
theory Auth_Session
  imports PP_Strings
begin

text \<open>
  Sign-on and sessions of the admin backend: \<open>admin/backend/src/middleware/auth.js\<close> and \<open>lib/sso/sessions.js\<close>. The state is the
  tables these read and write; a time is its number of milliseconds. \<open>jsonwebtoken\<close> is the arguments \<open>ae_verify\<close> and
  \<open>ae_sign\<close>, the answers of Keycloak are \<open>ae_central\<close> (the settings and the account, None when a request fails), and the
  verified connection that \<open>assertCurrent\<close> also asks for is \<open>ae_current\<close>. \<open>CURRENT_TIMESTAMP\<close> writes whole seconds of
  UTC without a zone, and \<open>Date.parse\<close> reads such a text in the zone of the process: \<open>ae_zone\<close> is how far that zone is ahead.
\<close>

section \<open>State\<close>

record session =
  se_id :: string
  se_user :: string
  se_expires :: "int option"
  se_used :: int
  se_revoked :: "int option"
  se_sudo :: "int option"
  se_level :: string

record sso_context =
  cx_session :: string
  cx_user :: string
  cx_origin :: string
  cx_method :: string
  cx_at :: int
  cx_proof :: "int option"
  cx_issuer :: "string option"
  cx_subject :: "string option"
  cx_fingerprint :: "string option"
  cx_checked :: "int option"

record account =
  ac_id :: string
  ac_name :: string
  ac_role :: string
  ac_source :: "string option"
  ac_password :: string
  ac_enabled :: bool
  ac_secret :: string
  ac_bound :: bool
  ac_fails :: int
  ac_failed_at :: "int option"
  ac_locked :: "int option"

record sso_config =
  sc_issuer :: string
  sc_public :: string
  sc_recovery :: string
  sc_fingerprint :: string
  sc_revision :: int
  sc_active :: bool

record access_grant =
  ga_user :: string
  ga_service :: string
  ga_view :: bool
  ga_write :: bool

record service_row =
  sv_id :: string
  sv_admin :: bool
  sv_type :: string
  sv_kind :: string
  sv_guest :: "string option"

record login_link =
  ll_hash :: string
  ll_user :: string
  ll_expires :: "int option"
  ll_completed :: "int option"

record enrollment =
  en_session :: string
  en_user :: string
  en_purpose :: string
  en_secret :: string
  en_prior :: string
  en_expires :: int
  en_attempts :: int

record bootstrap =
  bo_user :: string
  bo_installation :: string
  bo_hash :: string
  bo_expires :: int
  bo_consumed :: "int option"

text \<open>\<open>ac_bound\<close>: the account has a Keycloak link or a passkey.\<close>

record 'h auth_world =
  aw_sessions :: "session list"
  aw_contexts :: "sso_context list"
  aw_accounts :: "account list"
  aw_perms :: "(string \<times> string) list"
  aw_grants :: "access_grant list"
  aw_services :: "service_row list"
  aw_links :: "login_link list"
  aw_enrollments :: "enrollment list"
  aw_bootstraps :: "bootstrap list"
  aw_installation :: "string option"
  aw_config :: "sso_config option"
  aw_host :: 'h

record claims =
  cl_id :: string
  cl_name :: string
  cl_role :: string
  cl_jti :: "string option"
  cl_enroll :: bool

datatype jwt_failure = Jwt_expired | Jwt_invalid

record 'h auth_env =
  ae_now :: int
  ae_zone :: int
  ae_ttl :: int
  ae_idle :: int
  ae_keep :: int
  ae_sudo :: int
  ae_fail_max :: int
  ae_fail_window :: int
  ae_lockout :: int
  ae_schema :: bool
  ae_sha :: "string \<Rightarrow> string"
  ae_encrypt :: "string \<Rightarrow> string"
  ae_decrypt :: "string \<Rightarrow> string"
  ae_totp :: "string \<Rightarrow> string \<Rightarrow> int \<Rightarrow> bool"
  ae_verify :: "string \<Rightarrow> jwt_failure + claims"
  ae_sign :: "claims \<Rightarrow> int \<Rightarrow> string"
  ae_current :: "sso_config \<Rightarrow> 'h \<Rightarrow> bool"
  ae_central :: "sso_config \<Rightarrow> string option \<Rightarrow> 'h \<Rightarrow> bool option \<times> 'h"

datatype auth_error =
    No_token | Token_expired | Token_invalid | No_session_id | Session_revoked | Recovery_sign_in | Other_hostname
  | Central_expired | No_account | Session_expired | Session_idle | Identity_mismatch | Enroll_first | Link_only | Link_first
  | Recovery_admin | No_local_proof | Sudo_required | Role_pending | Admin_required | Permission_required
  | Service_denied | Guest_denied | Csrf_missing | Recovery_host | Recovery_closed | Sso_changed | Sso_active | Sso_input
  | Bad_login | Locked_until int | Totp_needed | Totp_wrong | Totp_setup string | Link_invalid | Bad_setup | Db_constraint
  | Not_found | Local_session_required | Forbidden | Origin_denied | Origin_required | Terminal_denied

type_synonym ('h, 'a) auth_eff = "('h auth_world, auth_error, 'a) eff"

definition REVOCATION_MS :: int where "REVOCATION_MS = 60000"
definition PROOF_MS :: int where "PROOF_MS = 300000"

text \<open>\<open>CURRENT_TIMESTAMP\<close>, and what \<open>Date.parse\<close> makes of it.\<close>

definition sql_now :: "'h auth_env \<Rightarrow> int" where
  "sql_now E = ae_now E div 1000 * 1000"

definition read_local :: "'h auth_env \<Rightarrow> int \<Rightarrow> int" where
  "read_local E t = t - ae_zone E"

definition set_session :: "(session \<Rightarrow> bool) \<Rightarrow> (session \<Rightarrow> session) \<Rightarrow> ('h, unit) auth_eff" where
  "set_session P f = modE (\<lambda>w. w\<lparr>aw_sessions := map (\<lambda>s. if P s then f s else s) (aw_sessions w)\<rparr>)"

definition set_context :: "(sso_context \<Rightarrow> bool) \<Rightarrow> (sso_context \<Rightarrow> sso_context) \<Rightarrow> ('h, unit) auth_eff" where
  "set_context P f = modE (\<lambda>w. w\<lparr>aw_contexts := map (\<lambda>c. if P c then f c else c) (aw_contexts w)\<rparr>)"

text \<open>Contexts and enrolments go with their session.\<close>

definition delete_sessions :: "(session \<Rightarrow> bool) \<Rightarrow> 'h auth_world \<Rightarrow> 'h auth_world" where
  "delete_sessions P w =
     (let ids = set (map se_id (filter P (aw_sessions w)))
      in w\<lparr>aw_sessions := filter (\<lambda>s. \<not> P s) (aw_sessions w), aw_contexts := filter (\<lambda>c. cx_session c \<notin> ids) (aw_contexts w),
           aw_enrollments := filter (\<lambda>n. en_session n \<notin> ids) (aw_enrollments w)\<rparr>)"

definition find_session :: "string \<Rightarrow> 'h auth_world \<Rightarrow> session option" where
  "find_session i w = find (\<lambda>s. se_id s = i) (aw_sessions w)"

definition find_account :: "string \<Rightarrow> 'h auth_world \<Rightarrow> account option" where
  "find_account i w = find (\<lambda>a. ac_id a = i) (aw_accounts w)"

section \<open>Contexts\<close>

definition sessionContext :: "'h auth_env \<Rightarrow> string \<Rightarrow> 'h auth_world \<Rightarrow> sso_context option" where
  "sessionContext E i w = (if ae_schema E then find (\<lambda>c. cx_session c = i) (aw_contexts w) else None)"

definition checkSessionContext :: "'h auth_env \<Rightarrow> session \<Rightarrow> string option \<Rightarrow> 'h auth_world \<Rightarrow> auth_error option" where
  "checkSessionContext E s origin w =
     (case sessionContext E (se_id s) w of
        None \<Rightarrow> (if ae_schema E \<and> (case aw_config w of Some c \<Rightarrow> origin = Some (sc_recovery c) | None \<Rightarrow> False) then Some Recovery_sign_in else None)
      | Some cx \<Rightarrow>
          if (case origin of Some (c # t) \<Rightarrow> cx_origin cx \<noteq> c # t | _ \<Rightarrow> False) then Some Other_hostname
          else if cx_method cx = ''oidc'' \<and> (case cx_checked cx of None \<Rightarrow> True | Some t \<Rightarrow> t = 0 \<or> t \<le> ae_now E) then Some Central_expired
          else None)"

definition requireLocalProof :: "'h auth_env \<Rightarrow> string \<Rightarrow> string \<Rightarrow> ('h, sso_context) auth_eff" where
  "requireLocalProof E i origin w =
     (case sessionContext E i w of
        None \<Rightarrow> (Inl No_local_proof, w)
      | Some cx \<Rightarrow>
          if cx_method cx \<notin> {''local'', ''link-only''} \<or> cx_origin cx \<noteq> origin \<or>
             (case cx_proof cx of None \<Rightarrow> True | Some t \<Rightarrow> t = 0 \<or> ae_now E - t > PROOF_MS)
          then (Inl No_local_proof, w) else (Inr cx, w))"

text \<open>Why it is refused: only a stale proof can be helped by a step-up.\<close>

definition localProofRefusal :: "'h auth_env \<Rightarrow> string \<Rightarrow> string \<Rightarrow> 'h auth_world \<Rightarrow> auth_error option" where
  "localProofRefusal E i origin w =
     (case fst (requireLocalProof E i origin w) of
        Inr _ \<Rightarrow> None
      | Inl _ \<Rightarrow> (case sessionContext E i w of
          None \<Rightarrow> Some Local_session_required
        | Some cx \<Rightarrow> Some (if cx_method cx \<notin> {''local'', ''link-only''} \<or> cx_origin cx \<noteq> origin then Local_session_required else Sudo_required)))"

definition stampLocalProof :: "'h auth_env \<Rightarrow> string \<Rightarrow> ('h, unit) auth_eff" where
  "stampLocalProof E i =
     (if ae_schema E then set_context (\<lambda>c. cx_session c = i \<and> cx_method c \<in> {''local'', ''link-only''}) (\<lambda>c. c\<lparr>cx_proof := Some (ae_now E)\<rparr>)
      else ret ())"

definition revoke :: "'h auth_env \<Rightarrow> session \<Rightarrow> session" where
  "revoke E s = s\<lparr>se_revoked := Some (sql_now E)\<rparr>"

definition revoke_all :: "'h auth_env \<Rightarrow> session \<Rightarrow> session" where
  "revoke_all E s = s\<lparr>se_revoked := Some (sql_now E), se_sudo := None\<rparr>"

text \<open>A request, as the middleware sees it; \<open>rq_recovery\<close> is the mark of \<open>recoveryBoundary\<close>.\<close>

record request =
  rq_method :: string
  rq_url :: string
  rq_host :: string
  rq_cookie :: "string option"
  rq_authorization :: "string option"
  rq_action :: "string option"
  rq_recovery :: bool

definition requestOrigin :: "request \<Rightarrow> string" where
  "requestOrigin r = ''https://'' @ to_lower (rq_host r)"

definition recordLocalSession :: "'h auth_env \<Rightarrow> string \<Rightarrow> request \<Rightarrow> account \<Rightarrow> ('h, bool) auth_eff" where
  "recordLocalSession E i r a =
     (if \<not> ae_schema E then ret False
      else if rq_recovery r \<and> (ac_role a \<noteq> ''admin'' \<or> ac_source a = Some ''ldap'')
      then bindE (set_session (\<lambda>s. se_id s = i) (revoke E)) (\<lambda>_. throw Recovery_admin)
      else bindE (getsE (\<lambda>w. (case aw_config w of Some c \<Rightarrow> sc_active c | None \<Rightarrow> False) \<and> \<not> rq_recovery r)) (\<lambda>link.
           bindE (\<lambda>w. guardE (list_all (\<lambda>c. cx_session c \<noteq> i) (aw_contexts w)) Db_constraint w) (\<lambda>_.
           bindE (modE (\<lambda>w. w\<lparr>aw_contexts := aw_contexts w @ [\<lparr>cx_session = i, cx_user = ac_id a, cx_origin = requestOrigin r,
             cx_method = (if link then ''link-only'' else if ac_source a = Some ''ldap'' then ''ldap'' else ''local''), cx_at = ae_now E,
             cx_proof = None, cx_issuer = None, cx_subject = None, cx_fingerprint = None, cx_checked = None\<rparr>]\<rparr>)) (\<lambda>_. ret link))))"

section \<open>The central check\<close>

text \<open>
  The check of an account at Keycloak: whether one is due, what is written when the answer is there, and both in one go. The
  deadline counts from before the question. Requests that arrive meanwhile share the answer in the code.
\<close>

definition central_due :: "'h auth_env \<Rightarrow> string \<Rightarrow> 'h auth_world \<Rightarrow> sso_context option" where
  "central_due E i w =
     (case sessionContext E i w of
        None \<Rightarrow> None
      | Some cx \<Rightarrow>
          if cx_method cx \<noteq> ''oidc'' \<or> (case cx_checked cx of Some t \<Rightarrow> t > ae_now E | None \<Rightarrow> False) then None
          else (case find_session i w of
              None \<Rightarrow> None
            | Some s \<Rightarrow> if se_revoked s \<noteq> None \<or> (case se_expires s of Some t \<Rightarrow> t \<le> ae_now E | None \<Rightarrow> False) then None else Some cx))"

definition assertCurrent :: "'h auth_env \<Rightarrow> string option \<Rightarrow> 'h auth_world \<Rightarrow> sso_config option" where
  "assertCurrent E fingerprint w =
     (case aw_config w of
        Some c \<Rightarrow> if Some (sc_fingerprint c) = fingerprint \<and> ae_current E c (aw_host w) then Some c else None
      | None \<Rightarrow> None)"

definition central_commit :: "'h auth_env \<Rightarrow> int \<Rightarrow> sso_context \<Rightarrow> bool \<Rightarrow> ('h, unit) auth_eff" where
  "central_commit E started cx enabled w =
     (if assertCurrent E (cx_fingerprint cx) w = None then (Inr (), w)
      else if \<not> enabled
      then let gone = set (map cx_session (filter (\<lambda>c. cx_method c = ''oidc'' \<and> cx_issuer c \<noteq> None \<and> cx_issuer c = cx_issuer cx \<and>
             cx_subject c \<noteq> None \<and> cx_subject c = cx_subject cx) (aw_contexts w)))
           in set_session (\<lambda>s. se_id s \<in> gone) (revoke_all E) w
      else set_context (\<lambda>c. cx_session c = cx_session cx) (\<lambda>c. c\<lparr>cx_checked := Some (started + REVOCATION_MS)\<rparr>) w)"

definition refreshCentralCheck :: "'h auth_env \<Rightarrow> string \<Rightarrow> ('h, unit) auth_eff" where
  "refreshCentralCheck E i w =
     (case central_due E i w of
        None \<Rightarrow> (Inr (), w)
      | Some cx \<Rightarrow>
          (case assertCurrent E (cx_fingerprint cx) w of
             None \<Rightarrow> (Inr (), w)
           | Some c \<Rightarrow>
               (let (answer, h) = ae_central E c (cx_subject cx) (aw_host w); w' = w\<lparr>aw_host := h\<rparr>
                in case answer of None \<Rightarrow> (Inr (), w') | Some enabled \<Rightarrow> central_commit E (ae_now E) cx enabled w')))"

section \<open>Requests\<close>

record live_session =
  lv_session :: session
  lv_role :: string
  lv_enroll :: bool
  lv_link :: bool

definition validateSession :: "'h auth_env \<Rightarrow> string option \<Rightarrow> string option \<Rightarrow> ('h, live_session) auth_eff" where
  "validateSession E jti origin =
     (case jti of
        None \<Rightarrow> throw No_session_id
      | Some i \<Rightarrow>
          if i = [] then throw No_session_id
          else bindE (getsE (find_session i)) (\<lambda>x.
            case x of
              None \<Rightarrow> throw Session_revoked
            | Some s \<Rightarrow>
                bindE (guardE (se_revoked s = None) Session_revoked) (\<lambda>_.
                bindE (getsE (checkSessionContext E s origin)) (\<lambda>verdict.
                bindE (case verdict of Some e \<Rightarrow> throw e | None \<Rightarrow> ret ()) (\<lambda>_.
                bindE (getsE (find_account (se_user s))) (\<lambda>a.
                bindE (guardE (a \<noteq> None) No_account) (\<lambda>_.
                bindE (getsE (sessionContext E i)) (\<lambda>cx.
                bindE (guardE (case se_expires s of Some t \<Rightarrow> t > ae_now E | None \<Rightarrow> False) Session_expired) (\<lambda>_.
                if ae_now E - read_local E (se_used s) > ae_idle E
                then bindE (set_session (\<lambda>s. se_id s = i) (revoke E)) (\<lambda>_. throw Session_idle)
                else bindE (set_session (\<lambda>s. se_id s = i) (\<lambda>s. s\<lparr>se_used := sql_now E\<rparr>)) (\<lambda>_.
                     ret \<lparr>lv_session = s, lv_role = ac_role (the a), lv_enroll = (se_level s = ''enrollment''),
                       lv_link = (case cx of Some c \<Rightarrow> cx_method c = ''link-only'' | None \<Rightarrow> False)\<rparr>)))))))))) "

definition url_path :: "request \<Rightarrow> string" where
  "url_path r = takeWhile (\<lambda>c. c \<noteq> CHR ''?'') (rq_url r)"

definition presented :: "request \<Rightarrow> string option" where
  "presented r =
     (case rq_cookie r of
        Some (c # t) \<Rightarrow> Some (c # t)
      | _ \<Rightarrow> (case rq_authorization r of
          Some h \<Rightarrow> (case split_on (CHR '' '') h of _ # t # _ \<Rightarrow> if h = [] \<or> t = [] then None else Some t | _ \<Rightarrow> None)
        | None \<Rightarrow> None))"

definition ENROLL_PATHS :: "string list" where
  "ENROLL_PATHS = [''/api/auth/complete-totp-setup'', ''/api/auth/logout'']"
definition LINK_READS :: "string list" where
  "LINK_READS = [''/api/auth/verify'', ''/api/auth/sso/session'', ''/api/user/profile'']"
definition LINK_WRITES :: "string list" where
  "LINK_WRITES = [''/api/auth/logout'', ''/api/auth/sudo'', ''/api/auth/sudo/passkey/begin'', ''/api/auth/sudo/passkey/verify'',
     ''/api/auth/sso/begin'']"

definition enroll_request :: "request \<Rightarrow> bool" where
  "enroll_request r \<longleftrightarrow> rq_method r = ''POST'' \<and> url_path r \<in> set ENROLL_PATHS"

definition link_request :: "request \<Rightarrow> bool" where
  "link_request r \<longleftrightarrow> rq_method r = ''GET'' \<and> url_path r \<in> set LINK_READS \<or> rq_method r = ''POST'' \<and> url_path r \<in> set LINK_WRITES"

record identity =
  iy_claims :: claims
  iy_role :: string
  iy_link :: bool
  iy_enroll :: bool
  iy_session :: session

definition authenticateToken :: "'h auth_env \<Rightarrow> request \<Rightarrow> ('h, identity) auth_eff" where
  "authenticateToken E r =
     (case presented r of
        None \<Rightarrow> throw No_token
      | Some token \<Rightarrow>
          (case ae_verify E token of
             Inl Jwt_expired \<Rightarrow> throw Token_expired
           | Inl Jwt_invalid \<Rightarrow> throw Token_invalid
           | Inr d \<Rightarrow>
               bindE (case cl_jti d of Some i \<Rightarrow> refreshCentralCheck E i | None \<Rightarrow> ret ()) (\<lambda>_.
               bindE (validateSession E (cl_jti d) (Some (requestOrigin r))) (\<lambda>lv.
               bindE (guardE (cl_id d = se_user (lv_session lv)) Identity_mismatch) (\<lambda>_.
               let enroll = lv_enroll lv \<or> cl_enroll d
               in bindE (guardE (\<not> (enroll \<and> \<not> enroll_request r)) Enroll_first) (\<lambda>_.
                  bindE (getsE (\<lambda>w. case cl_jti d of Some i \<Rightarrow> sessionContext E i w | None \<Rightarrow> None)) (\<lambda>cx.
                  let link = (case cx of Some c \<Rightarrow> cx_method c = ''link-only'' | None \<Rightarrow> False)
                  in bindE (guardE (\<not> (link \<and> \<not> link_request r)) Link_only) (\<lambda>_.
                     bindE (guardE (\<not> (link \<and> url_path r = ''/api/auth/sso/begin'' \<and> rq_action r \<noteq> Some ''link'')) Link_first) (\<lambda>_.
                     bindE (guardE (\<not> (rq_recovery r \<and> lv_role lv \<noteq> ''admin'')) Recovery_admin) (\<lambda>_.
                     ret \<lparr>iy_claims = d, iy_role = lv_role lv, iy_link = link, iy_enroll = enroll, iy_session = lv_session lv\<rparr>))))))))))"

definition generateToken :: "'h auth_env \<Rightarrow> string \<Rightarrow> account \<Rightarrow> bool \<Rightarrow> ('h, string) auth_eff" where
  "generateToken E i a enroll =
     (let ttl = (if enroll then 300000 else ae_ttl E)
      in bindE (\<lambda>w. guardE (find_session i w = None \<and> find_account (ac_id a) w \<noteq> None) Db_constraint w) (\<lambda>_.
         bindE (modE (\<lambda>w. w\<lparr>aw_sessions := aw_sessions w @ [\<lparr>se_id = i, se_user = ac_id a, se_expires = Some (ae_now E + ttl), se_used = sql_now E,
           se_revoked = None, se_sudo = None, se_level = ''full''\<rparr>]\<rparr>)) (\<lambda>_.
         bindE (if enroll then set_session (\<lambda>s. se_id s = i) (\<lambda>s. s\<lparr>se_level := ''enrollment''\<rparr>) else ret ()) (\<lambda>_.
         ret (ae_sign E \<lparr>cl_id = ac_id a, cl_name = ac_name a, cl_role = (if ac_role a = [] then ''admin'' else ac_role a), cl_jti = Some i,
           cl_enroll = enroll\<rparr> (ttl div 1000))))))"

section \<open>Step-up and roles\<close>

text \<open>\<open>requireSudo\<close> slides the grant; the row must not have been revoked in the meantime.\<close>

definition requireSudo :: "'h auth_env \<Rightarrow> session \<Rightarrow> ('h, unit) auth_eff" where
  "requireSudo E s =
     (if (case se_sudo s of None \<Rightarrow> True | Some t \<Rightarrow> t \<le> ae_now E) then throw Sudo_required
      else set_session (\<lambda>x. se_id x = se_id s \<and> se_revoked x = None) (\<lambda>x. x\<lparr>se_sudo := Some (ae_now E + ae_sudo E)\<rparr>))"

definition current_role :: "'h auth_world \<Rightarrow> string \<Rightarrow> string \<Rightarrow> string" where
  "current_role w i claimed = (case find_account i w of Some a \<Rightarrow> if ac_role a = [] then claimed else ac_role a | None \<Rightarrow> claimed)"

definition blockPendingRole :: "identity \<Rightarrow> ('h, unit) auth_eff" where
  "blockPendingRole u w = guardE (current_role w (cl_id (iy_claims u)) (iy_role u) \<noteq> ''pending'') Role_pending w"

definition requireAdmin :: "identity \<Rightarrow> ('h, unit) auth_eff" where
  "requireAdmin u = guardE (iy_role u = ''admin'') Admin_required"

definition has_permission :: "'h auth_world \<Rightarrow> string \<Rightarrow> string \<Rightarrow> bool" where
  "has_permission w i p \<longleftrightarrow> (i, p) \<in> set (aw_perms w)"

definition requireAdminOrPermission :: "string \<Rightarrow> identity \<Rightarrow> ('h, unit) auth_eff" where
  "requireAdminOrPermission p u w =
     (let i = cl_id (iy_claims u); role = current_role w i (iy_role u)
      in guardE (role = ''admin'' \<or> role = ''user'' \<and> has_permission w i p) Permission_required w)"

text \<open>\<open>datetime('now', '-n days')\<close> counts in whole seconds.\<close>

definition sweepStaleSessions :: "'h auth_env \<Rightarrow> ('h, int) auth_eff" where
  "sweepStaleSessions E w =
     (let limit = ae_now E div 1000 - ae_keep E * 86400;
          old = (\<lambda>t. t div 1000 < limit);
          stale = (\<lambda>s. case se_revoked s of Some t \<Rightarrow> old t | None \<Rightarrow> (case se_expires s of Some t \<Rightarrow> old t | None \<Rightarrow> False))
      in (Inr (int (length (filter stale (aw_sessions w)))), delete_sessions stale w))"

definition logout :: "'h auth_env \<Rightarrow> identity \<Rightarrow> ('h, unit) auth_eff" where
  "logout E u = (case cl_jti (iy_claims u) of
     Some i \<Rightarrow> if i = [] then ret () else set_session (\<lambda>s. se_id s = i \<and> se_revoked s = None) (revoke E)
   | None \<Rightarrow> ret ())"

definition revokeSession :: "'h auth_env \<Rightarrow> identity \<Rightarrow> string \<Rightarrow> ('h, unit) auth_eff" where
  "revokeSession E u i =
     bindE (getsE (find_session i)) (\<lambda>x. case x of
       None \<Rightarrow> throw Not_found
     | Some s \<Rightarrow> if se_user s \<noteq> cl_id (iy_claims u) then throw Forbidden
                else set_session (\<lambda>s. se_id s = i \<and> se_revoked s = None) (revoke E))"

definition revokeOthers :: "'h auth_env \<Rightarrow> identity \<Rightarrow> ('h, unit) auth_eff" where
  "revokeOthers E u =
     bindE (requireSudo E (iy_session u)) (\<lambda>_.
     set_session (\<lambda>s. se_user s = cl_id (iy_claims u) \<and> se_revoked s = None \<and> Some (se_id s) \<noteq> cl_jti (iy_claims u)) (revoke E))"

end
