(* ===== verification/Auth_SignOn.thy ===== *)
theory Auth_SignOn
  imports Auth_Session
begin

text \<open>
  How sessions come to be: \<open>admin/backend/src/routes/auth.js\<close> (the lockout, login, step-up, sign-in links),
  \<open>routes/sso.js\<close> (the end of a Keycloak login, activation) and \<open>lib/sso/sessions.js\<close>, \<open>store.js\<close> (the recovery host,
  saving and disabling the configuration), \<open>lib/totp-enrollment.js\<close> and \<open>lib/admin-bootstrap.js\<close>. An operation that waits for a password hash or for Keycloak is two definitions, what it
  reads before and what it writes after, because other requests run in between; the answers it waited for are arguments of the
  second. LDAP provisioning, the ceremonies of passkeys, audit entries and response bodies are not modelled.
\<close>

section \<open>Lockout\<close>

definition checkLockout :: "'h auth_env \<Rightarrow> account \<Rightarrow> int option" where
  "checkLockout E a = (case ac_locked a of Some t \<Rightarrow> if t \<le> ae_now E then None else Some t | None \<Rightarrow> None)"

definition set_account :: "string \<Rightarrow> (account \<Rightarrow> account) \<Rightarrow> ('h, unit) auth_eff" where
  "set_account i f = modE (\<lambda>w. w\<lparr>aw_accounts := map (\<lambda>a. if ac_id a = i then f a else a) (aw_accounts w)\<rparr>)"

definition next_fails :: "'h auth_env \<Rightarrow> account \<Rightarrow> int" where
  "next_fails E a =
     (if (case ac_failed_at a of Some t \<Rightarrow> read_local E t \<noteq> 0 \<and> ae_now E - read_local E t > ae_fail_window E | None \<Rightarrow> False) then 1
      else ac_fails a + 1)"

text \<open>\<open>a\<close> is the row as the request read it.\<close>

definition recordLoginFailure :: "'h auth_env \<Rightarrow> account \<Rightarrow> ('h, unit) auth_eff" where
  "recordLoginFailure E a =
     set_account (ac_id a) (\<lambda>x. x\<lparr>ac_fails := next_fails E a, ac_failed_at := Some (sql_now E),
       ac_locked := (if next_fails E a \<ge> ae_fail_max E then Some (ae_now E + ae_lockout E) else None)\<rparr>)"

definition resetLoginFailures :: "string \<Rightarrow> ('h, unit) auth_eff" where
  "resetLoginFailures i = set_account i (\<lambda>x. x\<lparr>ac_fails := 0, ac_failed_at := None, ac_locked := None\<rparr>)"

section \<open>Enrolment of the second factor\<close>

text \<open>\<open>lib/totp-enrollment.js\<close>\<close>

definition factorHash :: "'h auth_env \<Rightarrow> account \<Rightarrow> string" where
  "factorHash E a = ae_sha E ((if ac_enabled a then ''1'' else ''0'') @ '':'' @ ac_secret a)"

definition session_open :: "'h auth_env \<Rightarrow> session \<Rightarrow> string \<Rightarrow> bool" where
  "session_open E s user \<longleftrightarrow> se_user s = user \<and> se_revoked s = None \<and> (case se_expires s of Some t \<Rightarrow> t > ae_now E | None \<Rightarrow> True)"

definition beginTotpEnrollment :: "'h auth_env \<Rightarrow> account \<Rightarrow> string \<Rightarrow> string \<Rightarrow> string \<Rightarrow> ('h, unit) auth_eff" where
  "beginTotpEnrollment E a i purpose secret =
     bindE (getsE (find_session i)) (\<lambda>x. case x of
       None \<Rightarrow> throw Not_found
     | Some s \<Rightarrow>
         bindE (guardE (session_open E s (ac_id a)) Not_found) (\<lambda>_.
         bindE (guardE (\<not> (purpose = ''enroll'' \<and> (ac_enabled a \<or> se_level s \<noteq> ''enrollment''))) Bad_setup) (\<lambda>_.
         bindE (guardE (purpose \<in> {''enroll'', ''replace''}) Bad_setup) (\<lambda>_.
         modE (\<lambda>w. w\<lparr>aw_enrollments := filter (\<lambda>n. en_user n \<noteq> ac_id a) (aw_enrollments w) @ [\<lparr>en_session = i, en_user = ac_id a,
           en_purpose = purpose, en_secret = ae_encrypt E secret, en_prior = factorHash E a, en_expires = ae_now E + 300000, en_attempts = 0\<rparr>]\<rparr>)))))"

definition enrollment_ok :: "'h auth_env \<Rightarrow> enrollment \<Rightarrow> account \<Rightarrow> session \<Rightarrow> string \<Rightarrow> bool" where
  "enrollment_ok E n a s purpose \<longleftrightarrow> en_purpose n = purpose \<and> en_expires n > ae_now E \<and> en_attempts n < 5 \<and> session_open E s (ac_id a) \<and>
     en_prior n = factorHash E a \<and> \<not> (purpose = ''enroll'' \<and> (ac_enabled a \<or> se_level s \<noteq> ''enrollment''))"

definition six_digits :: "string \<Rightarrow> bool" where
  "six_digits s \<longleftrightarrow> length s = 6 \<and> list_all is_digit s"

text \<open>A wrong code is counted, and the count stays.\<close>

definition completeTotpEnrollment :: "'h auth_env \<Rightarrow> string \<Rightarrow> string \<Rightarrow> string \<Rightarrow> string \<Rightarrow> string \<Rightarrow> ('h, unit) auth_eff" where
  "completeTotpEnrollment E user i purpose code submitted w =
     (case (find (\<lambda>n. en_session n = i \<and> en_user n = user) (aw_enrollments w), find_account user w, find_session i w) of
        (Some n, Some a, Some s) \<Rightarrow>
          if \<not> enrollment_ok E n a s purpose then (Inl Bad_setup, w)
          else let secret = ae_decrypt E (en_secret n)
               in if \<not> (six_digits code \<and> (submitted = [] \<or> submitted = secret) \<and> ae_totp E secret code (ae_now E))
                  then (Inl Totp_wrong, w\<lparr>aw_enrollments := map (\<lambda>x. if en_session x = i then x\<lparr>en_attempts := en_attempts x + 1\<rparr> else x) (aw_enrollments w)\<rparr>)
                  else bindE (set_account user (\<lambda>x. x\<lparr>ac_secret := en_secret n, ac_enabled := True\<rparr>)) (\<lambda>_.
                       bindE (modE (\<lambda>w. w\<lparr>aw_enrollments := filter (\<lambda>x. en_user x \<noteq> user) (aw_enrollments w)\<rparr>)) (\<lambda>_.
                       set_session (\<lambda>s. se_user s = user \<and> se_revoked s = None) (revoke_all E))) w
      | _ \<Rightarrow> (Inl Bad_setup, w))"

section \<open>Login and step-up\<close>

definition login_begin :: "'h auth_env \<Rightarrow> string \<Rightarrow> ('h, account) auth_eff" where
  "login_begin E name =
     bindE (getsE (\<lambda>w. find (\<lambda>a. ac_name a = name) (aw_accounts w))) (\<lambda>x. case x of
       None \<Rightarrow> throw Bad_login
     | Some a \<Rightarrow> (case checkLockout E a of
         Some t \<Rightarrow> throw (Locked_until t)
       | None \<Rightarrow> if ac_source a \<noteq> Some ''ldap'' \<and> ac_password a = [] then throw Bad_login else ret a))"

text \<open>
  \<open>password\<close> is the answer of bcrypt or of the directory; the id of a new session and a new secret are random.
\<close>

definition login_end :: "'h auth_env \<Rightarrow> account \<Rightarrow> bool \<Rightarrow> string option \<Rightarrow> string \<Rightarrow> string \<Rightarrow> request \<Rightarrow> ('h, string) auth_eff" where
  "login_end E a password code i secret r =
     (if \<not> password then bindE (recordLoginFailure E a) (\<lambda>_. throw Bad_login)
      else if ac_enabled a \<and> ac_secret a \<noteq> []
      then (case code of
          None \<Rightarrow> throw Totp_needed
        | Some x \<Rightarrow>
            if \<not> ae_totp E (ae_decrypt E (ac_secret a)) x (ae_now E) then bindE (recordLoginFailure E a) (\<lambda>_. throw Totp_wrong)
            else bindE (resetLoginFailures (ac_id a)) (\<lambda>_. bindE (generateToken E i a False) (\<lambda>token.
                 bindE (recordLocalSession E i r a) (\<lambda>_. ret token))))
      else bindE (generateToken E i a True) (\<lambda>token. bindE (beginTotpEnrollment E a i ''enroll'' secret) (\<lambda>_. throw (Totp_setup token))))"

definition sudo_begin :: "'h auth_env \<Rightarrow> request \<Rightarrow> ('h, identity \<times> account) auth_eff" where
  "sudo_begin E r =
     bindE (authenticateToken E r) (\<lambda>u. bindE (getsE (find_account (cl_id (iy_claims u)))) (\<lambda>x. case x of
       None \<Rightarrow> throw No_account
     | Some a \<Rightarrow> (case checkLockout E a of Some t \<Rightarrow> throw (Locked_until t) | None \<Rightarrow> ret (u, a))))"

definition grant_sudo :: "'h auth_env \<Rightarrow> string \<Rightarrow> ('h, unit) auth_eff" where
  "grant_sudo E i = set_session (\<lambda>s. se_id s = i \<and> se_revoked s = None) (\<lambda>s. s\<lparr>se_sudo := Some (ae_now E + ae_sudo E)\<rparr>)"

definition step_up :: "'h auth_env \<Rightarrow> identity \<Rightarrow> account \<Rightarrow> ('h, unit) auth_eff" where
  "step_up E u a =
     bindE (resetLoginFailures (ac_id a)) (\<lambda>_.
     case cl_jti (iy_claims u) of None \<Rightarrow> ret () | Some i \<Rightarrow> bindE (grant_sudo E i) (\<lambda>_. stampLocalProof E i))"

definition sudo_end :: "'h auth_env \<Rightarrow> identity \<Rightarrow> account \<Rightarrow> bool \<Rightarrow> string \<Rightarrow> ('h, unit) auth_eff" where
  "sudo_end E u a password code =
     (if \<not> password then bindE (recordLoginFailure E a) (\<lambda>_. throw Bad_login)
      else if \<not> ae_totp E (ae_decrypt E (ac_secret a)) code (ae_now E) then bindE (recordLoginFailure E a) (\<lambda>_. throw Totp_wrong)
      else step_up E u a)"

text \<open>
  The same with a passkey: \<open>okay\<close> is the answer of the check of the assertion, and \<open>user\<close> the owner of the credential. A
  passkey sign-in makes a full session and does not step it up.
\<close>

definition passkey_begin :: "'h auth_env \<Rightarrow> string \<Rightarrow> ('h, account) auth_eff" where
  "passkey_begin E user =
     bindE (getsE (find_account user)) (\<lambda>x. case x of
       None \<Rightarrow> throw No_account
     | Some a \<Rightarrow> (case checkLockout E a of Some t \<Rightarrow> throw (Locked_until t) | None \<Rightarrow> ret a))"

definition passkey_end :: "'h auth_env \<Rightarrow> account \<Rightarrow> bool \<Rightarrow> string \<Rightarrow> request \<Rightarrow> ('h, string) auth_eff" where
  "passkey_end E a okay i r =
     (if \<not> okay then bindE (recordLoginFailure E a) (\<lambda>_. throw Bad_login)
      else bindE (resetLoginFailures (ac_id a)) (\<lambda>_. bindE (generateToken E i a False) (\<lambda>token.
           bindE (recordLocalSession E i r a) (\<lambda>_. ret token))))"

definition passkey_sudo_end :: "'h auth_env \<Rightarrow> identity \<Rightarrow> account \<Rightarrow> bool \<Rightarrow> ('h, unit) auth_eff" where
  "passkey_sudo_end E u a okay = (if \<not> okay then bindE (recordLoginFailure E a) (\<lambda>_. throw Bad_login) else step_up E u a)"

text \<open>\<open>/complete-totp-setup\<close>: the session that enrolled ends with all others of the account, and a new one begins.\<close>

definition totp_setup :: "'h auth_env \<Rightarrow> request \<Rightarrow> string \<Rightarrow> string \<Rightarrow> string \<Rightarrow> ('h, string) auth_eff" where
  "totp_setup E r code submitted i =
     bindE (authenticateToken E r) (\<lambda>u.
     bindE (guardE (length code = 6 \<and> 16 \<le> length submitted) Bad_setup) (\<lambda>_.
     bindE (getsE (find_account (cl_id (iy_claims u)))) (\<lambda>x. case x of
       None \<Rightarrow> throw Not_found
     | Some a \<Rightarrow>
         bindE (guardE (iy_enroll u \<and> \<not> ac_enabled a) Bad_setup) (\<lambda>_.
         bindE (completeTotpEnrollment E (ac_id a) (case cl_jti (iy_claims u) of Some j \<Rightarrow> j | None \<Rightarrow> []) ''enroll'' code submitted) (\<lambda>_.
         bindE (getsE (find_account (ac_id a))) (\<lambda>fresh.
         bindE (generateToken E i (case fresh of Some f \<Rightarrow> f | None \<Rightarrow> a) False) (\<lambda>token.
         bindE (recordLocalSession E i r a) (\<lambda>_. ret token))))))))"

section \<open>The first administrator\<close>

text \<open>\<open>lib/admin-bootstrap.js\<close>\<close>

definition bootstrap_token :: "string \<Rightarrow> bool" where
  "bootstrap_token s \<longleftrightarrow> take 7 s = ''ppboot_'' \<and> length s = 50 \<and> list_all (\<lambda>c. is_alnum c \<or> c = CHR ''_'' \<or> c = CHR ''-'') (drop 7 s)"

definition bootstrapUser :: "'h auth_env \<Rightarrow> string \<Rightarrow> string \<Rightarrow> 'h auth_world \<Rightarrow> account option" where
  "bootstrapUser E name token w =
     (if \<not> bootstrap_token token then None
      else find (\<lambda>a. ac_name a = name \<and> ac_role a = ''admin'' \<and> (ac_source a = None \<or> ac_source a = Some ''local'') \<and> ac_password a = [] \<and>
             \<not> ac_enabled a \<and> \<not> ac_bound a \<and>
             list_ex (\<lambda>b. bo_user b = ac_id a \<and> bo_hash b = ae_sha E token \<and> bo_consumed b = None \<and> bo_expires b > ae_now E \<and>
               Some (bo_installation b) = aw_installation w) (aw_bootstraps w)) (aw_accounts w))"

definition claimBootstrap :: "'h auth_env \<Rightarrow> string \<Rightarrow> string \<Rightarrow> string \<Rightarrow> ('h, account) auth_eff" where
  "claimBootstrap E name token password_hash w =
     (case bootstrapUser E name token w of
        None \<Rightarrow> (Inl Bad_setup, w)
      | Some a \<Rightarrow>
          bindE (modE (\<lambda>w. w\<lparr>aw_bootstraps := map (\<lambda>b. if bo_user b = ac_id a \<and> bo_consumed b = None \<and> bo_expires b > ae_now E
            then b\<lparr>bo_consumed := Some (ae_now E)\<rparr> else b) (aw_bootstraps w)\<rparr>)) (\<lambda>_.
          bindE (set_account (ac_id a) (\<lambda>x. if ac_password x = [] \<and> \<not> ac_enabled x then x\<lparr>ac_password := password_hash\<rparr> else x)) (\<lambda>_.
          bindE (set_session (\<lambda>s. se_user s = ac_id a \<and> se_revoked s = None) (revoke_all E)) (\<lambda>_.
          ret (a\<lparr>ac_password := password_hash\<rparr>)))) w)"

text \<open>The credential is looked at before the password is hashed and spent after it.\<close>

definition setup_begin :: "'h auth_env \<Rightarrow> string \<Rightarrow> string \<Rightarrow> string \<Rightarrow> string \<Rightarrow> ('h, unit) auth_eff" where
  "setup_begin E name token password confirm =
     bindE (guardE (name \<noteq> [] \<and> token \<noteq> [] \<and> length token \<le> 100 \<and> 12 \<le> length password \<and> confirm \<noteq> []) Bad_setup) (\<lambda>_.
     bindE (guardE (password = confirm) Bad_setup) (\<lambda>_. \<lambda>w. guardE (bootstrapUser E name token w \<noteq> None) Bad_setup w))"

definition setup_end :: "'h auth_env \<Rightarrow> string \<Rightarrow> string \<Rightarrow> string \<Rightarrow> string \<Rightarrow> string \<Rightarrow> ('h, string) auth_eff" where
  "setup_end E name token password_hash i secret =
     bindE (claimBootstrap E name token password_hash) (\<lambda>a.
     bindE (generateToken E i a True) (\<lambda>session_token.
     bindE (beginTotpEnrollment E a i ''enroll'' secret) (\<lambda>_. ret session_token)))"

section \<open>Sign-in links\<close>

definition findValidLoginLink :: "'h auth_env \<Rightarrow> string \<Rightarrow> 'h auth_world \<Rightarrow> (login_link \<times> account) option" where
  "findValidLoginLink E token w =
     (if length token < 10 then None
      else (case find (\<lambda>l. ll_hash l = ae_sha E token) (aw_links w) of
          None \<Rightarrow> None
        | Some l \<Rightarrow>
            if ll_completed l \<noteq> None \<or> (case ll_expires l of Some t \<Rightarrow> t < ae_now E | None \<Rightarrow> False) then None
            else (case find_account (ll_user l) w of
                None \<Rightarrow> None
              | Some a \<Rightarrow> if (case ac_source a of Some (c # t) \<Rightarrow> c # t | _ \<Rightarrow> ''local'') \<noteq> ''local'' then None else Some (l, a))))"

definition link_begin :: "'h auth_env \<Rightarrow> string \<Rightarrow> string \<Rightarrow> ('h, account) auth_eff" where
  "link_begin E token password =
     bindE (guardE (10 \<le> length token \<and> 12 \<le> length password) Bad_setup) (\<lambda>_.
     bindE (getsE (findValidLoginLink E token)) (\<lambda>x. case x of None \<Rightarrow> throw Link_invalid | Some (_, a) \<Rightarrow> ret a))"

text \<open>Written when the hash is there.\<close>

definition link_end :: "'h auth_env \<Rightarrow> account \<Rightarrow> string \<Rightarrow> ('h, unit) auth_eff" where
  "link_end E a password_hash =
     bindE (set_account (ac_id a) (\<lambda>x. x\<lparr>ac_password := password_hash\<rparr>)) (\<lambda>_.
     modE (\<lambda>w. w\<lparr>aw_links := map (\<lambda>l. if ll_user l = ac_id a \<and> ll_completed l = None then l\<lparr>ll_completed := Some (sql_now E)\<rparr> else l) (aw_links w)\<rparr>))"

section \<open>Keycloak\<close>

text \<open>The write at the end of a login at Keycloak; \<open>started\<close> is when its account was asked for, \<open>a\<close> the linked account.\<close>

definition sso_login :: "'h auth_env \<Rightarrow> sso_config \<Rightarrow> bool \<Rightarrow> int \<Rightarrow> string \<Rightarrow> string \<Rightarrow> account \<Rightarrow> string \<Rightarrow> ('h, string) auth_eff" where
  "sso_login E c test started issuer subject a i =
     bindE (guardE (ac_role a \<noteq> ''pending'') Forbidden) (\<lambda>_.
     bindE (getsE (\<lambda>w. case aw_config w of Some x \<Rightarrow> sc_active x | None \<Rightarrow> False)) (\<lambda>active.
     bindE (guardE (test \<or> active) Sso_changed) (\<lambda>_.
     bindE (generateToken E i a False) (\<lambda>token.
     bindE (\<lambda>w. guardE (list_all (\<lambda>x. cx_session x \<noteq> i) (aw_contexts w)) Db_constraint w) (\<lambda>_.
     bindE (modE (\<lambda>w. w\<lparr>aw_contexts := aw_contexts w @ [\<lparr>cx_session = i, cx_user = ac_id a, cx_origin = sc_public c, cx_method = ''oidc'',
       cx_at = ae_now E, cx_proof = None, cx_issuer = Some issuer, cx_subject = Some subject, cx_fingerprint = Some (sc_fingerprint c),
       cx_checked = Some (started + REVOCATION_MS)\<rparr>]\<rparr>)) (\<lambda>_. ret token))))))"

text \<open>The step-up at Keycloak.\<close>

definition sso_sudo :: "'h auth_env \<Rightarrow> string \<Rightarrow> ('h, unit) auth_eff" where
  "sso_sudo E i = grant_sudo E i"

definition sso_kind :: "(sso_context \<Rightarrow> bool) \<Rightarrow> 'h auth_world \<Rightarrow> string set" where
  "sso_kind P w = set (map cx_session (filter P (aw_contexts w)))"

text \<open>The last part of an activation, after its waits and its list of conditions.\<close>

definition activate_commit :: "'h auth_env \<Rightarrow> string \<Rightarrow> ('h, unit) auth_eff" where
  "activate_commit E fingerprint w =
     (case assertCurrent E (Some fingerprint) w of
        None \<Rightarrow> (Inl Sso_changed, w)
      | Some c \<Rightarrow>
          let kept = sso_kind (\<lambda>x. cx_method x = ''oidc'' \<or> cx_method x = ''local'' \<and> cx_origin x = sc_recovery c) w
          in set_session (\<lambda>s. se_revoked s = None \<and> se_id s \<notin> kept) (revoke_all E) (w\<lparr>aw_config := Some (c\<lparr>sc_active := True\<rparr>)\<rparr>))"

definition disableSso :: "'h auth_env \<Rightarrow> ('h, unit) auth_eff" where
  "disableSso E w =
     set_session (\<lambda>s. se_id s \<in> sso_kind (\<lambda>x. cx_method x = ''oidc'') w) (revoke_all E)
       (w\<lparr>aw_config := map_option (\<lambda>c. c\<lparr>sc_active := False\<rparr>) (aw_config w)\<rparr>)"

text \<open>
  What the form holds, with the origin and issuer of its connection, and what the checks outside of the tables say: it parses, the
  connection is verified, the recovery networks are restricted, both client credentials are given or kept.
\<close>

record save_input =
  si_revision :: int
  si_public :: string
  si_recovery :: string
  si_keycloak :: string
  si_issuer :: string
  si_client :: string
  si_reader :: string
  si_parses :: bool
  si_verified :: bool
  si_restricted :: bool
  si_secrets :: bool

definition saveConfig :: "'h auth_env \<Rightarrow> string \<Rightarrow> (int \<Rightarrow> save_input \<Rightarrow> string) \<Rightarrow> save_input \<Rightarrow> ('h, unit) auth_eff" where
  "saveConfig E admin_domain fingerprint i =
     bindE (getsE aw_config) (\<lambda>old.
     bindE (guardE (si_parses i) Sso_input) (\<lambda>_.
     bindE (guardE ((case old of Some c \<Rightarrow> sc_revision c | None \<Rightarrow> 0) = si_revision i) Sso_changed) (\<lambda>_.
     bindE (guardE (\<not> (case old of Some c \<Rightarrow> sc_active c | None \<Rightarrow> False)) Sso_active) (\<lambda>_.
     bindE (guardE (si_verified i) Sso_input) (\<lambda>_.
     bindE (guardE (distinct [si_public i, si_recovery i, si_keycloak i]) Sso_input) (\<lambda>_.
     bindE (guardE (si_public i = ''https://'' @ admin_domain) Sso_input) (\<lambda>_.
     bindE (guardE (si_restricted i) Sso_input) (\<lambda>_.
     bindE (guardE (si_client i \<noteq> si_reader i) Sso_input) (\<lambda>_.
     bindE (guardE (si_secrets i) Sso_input) (\<lambda>_.
     bindE (modE (\<lambda>w. w\<lparr>aw_config := Some \<lparr>sc_issuer = si_issuer i, sc_public = si_public i, sc_recovery = si_recovery i,
       sc_fingerprint = fingerprint (si_revision i + 1) i, sc_revision = si_revision i + 1, sc_active = False\<rparr>\<rparr>)) (\<lambda>_.
     \<lambda>w. set_session (\<lambda>s. se_id s \<in> sso_kind (\<lambda>x. cx_method x = ''oidc'') w) (revoke_all E) w)))))))))))"

section \<open>The recovery host\<close>

text \<open>The request the routes get, marked; \<open>path\<close> is \<open>req.path\<close>, \<open>name\<close> the user name in the body.\<close>

definition recoveryBoundary :: "string \<Rightarrow> string \<Rightarrow> request \<Rightarrow> 'h auth_world \<Rightarrow> auth_error + request" where
  "recoveryBoundary path name r w =
     (case aw_config w of
        None \<Rightarrow> Inr r
      | Some c \<Rightarrow>
          if sc_active c \<and> requestOrigin r \<noteq> sc_recovery c \<and> path = ''/api/auth/initial-setup'' then Inl Recovery_host
          else if requestOrigin r \<noteq> sc_recovery c then Inr r
          else if prefix ''/api/mcp'' path \<or> prefix ''/api/domains'' path then Inl Recovery_closed
          else if (path = ''/api/auth/login'' \<or> path = ''/api/auth/complete-totp-setup'') \<and>
            \<not> list_ex (\<lambda>a. ac_name a = name \<and> ac_role a = ''admin'' \<and> (ac_source a = Some ''local'' \<or> ac_source a = None)) (aw_accounts w)
          then Inl Recovery_admin
          else if path = ''/api/auth/initial-setup'' then Inl Recovery_closed
          else Inr (r\<lparr>rq_recovery := True\<rparr>))"

end
