(* ===== verification/Auth_Access.thy ===== *)
theory Auth_Access
  imports Auth_SignOn
begin

text \<open>
  What an authenticated request may do: \<open>admin/backend/src/middleware/csrf.js\<close>, \<open>service-access.js\<close>, \<open>terminal-access.js\<close> and
  \<open>wsAuth.js\<close>, and the service rights of \<open>middleware/auth.js\<close>. The parsing of a URL and of a cookie header are arguments; a failure
  of the database, which the middleware answers with 503, is not modelled.
\<close>

section \<open>Cross-site requests\<close>

definition SAFE_METHODS :: "string list" where
  "SAFE_METHODS = [''GET'', ''HEAD'', ''OPTIONS'']"

definition CSRF_EXEMPT_PREFIXES :: "string list" where
  "CSRF_EXEMPT_PREFIXES =
     [''/api/auth/login'', ''/api/auth/initial-setup'', ''/api/auth/setup-status'', ''/api/auth/passkey/authenticate/begin'',
      ''/api/auth/passkey/authenticate/verify'', ''/api/mock2/git/'', ''/api/migrations/agent/'', ''/api/mcp/'', ''/api/mcp-editor/'']"

definition csrf_exempt :: "request \<Rightarrow> string option \<Rightarrow> bool" where
  "csrf_exempt r api_key \<longleftrightarrow>
     rq_method r = ''POST'' \<and> rq_url r = ''/api/auth/sso/callback'' \<or>
     list_ex (\<lambda>p. if ends_with p ''/'' then prefix p (rq_url r) else url_path r = p) CSRF_EXEMPT_PREFIXES \<or>
     rq_url r = ''/api/mcp'' \<or> prefix ''/api/mcp?'' (rq_url r) \<or> rq_url r = ''/api/mcp-editor'' \<or> prefix ''/api/mcp-editor?'' (rq_url r) \<or>
     prefix ''/api/domains/provision'' (rq_url r) \<and> (case api_key of Some (_ # _) \<Rightarrow> True | _ \<Rightarrow> False)"

definition csrfProtection :: "request \<Rightarrow> string option \<Rightarrow> string option \<Rightarrow> string option \<Rightarrow> auth_error option" where
  "csrfProtection r api_key cookie header =
     (if rq_method r \<in> set SAFE_METHODS \<or> csrf_exempt r api_key then None
      else (case (cookie, header) of
          (Some (a # as), Some (b # bs)) \<Rightarrow> if a # as = b # bs then None else Some Csrf_missing
        | _ \<Rightarrow> Some Csrf_missing))"

section \<open>Services\<close>

definition is_role :: "string \<Rightarrow> 'h auth_world \<Rightarrow> string \<Rightarrow> bool" where
  "is_role role w i \<longleftrightarrow> (case find_account i w of Some a \<Rightarrow> ac_role a = role | None \<Rightarrow> False)"

definition find_grant :: "string \<Rightarrow> string \<Rightarrow> 'h auth_world \<Rightarrow> access_grant option" where
  "find_grant i s w = find (\<lambda>g. ga_user g = i \<and> ga_service g = s) (aw_grants w)"

definition canViewService :: "string \<Rightarrow> string \<Rightarrow> 'h auth_world \<Rightarrow> bool" where
  "canViewService i s w \<longleftrightarrow> is_role ''admin'' w i \<or> (case find_grant i s w of Some g \<Rightarrow> ga_view g | None \<Rightarrow> False)"

definition canWriteService :: "string \<Rightarrow> string \<Rightarrow> 'h auth_world \<Rightarrow> bool" where
  "canWriteService i s w \<longleftrightarrow> is_role ''admin'' w i \<or> (case find_grant i s w of Some g \<Rightarrow> ga_write g | None \<Rightarrow> False)"

definition SERVICE_READS :: "string list" where
  "SERVICE_READS = [''/:id'', ''/:id/routes'', ''/:id/files'', ''/:id/files/*'', ''/:id/versions/*'', ''/:id/version/:versionId'',
     ''/:id/download/*'', ''/:id/export-files'', ''/:id/detected-ports'']"

definition SERVICE_WRITES :: "(string \<times> string) list" where
  "SERVICE_WRITES = [(''POST'', ''/:id/favorite''), (''PUT'', ''/:id/files/*''), (''DELETE'', ''/:id/files/*''),
     (''POST'', ''/:id/revert/:versionId''), (''PUT'', ''/:id/version/:versionId/notes''), (''POST'', ''/:id/upload/*''),
     (''POST'', ''/:id/zip-upload''), (''POST'', ''/:id/zip-upload/:uploadId/apply''), (''DELETE'', ''/:id/zip-upload/:uploadId''),
     (''POST'', ''/:id/import-files'')]"

datatype service_policy = List_policy | Export_policy | View_policy | Write_policy | Admin_policy | Admin_sudo_policy

definition serviceRoutePolicy :: "string \<Rightarrow> string \<Rightarrow> service_policy" where
  "serviceRoutePolicy m path =
     (if m = ''GET'' \<and> path = ''/'' then List_policy else if m = ''POST'' \<and> path = ''/export'' then Export_policy
      else if m = ''GET'' \<and> path \<in> set SERVICE_READS then View_policy
      else if (m, path) \<in> set SERVICE_WRITES then Write_policy
      else if m = ''GET'' then Admin_policy else Admin_sudo_policy)"

text \<open>\<open>ids\<close> is \<open>serviceIds\<close> of the body: absent, something else than a list of texts, or the list.\<close>

datatype export_ids = All_ids | Bad_ids | Some_ids "string list"

definition serviceAccess :: "'h auth_env \<Rightarrow> string \<Rightarrow> string \<Rightarrow> identity \<Rightarrow> string \<Rightarrow> export_ids \<Rightarrow> ('h, unit) auth_eff" where
  "serviceAccess E m path u i ids w =
     (let me = cl_id (iy_claims u); policy = serviceRoutePolicy m path; role = (case find_account me w of Some a \<Rightarrow> ac_role a | None \<Rightarrow> [])
      in if role \<notin> {''admin'', ''user''} \<or> iy_link u then (Inl Service_denied, w)
         else if role = ''admin'' then if policy = Admin_sudo_policy then requireSudo E (iy_session u) w else (Inr (), w)
         else (case policy of
             List_policy \<Rightarrow> (Inr (), w)
           | Export_policy \<Rightarrow> (case ids of
               All_ids \<Rightarrow> (Inr (), w)
             | Bad_ids \<Rightarrow> (Inl Service_denied, w)
             | Some_ids xs \<Rightarrow> if list_all (\<lambda>x. canViewService me x w) xs then (Inr (), w) else (Inl Service_denied, w))
           | View_policy \<Rightarrow> if canViewService me i w then (Inr (), w) else (Inl Service_denied, w)
           | Write_policy \<Rightarrow>
               if canWriteService me i w \<and> (case find (\<lambda>s. sv_id s = i) (aw_services w) of
                   Some s \<Rightarrow> \<not> sv_admin s \<and> (path = ''/:id/favorite'' \<or> sv_type s = ''static'' \<or> sv_kind s = ''static_site'')
                 | None \<Rightarrow> False)
               then (Inr (), w) else (Inl Service_denied, w)
           | _ \<Rightarrow> (Inl Service_denied, w)))"

section \<open>Guests and terminals\<close>

definition guest_name :: "string \<Rightarrow> bool" where
  "guest_name s \<longleftrightarrow> s \<noteq> [] \<and> length s \<le> 64 \<and> list_all (\<lambda>c. is_alnum c \<or> c = CHR ''_'' \<or> c = CHR ''-'') s"

definition canManageGuest :: "identity \<Rightarrow> string \<Rightarrow> 'h auth_world \<Rightarrow> bool" where
  "canManageGuest u name w \<longleftrightarrow>
     (let me = cl_id (iy_claims u)
      in \<not> iy_link u \<and> \<not> iy_enroll u \<and> guest_name name \<and>
         (is_role ''admin'' w me \<or>
          is_role ''user'' w me \<and> has_permission w me ''proxy'' \<and>
          list_ex (\<lambda>s. \<not> sv_admin s \<and> sv_guest s = Some name \<and>
            list_ex (\<lambda>g. ga_user g = me \<and> ga_service g = sv_id s \<and> ga_write g) (aw_grants w)) (aw_services w)))"

definition requireGuestAccess :: "identity \<Rightarrow> string \<Rightarrow> ('h, unit) auth_eff" where
  "requireGuestAccess u name w = guardE (canManageGuest u name w) Guest_denied w"

datatype terminal_target = Host_terminal | Guest_terminal string | Project_terminal string "string option"

text \<open>
  The terminal a socket asked for; \<open>project\<close> is the answer of the application builder, the container of the project if the user may
  open it. The result is the target with the container the decision found.
\<close>

definition terminalDecision :: "'h auth_env \<Rightarrow> identity \<Rightarrow> live_session \<Rightarrow> terminal_target \<Rightarrow> string \<Rightarrow> bool \<Rightarrow> (string \<Rightarrow> string option) \<Rightarrow> 'h auth_world \<Rightarrow>
    terminal_target option" where
  "terminalDecision E u s target origin opening project w =
     (let me = cl_id (iy_claims u); role = (case find_account me w of Some a \<Rightarrow> ac_role a | None \<Rightarrow> [])
      in if role \<notin> {''admin'', ''user''} \<or> se_user (lv_session s) \<noteq> me \<or> lv_link s \<or> lv_enroll s \<or> iy_link u \<or> iy_enroll u then None
         else (case target of
             Host_terminal \<Rightarrow>
               if role \<noteq> ''admin'' \<or> \<not> (case se_sudo (lv_session s) of Some t \<Rightarrow> t > ae_now E | None \<Rightarrow> False) then None
               else if opening \<and> (case fst (requireLocalProof E (case cl_jti (iy_claims u) of Some i \<Rightarrow> i | None \<Rightarrow> []) origin w) of Inl _ \<Rightarrow> True | Inr _ \<Rightarrow> False)
               then None else Some Host_terminal
           | Guest_terminal name \<Rightarrow> if canManageGuest u name w then Some (Guest_terminal name) else None
           | Project_terminal p wanted \<Rightarrow> (case project p of
               None \<Rightarrow> None
             | Some container \<Rightarrow>
                 if (case wanted of Some (c # t) \<Rightarrow> c # t \<noteq> container | _ \<Rightarrow> False) then None else Some (Project_terminal p (Some container)))))"

text \<open>
  The upgrade to a socket. \<open>parsed\<close> is the origin, host and protocol \<open>new URL\<close> finds in the Origin header, \<open>allowed\<close> the
  origins of the configuration and the environment, \<open>tokens\<close> the cookie.
\<close>

definition bearer :: "string \<Rightarrow> bool" where
  "bearer h \<longleftrightarrow> to_lower (take 7 h) = ''bearer '' \<and> drop 7 h \<noteq> [] \<and> list_all (\<lambda>c. \<not> is_ws c) (drop 7 h)"

definition allowed_origins :: "string option \<Rightarrow> string list \<Rightarrow> 'h auth_world \<Rightarrow> string set" where
  "allowed_origins admin_domain extra w =
     (case admin_domain of Some (c # t) \<Rightarrow> {''https://'' @ c # t} | _ \<Rightarrow> {}) \<union>
     (case aw_config w of Some c \<Rightarrow> {sc_public c, sc_recovery c} | None \<Rightarrow> {}) \<union> set extra"

definition socket_origin :: "request \<Rightarrow> string option \<Rightarrow> (string \<Rightarrow> (string \<times> string \<times> string) option) \<Rightarrow> string set \<Rightarrow> auth_error option" where
  "socket_origin r origin parsed allowed =
     (case origin of
        Some (c # t) \<Rightarrow> (case parsed (c # t) of
            None \<Rightarrow> Some Origin_denied
          | Some (own, host, proto) \<Rightarrow>
              if c # t \<notin> allowed \<or> own \<noteq> c # t \<or> host \<noteq> rq_host r \<or> proto \<notin> {''https:'', ''http:''} then Some Origin_denied else None)
      | _ \<Rightarrow> if (case rq_cookie r of Some (_ # _) \<Rightarrow> True | _ \<Rightarrow> False) \<or> \<not> bearer (case rq_authorization r of Some h \<Rightarrow> h | None \<Rightarrow> [])
             then Some Origin_required else None)"

definition verifyWsUpgrade :: "'h auth_env \<Rightarrow> request \<Rightarrow> string option \<Rightarrow> (string \<Rightarrow> (string \<times> string \<times> string) option) \<Rightarrow> string option \<Rightarrow> string list \<Rightarrow>
    ('h, identity \<times> live_session) auth_eff" where
  "verifyWsUpgrade E r origin parsed admin_domain extra =
     bindE (\<lambda>w. case socket_origin r origin parsed (allowed_origins admin_domain extra w) of Some e \<Rightarrow> (Inl e, w) | None \<Rightarrow> (Inr (), w)) (\<lambda>_.
     case presented r of
       None \<Rightarrow> throw No_token
     | Some token \<Rightarrow>
         (case ae_verify E token of
            Inl Jwt_expired \<Rightarrow> throw Token_expired
          | Inl Jwt_invalid \<Rightarrow> throw Token_invalid
          | Inr d \<Rightarrow>
              bindE (validateSession E (cl_jti d) (Some (requestOrigin r))) (\<lambda>lv.
              bindE (guardE (cl_id d = se_user (lv_session lv)) Identity_mismatch) (\<lambda>_.
              bindE (guardE (lv_role lv \<in> {''admin'', ''user''} \<and> \<not> cl_enroll d \<and> \<not> lv_enroll lv) Terminal_denied) (\<lambda>_.
              bindE (guardE (\<not> lv_link lv) Link_only) (\<lambda>_.
              ret (\<lparr>iy_claims = d, iy_role = lv_role lv, iy_link = False, iy_enroll = False, iy_session = lv_session lv\<rparr>, lv)))))))"

end
