(* ===== verification/Auth_Machine.thy ===== *)
theory Auth_Machine
  imports Auth_Access
begin

text \<open>
  All operations on the tables of the sign-on, as one function of an operation and its environment; a run is a list of them. What a
  request read before it waited is an argument of its last part, so a run may finish requests in any order. The tables that
  administrators edit through other routes may change to anything; the sessions of an account that goes go with it.
\<close>

datatype 'h auth_op =
    Http request
  | Sudo_http request
  | Socket "string option" "string option"
  | Logout request
  | Revoke_one request string
  | Revoke_others request
  | Revoke_user string
  | Drop_sessions string
  | Login_end account bool "string option" string string request
  | Sudo_end identity account bool string
  | Passkey_end_op account bool string request
  | Passkey_sudo identity account bool
  | Totp_setup_op request string string string
  | Link_end account string
  | Setup_end string string string string string
  | Sso_login sso_config bool int string string account string
  | Sso_sudo string
  | Central_late int sso_context bool
  | Activate string
  | Disable
  | Save string "int \<Rightarrow> save_input \<Rightarrow> string" save_input
  | Sweep
  | Tables "account list" "(string \<times> string) list" "access_grant list" "service_row list" "login_link list"
  | Elsewhere 'h

definition with_identity :: "'h auth_env \<Rightarrow> request \<Rightarrow> (identity \<Rightarrow> ('h, 'a) auth_eff) \<Rightarrow> ('h, 'a) auth_eff" where
  "with_identity E r f = bindE (authenticateToken E r) f"

text \<open>What disabling or deleting an account does to its sessions, in the dashboard and in the tools.\<close>

definition revokeUserAccess :: "'h auth_env \<Rightarrow> string \<Rightarrow> ('h, unit) auth_eff" where
  "revokeUserAccess E i = set_session (\<lambda>s. se_user s = i \<and> se_revoked s = None) (\<lambda>s. s\<lparr>se_revoked := Some (ae_now E)\<rparr>)"

definition set_tables :: "account list \<Rightarrow> (string \<times> string) list \<Rightarrow> access_grant list \<Rightarrow> service_row list \<Rightarrow> login_link list \<Rightarrow> 'h auth_world \<Rightarrow> 'h auth_world" where
  "set_tables as ps gs vs ls w =
     delete_sessions (\<lambda>s. se_user s \<notin> set (map ac_id as))
       (w\<lparr>aw_accounts := as, aw_perms := ps, aw_grants := gs, aw_services := vs, aw_links := ls\<rparr>)"

fun auth_do :: "'h auth_env \<Rightarrow> 'h auth_op \<Rightarrow> 'h auth_world \<Rightarrow> 'h auth_world" where
  "auth_do E (Http r) w = snd (authenticateToken E r w)"
| "auth_do E (Sudo_http r) w = snd (with_identity E r (\<lambda>u. requireSudo E (iy_session u)) w)"
| "auth_do E (Socket jti origin) w = snd (validateSession E jti origin w)"
| "auth_do E (Logout r) w = snd (with_identity E r (logout E) w)"
| "auth_do E (Revoke_one r i) w = snd (with_identity E r (\<lambda>u. revokeSession E u i) w)"
| "auth_do E (Revoke_others r) w = snd (with_identity E r (revokeOthers E) w)"
| "auth_do E (Revoke_user i) w = snd (revokeUserAccess E i w)"
| "auth_do E (Drop_sessions i) w = delete_sessions (\<lambda>s. se_user s = i) w"
| "auth_do E (Login_end a password code i secret r) w = snd (login_end E a password code i secret r w)"
| "auth_do E (Sudo_end u a password code) w = snd (sudo_end E u a password code w)"
| "auth_do E (Passkey_end_op a okay i r) w = snd (passkey_end E a okay i r w)"
| "auth_do E (Passkey_sudo u a okay) w = snd (passkey_sudo_end E u a okay w)"
| "auth_do E (Totp_setup_op r code submitted i) w = snd (totp_setup E r code submitted i w)"
| "auth_do E (Link_end a h) w = snd (link_end E a h w)"
| "auth_do E (Setup_end name token h i secret) w = snd (setup_end E name token h i secret w)"
| "auth_do E (Sso_login c test started issuer subject a i) w = snd (sso_login E c test started issuer subject a i w)"
| "auth_do E (Sso_sudo i) w = snd (sso_sudo E i w)"
| "auth_do E (Central_late started cx enabled) w = snd (central_commit E started cx enabled w)"
| "auth_do E (Activate fp) w = snd (activate_commit E fp w)"
| "auth_do E Disable w = snd (disableSso E w)"
| "auth_do E (Save d f i) w = snd (saveConfig E d f i w)"
| "auth_do E Sweep w = snd (sweepStaleSessions E w)"
| "auth_do E (Tables as ps gs vs ls) w = set_tables as ps gs vs ls w"
| "auth_do E (Elsewhere h) w = w\<lparr>aw_host := h\<rparr>"

definition auth_run :: "('h auth_env \<times> 'h auth_op) list \<Rightarrow> 'h auth_world \<Rightarrow> 'h auth_world" where
  "auth_run = fold (\<lambda>(E, oper). auth_do E oper)"

lemma auth_run_inv:
  assumes "P w" and "\<And>E oper v. (E, oper) \<in> set ops \<Longrightarrow> P v \<Longrightarrow> P (auth_do E oper v)"
  shows "P (auth_run ops w)"
  using assms by (induction ops arbitrary: w) (auto simp: auth_run_def)

text \<open>The id an operation draws for a new session.\<close>

fun minted_id :: "'h auth_op \<Rightarrow> string option" where
  "minted_id (Login_end a password code i secret r) = Some i"
| "minted_id (Passkey_end_op a okay i r) = Some i"
| "minted_id (Totp_setup_op r code submitted i) = Some i"
| "minted_id (Setup_end name token h i secret) = Some i"
| "minted_id (Sso_login c test started issuer subject a i) = Some i"
| "minted_id _ = None"

end
