(* ===== verification/Auth_Law.thy ===== *)
theory Auth_Law
  imports Auth_Machine
begin

text \<open>
  What every operation of the sign-on keeps. The locale carries a law of every session and a law of every context through all
  operations; what a law must allow is what the operations write.
\<close>

section \<open>Laws of rows\<close>

lemma preserves_bind_post:
  assumes "preserves P m" and "\<And>w a v. P w \<Longrightarrow> m w = (Inr a, v) \<Longrightarrow> Q a" and "\<And>a. Q a \<Longrightarrow> preserves P (f a)"
  shows "preserves P (bindE m f)"
proof (rule preservesI)
  fix w assume w: "P w"
  show "P (snd (bindE m f w))"
  proof (cases rule: bindE_cases [of m w f])
    case (err e v)
    with preservesD [OF assms(1) w] show ?thesis by simp
  next
    case (ok a v)
    with preservesD [OF assms(1) w ok(1)] assms(2) [OF w ok(1)] assms(3) [of a] show ?thesis by (simp add: preserves_def)
  qed
qed

lemma preserves_at: "preserves P m \<Longrightarrow> P w \<Longrightarrow> P (snd (m w))"
  by (simp add: preserves_def)

definition rows_ok :: "(session \<Rightarrow> bool) \<Rightarrow> (sso_context \<Rightarrow> bool) \<Rightarrow> 'h auth_world \<Rightarrow> bool" where
  "rows_ok S C w \<longleftrightarrow> (\<forall>s\<in>set (aw_sessions w). S s) \<and> (\<forall>c\<in>set (aw_contexts w). C c)"

lemma rows_ok_session: "rows_ok S C w \<Longrightarrow> find_session i w = Some s \<Longrightarrow> S s \<and> se_id s = i"
  by (auto simp: rows_ok_def find_session_def find_Some_iff)

lemma rows_ok_context: "rows_ok S C w \<Longrightarrow> sessionContext E i w = Some c \<Longrightarrow> C c \<and> cx_session c = i"
  by (auto simp: rows_ok_def sessionContext_def find_Some_iff split: if_splits)

lemma set_session_rows: "(\<And>s. S s \<Longrightarrow> P s \<Longrightarrow> S (f s)) \<Longrightarrow> preserves (rows_ok S C) (set_session P f)"
  by (auto simp: preserves_def set_session_def rows_ok_def)

lemma set_context_rows: "(\<And>c. C c \<Longrightarrow> P c \<Longrightarrow> C (f c)) \<Longrightarrow> preserves (rows_ok S C) (set_context P f)"
  by (auto simp: preserves_def set_context_def rows_ok_def)

lemma modE_rows [preserves_intros]:
  "(\<And>w. aw_sessions (f w) = aw_sessions w \<and> aw_contexts (f w) = aw_contexts w) \<Longrightarrow> preserves (rows_ok S C) (modE f)"
  by (simp add: preserves_def rows_ok_def)

lemma guard_state [preserves_intros]: "preserves P (\<lambda>w. guardE (f w) e w)"
  by (simp add: preserves_def guardE_def)

lemma bindE_InrE: "bindE m f w = (Inr b, v) \<Longrightarrow> (\<And>a x. m w = (Inr a, x) \<Longrightarrow> f a x = (Inr b, v) \<Longrightarrow> thesis) \<Longrightarrow> thesis"
  by (auto simp: bindE_Inr_iff)

text \<open>An accepted request, taken apart.\<close>

lemma authenticate_Inr:
  assumes "authenticateToken E r w = (Inr u, v)"
  obtains token d w1 lv where "presented r = Some token" "ae_verify E token = Inr d"
    "(case cl_jti d of Some i \<Rightarrow> refreshCentralCheck E i | None \<Rightarrow> ret ()) w = (Inr (), w1)"
    "validateSession E (cl_jti d) (Some (requestOrigin r)) w1 = (Inr lv, v)" "cl_id d = se_user (lv_session lv)"
    "lv_enroll lv \<or> cl_enroll d \<longrightarrow> enroll_request r" "rq_recovery r \<longrightarrow> lv_role lv = ''admin''"
    "(case (case cl_jti d of Some i \<Rightarrow> sessionContext E i v | None \<Rightarrow> None) of Some c \<Rightarrow> cx_method c = ''link-only'' | None \<Rightarrow> False) \<longrightarrow>
       link_request r \<and> (url_path r = ''/api/auth/sso/begin'' \<longrightarrow> rq_action r = Some ''link'')"
    "u = \<lparr>iy_claims = d, iy_role = lv_role lv,
       iy_link = (case (case cl_jti d of Some i \<Rightarrow> sessionContext E i v | None \<Rightarrow> None) of Some c \<Rightarrow> cx_method c = ''link-only'' | None \<Rightarrow> False),
       iy_enroll = (lv_enroll lv \<or> cl_enroll d), iy_session = lv_session lv\<rparr>"
proof -
  obtain token where t: "presented r = Some token" using assms by (cases "presented r") (auto simp: authenticateToken_def)
  obtain d where d: "ae_verify E token = Inr d"
    using assms t by (cases "ae_verify E token") (auto simp: authenticateToken_def split: jwt_failure.splits)
  from assms have "bindE (case cl_jti d of Some i \<Rightarrow> refreshCentralCheck E i | None \<Rightarrow> ret ()) (\<lambda>_.
      bindE (validateSession E (cl_jti d) (Some (requestOrigin r))) (\<lambda>lv.
      bindE (guardE (cl_id d = se_user (lv_session lv)) Identity_mismatch) (\<lambda>_.
      bindE (guardE (\<not> ((lv_enroll lv \<or> cl_enroll d) \<and> \<not> enroll_request r)) Enroll_first) (\<lambda>_.
      bindE (getsE (\<lambda>w. case cl_jti d of Some i \<Rightarrow> sessionContext E i w | None \<Rightarrow> None)) (\<lambda>cx.
      bindE (guardE (\<not> ((case cx of Some c \<Rightarrow> cx_method c = ''link-only'' | None \<Rightarrow> False) \<and> \<not> link_request r)) Link_only) (\<lambda>_.
      bindE (guardE (\<not> ((case cx of Some c \<Rightarrow> cx_method c = ''link-only'' | None \<Rightarrow> False) \<and> url_path r = ''/api/auth/sso/begin'' \<and>
        rq_action r \<noteq> Some ''link'')) Link_first) (\<lambda>_.
      bindE (guardE (\<not> (rq_recovery r \<and> lv_role lv \<noteq> ''admin'')) Recovery_admin) (\<lambda>_.
      ret \<lparr>iy_claims = d, iy_role = lv_role lv, iy_link = (case cx of Some c \<Rightarrow> cx_method c = ''link-only'' | None \<Rightarrow> False),
        iy_enroll = (lv_enroll lv \<or> cl_enroll d), iy_session = lv_session lv\<rparr>)))))))) w = (Inr u, v)"
    by (simp only: authenticateToken_def t d Let_def option.case sum.case)
  then show ?thesis
  proof (elim bindE_InrE, goal_cases)
    case (1 a1 w1 lv w2 a3 w3 a4 w4 cx w5 a6 w6 a7 w7 a8 w8)
    then have "w3 = w2" "w4 = w2" "w5 = w2" "w6 = w2" "w7 = w2" "w8 = w2" "w2 = v" "cx = (case cl_jti d of Some i \<Rightarrow> sessionContext E i v | None \<Rightarrow> None)"
      by (auto simp: guardE_Inr_iff)
    with 1 show ?case by (intro that [OF t d, of w1 lv]) (auto simp: guardE_Inr_iff)
  qed
qed

locale auth_law =
  fixes S :: "session \<Rightarrow> bool" and C :: "sso_context \<Rightarrow> bool" and ok :: "'h auth_env \<Rightarrow> bool"
    and fresh granted :: "string \<Rightarrow> bool" and late :: "int \<Rightarrow> sso_context \<Rightarrow> bool"
    and signs :: "int \<Rightarrow> string \<Rightarrow> string \<Rightarrow> bool"
  assumes used: "S s \<Longrightarrow> S (s\<lparr>se_used := t\<rparr>)"
    and revoked: "S s \<Longrightarrow> S (s\<lparr>se_revoked := Some t\<rparr>)"
    and cleared: "S s \<Longrightarrow> S (s\<lparr>se_sudo := None\<rparr>)"
    and slide: "ok E \<Longrightarrow> S x \<Longrightarrow> se_sudo x = Some t \<Longrightarrow> t > ae_now E \<Longrightarrow> S s \<Longrightarrow> se_id s = se_id x \<Longrightarrow> S (s\<lparr>se_sudo := u\<rparr>)"
    and grant: "ok E \<Longrightarrow> granted (se_id s) \<Longrightarrow> S s \<Longrightarrow> S (s\<lparr>se_sudo := Some (ae_now E + ae_sudo E)\<rparr>)"
    and new: "fresh (se_id s) \<Longrightarrow> S s"
    and proved: "C c \<Longrightarrow> C (c\<lparr>cx_proof := p\<rparr>)"
    and refreshed: "ok E \<Longrightarrow> C cx \<Longrightarrow> fst (ae_central E f (cx_subject cx) h) = Some True \<Longrightarrow> C c \<Longrightarrow> cx_session c = cx_session cx \<Longrightarrow>
      C (c\<lparr>cx_checked := Some (ae_now E + REVOCATION_MS)\<rparr>)"
    and late: "late t cx \<Longrightarrow> C c \<Longrightarrow> cx_session c = cx_session cx \<Longrightarrow> C (c\<lparr>cx_checked := Some (t + REVOCATION_MS)\<rparr>)"
    and new_context: "fresh (cx_session c) \<Longrightarrow> cx_subject c = None \<Longrightarrow> C c"
    and new_signed: "signs t subject (se_id s) \<Longrightarrow> S s"
    and new_signed_context: "signs t subject (cx_session c) \<Longrightarrow> cx_method c = ''oidc'' \<Longrightarrow> cx_subject c = Some subject \<Longrightarrow>
      cx_checked c = Some (t + REVOCATION_MS) \<Longrightarrow> C c"
begin

lemma revoke_S: "S s \<Longrightarrow> S (revoke E s)" and revoke_all_S: "S s \<Longrightarrow> S (revoke_all E s)"
  by (auto simp: revoke_def revoke_all_def intro: revoked cleared dest: revoked cleared)

lemma commit_rows:
  fixes E :: "'h auth_env"
  assumes "enabled \<Longrightarrow> (\<And>c. C c \<Longrightarrow> cx_session c = cx_session cx \<Longrightarrow> C (c\<lparr>cx_checked := Some (t + REVOCATION_MS)\<rparr>))"
  shows "preserves (rows_ok S C) (central_commit E t cx enabled)"
proof (rule preservesI)
  fix w :: "'h auth_world" assume w: "rows_ok S C w"
  have a: "rows_ok S C (snd (set_session P (revoke_all E) w))" for P
    by (rule preserves_at [OF set_session_rows w]) (rule revoke_all_S)
  have b: "rows_ok S C (snd (set_context (\<lambda>c. cx_session c = cx_session cx) (\<lambda>c. c\<lparr>cx_checked := Some (t + REVOCATION_MS)\<rparr>) w))" if enabled
    by (rule preserves_at [OF set_context_rows w]) (use assms that in simp)
  from w a b show "rows_ok S C (snd (central_commit E t cx enabled w))" by (simp add: central_commit_def Let_def)
qed

lemma refresh_rows:
  assumes "ok E"
  shows "preserves (rows_ok S C) (refreshCentralCheck E i)"
proof (rule preservesI)
  fix w :: "'h auth_world" assume w: "rows_ok S C w"
  show "rows_ok S C (snd (refreshCentralCheck E i w))"
  proof (cases "central_due E i w")
    case None
    with w show ?thesis by (simp add: refreshCentralCheck_def)
  next
    case (Some cx)
    then have "sessionContext E i w = Some cx" by (auto simp: central_due_def split: option.splits if_splits)
    with rows_ok_context [OF w] have cx: "C cx" by blast
    obtain f where f: "assertCurrent E (cx_fingerprint cx) w = Some f \<or> assertCurrent E (cx_fingerprint cx) w = None" by (cases "assertCurrent E (cx_fingerprint cx) w") auto
    obtain answer h where a: "ae_central E (the (assertCurrent E (cx_fingerprint cx) w)) (cx_subject cx) (aw_host w) = (answer, h)" by force
    have p: "preserves (rows_ok S C) (central_commit E (ae_now E) cx b)" if "answer = Some b" for b
    proof (rule commit_rows)
      fix c assume "b" "C c" "cx_session c = cx_session cx"
      with that a show "C (c\<lparr>cx_checked := Some (ae_now E + REVOCATION_MS)\<rparr>)"
        by (intro refreshed [OF assms cx, of "the (assertCurrent E (cx_fingerprint cx) w)" "aw_host w"]) simp_all
    qed
    have "rows_ok S C (w\<lparr>aw_host := h\<rparr>)" using w by (simp add: rows_ok_def)
    with w a p show ?thesis
      by (cases answer) (auto simp: refreshCentralCheck_def Some Let_def preserves_def split: option.splits)
  qed
qed

lemma validate_rows: "preserves (rows_ok S C) (validateSession E jti origin)"
  unfolding validateSession_def by (intro preserves_intros set_session_rows) (auto intro: used revoke_S)

lemma authenticate_rows: "ok E \<Longrightarrow> preserves (rows_ok S C) (authenticateToken E r)"
  unfolding authenticateToken_def Let_def
  by (cases "presented r"; simp only: option.case) (auto intro!: preserves_intros refresh_rows validate_rows split: sum.split jwt_failure.split)

lemma validated_row: "rows_ok S C w \<Longrightarrow> validateSession E jti origin w = (Inr lv, v) \<Longrightarrow> S (lv_session lv) \<and> Some (se_id (lv_session lv)) = jti"
  by (auto simp: validateSession_def eff_inv dest: rows_ok_session split: option.splits if_splits)

lemma authenticated_row:
  assumes "ok E" and "rows_ok S C w" and "authenticateToken E r w = (Inr u, v)"
  shows "S (iy_session u)"
proof -
  from assms(3) show ?thesis
  proof (rule authenticate_Inr)
    fix token d w1 lv
    assume a: "(case cl_jti d of Some i \<Rightarrow> refreshCentralCheck E i | None \<Rightarrow> ret ()) w = (Inr (), w1)"
      and b: "validateSession E (cl_jti d) (Some (requestOrigin r)) w1 = (Inr lv, v)"
      and u: "u = \<lparr>iy_claims = d, iy_role = lv_role lv,
       iy_link = (case (case cl_jti d of Some i \<Rightarrow> sessionContext E i v | None \<Rightarrow> None) of Some c \<Rightarrow> cx_method c = ''link-only'' | None \<Rightarrow> False),
       iy_enroll = (lv_enroll lv \<or> cl_enroll d), iy_session = lv_session lv\<rparr>"
    have "preserves (rows_ok S C) (case cl_jti d of Some i \<Rightarrow> refreshCentralCheck E i | None \<Rightarrow> ret ())"
      by (intro preserves_intros refresh_rows [OF assms(1)])
    from preservesD [OF this assms(2) a] b u show ?thesis by (auto dest: validated_row)
  qed
qed

lemma with_identity_rows: "ok E \<Longrightarrow> (\<And>u. S (iy_session u) \<Longrightarrow> preserves (rows_ok S C) (f u)) \<Longrightarrow> preserves (rows_ok S C) (with_identity E r f)"
  unfolding with_identity_def by (rule preserves_bind_post [OF authenticate_rows authenticated_row])

lemma sudo_rows: "ok E \<Longrightarrow> S s \<Longrightarrow> preserves (rows_ok S C) (requireSudo E s)"
  unfolding requireSudo_def
  by (intro preserves_intros set_session_rows) (auto intro: slide split: option.splits)

lemma logout_rows: "preserves (rows_ok S C) (logout E u)"
  and revoke_one_rows: "preserves (rows_ok S C) (revokeSession E u i)"
  and revoke_user_rows: "preserves (rows_ok S C) (revokeUserAccess E i)"
  unfolding logout_def revokeSession_def revokeUserAccess_def
  by (intro preserves_intros set_session_rows; auto intro: revoke_S revoke_all_S revoked)+

lemma revoke_others_rows: "ok E \<Longrightarrow> S (iy_session u) \<Longrightarrow> preserves (rows_ok S C) (revokeOthers E u)"
  unfolding revokeOthers_def by (intro preserves_intros set_session_rows sudo_rows revoke_S)

lemma account_rows [preserves_intros]: "preserves (rows_ok S C) (set_account i f)"
  unfolding set_account_def by (intro preserves_intros) simp

lemma failure_rows [preserves_intros]: "preserves (rows_ok S C) (recordLoginFailure E a)"
  and reset_rows [preserves_intros]: "preserves (rows_ok S C) (resetLoginFailures i)"
  unfolding recordLoginFailure_def resetLoginFailures_def by (intro preserves_intros)+

lemma mint_rows: "(\<And>s. se_id s = i \<Longrightarrow> S s) \<Longrightarrow> preserves (rows_ok S C) (generateToken E i a enroll)"
  unfolding generateToken_def Let_def
  by (intro preserves_intros set_session_rows) (auto simp: rows_ok_def preserves_def)

lemma generate_rows: "fresh i \<Longrightarrow> preserves (rows_ok S C) (generateToken E i a enroll)"
  and signed_rows: "signs t subject i \<Longrightarrow> preserves (rows_ok S C) (generateToken E i a enroll)"
  by (rule mint_rows; auto intro: new new_signed)+

lemma record_rows: "fresh i \<Longrightarrow> preserves (rows_ok S C) (recordLocalSession E i r a)"
  unfolding recordLocalSession_def
  by (intro preserves_intros set_session_rows) (auto simp: rows_ok_def intro: new_context revoke_S)

lemma enroll_rows [preserves_intros]: "preserves (rows_ok S C) (beginTotpEnrollment E a i purpose secret)"
  unfolding beginTotpEnrollment_def by (intro preserves_intros) simp

lemma complete_rows:
  fixes E :: "'h auth_env"
  shows "preserves (rows_ok S C) (completeTotpEnrollment E user i purpose code submitted)"
proof (rule preservesI)
  fix w :: "'h auth_world" assume w: "rows_ok S C w"
  have "preserves (rows_ok S C) (bindE (set_account user f) (\<lambda>_. bindE (modE (\<lambda>w. w\<lparr>aw_enrollments := g w\<rparr>)) (\<lambda>_. set_session P (revoke_all E))))" for f g P
    by (intro preserves_intros set_session_rows) (simp_all add: revoke_all_S)
  from preserves_at [OF this w] w show "rows_ok S C (snd (completeTotpEnrollment E user i purpose code submitted w))"
    by (auto simp: completeTotpEnrollment_def Let_def rows_ok_def split: option.split)
qed

lemma login_rows: "fresh i \<Longrightarrow> preserves (rows_ok S C) (login_end E a password code i secret r)"
  unfolding login_end_def by (intro preserves_intros generate_rows record_rows)

lemma totp_rows: "ok E \<Longrightarrow> fresh i \<Longrightarrow> preserves (rows_ok S C) (totp_setup E r code submitted i)"
  unfolding totp_setup_def by (intro preserves_intros authenticate_rows generate_rows record_rows complete_rows)

lemma link_rows: "preserves (rows_ok S C) (link_end E a h)"
  unfolding link_end_def by (intro preserves_intros) simp

lemma claim_rows:
  fixes E :: "'h auth_env"
  shows "preserves (rows_ok S C) (claimBootstrap E name token h)"
proof (rule preservesI)
  fix w :: "'h auth_world" assume w: "rows_ok S C w"
  have "preserves (rows_ok S C) (bindE (modE (\<lambda>w. w\<lparr>aw_bootstraps := g w\<rparr>)) (\<lambda>_. bindE (set_account i f) (\<lambda>_.
      bindE (set_session P (revoke_all E)) (\<lambda>_. ret b))))" for f g i P and b :: account
    by (intro preserves_intros set_session_rows) (simp_all add: revoke_all_S)
  from preserves_at [OF this w] w show "rows_ok S C (snd (claimBootstrap E name token h w))"
    by (auto simp: claimBootstrap_def split: option.split)
qed

lemma setup_rows:
  fixes E :: "'h auth_env"
  shows "fresh i \<Longrightarrow> preserves (rows_ok S C) (setup_end E name token h i secret)"
  unfolding setup_end_def by (intro preserves_bindE claim_rows generate_rows enroll_rows preserves_ret)

lemma sso_login_rows: "signs started subject i \<Longrightarrow> preserves (rows_ok S C) (sso_login E c test started issuer subject a i)"
  unfolding sso_login_def by (intro preserves_intros signed_rows) (auto simp: rows_ok_def intro: new_signed_context)

lemma grant_rows: "ok E \<Longrightarrow> granted i \<Longrightarrow> preserves (rows_ok S C) (grant_sudo E i)"
  unfolding grant_sudo_def by (intro set_session_rows) (auto intro: grant)

lemma stamp_rows [preserves_intros]: "preserves (rows_ok S C) (stampLocalProof E i)"
  unfolding stampLocalProof_def by (intro preserves_intros set_context_rows proved)

lemma step_up_rows: "ok E \<Longrightarrow> (\<And>i. cl_jti (iy_claims u) = Some i \<Longrightarrow> granted i) \<Longrightarrow> preserves (rows_ok S C) (step_up E u a)"
  unfolding step_up_def by (intro preserves_intros grant_rows) auto

lemma passkey_rows: "fresh i \<Longrightarrow> preserves (rows_ok S C) (passkey_end E a okay i r)"
  unfolding passkey_end_def by (intro preserves_intros generate_rows record_rows)

lemma passkey_sudo_rows: "ok E \<Longrightarrow> (\<And>i. cl_jti (iy_claims u) = Some i \<Longrightarrow> granted i) \<Longrightarrow> preserves (rows_ok S C) (passkey_sudo_end E u a okay)"
  unfolding passkey_sudo_end_def by (intro preserves_intros step_up_rows) auto

lemma sudo_end_rows: "ok E \<Longrightarrow> (\<And>i. cl_jti (iy_claims u) = Some i \<Longrightarrow> granted i) \<Longrightarrow> preserves (rows_ok S C) (sudo_end E u a password code)"
  unfolding sudo_end_def by (intro preserves_intros step_up_rows) auto

lemma config_rows: "rows_ok S C (w\<lparr>aw_config := c\<rparr>) = rows_ok S C w"
  by (simp add: rows_ok_def)

lemma revoking_rows: "rows_ok S C w \<Longrightarrow> rows_ok S C (snd (set_session P (revoke_all E) w))"
  by (rule preserves_at [OF set_session_rows]) (rule revoke_all_S)

lemma activate_rows: "preserves (rows_ok S C) (activate_commit E fp)"
  and disable_rows: "preserves (rows_ok S C) (disableSso E)"
  by (auto simp: preserves_def activate_commit_def disableSso_def Let_def config_rows intro!: revoking_rows split: option.split)

lemma save_rows: "preserves (rows_ok S C) (saveConfig E d f i)"
  unfolding saveConfig_def
  by (intro preserves_intros) (auto simp: config_rows preserves_def intro: revoking_rows)

lemma delete_rows: "rows_ok S C w \<Longrightarrow> rows_ok S C (delete_sessions P w)"
  by (auto simp: delete_sessions_def Let_def rows_ok_def)

lemma sweep_rows: "preserves (rows_ok S C) (sweepStaleSessions E)"
  by (auto simp: preserves_def sweepStaleSessions_def Let_def intro: delete_rows)

fun allowed :: "'h auth_op \<Rightarrow> bool" where
  "allowed (Sudo_end u a password code) = (\<forall>i. cl_jti (iy_claims u) = Some i \<longrightarrow> granted i)"
| "allowed (Passkey_sudo u a okay) = (\<forall>i. cl_jti (iy_claims u) = Some i \<longrightarrow> granted i)"
| "allowed (Sso_sudo i) = granted i"
| "allowed (Central_late t cx enabled) = (enabled \<longrightarrow> late t cx)"
| "allowed (Sso_login c test started issuer subject a i) = signs started subject i"
| "allowed oper = (\<forall>i. minted_id oper = Some i \<longrightarrow> fresh i)"

lemma tables_rows: "rows_ok S C w \<Longrightarrow> rows_ok S C (set_tables as ps gs vs ls w)"
  and host_rows: "rows_ok S C w \<Longrightarrow> rows_ok S C (w\<lparr>aw_host := h\<rparr>)"
  by (auto simp: rows_ok_def set_tables_def delete_sessions_def Let_def)

lemmas operation_rows = authenticate_rows with_identity_rows validate_rows sudo_rows logout_rows revoke_one_rows revoke_others_rows
  revoke_user_rows login_rows passkey_rows passkey_sudo_rows sudo_end_rows totp_rows link_rows setup_rows sso_login_rows grant_rows commit_rows activate_rows
  disable_rows save_rows sweep_rows

lemma do_rows:
  assumes "ok E" and "allowed oper" and "rows_ok S C w"
  shows "rows_ok S C (auth_do E oper w)"
  using assms(2)
  by (cases oper; simp add: sso_sudo_def)
     (rule tables_rows [OF assms(3)] delete_rows [OF assms(3)] host_rows [OF assms(3)] preserves_at [where P = "rows_ok S C", OF _ assms(3)];
       auto intro: operation_rows late assms(1))+

lemma run_rows:
  "(\<And>E oper. (E, oper) \<in> set ops \<Longrightarrow> ok E \<and> allowed oper) \<Longrightarrow> rows_ok S C w \<Longrightarrow> rows_ok S C (auth_run ops w)"
  by (rule auth_run_inv) (auto intro: do_rows)

end

end
