(* ===== verification/Auth_Cover.thy ===== *)
theory Auth_Cover
  imports Auth_Law
begin

text \<open>
  Which sessions have a context: a locale that carries a statement of this form through all operations of the sign-on. The statement
  may depend on the configuration, so it can say what the sessions are while Keycloak is active.
\<close>

section \<open>Covered sessions\<close>

text \<open>
  Every session that must have a context of a kind has one, whatever the kind is; a session without an id of its own or a context
  without a session does not occur.
\<close>

definition covered :: "(sso_config option \<Rightarrow> session \<Rightarrow> bool) \<Rightarrow> (sso_config option \<Rightarrow> sso_context \<Rightarrow> bool) \<Rightarrow> (sso_config option \<Rightarrow> bool) \<Rightarrow> 'h auth_world \<Rightarrow> bool" where
  "covered D K fits w \<longleftrightarrow> distinct (map se_id (aw_sessions w)) \<and> distinct (map cx_session (aw_contexts w)) \<and>
     cx_session ` set (aw_contexts w) \<subseteq> se_id ` set (aw_sessions w) \<and> fits (aw_config w) \<and>
     (\<forall>s\<in>set (aw_sessions w). D (aw_config w) s \<longrightarrow> (\<exists>c\<in>set (aw_contexts w). cx_session c = se_id s \<and> K (aw_config w) c))"

lemma covered_same:
  "aw_sessions v = aw_sessions w \<Longrightarrow> aw_contexts v = aw_contexts w \<Longrightarrow> aw_config v = aw_config w \<Longrightarrow> covered D K fits w \<Longrightarrow> covered D K fits v"
  by (simp add: covered_def)

lemma modE_covered [preserves_intros]:
  "(\<And>w. aw_sessions (f w) = aw_sessions w \<and> aw_contexts (f w) = aw_contexts w \<and> aw_config (f w) = aw_config w) \<Longrightarrow>
    preserves (covered D K fits) (modE f)"
  by (simp add: preserves_def covered_def)

lemma covered_sessions:
  assumes "covered D K fits w" and "\<And>s. se_id (f s) = se_id s" and "\<And>s. s \<in> set (aw_sessions w) \<Longrightarrow> D (aw_config w) (f s) \<Longrightarrow> D (aw_config w) s"
  shows "covered D K fits (w\<lparr>aw_sessions := map f (aw_sessions w)\<rparr>)"
proof -
  have ids: "map se_id (map f (aw_sessions w)) = map se_id (aw_sessions w)" using assms(2) by simp
  then have "se_id ` set (map f (aw_sessions w)) = se_id ` set (aw_sessions w)" by (metis set_map)
  moreover have "\<exists>c\<in>set (aw_contexts w). cx_session c = se_id (f s) \<and> K (aw_config w) c" if "s \<in> set (aw_sessions w)" "D (aw_config w) (f s)" for s
    using assms(1) assms(3) [OF that] that(1) assms(2) by (simp add: covered_def)
  ultimately show ?thesis using assms(1) ids by (auto simp: covered_def simp del: map_map)
qed

lemma set_session_covered:
  assumes "\<And>s. se_id (f s) = se_id s" and "\<And>cf s. D cf (f s) \<Longrightarrow> D cf s"
  shows "preserves (covered D K fits) (set_session P f)"
proof (rule preservesI)
  fix w :: "'a auth_world" assume "covered D K fits w"
  then have "covered D K fits (w\<lparr>aw_sessions := map (\<lambda>s. if P s then f s else s) (aw_sessions w)\<rparr>)"
    by (rule covered_sessions) (use assms in \<open>auto split: if_splits\<close>)
  then show "covered D K fits (snd (set_session P f w))" by (simp add: set_session_def)
qed

lemma set_context_covered:
  assumes "\<And>c. cx_session (f c) = cx_session c" and "\<And>cf c. K cf c \<Longrightarrow> K cf (f c)"
  shows "preserves (covered D K fits) (set_context P f)"
proof (rule preservesI)
  fix w :: "'a auth_world" assume w: "covered D K fits w"
  let ?f = "\<lambda>c. if P c then f c else c"
  have ids: "map cx_session (map ?f (aw_contexts w)) = map cx_session (aw_contexts w)" using assms(1) by simp
  then have "cx_session ` set (map ?f (aw_contexts w)) = cx_session ` set (aw_contexts w)" by (metis set_map)
  moreover have "\<exists>c\<in>set (map ?f (aw_contexts w)). cx_session c = se_id s \<and> K (aw_config w) c"
    if "s \<in> set (aw_sessions w)" "D (aw_config w) s" for s
  proof -
    from w that obtain c where "c \<in> set (aw_contexts w)" "cx_session c = se_id s" "K (aw_config w) c" by (auto simp: covered_def)
    with assms show ?thesis by (intro bexI [of _ "?f c"]) auto
  qed
  ultimately show "covered D K fits (snd (set_context P f w))" using w ids by (simp add: covered_def set_context_def del: map_map)
qed

lemma covered_removed:
  assumes "covered D K fits w"
  shows "covered D K fits (delete_sessions P w)"
proof -
  have w: "distinct (map se_id (aw_sessions w))" "distinct (map cx_session (aw_contexts w))" "cx_session ` set (aw_contexts w) \<subseteq> se_id ` set (aw_sessions w)"
    using assms by (auto simp: covered_def)
  have k: "se_id s \<notin> set (map se_id (filter P (aw_sessions w)))" if "s \<in> set (aw_sessions w)" "\<not> P s" for s
    using w(1) that by (auto simp: distinct_map inj_on_def)
  have "distinct (map se_id (filter (\<lambda>s. \<not> P s) (aw_sessions w)))" "distinct (map cx_session (filter R (aw_contexts w)))" for R
    using w(1,2) by (auto simp: distinct_map intro: inj_on_subset)
  moreover have "\<forall>c\<in>set (aw_contexts w). cx_session c \<notin> set (map se_id (filter P (aw_sessions w))) \<longrightarrow>
      cx_session c \<in> se_id ` set (filter (\<lambda>s. \<not> P s) (aw_sessions w))" using w(3) by auto
  moreover have "\<forall>s\<in>set (aw_sessions w). \<not> P s \<and> D (aw_config w) s \<longrightarrow>
      (\<exists>c\<in>set (aw_contexts w). cx_session c \<notin> set (map se_id (filter P (aw_sessions w))) \<and> cx_session c = se_id s \<and> K (aw_config w) c)"
    using assms k unfolding covered_def by metis
  ultimately show ?thesis using assms by (auto simp: covered_def delete_sessions_def Let_def)
qed

lemma generate_cases:
  "generateToken E i a enroll w = (Inl Db_constraint, w) \<or>
   (\<exists>token s. generateToken E i a enroll w = (Inr token, w\<lparr>aw_sessions := aw_sessions w @ [s]\<rparr>) \<and> se_id s = i \<and>
     se_level s = (if enroll then ''enrollment'' else ''full'') \<and> find_session i w = None)"
proof (cases "find_session i w = None \<and> find_account (ac_id a) w \<noteq> None")
  case False
  then have "guardE (find_session i w = None \<and> find_account (ac_id a) w \<noteq> None) Db_constraint w = (Inl Db_constraint, w)"
    by (simp only: guardE_def if_False throw_def)
  then show ?thesis by (simp only: generateToken_def Let_def bindE_def prod.case sum.case simp_thms)
next
  case True
  then have "\<forall>s\<in>set (aw_sessions w). se_id s \<noteq> i" by (simp add: find_session_def find_None_iff)
  then have same: "map (\<lambda>s. if se_id s = i then f s else s) (aw_sessions w) = aw_sessions w" for f by (simp add: map_idI)
  let ?s = "\<lparr>se_id = i, se_user = ac_id a, se_expires = Some (ae_now E + (if enroll then 300000 else ae_ttl E)), se_used = sql_now E,
    se_revoked = None, se_sudo = None, se_level = (if enroll then ''enrollment'' else ''full'')\<rparr>"
  have "\<exists>token. generateToken E i a enroll w = (Inr token, w\<lparr>aw_sessions := aw_sessions w @ [?s]\<rparr>)"
    using True same by (cases enroll) (simp_all add: generateToken_def bindE_def guardE_def Let_def set_session_def)
  with True show ?thesis by force
qed

lemma covered_new_session:
  assumes "covered D K fits w" and "find_session (se_id s) w = None" and "\<not> D (aw_config w) s"
  shows "covered D K fits (w\<lparr>aw_sessions := aw_sessions w @ [s]\<rparr>)"
  using assms by (auto simp: covered_def find_session_def find_None_iff)

lemma covered_new_pair:
  assumes "covered D K fits w" and "find_session (se_id s) w = None" and "cx_session c = se_id s" and "D (aw_config w) s \<Longrightarrow> K (aw_config w) c"
  shows "covered D K fits (w\<lparr>aw_sessions := aw_sessions w @ [s], aw_contexts := aw_contexts w @ [c]\<rparr>)"
proof -
  have "se_id s \<notin> se_id ` set (aw_sessions w)" using assms(2) by (auto simp: find_session_def find_None_iff)
  moreover from this have "cx_session c \<notin> cx_session ` set (aw_contexts w)" using assms(1,3) by (auto simp: covered_def)
  ultimately show ?thesis using assms(1,3,4) by (auto simp: covered_def)
qed

lemma covered_free:
  assumes "covered D K fits w" and "find_session i w = None"
  shows "list_all (\<lambda>c. cx_session c \<noteq> i) (aw_contexts w)"
proof -
  have "i \<notin> se_id ` set (aw_sessions w)" using assms(2) by (auto simp: find_session_def find_None_iff)
  moreover have "cx_session ` set (aw_contexts w) \<subseteq> se_id ` set (aw_sessions w)" using assms(1) by (simp add: covered_def)
  ultimately show ?thesis by (auto simp: list_all_iff)
qed

locale cover_law =
  fixes D :: "sso_config option \<Rightarrow> session \<Rightarrow> bool" and K :: "sso_config option \<Rightarrow> sso_context \<Rightarrow> bool" and fits :: "sso_config option \<Rightarrow> bool"
    and fresh :: "string \<Rightarrow> bool" and login_ok :: "request \<Rightarrow> bool" and saves :: bool
  assumes D_used: "D cf (s\<lparr>se_used := t\<rparr>) \<Longrightarrow> D cf s"
    and D_revoked: "D cf (s\<lparr>se_revoked := Some t\<rparr>) \<Longrightarrow> D cf s"
    and D_sudo: "D cf (s\<lparr>se_sudo := u\<rparr>) \<Longrightarrow> D cf s"
    and K_proof: "K cf c \<Longrightarrow> K cf (c\<lparr>cx_proof := u\<rparr>)"
    and K_checked: "K cf c \<Longrightarrow> K cf (c\<lparr>cx_checked := u\<rparr>)"
    and enrolling: "fresh (se_id s) \<Longrightarrow> se_level s = ''enrollment'' \<Longrightarrow> \<not> D cf s"
    and refused: "fresh (se_id s) \<Longrightarrow> se_revoked s \<noteq> None \<Longrightarrow> \<not> D cf s"
    and signed_in: "fresh (se_id s) \<Longrightarrow> D cf s \<Longrightarrow> fits cf \<Longrightarrow> login_ok r \<Longrightarrow> cx_origin c = requestOrigin r \<Longrightarrow>
      cx_method c = (if (case cf of Some x \<Rightarrow> sc_active x | None \<Rightarrow> False) \<and> \<not> rq_recovery r then ''link-only''
        else if ldap then ''ldap'' else ''local'') \<Longrightarrow> (rq_recovery r \<Longrightarrow> \<not> ldap) \<Longrightarrow> K cf c"
    and central: "D cf s \<Longrightarrow> cx_method c = ''oidc'' \<Longrightarrow> K cf c"
    and fits_active: "fits (Some x) \<Longrightarrow> fits (Some (x\<lparr>sc_active := b\<rparr>))"
    and D_active: "D (Some (x\<lparr>sc_active := b\<rparr>)) s \<Longrightarrow> se_revoked s \<noteq> None \<or> \<not> b \<Longrightarrow> D (Some x) s"
    and K_active: "K (Some x) c \<Longrightarrow> K (Some (x\<lparr>sc_active := b\<rparr>)) c"
    and K_kept: "fits (Some x) \<Longrightarrow> cx_method c = ''oidc'' \<or> cx_method c = ''local'' \<and> cx_origin c = sc_recovery x \<Longrightarrow> K (Some (x\<lparr>sc_active := b\<rparr>)) c"
    and saved: "saves \<Longrightarrow> fits cf \<and> (D cf s \<longrightarrow> D cg s) \<and> (K cf c \<longrightarrow> K cg c)"
begin

abbreviation cov :: "'h auth_world \<Rightarrow> bool" where
  "cov \<equiv> covered D K fits"

lemma revoke_D: "D cf (revoke E s) \<Longrightarrow> D cf s" and revoke_all_D: "D cf (revoke_all E s) \<Longrightarrow> D cf s"
  by (auto simp: revoke_def revoke_all_def dest: D_revoked D_sudo)

lemma revoke_cov: "preserves cov (set_session P (revoke E))"
  by (rule set_session_covered) (simp add: revoke_def, rule revoke_D)

lemma revoke_all_cov: "preserves cov (set_session P (revoke_all E))"
  by (rule set_session_covered) (simp add: revoke_all_def, rule revoke_all_D)

lemma used_cov: "preserves cov (set_session P (\<lambda>s. s\<lparr>se_used := t\<rparr>))"
  by (rule set_session_covered) (simp, rule D_used)

lemma sudo_set_cov: "preserves cov (set_session P (\<lambda>s. s\<lparr>se_sudo := u\<rparr>))"
  by (rule set_session_covered) (simp, rule D_sudo)

lemma marked_cov: "preserves cov (set_session P (\<lambda>s. s\<lparr>se_revoked := Some t\<rparr>))"
  by (rule set_session_covered) (simp, rule D_revoked)

lemma checked_cov: "preserves cov (set_context P (\<lambda>c. c\<lparr>cx_checked := u\<rparr>))"
  by (rule set_context_covered) (simp, rule K_checked)

lemma stamp_cov: "preserves cov (stampLocalProof E i)"
  unfolding stampLocalProof_def by (intro preserves_intros set_context_covered) (simp, rule K_proof)

lemmas row_cov [preserves_intros] = revoke_cov revoke_all_cov used_cov sudo_set_cov marked_cov checked_cov stamp_cov

lemma commit_cov: "preserves cov (central_commit E t cx enabled)"
  by (rule preservesI) (auto simp: central_commit_def Let_def intro: preserves_at [OF revoke_all_cov] preserves_at [OF checked_cov])

lemma refresh_cov [preserves_intros]: "preserves cov (refreshCentralCheck E i)"
proof (rule preservesI)
  fix w :: "'a auth_world" assume w: "cov w"
  then have "cov (w\<lparr>aw_host := h\<rparr>)" for h by (simp add: covered_def)
  with w show "cov (snd (refreshCentralCheck E i w))"
    by (auto simp: refreshCentralCheck_def Let_def intro: preserves_at [OF commit_cov] split: option.split prod.split)
qed

lemma validate_cov [preserves_intros]: "preserves cov (validateSession E jti origin)"
  unfolding validateSession_def by (intro preserves_intros)

lemma authenticate_cov [preserves_intros]: "preserves cov (authenticateToken E r)"
  unfolding authenticateToken_def Let_def
  by (cases "presented r"; simp only: option.case) (auto intro!: preserves_intros split: sum.split jwt_failure.split)

lemma identity_cov: "(\<And>u. preserves cov (f u)) \<Longrightarrow> preserves cov (with_identity E r f)"
  unfolding with_identity_def by (intro preserves_intros)

lemma require_sudo_cov [preserves_intros]: "preserves cov (requireSudo E s)"
  and logout_cov: "preserves cov (logout E u)"
  and revoke_one_cov: "preserves cov (revokeSession E u i)"
  and revoke_user_cov: "preserves cov (revokeUserAccess E i)"
  unfolding requireSudo_def logout_def revokeSession_def revokeUserAccess_def by (intro preserves_intros)+

lemma revoke_others_cov: "preserves cov (revokeOthers E u)"
  unfolding revokeOthers_def by (intro preserves_intros)

lemma account_cov [preserves_intros]: "preserves cov (set_account i f)"
  unfolding set_account_def by (intro preserves_intros) simp

lemma failure_cov [preserves_intros]: "preserves cov (recordLoginFailure E a)"
  and reset_cov [preserves_intros]: "preserves cov (resetLoginFailures i)"
  and grant_cov [preserves_intros]: "preserves cov (grant_sudo E i)"
  unfolding recordLoginFailure_def resetLoginFailures_def grant_sudo_def by (intro preserves_intros)+

lemma enroll_cov [preserves_intros]: "preserves cov (beginTotpEnrollment E a i purpose secret)"
  unfolding beginTotpEnrollment_def by (intro preserves_intros) simp

lemma step_up_cov [preserves_intros]: "preserves cov (step_up E u a)"
  and passkey_sudo_cov: "preserves cov (passkey_sudo_end E u a okay)"
  unfolding step_up_def passkey_sudo_end_def by (intro preserves_intros)+

lemma sudo_end_cov: "preserves cov (sudo_end E u a password code)"
  unfolding sudo_end_def by (intro preserves_intros)

lemma link_cov: "preserves cov (link_end E a h)"
  unfolding link_end_def by (intro preserves_intros) simp

lemma enrolling_cov [preserves_intros]:
  assumes "fresh i"
  shows "preserves cov (generateToken E i a True)"
proof (rule preservesI)
  fix w :: "'a auth_world" assume w: "cov w"
  from generate_cases [of E i a True w] show "cov (snd (generateToken E i a True w))"
  proof (elim disjE exE conjE)
    fix token s assume s: "generateToken E i a True w = (Inr token, w\<lparr>aw_sessions := aw_sessions w @ [s]\<rparr>)" "se_id s = i"
      "se_level s = (if True then ''enrollment'' else ''full'')" "find_session i w = None"
    with assms covered_new_session [OF w, of s] enrolling [of s] show ?thesis by simp
  qed (simp add: w)
qed

text \<open>A session is created and given its context in one go.\<close>

lemma mint_cov:
  assumes "fresh i" and "login_ok r" and "ae_schema E"
  shows "preserves cov (bindE (generateToken E i a False) (\<lambda>token. bindE (recordLocalSession E i r b) (\<lambda>_. ret token)))"
proof (rule preservesI)
  fix w :: "'a auth_world" assume w: "cov w"
  let ?m = "bindE (generateToken E i a False) (\<lambda>token. bindE (recordLocalSession E i r b) (\<lambda>_. ret token))"
  from generate_cases [of E i a False w] show "cov (snd (?m w))"
  proof (elim disjE exE conjE)
    assume "generateToken E i a False w = (Inl Db_constraint, w)"
    then show ?thesis by (simp add: w)
  next
    fix token s assume g: "generateToken E i a False w = (Inr token, w\<lparr>aw_sessions := aw_sessions w @ [s]\<rparr>)" and s: "se_id s = i"
      "find_session i w = None"
    let ?v = "w\<lparr>aw_sessions := aw_sessions w @ [s]\<rparr>"
    have run: "snd (?m w) = snd (recordLocalSession E i r b ?v)" using g by (simp add: bindE_def split: prod.split sum.split)
    show ?thesis
    proof (cases "rq_recovery r \<and> (ac_role b \<noteq> ''admin'' \<or> ac_source b = Some ''ldap'')")
      case True
      have "\<forall>x\<in>set (aw_sessions w). se_id x \<noteq> i" using s(2) by (simp add: find_session_def find_None_iff)
      then have "map (\<lambda>x. if se_id x = i then revoke E x else x) (aw_sessions w) = aw_sessions w" by (simp add: map_idI)
      then have "snd (recordLocalSession E i r b ?v) = w\<lparr>aw_sessions := aw_sessions w @ [revoke E s]\<rparr>"
        using True assms(3) s(1) by (simp add: recordLocalSession_def set_session_def bindE_def)
      with run have "snd (?m w) = w\<lparr>aw_sessions := aw_sessions w @ [revoke E s]\<rparr>" by simp
      moreover have "se_id (revoke E s) = i" "se_revoked (revoke E s) \<noteq> None" using s(1) by (simp_all add: revoke_def)
      ultimately show ?thesis using covered_new_session [OF w, of "revoke E s"] s(2) refused [of "revoke E s"] assms(1) by simp
    next
      case False
      let ?link = "(case aw_config w of Some c \<Rightarrow> sc_active c | None \<Rightarrow> False) \<and> \<not> rq_recovery r"
      let ?c = "\<lparr>cx_session = i, cx_user = ac_id b, cx_origin = requestOrigin r,
        cx_method = (if ?link then ''link-only'' else if ac_source b = Some ''ldap'' then ''ldap'' else ''local''), cx_at = ae_now E,
        cx_proof = None, cx_issuer = None, cx_subject = None, cx_fingerprint = None, cx_checked = None\<rparr>"
      have "snd (recordLocalSession E i r b ?v) = w\<lparr>aw_sessions := aw_sessions w @ [s], aw_contexts := aw_contexts w @ [?c]\<rparr>"
        using False assms(3) covered_free [OF w s(2)] by (auto simp: recordLocalSession_def bindE_def)
      with run have "snd (?m w) = w\<lparr>aw_sessions := aw_sessions w @ [s], aw_contexts := aw_contexts w @ [?c]\<rparr>" by simp
      moreover have "K (aw_config w) ?c" if "D (aw_config w) s"
        using False assms(1,2) s(1) w that by (intro signed_in [of s "aw_config w" r ?c "ac_source b = Some ''ldap''"]) (auto simp: covered_def)
      ultimately show ?thesis using covered_new_pair [OF w, of s ?c] s by simp
    qed
  qed
qed

lemma sso_login_cov: "preserves cov (sso_login E f test started issuer subject a i)"
proof (rule preservesI)
  fix w :: "'a auth_world" assume w: "cov w"
  show "cov (snd (sso_login E f test started issuer subject a i w))"
  proof (cases "ac_role a \<noteq> ''pending'' \<and> (test \<or> (case aw_config w of Some x \<Rightarrow> sc_active x | None \<Rightarrow> False))")
    case False
    with w show ?thesis by (auto simp: sso_login_def bindE_def guardE_def)
  next
    case True
    from generate_cases [of E i a False w] show ?thesis
    proof (elim disjE exE conjE)
      assume "generateToken E i a False w = (Inl Db_constraint, w)"
      with True w show ?thesis by (simp add: sso_login_def guardE_def)
    next
      fix token s assume g: "generateToken E i a False w = (Inr token, w\<lparr>aw_sessions := aw_sessions w @ [s]\<rparr>)" and s: "se_id s = i"
        "find_session i w = None"
      let ?c = "\<lparr>cx_session = i, cx_user = ac_id a, cx_origin = sc_public f, cx_method = ''oidc'', cx_at = ae_now E, cx_proof = None,
        cx_issuer = Some issuer, cx_subject = Some subject, cx_fingerprint = Some (sc_fingerprint f), cx_checked = Some (started + REVOCATION_MS)\<rparr>"
      have "snd (sso_login E f test started issuer subject a i w) = w\<lparr>aw_sessions := aw_sessions w @ [s], aw_contexts := aw_contexts w @ [?c]\<rparr>"
        using True g covered_free [OF w s(2)] by (simp add: sso_login_def guardE_def bindE_def)
      moreover have "K (aw_config w) ?c" if "D (aw_config w) s"
        using that by (intro central [of _ s]) simp_all
      ultimately show ?thesis using covered_new_pair [OF w, of s ?c] s by simp
    qed
  qed
qed

lemma login_cov: "fresh i \<Longrightarrow> login_ok r \<Longrightarrow> ae_schema E \<Longrightarrow> preserves cov (login_end E a password code i secret r)"
  unfolding login_end_def by (intro mint_cov preserves_intros)

lemma passkey_cov: "fresh i \<Longrightarrow> login_ok r \<Longrightarrow> ae_schema E \<Longrightarrow> preserves cov (passkey_end E a okay i r)"
  unfolding passkey_end_def by (intro mint_cov preserves_intros)

lemma complete_cov [preserves_intros]: "preserves cov (completeTotpEnrollment E user i purpose code submitted)"
proof (rule preservesI)
  fix w :: "'a auth_world" assume w: "cov w"
  have "preserves cov (bindE (set_account user f) (\<lambda>_. bindE (modE (\<lambda>w. w\<lparr>aw_enrollments := g w\<rparr>)) (\<lambda>_. set_session P (revoke_all E))))" for f g P
    by (intro preserves_intros) simp
  from preserves_at [OF this w] w show "cov (snd (completeTotpEnrollment E user i purpose code submitted w))"
    by (auto simp: completeTotpEnrollment_def Let_def covered_def split: option.split)
qed

lemma totp_setup_cov: "fresh i \<Longrightarrow> login_ok r \<Longrightarrow> ae_schema E \<Longrightarrow> preserves cov (totp_setup E r code submitted i)"
  unfolding totp_setup_def by (intro mint_cov preserves_intros)

lemma claim_cov: "preserves cov (claimBootstrap E name token h)"
proof (rule preservesI)
  fix w :: "'a auth_world" assume w: "cov w"
  have "preserves cov (bindE (modE (\<lambda>w. w\<lparr>aw_bootstraps := g w\<rparr>)) (\<lambda>_. bindE (set_account i f) (\<lambda>_.
      bindE (set_session P (revoke_all E)) (\<lambda>_. ret b))))" for f g i P and b :: account
    by (intro preserves_intros) simp
  from preserves_at [OF this w] w show "cov (snd (claimBootstrap E name token h w))"
    by (auto simp: claimBootstrap_def split: option.split)
qed

lemma setup_cov: "fresh i \<Longrightarrow> preserves cov (setup_end E name token h i secret)"
  unfolding setup_end_def by (intro preserves_bindE claim_cov enrolling_cov enroll_cov preserves_ret)

text \<open>The configuration and the sessions change together.\<close>

lemma covered_config:
  assumes "cov w" and "fits cf" and "\<And>s. se_id (f s) = se_id s"
    and "\<And>s. s \<in> set (aw_sessions w) \<Longrightarrow> D cf (f s) \<Longrightarrow> D (aw_config w) s \<or> (\<exists>c\<in>set (aw_contexts w). cx_session c = se_id s \<and> K cf c)"
    and "\<And>c. K (aw_config w) c \<Longrightarrow> K cf c"
  shows "cov (w\<lparr>aw_config := cf, aw_sessions := map f (aw_sessions w)\<rparr>)"
proof -
  have ids: "map se_id (map f (aw_sessions w)) = map se_id (aw_sessions w)" using assms(3) by simp
  then have "se_id ` set (map f (aw_sessions w)) = se_id ` set (aw_sessions w)" by (metis set_map)
  moreover have "\<exists>c\<in>set (aw_contexts w). cx_session c = se_id (f s) \<and> K cf c" if "s \<in> set (aw_sessions w)" "D cf (f s)" for s
    using assms(1) assms(3) [of s] assms(4) [OF that] assms(5) that(1) unfolding covered_def by metis
  ultimately show ?thesis using assms(1,2) ids by (auto simp: covered_def simp del: map_map)
qed

lemma activate_cov: "preserves cov (activate_commit E fp)"
proof (rule preservesI)
  fix w :: "'a auth_world" assume w: "cov w"
  show "cov (snd (activate_commit E fp w))"
  proof (cases "assertCurrent E (Some fp) w")
    case None
    with w show ?thesis by (simp add: activate_commit_def)
  next
    case (Some x)
    then have x: "aw_config w = Some x" by (auto simp: assertCurrent_def split: option.splits if_splits)
    let ?kept = "sso_kind (\<lambda>c. cx_method c = ''oidc'' \<or> cx_method c = ''local'' \<and> cx_origin c = sc_recovery x) w"
    let ?f = "\<lambda>s. if se_revoked s = None \<and> se_id s \<notin> ?kept then revoke_all E s else s"
    have f: "fits (Some x)" using w x by (simp add: covered_def)
    have "cov (w\<lparr>aw_config := Some (x\<lparr>sc_active := True\<rparr>), aw_sessions := map ?f (aw_sessions w)\<rparr>)"
    proof (rule covered_config [OF w])
      show "fits (Some (x\<lparr>sc_active := True\<rparr>))" using f by (rule fits_active)
      show "se_id (?f s) = se_id s" for s by (simp add: revoke_all_def)
      show "K (Some (x\<lparr>sc_active := True\<rparr>)) c" if "K (aw_config w) c" for c using that x by (simp add: K_active)
      fix s assume s: "s \<in> set (aw_sessions w)" and d: "D (Some (x\<lparr>sc_active := True\<rparr>)) (?f s)"
      show "D (aw_config w) s \<or> (\<exists>c\<in>set (aw_contexts w). cx_session c = se_id s \<and> K (Some (x\<lparr>sc_active := True\<rparr>)) c)"
      proof (cases "se_id s \<in> ?kept \<and> se_revoked s = None")
        case True
        then show ?thesis using f by (auto simp: sso_kind_def intro: K_kept)
      next
        case False
        with d have "se_revoked (?f s) \<noteq> None" by (auto simp: revoke_all_def)
        with d have "D (Some x) (?f s)" by (blast intro: D_active)
        with x show ?thesis by (auto split: if_splits dest: revoke_all_D)
      qed
    qed
    then show ?thesis by (simp add: activate_commit_def Some Let_def set_session_def)
  qed
qed

lemma disable_cov: "preserves cov (disableSso E)"
proof (rule preservesI)
  fix w :: "'a auth_world" assume w: "cov w"
  let ?f = "\<lambda>s. if se_id s \<in> sso_kind (\<lambda>x. cx_method x = ''oidc'') w then revoke_all E s else s"
  have fw: "fits (aw_config w)" using w by (simp add: covered_def)
  have "cov (w\<lparr>aw_config := map_option (\<lambda>c. c\<lparr>sc_active := False\<rparr>) (aw_config w), aw_sessions := map ?f (aw_sessions w)\<rparr>)"
  proof (rule covered_config [OF w])
    show "fits (map_option (\<lambda>c. c\<lparr>sc_active := False\<rparr>) (aw_config w))" using fw by (cases "aw_config w") (auto intro: fits_active)
    show "se_id (?f s) = se_id s" for s by (simp add: revoke_all_def)
    show "K (map_option (\<lambda>c. c\<lparr>sc_active := False\<rparr>) (aw_config w)) c" if "K (aw_config w) c" for c
      using that by (cases "aw_config w") (auto intro: K_active)
    show "D (aw_config w) s \<or> (\<exists>c\<in>set (aw_contexts w). cx_session c = se_id s \<and> K (map_option (\<lambda>c. c\<lparr>sc_active := False\<rparr>) (aw_config w)) c)"
      if "D (map_option (\<lambda>c. c\<lparr>sc_active := False\<rparr>) (aw_config w)) (?f s)" for s
      using that by (cases "aw_config w") (auto split: if_splits dest: revoke_all_D D_active)
  qed
  then show "cov (snd (disableSso E w))" by (simp add: disableSso_def set_session_def)
qed

lemma save_cov:
  assumes saves
  shows "preserves cov (saveConfig E d f i)"
proof -
  have set_config: "cov w \<Longrightarrow> cov (w\<lparr>aw_config := g\<rparr>)" for g and w :: "'b auth_world"
    using saved [OF assms] unfolding covered_def by (simp; blast)
  show ?thesis unfolding saveConfig_def
    by (intro preserves_intros) (auto simp: preserves_def intro: set_config preserves_at [OF revoke_all_cov])
qed

lemma sweep_cov: "preserves cov (sweepStaleSessions E)"
  by (auto simp: preserves_def sweepStaleSessions_def Let_def intro: covered_removed)

lemma tables_cov: "cov w \<Longrightarrow> cov (set_tables as ps gs vs ls w)"
  unfolding set_tables_def by (rule covered_removed) (simp add: covered_def)

lemma host_cov: "cov w \<Longrightarrow> cov (w\<lparr>aw_host := h\<rparr>)"
  by (simp add: covered_def)

fun admitted :: "'h auth_op \<Rightarrow> bool" where
  "admitted (Login_end a password code i secret r) = (fresh i \<and> login_ok r)"
| "admitted (Passkey_end_op a okay i r) = (fresh i \<and> login_ok r)"
| "admitted (Totp_setup_op r code submitted i) = (fresh i \<and> login_ok r)"
| "admitted (Save d f i) = saves"
| "admitted (Sso_login c test started issuer subject a i) = True"
| "admitted oper = (\<forall>i. minted_id oper = Some i \<longrightarrow> fresh i)"

lemmas operation_cov = authenticate_cov identity_cov validate_cov require_sudo_cov logout_cov revoke_one_cov revoke_others_cov revoke_user_cov
  login_cov passkey_cov passkey_sudo_cov sudo_end_cov totp_setup_cov link_cov setup_cov sso_login_cov grant_cov commit_cov activate_cov disable_cov save_cov sweep_cov

lemma do_cov:
  assumes "ae_schema E" and "admitted oper" and "cov w"
  shows "cov (auth_do E oper w)"
  using assms(2)
  by (cases oper; simp add: sso_sudo_def)
     (rule tables_cov [OF assms(3)] covered_removed [OF assms(3)] host_cov [OF assms(3)] preserves_at [where P = cov, OF _ assms(3)];
       auto intro: operation_cov assms(1))+

lemma run_cov:
  "(\<And>E oper. (E, oper) \<in> set ops \<Longrightarrow> ae_schema E \<and> admitted oper) \<Longrightarrow> cov w \<Longrightarrow> cov (auth_run ops w)"
  by (rule auth_run_inv) (auto intro: do_cov)

end

end
