(* ===== verification/Auth_Example.thy ===== *)
theory Auth_Example
  imports Auth_Machine
begin

text \<open>A small installation the theorems of the sign-on are tried on: one account, one session at Keycloak, one at the host that recovers.\<close>

definition a_env :: "bool \<Rightarrow> int \<Rightarrow> unit auth_env" where
  "a_env enabled now = \<lparr>ae_now = now, ae_zone = 0, ae_ttl = 86400000, ae_idle = 14400000, ae_keep = 30, ae_sudo = 14400000, ae_fail_max = 3,
     ae_fail_window = 1800000, ae_lockout = 900000, ae_schema = True, ae_sha = (\<lambda>x. x), ae_encrypt = (\<lambda>x. x), ae_decrypt = (\<lambda>x. x),
     ae_totp = (\<lambda>_ _ _. True),
     ae_verify = (\<lambda>t. if t = ''t'' then Inr \<lparr>cl_id = ''u'', cl_name = ''n'', cl_role = ''admin'', cl_jti = Some ''s'', cl_enroll = False\<rparr> else Inl Jwt_invalid),
     ae_sign = (\<lambda>_ _. ''t''), ae_current = (\<lambda>_ _. True), ae_central = (\<lambda>_ _ h. (Some enabled, h))\<rparr>"

definition a_account :: account where
  "a_account = \<lparr>ac_id = ''u'', ac_name = ''n'', ac_role = ''admin'', ac_source = Some ''local'', ac_password = ''h'', ac_enabled = True,
     ac_secret = ''x'', ac_bound = False, ac_fails = 0, ac_failed_at = None, ac_locked = None\<rparr>"

definition a_session :: session where
  "a_session = \<lparr>se_id = ''s'', se_user = ''u'', se_expires = Some 86400000, se_used = 0, se_revoked = None, se_sudo = None, se_level = ''full''\<rparr>"

definition a_context :: "string \<Rightarrow> sso_context" where
  "a_context how = \<lparr>cx_session = ''s'', cx_user = ''u'', cx_origin = ''https://a'', cx_method = how, cx_at = 0, cx_proof = None, cx_issuer = Some ''k'',
     cx_subject = Some ''z'', cx_fingerprint = Some ''f'', cx_checked = Some 60000\<rparr>"

definition a_config :: sso_config where
  "a_config = \<lparr>sc_issuer = ''k'', sc_public = ''https://a'', sc_recovery = ''https://b'', sc_fingerprint = ''f'', sc_revision = 1, sc_active = True\<rparr>"

definition a_world :: "unit auth_world" where
  "a_world = \<lparr>aw_sessions = [a_session], aw_contexts = [a_context ''oidc''], aw_accounts = [a_account], aw_perms = [], aw_grants = [],
     aw_services = [], aw_links = [\<lparr>ll_hash = ''0123456789'', ll_user = ''u'', ll_expires = Some 1000000, ll_completed = None\<rparr>],
     aw_enrollments = [], aw_bootstraps = [], aw_installation = Some ''i'', aw_config = Some a_config, aw_host = ()\<rparr>"

definition a_request :: request where
  "a_request = \<lparr>rq_method = ''GET'', rq_url = ''/'', rq_host = ''a'', rq_cookie = Some ''t'', rq_authorization = None, rq_action = None, rq_recovery = False\<rparr>"

definition a_setup :: "unit auth_world" where
  "a_setup = a_world\<lparr>aw_accounts := [a_account\<lparr>ac_password := [], ac_enabled := False\<rparr>], aw_bootstraps := [\<lparr>bo_user = ''u'', bo_installation = ''i'',
     bo_hash = ''ppboot_'' @ replicate 43 CHR ''a'', bo_expires = 9000, bo_consumed = None\<rparr>]\<rparr>"

lemmas example_defs = a_env_def a_account_def a_session_def a_context_def a_config_def a_world_def a_request_def

lemma accepted_example: "fst (authenticateToken (a_env True 2000) a_request a_world) =
    Inr \<lparr>iy_claims = \<lparr>cl_id = ''u'', cl_name = ''n'', cl_role = ''admin'', cl_jti = Some ''s'', cl_enroll = False\<rparr>, iy_role = ''admin'', iy_link = False,
      iy_enroll = False, iy_session = a_session\<rparr>"
  by code_simp

end
