(* ===== verification/Auth_Safety.thy ===== *)
theory Auth_Safety
  imports Auth_Cover Auth_Example
begin

text \<open>
  What the sign-on keeps over every run of its operations: a revoked session stays refused, a step-up ends, an account that
  Keycloak disabled is out after a minute, and no session goes around Keycloak while it is active. The laws are interpretations
  of the two locales; the runs are of any length, in any order and at any times the hypotheses allow.
\<close>

section \<open>The laws\<close>

interpretation gone: auth_law "\<lambda>s. se_id s = i \<longrightarrow> se_revoked s \<noteq> None" "\<lambda>_. True" "\<lambda>_. True" "\<lambda>j. j \<noteq> i" "\<lambda>_. True" "\<lambda>_ _. True" "\<lambda>_ _ j. j \<noteq> i" for i
  by unfold_locales auto

definition sudo_spent :: "string \<Rightarrow> int \<Rightarrow> session \<Rightarrow> bool" where
  "sudo_spent i T s \<longleftrightarrow> se_id s = i \<longrightarrow> (case se_sudo s of None \<Rightarrow> True | Some t \<Rightarrow> t \<le> T)"

interpretation spent: auth_law "sudo_spent i T" "\<lambda>_. True" "\<lambda>E. T \<le> ae_now E" "\<lambda>j. j \<noteq> i" "\<lambda>j. j \<noteq> i" "\<lambda>_ _. True" "\<lambda>_ _ j. j \<noteq> i" for i T
  by unfold_locales (auto simp: sudo_spent_def)

text \<open>
  One account at Keycloak: \<open>J\<close> are the ids of the sessions that sign in with it, and no central check of theirs runs out later than a
  minute after T. What Keycloak tells: to a question after T it no longer answers that the account is enabled, be it asked on a
  request (\<open>disabled_since\<close>), by a check that is written late, or by a login.
\<close>

definition checked_by :: "string set \<Rightarrow> string \<Rightarrow> int \<Rightarrow> sso_context \<Rightarrow> bool" where
  "checked_by J subject T c \<longleftrightarrow> (cx_session c \<in> J \<longleftrightarrow> cx_method c = ''oidc'' \<and> cx_subject c = Some subject) \<and>
     (cx_session c \<in> J \<longrightarrow> (case cx_checked c of None \<Rightarrow> True | Some t \<Rightarrow> t \<le> T + REVOCATION_MS))"

definition disabled_since :: "string \<Rightarrow> int \<Rightarrow> 'h auth_env \<Rightarrow> bool" where
  "disabled_since subject T E \<longleftrightarrow> (\<forall>f h. fst (ae_central E f (Some subject) h) = Some True \<longrightarrow> ae_now E \<le> T)"

fun asked_until :: "string set \<Rightarrow> string \<Rightarrow> int \<Rightarrow> 'h auth_op \<Rightarrow> bool" where
  "asked_until J subject T (Sso_login c test started issuer x a i) = ((i \<in> J \<longleftrightarrow> x = subject) \<and> (x = subject \<longrightarrow> started \<le> T))"
| "asked_until J subject T (Central_late started cx enabled) = (enabled \<and> cx_session cx \<in> J \<longrightarrow> started \<le> T)"
| "asked_until J subject T oper = (\<forall>i. minted_id oper = Some i \<longrightarrow> i \<notin> J)"

interpretation checked: auth_law "\<lambda>_. True" "checked_by J subject T" "disabled_since subject T" "\<lambda>j. j \<notin> J" "\<lambda>_. True"
    "\<lambda>t cx. cx_session cx \<in> J \<longrightarrow> t \<le> T" "\<lambda>t x j. (j \<in> J \<longleftrightarrow> x = subject) \<and> (x = subject \<longrightarrow> t \<le> T)" for J subject T
proof unfold_locales
  fix E :: "'h auth_env" and cx f h c
  assume "disabled_since subject T E" "checked_by J subject T cx" "fst (ae_central E f (cx_subject cx) h) = Some True"
    "checked_by J subject T c" "cx_session c = cx_session cx"
  then show "checked_by J subject T (c\<lparr>cx_checked := Some (ae_now E + REVOCATION_MS)\<rparr>)"
    by (auto simp: checked_by_def disabled_since_def)
qed (auto simp: checked_by_def)

interpretation central: auth_law "\<lambda>_. True" "\<lambda>c. cx_session c = i \<longrightarrow> cx_method c = ''oidc''" "\<lambda>_. True" "\<lambda>j. j \<noteq> i" "\<lambda>_. True" "\<lambda>_ _. True" "\<lambda>_ _ j. j \<noteq> i" for i
  by unfold_locales auto

definition has_context :: "string set \<Rightarrow> 'h auth_world \<Rightarrow> bool" where
  "has_context J = covered (\<lambda>_ s. se_id s \<in> J) (\<lambda>_ _. True) (\<lambda>_. True)"

interpretation linked: cover_law "\<lambda>_ s. se_id s \<in> J" "\<lambda>_ _. True" "\<lambda>_. True" "\<lambda>j. j \<notin> J" "\<lambda>_. True" True for J
  by unfold_locales auto

text \<open>While Keycloak is active: which sessions must have a context, and of what kind.\<close>

definition full_session :: "sso_config option \<Rightarrow> session \<Rightarrow> bool" where
  "full_session cf s \<longleftrightarrow> (case cf of Some x \<Rightarrow> sc_active x | None \<Rightarrow> False) \<and> se_revoked s = None \<and> se_level s \<noteq> ''enrollment''"

definition sso_context_ok :: "string \<Rightarrow> sso_context \<Rightarrow> bool" where
  "sso_context_ok recovery c \<longleftrightarrow> cx_method c \<in> {''oidc'', ''link-only''} \<or> cx_origin c = recovery"

definition recovery_is :: "string \<Rightarrow> sso_config option \<Rightarrow> bool" where
  "recovery_is recovery cf \<longleftrightarrow> (case cf of Some x \<Rightarrow> sc_recovery x = recovery | None \<Rightarrow> True)"

definition sso_tables :: "string \<Rightarrow> 'h auth_world \<Rightarrow> bool" where
  "sso_tables recovery = covered full_session (\<lambda>_. sso_context_ok recovery) (recovery_is recovery)"

interpretation active: cover_law full_session "\<lambda>_. sso_context_ok recovery" "recovery_is recovery" "\<lambda>_. True"
    "\<lambda>r. rq_recovery r \<longrightarrow> requestOrigin r = recovery" False for recovery
  by unfold_locales (auto simp: full_session_def sso_context_ok_def recovery_is_def split: option.splits)

section \<open>Accepted sessions\<close>

lemma find_session_id: "find_session i w = Some s \<Longrightarrow> se_id s = i \<and> s \<in> set (aw_sessions w)"
  by (auto simp: find_session_def find_Some_iff)

lemma validate_Inr:
  assumes "validateSession E jti origin w = (Inr lv, v)"
  obtains i s where "jti = Some i" "find_session i w = Some s" "se_revoked s = None" "checkSessionContext E s origin w = None"
    "lv_session lv = s" "lv_enroll lv = (se_level s = ''enrollment'')" "se_id s = i" "i \<noteq> []"
    "v = snd (set_session (\<lambda>s. se_id s = i) (\<lambda>s. s\<lparr>se_used := sql_now E\<rparr>) w)"
proof -
  obtain i where i: "jti = Some i" "i \<noteq> []" using assms by (auto simp: validateSession_def split: option.splits if_splits)
  obtain s where s: "find_session i w = Some s" using assms i by (cases "find_session i w") (auto simp: validateSession_def)
  have "se_revoked s = None \<and> checkSessionContext E s origin w = None \<and> lv_session lv = s \<and> lv_enroll lv = (se_level s = ''enrollment'') \<and>
      v = snd (set_session (\<lambda>s. se_id s = i) (\<lambda>s. s\<lparr>se_used := sql_now E\<rparr>) w)"
    using assms i s by (auto simp: validateSession_def eff_inv set_session_def split: option.splits if_splits)
  with that i s find_session_id [OF s] show thesis by blast
qed

lemma gone_validate:
  assumes "rows_ok (\<lambda>s. se_id s = i \<longrightarrow> se_revoked s \<noteq> None) (\<lambda>_. True) w"
  shows "validateSession E (Some i) origin w \<noteq> (Inr lv, v)"
proof
  assume "validateSession E (Some i) origin w = (Inr lv, v)"
  then show False by (rule validate_Inr) (use rows_ok_session [OF assms] in auto)
qed

lemma gone_allowed: "minted_id oper \<noteq> Some i \<Longrightarrow> gone.allowed i oper"
  by (cases oper) auto

text \<open>
  C11: a session that was revoked, at logout, by its owner, by an administrator or by the directory, is never accepted again, by a
  request or a socket, whatever operations run in between, as long as no new session draws its id.
\<close>

theorem revoked_session_refused:
  assumes "\<forall>s\<in>set (aw_sessions w). se_id s = i \<longrightarrow> se_revoked s \<noteq> None" and "\<forall>(E, oper)\<in>set ops. minted_id oper \<noteq> Some i"
  shows "fst (validateSession E (Some i) origin (auth_run ops w)) \<noteq> Inr lv \<and>
    (fst (authenticateToken E r (auth_run ops w)) = Inr u \<longrightarrow> cl_jti (iy_claims u) \<noteq> Some i)"
proof -
  let ?S = "\<lambda>s. se_id s = i \<longrightarrow> se_revoked s \<noteq> None"
  have "rows_ok ?S (\<lambda>_. True) w" using assms(1) by (simp add: rows_ok_def)
  then have run: "rows_ok ?S (\<lambda>_. True) (auth_run ops w)"
    by (rule gone.run_rows [rotated]) (auto intro: gone_allowed dest: bspec [OF assms(2)])
  have "cl_jti (iy_claims u) \<noteq> Some i" if "authenticateToken E r (auth_run ops w) = (Inr u, v)" for v
    using that
  proof (rule authenticate_Inr, goal_cases)
    case (1 token d w1 lv)
    have "preserves (rows_ok ?S (\<lambda>_. True)) (case cl_jti d of Some i \<Rightarrow> refreshCentralCheck E i | None \<Rightarrow> ret ())"
      by (intro preserves_intros gone.refresh_rows TrueI)
    from gone_validate [OF preservesD [OF this run 1(3)]] 1(4) 1(9) show ?case by auto
  qed
  with gone_validate [OF run] show ?thesis by (metis prod.collapse)
qed

lemma revoked_session_refused_witness:
  "fst (validateSession (a_env True 3000) (Some ''s'') (Some ''https://a'')
      (auth_run [(a_env True 1000, Http a_request), (a_env True 2000, Sso_sudo ''s'')] (a_world\<lparr>aw_sessions := [a_session\<lparr>se_revoked := Some 0\<rparr>]\<rparr>))) \<noteq>
    Inr \<lparr>lv_session = a_session, lv_role = ''admin'', lv_enroll = False, lv_link = False\<rparr>"
  by (rule conjunct1 [OF revoked_session_refused]) (simp_all add: a_world_def)

text \<open>The operations that grant a session its step-up.\<close>

fun steps_up :: "'h auth_op \<Rightarrow> string option" where
  "steps_up (Sudo_end u a password code) = cl_jti (iy_claims u)"
| "steps_up (Passkey_sudo u a okay) = cl_jti (iy_claims u)"
| "steps_up (Sso_sudo i) = Some i"
| "steps_up _ = None"

lemma spent_allowed: "minted_id oper \<noteq> Some i \<Longrightarrow> steps_up oper \<noteq> Some i \<Longrightarrow> spent.allowed i oper"
  by (cases oper) auto

text \<open>
  C13: once a session's step-up has run out at T, every request that needs one is refused to it from then on, however often it asks,
  until an operation with proof steps it up again: a refused request does not slide the grant.
\<close>

theorem sudo_needs_proof:
  assumes "\<forall>s\<in>set (aw_sessions w). sudo_spent i T s"
    and "\<forall>(E, oper)\<in>set ops. T \<le> ae_now E \<and> minted_id oper \<noteq> Some i \<and> steps_up oper \<noteq> Some i"
    and "T \<le> ae_now E" and "fst (authenticateToken E r (auth_run ops w)) = Inr u" and "cl_jti (iy_claims u) = Some i"
  shows "fst (with_identity E r (\<lambda>u. requireSudo E (iy_session u)) (auth_run ops w)) = Inl Sudo_required"
proof -
  have "rows_ok (sudo_spent i T) (\<lambda>_. True) w" using assms(1) by (simp add: rows_ok_def)
  then have run: "rows_ok (sudo_spent i T) (\<lambda>_. True) (auth_run ops w)"
    by (rule spent.run_rows [rotated]) (auto intro: spent_allowed dest: bspec [OF assms(2)])
  obtain v where v: "authenticateToken E r (auth_run ops w) = (Inr u, v)" using assms(4) by (metis prod.collapse)
  have id: "se_id (iy_session u) = i"
    using v by (rule authenticate_Inr) (use assms(5) in \<open>auto elim: validate_Inr\<close>)
  from spent.authenticated_row [OF assms(3) run v] have "sudo_spent i T (iy_session u)" .
  with id assms(3) have "requireSudo E (iy_session u) v = (Inl Sudo_required, v)"
    by (auto simp: requireSudo_def sudo_spent_def split: option.splits)
  with v show ?thesis by (simp add: with_identity_def)
qed

lemma sudo_needs_proof_witness:
  "fst (with_identity (a_env True 2000) a_request (\<lambda>u. requireSudo (a_env True 2000) (iy_session u))
      (auth_run [(a_env True 1000, Sudo_http a_request)] a_world)) = Inl Sudo_required"
proof (rule sudo_needs_proof [where i = "''s''" and T = 1000])
  show "fst (authenticateToken (a_env True 2000) a_request (auth_run [(a_env True 1000, Sudo_http a_request)] a_world)) =
    Inr \<lparr>iy_claims = \<lparr>cl_id = ''u'', cl_name = ''n'', cl_role = ''admin'', cl_jti = Some ''s'', cl_enroll = False\<rparr>, iy_role = ''admin'', iy_link = False,
      iy_enroll = False, iy_session = a_session\<lparr>se_used := 1000\<rparr>\<rparr>" by code_simp
qed (simp_all add: a_world_def a_session_def a_env_def sudo_spent_def)

section \<open>Keycloak accounts\<close>

lemma schema_context:
  assumes "covered D K fits w" and "ae_schema E" and "find_session i w = Some s" and "D (aw_config w) s"
  obtains c where "sessionContext E i w = Some c" "K (aw_config w) c"
proof -
  from find_session_id [OF assms(3)] assms(1,4) obtain c where c: "c \<in> set (aw_contexts w)" "cx_session c = i" "K (aw_config w) c"
    by (auto simp: covered_def)
  then have "find (\<lambda>c. cx_session c = i) (aw_contexts w) \<noteq> None" by (auto simp: find_None_iff)
  then obtain x where x: "find (\<lambda>c. cx_session c = i) (aw_contexts w) = Some x" by auto
  then have "x \<in> set (aw_contexts w)" "cx_session x = i" by (auto simp: find_Some_iff)
  with c assms(1) have "x = c" by (auto simp: covered_def distinct_map dest: inj_onD)
  with x c(3) assms(2) show thesis by (intro that [of c]) (simp_all add: sessionContext_def)
qed

lemma asked_allowed: "asked_until J subject T oper \<Longrightarrow> checked.allowed J T subject oper \<and> linked.admitted J oper"
  by (cases oper) auto

text \<open>What holds of an account at any time of such a run.\<close>

definition bounded :: "string set \<Rightarrow> string \<Rightarrow> int \<Rightarrow> 'h auth_world \<Rightarrow> bool" where
  "bounded J subject T w \<longleftrightarrow> has_context J w \<and> rows_ok (\<lambda>_. True) (checked_by J subject T) w"

lemma bounded_run:
  assumes "bounded J subject T w" and "\<forall>(E, oper)\<in>set ops. ae_schema E \<and> disabled_since subject T E \<and> asked_until J subject T oper"
  shows "bounded J subject T (auth_run ops w)"
  unfolding bounded_def has_context_def
proof
  from assms(1) have w: "covered (\<lambda>_ s. se_id s \<in> J) (\<lambda>_ _. True) (\<lambda>_. True) w" "rows_ok (\<lambda>_. True) (checked_by J subject T) w"
    by (simp_all add: bounded_def has_context_def)
  show "covered (\<lambda>_ s. se_id s \<in> J) (\<lambda>_ _. True) (\<lambda>_. True) (auth_run ops w)"
    by (rule linked.run_cov [OF _ w(1)]) (use assms(2) asked_allowed in fast)
  show "rows_ok (\<lambda>_. True) (checked_by J subject T) (auth_run ops w)"
    by (rule checked.run_rows [OF _ w(2)]) (use assms(2) asked_allowed in fast)
qed

lemma bounded_refresh:
  assumes "bounded J subject T w" and "disabled_since subject T E" and "refreshCentralCheck E i w = (r, v)"
  shows "bounded J subject T v"
  using preservesD [OF linked.refresh_cov _ assms(3)] preservesD [OF checked.refresh_rows [OF assms(2)] _ assms(3)] assms(1)
  by (auto simp: bounded_def has_context_def)

lemma bounded_refused:
  assumes "bounded J subject T w" and "i \<in> J" and "ae_schema E" and "T + REVOCATION_MS \<le> ae_now E"
  shows "validateSession E (Some i) origin w \<noteq> (Inr lv, v)"
proof
  assume "validateSession E (Some i) origin w = (Inr lv, v)"
  then show False
  proof (rule validate_Inr, goal_cases)
    case (1 j s)
    then have find: "find_session i w = Some s" and id: "se_id s = i" by simp_all
    have cov: "covered (\<lambda>_ s. se_id s \<in> J) (\<lambda>_ _. True) (\<lambda>_. True) w" using assms(1) by (simp add: bounded_def has_context_def)
    obtain c where c: "sessionContext E i w = Some c"
      by (rule schema_context [OF cov assms(3) find]) (use assms(2) id in simp)
    with assms(1) have "checked_by J subject T c" "cx_session c = i" by (auto simp: bounded_def dest: rows_ok_context)
    with c assms(2,4) 1 show False by (auto simp: checkSessionContext_def checked_by_def split: option.splits if_splits)
  qed
qed

text \<open>
  C12: an account that Keycloak stops answering for as enabled at T is out of the dashboard a minute later. No request and no socket of a
  session that signed in with the account is accepted from T + 60 s on, neither of one that was there at the start nor of one that signed in meanwhile,
  whatever happens in between, also when Keycloak cannot be reached; an answer that arrives late, to a check or to a login, counts
  from its question, so it does not extend the minute. The account is its subject at Keycloak: the context of no accepted
  request names it. The ids in \<open>J\<close> are those its sessions draw; no session of another account, or of none, draws one of them.
\<close>

theorem central_bound:
  fixes w :: "'h auth_world"
  assumes "has_context J w" and "\<forall>c\<in>set (aw_contexts w). checked_by J subject T c"
    and "\<forall>(E, oper)\<in>set ops. ae_schema E \<and> disabled_since subject T E \<and> asked_until J subject T oper"
    and "ae_schema E" and "disabled_since subject T E" and "T + REVOCATION_MS \<le> ae_now E"
  shows "(\<forall>i\<in>J. fst (validateSession E (Some i) origin (auth_run ops w)) \<noteq> Inr lv) \<and>
    (\<forall>v. authenticateToken E r (auth_run ops w) = (Inr u, v) \<longrightarrow>
       (\<forall>i c. cl_jti (iy_claims u) = Some i \<longrightarrow> i \<notin> J \<and>
          (sessionContext E i (auth_run ops w) = Some c \<and> cx_method c = ''oidc'' \<longrightarrow> cx_subject c \<noteq> Some subject)))"
proof -
  have run: "bounded J subject T (auth_run ops w)"
    by (rule bounded_run [OF _ assms(3)]) (use assms(1,2) in \<open>simp add: bounded_def rows_ok_def\<close>)
  have out: "i \<notin> J" if "authenticateToken E r (auth_run ops w) = (Inr u, v)" and i: "cl_jti (iy_claims u) = Some i" for v i
    using that(1)
  proof (rule authenticate_Inr, goal_cases)
    case (1 token d w1 lv)
    with i have d: "cl_jti d = Some i" by simp
    with 1(3) have "refreshCentralCheck E i (auth_run ops w) = (Inr (), w1)" by simp
    from bounded_refused [OF bounded_refresh [OF run assms(5) this] _ assms(4,6)] 1(4) d show ?case by auto
  qed
  have "cx_subject c \<noteq> Some subject" if "i \<notin> J" "sessionContext E i (auth_run ops w) = Some c" "cx_method c = ''oidc''" for i c
    using run that by (auto simp: bounded_def checked_by_def dest: rows_ok_context)
  with out bounded_refused [OF run _ assms(4,6)] show ?thesis by (metis prod.collapse)
qed

lemma central_bound_witness:
  "fst (authenticateToken (a_env False 70000) a_request (auth_run [(a_env False 5000, Http a_request),
        (a_env False 9000, Sso_login a_config False 0 ''k'' ''z'' a_account ''new'')] a_world)) \<noteq>
      Inr \<lparr>iy_claims = \<lparr>cl_id = ''u'', cl_name = ''n'', cl_role = ''admin'', cl_jti = Some ''s'', cl_enroll = False\<rparr>, iy_role = ''admin'',
        iy_link = False, iy_enroll = False, iy_session = a_session\<rparr> \<and>
    fst (validateSession (a_env False 70000) (Some ''new'') None (auth_run [(a_env False 5000, Http a_request),
        (a_env False 9000, Sso_login a_config False 0 ''k'' ''z'' a_account ''new'')] a_world)) \<noteq>
      Inr \<lparr>lv_session = a_session, lv_role = ''admin'', lv_enroll = False, lv_link = False\<rparr>"
proof -
  let ?ops = "[(a_env False 5000, Http a_request), (a_env False 9000, Sso_login a_config False 0 ''k'' ''z'' a_account ''new'')]"
  have "has_context {''s'', ''new''} a_world" "\<forall>c\<in>set (aw_contexts a_world). checked_by {''s'', ''new''} ''z'' 0 c"
    by (simp_all add: example_defs has_context_def covered_def checked_by_def REVOCATION_MS_def)
  moreover have "\<forall>(E, oper)\<in>set ?ops. ae_schema E \<and> disabled_since ''z'' 0 E \<and> asked_until {''s'', ''new''} ''z'' 0 oper"
    by (simp add: example_defs disabled_since_def)
  moreover have "ae_schema (a_env False 70000)" "disabled_since ''z'' 0 (a_env False 70000)" "0 + REVOCATION_MS \<le> ae_now (a_env False 70000)"
    by (simp_all add: a_env_def disabled_since_def REVOCATION_MS_def)
  ultimately have b: "(\<forall>i\<in>{''s'', ''new''}. fst (validateSession (a_env False 70000) (Some i) None (auth_run ?ops a_world)) \<noteq> Inr lv) \<and>
      (\<forall>v. authenticateToken (a_env False 70000) a_request (auth_run ?ops a_world) = (Inr u, v) \<longrightarrow>
       (\<forall>i c. cl_jti (iy_claims u) = Some i \<longrightarrow> i \<notin> {''s'', ''new''} \<and>
          (sessionContext (a_env False 70000) i (auth_run ?ops a_world) = Some c \<and> cx_method c = ''oidc'' \<longrightarrow> cx_subject c \<noteq> Some ''z'')))"
    for u lv by (rule central_bound)
  have "cl_jti (iy_claims u) \<noteq> Some ''s''" if "fst (authenticateToken (a_env False 70000) a_request (auth_run ?ops a_world)) = Inr u" for u
    using that b [of undefined u] by (metis insertI1 prod.collapse)
  then show ?thesis using b by fastforce
qed

lemma central_allowed: "minted_id oper \<noteq> Some i \<Longrightarrow> central.allowed i oper"
  by (cases oper) auto

text \<open>
  C14: a session that signed in through Keycloak never opens the host terminal, whatever it does: local proof is recorded for local
  sessions only, also when the account steps up.
\<close>

theorem central_session_no_host_terminal:
  assumes "\<forall>c\<in>set (aw_contexts w). cx_session c = i \<longrightarrow> cx_method c = ''oidc''" and "\<forall>(E, oper)\<in>set ops. minted_id oper \<noteq> Some i"
    and "cl_jti (iy_claims u) = Some i"
  shows "terminalDecision E u s Host_terminal origin True project (auth_run ops w) = None"
proof -
  let ?C = "\<lambda>c. cx_session c = i \<longrightarrow> cx_method c = ''oidc''"
  have "rows_ok (\<lambda>_. True) ?C w" using assms(1) by (simp add: rows_ok_def)
  then have "rows_ok (\<lambda>_. True) ?C (auth_run ops w)"
    by (rule central.run_rows [rotated]) (auto intro: central_allowed dest: bspec [OF assms(2)])
  from rows_ok_context [OF this, of E i] assms(3) show ?thesis
    by (auto simp: terminalDecision_def Let_def requireLocalProof_def split: option.splits sum.splits)
qed

lemma central_session_no_host_terminal_witness:
  "terminalDecision (a_env True 3000) \<lparr>iy_claims = \<lparr>cl_id = ''u'', cl_name = ''n'', cl_role = ''admin'', cl_jti = Some ''s'', cl_enroll = False\<rparr>,
      iy_role = ''admin'', iy_link = False, iy_enroll = False, iy_session = a_session\<rparr>
    \<lparr>lv_session = a_session\<lparr>se_sudo := Some 9000\<rparr>, lv_role = ''admin'', lv_enroll = False, lv_link = False\<rparr> Host_terminal ''https://a'' True Map.empty
    (auth_run [(a_env True 1000, Sso_sudo ''s'')] a_world) = None"
  by (rule central_session_no_host_terminal) (simp_all add: a_world_def a_context_def)

section \<open>Keycloak required\<close>

text \<open>The requests that create local sessions; \<open>recoveryBoundary\<close> marks those of the recovery host and no others.\<close>

fun signing_in :: "'h auth_op \<Rightarrow> request option" where
  "signing_in (Login_end a password code i secret r) = Some r"
| "signing_in (Passkey_end_op a okay i r) = Some r"
| "signing_in (Totp_setup_op r code submitted i) = Some r"
| "signing_in _ = None"

fun saving :: "'h auth_op \<Rightarrow> bool" where
  "saving (Save d f i) = True"
| "saving _ = False"

lemma boundary_marks:
  "recoveryBoundary path name r w = Inr r' \<Longrightarrow> \<not> rq_recovery r \<Longrightarrow>
    requestOrigin r' = requestOrigin r \<and> (rq_recovery r' \<longleftrightarrow> (\<exists>c. aw_config w = Some c \<and> requestOrigin r = sc_recovery c))"
  by (auto simp: recoveryBoundary_def requestOrigin_def split: option.splits if_splits)

lemma marked_admitted: "(\<And>r. signing_in oper = Some r \<Longrightarrow> rq_recovery r \<Longrightarrow> requestOrigin r = R) \<Longrightarrow> \<not> saving oper \<Longrightarrow> active.admitted R oper"
  by (cases oper) auto

lemma sso_accepted:
  assumes "sso_tables R w" and "ae_schema E" and "aw_config w = Some x" and "sc_active x" and "requestOrigin r \<noteq> R"
    and "validateSession E (cl_jti d) (Some (requestOrigin r)) w = (Inr lv, v)"
  shows "lv_enroll lv \<or> (\<exists>i c. cl_jti d = Some i \<and> sessionContext E i v = Some c \<and> cx_origin c = requestOrigin r \<and>
    (cx_method c = ''link-only'' \<or> cx_method c = ''oidc'' \<and> (\<exists>t. cx_checked c = Some t \<and> ae_now E < t)))"
  using assms(6)
proof (rule validate_Inr, goal_cases)
  case (1 i s)
  show ?case
  proof (cases "lv_enroll lv")
    case False
    with 1 assms(3,4) have "full_session (aw_config w) s" by (simp add: full_session_def)
    then obtain c where c: "sessionContext E i w = Some c" "sso_context_ok R c"
      by (rule schema_context [OF assms(1) [unfolded sso_tables_def] assms(2) 1(2)])
    have "sessionContext E i v = sessionContext E i w" using 1(9) by (simp add: sessionContext_def set_session_def)
    moreover have "cx_origin c = requestOrigin r \<and> (cx_method c = ''oidc'' \<longrightarrow> (\<exists>t. cx_checked c = Some t \<and> ae_now E < t))"
      using 1(4) c(1) 1(7) by (auto simp: checkSessionContext_def requestOrigin_def split: option.splits if_splits)
    ultimately show ?thesis using 1(1) c assms(5) by (auto simp: sso_context_ok_def)
  qed simp
qed

text \<open>
  C10: while Keycloak is active, every request that is accepted outside the recovery host belongs to a session that signed in
  through Keycloak and the confirmation of whose account has not run out, or it is one of the few requests that link an account, or one of the two
  that enrol a second factor. This holds after every run of the operations that does not save the settings anew, also across activations.
\<close>

theorem sso_required:
  assumes "sso_tables R w"
    and "\<forall>(E, oper)\<in>set ops. ae_schema E \<and> \<not> saving oper \<and> (\<forall>r. signing_in oper = Some r \<longrightarrow> rq_recovery r \<longrightarrow> requestOrigin r = R)"
    and "ae_schema E" and "requestOrigin r \<noteq> R" and "authenticateToken E r (auth_run ops w) = (Inr u, v)"
    and "aw_config v = Some x" and "sc_active x"
  shows "iy_enroll u \<and> enroll_request r \<or> iy_link u \<and> link_request r \<or>
    (\<exists>i c t. cl_jti (iy_claims u) = Some i \<and> sessionContext E i v = Some c \<and> cx_method c = ''oidc'' \<and> cx_origin c = requestOrigin r \<and>
      cx_checked c = Some t \<and> ae_now E < t)"
proof -
  have run: "sso_tables R (auth_run ops w)"
    unfolding sso_tables_def
    by (rule active.run_cov [OF _ assms(1) [unfolded sso_tables_def]]) (auto intro!: marked_admitted dest: bspec [OF assms(2)])
  show ?thesis using assms(5)
  proof (rule authenticate_Inr, goal_cases)
    case (1 token d w1 lv)
    have "preserves (covered full_session (\<lambda>_. sso_context_ok R) (recovery_is R)) (case cl_jti d of Some i \<Rightarrow> refreshCentralCheck E i | None \<Rightarrow> ret ())"
      by (intro preserves_intros active.refresh_cov)
    from preservesD [OF this run [unfolded sso_tables_def] 1(3)] have w1: "sso_tables R w1" by (simp add: sso_tables_def)
    have "aw_config w1 = Some x" using 1(4) assms(6) by (elim validate_Inr) (simp add: set_session_def)
    from sso_accepted [OF w1 assms(3) this assms(7,4) 1(4)] 1 show ?case by auto
  qed
qed

lemma sso_required_witness:
  "\<exists>i c t. Some ''s'' = Some i \<and> sessionContext (a_env True 2000) i (snd (authenticateToken (a_env True 2000) a_request
      (auth_run [(a_env True 1000, Http a_request)] a_world))) = Some c \<and> cx_method c = ''oidc'' \<and> cx_origin c = requestOrigin a_request \<and>
    cx_checked c = Some t \<and> ae_now (a_env True 2000) < t"
proof -
  let ?w = "auth_run [(a_env True 1000, Http a_request)] a_world"
  let ?u = "\<lparr>iy_claims = \<lparr>cl_id = ''u'', cl_name = ''n'', cl_role = ''admin'', cl_jti = Some ''s'', cl_enroll = False\<rparr>, iy_role = ''admin'',
    iy_link = False, iy_enroll = False, iy_session = a_session\<lparr>se_used := 1000\<rparr>\<rparr>"
  have "fst (authenticateToken (a_env True 2000) a_request ?w) = Inr ?u" by code_simp
  then have "authenticateToken (a_env True 2000) a_request ?w = (Inr ?u, snd (authenticateToken (a_env True 2000) a_request ?w))"
    by (metis prod.collapse)
  moreover have "aw_config (snd (authenticateToken (a_env True 2000) a_request ?w)) = Some a_config" by code_simp
  moreover have "sso_tables ''https://b'' a_world"
    by (simp add: example_defs sso_tables_def covered_def full_session_def sso_context_ok_def recovery_is_def)
  moreover have "requestOrigin a_request \<noteq> ''https://b''" by code_simp
  ultimately show ?thesis
    using sso_required [of "''https://b''" a_world "[(a_env True 1000, Http a_request)]" "a_env True 2000" a_request ?u
        "snd (authenticateToken (a_env True 2000) a_request ?w)" a_config]
    by (simp add: a_env_def a_config_def)
qed

end
