(* ===== verification/Auth_Credential.thy ===== *)
theory Auth_Credential
  imports Auth_Machine Auth_Example
begin

text \<open>
  What guards the credentials themselves: the lockout after wrong passwords, and how much of it is left when guesses run side by side; the setup
  credential of the first administrator; the links that set a password.
\<close>

section \<open>Rows that change in place\<close>

lemma find_map_same: "(\<And>x. P (f x) = P x) \<Longrightarrow> find P (map f xs) = map_option f (find P xs)"
  by (induction xs) auto

lemma named_set_account:
  assumes "\<And>x. ac_name (f x) = ac_name x"
  shows "find (\<lambda>a. ac_name a = name) (aw_accounts (snd (set_account i f w))) =
    map_option (\<lambda>a. if ac_id a = i then f a else a) (find (\<lambda>a. ac_name a = name) (aw_accounts w))"
  unfolding set_account_def modE_apply snd_conv by (simp, rule find_map_same) (simp add: assms)

lemma account_set_account:
  assumes "\<And>x. ac_id (f x) = ac_id x"
  shows "find_account j (snd (set_account i f w)) = map_option (\<lambda>a. if ac_id a = i then f a else a) (find_account j w)"
  unfolding set_account_def modE_apply snd_conv find_account_def by (simp, rule find_map_same) (simp add: assms)

lemma find_account_id: "find_account i w = Some a \<Longrightarrow> ac_id a = i"
  by (auto simp: find_account_def find_Some_iff)

section \<open>Lockout\<close>

definition wrong_guess :: "string \<Rightarrow> request \<Rightarrow> 'h auth_env \<Rightarrow> 'h auth_world \<Rightarrow> 'h auth_world" where
  "wrong_guess name r E w = snd (bindE (login_begin E name) (\<lambda>a. login_end E a False None [] [] r) w)"

definition has_row :: "string \<Rightarrow> int \<Rightarrow> int \<Rightarrow> 'h auth_world \<Rightarrow> bool" where
  "has_row name k start w \<longleftrightarrow> (\<exists>a. find (\<lambda>a. ac_name a = name) (aw_accounts w) = Some a \<and> ac_fails a = k \<and> ac_locked a = None \<and>
     (case ac_failed_at a of None \<Rightarrow> True | Some t \<Rightarrow> start \<le> t) \<and> (ac_source a = Some ''ldap'' \<or> ac_password a \<noteq> []))"

text \<open>
  A failure at \<open>E\<close> still counts with one stored at \<open>start\<close>: the stored time is UTC and is read back in the zone of the process, so a
  zone that is ahead of UTC shortens the window by as much.
\<close>

definition in_window :: "int \<Rightarrow> int \<Rightarrow> int \<Rightarrow> int \<Rightarrow> 'h auth_env \<Rightarrow> bool" where
  "in_window start W m L E \<longleftrightarrow>
     ae_fail_window E = W \<and> ae_fail_max E = m \<and> ae_lockout E = L \<and> start \<le> ae_now E \<and> ae_now E + ae_zone E \<le> start + W"

lemma sql_now_after:
  assumes "start mod 1000 = 0" and "start \<le> ae_now E"
  shows "start \<le> sql_now E"
proof -
  have "start div 1000 \<le> ae_now E div 1000" using assms(2) by (simp add: zdiv_mono1)
  moreover have "start = start div 1000 * 1000" using div_mult_mod_eq [of start 1000] assms(1) by simp
  ultimately show ?thesis unfolding sql_now_def by linarith
qed

lemma guess_step:
  assumes "has_row name k start w" and "in_window start W m L E" and "start mod 1000 = 0"
  obtains a where "find (\<lambda>a. ac_name a = name) (aw_accounts (wrong_guess name r E w)) = Some a" "ac_fails a = k + 1"
    "ac_locked a = (if k + 1 \<ge> m then Some (ae_now E + L) else None)" "ac_failed_at a = Some (sql_now E)" "start \<le> sql_now E"
    "ac_source a = Some ''ldap'' \<or> ac_password a \<noteq> []"
proof -
  from assms(1) obtain a where a: "find (\<lambda>a. ac_name a = name) (aw_accounts w) = Some a" "ac_fails a = k" "ac_locked a = None"
    "case ac_failed_at a of None \<Rightarrow> True | Some t \<Rightarrow> start \<le> t" "ac_source a = Some ''ldap'' \<or> ac_password a \<noteq> []"
    by (auto simp: has_row_def)
  have n: "next_fails E a = k + 1"
    using a(2,4) assms(2) by (auto simp: next_fails_def in_window_def read_local_def split: option.splits)
  have "login_begin E name w = (Inr a, w)" using a by (auto simp: login_begin_def checkLockout_def bindE_def)
  then have "wrong_guess name r E w = snd (recordLoginFailure E a w)"
    by (simp add: wrong_guess_def login_end_def bindE_def split: prod.split sum.split)
  then have "find (\<lambda>a. ac_name a = name) (aw_accounts (wrong_guess name r E w)) =
      Some (a\<lparr>ac_fails := k + 1, ac_failed_at := Some (sql_now E), ac_locked := (if k + 1 \<ge> m then Some (ae_now E + L) else None)\<rparr>)"
    using a(1) n assms(2) by (simp add: recordLoginFailure_def named_set_account in_window_def)
  then show thesis
    by (rule that) (use a(5) assms(2) sql_now_after [OF assms(3)] in \<open>auto simp: in_window_def\<close>)
qed

lemma guess_run:
  assumes "has_row name k start w" and "\<forall>E\<in>set Es. in_window start W m L E" and "start mod 1000 = 0" and "k + int (length Es) < m"
  shows "has_row name (k + int (length Es)) start (fold (wrong_guess name r) Es w)"
  using assms
proof (induction Es arbitrary: k w)
  case (Cons E Es)
  from Cons.prems have E: "in_window start W m L E" by simp
  have "has_row name (k + 1) start (wrong_guess name r E w)"
    by (rule guess_step [OF Cons.prems(1) E Cons.prems(3), of r]) (use Cons.prems(4) in \<open>simp add: has_row_def\<close>)
  from Cons.IH [OF this] Cons.prems show ?case by (simp add: algebra_simps)
qed simp

text \<open>
  C15: wrong passwords for one account that follow one another lock it: after as many as the policy allows, every login is
  refused until the lockout is over, the right password included. The wrong passwords must lie within the window of the policy, less
  how far the zone of the process is ahead of UTC (all of the window for a process in UTC or behind it), because the time of the last failure
  is stored in UTC and read back in that zone; where the zone is ahead by more than the window, no failures do.
\<close>

theorem lockout_after_max:
  assumes "has_row name 0 start w" and "\<forall>F\<in>set (Es @ [E]). ae_fail_window F = W \<and> ae_fail_max F = m \<and> ae_lockout F = L \<and>
        start \<le> ae_now F \<and> ae_now F + ae_zone F \<le> start + W"
    and "start mod 1000 = 0" and "int (length Es) + 1 = m" and "ae_now E' < ae_now E + L"
  shows "fst (login_begin E' name (fold (wrong_guess name r) (Es @ [E]) w)) = Inl (Locked_until (ae_now E + L))"
proof -
  have win: "\<forall>F\<in>set (Es @ [E]). in_window start W m L F" using assms(2) by (simp add: in_window_def)
  then have "has_row name (int (length Es)) start (fold (wrong_guess name r) Es w)"
    using guess_run [OF assms(1) _ assms(3), of Es W m L r] assms(4) by simp
  moreover have "in_window start W m L E" using win by simp
  ultimately obtain a where "find (\<lambda>a. ac_name a = name) (aw_accounts (wrong_guess name r E (fold (wrong_guess name r) Es w))) = Some a"
    "ac_locked a = Some (ae_now E + L)"
    by (rule guess_step [OF _ _ assms(3)]) (use assms(4) in auto)
  with assms(5) show ?thesis by (simp add: login_begin_def checkLockout_def bindE_def)
qed

lemma lockout_after_max_witness:
  "fst (login_begin (a_env True 5000) ''n'' (fold (wrong_guess ''n'' a_request) ([a_env True 1000, a_env True 2000] @ [a_env True 3000]) a_world)) =
    Inl (Locked_until (ae_now (a_env True 3000) + 900000))"
  by (rule lockout_after_max [where start = 0 and W = 1800000 and m = 3])
     (simp_all add: has_row_def in_window_def a_world_def a_account_def a_env_def)

text \<open>A failure out of the window, as a process ahead of UTC by more than the window takes every one to be, starts the count anew.\<close>

lemma failure_out_of_window:
  assumes "find (\<lambda>a. ac_name a = name) (aw_accounts w) = Some a" and "ac_locked a = None" and "ac_source a = Some ''ldap'' \<or> ac_password a \<noteq> []"
    and "ac_failed_at a = Some t" and "t \<noteq> ae_zone E" and "t + ae_fail_window E < ae_now E + ae_zone E" and "1 < ae_fail_max E"
  shows "find (\<lambda>a. ac_name a = name) (aw_accounts (wrong_guess name r E w)) =
    Some (a\<lparr>ac_fails := 1, ac_failed_at := Some (sql_now E), ac_locked := None\<rparr>)"
proof -
  have "next_fails E a = 1" using assms(4-6) by (simp add: next_fails_def read_local_def)
  moreover have "login_begin E name w = (Inr a, w)" using assms(1-3) by (auto simp: login_begin_def checkLockout_def bindE_def)
  then have "wrong_guess name r E w = snd (recordLoginFailure E a w)"
    by (simp add: wrong_guess_def login_end_def bindE_def split: prod.split sum.split)
  ultimately show ?thesis using assms(1,7) by (simp add: recordLoginFailure_def named_set_account)
qed

text \<open>
  C16: guesses that run side by side are counted once. Every wrong password writes the count of the row it read before the password
  was compared, so however many guesses read the same row they add one failure, and the last of them takes away a lock that another one has set.
\<close>

theorem parallel_guesses:
  assumes "find_account (ac_id a) w = Some b" and "Es \<noteq> []" and "next_fails (last Es) a < ae_fail_max (last Es)"
  shows "\<exists>c. find_account (ac_id a) (fold (\<lambda>E. auth_do E (Login_end a False code i secret r)) Es w) = Some c \<and>
    ac_fails c = next_fails (last Es) a \<and> ac_locked c = None"
proof -
  have step: "find_account (ac_id a) (auth_do E (Login_end a False code i secret r) v) =
      map_option (\<lambda>x. if ac_id x = ac_id a then x\<lparr>ac_fails := next_fails E a, ac_failed_at := Some (sql_now E),
        ac_locked := (if next_fails E a \<ge> ae_fail_max E then Some (ae_now E + ae_lockout E) else None)\<rparr> else x) (find_account (ac_id a) v)" for E v
  proof -
    have "auth_do E (Login_end a False code i secret r) v = snd (recordLoginFailure E a v)"
      by (simp add: login_end_def bindE_def split: prod.split sum.split)
    then show ?thesis by (simp add: recordLoginFailure_def account_set_account)
  qed
  obtain Fs E where Es: "Es = Fs @ [E]" using assms(2) by (cases Es rule: rev_cases) auto
  have "\<exists>c. find_account (ac_id a) (fold (\<lambda>E. auth_do E (Login_end a False code i secret r)) Fs w) = Some c"
    using assms(1) by (induction Fs arbitrary: w b) (auto simp: step simp del: auth_do.simps)
  then obtain c where c: "find_account (ac_id a) (fold (\<lambda>E. auth_do E (Login_end a False code i secret r)) Fs w) = Some c" ..
  from find_account_id [OF c] c assms(3) show ?thesis by (simp add: Es step del: auth_do.simps)
qed

lemma parallel_guesses_witness:
  "\<exists>c. find_account (ac_id a_account) (fold (\<lambda>E. auth_do E (Login_end a_account False None [] [] a_request))
      [a_env True 1000, a_env True 1001, a_env True 1002, a_env True 1003] (a_world\<lparr>aw_accounts := [a_account\<lparr>ac_locked := Some 900000\<rparr>]\<rparr>)) = Some c \<and>
    ac_fails c = next_fails (last [a_env True 1000, a_env True 1001, a_env True 1002, a_env True 1003]) a_account \<and> ac_locked c = None"
  by (rule parallel_guesses [where b = "a_account\<lparr>ac_locked := Some 900000\<rparr>"]) (simp_all add: find_account_def example_defs next_fails_def)

section \<open>The setup credential\<close>

text \<open>
  C17: the setup credential of the first administrator is spent by its use: the password is set, every session of the account ends, and no
  later credential issued before then claims the account again, whatever has become of the account since.
\<close>

theorem bootstrap_once:
  assumes "claimBootstrap E name token h w = (Inr a, w')" and "ae_now E \<le> ae_now E'" and "aw_bootstraps v = aw_bootstraps w'"
  shows "(\<forall>s\<in>set (aw_sessions w'). se_user s = ac_id a \<longrightarrow> se_revoked s \<noteq> None) \<and>
    (bootstrapUser E' name' token' v = Some b \<longrightarrow> ac_id b \<noteq> ac_id a)"
proof -
  obtain a0 where a0: "bootstrapUser E name token w = Some a0" using assms(1) by (auto simp: claimBootstrap_def split: option.splits)
  with assms(1) have a: "ac_id a = ac_id a0" and
    sessions: "aw_sessions w' = map (\<lambda>s. if se_user s = ac_id a0 \<and> se_revoked s = None then revoke_all E s else s) (aw_sessions w)" and
    boots: "aw_bootstraps w' = map (\<lambda>b. if bo_user b = ac_id a0 \<and> bo_consumed b = None \<and> bo_expires b > ae_now E
      then b\<lparr>bo_consumed := Some (ae_now E)\<rparr> else b) (aw_bootstraps w)"
    by (auto simp: claimBootstrap_def eff_inv set_account_def set_session_def)
  have "ac_id b \<noteq> ac_id a" if "bootstrapUser E' name' token' v = Some b"
  proof
    assume "ac_id b = ac_id a"
    with that obtain x where "x \<in> set (aw_bootstraps v)" "bo_user x = ac_id a0" "bo_consumed x = None" "bo_expires x > ae_now E'"
      by (auto simp: bootstrapUser_def find_Some_iff list_ex_iff a split: if_splits)
    with assms(2,3) boots show False by (auto split: if_splits)
  qed
  with sessions a show ?thesis by (auto simp: revoke_all_def)
qed

lemma bootstrap_once_witness:
  "bootstrapUser (a_env True 2000) ''n'' (''ppboot_'' @ replicate 43 CHR ''a'')
      (snd (claimBootstrap (a_env True 1000) ''n'' (''ppboot_'' @ replicate 43 CHR ''a'') ''h'' a_setup)) \<noteq> Some a_account"
proof -
  let ?run = "claimBootstrap (a_env True 1000) ''n'' (''ppboot_'' @ replicate 43 CHR ''a'') ''h'' a_setup"
  have "fst ?run = Inr (a_account\<lparr>ac_enabled := False\<rparr>)" by code_simp
  then have run: "?run = (Inr (a_account\<lparr>ac_enabled := False\<rparr>), snd ?run)" by (metis prod.collapse)
  have "ae_now (a_env True 1000) \<le> ae_now (a_env True 2000)" by (simp add: a_env_def)
  from conjunct2 [OF bootstrap_once [OF run this refl]] show ?thesis by fastforce
qed

section \<open>Sign-in links\<close>

text \<open>
  C18: a sign-in link that has set a password is refused from then on, but a request that had looked at the link before sets a password too: the link
  is looked at before the password is hashed and not looked at again when it is written.
\<close>

theorem link_overlap:
  assumes "link_begin E token p w = (Inr a, w)" and "ae_sha E' = ae_sha E"
  shows "fst (link_begin E' token q (snd (link_end E1 a h1 w))) \<in> {Inl Bad_setup, Inl Link_invalid} \<and>
    (\<exists>c. find_account (ac_id a) (snd (link_end E2 a h2 (snd (link_end E1 a h1 w)))) = Some c \<and> ac_password c = h2)"
proof -
  obtain l where l: "findValidLoginLink E token w = Some (l, a)"
    using assms(1) by (auto simp: link_begin_def eff_inv split: option.splits prod.splits)
  then have h: "find (\<lambda>l. ll_hash l = ae_sha E token) (aw_links w) = Some l" and u: "find_account (ll_user l) w = Some a"
    by (auto simp: findValidLoginLink_def split: option.splits if_splits)
  have links: "aw_links (snd (link_end E1 a h1 w)) = map (\<lambda>l. if ll_user l = ac_id a \<and> ll_completed l = None then l\<lparr>ll_completed := Some (sql_now E1)\<rparr> else l) (aw_links w)"
    by (simp add: link_end_def set_account_def)
  have accounts: "find_account j (snd (link_end F a h v)) = map_option (\<lambda>x. if ac_id x = ac_id a then x\<lparr>ac_password := h\<rparr> else x) (find_account j v)" for F h v j
  proof -
    have "find_account j (snd (link_end F a h v)) = find_account j (snd (set_account (ac_id a) (\<lambda>x. x\<lparr>ac_password := h\<rparr>) v))"
      by (simp add: link_end_def set_account_def find_account_def)
    then show ?thesis by (simp add: account_set_account)
  qed
  have id: "ll_user l = ac_id a" using find_account_id [OF u] by simp
  have "find (\<lambda>l. ll_hash l = ae_sha E token) (aw_links (snd (link_end E1 a h1 w))) =
      Some (if ll_user l = ac_id a \<and> ll_completed l = None then l\<lparr>ll_completed := Some (sql_now E1)\<rparr> else l)"
    unfolding links by (subst find_map_same) (simp_all add: h)
  then have "findValidLoginLink E' token (snd (link_end E1 a h1 w)) = None"
    using id by (auto simp: findValidLoginLink_def assms(2))
  moreover from this have "fst (link_begin E' token q (snd (link_end E1 a h1 w))) \<in> {Inl Bad_setup, Inl Link_invalid}"
    by (simp add: link_begin_def bindE_def guardE_def)
  ultimately show ?thesis using u by (simp add: accounts flip: id)
qed

lemma link_overlap_witness:
  "fst (link_begin (a_env True 2000) ''0123456789'' ''password5678'' (snd (link_end (a_env True 1500) a_account ''h1'' a_world))) \<in> {Inl Bad_setup, Inl Link_invalid} \<and>
    (\<exists>c. find_account (ac_id a_account) (snd (link_end (a_env True 1600) a_account ''h2'' (snd (link_end (a_env True 1500) a_account ''h1'' a_world)))) = Some c \<and>
      ac_password c = ''h2'')"
proof (rule link_overlap)
  show "link_begin (a_env True 1000) ''0123456789'' ''password1234'' a_world = (Inr a_account, a_world)"
    by (simp add: link_begin_def findValidLoginLink_def find_account_def example_defs bindE_def)
qed (simp add: a_env_def)

end
