(* ===== verification/Spec2Isabelle.thy ===== *)
theory Spec2Isabelle
  imports Sys_Machine Vpn_Lifecycle Vpn_Endpoint Vpn_Resolver Ssh_Files Fw_Detect
    Mock_LockSafety Snap_Safety L4_Safety Route_Safety Net_Safety Net_Approval Mig_Safety Auth_Safety Auth_Credential
begin

text \<open>
  ProxyPilot is a control plane for one host: a command line (\<open>cli/\<close>) that owns the firewall, the WireGuard VPN, the SSH
  keys and the Caddy sites, and an admin backend (\<open>admin/backend/\<close>) that publishes guests, keeps their snapshots and runs
  an application builder (\<open>mock2\<close>). This development models the parts of both whose mistakes are dangerous, operation by
  operation, and proves what they promise and, where they do not keep a promise, what they do instead.

  Shared ground.
    \<open>PP_Prelude\<close>: the effect type (a world, and a returned value or a thrown error; what was done before a throw stays
    done), loops, transactions, character classes. \<open>PP_Strings\<close>, \<open>PP_Lines\<close>: the string functions of JavaScript on UTF-8
    bytes. \<open>PP_Types\<close>: documents, rows and errors. \<open>PP_Json\<close>, \<open>PP_JsonText\<close>, \<open>PP_Time\<close>: \<open>JSON.parse\<close>, \<open>JSON.stringify\<close> and
    \<open>Date\<close>. \<open>PP_Host\<close>: the world of the command line (files, SQLite tables, commands issued) and its environment (every
    external program, clock and failure is an arbitrary function); the audit log. \<open>PP_Example\<close>: a concrete host.

  The command line.
    Firewall (\<open>cli/src/core/firewall\<close>): \<open>Fw_State\<close> (\<open>state.js\<close>), \<open>Fw_Toggle\<close> (\<open>toggle.js\<close>), \<open>Fw_Panic\<close> (\<open>panic.js\<close>), \<open>Fw_Egress\<close>
    (\<open>egress.js\<close>), \<open>Fw_Render\<close> (\<open>render.js\<close>), \<open>Fw_Reconcile\<close> (\<open>reconcile.js\<close>), \<open>Fw_Discover\<close> (\<open>discover.js\<close>), \<open>Fw_Ingress\<close>
    (\<open>ingress.js\<close>), \<open>Fw_Detect\<close> (\<open>detect.js\<close>). Every operation reads the document, computes the next one, writes it and mirrors it
    into SQLite; a reconcile turns it into a ruleset. \<open>Fw_Safety\<close>, \<open>Fw_Lockdown\<close>, \<open>Fw_Gate\<close>, \<open>Fw_Ruleset\<close>, \<open>Fw_Renderable\<close>,
    \<open>Fw_Converge\<close>: lockdown, lockout check, what the ruleset says, when a reconcile succeeds.
    VPN (\<open>cli/src/core/vpn\<close>): \<open>Vpn_Server\<close> (\<open>server.js\<close>), \<open>Vpn_Peer\<close> (\<open>peer.js\<close>, \<open>status.js\<close>), \<open>Vpn_Dns\<close> (\<open>dns.js\<close>); \<open>Vpn_Pool\<close>
    (the allocator's contract), \<open>Vpn_Safety\<close>, \<open>Vpn_Endpoint\<close>, \<open>Vpn_Lifecycle\<close>, \<open>Vpn_Resolver\<close>.
    SSH (\<open>cli/src/core/ssh-access\<close>): \<open>Ssh_Access\<close> (\<open>index.js\<close>, \<open>state.js\<close>, \<open>reconcile.js\<close>), \<open>Ssh_Password\<close>
    (\<open>password-auth.js\<close>), \<open>Ssh_LastSeen\<close> (\<open>last-seen.js\<close>); \<open>Ssh_Ledger\<close>, \<open>Ssh_Files\<close>, \<open>Ssh_Seen\<close>.
    Caddy (\<open>cli/src/caddy\<close>): \<open>Caddy_Routes\<close>.
    \<open>Sys_Frames\<close> and \<open>Sys_Machine\<close> put them together: one step relation over all commands, and the invariants of
    the components in every reachable state.

  The admin backend (\<open>admin/backend/src\<close>).
    \<open>Mock_Locks\<close>, \<open>Mock_LockSafety\<close>: the checkout lock of a project (\<open>mock2/lock-logic.js\<close>, \<open>mock2/locks.js\<close>).
    \<open>Snap_Retention\<close>, \<open>Snap_Safety\<close>: snapshot retention (\<open>lib/snapshot-retention.js\<close>).
    \<open>L4_Forward\<close>, \<open>L4_Reserved\<close>, \<open>L4_Safety\<close>: port forwards (\<open>lib/l4-reconciler.js\<close>, \<open>lib/l4-reserved-ports.js\<close>, \<open>lib/shell-quote.js\<close>).
    \<open>Route_Render\<close>, \<open>Route_Site\<close>, \<open>Route_Safety\<close>: moving the address of a published service (\<open>lib/route-render.js\<close>,
    \<open>lib/guest-routes.js\<close>, the bundle of \<open>routes/services.js\<close>). The bundle is a locale: what rendering needs of its
    dependencies is assumed there, proved of the code's bundle, and the properties rest on the interpretations.
    \<open>Net_Egress\<close>, \<open>Net_Fence\<close>, \<open>Net_Safety\<close>, \<open>Net_Approval\<close>: the network fence of the builder's projects and the outbound access
    they declare (\<open>mock2/network-logic.js\<close>, \<open>mock2/firewall.js\<close>, \<open>mock2/egress-logic.js\<close>, \<open>mock2/egress-grants.js\<close>). The rules are
    printed as the code prints them and read as nftables reads them.
    \<open>Mig_Plan\<close>, \<open>Mig_Service\<close>, \<open>Mig_Transfer\<close>: guest migrations (\<open>lib/migration/token.js\<close>, \<open>plan.js\<close>, \<open>service.js\<close>, the agent
    router of \<open>routes/migrations.js\<close>, \<open>lib/debian13-guest.js\<close>): the token, the target, the rows and what is done on the host,
    from creation to clean-up. \<open>Mig_Law\<close>: the step relation over these operations, with the writes that come after a wait
    as steps of their own, and a locale that carries any law of a row through it. \<open>Mig_Example\<close>: a concrete run.
    \<open>Mig_Safety\<close>: claim, revocation, completion, what is checked before a guest is ready, and six places where a promise
    of the code is not kept.
    \<open>Auth_Session\<close>, \<open>Auth_SignOn\<close>, \<open>Auth_Access\<close>: sign-on (\<open>middleware/auth.js\<close>, \<open>lib/sso/sessions.js\<close>, \<open>lib/sso/store.js\<close>,
    \<open>routes/auth.js\<close>, \<open>routes/sso.js\<close>, \<open>lib/totp-enrollment.js\<close>, \<open>lib/admin-bootstrap.js\<close>, \<open>middleware/csrf.js\<close>,
    \<open>service-access.js\<close>, \<open>terminal-access.js\<close>, \<open>wsAuth.js\<close>): the tables, the check of every request and socket, and how sessions,
    step-ups and passwords come to be; what comes after a wait is an operation of its own with what was read before as its argument.
    \<open>Auth_Machine\<close>: one function of all operations, and runs. \<open>Auth_Law\<close>, \<open>Auth_Cover\<close>: two locales that carry a law of every
    row, and a law of which sessions have which context, through every operation. \<open>Auth_Safety\<close>: their interpretations and what
    they give, Keycloak included. \<open>Auth_Credential\<close>: the lockout, the setup credential, the sign-in links. \<open>Auth_Example\<close>: a small installation.

  Bounds. The JSON parser runs on fuel \<open>2 * length s + 2\<close>, and every call consumes a character or returns. The pruning
  loop of the snapshots runs at most 1000 rounds because the code's own limit stops it there. The DNS label loop and the
  TCP framing are recursions with a measure.

  Parameters. External programs (\<open>nft\<close>, \<open>wg\<close>, \<open>systemctl\<close>, \<open>ssh-keygen\<close>, \<open>sshd\<close>, \<open>incus\<close>, \<open>caddy\<close>, \<open>docker\<close>), SHA-256, random
  bytes, clocks, \<open>localeCompare\<close>, HTTP answers and the failures of the file system are arguments; nothing is assumed of them in a
  definition. Of the file system of the command line these can fail: writing a file, making a directory, \<open>chown\<close>, reading an
  \<open>authorized_keys\<close> file, deleting the client configuration of a peer. In \<open>Route_Render\<close> so can a write of the database. An
  answer of a host may depend on everything done before it; \<open>watched\<close> in \<open>Mig_Safety\<close>, a host whose answers do not, is a hypothesis
  of two theorems about runs that ask nothing twice, while \<open>answers\<close> is any host.
  Where a theorem needs something of one, it is a hypothesis of the theorem, and its witness has a concrete function.

  Not modelled. Errors of SQLite on the side of the command line (a full or locked database): there every statement takes effect
  or violates a constraint of its table, so \<open>writeState\<close> can fail in its file or on a constraint, and a mirror that
  SQLite itself refuses, after the new document is in place, is not covered. Failures to delete a site file of Caddy, the boot dependency of the ingress fence or
  the candidate of \<open>sshd_config\<close>. The dashboard (React), the Express routes beyond the helpers named above, terminal output and argument
  parsing, sockets and timers, opening and migrating the databases, QR codes, archives, the Incus client, the OIDC flow up to
  its callback, the directory, the setup engine, and the builder's agents: they are input and output around other programs, or large parts of their own
  that share no state with what is modelled here. The manifest lists each with its reason.
\<close>

end
